(* ===== verification/Prelude.thy ===== *)
theory Prelude
  imports Main "HOL-Library.Char_ord" "HOL-Library.List_Lexorder" "HOL-Library.Word"
    "HOL-Library.Multiset"
begin

text \<open>
  What every component of the development shares.

  \<^item> Fallible Rust code returns \<open>Result<T, E>\<close>; here a value of the sum type
    \<open>'e + 'a\<close>, \<open>Inl\<close> the error.  \<open>rbind\<close> is the \<open>?\<close> operator, \<open>try_each\<close> the loop
    \<open>for x in xs { f(x)?; }\<close>, \<open>try_map\<close> the collecting iterator and \<open>try_fold\<close> the
    loop that also threads an accumulator.
  \<^item> \<open>BTreeMap<K, V>\<close> is an association list with strictly increasing keys
    (\<open>bt_inv\<close>); \<open>serde_json::Map\<close>, which the build compiles with
    \<open>preserve_order\<close>, is an association list in insertion order with
    distinct keys (\<open>jm_inv\<close>).  Both provide the interface \<open>rust_map\<close>: the
    lemmas about collecting an iterator into a map are proved there once.
  \<^item> The generic facts about \<open>sorted_wrt\<close>, prefixes and monotone predicates on the
    naturals that several components use.
\<close>

named_theorems result_simps \<open>facts on the result type\<close>
named_theorems map_laws \<open>facts on the two map representations\<close>

section \<open>Results\<close>

type_synonym ('e, 'a) result = "'e + 'a"

definition rbind :: "('e, 'a) result \<Rightarrow> ('a \<Rightarrow> ('e, 'b) result) \<Rightarrow> ('e, 'b) result" where
  "rbind m f = (case m of Inl e \<Rightarrow> Inl e | Inr x \<Rightarrow> f x)"

definition map_err :: "('e \<Rightarrow> 'f) \<Rightarrow> ('e, 'a) result \<Rightarrow> ('f, 'a) result" where
  "map_err g m = (case m of Inl e \<Rightarrow> Inl (g e) | Inr x \<Rightarrow> Inr x)"

definition ok_or :: "'e \<Rightarrow> 'a option \<Rightarrow> ('e, 'a) result" where
  "ok_or e x = (case x of None \<Rightarrow> Inl e | Some y \<Rightarrow> Inr y)"

definition is_ok :: "('e, 'a) result \<Rightarrow> bool" where
  "is_ok m = (case m of Inl _ \<Rightarrow> False | Inr _ \<Rightarrow> True)"

abbreviation "ensure b e \<equiv> (if b then Inr () else Inl e)"

lemma rbind_simps [simp, result_simps]:
  "rbind (Inl e) f = Inl e"
  "rbind (Inr x) f = f x"
  by (simp_all add: rbind_def)

lemma rbind_eq_Inr_iff [result_simps]:
  "rbind m f = Inr y \<longleftrightarrow> (\<exists>x. m = Inr x \<and> f x = Inr y)"
  by (cases m) simp_all

lemma rbind_eq_Inl_iff [result_simps]:
  "rbind m f = Inl e \<longleftrightarrow> m = Inl e \<or> (\<exists>x. m = Inr x \<and> f x = Inl e)"
  by (cases m) simp_all

lemma rbind_assoc: "rbind (rbind m f) g = rbind m (\<lambda>x. rbind (f x) g)"
  by (cases m) simp_all

lemma rbind_cong [fundef_cong]:
  "m = m' \<Longrightarrow> (\<And>x. m' = Inr x \<Longrightarrow> f x = g x) \<Longrightarrow> rbind m f = rbind m' g"
  by (cases m') simp_all

lemma map_err_simps [simp, result_simps]:
  "map_err g (Inl e) = Inl (g e)"
  "map_err g (Inr x) = Inr x"
  by (simp_all add: map_err_def)

lemma map_err_eq_Inr_iff [simp, result_simps]: "map_err g m = Inr x \<longleftrightarrow> m = Inr x"
  by (cases m) simp_all

lemma map_err_eq_Inl_iff [result_simps]: "map_err g m = Inl e \<longleftrightarrow> (\<exists>e'. m = Inl e' \<and> e = g e')"
  by (cases m) auto

lemma ok_or_simps [simp, result_simps]:
  "ok_or e None = Inl e"
  "ok_or e (Some x) = Inr x"
  by (simp_all add: ok_or_def)

lemma ok_or_eq_Inr_iff [simp, result_simps]: "ok_or e x = Inr y \<longleftrightarrow> x = Some y"
  by (cases x) simp_all

lemma is_ok_simps [simp, result_simps]:
  "\<not> is_ok (Inl e)"
  "is_ok (Inr x)"
  by (simp_all add: is_ok_def)

lemma is_ok_iff: "is_ok m \<longleftrightarrow> (\<exists>x. m = Inr x)"
  by (cases m) simp_all

lemma unit_result_cases: "(m :: ('e, unit) result) = Inr () \<or> (\<exists>e. m = Inl e)"
  by (cases m) simp_all

subsection \<open>Loops that stop at the first error\<close>

fun try_each :: "('a \<Rightarrow> ('e, unit) result) \<Rightarrow> 'a list \<Rightarrow> ('e, unit) result" where
  "try_each f [] = Inr ()"
| "try_each f (x # xs) = rbind (f x) (\<lambda>_. try_each f xs)"

fun try_map :: "('a \<Rightarrow> ('e, 'b) result) \<Rightarrow> 'a list \<Rightarrow> ('e, 'b list) result" where
  "try_map f [] = Inr []"
| "try_map f (x # xs) = rbind (f x) (\<lambda>y. rbind (try_map f xs) (\<lambda>ys. Inr (y # ys)))"

fun try_fold :: "('a \<Rightarrow> 's \<Rightarrow> ('e, 's) result) \<Rightarrow> 'a list \<Rightarrow> 's \<Rightarrow> ('e, 's) result" where
  "try_fold f [] s = Inr s"
| "try_fold f (x # xs) s = rbind (f x s) (try_fold f xs)"

lemma try_each_cong [fundef_cong]:
  "xs = ys \<Longrightarrow> (\<And>x. x \<in> set ys \<Longrightarrow> f x = g x) \<Longrightarrow> try_each f xs = try_each g ys"
  by (induction ys arbitrary: xs) (auto intro!: rbind_cong)

lemma try_map_cong [fundef_cong]:
  "xs = ys \<Longrightarrow> (\<And>x. x \<in> set ys \<Longrightarrow> f x = g x) \<Longrightarrow> try_map f xs = try_map g ys"
  by (induction ys arbitrary: xs) (auto intro!: rbind_cong)

lemma try_each_ok_iff [result_simps]:
  "try_each f xs = Inr () \<longleftrightarrow> (\<forall>x\<in>set xs. f x = Inr ())"
  by (induction xs) (auto simp: rbind_eq_Inr_iff)

lemma try_each_ok_unit [result_simps]:
  "try_each f xs = Inr u \<longleftrightarrow> (\<forall>x\<in>set xs. f x = Inr ())"
  using try_each_ok_iff by (cases u) simp

lemma try_each_errD: "try_each f xs = Inl e \<Longrightarrow> \<exists>x\<in>set xs. f x = Inl e"
  by (induction xs) (auto simp: rbind_eq_Inl_iff)

lemma try_map_ok_iff [result_simps]:
  "try_map f xs = Inr ys \<longleftrightarrow> list_all2 (\<lambda>x y. f x = Inr y) xs ys"
  by (induction xs arbitrary: ys) (auto simp: rbind_eq_Inr_iff list_all2_Cons1)

lemma try_fold_invariant:
  assumes "try_fold f xs s = Inr t" "P s"
    and "\<And>x s s'. \<lbrakk>x \<in> set xs; P s; f x s = Inr s'\<rbrakk> \<Longrightarrow> P s'"
  shows "P t"
  using assms by (induction xs arbitrary: s) (auto simp: rbind_eq_Inr_iff)

lemma try_fold_append: "try_fold f (xs @ ys) s = rbind (try_fold f xs s) (try_fold f ys)"
  by (induction xs arbitrary: s) (auto simp: rbind_assoc intro!: rbind_cong)

subsection \<open>Which errors a computation can return\<close>

named_theorems errors_in_intros \<open>structural rules for \<open>errors_in\<close>\<close>

definition errors_in :: "('e \<Rightarrow> bool) \<Rightarrow> ('e, 'a) result \<Rightarrow> bool" where
  "errors_in P m = (case m of Inl e \<Rightarrow> P e | Inr _ \<Rightarrow> True)"

lemma errors_in_simps [simp]: "errors_in P (Inl e) = P e" "errors_in P (Inr x)"
  by (simp_all add: errors_in_def)

lemma errors_inD: "errors_in P m \<Longrightarrow> m = Inl e \<Longrightarrow> P e"
  by simp

lemma errors_in_rbind [errors_in_intros]:
  "errors_in P m \<Longrightarrow> (\<And>x. m = Inr x \<Longrightarrow> errors_in P (f x)) \<Longrightarrow> errors_in P (rbind m f)"
  by (cases m) simp_all

lemma errors_in_ok_or [errors_in_intros]: "P e \<Longrightarrow> errors_in P (ok_or e x)"
  by (cases x) simp_all

lemma errors_in_map_err [errors_in_intros]: "(\<And>e. P (g e)) \<Longrightarrow> errors_in P (map_err g m)"
  by (cases m) simp_all

lemma errors_in_Inl [errors_in_intros]: "P e \<Longrightarrow> errors_in P (Inl e)"
  by simp

lemma errors_in_Inr [errors_in_intros]: "errors_in P (Inr x)"
  by simp

lemma errors_in_if [errors_in_intros]:
  "(b \<Longrightarrow> errors_in P m) \<Longrightarrow> (\<not> b \<Longrightarrow> errors_in P n) \<Longrightarrow> errors_in P (if b then m else n)"
  by simp

lemma errors_in_Let [errors_in_intros]: "(\<And>x. x = y \<Longrightarrow> errors_in P (f x)) \<Longrightarrow> errors_in P (Let y f)"
  by simp

lemma errors_in_case_prod [errors_in_intros]:
  "(\<And>a b. p = (a, b) \<Longrightarrow> errors_in P (f a b)) \<Longrightarrow> errors_in P (case p of (a, b) \<Rightarrow> f a b)"
  by (cases p) simp

lemma errors_in_case_option [errors_in_intros]:
  "(x = None \<Longrightarrow> errors_in P m) \<Longrightarrow> (\<And>y. x = Some y \<Longrightarrow> errors_in P (f y))
    \<Longrightarrow> errors_in P (case x of None \<Rightarrow> m | Some y \<Rightarrow> f y)"
  by (cases x) simp_all

lemma errors_in_try_each [errors_in_intros]:
  "(\<And>x. x \<in> set xs \<Longrightarrow> errors_in P (f x)) \<Longrightarrow> errors_in P (try_each f xs)"
  by (induction xs) (auto intro!: errors_in_rbind)

lemma errors_in_try_map [errors_in_intros]:
  "(\<And>x. x \<in> set xs \<Longrightarrow> errors_in P (f x)) \<Longrightarrow> errors_in P (try_map f xs)"
  by (induction xs) (auto intro!: errors_in_rbind)

lemma errors_in_try_fold [errors_in_intros]:
  "(\<And>x s. x \<in> set xs \<Longrightarrow> errors_in P (f x s)) \<Longrightarrow> errors_in P (try_fold f xs s)"
  by (induction xs arbitrary: s) (auto intro!: errors_in_rbind)

section \<open>The two map types\<close>

text \<open>
  The interface of a Rust map as its clients use it.  \<open>collect\<close> of an
  iterator of pairs is \<open>fold\<close> of the insertion, so the last pair with a key wins.
\<close>

locale rust_map =
  fixes inv :: "'m \<Rightarrow> bool"
    and emp :: 'm
    and ins :: "'k \<Rightarrow> 'v \<Rightarrow> 'm \<Rightarrow> 'm"
    and get :: "'m \<Rightarrow> 'k \<Rightarrow> 'v option"
    and del :: "'k \<Rightarrow> 'm \<Rightarrow> 'm"
  assumes inv_emp: "inv emp"
    and get_emp: "get emp k = None"
    and inv_ins: "inv m \<Longrightarrow> inv (ins k v m)"
    and get_ins: "inv m \<Longrightarrow> get (ins k v m) = (get m)(k \<mapsto> v)"
    and inv_del: "inv m \<Longrightarrow> inv (del k m)"
    and get_del: "inv m \<Longrightarrow> get (del k m) = (get m)(k := None)"
begin

lemma inv_extend: "inv m \<Longrightarrow> inv (fold (\<lambda>(k, v). ins k v) xs m)"
  by (induction xs arbitrary: m) (auto simp: inv_ins split: prod.splits)

lemma get_extend:
  "inv m \<Longrightarrow> get (fold (\<lambda>(k, v). ins k v) xs m) = get m ++ map_of (rev xs)"
proof (induction xs arbitrary: m)
  case (Cons x xs)
  then show ?case
    by (cases x) (simp add: inv_ins get_ins map_add_def fun_eq_iff split: option.splits)
qed simp

lemma inv_collect: "inv (fold (\<lambda>(k, v). ins k v) xs emp)"
  by (simp add: inv_extend inv_emp)

lemma get_collect: "get (fold (\<lambda>(k, v). ins k v) xs emp) = map_of (rev xs)"
  by (simp add: get_extend inv_emp get_emp fun_eq_iff map_add_def split: option.splits)

lemma ins_del_cancel: "inv m \<Longrightarrow> get (ins k v (del k m)) = get (ins k v m)"
  by (simp add: inv_del get_del get_ins)

end

subsection \<open>\<open>BTreeMap\<close>: strictly increasing keys\<close>

fun bt_insert :: "'k::linorder \<Rightarrow> 'v \<Rightarrow> ('k \<times> 'v) list \<Rightarrow> ('k \<times> 'v) list" where
  "bt_insert k v [] = [(k, v)]"
| "bt_insert k v ((a, b) # m) =
    (if k < a then (k, v) # (a, b) # m
     else if k = a then (k, v) # m
     else (a, b) # bt_insert k v m)"

definition bt_remove :: "'k \<Rightarrow> ('k \<times> 'v) list \<Rightarrow> ('k \<times> 'v) list" where
  "bt_remove k m = filter (\<lambda>p. fst p \<noteq> k) m"

definition bt_inv :: "('k::linorder \<times> 'v) list \<Rightarrow> bool" where
  "bt_inv m = sorted_wrt (<) (map fst m)"

definition bt_collect :: "('k::linorder \<times> 'v) list \<Rightarrow> ('k \<times> 'v) list" where
  "bt_collect xs = fold (\<lambda>(k, v). bt_insert k v) xs []"

lemma bt_insert_keys: "fst ` set (bt_insert k v m) = insert k (fst ` set m)"
  by (induction k v m rule: bt_insert.induct) auto

lemma bt_insert_inv: "bt_inv m \<Longrightarrow> bt_inv (bt_insert k v m)"
proof (induction k v m rule: bt_insert.induct)
  case (2 k v a b m)
  have "\<forall>y \<in> fst ` set (bt_insert k v m). a < y" if "\<not> k < a" "k \<noteq> a"
    using 2(2) that by (auto simp: bt_insert_keys bt_inv_def)
  then show ?case
    using 2 by (auto simp: bt_inv_def intro: less_trans)
qed (simp add: bt_inv_def)

lemma bt_insert_get: "map_of (bt_insert k v m) = (map_of m)(k \<mapsto> v)"
  by (induction k v m rule: bt_insert.induct) (auto simp: fun_eq_iff)

lemma bt_remove_get: "map_of (bt_remove k m) = (map_of m)(k := None)"
  unfolding bt_remove_def by (induction m) (auto simp: fun_eq_iff)

lemma bt_remove_inv: "bt_inv m \<Longrightarrow> bt_inv (bt_remove k m)"
  unfolding bt_inv_def bt_remove_def
  by (induction m) auto

interpretation bt: rust_map bt_inv "[]" bt_insert map_of bt_remove
  by unfold_locales
    (auto simp: bt_insert_inv bt_insert_get bt_remove_get bt_remove_inv, simp add: bt_inv_def)

lemma bt_collect_inv [simp, map_laws]: "bt_inv (bt_collect xs)"
  by (simp add: bt_collect_def bt.inv_collect)

lemma bt_collect_get [simp, map_laws]: "map_of (bt_collect xs) = map_of (rev xs)"
  by (simp add: bt_collect_def bt.get_collect)

lemma bt_inv_distinct: "bt_inv m \<Longrightarrow> distinct (map fst m)"
  by (simp add: bt_inv_def strict_sorted_iff)

lemma bt_inv_sorted: "bt_inv m \<Longrightarrow> sorted (map fst m)"
  by (simp add: bt_inv_def strict_sorted_iff)

lemma keys_entries: "distinct (map fst m) \<Longrightarrow> map (\<lambda>k. (k, the (map_of m k))) (map fst m) = m"
  by (auto simp: comp_def intro!: map_idI)

lemma bt_ext:
  assumes "bt_inv m" "bt_inv n" "map_of m = map_of n"
  shows "m = n"
proof -
  have dist: "distinct (map fst m)" "distinct (map fst n)"
    using assms by (auto simp: bt_inv_distinct)
  have "set (map fst m) = set (map fst n)"
    using assms(3) by (metis dom_map_of_conv_image_fst list.set_map)
  then have "map fst m = map fst n"
    using assms dist by (intro sorted_distinct_set_unique) (auto simp: bt_inv_sorted)
  then show ?thesis
    using keys_entries [OF dist(1)] keys_entries [OF dist(2)] assms(3) by simp
qed

subsection \<open>\<open>serde_json::Map\<close>: insertion order\<close>

text \<open>
  \<open>insert\<close> on an existing key replaces the value in place, on a new key it
  appends; \<open>remove\<close> swaps the last entry into the freed position.
\<close>

fun jm_insert :: "'k \<Rightarrow> 'v \<Rightarrow> ('k \<times> 'v) list \<Rightarrow> ('k \<times> 'v) list" where
  "jm_insert k v [] = [(k, v)]"
| "jm_insert k v ((a, b) # m) = (if k = a then (k, v) # m else (a, b) # jm_insert k v m)"

fun jm_remove :: "'k \<Rightarrow> ('k \<times> 'v) list \<Rightarrow> ('k \<times> 'v) list" where
  "jm_remove k [] = []"
| "jm_remove k ((a, b) # m) =
    (if k = a then (if m = [] then [] else last m # butlast m) else (a, b) # jm_remove k m)"

definition jm_inv :: "('k \<times> 'v) list \<Rightarrow> bool" where
  "jm_inv m = distinct (map fst m)"

lemma jm_insert_keys: "fst ` set (jm_insert k v m) = insert k (fst ` set m)"
  by (induction k v m rule: jm_insert.induct) auto

lemma jm_insert_inv: "jm_inv m \<Longrightarrow> jm_inv (jm_insert k v m)"
  unfolding jm_inv_def
  by (induction k v m rule: jm_insert.induct) (auto simp: jm_insert_keys)

lemma jm_insert_get: "map_of (jm_insert k v m) = (map_of m)(k \<mapsto> v)"
  by (induction k v m rule: jm_insert.induct) (auto simp: fun_eq_iff)

lemma jm_remove_mset_keys:
  "distinct (map fst m) \<Longrightarrow> mset (jm_remove k m) = filter_mset (\<lambda>p. fst p \<noteq> k) (mset m)"
proof (induction k m rule: jm_remove.induct)
  case (2 k a b m)
  have "mset (last m # butlast m) = mset m" if "m \<noteq> []"
    using that by (metis append_butlast_last_id mset.simps(2) mset_append add_mset_add_single mset_single_iff_right)
  moreover have "filter_mset (\<lambda>p. fst p \<noteq> a) (mset m) = mset m"
    using 2 by (intro filter_mset_eq_conv [THEN iffD2]) auto
  ultimately show ?case
    using 2 by auto
qed simp

lemma jm_remove_inv: "jm_inv m \<Longrightarrow> jm_inv (jm_remove k m)"
proof (unfold jm_inv_def)
  assume d: "distinct (map fst m)"
  have "mset (map fst (jm_remove k m)) = mset (map fst (filter (\<lambda>p. fst p \<noteq> k) m))"
    using jm_remove_mset_keys [OF d] by (metis mset_filter mset_map)
  then show "distinct (map fst (jm_remove k m))"
    using d by (metis distinct_map_filter mset_eq_imp_distinct_iff)
qed

lemma jm_remove_get: "jm_inv m \<Longrightarrow> map_of (jm_remove k m) = (map_of m)(k := None)"
proof -
  assume d: "jm_inv m"
  have "set (jm_remove k m) = set (filter (\<lambda>p. fst p \<noteq> k) m)"
    using jm_remove_mset_keys d unfolding jm_inv_def by (metis mset_filter set_mset_mset)
  then have "map_of (jm_remove k m) = map_of (filter (\<lambda>p. fst p \<noteq> k) m)"
    using jm_remove_inv [OF d] d unfolding jm_inv_def
    by (intro map_of_inject_set [THEN iffD2]) (auto simp: distinct_map_filter)
  then show ?thesis
    using bt_remove_get by (metis bt_remove_def)
qed

interpretation jm: rust_map jm_inv "[]" jm_insert map_of jm_remove
  by unfold_locales
    (auto simp: jm_insert_inv jm_insert_get jm_remove_get jm_remove_inv, simp add: jm_inv_def)

lemma bt_entry_iff: "bt_inv m \<Longrightarrow> (k, v) \<in> set m \<longleftrightarrow> map_of m k = Some v"
  by (metis bt_inv_distinct map_of_SomeD map_of_is_SomeI)

end
