(* ===== verification/Rust_Strings.thy ===== *)
theory Rust_Strings
  imports Prelude
begin

text \<open>
  Rust strings.  A \<open>String\<close> or \<open>&str\<close> is the list of its UTF-8 bytes, so
  \<open>length\<close> is \<open>str::len\<close>, the lexicographic order on lists is \<open>Ord for str\<close>, and a
  byte index is a list index.  \<open>chars\<close> cuts the bytes into characters: a
  lead byte with the continuation bytes that follow it.  The theory also has the
  number formatting \<open>{}\<close> of unsigned integers and the lower case hexadecimal
  encoder of \<open>hex.rs\<close>.
\<close>

named_theorems str_simps \<open>facts on byte strings\<close>

section \<open>Bytes and characters\<close>

abbreviation byte :: "char \<Rightarrow> nat" where
  "byte c \<equiv> of_char c"

lemma byte_less: "byte c < 256"
  using of_char_mod_256 [where 'a = nat, of c] mod_less_divisor [of 256 "byte c"] by simp

definition is_cont :: "char \<Rightarrow> bool" where
  "is_cont c \<longleftrightarrow> byte c \<ge> 128 \<and> byte c < 192"

function chars :: "string \<Rightarrow> string list" where
  "chars [] = []"
| "chars (b # bs) = (b # takeWhile is_cont bs) # chars (dropWhile is_cont bs)"
  by pat_completeness auto
termination
  by (relation "measure length") (auto simp: length_dropWhile_le less_Suc_eq_le)

lemma concat_chars [simp, str_simps]: "concat (chars s) = s"
  by (induction s rule: chars.induct) simp_all

lemma chars_nonempty: "c \<in> set (chars s) \<Longrightarrow> c \<noteq> []"
  by (induction s rule: chars.induct) auto

definition char_count :: "string \<Rightarrow> nat" where
  "char_count s = length (chars s)"

text \<open>\<open>str::is_char_boundary\<close>.\<close>

definition is_char_boundary :: "string \<Rightarrow> nat \<Rightarrow> bool" where
  "is_char_boundary s i \<longleftrightarrow> i = 0 \<or> i = length s \<or> (i < length s \<and> \<not> is_cont (s ! i))"

text \<open>\<open>char::is_control\<close>: U+0000 to U+001F and U+007F to U+009F.\<close>

definition is_control :: "string \<Rightarrow> bool" where
  "is_control c = (case c of
      [b] \<Rightarrow> byte b < 32 \<or> byte b = 127
    | [a, b] \<Rightarrow> byte a = 194 \<and> byte b \<ge> 128 \<and> byte b < 160
    | _ \<Rightarrow> False)"

text \<open>\<open>char::is_whitespace\<close>: the Unicode property White\_Space.\<close>

definition is_whitespace :: "string \<Rightarrow> bool" where
  "is_whitespace c = (case c of
      [b] \<Rightarrow> (byte b \<ge> 9 \<and> byte b \<le> 13) \<or> byte b = 32
    | [a, b] \<Rightarrow> byte a = 194 \<and> (byte b = 133 \<or> byte b = 160)
    | [a, b, d] \<Rightarrow>
        (byte a = 225 \<and> byte b = 154 \<and> byte d = 128)
        \<or> (byte a = 226 \<and> byte b = 128
            \<and> ((byte d \<ge> 128 \<and> byte d \<le> 138) \<or> byte d = 168 \<or> byte d = 169 \<or> byte d = 175))
        \<or> (byte a = 226 \<and> byte b = 129 \<and> byte d = 159)
        \<or> (byte a = 227 \<and> byte b = 128 \<and> byte d = 128)
    | _ \<Rightarrow> False)"

definition trim :: "string \<Rightarrow> string" where
  "trim s = concat (rev (dropWhile is_whitespace (rev (dropWhile is_whitespace (chars s)))))"

text \<open>\<open>s.trim().is_empty()\<close>.\<close>

definition is_blank :: "string \<Rightarrow> bool" where
  "is_blank s \<longleftrightarrow> trim s = []"

subsection \<open>Character boundaries\<close>

text \<open>A list of characters: each a byte with continuation bytes behind it, all but the
  first started by a byte that is not a continuation byte.\<close>

definition chunks :: "string list \<Rightarrow> bool" where
  "chunks cs \<longleftrightarrow> list_all (\<lambda>c. c \<noteq> [] \<and> list_all is_cont (tl c)) cs
    \<and> list_all (\<lambda>c. \<not> is_cont (hd c)) (tl cs)"

lemma dropWhile_cont_head: "dropWhile is_cont bs = c # cs \<Longrightarrow> \<not> is_cont c"
  by (induction bs) (auto split: if_splits)

lemma chars_heads: "\<lbrakk>s = [] \<or> \<not> is_cont (hd s); c \<in> set (chars s)\<rbrakk> \<Longrightarrow> \<not> is_cont (hd c)"
proof (induction s rule: chars.induct)
  case (2 b bs)
  have "dropWhile is_cont bs = [] \<or> \<not> is_cont (hd (dropWhile is_cont bs))"
    by (cases "dropWhile is_cont bs") (auto dest: dropWhile_cont_head)
  with 2 show ?case
    by auto
qed simp

lemma chunks_chars: "chunks (chars s)"
proof (cases s)
  case (Cons b bs)
  have d: "dropWhile is_cont bs = [] \<or> \<not> is_cont (hd (dropWhile is_cont bs))"
    by (cases "dropWhile is_cont bs") (auto dest: dropWhile_cont_head)
  have "c \<noteq> [] \<and> list_all is_cont (tl c)" if "c \<in> set (chars s)" for c
    using that by (induction s rule: chars.induct) (auto simp: list_all_iff dest: set_takeWhileD)
  with d Cons show ?thesis
    using chars_heads [OF d] by (simp add: chunks_def list_all_iff)
qed (simp add: chunks_def)

lemma span_append:
  "list_all P t \<Longrightarrow> r = [] \<or> \<not> P (hd r) \<Longrightarrow> takeWhile P (t @ r) = t \<and> dropWhile P (t @ r) = r"
  by (induction t) (auto, (cases r; simp)+)

lemma chars_concat: "chunks cs \<Longrightarrow> chars (concat cs) = cs"
proof (induction cs)
  case (Cons c cs)
  obtain b t where c: "c = b # t" "list_all is_cont t"
    using Cons.prems by (cases c) (auto simp: chunks_def)
  have rest: "concat cs = [] \<or> \<not> is_cont (hd (concat cs))"
    using Cons.prems by (cases cs) (auto simp: chunks_def)
  have "takeWhile is_cont (t @ concat cs) = t" "dropWhile is_cont (t @ concat cs) = concat cs"
    using span_append [OF c(2) rest] by simp_all
  moreover have "chunks cs"
    using Cons.prems by (auto simp: chunks_def) (metis list.pred_set list.set_sel(2) Nil_tl)
  ultimately show ?case
    using Cons.IH c(1) by simp
qed simp

lemma chunks_filter: "chunks cs \<Longrightarrow> chunks (filter P cs)"
proof (induction cs)
  case (Cons c cs)
  have "chunks cs"
    using Cons.prems by (auto simp: chunks_def) (metis list.pred_set list.set_sel(2) Nil_tl)
  then show ?case
    using Cons by (auto simp: chunks_def list_all_iff)
qed simp

text \<open>A boundary is exactly the end of some number of characters.\<close>

lemma boundary_take_chars:
  "is_char_boundary s i \<Longrightarrow> i \<le> length s \<Longrightarrow> \<exists>k. take i s = concat (take k (chars s))"
proof (induction s arbitrary: i rule: chars.induct)
  case (2 b bs)
  define t where "t = takeWhile is_cont bs"
  define d where "d = dropWhile is_cont bs"
  have bs: "bs = t @ d"
    by (simp add: t_def d_def)
  have cont: "\<forall>x\<in>set t. is_cont x"
    unfolding t_def by (auto dest: set_takeWhileD)
  consider "i = 0" | j where "i = Suc (length t + j)" | j where "i = Suc j" "j < length t"
    by (metis add.commute le_Suc_ex linorder_not_less not0_implies_Suc)
  then show ?case
  proof cases
    case 1
    then show ?thesis
      by (intro exI [of _ 0]) simp
  next
    case i: (2 j)
    have "is_char_boundary d j" "j \<le> length d"
      using "2.prems" i by (auto simp: is_char_boundary_def bs nth_append)
    then obtain k where "take j d = concat (take k (chars d))"
      using "2.IH" unfolding d_def by blast
    moreover have "take i (b # bs) = b # t @ take j d"
      by (simp add: i bs)
    moreover have "chars (b # bs) = (b # t) # chars d"
      by (simp add: t_def d_def)
    ultimately have "take i (b # bs) = concat (take (Suc k) (chars (b # bs)))"
      by (simp only: take_Suc_Cons concat.simps append_Cons)
    then show ?thesis ..
  next
    case (3 j)
    then have "is_cont ((b # bs) ! i)"
      using cont by (simp add: bs nth_append)
    then have False
      using "2.prems" 3 by (auto simp: is_char_boundary_def bs)
    then show ?thesis ..
  qed
qed simp

section \<open>Prefixes\<close>

definition starts_with :: "string \<Rightarrow> string \<Rightarrow> bool" where
  "starts_with s p \<longleftrightarrow> take (length p) s = p"

definition strip_prefix :: "string \<Rightarrow> string \<Rightarrow> string option" where
  "strip_prefix s p = (if starts_with s p then Some (drop (length p) s) else None)"

text \<open>\<open>[S]::join\<close>.\<close>

definition join :: "string \<Rightarrow> string list \<Rightarrow> string" where
  "join sep xs = (case xs of [] \<Rightarrow> [] | y # ys \<Rightarrow> y @ concat (map (\<lambda>z. sep @ z) ys))"

text \<open>\<open>str::contains\<close>.\<close>

fun contains_str :: "string \<Rightarrow> string \<Rightarrow> bool" where
  "contains_str [] p = (p = [])"
| "contains_str (c # s) p = (starts_with (c # s) p \<or> contains_str s p)"

lemma starts_with_iff: "starts_with s p \<longleftrightarrow> (\<exists>r. s = p @ r)"
  unfolding starts_with_def by (metis append_eq_conv_conj append_take_drop_id)

lemma starts_with_append [simp, str_simps]: "starts_with (p @ r) p"
  by (simp add: starts_with_def)

lemma strip_prefix_eq_Some_iff [str_simps]: "strip_prefix s p = Some r \<longleftrightarrow> s = p @ r"
  by (auto simp: strip_prefix_def starts_with_def) (metis append_take_drop_id)

section \<open>Scalars and UTF-16 code units\<close>

text \<open>\<open>char\<close> of one encoded character, and \<open>str::encode_utf16\<close>.\<close>

definition scalar_value :: "string \<Rightarrow> nat" where
  "scalar_value c = (case c of
      [a] \<Rightarrow> byte a
    | [a, b] \<Rightarrow> (byte a mod 32) * 64 + byte b mod 64
    | [a, b, d] \<Rightarrow> (byte a mod 16) * 4096 + (byte b mod 64) * 64 + byte d mod 64
    | [a, b, d, e] \<Rightarrow>
        (byte a mod 8) * 262144 + (byte b mod 64) * 4096 + (byte d mod 64) * 64 + byte e mod 64
    | _ \<Rightarrow> 65533)"

definition utf16_units :: "nat \<Rightarrow> nat list" where
  "utf16_units u =
    (if u < 65536 then [u]
     else [55296 + (u - 65536) div 1024, 56320 + (u - 65536) mod 1024])"

definition encode_utf16 :: "string \<Rightarrow> nat list" where
  "encode_utf16 s = concat (map (utf16_units \<circ> scalar_value) (chars s))"

section \<open>Number formatting\<close>

definition digit :: "nat \<Rightarrow> char" where
  "digit n = char_of (48 + n)"

fun nat_to_string :: "nat \<Rightarrow> string" where
  "nat_to_string n = (if n < 10 then [digit n] else nat_to_string (n div 10) @ [digit (n mod 10)])"

declare nat_to_string.simps [simp del]

definition is_ascii_digit :: "char \<Rightarrow> bool" where
  "is_ascii_digit c \<longleftrightarrow> byte c \<ge> 48 \<and> byte c \<le> 57"

definition digit_value :: "char \<Rightarrow> nat" where
  "digit_value c = byte c - 48"

definition digits_value :: "string \<Rightarrow> nat" where
  "digits_value s = foldl (\<lambda>n c. n * 10 + digit_value c) 0 s"

lemma byte_digit [simp]: "n < 10 \<Longrightarrow> byte (digit n) = 48 + n"
  by (simp add: digit_def)

lemma is_ascii_digit_digit [simp]: "n < 10 \<Longrightarrow> is_ascii_digit (digit n)"
  by (simp add: is_ascii_digit_def)

lemma digit_value_digit [simp]: "n < 10 \<Longrightarrow> digit_value (digit n) = n"
  by (simp add: digit_value_def)

lemma nat_to_string_digits: "list_all is_ascii_digit (nat_to_string n)"
proof (induction n rule: nat_to_string.induct)
  case (1 n)
  then show ?case
    by (cases "n < 10") (simp_all add: nat_to_string.simps [of n])
qed

lemma nat_to_string_nonempty [simp]: "nat_to_string n \<noteq> []"
  by (subst nat_to_string.simps) simp

lemma digits_value_nat_to_string [simp]: "digits_value (nat_to_string n) = n"
proof (induction n rule: nat_to_string.induct)
  case (1 n)
  then show ?case
    by (cases "n < 10") (simp_all add: nat_to_string.simps [of n] digits_value_def)
qed

lemma nat_to_string_inj: "nat_to_string m = nat_to_string n \<Longrightarrow> m = n"
  by (metis digits_value_nat_to_string)

text \<open>\<open>str::parse::<u64>\<close>, and \<open>usize\<close> on a 64 bit target: digits behind an optional plus sign.\<close>

definition parse_u64 :: "string \<Rightarrow> nat option" where
  "parse_u64 s =
    (let digits = (case strip_prefix s ''+'' of Some rest \<Rightarrow> rest | None \<Rightarrow> s) in
     if digits \<noteq> [] \<and> list_all is_ascii_digit digits \<and> digits_value digits < 2 ^ 64
     then Some (digits_value digits) else None)"

text \<open>The single quote, for the messages that quote a name.\<close>

definition sq :: string where
  "sq = [CHR 0x27]"

abbreviation quoted :: "string \<Rightarrow> string" where
  "quoted s \<equiv> sq @ s @ sq"

section \<open>Hexadecimal\<close>

definition hex_digit :: "nat \<Rightarrow> char" where
  "hex_digit n = (if n < 10 then char_of (48 + n) else char_of (87 + n))"

definition lower :: "string \<Rightarrow> string" where
  "lower bytes = concat (map (\<lambda>b. [hex_digit (byte b div 16), hex_digit (byte b mod 16)]) bytes)"

lemma lower_length: "length (lower bytes) = 2 * length bytes"
  by (induction bytes) (simp_all add: lower_def)

lemma hex_digit_inj: "a < 16 \<Longrightarrow> b < 16 \<Longrightarrow> hex_digit a = hex_digit b \<Longrightarrow> a = b"
proof -
  assume a: "a < 16" "b < 16" "hex_digit a = hex_digit b"
  have val: "byte (hex_digit n) = (if n < 10 then 48 + n else 87 + n)" if "n < 16" for n
    using that by (simp add: hex_digit_def)
  show ?thesis
    using arg_cong [OF a(3), of "of_char :: char \<Rightarrow> nat"] a(1,2) by (auto simp: val split: if_splits)
qed

lemma lower_inj: "lower xs = lower ys \<Longrightarrow> xs = ys"
proof (induction xs arbitrary: ys)
  case Nil
  then show ?case
    by (cases ys) (simp_all add: lower_def)
next
  case (Cons x xs)
  obtain y ys' where ys: "ys = y # ys'"
    using Cons.prems by (cases ys) (simp_all add: lower_def)
  have *: "hex_digit (byte x div 16) = hex_digit (byte y div 16)"
    "hex_digit (byte x mod 16) = hex_digit (byte y mod 16)" "lower xs = lower ys'"
    using Cons.prems unfolding ys by (simp_all add: lower_def)
  have bound: "byte c div 16 < 16" for c :: char
    using byte_less [of c] by (simp add: less_mult_imp_div_less)
  have "byte x div 16 = byte y div 16" "byte x mod 16 = byte y mod 16"
    using * bound by (auto intro: hex_digit_inj)
  then have "byte x = byte y"
    by (metis div_mult_mod_eq)
  then show ?case
    using Cons.IH [OF *(3)] ys by (simp add: of_char_eq_iff)
qed

end
