(* ===== verification/Json.thy ===== *)
theory Json
  imports Rust_Strings
begin

text \<open>
  JSON values as \<open>serde_json\<close> represents them (\<open>JsonValue\<close> is its \<open>Value\<close>): a
  number keeps its integer or its IEEE bits at 64 bits width, an object is an
  insertion ordered map.  \<open>json_wf\<close> says that every object has distinct keys,
  which the map type guarantees.  \<open>json_eq\<close> is \<open>PartialEq\<close>: objects compare without
  regard to order.
\<close>

named_theorems json_simps \<open>facts on JSON accessors\<close>

section \<open>Values\<close>

datatype number = PosInt "64 word" | NegInt "64 word" | Float "64 word"

datatype json =
    JNull
  | JBool bool
  | JNumber number
  | JString string
  | JArray "json list"
  | JObject "(string \<times> json) list"

type_synonym json_map = "(string \<times> json) list"

definition as_str :: "json \<Rightarrow> string option" where
  "as_str v = (case v of JString s \<Rightarrow> Some s | _ \<Rightarrow> None)"

definition as_object :: "json \<Rightarrow> json_map option" where
  "as_object v = (case v of JObject m \<Rightarrow> Some m | _ \<Rightarrow> None)"

definition as_array :: "json \<Rightarrow> json list option" where
  "as_array v = (case v of JArray xs \<Rightarrow> Some xs | _ \<Rightarrow> None)"

definition as_u64 :: "json \<Rightarrow> nat option" where
  "as_u64 v = (case v of JNumber (PosInt n) \<Rightarrow> Some (unat n) | _ \<Rightarrow> None)"

definition as_bool :: "json \<Rightarrow> bool option" where
  "as_bool v = (case v of JBool b \<Rightarrow> Some b | _ \<Rightarrow> None)"

text \<open>\<open>Value::get\<close> with a string key.\<close>

definition json_get :: "json \<Rightarrow> string \<Rightarrow> json option" where
  "json_get v k = (case v of JObject m \<Rightarrow> map_of m k | _ \<Rightarrow> None)"

lemma accessor_simps [simp, json_simps]:
  "as_str (JString s) = Some s"
  "as_object (JObject m) = Some m"
  "as_array (JArray xs) = Some xs"
  "json_get (JObject m) k = map_of m k"
  by (simp_all add: as_str_def as_object_def as_array_def json_get_def)

lemma as_str_eq_Some_iff [json_simps]: "as_str v = Some s \<longleftrightarrow> v = JString s"
  by (cases v) (simp_all add: as_str_def)

lemma as_object_eq_Some_iff [json_simps]: "as_object v = Some m \<longleftrightarrow> v = JObject m"
  by (cases v) (simp_all add: as_object_def)

lemma size_field: "(k, v) \<in> set m \<Longrightarrow> size v < size (JObject m)"
  by (induction m) auto

lemma size_item: "v \<in> set xs \<Longrightarrow> size v < size (JArray xs)"
  by (induction xs) auto

text \<open>Every object of the value has distinct keys.\<close>

fun json_wf :: "json \<Rightarrow> bool" where
  "json_wf (JArray xs) = (\<forall>x\<in>set xs. json_wf x)"
| "json_wf (JObject m) = (jm_inv m \<and> (\<forall>p\<in>set m. json_wf (snd p)))"
| "json_wf _ = True"

text \<open>Nesting depth: the number of arrays and objects on the longest path.\<close>

fun json_depth :: "json \<Rightarrow> nat" where
  "json_depth (JArray xs) = Suc (Max (insert 0 (set (map json_depth xs))))"
| "json_depth (JObject m) = Suc (Max (insert 0 (set (map (\<lambda>p. json_depth (snd p)) m))))"
| "json_depth _ = 0"

section \<open>Equality\<close>

definition number_eq :: "number \<Rightarrow> number \<Rightarrow> bool" where
  "number_eq a b = (case (a, b) of
      (PosInt x, PosInt y) \<Rightarrow> x = y
    | (NegInt x, NegInt y) \<Rightarrow> x = y
    | (Float x, Float y) \<Rightarrow> x = y \<or> (x + x = 0 \<and> y + y = 0)
    | _ \<Rightarrow> False)"

fun json_eq :: "json \<Rightarrow> json \<Rightarrow> bool"
  and items_eq :: "json list \<Rightarrow> json list \<Rightarrow> bool"
  and fields_sub :: "(string \<times> json) list \<Rightarrow> (string \<times> json) list \<Rightarrow> bool"
where
  "json_eq JNull w = (w = JNull)"
| "json_eq (JBool b) w = (w = JBool b)"
| "json_eq (JNumber n) w = (case w of JNumber k \<Rightarrow> number_eq n k | _ \<Rightarrow> False)"
| "json_eq (JString s) w = (w = JString s)"
| "json_eq (JArray xs) w = (case w of JArray ys \<Rightarrow> items_eq xs ys | _ \<Rightarrow> False)"
| "json_eq (JObject m) w =
    (case w of JObject n \<Rightarrow> length m = length n \<and> fields_sub m n | _ \<Rightarrow> False)"
| "items_eq [] ys = (ys = [])"
| "items_eq (x # xs) ys = (case ys of [] \<Rightarrow> False | y # ys' \<Rightarrow> json_eq x y \<and> items_eq xs ys')"
| "fields_sub [] n = True"
| "fields_sub ((k, v) # m) n =
    ((case map_of n k of Some w \<Rightarrow> json_eq v w | None \<Rightarrow> False) \<and> fields_sub m n)"

lemma number_eq_refl [simp]: "number_eq n n"
  by (cases n) (simp_all add: number_eq_def)

lemma fields_sub_iff:
  "fields_sub m n \<longleftrightarrow> (\<forall>p\<in>set m. \<exists>w. map_of n (fst p) = Some w \<and> json_eq (snd p) w)"
  by (induction m) (auto split: option.splits)

lemma items_eq_iff: "items_eq xs ys \<longleftrightarrow> list_all2 json_eq xs ys"
  by (induction xs arbitrary: ys) (auto split: list.splits)

lemma json_eq_refl [simp]: "json_wf v \<Longrightarrow> json_eq v v"
proof (induction v)
  case (JArray xs)
  then show ?case
    by (auto simp: items_eq_iff list_all2_same)
next
  case (JObject m)
  have "\<exists>w. map_of m (fst p) = Some w \<and> json_eq (snd p) w" if "p \<in> set m" for p
    using JObject that by (cases p) (auto simp: jm_inv_def)
  then show ?case
    by (simp add: fields_sub_iff)
qed simp_all

end
