(* ===== verification/Errors.thy ===== *)
theory Errors
  imports Json
begin

text \<open>
  The runtime error type of \<open>error.rs\<close>: seventeen variants, each carrying a
  detail, with the reserved reason that a synthesized verdict shows.  Also the
  member names of \<open>constants.rs\<close> that the components share.
\<close>

section \<open>Runtime errors\<close>

datatype runtime_error =
    ManifestInvalid string
  | ManifestUnreadable string
  | InterventionPointUnknown string
  | PathMissing string
  | PathTypeMismatch string
  | ToolUnknown string
  | AnnotationFailed string
  | AnnotationTimeout string
  | PolicyInvocationFailed string
  | PolicyOutputInvalid string
  | ResourceLimitExceeded string
  | ResolutionPathTraversal string
  | ResolutionCycle string
  | ResolutionInvalidGovernance string
  | ResolutionMergeConflict string
  | TransformTargetForbidden string
  | TransformInvalid string

fun reason :: "runtime_error \<Rightarrow> string" where
  "reason (ManifestInvalid _) = ''runtime_error:manifest_invalid''"
| "reason (ManifestUnreadable _) = ''runtime_error:manifest_unreadable''"
| "reason (InterventionPointUnknown _) = ''runtime_error:intervention_point_unknown''"
| "reason (PathMissing _) = ''runtime_error:path_missing''"
| "reason (PathTypeMismatch _) = ''runtime_error:path_type_mismatch''"
| "reason (ToolUnknown _) = ''runtime_error:tool_unknown''"
| "reason (AnnotationFailed _) = ''runtime_error:annotation_failed''"
| "reason (AnnotationTimeout _) = ''runtime_error:annotation_timeout''"
| "reason (PolicyInvocationFailed _) = ''runtime_error:policy_invocation_failed''"
| "reason (PolicyOutputInvalid _) = ''runtime_error:policy_output_invalid''"
| "reason (ResourceLimitExceeded _) = ''runtime_error:resource_limit_exceeded''"
| "reason (ResolutionPathTraversal _) = ''runtime_error:resolution_path_traversal''"
| "reason (ResolutionCycle _) = ''runtime_error:resolution_cycle''"
| "reason (ResolutionInvalidGovernance _) = ''runtime_error:resolution_invalid_governance''"
| "reason (ResolutionMergeConflict _) = ''runtime_error:resolution_merge_conflict''"
| "reason (TransformTargetForbidden _) = ''runtime_error:transform_target_forbidden''"
| "reason (TransformInvalid _) = ''runtime_error:transform_invalid''"

fun detail :: "runtime_error \<Rightarrow> string" where
  "detail (ManifestInvalid d) = d"
| "detail (ManifestUnreadable d) = d"
| "detail (InterventionPointUnknown d) = d"
| "detail (PathMissing d) = d"
| "detail (PathTypeMismatch d) = d"
| "detail (ToolUnknown d) = d"
| "detail (AnnotationFailed d) = d"
| "detail (AnnotationTimeout d) = d"
| "detail (PolicyInvocationFailed d) = d"
| "detail (PolicyOutputInvalid d) = d"
| "detail (ResourceLimitExceeded d) = d"
| "detail (ResolutionPathTraversal d) = d"
| "detail (ResolutionCycle d) = d"
| "detail (ResolutionInvalidGovernance d) = d"
| "detail (ResolutionMergeConflict d) = d"
| "detail (TransformTargetForbidden d) = d"
| "detail (TransformInvalid d) = d"

text \<open>\<open>Display\<close>.\<close>

definition show_error :: "runtime_error \<Rightarrow> string" where
  "show_error e = (if detail e = [] then reason e else reason e @ '': '' @ detail e)"

lemma reason_reserved: "starts_with (reason e) ''runtime_error:''"
  by (cases e) (simp_all add: starts_with_def)

lemma reason_nonempty [simp]: "reason e \<noteq> []"
  by (cases e) simp_all

lemma reason_detail_inj: "reason a = reason b \<Longrightarrow> detail a = detail b \<Longrightarrow> a = b"
  by (cases a; cases b) simp_all

section \<open>Shared member names\<close>

definition pi_annotations :: string where "pi_annotations = ''annotations''"
definition pi_intervention_point :: string where "pi_intervention_point = ''intervention_point''"
definition pi_kind :: string where "pi_kind = ''kind''"
definition pi_path :: string where "pi_path = ''path''"
definition pi_snapshot :: string where "pi_snapshot = ''snapshot''"
definition pi_policy_target :: string where "pi_policy_target = ''policy_target''"
definition pi_tool :: string where "pi_tool = ''tool''"
definition pi_value :: string where "pi_value = ''value''"

lemmas pi_key_defs =
  pi_annotations_def pi_intervention_point_def pi_kind_def pi_path_def pi_snapshot_def
  pi_policy_target_def pi_tool_def pi_value_def

end
