(* ===== verification/Verdicts.thy ===== *)
theory Verdicts
  imports Errors
begin

text \<open>
  The agent-hooks contract as the engine uses it.  The crate is not part of this
  repository.  Its data types are fixed by the sources that build and match on
  them (the verdict literal at the end of \<open>normalize_policy_output\<close>, the decision
  matches of \<open>stream_session.rs\<close>) and by the list of interception points in the
  specification; its functions are the fields of the record \<open>agent_hooks\<close>,
  an argument of every definition that calls one.
\<close>

section \<open>Interception points\<close>

datatype interception_point =
    AgentStartup
  | Input
  | PreModelCall
  | PostModelCall
  | PreToolCall
  | PostToolCall
  | Output
  | AgentShutdown

fun point_as_str :: "interception_point \<Rightarrow> string" where
  "point_as_str AgentStartup = ''agent_startup''"
| "point_as_str Input = ''input''"
| "point_as_str PreModelCall = ''pre_model_call''"
| "point_as_str PostModelCall = ''post_model_call''"
| "point_as_str PreToolCall = ''pre_tool_call''"
| "point_as_str PostToolCall = ''post_tool_call''"
| "point_as_str Output = ''output''"
| "point_as_str AgentShutdown = ''agent_shutdown''"

text \<open>Declaration order is lifecycle order, the \<open>Ord\<close> of the type.\<close>

fun lifecycle_index :: "interception_point \<Rightarrow> nat" where
  "lifecycle_index AgentStartup = 0"
| "lifecycle_index Input = 1"
| "lifecycle_index PreModelCall = 2"
| "lifecycle_index PostModelCall = 3"
| "lifecycle_index PreToolCall = 4"
| "lifecycle_index PostToolCall = 5"
| "lifecycle_index Output = 6"
| "lifecycle_index AgentShutdown = 7"

lemma lifecycle_index_inj: "lifecycle_index a = lifecycle_index b \<Longrightarrow> a = b"
  by (cases a; cases b) simp_all

lemma point_as_str_inj: "point_as_str a = point_as_str b \<longleftrightarrow> a = b"
  by (cases a; cases b) simp_all

instantiation interception_point :: linorder
begin

definition less_eq_interception_point :: "interception_point \<Rightarrow> interception_point \<Rightarrow> bool" where
  "less_eq_interception_point a b \<longleftrightarrow> lifecycle_index a \<le> lifecycle_index b"

definition less_interception_point :: "interception_point \<Rightarrow> interception_point \<Rightarrow> bool" where
  "less_interception_point a b \<longleftrightarrow> lifecycle_index a < lifecycle_index b"

instance
  by standard
    (auto simp: less_eq_interception_point_def less_interception_point_def lifecycle_index_inj)

end

text \<open>The predicate of \<open>point_ext.rs\<close>.\<close>

definition is_tool_point :: "interception_point \<Rightarrow> bool" where
  "is_tool_point p \<longleftrightarrow> (case p of PreToolCall \<Rightarrow> True | PostToolCall \<Rightarrow> True | _ \<Rightarrow> False)"

section \<open>Verdicts\<close>

datatype decision = Allow | Deny | Transform

record warning =
  w_reason :: "string option"
  w_message :: "string option"

record transform =
  t_path :: string
  t_value :: json

record evidence =
  artefact :: "string option"
  verification_pointers :: "(string \<times> string) list"

record verdict =
  v_decision :: decision
  v_reason :: "string option"
  v_message :: "string option"
  v_warnings :: "warning list"
  v_approval :: "json_map option"
  v_transform :: "transform option"
  v_evidence :: "evidence option"
  v_result_labels :: "string list"

section \<open>The functions of the crate that the engine calls\<close>

text \<open>
  \<open>ah_validate\<close> is \<open>Verdict::validate\<close> and \<open>ah_parse_transform_path\<close> the path
  parser: \<open>None\<close> when the call succeeds, the debug text of the error otherwise.
  \<open>ah_canonical_json\<close> is RFC 8785 serialization, \<open>ah_evidence_value\<close> the
  \<open>Serialize\<close> implementation of \<open>Evidence\<close> (\<open>None\<close> when it fails), \<open>ah_allow\<close> the
  value of \<open>Verdict::allow()\<close>, \<open>ah_evidence_max_bytes\<close> the exported constant and
  \<open>ah_parse_point\<close> the \<open>FromStr\<close> implementation of \<open>InterceptionPoint\<close>.
\<close>

record agent_hooks =
  ah_validate :: "verdict \<Rightarrow> string option"
  ah_parse_transform_path :: "string \<Rightarrow> string option"
  ah_canonical_json :: "json \<Rightarrow> string"
  ah_evidence_value :: "evidence \<Rightarrow> json option"
  ah_allow :: verdict
  ah_evidence_max_bytes :: nat
  ah_parse_point :: "string \<Rightarrow> interception_point option"

end
