(* ===== verification/Transition.thy ===== *)
theory Transition
  imports Main
begin

text \<open>
  Labelled transition systems: executions as an inductive relation, and the
  interface \<open>guarded_system\<close>, which gives from step-wise obligations that an
  invariant holds in every reachable state and that a preorder (progress,
  monotonicity) relates the ends of every execution.
\<close>

inductive execution :: "('s \<Rightarrow> 'l \<Rightarrow> 's \<Rightarrow> bool) \<Rightarrow> 's \<Rightarrow> 'l list \<Rightarrow> 's \<Rightarrow> bool"
  for step :: "'s \<Rightarrow> 'l \<Rightarrow> 's \<Rightarrow> bool"
where
  execution_nil: "execution step s [] s"
| execution_snoc: "\<lbrakk>execution step s ls t; step t l u\<rbrakk> \<Longrightarrow> execution step s (ls @ [l]) u"

inductive_cases execution_nilE: "execution step s [] t"

definition reachable :: "('s \<Rightarrow> bool) \<Rightarrow> ('s \<Rightarrow> 'l \<Rightarrow> 's \<Rightarrow> bool) \<Rightarrow> 's \<Rightarrow> bool" where
  "reachable init step t \<longleftrightarrow> (\<exists>s ls. init s \<and> execution step s ls t)"

lemma execution_trans:
  "execution step t ms u \<Longrightarrow> execution step s ls t \<Longrightarrow> execution step s (ls @ ms) u"
proof (induction rule: execution.induct)
  case (execution_snoc s' ms t l u)
  then show ?case
    using execution.execution_snoc [of step s "ls @ ms" t l u] by simp
qed simp

lemma reachable_init: "init s \<Longrightarrow> reachable init step s"
  unfolding reachable_def by (meson execution_nil)

lemma reachable_execution:
  "reachable init step s \<Longrightarrow> execution step s ls t \<Longrightarrow> reachable init step t"
  unfolding reachable_def by (meson execution_trans)

locale guarded_system =
  fixes init :: "'s \<Rightarrow> bool"
    and step :: "'s \<Rightarrow> 'l \<Rightarrow> 's \<Rightarrow> bool"
    and inv :: "'s \<Rightarrow> bool"
    and prog :: "'s \<Rightarrow> 's \<Rightarrow> bool"
  assumes inv_init: "init s \<Longrightarrow> inv s"
    and inv_step: "\<lbrakk>inv s; step s l t\<rbrakk> \<Longrightarrow> inv t"
    and prog_refl: "prog s s"
    and prog_trans: "\<lbrakk>prog s t; prog t u\<rbrakk> \<Longrightarrow> prog s u"
    and prog_step: "\<lbrakk>inv s; step s l t\<rbrakk> \<Longrightarrow> prog s t"
begin

lemma execution_inv: "execution step s ls t \<Longrightarrow> inv s \<Longrightarrow> inv t"
  by (induction rule: execution.induct) (auto intro: inv_step)

lemma reachable_inv: "reachable init step s \<Longrightarrow> inv s"
  unfolding reachable_def by (auto intro: execution_inv inv_init)

lemma execution_prog: "execution step s ls t \<Longrightarrow> inv s \<Longrightarrow> prog s t"
proof (induction rule: execution.induct)
  case (execution_snoc s ls t l u)
  then show ?case
    using execution_inv prog_step prog_trans by blast
qed (rule prog_refl)

lemma reachable_prog: "reachable init step s \<Longrightarrow> execution step s ls t \<Longrightarrow> prog s t"
  by (rule execution_prog) (auto intro: reachable_inv)

end

end
