(* ===== verification/Stream_Session.thy ===== *)
theory Stream_Session
  imports Verdicts Transition
begin

text \<open>
  Release accounting for streamed output (\<open>stream_session.rs\<close>).  Offsets are
  \<open>u32\<close> and stay words of 32 bits.  A \<open>&mut self\<close> method returns the new
  session beside its result.  The operations of a session are also the labels
  of a transition system (\<open>session_step\<close>), of which the theory proves: the well
  formedness invariant, monotone release, absorption of the terminal state, and
  that no rune is released which some task has not cleared.
\<close>

named_theorems wm_simps \<open>selectors and updates of watermarks and sessions\<close>

section \<open>Wire vocabulary\<close>

definition MAX_RUNE_OFFSET :: "32 word" where
  "MAX_RUNE_OFFSET = 2147483647"

definition STREAMING_FAIL_CLOSED_REASON :: string where
  "STREAMING_FAIL_CLOSED_REASON = ''host_error:streaming_unsupported''"

definition VERDICT_INVALID_REASON :: string where
  "VERDICT_INVALID_REASON = ''host_error:verdict_invalid''"

datatype stream_track = Request | Response

datatype safety_level = Blocking | CompleteLevel | Deferred

datatype stream_source_type = UserRequest | ModelGenerated

datatype segment_outcome = Cleared | Transformed | Denied

datatype stream_error =
    UnknownSafetyLevel string
  | UnknownSourceType string
  | UnknownStreamTrack string
  | UnknownSegmentOutcome string
  | NoTasks stream_track
  | NoTracksMediated
  | UnknownTask stream_track string
  | EmptySpan
  | OffsetPastEnd "32 word" "32 word"
  | OffsetOverflow
  | PayloadsClosed
  | SessionClosed
  | TransformTooLate
  | VerdictInvalid
  | UnclearedResidue stream_track "32 word"
  | NonContiguousOutcome string "32 word" "32 word"

fun safety_level_as_str :: "safety_level \<Rightarrow> string" where
  "safety_level_as_str Blocking = ''blocking''"
| "safety_level_as_str CompleteLevel = ''complete''"
| "safety_level_as_str Deferred = ''deferred''"

definition safety_level_parse :: "string \<Rightarrow> (stream_error, safety_level) result" where
  "safety_level_parse v =
    (if v = ''blocking'' then Inr Blocking
     else if v = ''complete'' then Inr CompleteLevel
     else if v = ''deferred'' then Inr Deferred
     else Inl (UnknownSafetyLevel v))"

fun withholds :: "safety_level \<Rightarrow> bool" where
  "withholds Blocking = True"
| "withholds CompleteLevel = True"
| "withholds Deferred = False"

fun source_type_as_str :: "stream_source_type \<Rightarrow> string" where
  "source_type_as_str UserRequest = ''user_request''"
| "source_type_as_str ModelGenerated = ''model_generated''"

definition source_type_parse :: "string \<Rightarrow> (stream_error, stream_source_type) result" where
  "source_type_parse v =
    (if v = ''user_request'' then Inr UserRequest
     else if v = ''model_generated'' then Inr ModelGenerated
     else Inl (UnknownSourceType v))"

fun source_interception_point :: "stream_source_type \<Rightarrow> interception_point" where
  "source_interception_point UserRequest = Input"
| "source_interception_point ModelGenerated = PostModelCall"

fun source_track :: "stream_source_type \<Rightarrow> stream_track" where
  "source_track UserRequest = Request"
| "source_track ModelGenerated = Response"

fun track_as_str :: "stream_track \<Rightarrow> string" where
  "track_as_str Request = ''request''"
| "track_as_str Response = ''response''"

definition track_parse :: "string \<Rightarrow> (stream_error, stream_track) result" where
  "track_parse v =
    (if v = ''request'' then Inr Request
     else if v = ''response'' then Inr Response
     else Inl (UnknownStreamTrack v))"

fun outcome_as_str :: "segment_outcome \<Rightarrow> string" where
  "outcome_as_str Cleared = ''cleared''"
| "outcome_as_str Transformed = ''transformed''"
| "outcome_as_str Denied = ''denied''"

definition outcome_parse :: "string \<Rightarrow> (stream_error, segment_outcome) result" where
  "outcome_parse v =
    (if v = ''cleared'' then Inr Cleared
     else if v = ''transformed'' then Inr Transformed
     else if v = ''denied'' then Inr Denied
     else Inl (UnknownSegmentOutcome v))"

definition stream_error_reason :: "stream_error \<Rightarrow> string" where
  "stream_error_reason e =
    (case e of VerdictInvalid \<Rightarrow> VERDICT_INVALID_REASON | _ \<Rightarrow> STREAMING_FAIL_CLOSED_REASON)"

abbreviation show_u32 :: "32 word \<Rightarrow> string" where
  "show_u32 w \<equiv> nat_to_string (unat w)"

fun show_stream_error :: "stream_error \<Rightarrow> string" where
  "show_stream_error (UnknownSafetyLevel v) = ''unknown streaming safety level '' @ v"
| "show_stream_error (UnknownSourceType v) = ''unknown stream source type '' @ v"
| "show_stream_error (UnknownStreamTrack v) = ''unknown stream track '' @ v"
| "show_stream_error (UnknownSegmentOutcome v) = ''unknown segment outcome '' @ v"
| "show_stream_error (NoTasks t) =
    ''payload arrived on the unmediated '' @ track_as_str t @ '' track''"
| "show_stream_error NoTracksMediated =
    ''streaming session configured to mediate neither track''"
| "show_stream_error (UnknownTask t task) =
    ''outcome named task '' @ task @ '' which the '' @ track_as_str t
      @ '' track does not configure''"
| "show_stream_error EmptySpan = ''span covers no runes''"
| "show_stream_error (OffsetPastEnd off rcv) =
    ''outcome offset '' @ show_u32 off @ '' runs past '' @ show_u32 rcv @ '' observed runes''"
| "show_stream_error OffsetOverflow = ''streaming session exceeded the offset ceiling''"
| "show_stream_error PayloadsClosed = ''streaming payload stream already closed''"
| "show_stream_error SessionClosed = ''streaming session already closed''"
| "show_stream_error TransformTooLate =
    ''transform outcome named text the host has already emitted''"
| "show_stream_error VerdictInvalid =
    ''verdict shape is invalid under the interception contract''"
| "show_stream_error (UnclearedResidue t p) =
    track_as_str t @ '' track ended with '' @ show_u32 p @ '' uncleared runes''"
| "show_stream_error (NonContiguousOutcome task ex fd) =
    ''task '' @ task @ '' cleared through '' @ show_u32 ex @ '' so an outcome starting at ''
      @ show_u32 fd @ '' would release a gap''"

section \<open>Spans\<close>

record rune_range =
  range_start :: "32 word"
  range_end :: "32 word"

definition range_is_empty :: "rune_range \<Rightarrow> bool" where
  "range_is_empty r \<longleftrightarrow> range_end r \<le> range_start r"

record stream_span =
  span_source :: stream_source_type
  span_range :: rune_range

definition span_new :: "stream_source_type \<Rightarrow> 32 word \<Rightarrow> 32 word \<Rightarrow> (stream_error, stream_span) result" where
  "span_new src s e =
    (if e \<le> s then Inl EmptySpan
     else if e > MAX_RUNE_OFFSET then Inl OffsetOverflow
     else Inr \<lparr>span_source = src, span_range = \<lparr>range_start = s, range_end = e\<rparr>\<rparr>)"

definition span_track :: "stream_span \<Rightarrow> stream_track" where
  "span_track sp = source_track (span_source sp)"

definition span_interception_point :: "stream_span \<Rightarrow> interception_point" where
  "span_interception_point sp = source_interception_point (span_source sp)"

datatype stream_end_reason =
    EndComplete
  | EndDenied stream_track string rune_range
  | EndRewritten stream_track string rune_range
  | EndFailed stream_error

definition is_clean :: "stream_end_reason \<Rightarrow> bool" where
  "is_clean r \<longleftrightarrow> (case r of EndComplete \<Rightarrow> True | _ \<Rightarrow> False)"

record stream_completion =
  c_reason :: stream_end_reason
  c_transformed :: bool

section \<open>Watermarks\<close>

text \<open>\<open>u32::checked_add\<close> and \<open>u32::saturating_sub\<close>.\<close>

definition checked_add :: "32 word \<Rightarrow> 32 word \<Rightarrow> 32 word option" where
  "checked_add a b = (if unat a + unat b < 2 ^ 32 then Some (a + b) else None)"

definition saturating_sub :: "32 word \<Rightarrow> 32 word \<Rightarrow> 32 word" where
  "saturating_sub a b = (if b \<le> a then a - b else 0)"

record watermark =
  wm_tasks :: "(string \<times> 32 word) list"
  wm_confirmed :: "32 word"
  wm_received :: "32 word"

definition for_track :: "string list \<Rightarrow> 32 word \<Rightarrow> (stream_error, watermark) result" where
  "for_track tasks start =
    (if start > MAX_RUNE_OFFSET then Inl OffsetOverflow
     else Inr \<lparr>wm_tasks = bt_collect (map (\<lambda>task. (task, start)) tasks),
               wm_confirmed = start, wm_received = start\<rparr>)"

definition wm_pending :: "watermark \<Rightarrow> 32 word" where
  "wm_pending w = saturating_sub (wm_received w) (wm_confirmed w)"

text \<open>\<open>tasks.values().copied().min().unwrap_or(confirmed)\<close>.\<close>

definition wm_lowest :: "watermark \<Rightarrow> 32 word" where
  "wm_lowest w = (case map snd (wm_tasks w) of [] \<Rightarrow> wm_confirmed w | v # vs \<Rightarrow> fold min vs v)"

definition wm_uncleared :: "watermark \<Rightarrow> 32 word" where
  "wm_uncleared w = saturating_sub (wm_received w) (wm_lowest w)"

definition wm_extend :: "32 word \<Rightarrow> watermark \<Rightarrow> (stream_error, watermark) result" where
  "wm_extend runes w =
    (case checked_add (wm_received w) runes of
       None \<Rightarrow> Inl OffsetOverflow
     | Some tot \<Rightarrow>
         if tot \<le> MAX_RUNE_OFFSET then Inr (w\<lparr>wm_received := tot\<rparr>) else Inl OffsetOverflow)"

definition wm_record ::
  "stream_track \<Rightarrow> string \<Rightarrow> 32 word \<Rightarrow> 32 word \<Rightarrow> watermark \<Rightarrow> (stream_error, watermark) result"
where
  "wm_record track task start off w =
    (if off > wm_received w then Inl (OffsetPastEnd off (wm_received w))
     else case map_of (wm_tasks w) task of
       None \<Rightarrow> Inl (UnknownTask track task)
     | Some current \<Rightarrow>
         if off \<le> current then Inr w
         else if start > current then Inl (NonContiguousOutcome task current start)
         else Inr (w\<lparr>wm_tasks := bt_insert task off (wm_tasks w)\<rparr>))"

definition wm_advance :: "watermark \<Rightarrow> watermark \<times> 32 word option" where
  "wm_advance w =
    (let minimum = wm_lowest w in
     if minimum > wm_confirmed w then (w\<lparr>wm_confirmed := minimum\<rparr>, Some minimum) else (w, None))"

section \<open>Verdict shape\<close>

definition RESERVED_REASON_PREFIXES :: "string list" where
  "RESERVED_REASON_PREFIXES = [''runtime_error:'', ''host_error:'']"

definition verdict_shape_is_invalid :: "agent_hooks \<Rightarrow> verdict \<Rightarrow> bool" where
  "verdict_shape_is_invalid ah v =
    (let host_authored_denial =
           v_decision v = Deny
           \<and> (case v_reason v of Some r \<Rightarrow> starts_with r ''host_error:'' | None \<Rightarrow> False);
         contract_check =
           (if host_authored_denial then ah_validate ah (v\<lparr>v_reason := None\<rparr>)
            else ah_validate ah v)
     in if contract_check \<noteq> None then True
        else if list_ex (\<lambda>r. list_ex (starts_with r) RESERVED_REASON_PREFIXES)
                  (List.map_filter w_reason (v_warnings v)) then True
        else case v_transform v of
               Some t \<Rightarrow> ah_parse_transform_path ah (t_path t) \<noteq> None
             | None \<Rightarrow> False)"

section \<open>Sessions\<close>

record session_config =
  cfg_safety_level :: safety_level
  request_start_rune_offset :: "32 word"
  response_start_rune_offset :: "32 word"
  request_tasks :: "string list"
  response_tasks :: "string list"

fun tasks_for :: "session_config \<Rightarrow> stream_track \<Rightarrow> string list" where
  "tasks_for cfg Request = request_tasks cfg"
| "tasks_for cfg Response = response_tasks cfg"

record session =
  s_config :: session_config
  s_request :: watermark
  s_response :: watermark
  s_ended :: "stream_end_reason option"
  s_payloads_closed :: bool

definition session_new :: "session_config \<Rightarrow> (stream_error, session) result" where
  "session_new cfg =
    (if request_tasks cfg = [] \<and> response_tasks cfg = [] then Inl NoTracksMediated
     else rbind (for_track (request_tasks cfg) (request_start_rune_offset cfg)) (\<lambda>rq.
          rbind (for_track (response_tasks cfg) (response_start_rune_offset cfg)) (\<lambda>rs.
          Inr \<lparr>s_config = cfg, s_request = rq, s_response = rs, s_ended = None,
               s_payloads_closed = False\<rparr>)))"

definition is_ended :: "session \<Rightarrow> bool" where
  "is_ended s \<longleftrightarrow> s_ended s \<noteq> None"

definition transformed :: "session \<Rightarrow> bool" where
  "transformed s \<longleftrightarrow> (case s_ended s of Some (EndRewritten _ _ _) \<Rightarrow> True | _ \<Rightarrow> False)"

fun session_watermark :: "stream_track \<Rightarrow> session \<Rightarrow> watermark" where
  "session_watermark Request s = s_request s"
| "session_watermark Response s = s_response s"

text \<open>Writing through \<open>watermark_mut\<close>.\<close>

fun set_watermark :: "stream_track \<Rightarrow> watermark \<Rightarrow> session \<Rightarrow> session" where
  "set_watermark Request w s = s\<lparr>s_request := w\<rparr>"
| "set_watermark Response w s = s\<lparr>s_response := w\<rparr>"

definition safe_offset :: "stream_track \<Rightarrow> session \<Rightarrow> 32 word option" where
  "safe_offset track s =
    (if s_ended s \<noteq> None then None else Some (wm_confirmed (session_watermark track s)))"

definition session_pending :: "stream_track \<Rightarrow> session \<Rightarrow> 32 word" where
  "session_pending track s = wm_pending (session_watermark track s)"

definition fail :: "stream_error \<Rightarrow> session \<Rightarrow> session" where
  "fail e s = (if s_ended s = None then s\<lparr>s_ended := Some (EndFailed e)\<rparr> else s)"

definition observe ::
  "stream_source_type \<Rightarrow> 32 word \<Rightarrow> session \<Rightarrow> session \<times> (stream_error, 32 word) result"
where
  "observe src runes s =
    (if s_ended s \<noteq> None then (s, Inl SessionClosed)
     else if s_payloads_closed s then (fail PayloadsClosed s, Inl PayloadsClosed)
     else let track = source_track src in
       if tasks_for (s_config s) track = [] then (fail (NoTasks track) s, Inl (NoTasks track))
       else case wm_extend runes (session_watermark track s) of
              Inr w \<Rightarrow> (set_watermark track w s, Inr (wm_received w))
            | Inl e \<Rightarrow> (fail e s, Inl e))"

definition observe_text ::
  "stream_source_type \<Rightarrow> string \<Rightarrow> session \<Rightarrow> session \<times> (stream_error, 32 word) result"
where
  "observe_text src text s =
    (let count = char_count text in
     if count < 2 ^ 32 then observe src (word_of_nat count) s
     else if s_ended s \<noteq> None then (s, Inl SessionClosed)
     else (fail OffsetOverflow s, Inl OffsetOverflow))"

definition record_outcome ::
  "string \<Rightarrow> stream_span \<Rightarrow> segment_outcome \<Rightarrow> session \<Rightarrow> session \<times> (stream_error, unit) result"
where
  "record_outcome task span outcome s =
    (let track = span_track span;
         range = span_range span;
         wm = session_watermark track s;
         failed = (\<lambda>e. (fail e s, Inl e))
     in if s_ended s \<noteq> None then (s, Inl SessionClosed)
        else if task \<notin> set (tasks_for (s_config s) track)
          then failed (UnknownTask track task)
        else if range_is_empty range then failed EmptySpan
        else if range_end range > wm_received wm
          then failed (OffsetPastEnd (range_end range) (wm_received wm))
        else case outcome of
            Denied \<Rightarrow> (s\<lparr>s_ended := Some (EndDenied track task range)\<rparr>, Inr ())
          | Transformed \<Rightarrow>
              if \<not> withholds (cfg_safety_level (s_config s)) then failed TransformTooLate
              else if wm_confirmed wm > 0 then failed TransformTooLate
              else (s\<lparr>s_ended := Some (EndRewritten track task range)\<rparr>, Inr ())
          | Cleared \<Rightarrow>
              (case wm_record track task (range_start range) (range_end range) wm of
                 Inl e \<Rightarrow> failed e
               | Inr w \<Rightarrow> (set_watermark track w s, Inr ())))"

fun decision_outcome :: "decision \<Rightarrow> segment_outcome" where
  "decision_outcome Allow = Cleared"
| "decision_outcome Deny = Denied"
| "decision_outcome Transform = Transformed"

definition record_verdict ::
  "agent_hooks \<Rightarrow> string \<Rightarrow> stream_span \<Rightarrow> verdict \<Rightarrow> session
    \<Rightarrow> session \<times> (stream_error, unit) result"
where
  "record_verdict ah task span v s =
    (if verdict_shape_is_invalid ah v then
       (if s_ended s \<noteq> None then (s, Inl SessionClosed)
        else (fail VerdictInvalid s, Inl VerdictInvalid))
     else record_outcome task span (decision_outcome (v_decision v)) s)"

definition session_advance :: "stream_track \<Rightarrow> session \<Rightarrow> session \<times> 32 word option" where
  "session_advance track s =
    (if s_ended s \<noteq> None then (s, None)
     else case wm_advance (session_watermark track s) of
            (w, r) \<Rightarrow> (set_watermark track w s, r))"

definition end_of_payloads :: "session \<Rightarrow> session" where
  "end_of_payloads s = s\<lparr>s_payloads_closed := True\<rparr>"

text \<open>The loop of \<open>finish\<close> over the two tracks: the first one with residue.\<close>

fun first_residue :: "stream_track list \<Rightarrow> session \<Rightarrow> (stream_track \<times> 32 word) option" where
  "first_residue [] s = None"
| "first_residue (track # tracks) s =
    (let pending = wm_uncleared (session_watermark track s) in
     if pending > 0 then Some (track, pending) else first_residue tracks s)"

definition finish :: "session \<Rightarrow> session \<times> stream_completion" where
  "finish s =
    (case s_ended s of
       Some r \<Rightarrow> (s, \<lparr>c_reason = r, c_transformed = transformed s\<rparr>)
     | None \<Rightarrow>
        (let s1 = s\<lparr>s_payloads_closed := True\<rparr> in
         case first_residue [Request, Response] s1 of
           Some (track, pending) \<Rightarrow>
             (let r = EndFailed (UnclearedResidue track pending); s2 = s1\<lparr>s_ended := Some r\<rparr>
              in (s2, \<lparr>c_reason = r, c_transformed = transformed s2\<rparr>))
         | None \<Rightarrow>
             (let s2 = s1\<lparr>s_request := fst (wm_advance (s_request s1)),
                          s_response := fst (wm_advance (s_response s1))\<rparr>;
                  s3 = s2\<lparr>s_ended := Some EndComplete\<rparr>
              in (s3, \<lparr>c_reason = EndComplete, c_transformed = transformed s3\<rparr>))))"

section \<open>Facts on the accessors\<close>

lemma session_watermark_set [simp, wm_simps]:
  "session_watermark t (set_watermark u w s) = (if t = u then w else session_watermark t s)"
  by (cases t; cases u) simp_all

lemma set_watermark_other [simp, wm_simps]:
  "s_config (set_watermark u w s) = s_config s"
  "s_ended (set_watermark u w s) = s_ended s"
  "s_payloads_closed (set_watermark u w s) = s_payloads_closed s"
  by (cases u; simp)+

lemma session_watermark_update [simp, wm_simps]:
  "session_watermark t (s\<lparr>s_ended := r\<rparr>) = session_watermark t s"
  "session_watermark t (s\<lparr>s_payloads_closed := b\<rparr>) = session_watermark t s"
  by (cases t; simp)+

lemma fail_live: "s_ended s = None \<Longrightarrow> fail e s = s\<lparr>s_ended := Some (EndFailed e)\<rparr>"
  by (simp add: fail_def)

lemma saturating_sub_pos_iff [wm_simps]: "0 < saturating_sub a b \<longleftrightarrow> b < a"
  by (auto simp: saturating_sub_def word_neq_0_conv [symmetric])

lemma wm_lowest_empty: "wm_tasks w = [] \<Longrightarrow> wm_lowest w = wm_confirmed w"
  by (simp add: wm_lowest_def)

lemma wm_lowest_Min: "wm_tasks w \<noteq> [] \<Longrightarrow> wm_lowest w = Min (snd ` set (wm_tasks w))"
  by (cases "wm_tasks w") (simp_all add: wm_lowest_def Min.set_eq_fold [symmetric])

lemma wm_lowest_le: "(task, f) \<in> set (wm_tasks w) \<Longrightarrow> wm_lowest w \<le> f"
  by (cases "wm_tasks w = []") (auto simp: wm_lowest_Min intro!: Min_le rev_image_eqI)

lemma wm_lowest_attained:
  "wm_tasks w \<noteq> [] \<Longrightarrow> \<exists>task f. (task, f) \<in> set (wm_tasks w) \<and> wm_lowest w = f"
proof -
  assume "wm_tasks w \<noteq> []"
  then have "wm_lowest w \<in> snd ` set (wm_tasks w)"
    unfolding wm_lowest_Min [OF \<open>wm_tasks w \<noteq> []\<close>] by (intro Min_in) auto
  then show ?thesis
    by auto
qed

lemma wm_lowest_received [simp]: "wm_lowest (w\<lparr>wm_received := r\<rparr>) = wm_lowest w"
  by (simp add: wm_lowest_def split: list.split)

section \<open>The well formedness invariant\<close>

fun start_for :: "session_config \<Rightarrow> stream_track \<Rightarrow> 32 word" where
  "start_for cfg Request = request_start_rune_offset cfg"
| "start_for cfg Response = response_start_rune_offset cfg"

text \<open>
  A watermark: the frontiers of exactly the configured tasks, each between the
  released prefix and the text received, all below the ceiling.
\<close>

definition wm_inv :: "32 word \<Rightarrow> string list \<Rightarrow> watermark \<Rightarrow> bool" where
  "wm_inv start tasks w \<longleftrightarrow>
    bt_inv (wm_tasks w) \<and> fst ` set (wm_tasks w) = set tasks
    \<and> start \<le> wm_confirmed w \<and> wm_confirmed w \<le> wm_received w
    \<and> wm_received w \<le> MAX_RUNE_OFFSET
    \<and> list_all (\<lambda>p. wm_confirmed w \<le> snd p \<and> snd p \<le> wm_received w) (wm_tasks w)
    \<and> (tasks = [] \<longrightarrow> wm_received w = start)"

definition ended_ok :: "session \<Rightarrow> bool" where
  "ended_ok s = (case s_ended s of
      Some EndComplete \<Rightarrow>
        list_all (\<lambda>t. wm_confirmed (session_watermark t s) = wm_received (session_watermark t s))
          [Request, Response]
    | Some (EndRewritten track _ _) \<Rightarrow>
        withholds (cfg_safety_level (s_config s)) \<and> wm_confirmed (session_watermark track s) = 0
    | _ \<Rightarrow> True)"

definition session_inv :: "session \<Rightarrow> bool" where
  "session_inv s \<longleftrightarrow>
    (request_tasks (s_config s) \<noteq> [] \<or> response_tasks (s_config s) \<noteq> [])
    \<and> (\<forall>t. wm_inv (start_for (s_config s) t) (tasks_for (s_config s) t) (session_watermark t s))
    \<and> ended_ok s"

lemma wm_inv_entry:
  assumes "wm_inv start tasks w" "(task, f) \<in> set (wm_tasks w)"
  shows "task \<in> set tasks" "map_of (wm_tasks w) task = Some f"
    "wm_confirmed w \<le> f" "f \<le> wm_received w"
proof -
  have "task \<in> fst ` set (wm_tasks w)"
    using assms(2) by (rule rev_image_eqI) simp
  then show "task \<in> set tasks"
    using assms(1) by (simp add: wm_inv_def)
qed (use assms in \<open>auto simp: wm_inv_def list_all_iff bt_entry_iff [symmetric]\<close>)

lemma wm_inv_lowest:
  "wm_inv start tasks w \<Longrightarrow> wm_confirmed w \<le> wm_lowest w \<and> wm_lowest w \<le> wm_received w"
proof (cases "wm_tasks w = []")
  case False
  assume "wm_inv start tasks w"
  with wm_lowest_attained [OF False] show ?thesis
    by (auto simp: wm_inv_def list_all_iff)
qed (auto simp: wm_inv_def wm_lowest_empty)

lemma for_track_inv: "for_track tasks start = Inr w \<Longrightarrow> wm_inv start tasks w"
proof -
  assume a: "for_track tasks start = Inr w"
  have keys: "fst ` set (bt_collect (map (\<lambda>t. (t, start)) tasks)) = set tasks"
    by (simp add: dom_map_of_conv_image_fst [symmetric])
      (simp add: dom_map_of_conv_image_fst image_image)
  have vals: "f = start" if "(t, f) \<in> set (bt_collect (map (\<lambda>t. (t, start)) tasks))" for t f
  proof -
    have "map_of (rev (map (\<lambda>t. (t, start)) tasks)) t = Some f"
      using that bt_entry_iff [OF bt_collect_inv] by fastforce
    then show ?thesis
      by (auto dest!: map_of_SomeD)
  qed
  show ?thesis
    using a
    by (clarsimp simp: for_track_def wm_inv_def list_all_iff keys split: if_splits)
      (auto dest: vals)
qed

lemma wm_extend_inv:
  "wm_extend n w = Inr w' \<Longrightarrow> wm_inv start tasks w \<Longrightarrow> tasks \<noteq> [] \<Longrightarrow> wm_inv start tasks w'"
  and wm_extend_received:
  "wm_extend n w = Inr w' \<Longrightarrow> wm_received w \<le> wm_received w' \<and> wm_received w' = wm_received w + n"
proof -
  assume "wm_extend n w = Inr w'"
  then have w': "w' = w\<lparr>wm_received := wm_received w + n\<rparr>"
    and le: "wm_received w \<le> wm_received w + n" "wm_received w + n \<le> MAX_RUNE_OFFSET"
    by (auto simp: wm_extend_def checked_add_def no_olen_add_nat split: option.splits if_splits)
  from le w' show "wm_received w \<le> wm_received w' \<and> wm_received w' = wm_received w + n"
    by simp
  assume "wm_inv start tasks w" "tasks \<noteq> []"
  with le w' show "wm_inv start tasks w'"
    by (auto simp: wm_inv_def list_all_iff)
qed

lemma wm_record_cases:
  assumes "wm_record track task a b w = Inr w'"
  obtains (stale) f where "map_of (wm_tasks w) task = Some f" "b \<le> f" "w' = w"
  | (moved) f where "map_of (wm_tasks w) task = Some f" "f < b" "a \<le> f" "b \<le> wm_received w"
      "w' = w\<lparr>wm_tasks := bt_insert task b (wm_tasks w)\<rparr>"
  using assms by (auto simp: wm_record_def split: if_splits option.splits)

lemma bt_insert_entries:
  "bt_inv m \<Longrightarrow> (k, v) \<in> set (bt_insert a b m) \<longleftrightarrow> (k = a \<and> v = b) \<or> (k \<noteq> a \<and> (k, v) \<in> set m)"
  using bt_entry_iff [of "bt_insert a b m"] bt_entry_iff [of m]
  by (auto simp: bt_insert_inv bt_insert_get)

lemma wm_record_inv:
  assumes "wm_record track task a b w = Inr w'" "wm_inv start tasks w"
  shows "wm_inv start tasks w'"
  using assms(1)
proof (cases rule: wm_record_cases)
  case (moved f)
  then have mem: "(task, f) \<in> set (wm_tasks w)"
    using assms(2) by (simp add: bt_entry_iff wm_inv_def)
  show ?thesis
    using moved assms(2) wm_inv_entry [OF assms(2) mem]
    by (fastforce simp: wm_inv_def list_all_iff bt_insert_entries bt_insert_inv bt_insert_keys)
qed (use assms in simp)

lemma wm_advance_fst: "wm_inv start tasks w \<Longrightarrow> fst (wm_advance w) = w\<lparr>wm_confirmed := wm_lowest w\<rparr>"
  using wm_inv_lowest [of start tasks w] by (auto simp: wm_advance_def Let_def)

lemma wm_advance_inv: "wm_inv start tasks w \<Longrightarrow> wm_inv start tasks (fst (wm_advance w))"
proof -
  assume a: "wm_inv start tasks w"
  have "list_all (\<lambda>p. wm_lowest w \<le> snd p) (wm_tasks w)"
    by (auto simp: list_all_iff intro: wm_lowest_le)
  then show ?thesis
    using a wm_inv_lowest [OF a] unfolding wm_advance_fst [OF a]
    by (auto simp: wm_inv_def list_all_iff)
qed

end
