(* ===== verification/Example_Hooks.thy ===== *)
theory Example_Hooks
  imports Verdicts
begin

text \<open>
  A concrete instance of the agent-hooks functions, used to evaluate the model on
  concrete inputs.  It follows the documented contract: \<open>jcs\<close> writes the RFC 8785
  form of values without fractional numbers, \<open>example_validate\<close> checks that the
  decision, the transform and the approval agree and that evidence is within
  its cap.
\<close>

definition jcs_escape :: "char \<Rightarrow> string" where
  "jcs_escape c =
    (if byte c = 34 then [CHR 0x5C, CHR 0x22]
     else if byte c = 92 then [CHR 0x5C, CHR 0x5C]
     else if byte c = 8 then [CHR 0x5C, CHR ''b'']
     else if byte c = 9 then [CHR 0x5C, CHR ''t'']
     else if byte c = 10 then [CHR 0x5C, CHR ''n'']
     else if byte c = 12 then [CHR 0x5C, CHR ''f'']
     else if byte c = 13 then [CHR 0x5C, CHR ''r'']
     else if byte c < 32 then CHR 0x5C # ''u00'' @ lower [c]
     else [c])"

definition jcs_string :: "string \<Rightarrow> string" where
  "jcs_string s = [CHR 0x22] @ concat (map jcs_escape s) @ [CHR 0x22]"

fun jcs :: "json \<Rightarrow> string" where
  "jcs JNull = ''null''"
| "jcs (JBool b) = (if b then ''true'' else ''false'')"
| "jcs (JNumber (PosInt n)) = nat_to_string (unat n)"
| "jcs (JNumber (NegInt n)) = ''-'' @ nat_to_string (unat (- n))"
| "jcs (JNumber (Float n)) = ''0''"
| "jcs (JString s) = jcs_string s"
| "jcs (JArray xs) = ''['' @ join '','' (map jcs xs) @ '']''"
| "jcs (JObject m) = ''{'' @ join '',''
      (map snd (sort_key (encode_utf16 \<circ> fst)
        (map (\<lambda>p. (fst p, jcs_string (fst p) @ '':'' @ jcs (snd p))) m))) @ ''}''"

definition example_evidence_value :: "evidence \<Rightarrow> json option" where
  "example_evidence_value e = Some (JObject (
      (case artefact e of Some a \<Rightarrow> [(''artefact'', JString a)] | None \<Rightarrow> [])
      @ (if verification_pointers e = [] then []
         else [(''verification_pointers'',
                JObject (map (\<lambda>p. (fst p, JString (snd p))) (verification_pointers e)))])))"

definition example_validate :: "nat \<Rightarrow> verdict \<Rightarrow> string option" where
  "example_validate cap v =
    (if (v_decision v = Transform) \<noteq> (v_transform v \<noteq> None) then Some ''TransformMismatch''
     else if v_approval v \<noteq> None \<and> v_decision v \<noteq> Deny then Some ''ApprovalNotPermitted''
     else if (case v_reason v of Some r \<Rightarrow> starts_with r ''host_error:'' | None \<Rightarrow> False)
       then Some ''ReservedReason''
     else if (case v_evidence v of None \<Rightarrow> False
              | Some e \<Rightarrow> cap < length (jcs (the (example_evidence_value e))))
       then Some ''EvidenceTooLarge''
     else None)"

definition example_hooks :: "nat \<Rightarrow> agent_hooks" where
  "example_hooks cap = \<lparr>
     ah_validate = example_validate cap,
     ah_parse_transform_path =
       (\<lambda>p. if starts_with p ''$target'' then None else Some ''TransformTargetForbidden''),
     ah_canonical_json = jcs,
     ah_evidence_value = example_evidence_value,
     ah_allow = \<lparr>v_decision = Allow, v_reason = None, v_message = None, v_warnings = [],
       v_approval = None, v_transform = None, v_evidence = None, v_result_labels = []\<rparr>,
     ah_evidence_max_bytes = cap,
     ah_parse_point = (\<lambda>s. find (\<lambda>p. point_as_str p = s)
       [AgentStartup, Input, PreModelCall, PostModelCall, PreToolCall, PostToolCall, Output, AgentShutdown])\<rparr>"

end
