(* ===== verification/Stream_Release.thy ===== *)
theory Stream_Release
  imports Stream_Session Example_Hooks
begin

text \<open>
  The session as a transition system and what it promises a host.

  The labels are the calls a host makes; \<open>session_step\<close> has one rule per public
  \<open>&mut self\<close> method.  \<open>session_change\<close> is the abstract machine: the seven ways in
  which a call may change the state.  \<open>step_refines\<close> shows that every call is one
  of them; the invariant, monotone progress and the clearance theorems are
  proved by cases on the abstract machine only.
\<close>

section \<open>Calls and steps\<close>

datatype session_op =
    Observe stream_source_type "32 word"
  | ObserveText stream_source_type string
  | RecordOutcome string stream_span segment_outcome
  | RecordVerdict string stream_span verdict
  | Advance stream_track
  | EndOfPayloads
  | Finish

fun apply_op :: "agent_hooks \<Rightarrow> session_op \<Rightarrow> session \<Rightarrow> session" where
  "apply_op ah (Observe src n) s = fst (observe src n s)"
| "apply_op ah (ObserveText src text) s = fst (observe_text src text s)"
| "apply_op ah (RecordOutcome task span outcome) s = fst (record_outcome task span outcome s)"
| "apply_op ah (RecordVerdict task span v) s = fst (record_verdict ah task span v s)"
| "apply_op ah (Advance track) s = fst (session_advance track s)"
| "apply_op ah EndOfPayloads s = end_of_payloads s"
| "apply_op ah Finish s = fst (finish s)"

inductive session_step :: "agent_hooks \<Rightarrow> session \<Rightarrow> session_op \<Rightarrow> session \<Rightarrow> bool"
  for ah :: agent_hooks
where
  step_observe: "session_step ah s (Observe src n) (fst (observe src n s))"
| step_observe_text: "session_step ah s (ObserveText src text) (fst (observe_text src text s))"
| step_outcome:
    "session_step ah s (RecordOutcome task span outcome) (fst (record_outcome task span outcome s))"
| step_verdict:
    "session_step ah s (RecordVerdict task span v) (fst (record_verdict ah task span v s))"
| step_advance: "session_step ah s (Advance track) (fst (session_advance track s))"
| step_close: "session_step ah s EndOfPayloads (end_of_payloads s)"
| step_finish: "session_step ah s Finish (fst (finish s))"

inductive_simps session_step_simps [simp]:
  "session_step ah s (Observe src n) t"
  "session_step ah s (ObserveText src text) t"
  "session_step ah s (RecordOutcome task span outcome) t"
  "session_step ah s (RecordVerdict task span v) t"
  "session_step ah s (Advance track) t"
  "session_step ah s EndOfPayloads t"
  "session_step ah s Finish t"

lemma session_step_iff: "session_step ah s l t \<longleftrightarrow> t = apply_op ah l s"
  by (cases l) auto

definition session_init :: "session \<Rightarrow> bool" where
  "session_init s \<longleftrightarrow> session_new (s_config s) = Inr s"

text \<open>The task and span that a call reports as cleared, if it reports one.\<close>

fun clearance :: "agent_hooks \<Rightarrow> session_op \<Rightarrow> (string \<times> stream_span) option" where
  "clearance ah (RecordOutcome task span Cleared) = Some (task, span)"
| "clearance ah (RecordVerdict task span v) =
    (if \<not> verdict_shape_is_invalid ah v \<and> v_decision v = Allow then Some (task, span) else None)"
| "clearance ah _ = None"

text \<open>Rune \<open>r\<close> of \<open>track\<close> lies in a span that \<open>task\<close> was reported to have cleared.\<close>

definition clears_rune :: "agent_hooks \<Rightarrow> stream_track \<Rightarrow> string \<Rightarrow> 32 word \<Rightarrow> session_op \<Rightarrow> bool" where
  "clears_rune ah track task r l = (case clearance ah l of
      None \<Rightarrow> False
    | Some (task', span) \<Rightarrow> task' = task \<and> span_track span = track
        \<and> range_start (span_range span) \<le> r \<and> r < range_end (span_range span))"

definition cleared_in :: "agent_hooks \<Rightarrow> session_op list \<Rightarrow> stream_track \<Rightarrow> string \<Rightarrow> 32 word \<Rightarrow> bool" where
  "cleared_in ah ls track task r \<longleftrightarrow> list_ex (clears_rune ah track task r) ls"

section \<open>The abstract machine\<close>

inductive session_change :: "agent_hooks \<Rightarrow> session \<Rightarrow> session_op \<Rightarrow> session \<Rightarrow> bool"
  for ah :: agent_hooks
where
  ch_idle: "s_ended s \<noteq> None \<or> clearance ah l = None \<Longrightarrow> session_change ah s l s"
| ch_end: "\<lbrakk>s_ended s = None; r \<noteq> EndComplete;
      \<And>track task range. r = EndRewritten track task range \<Longrightarrow>
        withholds (cfg_safety_level (s_config s)) \<and> wm_confirmed (session_watermark track s) = 0;
      s_payloads_closed s \<longrightarrow> pc\<rbrakk>
    \<Longrightarrow> session_change ah s l (s\<lparr>s_payloads_closed := pc, s_ended := Some r\<rparr>)"
| ch_extend: "\<lbrakk>s_ended s = None; clearance ah l = None; tasks_for (s_config s) track \<noteq> [];
      wm_extend n (session_watermark track s) = Inr w\<rbrakk>
    \<Longrightarrow> session_change ah s l (set_watermark track w s)"
| ch_record: "\<lbrakk>s_ended s = None; clearance ah l = Some (task, span);
      range_start (span_range span) < range_end (span_range span);
      wm_record (span_track span) task (range_start (span_range span))
        (range_end (span_range span)) (session_watermark (span_track span) s) = Inr w\<rbrakk>
    \<Longrightarrow> session_change ah s l (set_watermark (span_track span) w s)"
| ch_advance: "\<lbrakk>s_ended s = None; clearance ah l = None\<rbrakk>
    \<Longrightarrow> session_change ah s l
          (set_watermark track (fst (wm_advance (session_watermark track s))) s)"
| ch_close: "clearance ah l = None \<Longrightarrow> session_change ah s l (s\<lparr>s_payloads_closed := True\<rparr>)"
| ch_complete: "\<lbrakk>s_ended s = None; \<And>t. wm_uncleared (session_watermark t s) = 0\<rbrakk>
    \<Longrightarrow> session_change ah s l
      (s\<lparr>s_payloads_closed := True,
         s_request := fst (wm_advance (s_request s)),
         s_response := fst (wm_advance (s_response s)),
         s_ended := Some EndComplete\<rparr>)"

lemma change_fail: "s_ended s = None \<Longrightarrow> session_change ah s l (fail e s)"
  using ch_end [of s "EndFailed e" "s_payloads_closed s" ah l] by (simp add: fail_live)

lemma change_end:
  "\<lbrakk>s_ended s = None; r \<noteq> EndComplete;
    \<And>track task range. r = EndRewritten track task range \<Longrightarrow>
      withholds (cfg_safety_level (s_config s)) \<and> wm_confirmed (session_watermark track s) = 0\<rbrakk>
   \<Longrightarrow> session_change ah s l (s\<lparr>s_ended := Some r\<rparr>)"
  using ch_end [of s r "s_payloads_closed s" ah l] by simp

lemma change_observe:
  "clearance ah l = None \<Longrightarrow> session_change ah s l (fst (observe src n s))"
  by (auto simp: observe_def Let_def intro: ch_idle change_fail ch_extend split: sum.splits)

lemma change_observe_text:
  "clearance ah l = None \<Longrightarrow> session_change ah s l (fst (observe_text src text s))"
  by (auto simp: observe_text_def Let_def intro: ch_idle change_fail change_observe)

lemma change_outcome:
  assumes "clearance ah l = (if outcome = Cleared then Some (task, span) else None)"
  shows "session_change ah s l (fst (record_outcome task span outcome s))"
proof (cases "s_ended s")
  case None
  have cleared: "session_change ah s l (set_watermark (span_track span) w s)"
    if "outcome = Cleared" "\<not> range_is_empty (span_range span)"
      "wm_record (span_track span) task (range_start (span_range span))
        (range_end (span_range span)) (session_watermark (span_track span) s) = Inr w" for w
    using that None assms by (intro ch_record) (auto simp: range_is_empty_def)
  have rewritten: "session_change ah s l (s\<lparr>s_ended := Some (EndRewritten track task range)\<rparr>)"
    if "withholds (cfg_safety_level (s_config s))" "wm_confirmed (session_watermark track s) \<le> 0"
    for track task range
    using that None by (intro change_end) (auto simp: word_le_0_iff)
  show ?thesis
    using None
    by (auto simp: record_outcome_def Let_def not_less intro: cleared rewritten change_fail change_end
        split: segment_outcome.splits sum.splits)
qed (auto simp: record_outcome_def Let_def intro: ch_idle)

lemma change_verdict: "session_change ah s (RecordVerdict task span v) (fst (record_verdict ah task span v s))"
proof (cases "verdict_shape_is_invalid ah v")
  case False
  then show ?thesis
    by (cases "v_decision v") (simp_all add: record_verdict_def change_outcome)
qed (auto simp: record_verdict_def intro: ch_idle change_fail)

lemma change_advance:
  "clearance ah l = None \<Longrightarrow> session_change ah s l (fst (session_advance track s))"
  by (auto simp: session_advance_def split: prod.splits intro: ch_idle dest: ch_advance [of s ah l track])

lemma first_residue_None:
  "first_residue ts s = None \<longleftrightarrow> list_all (\<lambda>t. wm_uncleared (session_watermark t s) = 0) ts"
  by (induction ts) (auto simp: Let_def word_neq_0_conv [symmetric])

lemma change_finish: "clearance ah l = None \<Longrightarrow> session_change ah s l (fst (finish s))"
proof (cases "s_ended s")
  case None
  let ?s = "s\<lparr>s_payloads_closed := True\<rparr>"
  show ?thesis
  proof (cases "first_residue [Request, Response] ?s")
    case (Some p)
    then show ?thesis
      using None ch_end [of s "EndFailed (UnclearedResidue (fst p) (snd p))" True ah l]
      by (cases p) (simp add: finish_def Let_def del: first_residue.simps)
  next
    case none: None
    have "wm_uncleared (session_watermark t s) = 0" for t
      using none [unfolded first_residue_None] by (cases t) simp_all
    then show ?thesis
      using None none ch_complete [of s ah l] by (simp add: finish_def Let_def del: first_residue.simps)
  qed
qed (auto simp: finish_def intro: ch_idle)

text \<open>Every call of the session is a step of the abstract machine.\<close>

lemma step_refines: "session_step ah s l t \<Longrightarrow> session_change ah s l t"
proof (induction rule: session_step.induct)
  case (step_outcome s task span outcome)
  show ?case
    by (rule change_outcome) (cases outcome; simp)
qed (auto simp: end_of_payloads_def change_verdict
      intro: change_observe change_observe_text change_advance change_finish ch_close)

section \<open>Invariant and progress\<close>

definition wm_le :: "watermark \<Rightarrow> watermark \<Rightarrow> bool" where
  "wm_le w w' \<longleftrightarrow> wm_confirmed w \<le> wm_confirmed w' \<and> wm_received w \<le> wm_received w'
    \<and> (\<forall>task f. map_of (wm_tasks w) task = Some f \<longrightarrow>
        (\<exists>f'. map_of (wm_tasks w') task = Some f' \<and> f \<le> f'))"

definition session_progress :: "session \<Rightarrow> session \<Rightarrow> bool" where
  "session_progress s t \<longleftrightarrow>
    s_config t = s_config s
    \<and> (\<forall>track. wm_le (session_watermark track s) (session_watermark track t))
    \<and> (s_payloads_closed s \<longrightarrow> s_payloads_closed t)
    \<and> (s_ended s \<noteq> None \<longrightarrow> s_ended t = s_ended s
        \<and> s_request t = s_request s \<and> s_response t = s_response s)"

lemma wm_le_refl [simp]: "wm_le w w"
  by (simp add: wm_le_def)

lemma wm_le_trans: "wm_le u v \<Longrightarrow> wm_le v w \<Longrightarrow> wm_le u w"
  unfolding wm_le_def by (meson order_trans)

lemma wm_extend_le: "wm_extend n w = Inr w' \<Longrightarrow> wm_le w w'"
  using wm_extend_received [of n w w']
  by (auto simp: wm_le_def wm_extend_def split: option.splits if_splits)

lemma wm_record_le: "wm_record track task a b w = Inr w' \<Longrightarrow> wm_le w w'"
  by (erule wm_record_cases) (auto simp: wm_le_def bt_insert_get)

lemma wm_advance_le: "wm_le w (fst (wm_advance w))"
  by (auto simp: wm_advance_def Let_def wm_le_def)

lemma session_inv_track:
  "session_inv s \<Longrightarrow> wm_inv (start_for (s_config s) t) (tasks_for (s_config s) t) (session_watermark t s)"
  by (simp add: session_inv_def)

lemma new_track:
  "session_new cfg = Inr s \<Longrightarrow> for_track (tasks_for cfg t) (start_for cfg t) = Inr (session_watermark t s)"
  by (cases t) (auto simp: session_new_def rbind_eq_Inr_iff split: if_splits)

lemma for_track_frontier:
  "for_track tasks start = Inr w \<Longrightarrow> map_of (wm_tasks w) k = Some f \<Longrightarrow> f = start"
  by (clarsimp simp: for_track_def split: if_splits) (drule map_of_SomeD, auto)

lemma new_inv: "session_new cfg = Inr s \<Longrightarrow> session_inv s \<and> s_config s = cfg \<and> s_ended s = None"
proof -
  assume a: "session_new cfg = Inr s"
  have "wm_inv (start_for cfg t) (tasks_for cfg t) (session_watermark t s)" for t
    using new_track [OF a] by (rule for_track_inv)
  then show ?thesis
    using a by (auto simp: session_inv_def session_new_def rbind_eq_Inr_iff ended_ok_def split: if_splits)
qed

text \<open>A live session whose watermarks satisfy the invariant after replacing one of them.\<close>

lemma set_watermark_inv:
  assumes "session_inv s" "s_ended s = None"
    and "wm_inv (start_for (s_config s) t) (tasks_for (s_config s) t) w"
  shows "session_inv (set_watermark t w s)"
  using assms by (simp add: session_inv_def ended_ok_def)

lemma uncleared_zero: "wm_inv st ts w \<Longrightarrow> wm_uncleared w = 0 \<Longrightarrow> wm_lowest w = wm_received w"
  using wm_inv_lowest [of st ts w] saturating_sub_pos_iff [of "wm_received w" "wm_lowest w"]
  by (simp add: wm_uncleared_def)

lemma change_inv: "session_change ah s l t \<Longrightarrow> session_inv s \<Longrightarrow> session_inv t"
proof (induction rule: session_change.induct)
  case (ch_end s r pc l)
  then show ?case
    by (auto simp: session_inv_def ended_ok_def split: stream_end_reason.splits)
next
  case (ch_complete s l)
  let ?t = "s\<lparr>s_payloads_closed := True, s_request := fst (wm_advance (s_request s)),
    s_response := fst (wm_advance (s_response s)), s_ended := Some EndComplete\<rparr>"
  have wm: "session_watermark u ?t = fst (wm_advance (session_watermark u s))" for u
    by (cases u) simp_all
  have adv: "fst (wm_advance (session_watermark u s)) =
      (session_watermark u s)\<lparr>wm_confirmed := wm_received (session_watermark u s)\<rparr>" for u
    using session_inv_track [OF ch_complete.prems, of u] ch_complete.hyps(2)
    by (simp add: wm_advance_fst uncleared_zero)
  have "ended_ok ?t"
    using adv [of Request] adv [of Response] by (simp add: ended_ok_def)
  then show ?case
    using ch_complete.prems wm_advance_inv
    unfolding session_inv_def wm by simp
next
  case (ch_close l s)
  have "ended_ok (s\<lparr>s_payloads_closed := True\<rparr>) = ended_ok s"
    by (simp add: ended_ok_def cong: option.case_cong stream_end_reason.case_cong)
  then show ?case
    using ch_close by (simp add: session_inv_def)
qed (auto intro: set_watermark_inv wm_extend_inv wm_record_inv wm_advance_inv session_inv_track)

lemma change_progress: "session_change ah s l t \<Longrightarrow> session_progress s t"
proof (induction rule: session_change.induct)
  case (ch_complete s l)
  have "wm_le (session_watermark u s)
     (session_watermark u (s\<lparr>s_payloads_closed := True, s_request := fst (wm_advance (s_request s)),
      s_response := fst (wm_advance (s_response s)), s_ended := Some EndComplete\<rparr>))" for u
    by (cases u) (simp_all add: wm_advance_le)
  then show ?case
    using ch_complete by (simp add: session_progress_def)
next
  case (ch_advance s l track)
  then show ?case
    by (simp add: session_progress_def wm_advance_le)
qed (auto simp: session_progress_def dest: wm_extend_le wm_record_le)

interpretation stream: guarded_system session_init "session_step ah" session_inv session_progress
proof
  fix s assume "session_init s"
  then show "session_inv s"
    using new_inv by (simp add: session_init_def)
next
  fix s l t assume "session_inv s" "session_step ah s l t"
  then show "session_inv t"
    using step_refines change_inv by blast
next
  fix s l t assume "session_step ah s l t"
  then show "session_progress s t"
    using step_refines change_progress by blast
next
  fix s t u assume "session_progress s t" "session_progress t u"
  then show "session_progress s u"
    by (auto simp: session_progress_def intro: wm_le_trans)
qed (simp add: session_progress_def)

section \<open>Clearance history\<close>

text \<open>
  The frontier of a task against the calls made so far: every rune from the
  start offset to the frontier was cleared by that task, and while the session is
  live nothing beyond the frontier was.
\<close>

definition frontier_exact :: "agent_hooks \<Rightarrow> session_op list \<Rightarrow> session \<Rightarrow> bool" where
  "frontier_exact ah ls s \<longleftrightarrow>
    (\<forall>track task f. map_of (wm_tasks (session_watermark track s)) task = Some f \<longrightarrow>
      (\<forall>r. start_for (s_config s) track \<le> r \<and> r < f \<longrightarrow> cleared_in ah ls track task r)
      \<and> (s_ended s = None \<longrightarrow> (\<forall>r. cleared_in ah ls track task r \<longrightarrow> r < f)))"

lemma cleared_in_snoc [simp]:
  "cleared_in ah (ls @ [l]) track task r \<longleftrightarrow>
    cleared_in ah ls track task r \<or> clears_rune ah track task r l"
  by (simp add: cleared_in_def)

lemma clears_rune_None [simp]: "clearance ah l = None \<Longrightarrow> \<not> clears_rune ah track task r l"
  by (simp add: clears_rune_def)

lemma wm_advance_tasks [simp]: "wm_tasks (fst (wm_advance w)) = wm_tasks w"
  by (simp add: wm_advance_def Let_def)

lemma wm_extend_tasks: "wm_extend n w = Inr w' \<Longrightarrow> wm_tasks w' = wm_tasks w"
  by (auto simp: wm_extend_def split: option.splits if_splits)

lemma frontier_exact_idle:
  assumes "frontier_exact ah ls s" "s_config t = s_config s"
    and "\<And>u. wm_tasks (session_watermark u t) = wm_tasks (session_watermark u s)"
    and "s_ended t \<noteq> None \<or> (s_ended s = None \<and> clearance ah l = None)"
  shows "frontier_exact ah (ls @ [l]) t"
  using assms unfolding frontier_exact_def by (auto simp: clears_rune_def)

lemma frontier_exact_record:
  assumes h: "frontier_exact ah ls s" and live: "s_ended s = None"
    and c: "clearance ah l = Some (task, span)"
    and rec: "wm_record (span_track span) task (range_start (span_range span))
        (range_end (span_range span)) (session_watermark (span_track span) s) = Inr w"
  shows "frontier_exact ah (ls @ [l]) (set_watermark (span_track span) w s)"
  using rec
proof (cases rule: wm_record_cases)
  case (stale f)
  then have "set_watermark (span_track span) w s = s"
    by (cases "span_track span") simp_all
  with h live stale c show ?thesis
    by (fastforce simp: frontier_exact_def clears_rune_def)
next
  case (moved f)
  have "cleared_in ah ls (span_track span) task r \<or> clears_rune ah (span_track span) task r l"
    if "start_for (s_config s) (span_track span) \<le> r" "r < range_end (span_range span)" for r
    using that h moved c unfolding frontier_exact_def clears_rune_def
    by (cases "r < f") auto
  moreover have "r < range_end (span_range span)" if "cleared_in ah ls (span_track span) task r" for r
    using that h moved live unfolding frontier_exact_def by (meson less_trans)
  ultimately show ?thesis
    using h moved live c unfolding frontier_exact_def
    by (auto simp: bt_insert_get clears_rune_def)
qed

lemma change_frontier_exact:
  "session_change ah s l t \<Longrightarrow> frontier_exact ah ls s \<Longrightarrow> frontier_exact ah (ls @ [l]) t"
proof (induction rule: session_change.induct)
  case (ch_complete s l)
  have "wm_tasks (session_watermark u (s\<lparr>s_payloads_closed := True,
      s_request := fst (wm_advance (s_request s)), s_response := fst (wm_advance (s_response s)),
      s_ended := Some EndComplete\<rparr>)) = wm_tasks (session_watermark u s)" for u
    by (cases u) simp_all
  with ch_complete.prems show ?case
    by (rule_tac s = s in frontier_exact_idle) simp_all
next
  case (ch_close l s)
  then show ?case
    by (cases "s_ended s") (rule_tac s = s in frontier_exact_idle; simp)+
qed (auto intro: frontier_exact_idle frontier_exact_record simp: wm_extend_tasks)

lemma execution_frontier_exact:
  "execution (session_step ah) s ls t \<Longrightarrow> session_init s \<Longrightarrow> frontier_exact ah ls t"
proof (induction rule: execution.induct)
  case (execution_nil s)
  then have new: "session_new (s_config s) = Inr s"
    by (simp add: session_init_def)
  have "f = start_for (s_config s) t" if "map_of (wm_tasks (session_watermark t s)) k = Some f" for t k f
    using that new_track [OF new] for_track_frontier by blast
  then show ?case
    by (auto simp: frontier_exact_def cleared_in_def)
next
  case (execution_snoc s ls t l u)
  then show ?case
    using change_frontier_exact step_refines by blast
qed

section \<open>A concrete session\<close>

lemma execution_apply_ops: "execution (session_step ah) s ls (fold (apply_op ah) ls s)"
proof (induction ls rule: rev_induct)
  case (snoc l ls)
  show ?case
    using execution_snoc [OF snoc, of l "apply_op ah l (fold (apply_op ah) ls s)"]
    unfolding session_step_iff by simp
qed (simp add: execution_nil)

text \<open>Two tasks guard the response; five runes arrive, one task clears all, one clears three.\<close>

definition example_config :: session_config where
  "example_config = \<lparr>cfg_safety_level = Blocking, request_start_rune_offset = 0,
     response_start_rune_offset = 0, request_tasks = [], response_tasks = [''pii'', ''abuse'']\<rparr>"

definition example_span :: "32 word \<Rightarrow> 32 word \<Rightarrow> stream_span" where
  "example_span a b = \<lparr>span_source = ModelGenerated, span_range = \<lparr>range_start = a, range_end = b\<rparr>\<rparr>"

definition example_ops :: "session_op list" where
  "example_ops =
    [Observe ModelGenerated 5,
     RecordOutcome ''pii'' (example_span 0 5) Cleared,
     RecordVerdict ''abuse'' (example_span 0 3) (ah_allow (example_hooks 10240)),
     Advance Response]"

definition example_session :: session where
  "example_session = (case session_new example_config of Inr s \<Rightarrow> s)"

definition example_end :: session where
  "example_end = fold (apply_op (example_hooks 10240)) example_ops example_session"

lemmas session_eval =
  observe_def record_outcome_def record_verdict_def session_advance_def wm_extend_def wm_record_def
  wm_advance_def wm_lowest_def checked_add_def fail_def range_is_empty_def span_track_def
  verdict_shape_is_invalid_def MAX_RUNE_OFFSET_def Let_def

definition example_state :: "32 word \<Rightarrow> 32 word \<Rightarrow> 32 word \<Rightarrow> 32 word \<Rightarrow> session" where
  "example_state rcv abuse pii conf = \<lparr>s_config = example_config,
     s_request = \<lparr>wm_tasks = [], wm_confirmed = 0, wm_received = 0\<rparr>,
     s_response = \<lparr>wm_tasks = [(''abuse'', abuse), (''pii'', pii)], wm_confirmed = conf,
       wm_received = rcv\<rparr>,
     s_ended = None, s_payloads_closed = False\<rparr>"

lemmas example_eval = session_eval example_state_def example_span_def example_config_def

lemma example_session_eq: "session_new example_config = Inr (example_state 0 0 0 0)"
  by (simp add: example_state_def example_config_def session_new_def for_track_def
      MAX_RUNE_OFFSET_def bt_collect_def)

lemma example_new: "session_new example_config = Inr example_session"
  by (simp add: example_session_def example_session_eq)

lemma example_steps:
  "fst (observe ModelGenerated 5 (example_state 0 0 0 0)) = example_state 5 0 0 0"
  "fst (record_outcome ''pii'' (example_span 0 5) Cleared (example_state 5 0 0 0)) =
    example_state 5 0 5 0"
  "fst (record_outcome ''abuse'' (example_span 0 3) Cleared (example_state 5 0 5 0)) =
    example_state 5 3 5 0"
  "fst (session_advance Response (example_state 5 3 5 0)) = example_state 5 3 5 3"
  by (simp_all add: example_eval)

lemma example_allow: "\<not> verdict_shape_is_invalid (example_hooks cap) (ah_allow (example_hooks cap))"
  by (simp add: verdict_shape_is_invalid_def example_hooks_def example_validate_def)

lemma example_run: "execution (session_step (example_hooks 10240)) example_session example_ops example_end"
  unfolding example_end_def by (rule execution_apply_ops)

lemma example_end_eq: "example_end = example_state 5 3 5 3"
  by (simp add: example_end_def example_ops_def example_session_def example_session_eq
      example_steps record_verdict_def example_allow)
    (simp add: example_hooks_def example_steps)

section \<open>What a host may rely on\<close>

lemma init_new: "session_new cfg = Inr s \<Longrightarrow> session_init s \<and> s_config s = cfg"
  using new_inv by (auto simp: session_init_def)

lemma execution_config: "execution (session_step ah) s ls t \<Longrightarrow> session_init s \<Longrightarrow> s_config t = s_config s"
  using stream.execution_prog stream.inv_init by (fastforce simp: session_progress_def)

lemma task_has_frontier:
  assumes "session_inv s" "task \<in> set (tasks_for (s_config s) track)"
  obtains f where "map_of (wm_tasks (session_watermark track s)) task = Some f"
    "wm_lowest (session_watermark track s) \<le> f" "wm_confirmed (session_watermark track s) \<le> f"
    "f \<le> wm_received (session_watermark track s)"
proof -
  let ?w = "session_watermark track s"
  have i: "wm_inv (start_for (s_config s) track) (tasks_for (s_config s) track) ?w"
    using assms(1) by (rule session_inv_track)
  then have "task \<in> fst ` set (wm_tasks ?w)"
    using assms(2) by (simp add: wm_inv_def)
  then obtain f where f: "(task, f) \<in> set (wm_tasks ?w)"
    by auto
  show thesis
    using that [of f] wm_lowest_le [OF f] wm_inv_entry [OF i f] by blast
qed

lemma saturating_sub_zero_iff: "saturating_sub a b = 0 \<longleftrightarrow> a \<le> b"
  using saturating_sub_pos_iff [of a b] by (simp add: word_neq_0_conv [symmetric]) auto

lemma all_tracks: "(\<forall>t. P t) \<longleftrightarrow> P Request \<and> P Response"
  by (metis stream_track.exhaust)

text \<open>
  If every task of a track cleared all the track received, the lowest frontier has
  reached the received length.
\<close>

lemma lowest_received:
  assumes inv: "session_inv s" and live: "s_ended s = None" and hist: "frontier_exact ah ls s"
    and all: "\<And>task r. \<lbrakk>task \<in> set (tasks_for (s_config s) t); start_for (s_config s) t \<le> r;
      r < wm_received (session_watermark t s)\<rbrakk> \<Longrightarrow> cleared_in ah ls t task r"
  shows "wm_received (session_watermark t s) \<le> wm_lowest (session_watermark t s)"
proof (rule ccontr)
  let ?w = "session_watermark t s"
  note wi = session_inv_track [OF inv, of t]
  assume "\<not> wm_received ?w \<le> wm_lowest ?w"
  then have less: "wm_lowest ?w < wm_received ?w"
    by simp
  have start: "start_for (s_config s) t \<le> wm_lowest ?w"
    using wi wm_inv_lowest [OF wi] by (auto simp: wm_inv_def)
  have "wm_tasks ?w \<noteq> []"
    using wi less by (auto simp: wm_inv_def wm_lowest_empty)
  then obtain task f where low: "(task, f) \<in> set (wm_tasks ?w)" "wm_lowest ?w = f"
    using wm_lowest_attained by blast
  have "cleared_in ah ls t task f"
    using all [of task f] start less low(2) wm_inv_entry(1) [OF wi low(1)] by simp
  moreover have "map_of (wm_tasks ?w) task = Some f"
    using wm_inv_entry(2) [OF wi low(1)] .
  ultimately show False
    using hist live unfolding frontier_exact_def by (metis less_irrefl)
qed

lemma confirmed_cleared:
  assumes "session_new cfg = Inr s0" "execution (session_step ah) s0 ls s"
    and "task \<in> set (tasks_for cfg track)"
    and "start_for cfg track \<le> r" "r < wm_confirmed (session_watermark track s)"
  shows "cleared_in ah ls track task r"
proof -
  have cfg: "session_init s0" "s_config s = cfg"
    using assms init_new execution_config by metis+
  have inv: "session_inv s"
    using stream.execution_inv [OF assms(2)] stream.inv_init [OF cfg(1)] by simp
  obtain f where "map_of (wm_tasks (session_watermark track s)) task = Some f"
      "wm_confirmed (session_watermark track s) \<le> f"
    using task_has_frontier [OF inv] assms(3) cfg by metis
  then show ?thesis
    using execution_frontier_exact [OF assms(2) cfg(1)] assms(4,5) cfg(2)
    by (auto simp: frontier_exact_def)
qed

text \<open>
  C2: Streamed text is released only after every task cleared it.  In any
  execution of a session from its opening, a rune between the start offset of a
  track and the confirmed offset of that track lies in a span which each task
  configured for the track was reported to have cleared.
\<close>

theorem released_runes_cleared:
  assumes "session_new cfg = Inr s0" "execution (session_step ah) s0 ls s"
    and "task \<in> set (tasks_for cfg track)"
    and "start_for cfg track \<le> r" "r < wm_confirmed (session_watermark track s)"
  shows "cleared_in ah ls track task r"
  using assms by (rule confirmed_cleared)

theorem released_runes_cleared_witness:
  "cleared_in (example_hooks 10240) example_ops Response ''abuse'' 2"
  by (rule released_runes_cleared [OF example_new example_run])
    (simp_all add: example_end_eq, simp_all add: example_state_def example_config_def)

text \<open>
  C28: The release point is exact.  While a session is live, \<open>advance\<close> moves
  the offset a host may emit through to the largest one the clearances support: a
  rune is below it if and only if every rune from the start offset up to it has
  been cleared by every configured task.
\<close>

theorem advance_releases_maximal_prefix:
  assumes "session_new cfg = Inr s0" "execution (session_step ah) s0 ls s"
    and "s_ended s = None" "tasks_for cfg track \<noteq> []"
  shows "\<exists>off. safe_offset track (fst (session_advance track s)) = Some off \<and>
    (\<forall>r \<ge> start_for cfg track. r < off \<longleftrightarrow>
      (\<forall>q. start_for cfg track \<le> q \<and> q \<le> r \<longrightarrow>
        (\<forall>task \<in> set (tasks_for cfg track). cleared_in ah ls track task q)))"
proof -
  let ?w = "session_watermark track s"
  have cfg: "session_init s0" "s_config s = cfg"
    using assms init_new execution_config by metis+
  have inv: "session_inv s"
    using stream.execution_inv [OF assms(2)] stream.inv_init [OF cfg(1)] by simp
  note wi = session_inv_track [OF inv, of track]
  have hist: "frontier_exact ah ls s"
    using execution_frontier_exact [OF assms(2) cfg(1)] .
  have off: "safe_offset track (fst (session_advance track s)) = Some (wm_lowest ?w)"
    using assms(3) wm_advance_fst [OF wi]
    by (auto simp: session_advance_def safe_offset_def split: prod.splits)
  have below: "cleared_in ah ls track task q"
    if q: "start_for cfg track \<le> q" "q < wm_lowest ?w" "task \<in> set (tasks_for cfg track)" for q task
  proof -
    obtain f where "map_of (wm_tasks ?w) task = Some f" "wm_lowest ?w \<le> f"
      using task_has_frontier [OF inv] q(3) cfg(2) by metis
    then show ?thesis
      using hist q cfg(2) by (auto simp: frontier_exact_def)
  qed
  have nonempty: "wm_tasks ?w \<noteq> []"
    using wi assms(4) cfg(2) by (auto simp: wm_inv_def)
  obtain task f where low: "(task, f) \<in> set (wm_tasks ?w)" "wm_lowest ?w = f"
    using wm_lowest_attained [OF nonempty] by blast
  then have task: "task \<in> set (tasks_for cfg track)" "map_of (wm_tasks ?w) task = Some f"
    using wm_inv_entry [OF wi low(1)] cfg(2) by simp_all
  have above: "\<not> cleared_in ah ls track task (wm_lowest ?w)"
    using hist assms(3) task(2) low(2) unfolding frontier_exact_def by (metis less_irrefl)
  have "start_for cfg track \<le> wm_lowest ?w"
    using wi wm_inv_lowest [OF wi] cfg(2) by (auto simp: wm_inv_def)
  then have "(r < wm_lowest ?w) = (\<forall>q. start_for cfg track \<le> q \<and> q \<le> r \<longrightarrow>
      (\<forall>task \<in> set (tasks_for cfg track). cleared_in ah ls track task q))"
    if "start_for cfg track \<le> r" for r
    using below above task(1) by (auto simp: not_less [symmetric] intro: le_less_trans)
  with off show ?thesis
    by blast
qed

theorem advance_releases_maximal_prefix_witness:
  "\<exists>off. safe_offset Response (fst (session_advance Response example_end)) = Some off \<and>
    (\<forall>r \<ge> start_for example_config Response. r < off \<longleftrightarrow>
      (\<forall>q. start_for example_config Response \<le> q \<and> q \<le> r \<longrightarrow>
        (\<forall>task \<in> set (tasks_for example_config Response).
          cleared_in (example_hooks 10240) example_ops Response task q)))"
  by (rule advance_releases_maximal_prefix [OF example_new example_run])
    (simp_all add: example_end_eq example_state_def example_config_def)

text \<open>
  C34: The accounting is well formed in every reachable state of a session.  On each
  track the tasks with a frontier are exactly the configured ones, the start offset is
  at most the confirmed offset, which is at most every frontier, which is at
  most the received length, which is at most the ceiling of the external
  contract; a session settled complete has released all it received, and one
  settled rewritten withholds and had released nothing.
\<close>

theorem reachable_session_inv:
  assumes "reachable session_init (session_step ah) s"
  shows "session_inv s"
  using assms by (rule stream.reachable_inv)

theorem reachable_session_inv_witness: "session_inv example_end"
proof (rule reachable_session_inv)
  show "reachable session_init (session_step (example_hooks 10240)) example_end"
    using example_run init_new [OF example_new] by (auto simp: reachable_def)
qed

text \<open>
  C35: Release is monotone and the terminal state absorbs.  Whatever calls follow a
  reachable state, no confirmed offset, received length or task frontier decreases;
  and once a session has ended its reason and its accounting never change again and no
  offset is safe to emit through.
\<close>

theorem session_monotone_and_absorbing:
  assumes "reachable session_init (session_step ah) s" "execution (session_step ah) s ls t"
  shows "wm_le (session_watermark track s) (session_watermark track t) \<and>
    (s_ended s \<noteq> None \<longrightarrow> s_ended t = s_ended s \<and> safe_offset track t = None
      \<and> session_watermark track t = session_watermark track s)"
proof -
  have "session_progress s t"
    using stream.reachable_prog [OF assms] .
  then show ?thesis
    by (cases track) (auto simp: session_progress_def safe_offset_def all_tracks)
qed

definition example_denied :: session where
  "example_denied = fst (record_outcome ''pii'' (example_span 2 4) Denied example_end)"

lemma example_denied_eq:
  "example_denied = (example_state 5 3 5 3)\<lparr>s_ended := Some (EndDenied Response ''pii''
    \<lparr>range_start = 2, range_end = 4\<rparr>)\<rparr>"
  by (simp add: example_denied_def example_end_eq example_eval)

theorem session_monotone_and_absorbing_witness:
  "wm_le (session_watermark Response example_denied)
     (session_watermark Response (fst (finish example_denied)))
   \<and> s_ended (fst (finish example_denied)) =
       Some (EndDenied Response ''pii'' \<lparr>range_start = 2, range_end = 4\<rparr>)"
proof -
  have "reachable session_init (session_step (example_hooks 10240)) example_end"
    using example_run init_new [OF example_new] by (auto simp: reachable_def)
  moreover have "execution (session_step (example_hooks 10240)) example_end
      [RecordOutcome ''pii'' (example_span 2 4) Denied] example_denied"
    using execution_apply_ops [of _ example_end "[RecordOutcome ''pii'' (example_span 2 4) Denied]"]
    by (simp add: example_denied_def)
  ultimately have r: "reachable session_init (session_step (example_hooks 10240)) example_denied"
    by (rule reachable_execution)
  have e: "execution (session_step (example_hooks 10240)) example_denied [Finish]
      (fst (finish example_denied))"
    using execution_apply_ops [of _ example_denied "[Finish]"] by simp
  show ?thesis
    using session_monotone_and_absorbing [OF r e, of Response] by (simp add: example_denied_eq)
qed

text \<open>
  C36: A live session settles \<open>Complete\<close> exactly when every rune it received, on
  either track, has been cleared by every task of that track; otherwise the
  settlement is a failure that names residue.
\<close>

theorem finish_complete_iff_all_cleared:
  assumes "session_new cfg = Inr s0" "execution (session_step ah) s0 ls s" "s_ended s = None"
  shows "c_reason (snd (finish s)) = EndComplete \<longleftrightarrow>
    (\<forall>track task r. task \<in> set (tasks_for cfg track) \<and> start_for cfg track \<le> r
      \<and> r < wm_received (session_watermark track s) \<longrightarrow> cleared_in ah ls track task r)"
proof -
  have cfg: "session_init s0" "s_config s = cfg"
    using assms init_new execution_config by metis+
  have inv: "session_inv s"
    using stream.execution_inv [OF assms(2)] stream.inv_init [OF cfg(1)] by simp
  have hist: "frontier_exact ah ls s"
    using execution_frontier_exact [OF assms(2) cfg(1)] .
  have "c_reason (snd (finish s)) = EndComplete \<longleftrightarrow>
      first_residue [Request, Response] (s\<lparr>s_payloads_closed := True\<rparr>) = None"
    using assms(3) by (auto simp: finish_def Let_def split: option.splits simp del: first_residue.simps)
  also have "\<dots> \<longleftrightarrow> (\<forall>t. wm_uncleared (session_watermark t s) = 0)"
    unfolding first_residue_None all_tracks by simp
  also have "\<dots> \<longleftrightarrow> (\<forall>t. wm_received (session_watermark t s) \<le> wm_lowest (session_watermark t s))"
    by (simp add: wm_uncleared_def saturating_sub_zero_iff)
  also have "\<dots> \<longleftrightarrow> (\<forall>track task r. task \<in> set (tasks_for cfg track) \<and> start_for cfg track \<le> r
      \<and> r < wm_received (session_watermark track s) \<longrightarrow> cleared_in ah ls track task r)"
    (is "?low \<longleftrightarrow> ?all")
  proof
    assume low: ?low
    show ?all
    proof (intro allI impI, elim conjE)
      fix track task r
      assume a: "task \<in> set (tasks_for cfg track)" "start_for cfg track \<le> r"
        "r < wm_received (session_watermark track s)"
      obtain f where "map_of (wm_tasks (session_watermark track s)) task = Some f"
          "wm_lowest (session_watermark track s) \<le> f"
        using task_has_frontier [OF inv] a(1) cfg(2) by metis
      then show "cleared_in ah ls track task r"
        using hist a low cfg(2) unfolding frontier_exact_def by (meson less_le_trans order_trans)
    qed
  next
    assume all: ?all
    show ?low
    proof
      fix t
      show "wm_received (session_watermark t s) \<le> wm_lowest (session_watermark t s)"
        using lowest_received [OF inv assms(3) hist] all cfg(2) by blast
    qed
  qed
  finally show ?thesis .
qed

theorem finish_complete_iff_all_cleared_witness:
  "c_reason (snd (finish example_end)) = EndComplete \<longleftrightarrow>
    (\<forall>track task r. task \<in> set (tasks_for example_config track) \<and> start_for example_config track \<le> r
      \<and> r < wm_received (session_watermark track example_end)
      \<longrightarrow> cleared_in (example_hooks 10240) example_ops track task r)"
  by (rule finish_complete_iff_all_cleared [OF example_new example_run])
    (simp add: example_end_eq example_state_def)

text \<open>
  Every error fails the session closed.  On a live session a call that
  returns an error, whether observing text or recording an outcome or a verdict, ends the
  session with that error as the terminal reason, so that nothing further may be
  emitted; the accounting is left as it was.
\<close>

theorem session_errors_fail_closed:
  assumes "s_ended s = None"
    and "(t, Inl e) \<in> {observe src n s, observe_text src text s}
      \<or> (t, Inl e) \<in> {record_outcome task span outcome s, record_verdict ah task span v s}"
  shows "t = s\<lparr>s_ended := Some (EndFailed e)\<rparr> \<and> safe_offset track t = None"
proof -
  have obs: "t = s\<lparr>s_ended := Some (EndFailed e)\<rparr>" if "(t, Inl e) = observe src n s" for n
    using that assms(1) by (auto simp: observe_def fail_live Let_def split: if_splits sum.splits)
  have out: "t = s\<lparr>s_ended := Some (EndFailed e)\<rparr>" if "(t, Inl e) = record_outcome task span outcome s"
    for outcome
    using that assms(1)
    by (auto simp: record_outcome_def fail_live Let_def
        split: if_splits sum.splits segment_outcome.splits)
  have "t = s\<lparr>s_ended := Some (EndFailed e)\<rparr>"
    using assms obs out
    by (auto simp: observe_text_def record_verdict_def fail_live Let_def split: if_splits)
  then show ?thesis
    by (simp add: safe_offset_def)
qed

theorem session_errors_fail_closed_witness:
  "fst (observe UserRequest 4 (example_state 5 3 5 3))
     = (example_state 5 3 5 3)\<lparr>s_ended := Some (EndFailed (NoTasks Request))\<rparr>
   \<and> safe_offset Response (fst (observe UserRequest 4 (example_state 5 3 5 3))) = None"
proof (rule session_errors_fail_closed [of _ _ _ UserRequest 4 "[]" "[]" "example_span 0 1" Cleared
      "example_hooks 0" "ah_allow (example_hooks 0)"])
  show "s_ended (example_state 5 3 5 3) = None"
    by (simp add: example_state_def)
  have "snd (observe UserRequest 4 (example_state 5 3 5 3)) = Inl (NoTasks Request)"
    by (simp add: example_eval)
  then show "(fst (observe UserRequest 4 (example_state 5 3 5 3)), Inl (NoTasks Request))
      \<in> {observe UserRequest 4 (example_state 5 3 5 3), observe_text UserRequest [] (example_state 5 3 5 3)}
    \<or> (fst (observe UserRequest 4 (example_state 5 3 5 3)), Inl (NoTasks Request))
      \<in> {record_outcome [] (example_span 0 1) Cleared (example_state 5 3 5 3),
         record_verdict (example_hooks 0) [] (example_span 0 1) (ah_allow (example_hooks 0))
           (example_state 5 3 5 3)}"
    by (metis insertI1 prod.collapse)
qed

text \<open>
  C36: Only a well formed \<open>allow\<close> verdict can clear text.  Recording any other verdict,
  a denial, a transform, or one whose shape the contract forbids, ends the session and
  moves no frontier, and nothing is safe to emit afterwards.
\<close>

theorem only_allow_verdicts_clear:
  assumes "verdict_shape_is_invalid ah v \<or> v_decision v \<noteq> Allow"
  shows "s_ended (fst (record_verdict ah task span v s)) \<noteq> None
    \<and> session_watermark track (fst (record_verdict ah task span v s)) = session_watermark track s
    \<and> safe_offset track (fst (record_verdict ah task span v s)) = None"
proof -
  have "s_ended (fst (record_outcome task span outcome s)) \<noteq> None
      \<and> session_watermark track (fst (record_outcome task span outcome s)) = session_watermark track s"
    if "outcome \<noteq> Cleared" for outcome
    using that by (auto simp: record_outcome_def Let_def fail_def split: segment_outcome.splits)
  moreover have "decision_outcome (v_decision v) \<noteq> Cleared" if "v_decision v \<noteq> Allow"
    using that by (cases "v_decision v") simp_all
  ultimately show ?thesis
    using assms by (auto simp: record_verdict_def fail_def safe_offset_def)
qed

theorem only_allow_verdicts_clear_witness:
  "s_ended (fst (record_verdict (example_hooks 9) ''pii'' (example_span 0 2)
      ((ah_allow (example_hooks 9))\<lparr>v_decision := Transform\<rparr>) (example_state 5 0 0 0))) \<noteq> None"
  using only_allow_verdicts_clear
    [of "example_hooks 9" "(ah_allow (example_hooks 9))\<lparr>v_decision := Transform\<rparr>"] by simp

text \<open>
  The wire names of the streaming vocabulary round trip and are read exactly: a
  safety level, a source type, a track or an outcome parses from a string if and only if the
  string is its wire name, so an unknown name never defaults.
\<close>

theorem wire_names_round_trip:
  "(safety_level_parse x = Inr a \<longleftrightarrow> x = safety_level_as_str a)
   \<and> (source_type_parse x = Inr b \<longleftrightarrow> x = source_type_as_str b)
   \<and> (track_parse x = Inr c \<longleftrightarrow> x = track_as_str c)
   \<and> (outcome_parse x = Inr d \<longleftrightarrow> x = outcome_as_str d)"
proof (intro conjI)
  show "safety_level_parse x = Inr a \<longleftrightarrow> x = safety_level_as_str a"
    by (cases a) (simp_all add: safety_level_parse_def)
  show "source_type_parse x = Inr b \<longleftrightarrow> x = source_type_as_str b"
    by (cases b) (simp_all add: source_type_parse_def)
  show "track_parse x = Inr c \<longleftrightarrow> x = track_as_str c"
    by (cases c) (simp_all add: track_parse_def)
  show "outcome_parse x = Inr d \<longleftrightarrow> x = outcome_as_str d"
    by (cases d) (simp_all add: outcome_parse_def)
qed

end
