(* ===== verification/Paths.thy ===== *)
theory Paths
  imports Example_Hooks "HOL-Library.Sublist"
begin

text \<open>
  JSON paths (\<open>paths.rs\<close>).  The parser walks the bytes of the input; here it
  consumes the rest of the input and carries the offset for the one message that
  prints it.  The decoder of a quoted bracket literal is
  \<open>serde_json::from_str::<String>\<close>, a parameter (\<open>lit\<close>).  A \<open>usize\<close> index is a natural number
  below 2 to the 64, and a larger literal is the error \<open>InvalidIndex\<close>.
\<close>

section \<open>Data\<close>

datatype path_root = Snap | PiRoot | Target | Tool

fun path_root_as_str :: "path_root \<Rightarrow> string" where
  "path_root_as_str Snap = ''$snap''"
| "path_root_as_str PiRoot = ''$pi''"
| "path_root_as_str Target = ''$target''"
| "path_root_as_str Tool = ''$tool''"

datatype path_segment = Field string | Index nat

record json_path =
  original :: string
  root :: path_root
  segments :: "path_segment list"

datatype path_parse_error =
    Empty
  | MissingRoot
  | UnknownRoot
  | InvalidSyntax string
  | NegativeIndex
  | InvalidIndex
  | InvalidLiteral string

fun show_path_error :: "path_parse_error \<Rightarrow> string" where
  "show_path_error Empty = ''path is empty''"
| "show_path_error MissingRoot = ''path must start with an explicit root''"
| "show_path_error UnknownRoot = ''unknown path root''"
| "show_path_error (InvalidSyntax d) = ''invalid path syntax: '' @ d"
| "show_path_error NegativeIndex = ''negative indices are unsupported''"
| "show_path_error InvalidIndex = ''invalid array index''"
| "show_path_error (InvalidLiteral d) = ''invalid bracket literal: '' @ d"

section \<open>Parsing\<close>

type_synonym literal_decoder = "string \<Rightarrow> (string, string) result"

definition root_table :: "(string \<times> path_root) list" where
  "root_table = [(''$target'', Target), (''$snap'', Snap), (''$tool'', Tool), (''$pi'', PiRoot)]"

fun parse_root_from :: "(string \<times> path_root) list \<Rightarrow> string \<Rightarrow> (path_parse_error, path_root \<times> nat) result" where
  "parse_root_from [] input = Inl UnknownRoot"
| "parse_root_from ((literal, rt) # roots) input =
    (if starts_with input literal
        \<and> (case drop (length literal) input of [] \<Rightarrow> True | c # _ \<Rightarrow> c = CHR ''.'' \<or> c = CHR ''['')
     then Inr (rt, length literal)
     else parse_root_from roots input)"

definition parse_root :: "string \<Rightarrow> (path_parse_error, path_root \<times> nat) result" where
  "parse_root input = parse_root_from root_table input"

text \<open>The inner loop of a dot segment: the field and the rest, which starts with a separator.\<close>

fun scan_field :: "string \<Rightarrow> (path_parse_error, string \<times> string) result" where
  "scan_field [] = Inr ([], [])"
| "scan_field (b # bs) =
    (if b = CHR ''.'' \<or> b = CHR ''['' then Inr ([], b # bs)
     else if b = CHR '']'' then
       Inl (InvalidSyntax (quoted '']'' @ '' is only valid inside bracket notation''))
     else rbind (scan_field bs) (\<lambda>(field, rest). Inr (b # field, rest)))"

text \<open>
  The inner loop of a quoted literal, after its opening quote: the bytes up to and
  with the closing quote, and the rest; \<open>None\<close> when it does not close.
\<close>

fun scan_literal :: "bool \<Rightarrow> string \<Rightarrow> (string \<times> string) option" where
  "scan_literal escaped [] = None"
| "scan_literal escaped (b # bs) =
    (if escaped then map_option (apfst (Cons b)) (scan_literal False bs)
     else if b = CHR 0x5C then map_option (apfst (Cons b)) (scan_literal True bs)
     else if b = CHR 0x22 then Some ([b], bs)
     else map_option (apfst (Cons b)) (scan_literal False bs))"

lemma scan_field_rest: "scan_field bs = Inr (f, r) \<Longrightarrow> bs = f @ r"
  by (induction bs arbitrary: f r) (auto simp: rbind_eq_Inr_iff split: if_splits)

lemma scan_literal_rest: "scan_literal e bs = Some (body, r) \<Longrightarrow> bs = body @ r"
  by (induction e bs arbitrary: body r rule: scan_literal.induct) (auto split: if_splits)

function parse_segments ::
  "literal_decoder \<Rightarrow> nat \<Rightarrow> string \<Rightarrow> (path_parse_error, path_segment list) result"
where
  "parse_segments lit idx [] = Inr []"
| "parse_segments lit idx (b # rest) =
    (if b = CHR ''.'' then
       rbind (scan_field rest) (\<lambda>(field, rest').
         if field = [] then Inl (InvalidSyntax ''dot field segment is empty'')
         else rbind (parse_segments lit (idx + 1 + length field) rest')
                (\<lambda>segs. Inr (Field field # segs)))
     else if b = CHR ''['' then
       (case rest of
          [] \<Rightarrow> Inl (InvalidSyntax ''unclosed bracket'')
        | c # cs \<Rightarrow>
            if c = CHR 0x22 then
              (case scan_literal False cs of
                 None \<Rightarrow> Inl (InvalidLiteral ''unterminated string'')
               | Some (body, after) \<Rightarrow>
                   rbind (map_err InvalidLiteral (lit (c # body))) (\<lambda>literal.
                   case after of
                     d # rest' \<Rightarrow>
                       if d = CHR '']'' then
                         rbind (parse_segments lit (idx + 3 + length body) rest')
                           (\<lambda>segs. Inr (Field literal # segs))
                       else Inl (InvalidSyntax (''bracket literal must close with '' @ quoted '']''))
                   | [] \<Rightarrow> Inl (InvalidSyntax (''bracket literal must close with '' @ quoted '']''))))
            else if c = CHR ''-'' then Inl NegativeIndex
            else
              let digits = takeWhile is_ascii_digit rest;
                  after = dropWhile is_ascii_digit rest
              in if digits = [] then Inl InvalidIndex
                 else case after of
                     d # rest' \<Rightarrow>
                       if d = CHR '']'' then
                         (if digits_value digits < 2 ^ 64 then
                            rbind (parse_segments lit (idx + 2 + length digits) rest')
                              (\<lambda>segs. Inr (Index (digits_value digits) # segs))
                          else Inl InvalidIndex)
                       else Inl (InvalidSyntax (''array index must close with '' @ quoted '']''))
                   | [] \<Rightarrow> Inl (InvalidSyntax (''array index must close with '' @ quoted '']'')))
     else Inl (InvalidSyntax (''unexpected byte at offset '' @ nat_to_string idx)))"
  by pat_completeness auto
termination
proof (relation "measure (\<lambda>(lit, idx, rest). length rest)", goal_cases)
  case (2 lit idx b rest p field rest')
  then show ?case
    by (auto dest!: scan_field_rest)
next
  case (3 lit idx b rest c cs p body after literal d rest')
  then show ?case
    by (auto dest!: scan_literal_rest)
next
  case (4 lit idx b rest c cs digits after d rest')
  have "length (dropWhile is_ascii_digit rest) \<le> length rest"
    by (rule length_dropWhile_le)
  with 4 show ?case
    by (metis in_measure case_prod_conv length_Cons less_Suc_eq_le Suc_le_lessD le_SucI)
qed simp

definition path_parse :: "literal_decoder \<Rightarrow> string \<Rightarrow> (path_parse_error, json_path) result" where
  "path_parse lit input =
    (if input = [] then Inl Empty
     else if \<not> starts_with input ''$'' then Inl MissingRoot
     else rbind (parse_root input) (\<lambda>(rt, idx).
          rbind (parse_segments lit idx (drop idx input)) (\<lambda>segs.
          Inr \<lparr>original = input, root = rt, segments = segs\<rparr>)))"

definition normalize_snapshot_alias :: "string \<Rightarrow> string" where
  "normalize_snapshot_alias input =
    (if input = ''$'' then ''$snap''
     else case strip_prefix input ''$.'' of
            Some rest \<Rightarrow> ''$snap.'' @ rest
          | None \<Rightarrow> input)"

definition parse_with_snapshot_alias :: "literal_decoder \<Rightarrow> string \<Rightarrow> (path_parse_error, json_path) result" where
  "parse_with_snapshot_alias lit input = path_parse lit (normalize_snapshot_alias input)"

definition references_pi_annotations :: "json_path \<Rightarrow> bool" where
  "references_pi_annotations p \<longleftrightarrow>
    root p = PiRoot
    \<and> (case segments p of Field f # _ \<Rightarrow> f = pi_annotations | _ \<Rightarrow> False)"

definition pi_annotation_reference :: "json_path \<Rightarrow> string option" where
  "pi_annotation_reference p =
    (if \<not> references_pi_annotations p then None
     else case segments p of _ # Field name # _ \<Rightarrow> Some name | _ \<Rightarrow> None)"

section \<open>Resolving\<close>

record path_env =
  env_snap :: "json option"
  env_pi :: "json option"
  env_target :: "json option"
  env_tool :: "json option"

definition with_snap :: "json \<Rightarrow> path_env" where
  "with_snap snapshot = \<lparr>env_snap = Some snapshot, env_pi = None, env_target = None, env_tool = None\<rparr>"

definition with_pi :: "json \<Rightarrow> path_env" where
  "with_pi policy_input =
    \<lparr>env_snap = None, env_pi = Some policy_input, env_target = None, env_tool = None\<rparr>"

definition with_pi_and_snap :: "json \<Rightarrow> json \<Rightarrow> path_env" where
  "with_pi_and_snap policy_input snapshot =
    \<lparr>env_snap = Some snapshot, env_pi = Some policy_input, env_target = None, env_tool = None\<rparr>"

fun root_value :: "path_env \<Rightarrow> path_root \<Rightarrow> json option" where
  "root_value env Snap = env_snap env"
| "root_value env PiRoot = env_pi env"
| "root_value env Target = (case env_target env of
      Some t \<Rightarrow> Some t
    | None \<Rightarrow> Option.bind (env_pi env) (\<lambda>pi.
        Option.bind (json_get pi pi_policy_target) (\<lambda>target. json_get target pi_value)))"
| "root_value env Tool = (case env_tool env of
      Some t \<Rightarrow> Some t
    | None \<Rightarrow> Option.bind (env_pi env) (\<lambda>pi. json_get pi pi_tool))"

definition step_into :: "string \<Rightarrow> path_segment \<Rightarrow> json \<Rightarrow> (runtime_error, json) result" where
  "step_into orig seg v = (case seg of
      Field f \<Rightarrow> (case v of
          JObject m \<Rightarrow> ok_or (PathMissing orig) (map_of m f)
        | _ \<Rightarrow> Inl (PathTypeMismatch orig))
    | Index i \<Rightarrow> (case v of
          JArray xs \<Rightarrow> if i < length xs then Inr (xs ! i) else Inl (PathMissing orig)
        | _ \<Rightarrow> Inl (PathTypeMismatch orig)))"

definition resolve :: "json_path \<Rightarrow> path_env \<Rightarrow> (runtime_error, json) result" where
  "resolve p env =
    rbind (ok_or (PathMissing (''root '' @ path_root_as_str (root p) @ '' not available for '' @ original p))
             (root_value env (root p)))
      (try_fold (step_into (original p)) (segments p))"

text \<open>
  \<open>resolve_target_mut\<close> hands out a mutable reference into the target.  \<open>write_through\<close> is
  the target after \<open>f\<close> has been applied through that reference.
\<close>

fun write_through :: "string \<Rightarrow> path_segment list \<Rightarrow> (json \<Rightarrow> json) \<Rightarrow> json \<Rightarrow> (runtime_error, json) result" where
  "write_through orig [] f v = Inr (f v)"
| "write_through orig (seg # segs) f v =
    rbind (step_into orig seg v) (\<lambda>child.
    rbind (write_through orig segs f child) (\<lambda>child'.
    Inr (case (seg, v) of
           (Field k, JObject m) \<Rightarrow> JObject (jm_insert k child' m)
         | (Index i, JArray xs) \<Rightarrow> JArray (xs[i := child'])
         | _ \<Rightarrow> v)))"

definition resolve_target_mut :: "json_path \<Rightarrow> (json \<Rightarrow> json) \<Rightarrow> json \<Rightarrow> (runtime_error, json) result" where
  "resolve_target_mut p f target =
    (if root p \<noteq> Target then Inl (TransformTargetForbidden (original p))
     else write_through (original p) (segments p) f target)"

section \<open>Printing, and the round trip\<close>

definition plain_field :: "string \<Rightarrow> bool" where
  "plain_field f \<longleftrightarrow> f \<noteq> [] \<and> list_all (\<lambda>b. b \<noteq> CHR ''.'' \<and> b \<noteq> CHR ''['' \<and> b \<noteq> CHR '']'') f"

fun plain_segment :: "path_segment \<Rightarrow> bool" where
  "plain_segment (Field f) = plain_field f"
| "plain_segment (Index i) = (i < 2 ^ 64)"

fun show_segment :: "path_segment \<Rightarrow> string" where
  "show_segment (Field f) = CHR ''.'' # f"
| "show_segment (Index i) = CHR ''['' # nat_to_string i @ '']''"

definition show_path :: "path_root \<Rightarrow> path_segment list \<Rightarrow> string" where
  "show_path rt segs = path_root_as_str rt @ concat (map show_segment segs)"

definition at_separator :: "string \<Rightarrow> bool" where
  "at_separator r = (case r of [] \<Rightarrow> True | c # _ \<Rightarrow> c = CHR ''.'' \<or> c = CHR ''['')"

lemma show_segments_separator: "at_separator (concat (map show_segment segs))"
proof (cases segs)
  case (Cons seg rest)
  then show ?thesis
    by (cases seg) (simp_all add: at_separator_def)
qed (simp add: at_separator_def)

lemma scan_field_plain:
  "list_all (\<lambda>b. b \<noteq> CHR ''.'' \<and> b \<noteq> CHR ''['' \<and> b \<noteq> CHR '']'') f \<Longrightarrow> at_separator r
    \<Longrightarrow> scan_field (f @ r) = Inr (f, r)"
proof (induction f)
  case Nil
  then show ?case
    by (cases r) (auto simp: at_separator_def)
qed simp

lemma digits_span:
  assumes "list_all is_ascii_digit ds" "\<not> is_ascii_digit c"
  shows "takeWhile is_ascii_digit (ds @ c # r) = ds" "dropWhile is_ascii_digit (ds @ c # r) = c # r"
  using assms by (induction ds) auto

lemma digit_not_special: "is_ascii_digit c \<Longrightarrow> c \<noteq> CHR 0x22 \<and> c \<noteq> CHR ''-''"
  by (auto simp: is_ascii_digit_def)

lemma parse_index:
  assumes "i < 2 ^ 64"
  shows "parse_segments lit idx (CHR ''['' # nat_to_string i @ CHR '']'' # r) =
    rbind (parse_segments lit (idx + 2 + length (nat_to_string i)) r) (\<lambda>segs. Inr (Index i # segs))"
proof -
  obtain c cs where c: "nat_to_string i = c # cs"
    by (cases "nat_to_string i") auto
  have "is_ascii_digit c"
    using nat_to_string_digits [of i] c by simp
  moreover have "\<not> is_ascii_digit (CHR '']'')"
    by (simp add: is_ascii_digit_def)
  ultimately show ?thesis
    using assms digits_span [of "nat_to_string i" "CHR '']''" r] nat_to_string_digits [of i]
      digit_not_special [of c] digits_value_nat_to_string [of i] c
    by (simp add: Let_def)
qed

lemma parse_segments_show:
  "list_all plain_segment segs \<Longrightarrow> parse_segments lit idx (concat (map show_segment segs)) = Inr segs"
proof (induction segs arbitrary: idx)
  case (Cons seg segs)
  show ?case
  proof (cases seg)
    case (Field f)
    then show ?thesis
      using Cons scan_field_plain [of f "concat (map show_segment segs)"] show_segments_separator [of segs]
      by (simp add: plain_field_def)
  next
    case (Index i)
    then show ?thesis
      using Cons parse_index [of i lit idx "concat (map show_segment segs)"] by simp
  qed
qed simp

lemma parse_root_show:
  "at_separator r \<Longrightarrow> parse_root (path_root_as_str rt @ r) = Inr (rt, length (path_root_as_str rt))"
  by (cases rt) (auto simp: parse_root_def root_table_def at_separator_def starts_with_def split: list.splits)

section \<open>Lookup along a path\<close>

fun json_at :: "path_segment list \<Rightarrow> json \<Rightarrow> json option" where
  "json_at [] v = Some v"
| "json_at (Field f # segs) v =
    (case v of JObject m \<Rightarrow> Option.bind (map_of m f) (json_at segs) | _ \<Rightarrow> None)"
| "json_at (Index i # segs) v =
    (case v of JArray xs \<Rightarrow> if i < length xs then json_at segs (xs ! i) else None | _ \<Rightarrow> None)"

lemma step_into_ok_iff: "step_into orig seg v = Inr w \<longleftrightarrow> json_at [seg] v = Some w"
  by (cases seg; cases v) (auto simp: step_into_def bind_eq_Some_conv)

lemma json_at_Cons: "json_at (seg # segs) v = Option.bind (json_at [seg] v) (json_at segs)"
  by (cases seg; cases v) auto

lemma step_into_err: "step_into orig seg v = Inl e \<Longrightarrow> e = PathMissing orig \<or> e = PathTypeMismatch orig"
  by (cases seg; cases v) (auto simp: step_into_def ok_or_def split: if_splits option.splits)

lemma walk_ok_iff: "try_fold (step_into orig) segs v = Inr w \<longleftrightarrow> json_at segs v = Some w"
proof (induction segs arbitrary: v)
  case (Cons seg segs)
  then show ?case
    by (auto simp: rbind_eq_Inr_iff step_into_ok_iff json_at_Cons [of seg segs] bind_eq_Some_conv
        simp del: json_at.simps)
qed simp

lemma walk_err:
  "try_fold (step_into orig) segs v = Inl e \<Longrightarrow> e = PathMissing orig \<or> e = PathTypeMismatch orig"
  by (induction segs arbitrary: v) (auto simp: rbind_eq_Inl_iff dest: step_into_err)

text \<open>Replacing one child of a container.\<close>

definition put_child :: "path_segment \<Rightarrow> json \<Rightarrow> json \<Rightarrow> json" where
  "put_child seg v child = (case (seg, v) of
      (Field k, JObject m) \<Rightarrow> JObject (jm_insert k child m)
    | (Index i, JArray xs) \<Rightarrow> JArray (xs[i := child])
    | _ \<Rightarrow> v)"

lemma put_child_at:
  "json_at [seg] v = Some c \<Longrightarrow> json_at [seg'] (put_child seg v d) =
    (if seg' = seg then Some d else json_at [seg'] v)"
  by (cases seg; cases seg'; cases v) (auto simp: put_child_def jm_insert_get split: if_splits)

lemma write_through_Cons:
  "write_through orig (seg # segs) f v = Inr t \<longleftrightarrow>
    (\<exists>c c'. json_at [seg] v = Some c \<and> write_through orig segs f c = Inr c' \<and> t = put_child seg v c')"
  by (auto simp: rbind_eq_Inr_iff step_into_ok_iff put_child_def)

lemma write_through_get:
  "write_through orig segs f v = Inr t \<Longrightarrow>
    \<exists>old. json_at segs v = Some old \<and> json_at segs t = Some (f old)"
proof (induction segs arbitrary: v t)
  case (Cons seg segs)
  then obtain c c' where "json_at [seg] v = Some c" "write_through orig segs f c = Inr c'"
      "t = put_child seg v c'"
    by (auto simp: write_through_Cons simp del: write_through.simps json_at.simps)
  then show ?case
    using Cons.IH [of c c']
    by (auto simp: json_at_Cons [of seg segs] put_child_at simp del: json_at.simps)
qed simp

lemma write_through_frame:
  "write_through orig segs f v = Inr t \<Longrightarrow> \<not> prefix q segs \<Longrightarrow> \<not> prefix segs q
    \<Longrightarrow> json_at q t = json_at q v"
proof (induction segs arbitrary: v t q)
  case (Cons seg segs)
  then obtain c c' where c: "json_at [seg] v = Some c" "write_through orig segs f c = Inr c'"
      "t = put_child seg v c'"
    by (auto simp: write_through_Cons simp del: write_through.simps json_at.simps)
  obtain s q' where q: "q = s # q'"
    using Cons.prems(2) by (cases q) auto
  show ?case
    using c Cons.IH [of c c' q'] Cons.prems(2,3) unfolding q json_at_Cons [of s q']
    by (auto simp: put_child_at simp del: json_at.simps)
qed simp

lemma write_through_err:
  "write_through orig segs f v = Inl e \<Longrightarrow> e = PathMissing orig \<or> e = PathTypeMismatch orig"
  by (induction segs arbitrary: v) (auto simp: rbind_eq_Inl_iff dest: step_into_err)

section \<open>Properties\<close>

text \<open>
  Printing and parsing round trip.  A path of plain dot fields and
  array indices prints to a string that parses back to the same root and segments.
\<close>

theorem path_parse_show:
  assumes "list_all plain_segment segs"
  shows "path_parse lit (show_path rt segs) =
    Inr \<lparr>original = show_path rt segs, root = rt, segments = segs\<rparr>"
proof -
  have "show_path rt segs \<noteq> []" "starts_with (show_path rt segs) ''$''"
    by (cases rt; simp add: show_path_def starts_with_def)+
  then show ?thesis
    using parse_root_show [OF show_segments_separator, of rt segs] parse_segments_show [OF assms]
    by (simp add: path_parse_def show_path_def)
qed

theorem path_parse_show_witness:
  "path_parse (\<lambda>l. Inl ''unused'') ''$target.args[12].name'' =
    Inr \<lparr>original = ''$target.args[12].name'', root = Target,
      segments = [Field ''args'', Index 12, Field ''name'']\<rparr>"
proof -
  have "show_path Target [Field ''args'', Index 12, Field ''name''] = ''$target.args[12].name''"
    by code_simp
  then show ?thesis
    using path_parse_show [of "[Field ''args'', Index 12, Field ''name'']" "\<lambda>l. Inl ''unused''" Target]
    by (simp add: plain_field_def)
qed

text \<open>
  Resolving a path is lookup.  It succeeds with a value exactly when the root is
  available and following the segments, members of objects and elements of arrays,
  reaches that value; every failure is a missing path or a type mismatch.
\<close>

theorem resolve_is_lookup:
  "(resolve p env = Inr w \<longleftrightarrow>
     (\<exists>v. root_value env (root p) = Some v \<and> json_at (segments p) v = Some w))
   \<and> (case resolve p env of
        Inr _ \<Rightarrow> True
      | Inl e \<Rightarrow> (\<exists>d. e = PathMissing d) \<or> e = PathTypeMismatch (original p))"
proof -
  have "resolve p env = Inr w \<longleftrightarrow>
     (\<exists>v. root_value env (root p) = Some v \<and> json_at (segments p) v = Some w)"
    by (simp add: resolve_def rbind_eq_Inr_iff walk_ok_iff)
  moreover have "(\<exists>d. e = PathMissing d) \<or> e = PathTypeMismatch (original p)"
    if "resolve p env = Inl e" for e
    using that by (auto simp: resolve_def rbind_eq_Inl_iff ok_or_def dest: walk_err split: option.splits)
  ultimately show ?thesis
    by (simp split: sum.split)
qed

text \<open>
  C33: Writing through a target path changes that one node.  If the mutable lookup
  succeeds then the path is rooted at \<open>$target\<close>, the node existed, the node now holds the
  new value, and every node not above or below it is unchanged.
\<close>

theorem target_write_is_local:
  assumes "resolve_target_mut p f target = Inr target'"
  shows "root p = Target
    \<and> (\<exists>old. json_at (segments p) target = Some old \<and> json_at (segments p) target' = Some (f old))
    \<and> (\<forall>q. \<not> prefix q (segments p) \<and> \<not> prefix (segments p) q \<longrightarrow> json_at q target' = json_at q target)"
  using assms write_through_get write_through_frame
  by (auto simp: resolve_target_mut_def split: if_splits)

theorem target_write_is_local_witness:
  "\<exists>t. resolve_target_mut \<lparr>original = ''$target.a[1]'', root = Target, segments = [Field ''a'', Index 1]\<rparr>
      (\<lambda>_. JNull) (JObject [(''a'', JArray [JBool True, JBool False]), (''b'', JString ''x'')]) = Inr t
    \<and> json_at [Field ''a'', Index 0] t = Some (JBool True)"
proof -
  let ?p = "\<lparr>original = ''$target.a[1]'', root = Target, segments = [Field ''a'', Index 1]\<rparr> :: json_path"
  let ?v = "JObject [(''a'', JArray [JBool True, JBool False]), (''b'', JString ''x'')]"
  let ?t = "JObject [(''a'', JArray [JBool True, JNull]), (''b'', JString ''x'')]"
  have w: "resolve_target_mut ?p (\<lambda>_. JNull) ?v = Inr ?t"
    by (simp add: resolve_target_mut_def step_into_def)
  show ?thesis
    using w target_write_is_local [OF w] by (intro exI [of _ ?t]) simp
qed

end
