(* ===== verification/Policy_Input.thy ===== *)
theory Policy_Input
  imports Example_Hooks
begin

text \<open>
  \<open>policy_input.rs\<close>: the policy input document, and the deterministic
  serialization used for size accounting.  The serializer itself is
  \<open>serde_json::to_string\<close>, a parameter of the functions that use it: it returns
  the text, or the text of its error.
\<close>

section \<open>Canonical form for size accounting\<close>

text \<open>
  The inner function of \<open>canonical_json\<close>: the keys are cloned and sorted, and the
  values inserted into a fresh map in that order.
\<close>

fun sort_json :: "json \<Rightarrow> json" where
  "sort_json (JArray xs) = JArray (map sort_json xs)"
| "sort_json (JObject m) =
    (let sub = map (\<lambda>p. (fst p, sort_json (snd p))) m in
     JObject (fold (\<lambda>k acc. case map_of sub k of Some v \<Rightarrow> jm_insert k v acc | None \<Rightarrow> acc)
       (sort (map fst m)) []))"
| "sort_json v = v"

type_synonym serializer = "json \<Rightarrow> string + string"

definition canonical_json :: "serializer \<Rightarrow> json \<Rightarrow> string + string" where
  "canonical_json to_string v = to_string (sort_json v)"

lemma jm_insert_new: "k \<notin> fst ` set m \<Longrightarrow> jm_insert k v m = m @ [(k, v)]"
  by (induction k v m rule: jm_insert.induct) auto

lemma fold_insert_new:
  assumes "distinct ks" "fst ` set acc \<inter> set ks = {}" "\<And>k. k \<in> set ks \<Longrightarrow> g k = Some (f k)"
  shows "fold (\<lambda>k acc. case g k of Some v \<Rightarrow> jm_insert k v acc | None \<Rightarrow> acc) ks acc =
    acc @ map (\<lambda>k. (k, f k)) ks"
  using assms
proof (induction ks arbitrary: acc)
  case (Cons k ks)
  have "jm_insert k (f k) acc = acc @ [(k, f k)]"
    using Cons.prems(2) by (intro jm_insert_new) auto
  moreover have "fst ` set (acc @ [(k, f k)]) \<inter> set ks = {}"
    using Cons.prems by auto
  ultimately show ?case
    using Cons by simp
qed simp

lemma map_of_map_snd': "map_of (map (\<lambda>p. (fst p, f (snd p))) m) k = map_option f (map_of m k)"
  by (induction m) auto

text \<open>The members of a sorted object: each key once, in order, with its sorted value.\<close>

lemma sort_json_object:
  assumes "jm_inv m"
  shows "sort_json (JObject m) =
    JObject (map (\<lambda>k. (k, sort_json (the (map_of m k)))) (sort (map fst m)))"
proof -
  have "map_of (map (\<lambda>p. (fst p, sort_json (snd p))) m) k = Some (sort_json (the (map_of m k)))"
    if "k \<in> set (sort (map fst m))" for k
    using that by (cases "map_of m k") (simp_all add: map_of_map_snd' map_of_eq_None_iff)
  with assms show ?thesis
    using fold_insert_new [of "sort (map fst m)" "[]" "map_of (map (\<lambda>p. (fst p, sort_json (snd p))) m)"
        "\<lambda>k. sort_json (the (map_of m k))"]
    by (simp add: Let_def jm_inv_def)
qed

declare sort_json.simps(2) [simp del]

text \<open>Every object inside the value lists its keys in strictly increasing order.\<close>

fun json_sorted :: "json \<Rightarrow> bool" where
  "json_sorted (JArray xs) = (\<forall>x\<in>set xs. json_sorted x)"
| "json_sorted (JObject m) = (bt_inv m \<and> (\<forall>p\<in>set m. json_sorted (snd p)))"
| "json_sorted _ = True"

text \<open>No number of the value is a negative zero, the one value equal to another bit pattern.\<close>

fun no_negative_zero :: "json \<Rightarrow> bool" where
  "no_negative_zero (JArray xs) = (\<forall>x\<in>set xs. no_negative_zero x)"
| "no_negative_zero (JObject m) = (\<forall>p\<in>set m. no_negative_zero (snd p))"
| "no_negative_zero (JNumber (Float x)) = (x + x = 0 \<longrightarrow> x = 0)"
| "no_negative_zero _ = True"

lemma field_value: "(k, v) \<in> set m \<Longrightarrow> jm_inv m \<Longrightarrow> map_of m k = Some v"
  by (simp add: jm_inv_def)

lemma sort_json_sorted: "json_wf v \<Longrightarrow> json_sorted (sort_json v)"
proof (induction v)
  case (JObject m)
  have "json_sorted (sort_json (the (map_of m k)))" if k: "k \<in> fst ` set m" for k
  proof -
    obtain w where "(k, w) \<in> set m"
      using k by auto
    then show ?thesis
      using JObject field_value by fastforce
  qed
  moreover have "sorted_wrt (<) (sort (map fst m))"
    using JObject.prems by (simp add: strict_sorted_iff jm_inv_def)
  ultimately show ?case
    using JObject.prems by (auto simp: sort_json_object bt_inv_def comp_def)
qed auto

lemma sort_json_eq: "json_wf v \<Longrightarrow> json_eq v (sort_json v)"
proof (induction v)
  case (JArray xs)
  then show ?case
    by (auto simp: items_eq_iff list_all2_conv_all_nth)
next
  case (JObject m)
  have "\<exists>w. map_of (map (\<lambda>k. (k, sort_json (the (map_of m k)))) (sort (map fst m))) (fst p) = Some w
      \<and> json_eq (snd p) w" if "p \<in> set m" for p
  proof -
    have "map_of m (fst p) = Some (snd p)"
      using JObject.prems that by (auto intro: field_value)
    moreover have "map_of (map (\<lambda>k. (k, f k)) ks) a = (if a \<in> set ks then Some (f a) else None)"
      for f :: "string \<Rightarrow> json" and ks a
      by (induction ks) auto
    moreover have "fst p \<in> fst ` set m"
      using that by simp
    ultimately show ?thesis
      using JObject that by (cases p) auto
  qed
  then show ?case
    using JObject.prems by (simp add: sort_json_object fields_sub_iff)
qed simp_all

lemma fields_same_keys:
  assumes "jm_inv m" "jm_inv n" "length m = length n" "fields_sub m n"
  shows "fst ` set m = fst ` set n"
proof (rule card_subset_eq)
  show "fst ` set m \<subseteq> fst ` set n"
    using assms(4) unfolding fields_sub_iff by (metis domI dom_map_of_conv_image_fst image_subsetI)
  show "card (fst ` set m) = card (fst ` set n)"
    using assms by (metis distinct_card jm_inv_def length_map list.set_map)
qed simp

lemma sort_json_order_free:
  "\<lbrakk>json_eq v w; json_wf v; json_wf w; no_negative_zero v; no_negative_zero w\<rbrakk>
    \<Longrightarrow> sort_json v = sort_json w"
proof (induction v arbitrary: w)
  case (JNumber x)
  then obtain y where w: "w = JNumber y" "number_eq x y"
    by (cases w) auto
  show ?case
    using JNumber.prems(4,5) w
    by (cases x; cases y) (auto simp: number_eq_def)
next
  case (JArray xs)
  then obtain ys where "w = JArray ys"
    by (cases w) auto
  with JArray show ?case
    by (auto simp: items_eq_iff list_all2_conv_all_nth intro!: nth_equalityI)
next
  case (JObject m)
  then obtain n where w: "w = JObject n"
    by (cases w) auto
  have inv: "jm_inv m" "jm_inv n"
    using JObject.prems w by auto
  have sub: "fields_sub m n" "length m = length n"
    using JObject.prems w by auto
  have keys: "fst ` set m = fst ` set n"
    using fields_same_keys [OF inv sub(2,1)] .
  have "sort (map fst m) = sort (map fst n)"
    using keys inv unfolding jm_inv_def by (intro sorted_distinct_set_unique) auto
  moreover have "sort_json (the (map_of m k)) = sort_json (the (map_of n k))" if k: "k \<in> fst ` set m" for k
  proof -
    obtain v where v: "(k, v) \<in> set m"
      using k by auto
    then obtain u where u: "map_of n k = Some u" "json_eq v u"
      using sub(1) by (fastforce simp: fields_sub_iff)
    have "json_wf u" "no_negative_zero u" "json_wf v" "no_negative_zero v"
      using JObject.prems w v map_of_SomeD [OF u(1)] by fastforce+
    then show ?thesis
      using JObject.IH [OF v, of v u] u v field_value [OF v inv(1)] by simp
  qed
  ultimately show ?case
    using inv w by (simp add: sort_json_object keys)
qed simp_all

lemma sort_json_fixed: "json_sorted v \<Longrightarrow> sort_json v = v"
proof (induction v)
  case (JObject m)
  have s: "bt_inv m"
    using JObject.prems by simp
  then have "jm_inv m" "sort (map fst m) = map fst m"
    by (simp_all add: jm_inv_def bt_inv_distinct bt_inv_sorted sorted_sort_id)
  moreover have "map (\<lambda>k. (k, sort_json (the (map_of m k)))) (map fst m) = m"
    using JObject s by (auto simp: comp_def bt_inv_distinct intro!: map_idI)
  ultimately show ?case
    by (simp only: sort_json_object)
qed (auto intro: map_idI)

section \<open>The policy input document\<close>

definition build_policy_input ::
  "interception_point \<Rightarrow> string \<Rightarrow> string option \<Rightarrow> json \<Rightarrow> json \<Rightarrow> json \<Rightarrow> json \<Rightarrow> json"
where
  "build_policy_input point target_path target_kind target_value snapshot annotations tool =
    (let policy_target =
           jm_insert pi_value target_value
             (jm_insert pi_path (JString target_path)
               (jm_insert pi_kind (case target_kind of Some k \<Rightarrow> JString k | None \<Rightarrow> JNull) []))
     in JObject (jm_insert pi_tool tool
          (jm_insert pi_annotations annotations
            (jm_insert pi_snapshot snapshot
              (jm_insert pi_policy_target (JObject policy_target)
                (jm_insert pi_intervention_point (JString (point_as_str point)) []))))))"

lemma build_policy_input_members:
  "build_policy_input point path kind target snapshot annotations tool = JObject
    [(pi_intervention_point, JString (point_as_str point)),
     (pi_policy_target, JObject
       [(pi_kind, (case kind of Some k \<Rightarrow> JString k | None \<Rightarrow> JNull)),
        (pi_path, JString path), (pi_value, target)]),
     (pi_snapshot, snapshot), (pi_annotations, annotations), (pi_tool, tool)]"
  by (simp add: build_policy_input_def pi_key_defs)

section \<open>Properties\<close>

text \<open>
  The canonical serialization depends on the value only.  Two values that
  are equal as JSON, whatever the order their members were inserted in, serialize to
  the same text; and the value serialized is equal to the original with every
  object's members in increasing key order.
\<close>

theorem canonical_json_order_free:
  assumes "json_eq v w" "json_wf v" "json_wf w" "no_negative_zero v" "no_negative_zero w"
  shows "canonical_json ser v = canonical_json ser w
    \<and> json_eq v (sort_json v) \<and> json_sorted (sort_json v)"
  using sort_json_order_free [OF assms] sort_json_eq [OF assms(2)] sort_json_sorted [OF assms(2)]
  by (simp only: canonical_json_def simp_thms)

theorem canonical_json_order_free_witness:
  "canonical_json (Inr \<circ> jcs) (JObject [(''b'', JNull), (''a'', JArray [JBool True])]) =
   canonical_json (Inr \<circ> jcs) (JObject [(''a'', JArray [JBool True]), (''b'', JNull)])"
  by (rule canonical_json_order_free [THEN conjunct1]) (simp_all add: jm_inv_def)

end
