(* ===== verification/Sources.thy ===== *)
theory Sources
  imports Paths Policy_Input
begin

text \<open>
  Content pinned sources and the references of a manifest to other documents
  (\<open>manifest.rs\<close>: \<open>PinnedHttpsSource\<close>, \<open>ManifestExtends\<close>, the URL, hash and
  integrity checks).

  Outside code is the record \<open>externals\<close>: the agent-hooks functions, the serde_json
  serializer and string decoder, SHA-256, the URL parser, the four base64 decoders that
  \<open>parse_integrity\<close> tries in turn, the derived deserializer of a pinned source, and
  the HTTPS client.
\<close>

section \<open>External code\<close>

text \<open>What the source reads of a \<open>url::Url\<close>: its text and its components.\<close>

record url =
  u_text :: string
  u_scheme :: string
  u_username :: string
  u_password :: "string option"
  u_fragment :: "string option"

record pinned_source =
  ps_url :: string
  ps_integrity :: "string option"
  ps_sha256 :: "string option"

datatype url_error = RelativeUrlWithoutBase | OtherUrlError string

fun show_url_error :: "url_error \<Rightarrow> string" where
  "show_url_error RelativeUrlWithoutBase = ''relative URL without a base''"
| "show_url_error (OtherUrlError d) = d"

record externals =
  x_hooks :: agent_hooks
  x_to_string :: serializer
  x_literal :: literal_decoder
  x_sha256 :: "string \<Rightarrow> string"
  x_url_parse :: "string \<Rightarrow> (url_error, url) result"
  x_base64_decoders :: "(string \<Rightarrow> string option) list"
  x_pinned_from_value :: "json \<Rightarrow> (string, pinned_source) result"

section \<open>URLs and digests\<close>

definition validate_url_components_with_context :: "url \<Rightarrow> string \<Rightarrow> (runtime_error, string) result" where
  "validate_url_components_with_context u ctxt =
    (if u_scheme u \<noteq> ''https'' then
       Inl (ManifestInvalid (ctxt @ '' URL '' @ quoted (u_text u) @ '' uses unsupported URL scheme ''
         @ quoted (u_scheme u) @ ''; only https is allowed''))
     else if u_username u \<noteq> [] \<or> u_password u \<noteq> None then
       Inl (ManifestInvalid (ctxt @ '' URL '' @ quoted (u_text u) @ '' must not include credentials''))
     else if u_fragment u \<noteq> None then
       Inl (ManifestInvalid (ctxt @ '' URL '' @ quoted (u_text u) @ '' must not include a fragment''))
     else Inr (u_text u))"

definition validate_https_url_with_context ::
  "externals \<Rightarrow> string \<Rightarrow> string \<Rightarrow> (runtime_error, string) result"
where
  "validate_https_url_with_context x raw ctxt =
    rbind (map_err (\<lambda>err. ManifestInvalid (ctxt @ '' URL '' @ quoted raw @ '' is invalid: '' @ show_url_error err))
             (x_url_parse x raw))
      (\<lambda>u. validate_url_components_with_context u ctxt)"

definition is_ascii_hexdigit :: "char \<Rightarrow> bool" where
  "is_ascii_hexdigit c \<longleftrightarrow> is_ascii_digit c \<or> (byte c \<ge> 97 \<and> byte c \<le> 102) \<or> (byte c \<ge> 65 \<and> byte c \<le> 70)"

definition hex_value :: "char \<Rightarrow> nat" where
  "hex_value c =
    (if is_ascii_digit c then byte c - 48 else if byte c \<ge> 97 then byte c - 87 else byte c - 55)"

fun hex_pairs :: "string \<Rightarrow> string" where
  "hex_pairs (a # b # rest) = char_of (hex_value a * 16 + hex_value b) # hex_pairs rest"
| "hex_pairs _ = []"

definition parse_sha256_hex_with_context :: "string \<Rightarrow> string \<Rightarrow> (runtime_error, string) result" where
  "parse_sha256_hex_with_context raw ctxt =
    (let trimmed = trim raw in
     if length trimmed \<noteq> 64 \<or> \<not> list_all is_ascii_hexdigit trimmed then
       Inl (ManifestInvalid (ctxt @ '' sha256 '' @ quoted raw
         @ '' must be 64 lowercase or uppercase hex characters''))
     else Inr (hex_pairs trimmed))"

fun first_decoding :: "(string \<Rightarrow> string option) list \<Rightarrow> string \<Rightarrow> string option" where
  "first_decoding [] s = None"
| "first_decoding (d # ds) s = (case d s of Some r \<Rightarrow> Some r | None \<Rightarrow> first_decoding ds s)"

definition parse_integrity_with_context :: "externals \<Rightarrow> string \<Rightarrow> string \<Rightarrow> (runtime_error, string) result" where
  "parse_integrity_with_context x raw ctxt =
    (let bad = ManifestInvalid (ctxt @ '' integrity '' @ quoted raw @ '' must use sha256-<base64>'') in
     rbind (ok_or bad (strip_prefix (trim raw) ''sha256-'')) (\<lambda>digest.
     rbind (ok_or bad (first_decoding (x_base64_decoders x) digest)) (\<lambda>decoded.
     if length decoded \<noteq> 32 then
       Inl (ManifestInvalid (ctxt @ '' integrity '' @ quoted raw @ '' must contain a 32 byte sha256 digest''))
     else Inr decoded)))"

section \<open>Pinned sources\<close>

definition pinned_digest :: "externals \<Rightarrow> pinned_source \<Rightarrow> (runtime_error, string) result" where
  "pinned_digest x src = (case (ps_sha256 src, ps_integrity src) of
      (Some hash, None) \<Rightarrow> parse_sha256_hex_with_context hash ''artifact''
    | (None, Some hash) \<Rightarrow> parse_integrity_with_context x hash ''artifact''
    | _ \<Rightarrow> Inl (ManifestInvalid ''pinned HTTPS source requires exactly one of sha256 or integrity''))"

definition pinned_validate :: "externals \<Rightarrow> pinned_source \<Rightarrow> (runtime_error, unit) result" where
  "pinned_validate x src =
    rbind (validate_https_url_with_context x (ps_url src) ''artifact'') (\<lambda>_.
    rbind (pinned_digest x src) (\<lambda>_. Inr ()))"

definition pinned_from_value :: "externals \<Rightarrow> json \<Rightarrow> (runtime_error, pinned_source) result" where
  "pinned_from_value x v =
    rbind (map_err (\<lambda>err. ManifestInvalid (''invalid pinned HTTPS source: '' @ err))
             (x_pinned_from_value x v)) (\<lambda>src.
    rbind (pinned_validate x src) (\<lambda>_. Inr src))"

text \<open>
  \<open>fetch_pinned_https_bytes\<close>, with the body fetch as an argument and the
  question whether the platform clock can represent the deadline as another.
\<close>

definition fetch_pinned_https_bytes ::
  "externals \<Rightarrow> (string \<Rightarrow> (runtime_error, string) result) \<Rightarrow> bool \<Rightarrow> nat \<Rightarrow> pinned_source
    \<Rightarrow> (runtime_error, string) result"
where
  "fetch_pinned_https_bytes x fetch_body deadline_ok timeout_ms src =
    rbind (pinned_validate x src) (\<lambda>_.
    if timeout_ms = 0 then
      Inl (ResourceLimitExceeded ''artifact URL fetch exceeds timeout of 0 ms'')
    else if \<not> deadline_ok then
      Inl (ResourceLimitExceeded ''artifact URL timeout is too large for this platform'')
    else
      rbind (fetch_body (ps_url src)) (\<lambda>body.
      rbind (pinned_digest x src) (\<lambda>digest.
      if x_sha256 x body \<noteq> digest then
        Inl (ManifestInvalid (''SHA-256 pin mismatch for artifact URL '' @ quoted (ps_url src)))
      else Inr body)))"

section \<open>Extends entries\<close>

record manifest_url_extends =
  ue_url :: string
  ue_integrity :: "string option"
  ue_sha256 :: "string option"

datatype manifest_extends = Reference string | Url manifest_url_extends

fun extends_reference :: "manifest_extends \<Rightarrow> string" where
  "extends_reference (Reference r) = r"
| "extends_reference (Url u) = ue_url u"

fun is_pinned :: "manifest_extends \<Rightarrow> bool" where
  "is_pinned (Reference r) = False"
| "is_pinned (Url u) = (ue_integrity u \<noteq> None \<or> ue_sha256 u \<noteq> None)"

definition validate_extends_trust :: "externals \<Rightarrow> manifest_extends \<Rightarrow> (runtime_error, unit) result" where
  "validate_extends_trust x ext = (case ext of
      Reference _ \<Rightarrow> Inr ()
    | Url u \<Rightarrow>
        if ue_integrity u \<noteq> None \<and> ue_sha256 u \<noteq> None then
          Inl (ManifestInvalid (''extends URL '' @ quoted (ue_url u)
            @ '' must not define both integrity and sha256''))
        else
          rbind (case ue_integrity u of
              Some i \<Rightarrow> rbind (parse_integrity_with_context x i ''extends'') (\<lambda>_. Inr ())
            | None \<Rightarrow> Inr ()) (\<lambda>_.
          case ue_sha256 u of
              Some h \<Rightarrow> rbind (parse_sha256_hex_with_context h ''extends'') (\<lambda>_. Inr ())
            | None \<Rightarrow> Inr ()))"

definition verify_extends_hash ::
  "externals \<Rightarrow> manifest_extends \<Rightarrow> string \<Rightarrow> string \<Rightarrow> (runtime_error, unit) result"
where
  "verify_extends_hash x ext link body = (case ext of
      Reference _ \<Rightarrow> Inr ()
    | Url u \<Rightarrow>
        let actual = x_sha256 x body in
        rbind (case ue_sha256 u of
            Some h \<Rightarrow> rbind (parse_sha256_hex_with_context h ''extends'') (\<lambda>expected.
              if actual \<noteq> expected then
                Inl (ManifestInvalid (''sha256 mismatch for extends URL '' @ quoted link))
              else Inr ())
          | None \<Rightarrow> Inr ()) (\<lambda>_.
        case ue_integrity u of
            Some i \<Rightarrow> rbind (parse_integrity_with_context x i ''extends'') (\<lambda>expected.
              if actual \<noteq> expected then
                Inl (ManifestInvalid (''integrity mismatch for extends URL '' @ quoted link))
              else Inr ())
          | None \<Rightarrow> Inr ()))"

section \<open>Properties\<close>

lemma hex_value_digit: "n < 16 \<Longrightarrow> hex_value (hex_digit n) = n \<and> is_ascii_hexdigit (hex_digit n)"
  by (auto simp: hex_value_def hex_digit_def is_ascii_hexdigit_def is_ascii_digit_def)

lemma hex_pairs_lower: "hex_pairs (lower d) = d"
proof (induction d)
  case (Cons c d)
  have "byte c div 16 < 16"
    using byte_less [of c] by (simp add: less_mult_imp_div_less)
  moreover have "hex_pairs (lower (c # d)) =
      char_of (hex_value (hex_digit (byte c div 16)) * 16 + hex_value (hex_digit (byte c mod 16)))
        # hex_pairs (lower d)"
    by (simp add: lower_def)
  ultimately show ?case
    using Cons by (simp add: hex_value_digit)
qed (simp add: lower_def)

lemma lower_hexdigits: "list_all is_ascii_hexdigit (lower d)"
proof (induction d)
  case (Cons c d)
  have "byte c div 16 < 16"
    using byte_less [of c] by (simp add: less_mult_imp_div_less)
  then show ?case
    using Cons hex_value_digit by (simp add: lower_def)
qed (simp add: lower_def)

text \<open>Hexadecimal digits are characters of their own and not white space.\<close>

lemma chars_ascii: "list_all (\<lambda>c. byte c < 128) s \<Longrightarrow> chars s = map (\<lambda>c. [c]) s"
proof (induction s)
  case (Cons c s)
  have "takeWhile is_cont s = []" "dropWhile is_cont s = s"
    using Cons.prems by (cases s; simp add: is_cont_def)+
  with Cons show ?case
    by simp
qed simp

lemma trim_no_whitespace:
  assumes "list_all (\<lambda>c. byte c < 128 \<and> \<not> is_whitespace [c]) s"
  shows "trim s = s"
proof -
  have "chars s = map (\<lambda>c. [c]) s"
    using assms by (intro chars_ascii) (auto simp: list_all_iff)
  moreover have "dropWhile is_whitespace (map (\<lambda>c. [c]) t) = map (\<lambda>c. [c]) t"
    if "set t \<subseteq> set s" for t
    using that assms by (cases t) (auto simp: list_all_iff)
  ultimately show ?thesis
    by (simp add: trim_def rev_map)
qed

lemma trim_lower: "trim (lower d) = lower d"
proof -
  have "byte c < 128 \<and> \<not> is_whitespace [c]" if "is_ascii_hexdigit c" for c
    using that by (auto simp: is_ascii_hexdigit_def is_ascii_digit_def is_whitespace_def)
  then show ?thesis
    using lower_hexdigits [of d] by (intro trim_no_whitespace) (auto simp: list_all_iff)
qed

text \<open>
  C32: A digest printed in lower case hexadecimal, the form the engine itself emits, is
  read back by the \<open>sha256\<close> pin parser as the same 32 bytes.
\<close>

theorem sha256_hex_round_trip:
  assumes "length digest = 32"
  shows "parse_sha256_hex_with_context (lower digest) ctxt = Inr digest"
  using assms by (simp add: parse_sha256_hex_with_context_def trim_lower lower_length lower_hexdigits
      hex_pairs_lower)

theorem sha256_hex_round_trip_witness:
  "parse_sha256_hex_with_context (lower (replicate 32 (CHR 0xAB))) ''extends'' = Inr (replicate 32 (CHR 0xAB))"
  by (rule sha256_hex_round_trip) simp

text \<open>
  A pin is enforced.  Bytes returned by the pinned fetch have exactly
  the SHA-256 digest that the source's single pin names, and come from a validated URL;
  and an extends body that passes verification against a pinned entry has the digest each of
  its pins names.
\<close>

theorem pinned_bytes_match_digest:
  "(fetch_pinned_https_bytes x fetch deadline_ok timeout src = Inr body \<longrightarrow>
     pinned_digest x src = Inr (x_sha256 x body)
     \<and> (ps_sha256 src = None) \<noteq> (ps_integrity src = None)
     \<and> is_ok (validate_https_url_with_context x (ps_url src) ''artifact'')
     \<and> fetch (ps_url src) = Inr body)
   \<and> (verify_extends_hash x (Url u) link bytes = Inr () \<longrightarrow>
     (\<forall>h. ue_sha256 u = Some h \<longrightarrow> parse_sha256_hex_with_context h ''extends'' = Inr (x_sha256 x bytes))
     \<and> (\<forall>i. ue_integrity u = Some i \<longrightarrow> parse_integrity_with_context x i ''extends'' = Inr (x_sha256 x bytes)))"
  by (auto simp: fetch_pinned_https_bytes_def verify_extends_hash_def pinned_validate_def pinned_digest_def
      rbind_eq_Inr_iff is_ok_iff Let_def split: if_splits option.splits)

definition example_externals :: externals where
  "example_externals = \<lparr>
     x_hooks = example_hooks 10240,
     x_to_string = (\<lambda>v. Inr (jcs v)),
     x_literal = (\<lambda>l. Inr (butlast (tl l))),
     x_sha256 = (\<lambda>b. replicate 32 (CHR 0xAB)),
     x_url_parse = (\<lambda>s. if starts_with s ''https://''
        then Inr \<lparr>u_text = s, u_scheme = ''https'', u_username = [], u_password = None, u_fragment = None\<rparr>
        else Inl RelativeUrlWithoutBase),
     x_base64_decoders = [],
     x_pinned_from_value = (\<lambda>v. Inl ''unsupported'')\<rparr>"

theorem pinned_bytes_match_digest_witness:
  "pinned_digest example_externals
     \<lparr>ps_url = ''https://h/p'', ps_integrity = None, ps_sha256 = Some (lower (replicate 32 (CHR 0xAB)))\<rparr> =
   Inr (x_sha256 example_externals ''body'')"
proof -
  let ?src = "\<lparr>ps_url = ''https://h/p'', ps_integrity = None,
    ps_sha256 = Some (lower (replicate 32 (CHR 0xAB)))\<rparr> :: pinned_source"
  have "fetch_pinned_https_bytes example_externals (\<lambda>_. Inr ''body'') True 30 ?src = Inr ''body''"
    by (simp add: fetch_pinned_https_bytes_def pinned_validate_def pinned_digest_def
        validate_https_url_with_context_def validate_url_components_with_context_def
        example_externals_def starts_with_def parse_sha256_hex_with_context_def trim_lower lower_length
        lower_hexdigits hex_pairs_lower)
  then show ?thesis
    using pinned_bytes_match_digest [of example_externals "\<lambda>_. Inr ''body''" True 30 ?src "''body''"] by blast
qed

end
