(* ===== verification/Policies.thy ===== *)
theory Policies
  imports Sources
begin

text \<open>
  Policy definitions and bindings (\<open>policy.rs\<close>): the four policy types, their
  validation, the gates for definitions that came from a fetched document, the
  invocation handed to a dispatcher, and the content digest of an in-memory Rego bundle.

  \<open>std::path\<close> is modelled for a Unix host: a path is its string, absolute when it
  starts with a slash.
\<close>

section \<open>Configuration\<close>

type_synonym adapter_config = "(string \<times> json) list"

record mounted_rego_data =
  md_mount :: "string list"
  md_document :: json

record in_memory_bundle =
  ib_modules :: "(string \<times> string) list"
  ib_data :: "mounted_rego_data list"
  ib_digest :: string

record rego_policy_config =
  rp_query :: "string option"
  rp_bundle :: "string option"
  rp_inline_bundle :: "in_memory_bundle option"
  rp_adapter_config :: adapter_config

record cedar_policy_config =
  cp_policy_set :: "string option"
  cp_policy_path :: "string option"
  cp_entities_path :: "string option"
  cp_schema_path :: "string option"
  cp_query :: "json option"

record test_policy_config =
  tp_adapter_config :: adapter_config

record custom_policy_config =
  up_adapter :: string
  up_adapter_config :: adapter_config

datatype policy_config =
    Rego rego_policy_config
  | Cedar cedar_policy_config
  | TestPolicy test_policy_config
  | Custom custom_policy_config

record policy_binding =
  pb_id :: string
  pb_query :: "string option"
  pb_adapter_config :: adapter_config

fun engine_type :: "policy_config \<Rightarrow> string" where
  "engine_type (Rego _) = ''rego''"
| "engine_type (Cedar _) = ''cedar''"
| "engine_type (TestPolicy _) = ''test''"
| "engine_type (Custom _) = ''custom''"

definition has_key :: "('k \<times> 'v) list \<Rightarrow> 'k \<Rightarrow> bool" where
  "has_key m k \<longleftrightarrow> map_of m k \<noteq> None"

lemma has_key_iff: "has_key m k \<longleftrightarrow> k \<in> fst ` set m"
  by (simp add: has_key_def map_of_eq_None_iff)

section \<open>Relative paths\<close>

definition DATA_PATH_KEYS :: "string list" where
  "DATA_PATH_KEYS = [''data'', ''data_paths'']"

definition path_is_absolute :: "string \<Rightarrow> bool" where
  "path_is_absolute p = starts_with p ''/''"

definition path_join :: "string \<Rightarrow> string \<Rightarrow> string" where
  "path_join base p =
    (if path_is_absolute p then p
     else if base = [] \<or> last base = CHR ''/'' then base @ p
     else base @ ''/'' @ p)"

definition resolve_relative_string :: "string \<Rightarrow> string \<Rightarrow> string option" where
  "resolve_relative_string value base_dir =
    (if value = [] then None
     else if path_is_absolute value then None
     else Some (path_join base_dir value))"

definition rebase :: "string \<Rightarrow> string \<Rightarrow> string" where
  "rebase base_dir value = (case resolve_relative_string value base_dir of Some r \<Rightarrow> r | None \<Rightarrow> value)"

definition resolve_data_path_value :: "string \<Rightarrow> json \<Rightarrow> json" where
  "resolve_data_path_value base_dir v = (case v of
      JString p \<Rightarrow> JString (rebase base_dir p)
    | JArray items \<Rightarrow> JArray (map (\<lambda>item. case item of JString p \<Rightarrow> JString (rebase base_dir p) | _ \<Rightarrow> item) items)
    | _ \<Rightarrow> v)"

definition resolve_adapter_config_paths :: "string \<Rightarrow> adapter_config \<Rightarrow> adapter_config" where
  "resolve_adapter_config_paths base_dir cfg =
    fold (\<lambda>key m. case map_of m key of
        Some v \<Rightarrow> bt_insert key (resolve_data_path_value base_dir v) m
      | None \<Rightarrow> m) DATA_PATH_KEYS cfg"

fun policy_resolve_relative_paths :: "string \<Rightarrow> policy_config \<Rightarrow> policy_config" where
  "policy_resolve_relative_paths base_dir (Rego c) =
    Rego (c\<lparr>rp_bundle := map_option (rebase base_dir) (rp_bundle c),
            rp_adapter_config := resolve_adapter_config_paths base_dir (rp_adapter_config c)\<rparr>)"
| "policy_resolve_relative_paths base_dir (Cedar c) =
    Cedar (c\<lparr>cp_policy_path := map_option (rebase base_dir) (cp_policy_path c),
             cp_entities_path := map_option (rebase base_dir) (cp_entities_path c),
             cp_schema_path := map_option (rebase base_dir) (cp_schema_path c)\<rparr>)"
| "policy_resolve_relative_paths base_dir (TestPolicy c) =
    TestPolicy (c\<lparr>tp_adapter_config := resolve_adapter_config_paths base_dir (tp_adapter_config c)\<rparr>)"
| "policy_resolve_relative_paths base_dir (Custom c) =
    Custom (c\<lparr>up_adapter_config := resolve_adapter_config_paths base_dir (up_adapter_config c)\<rparr>)"

definition binding_resolve_relative_paths :: "string \<Rightarrow> policy_binding \<Rightarrow> policy_binding" where
  "binding_resolve_relative_paths base_dir b =
    b\<lparr>pb_adapter_config := resolve_adapter_config_paths base_dir (pb_adapter_config b)\<rparr>"

section \<open>Gates for fetched documents\<close>

definition MARKER :: string where
  "MARKER = ''URL sourced manifest''"

definition filesystem_field_error :: "string \<Rightarrow> string \<Rightarrow> string \<Rightarrow> string \<Rightarrow> runtime_error" where
  "filesystem_field_error document ctxt field alternative =
    ManifestInvalid (document @ '': '' @ ctxt @ '' declares filesystem path field '' @ quoted field
      @ ''; a '' @ MARKER @ '' cannot reference host files, use '' @ alternative @ '' instead'')"

definition reject_adapter_data_paths :: "string \<Rightarrow> string \<Rightarrow> adapter_config \<Rightarrow> (runtime_error, unit) result" where
  "reject_adapter_data_paths document ctxt cfg =
    try_each (\<lambda>key.
      if has_key cfg key then
        Inl (filesystem_field_error document ctxt key
          ''a policy declared in a file under the manifest root'')
      else Inr ()) DATA_PATH_KEYS"

definition reject_remote_bundle_key :: "string \<Rightarrow> string \<Rightarrow> adapter_config \<Rightarrow> (runtime_error, unit) result" where
  "reject_remote_bundle_key document ctxt cfg =
    (if has_key cfg ''bundle_url'' then
       Inl (ManifestInvalid (document @ '': '' @ ctxt @ '' declares a remote rego '' @ quoted ''bundle_url''
         @ '' on an unpinned path; a '' @ MARKER
         @ '' may name one only when every URL extends from the root manifest to this document is ''
         @ ''pinned with sha256 or integrity, and a document the host marked carries no pin''))
     else Inr ())"

text \<open>\<open>str::split\<close> on one character: always at least one segment.\<close>

fun split_on :: "char \<Rightarrow> string \<Rightarrow> string list" where
  "split_on c [] = [[]]"
| "split_on c (b # bs) =
    (if b = c then [] # split_on c bs
     else case split_on c bs of [] \<Rightarrow> [[b]] | seg # segs \<Rightarrow> (b # seg) # segs)"

definition is_ascii_alphanumeric :: "char \<Rightarrow> bool" where
  "is_ascii_alphanumeric c \<longleftrightarrow>
    is_ascii_digit c \<or> (byte c \<ge> 65 \<and> byte c \<le> 90) \<or> (byte c \<ge> 97 \<and> byte c \<le> 122)"

definition is_rule_path :: "string \<Rightarrow> bool" where
  "is_rule_path query = (case strip_prefix query ''data.'' of
      None \<Rightarrow> False
    | Some rest \<Rightarrow> rest \<noteq> [] \<and> list_all (\<lambda>segment.
        segment \<noteq> [] \<and> list_all (\<lambda>c. is_ascii_alphanumeric c \<or> c = CHR ''_'') segment)
        (split_on (CHR ''.'') rest))"

definition reject_non_rule_query_text :: "string \<Rightarrow> string \<Rightarrow> string \<Rightarrow> (runtime_error, unit) result" where
  "reject_non_rule_query_text document ctxt query =
    (if is_rule_path query then Inr ()
     else Inl (ManifestInvalid (document @ '': '' @ ctxt @ '' declares rego query '' @ quoted query
       @ '' that is not a plain rule path; a '' @ MARKER
       @ '' may only name a rule such as data.acs.decision, because an expression query runs as ''
       @ ''code inside the policy engine'')))"

fun policy_reject_filesystem_path_fields ::
  "string \<Rightarrow> string \<Rightarrow> policy_config \<Rightarrow> (runtime_error, unit) result"
where
  "policy_reject_filesystem_path_fields document ctxt (Rego c) =
    (if rp_bundle c \<noteq> None then
       Inl (filesystem_field_error document ctxt ''bundle''
         (''in-memory modules through set_rego_bundle_in_memory, a host supplied ''
           @ ''policy dispatcher, or a policy declared in a file under the manifest root''))
     else reject_adapter_data_paths document ctxt (rp_adapter_config c))"
| "policy_reject_filesystem_path_fields document ctxt (Cedar c) =
    try_each (\<lambda>(field, value).
      if value \<noteq> None then Inl (filesystem_field_error document ctxt field ''inline policy_set'')
      else Inr ())
      [(''policy_path'', cp_policy_path c), (''entities_path'', cp_entities_path c),
       (''schema_path'', cp_schema_path c)]"
| "policy_reject_filesystem_path_fields document ctxt (TestPolicy c) =
    reject_adapter_data_paths document ctxt (tp_adapter_config c)"
| "policy_reject_filesystem_path_fields document ctxt (Custom c) =
    reject_adapter_data_paths document ctxt (up_adapter_config c)"

fun policy_reject_remote_bundle_field ::
  "string \<Rightarrow> string \<Rightarrow> policy_config \<Rightarrow> (runtime_error, unit) result"
where
  "policy_reject_remote_bundle_field document ctxt (Rego c) =
    reject_remote_bundle_key document ctxt (rp_adapter_config c)"
| "policy_reject_remote_bundle_field document ctxt (TestPolicy c) =
    reject_remote_bundle_key document ctxt (tp_adapter_config c)"
| "policy_reject_remote_bundle_field document ctxt (Custom c) =
    reject_remote_bundle_key document ctxt (up_adapter_config c)"
| "policy_reject_remote_bundle_field document ctxt (Cedar c) = Inr ()"

fun policy_reject_non_rule_query ::
  "string \<Rightarrow> string \<Rightarrow> policy_config \<Rightarrow> (runtime_error, unit) result"
where
  "policy_reject_non_rule_query document ctxt (Rego c) = (case rp_query c of
      Some query \<Rightarrow> reject_non_rule_query_text document ctxt query
    | None \<Rightarrow> Inr ())"
| "policy_reject_non_rule_query document ctxt _ = Inr ()"

definition binding_reject_filesystem_path_fields ::
  "string \<Rightarrow> string \<Rightarrow> policy_binding \<Rightarrow> (runtime_error, unit) result"
where
  "binding_reject_filesystem_path_fields document ctxt b =
    reject_adapter_data_paths document ctxt (pb_adapter_config b)"

definition binding_reject_remote_bundle_field ::
  "string \<Rightarrow> string \<Rightarrow> policy_binding \<Rightarrow> (runtime_error, unit) result"
where
  "binding_reject_remote_bundle_field document ctxt b =
    reject_remote_bundle_key document ctxt (pb_adapter_config b)"

definition binding_reject_non_rule_query ::
  "string \<Rightarrow> string \<Rightarrow> policy_binding \<Rightarrow> (runtime_error, unit) result"
where
  "binding_reject_non_rule_query document ctxt b = (case pb_query b of
      Some query \<Rightarrow> reject_non_rule_query_text document ctxt query
    | None \<Rightarrow> Inr ())"

section \<open>Validation\<close>

definition merge_adapter_config :: "adapter_config \<Rightarrow> adapter_config \<Rightarrow> adapter_config" where
  "merge_adapter_config base overrides = fold (\<lambda>(k, v). bt_insert k v) overrides base"

definition rego_bundle_url ::
  "externals \<Rightarrow> string option \<Rightarrow> bool \<Rightarrow> adapter_config \<Rightarrow> (runtime_error, pinned_source option) result"
where
  "rego_bundle_url x bundle inline adapter =
    (let remote = map_of adapter ''bundle_url'' in
     if of_bool (bundle \<noteq> None) + of_bool inline + of_bool (remote \<noteq> None) > (1 :: nat) then
       Inl (ManifestInvalid ''Rego policy must not combine bundle, inline_bundle, and bundle_url'')
     else case remote of
       None \<Rightarrow> Inr None
     | Some v \<Rightarrow> rbind (pinned_from_value x v) (\<lambda>src. Inr (Some src)))"

definition validate_required_string :: "string \<Rightarrow> string \<Rightarrow> (runtime_error, unit) result" where
  "validate_required_string field value =
    (if is_blank value then Inl (ManifestInvalid (field @ '' must not be empty'')) else Inr ())"

definition validate_optional_string :: "string \<Rightarrow> string option \<Rightarrow> (runtime_error, unit) result" where
  "validate_optional_string field value = (case value of
      Some v \<Rightarrow> if is_blank v then Inl (ManifestInvalid (field @ '' must not be empty'')) else Inr ()
    | None \<Rightarrow> Inr ())"

definition CEDAR_FIELDS :: "string list" where
  "CEDAR_FIELDS = [''policy_set'', ''policy_path'', ''entities_path'', ''schema_path'']"

definition CEDAR_FIXED_MAPPING :: string where
  "CEDAR_FIXED_MAPPING = ''the Cedar request is built from the policy input by the fixed ''
     @ ''mapping in SPECIFICATION.md 12.4 (principal, action, resource and context); remove the field''"

definition validate_cedar_config :: "cedar_policy_config \<Rightarrow> (runtime_error, unit) result" where
  "validate_cedar_config c =
    rbind (case (cp_policy_set c, cp_policy_path c) of
        (Some _, Some _) \<Rightarrow> Inl (ManifestInvalid
          ''cedar policies must declare exactly one of policy_set or policy_path, not both'')
      | (None, None) \<Rightarrow> Inl (ManifestInvalid
          ''cedar policies must declare exactly one of policy_set or policy_path'')
      | _ \<Rightarrow> Inr ()) (\<lambda>_.
    rbind (validate_optional_string ''cedar.policy_set'' (cp_policy_set c)) (\<lambda>_.
    rbind (validate_optional_string ''cedar.policy_path'' (cp_policy_path c)) (\<lambda>_.
    rbind (validate_optional_string ''cedar.entities_path'' (cp_entities_path c)) (\<lambda>_.
    rbind (validate_optional_string ''cedar.schema_path'' (cp_schema_path c)) (\<lambda>_.
    if cp_query c \<noteq> None then
      Inl (ManifestInvalid (''cedar.query is not supported: '' @ CEDAR_FIXED_MAPPING))
    else Inr ())))))"

definition validate_rego_config :: "externals \<Rightarrow> rego_policy_config \<Rightarrow> (runtime_error, unit) result" where
  "validate_rego_config x c =
    rbind (validate_optional_string ''rego.query'' (rp_query c)) (\<lambda>_.
    rbind (validate_optional_string ''rego.bundle'' (rp_bundle c)) (\<lambda>_.
    rbind (rego_bundle_url x (rp_bundle c) (rp_inline_bundle c \<noteq> None) (rp_adapter_config c)) (\<lambda>_.
    try_each (\<lambda>field.
      if has_key (rp_adapter_config c) field then
        Inl (ManifestInvalid (''rego.'' @ field
          @ '' is reserved for the cedar policy type; rego policies declare a bundle''))
      else Inr ()) CEDAR_FIELDS)))"

text \<open>The errors of the Rego arm are returned from the function, so only the others name the policy.\<close>

definition validate_policy_definition ::
  "externals \<Rightarrow> string \<Rightarrow> policy_config \<Rightarrow> (runtime_error, unit) result"
where
  "validate_policy_definition x name config =
    (let named = map_err (\<lambda>e. ManifestInvalid (''invalid policy '' @ quoted name @ '': '' @ detail e)) in
     case config of
       Rego c \<Rightarrow> validate_rego_config x c
     | Cedar c \<Rightarrow> named (validate_cedar_config c)
     | TestPolicy _ \<Rightarrow> named (Inr ())
     | Custom c \<Rightarrow> named (validate_required_string ''custom.adapter'' (up_adapter c)))"

definition or_else :: "'a option \<Rightarrow> 'a option \<Rightarrow> 'a option" where
  "or_else a b = (case a of Some v \<Rightarrow> Some v | None \<Rightarrow> b)"

definition validate_policy_binding ::
  "externals \<Rightarrow> interception_point \<Rightarrow> policy_binding \<Rightarrow> policy_config \<Rightarrow> (runtime_error, unit) result"
where
  "validate_policy_binding x point b config =
    (if is_blank (pb_id b) then
       Inl (ManifestInvalid (''policy.id for intervention point '' @ point_as_str point
         @ '' must not be empty''))
     else
       rbind (map_err (\<lambda>e. ManifestInvalid (''invalid policy binding for intervention point ''
                 @ point_as_str point @ '': '' @ detail e))
               (validate_optional_string ''policy.query'' (pb_query b))) (\<lambda>_.
       case config of
         Rego c \<Rightarrow>
           rbind (rego_bundle_url x (rp_bundle c) (rp_inline_bundle c \<noteq> None)
                    (merge_adapter_config (rp_adapter_config c) (pb_adapter_config b))) (\<lambda>_.
           if or_else (pb_query b) (rp_query c) = None then
             Inl (ManifestInvalid (''rego policy for intervention point '' @ point_as_str point
               @ '' requires policy.query''))
           else Inr ())
       | Cedar c \<Rightarrow>
           (let extra = (if pb_query b \<noteq> None then [''query''] else []) @ map fst (pb_adapter_config b) in
            if extra \<noteq> [] then
              Inl (ManifestInvalid (''policy binding for intervention point '' @ point_as_str point
                @ '' sets '' @ join '', '' extra
                @ '' on a cedar policy; a cedar binding carries only id: '' @ CEDAR_FIXED_MAPPING))
            else Inr ())
       | TestPolicy _ \<Rightarrow> Inr ()
       | Custom _ \<Rightarrow> Inr ()))"

section \<open>Invocations\<close>

record rego_invocation =
  ri_query :: string
  ri_bundle :: "string option"
  ri_inline_bundle :: "in_memory_bundle option"
  ri_adapter_config :: adapter_config
  ri_input :: json
  ri_canonical_input :: string

record cedar_invocation =
  ci_policy_set :: "string option"
  ci_policy_path :: "string option"
  ci_entities_path :: "string option"
  ci_schema_path :: "string option"
  ci_input :: json
  ci_canonical_input :: string

record test_invocation =
  ti_adapter_config :: adapter_config
  ti_input :: json
  ti_canonical_input :: string

record custom_invocation =
  ui_adapter :: string
  ui_adapter_config :: adapter_config
  ui_input :: json
  ui_canonical_input :: string

datatype prepared_invocation =
    RegoInvocation rego_invocation
  | CedarInvocation cedar_invocation
  | TestInvocation test_invocation
  | CustomInvocation custom_invocation

fun invocation_engine_type :: "prepared_invocation \<Rightarrow> string" where
  "invocation_engine_type (RegoInvocation _) = ''rego''"
| "invocation_engine_type (CedarInvocation _) = ''cedar''"
| "invocation_engine_type (TestInvocation _) = ''test''"
| "invocation_engine_type (CustomInvocation _) = ''custom''"

fun invocation_input :: "prepared_invocation \<Rightarrow> json" where
  "invocation_input (RegoInvocation i) = ri_input i"
| "invocation_input (CedarInvocation i) = ci_input i"
| "invocation_input (TestInvocation i) = ti_input i"
| "invocation_input (CustomInvocation i) = ui_input i"

definition canonical_policy_input :: "externals \<Rightarrow> json \<Rightarrow> (runtime_error, string) result" where
  "canonical_policy_input x input =
    map_err (\<lambda>err. PolicyInvocationFailed (''failed to canonicalize policy input: '' @ err))
      (canonical_json (x_to_string x) input)"

definition prepare_policy_invocation ::
  "externals \<Rightarrow> policy_config \<Rightarrow> policy_binding \<Rightarrow> json \<Rightarrow> (runtime_error, prepared_invocation) result"
where
  "prepare_policy_invocation x config b input = (case config of
      Rego c \<Rightarrow>
        rbind (ok_or (PolicyInvocationFailed ''rego policy invocation requires a query'')
                 (or_else (pb_query b) (rp_query c))) (\<lambda>query.
        rbind (canonical_policy_input x input) (\<lambda>canonical.
        let adapter = merge_adapter_config (rp_adapter_config c) (pb_adapter_config b) in
        rbind (map_err (\<lambda>e. PolicyInvocationFailed (detail e))
                 (rego_bundle_url x (rp_bundle c) (rp_inline_bundle c \<noteq> None) adapter)) (\<lambda>_.
        Inr (RegoInvocation \<lparr>ri_query = query, ri_bundle = rp_bundle c,
          ri_inline_bundle = rp_inline_bundle c, ri_adapter_config = adapter,
          ri_input = input, ri_canonical_input = canonical\<rparr>))))
    | Cedar c \<Rightarrow>
        rbind (canonical_policy_input x input) (\<lambda>canonical.
        Inr (CedarInvocation \<lparr>ci_policy_set = cp_policy_set c, ci_policy_path = cp_policy_path c,
          ci_entities_path = cp_entities_path c, ci_schema_path = cp_schema_path c,
          ci_input = input, ci_canonical_input = canonical\<rparr>))
    | TestPolicy c \<Rightarrow>
        rbind (canonical_policy_input x input) (\<lambda>canonical.
        Inr (TestInvocation \<lparr>
          ti_adapter_config = merge_adapter_config (tp_adapter_config c) (pb_adapter_config b),
          ti_input = input, ti_canonical_input = canonical\<rparr>))
    | Custom c \<Rightarrow>
        rbind (canonical_policy_input x input) (\<lambda>canonical.
        Inr (CustomInvocation \<lparr>ui_adapter = up_adapter c,
          ui_adapter_config = merge_adapter_config (up_adapter_config c) (pb_adapter_config b),
          ui_input = input, ui_canonical_input = canonical\<rparr>)))"

section \<open>Data paths\<close>

definition push_data_path :: "string \<Rightarrow> string \<Rightarrow> string list \<Rightarrow> (runtime_error, string list) result" where
  "push_data_path key path paths =
    (if is_blank path then
       Inl (PolicyInvocationFailed (''rego adapter_config.'' @ key @ '' entries must not be empty''))
     else Inr (paths @ [path]))"

definition push_adapter_data_paths :: "string \<Rightarrow> json \<Rightarrow> string list \<Rightarrow> (runtime_error, string list) result" where
  "push_adapter_data_paths key v paths =
    (let bad = PolicyInvocationFailed (''rego adapter_config.'' @ key
           @ '' must be a string or array of strings'')
     in case v of
          JNull \<Rightarrow> Inr paths
        | JString path \<Rightarrow> push_data_path key path paths
        | JArray items \<Rightarrow>
            try_fold (\<lambda>item acc. case item of JString path \<Rightarrow> push_data_path key path acc | _ \<Rightarrow> Inl bad)
              items paths
        | _ \<Rightarrow> Inl bad)"

definition rego_adapter_data_paths :: "adapter_config \<Rightarrow> (runtime_error, string list) result" where
  "rego_adapter_data_paths cfg =
    try_fold (\<lambda>key paths. case map_of cfg key of
        Some v \<Rightarrow> push_adapter_data_paths key v paths
      | None \<Rightarrow> Inr paths) DATA_PATH_KEYS []"

section \<open>Content digest of an in-memory bundle\<close>

text \<open>\<open>u64::to_be_bytes\<close>.\<close>

fun be_bytes :: "nat \<Rightarrow> nat \<Rightarrow> string" where
  "be_bytes 0 n = []"
| "be_bytes (Suc k) n = be_bytes k (n div 256) @ [char_of (n mod 256)]"

definition be64 :: "nat \<Rightarrow> string" where
  "be64 n = be_bytes 8 n"

definition length_prefixed :: "string \<Rightarrow> string" where
  "length_prefixed bytes = be64 (length bytes) @ bytes"

definition module_bytes :: "string \<times> string \<Rightarrow> string" where
  "module_bytes m = length_prefixed (fst m) @ length_prefixed (snd m)"

definition data_bytes :: "string list \<times> string \<Rightarrow> string" where
  "data_bytes d = be64 (length (fst d)) @ concat (map length_prefixed (fst d)) @ length_prefixed (snd d)"

text \<open>The bytes fed to the hasher, with the canonical text of each document.\<close>

definition content_stream :: "(string \<times> string) list \<Rightarrow> (string list \<times> string) list \<Rightarrow> string" where
  "content_stream modules data =
    be64 (length modules) @ concat (map module_bytes modules)
    @ be64 (length data) @ concat (map data_bytes data)"

definition content_digest ::
  "externals \<Rightarrow> (string \<times> string) list \<Rightarrow> mounted_rego_data list \<Rightarrow> (runtime_error, string) result"
where
  "content_digest x modules data =
    rbind (try_map (\<lambda>entry.
        rbind (map_err (\<lambda>err. ManifestInvalid
                  (''in-memory Rego data document cannot be canonicalized: '' @ err))
                (canonical_json (x_to_string x) (md_document entry)))
          (\<lambda>canonical. Inr (md_mount entry, canonical))) data)
      (\<lambda>entries. Inr (lower (x_sha256 x (content_stream modules entries))))"

definition in_memory_bundle_new ::
  "externals \<Rightarrow> (string \<times> string) list \<Rightarrow> mounted_rego_data list \<Rightarrow> (runtime_error, in_memory_bundle) result"
where
  "in_memory_bundle_new x modules data =
    rbind (content_digest x modules data) (\<lambda>digest.
    Inr \<lparr>ib_modules = modules, ib_data = data, ib_digest = digest\<rparr>)"

section \<open>Prefix codes\<close>

text \<open>
  An encoding from which the encoded value and the rest of the stream can be told apart.
  The digest stream is built from four of them.
\<close>

locale prefix_code =
  fixes enc :: "'a \<Rightarrow> string"
    and ok :: "'a \<Rightarrow> bool"
  assumes decode: "\<lbrakk>ok a; ok b; enc a @ r = enc b @ s\<rbrakk> \<Longrightarrow> a = b \<and> r = s"
begin

lemma list_decode:
  "\<lbrakk>list_all ok xs; list_all ok ys; length xs = length ys;
    concat (map enc xs) @ r = concat (map enc ys) @ s\<rbrakk> \<Longrightarrow> xs = ys \<and> r = s"
proof (induction xs arbitrary: ys)
  case (Cons x xs)
  obtain y ys' where ys: "ys = y # ys'"
    using Cons.prems(3) by (cases ys) auto
  have "x = y \<and> concat (map enc xs) @ r = concat (map enc ys') @ s"
    using Cons.prems ys decode [of x y "concat (map enc xs) @ r" "concat (map enc ys') @ s"] by simp
  then show ?case
    using Cons.IH [of ys'] Cons.prems ys by simp
qed simp

end

lemma be_bytes_length [simp]: "length (be_bytes k n) = k"
  by (induction k arbitrary: n) simp_all

lemma be_bytes_inj:
  "be_bytes k m = be_bytes k n \<Longrightarrow> m < 256 ^ k \<Longrightarrow> n < 256 ^ k \<Longrightarrow> m = n"
proof (induction k arbitrary: m n)
  case (Suc k)
  have "be_bytes k (m div 256) = be_bytes k (n div 256)"
    and last: "(char_of (m mod 256) :: char) = char_of (n mod 256)"
    using Suc.prems(1) by simp_all
  then have "m div 256 = n div 256"
    using Suc.IH Suc.prems(2,3) by (simp add: less_mult_imp_div_less mult.commute)
  moreover have "m mod 256 = n mod 256"
    using arg_cong [OF last, of "of_char :: char \<Rightarrow> nat"] by simp
  ultimately show ?case
    by (metis div_mult_mod_eq)
qed simp

definition fits_u64 :: "string \<Rightarrow> bool" where
  "fits_u64 s \<longleftrightarrow> length s < 2 ^ 64"

definition module_ok :: "string \<times> string \<Rightarrow> bool" where
  "module_ok m \<longleftrightarrow> fits_u64 (fst m) \<and> fits_u64 (snd m)"

definition data_ok :: "string list \<times> string \<Rightarrow> bool" where
  "data_ok d \<longleftrightarrow> length (fst d) < 2 ^ 64 \<and> list_all fits_u64 (fst d) \<and> fits_u64 (snd d)"

interpretation length_code: prefix_code be64 "\<lambda>n. n < 2 ^ 64"
proof
  fix a b :: nat and r s
  assume a: "a < 2 ^ 64" "b < 2 ^ 64" "be64 a @ r = be64 b @ s"
  have "length (be64 a) = length (be64 b)"
    by (simp add: be64_def)
  then have "be64 a = be64 b" "r = s"
    using a(3) by simp_all
  then show "a = b \<and> r = s"
    using a(1,2) be_bytes_inj [of 8 a b] by (simp add: be64_def)
qed

interpretation field_code: prefix_code length_prefixed fits_u64
proof
  fix a b r s
  assume a: "fits_u64 a" "fits_u64 b" "length_prefixed a @ r = length_prefixed b @ s"
  then have "length a = length b \<and> a @ r = b @ s"
    using length_code.decode [of "length a" "length b" "a @ r" "b @ s"]
    by (simp add: fits_u64_def length_prefixed_def)
  then show "a = b \<and> r = s"
    by auto
qed

interpretation module_code: prefix_code module_bytes module_ok
proof
  fix a b r s
  assume a: "module_ok a" "module_ok b" "module_bytes a @ r = module_bytes b @ s"
  then have "fst a = fst b \<and> length_prefixed (snd a) @ r = length_prefixed (snd b) @ s"
    using field_code.decode [of "fst a" "fst b" "length_prefixed (snd a) @ r" "length_prefixed (snd b) @ s"]
    by (simp add: module_ok_def module_bytes_def)
  then show "a = b \<and> r = s"
    using a field_code.decode [of "snd a" "snd b" r s] by (simp add: module_ok_def prod_eq_iff)
qed

interpretation data_code: prefix_code data_bytes data_ok
proof
  fix a b r s
  assume a: "data_ok a" "data_ok b" "data_bytes a @ r = data_bytes b @ s"
  let ?ta = "length_prefixed (snd a) @ r" and ?tb = "length_prefixed (snd b) @ s"
  have l: "length (fst a) = length (fst b) \<and>
      concat (map length_prefixed (fst a)) @ ?ta = concat (map length_prefixed (fst b)) @ ?tb"
    using a length_code.decode [of "length (fst a)" "length (fst b)"
        "concat (map length_prefixed (fst a)) @ ?ta" "concat (map length_prefixed (fst b)) @ ?tb"]
    by (simp add: data_ok_def data_bytes_def)
  then have "fst a = fst b \<and> ?ta = ?tb"
    using a field_code.list_decode [of "fst a" "fst b" ?ta ?tb] by (simp add: data_ok_def)
  then show "a = b \<and> r = s"
    using a field_code.decode [of "snd a" "snd b" r s] by (simp add: data_ok_def prod_eq_iff)
qed

section \<open>Properties\<close>

lemma merge_adapter_config_get:
  assumes "bt_inv base" "bt_inv overrides"
  shows "bt_inv (merge_adapter_config base overrides)
    \<and> map_of (merge_adapter_config base overrides) = map_of base ++ map_of overrides"
proof -
  have "map_of (rev overrides) = map_of overrides"
    using assms(2) by (metis bt_inv_distinct distinct_rev map_of_inject_set rev_map set_rev)
  then show ?thesis
    using bt.inv_extend [OF assms(1), of overrides] bt.get_extend [OF assms(1), of overrides]
    by (simp add: merge_adapter_config_def)
qed

text \<open>
  The digest of an in-memory bundle covers its contents without
  ambiguity.  Two bundles whose parts have lengths below 2 to the 64 feed the hasher the same
  bytes only if they have the same modules in the same order and the same data
  documents, mount points included: no boundary can be moved.
\<close>

theorem content_stream_injective:
  assumes "content_stream modules data = content_stream modules' data'"
    and "length modules < 2 ^ 64" "list_all module_ok modules" "length data < 2 ^ 64" "list_all data_ok data"
    and "length modules' < 2 ^ 64" "list_all module_ok modules'" "length data' < 2 ^ 64"
      "list_all data_ok data'"
  shows "modules = modules' \<and> data = data'"
proof -
  let ?t = "be64 (length data) @ concat (map data_bytes data)"
  let ?t' = "be64 (length data') @ concat (map data_bytes data')"
  have "length modules = length modules' \<and>
      concat (map module_bytes modules) @ ?t = concat (map module_bytes modules') @ ?t'"
    using assms length_code.decode [of "length modules" "length modules'"
        "concat (map module_bytes modules) @ ?t" "concat (map module_bytes modules') @ ?t'"]
    by (simp add: content_stream_def)
  then have m: "modules = modules' \<and> ?t = ?t'"
    using assms module_code.list_decode [of modules modules' ?t ?t'] by simp
  then have "length data = length data' \<and> concat (map data_bytes data) = concat (map data_bytes data')"
    using assms length_code.decode [of "length data" "length data'"
        "concat (map data_bytes data)" "concat (map data_bytes data')"] by simp
  then show ?thesis
    using m assms data_code.list_decode [of data data' "[]" "[]"] by simp
qed

theorem content_stream_injective_witness:
  "content_stream [(''ab'', ''c'')] [] \<noteq> content_stream [(''a'', ''bc'')] []"
  using content_stream_injective [of "[(''ab'', ''c'')]" "[]" "[(''a'', ''bc'')]" "[]"]
  by (auto simp: module_ok_def fits_u64_def)

text \<open>
  A validated binding can be invoked.  If a policy binding passes
  validation against its policy definition and the policy input can be serialized, then
  preparing the invocation succeeds, for the same engine, with that very input and its
  canonical text; the only failure left at dispatch time is serialization.
\<close>

theorem validated_binding_prepares:
  assumes "validate_policy_binding x point b config = Inr ()"
    and "canonical_json (x_to_string x) input = Inr canonical"
  shows "\<exists>inv. prepare_policy_invocation x config b input = Inr inv
    \<and> invocation_input inv = input \<and> invocation_engine_type inv = engine_type config"
proof (cases config)
  case (Rego c)
  then obtain src query where "rego_bundle_url x (rp_bundle c) (rp_inline_bundle c \<noteq> None)
        (merge_adapter_config (rp_adapter_config c) (pb_adapter_config b)) = Inr src"
      "or_else (pb_query b) (rp_query c) = Some query"
    using assms(1) by (auto simp: validate_policy_binding_def rbind_eq_Inr_iff split: if_splits)
  then show ?thesis
    using assms(2) Rego by (simp add: prepare_policy_invocation_def canonical_policy_input_def Let_def)
qed (use assms(2) in \<open>simp_all add: prepare_policy_invocation_def canonical_policy_input_def\<close>)

theorem validated_binding_prepares_witness:
  "\<exists>inv. prepare_policy_invocation example_externals (Custom \<lparr>up_adapter = ''a'', up_adapter_config = []\<rparr>)
      \<lparr>pb_id = ''p'', pb_query = None, pb_adapter_config = []\<rparr> JNull = Inr inv \<and> invocation_input inv = JNull"
proof -
  have "\<not> is_blank ''p''"
    by (simp add: is_blank_def trim_def is_whitespace_def)
  then have "validate_policy_binding example_externals Input
      \<lparr>pb_id = ''p'', pb_query = None, pb_adapter_config = []\<rparr>
      (Custom \<lparr>up_adapter = ''a'', up_adapter_config = []\<rparr>) = Inr ()"
    by (simp add: validate_policy_binding_def validate_optional_string_def)
  from validated_binding_prepares [OF this, of JNull "''null''"] show ?thesis
    by (auto simp: canonical_json_def example_externals_def)
qed

end
