(* ===== verification/Annotations.thy ===== *)
theory Annotations
  imports Policies
begin

text \<open>
  Annotator declarations, per-point annotation bindings and the invocation that a
  dispatcher receives (\<open>annotation.rs\<close>).
\<close>

section \<open>Configuration\<close>

datatype annotator_type = Classifier | Llm | Endpoint

fun annotator_type_as_str :: "annotator_type \<Rightarrow> string" where
  "annotator_type_as_str Classifier = ''classifier''"
| "annotator_type_as_str Llm = ''llm''"
| "annotator_type_as_str Endpoint = ''endpoint''"

type_synonym field_map = "(string \<times> json) list"

record annotator_config =
  ac_type :: annotator_type
  ac_fields :: field_map

record annotation_config =
  an_from :: string
  an_fields :: field_map

record annotator_invocation =
  ai_url_sourced :: bool
  ai_fields :: field_map

section \<open>Invocations\<close>

definition system_prompt_source :: "externals \<Rightarrow> field_map \<Rightarrow> (runtime_error, pinned_source option) result" where
  "system_prompt_source x flds = (case map_of flds ''system_prompt_url'' of
      None \<Rightarrow> Inr None
    | Some v \<Rightarrow>
        if has_key flds ''system_prompt'' \<or> has_key flds ''prompt'' then
          Inl (ManifestInvalid ''system_prompt_url must not be combined with system_prompt or prompt'')
        else rbind (pinned_from_value x v) (\<lambda>src. Inr (Some src)))"

definition from_annotation :: "annotator_config \<Rightarrow> annotation_config \<Rightarrow> annotator_invocation" where
  "from_annotation annotator annotation =
    (let flds = bt_insert ''type'' (JString (annotator_type_as_str (ac_type annotator))) [];
         flds = fold (\<lambda>(k, v). bt_insert k v) (ac_fields annotator) flds;
         flds = bt_insert ''from'' (JString (an_from annotation)) flds;
         flds = fold (\<lambda>(k, v). bt_insert k v) (an_fields annotation) flds
     in \<lparr>ai_url_sourced = False, ai_fields = flds\<rparr>)"

definition input_from :: "annotator_invocation \<Rightarrow> string option" where
  "input_from invoc =
    Option.bind (or_else (map_of (ai_fields invoc) ''from'') (map_of (ai_fields invoc) ''input_from'')) as_str"

definition invocation_field :: "annotator_invocation \<Rightarrow> string \<Rightarrow> json option" where
  "invocation_field invoc name = map_of (ai_fields invoc) name"

section \<open>Laws\<close>

lemma rev_get: "bt_inv m \<Longrightarrow> map_of (rev m) = map_of m"
  by (metis bt_inv_distinct distinct_rev map_of_inject_set rev_map set_rev)

text \<open>The layers of an invocation, from the bottom: the declared type, the declaration's
  fields, the binding's input path, the binding's fields.\<close>

lemma from_annotation_layers:
  assumes "bt_inv (ac_fields annotator)" "bt_inv (an_fields annotation)"
  shows "bt_inv (ai_fields (from_annotation annotator annotation))"
    and "map_of (ai_fields (from_annotation annotator annotation)) =
      (([''type'' \<mapsto> JString (annotator_type_as_str (ac_type annotator))] ++ map_of (ac_fields annotator))
        (''from'' \<mapsto> JString (an_from annotation))) ++ map_of (an_fields annotation)"
proof -
  let ?a = "bt_insert ''type'' (JString (annotator_type_as_str (ac_type annotator))) []"
  have a: "bt_inv ?a"
    by (simp add: bt_inv_def)
  let ?b = "bt_insert ''from'' (JString (an_from annotation))
      (fold (\<lambda>(k, v). bt_insert k v) (ac_fields annotator) ?a)"
  have b: "bt_inv ?b"
    by (intro bt_insert_inv bt.inv_extend a)
  show "bt_inv (ai_fields (from_annotation annotator annotation))"
    using bt.inv_extend [OF b] by (simp add: from_annotation_def)
  have "map_of ?b = ([''type'' \<mapsto> JString (annotator_type_as_str (ac_type annotator))]
      ++ map_of (ac_fields annotator))(''from'' \<mapsto> JString (an_from annotation))"
    using bt.get_extend [OF a] assms(1) by (simp add: bt_insert_get rev_get)
  then show "map_of (ai_fields (from_annotation annotator annotation)) =
      (([''type'' \<mapsto> JString (annotator_type_as_str (ac_type annotator))] ++ map_of (ac_fields annotator))
        (''from'' \<mapsto> JString (an_from annotation))) ++ map_of (an_fields annotation)"
    using bt.get_extend [OF b, of "an_fields annotation"] assms(2)
    by (simp add: from_annotation_def rev_get)
qed

end
