(* ===== verification/Dispatch_Order.thy ===== *)
theory Dispatch_Order
  imports Prelude
begin

text \<open>
  The ordering loop of \<open>annotation_dispatch_order\<close> (\<open>manifest.rs\<close>): Kahn's algorithm
  with a lexicographic ready set, on a list of names with the names each one needs.

  \<open>BTreeMap\<close> is the association list of the prelude and \<open>BTreeSet\<close> a strictly sorted
  list with \<open>insort_insert\<close>.  A count that is decremented is never zero: the
  subtraction is only reached with a positive count (\<open>kahn_no_underflow\<close>), so the branch
  that leaves a zero count alone is never taken.
\<close>

section \<open>The algorithm\<close>

type_synonym 'a needs_list = "('a \<times> 'a list) list"

record 'a kahn_state =
  remaining_needs :: "('a \<times> nat) list"
  ready :: "'a list"
  dispatch_order :: "'a list"

definition entries :: "('a \<times> 'a list) list \<Rightarrow> 'a \<Rightarrow> 'a list" where
  "entries m k = (case map_of m k of Some names \<Rightarrow> names | None \<Rightarrow> [])"

definition push_dependent :: "'a::linorder \<Rightarrow> 'a \<Rightarrow> ('a \<times> 'a list) list \<Rightarrow> ('a \<times> 'a list) list" where
  "push_dependent name need m =
    bt_insert need (entries m need @ [name]) m"

definition kahn_dependents :: "'a::linorder needs_list \<Rightarrow> ('a \<times> 'a list) list" where
  "kahn_dependents deps = fold (\<lambda>(name, needs). fold (push_dependent name) needs) deps []"

definition kahn_enter :: "'a::linorder \<times> 'a list \<Rightarrow> 'a kahn_state \<Rightarrow> 'a kahn_state" where
  "kahn_enter entry st = st\<lparr>
      remaining_needs := bt_insert (fst entry) (length (snd entry)) (remaining_needs st),
      ready := (if snd entry = [] then insort_insert (fst entry) (ready st) else ready st)\<rparr>"

definition kahn_start :: "'a::linorder needs_list \<Rightarrow> 'a kahn_state" where
  "kahn_start deps = fold kahn_enter deps \<lparr>remaining_needs = [], ready = [], dispatch_order = []\<rparr>"

definition relax :: "'a::linorder \<Rightarrow> 'a kahn_state \<Rightarrow> 'a kahn_state" where
  "relax dependent st = (case map_of (remaining_needs st) dependent of
      None \<Rightarrow> st
    | Some 0 \<Rightarrow> st
    | Some (Suc c) \<Rightarrow> st\<lparr>
        remaining_needs := bt_insert dependent c (remaining_needs st),
        ready := (if c = 0 then insort_insert dependent (ready st) else ready st)\<rparr>)"

definition kahn_pop :: "('a::linorder \<times> 'a list) list \<Rightarrow> 'a kahn_state \<Rightarrow> 'a kahn_state" where
  "kahn_pop dependents st =
    (let name = hd (ready st) in
     fold relax (entries dependents name)
       (st\<lparr>ready := tl (ready st), dispatch_order := dispatch_order st @ [name]\<rparr>))"

text \<open>The loop ends: a pop takes one name out of the ready set, and a name enters it only
  when the last of its counted needs is taken off.\<close>

definition kahn_measure :: "'a kahn_state \<Rightarrow> nat" where
  "kahn_measure st =
    (\<Sum>k\<in>dom (map_of (remaining_needs st)). the (map_of (remaining_needs st) k)) + length (ready st)"

lemma insort_insert_length: "length (insort_insert x xs) \<le> Suc (length xs)"
  by (simp add: insort_insert_key_def)

lemma relax_measure: "kahn_measure (relax d st) \<le> kahn_measure st"
proof (cases "map_of (remaining_needs st) d")
  case (Some n)
  let ?m = "map_of (remaining_needs st)"
  have fin: "finite (dom ?m)" "d \<in> dom ?m"
    using Some by (auto simp: finite_dom_map_of)
  show ?thesis
  proof (cases n)
    case (Suc c)
    have "(\<Sum>k\<in>dom ?m. the ((?m(d \<mapsto> c)) k)) = c + (\<Sum>k\<in>dom ?m - {d}. the (?m k))"
      using fin by (simp add: sum.remove [of _ d])
    moreover have "(\<Sum>k\<in>dom ?m. the (?m k)) = Suc c + (\<Sum>k\<in>dom ?m - {d}. the (?m k))"
      using fin Some Suc by (simp add: sum.remove [of _ d])
    moreover have "dom (?m(d \<mapsto> c)) = dom ?m"
      using fin by auto
    ultimately show ?thesis
      using Some Suc insort_insert_length [of d "ready st"]
      by (auto simp: relax_def kahn_measure_def bt_insert_get)
  qed (simp add: Some relax_def)
qed (simp add: relax_def)

lemma fold_relax_measure: "kahn_measure (fold relax ds st) \<le> kahn_measure st"
  by (induction ds arbitrary: st) (auto intro: le_trans relax_measure)

lemma kahn_pop_measure: "ready st \<noteq> [] \<Longrightarrow> kahn_measure (kahn_pop dependents st) < kahn_measure st"
proof -
  assume "ready st \<noteq> []"
  then have "kahn_measure (st\<lparr>ready := tl (ready st), dispatch_order := x\<rparr>) < kahn_measure st" for x
    by (cases "ready st") (simp_all add: kahn_measure_def)
  then show ?thesis
    unfolding kahn_pop_def Let_def by (rule le_less_trans [OF fold_relax_measure])
qed

function kahn_loop :: "('a::linorder \<times> 'a list) list \<Rightarrow> 'a kahn_state \<Rightarrow> 'a kahn_state" where
  "kahn_loop dependents st =
    (if ready st = [] then st else kahn_loop dependents (kahn_pop dependents st))"
  by auto

termination
  by (relation "measure (\<lambda>(_, st). kahn_measure st)") (auto intro: kahn_pop_measure)

declare kahn_loop.simps [simp del]

definition kahn :: "'a::linorder needs_list \<Rightarrow> 'a kahn_state" where
  "kahn deps = kahn_loop (kahn_dependents deps) (kahn_start deps)"


section \<open>The tables before the loop\<close>

lemma entries_push:
  "entries (push_dependent name need m) k = entries m k @ (if k = need then [name] else [])"
  by (simp add: push_dependent_def entries_def bt_insert_get)

lemma entries_push_all:
  "entries (fold (push_dependent name) needs m) k = entries m k @ replicate (count_list needs k) name"
  by (induction needs arbitrary: m) (auto simp: entries_push replicate_app_Cons_same)

lemma entries_dependents_acc:
  "entries (fold (\<lambda>(name, needs). fold (push_dependent name) needs) deps m) k =
    entries m k @ concat (map (\<lambda>(name, needs). replicate (count_list needs k) name) deps)"
  by (induction deps arbitrary: m) (auto simp: entries_push_all)

lemma entries_dependents:
  "entries (kahn_dependents deps) k =
    concat (map (\<lambda>(name, needs). replicate (count_list needs k) name) deps)"
  unfolding kahn_dependents_def by (subst entries_dependents_acc) (simp add: entries_def)

lemma count_list_replicate: "count_list (replicate n a) b = (if a = b then n else 0)"
  by (induction n) auto

lemma count_list_concat_absent:
  "n \<notin> fst ` set deps
    \<Longrightarrow> count_list (concat (map (\<lambda>(name, needs). replicate (count_list needs k) name) deps)) n = 0"
  by (induction deps) (auto simp: count_list_replicate)

lemma count_dependents:
  assumes "distinct (map fst deps)" "(n, needs) \<in> set deps"
  shows "count_list (entries (kahn_dependents deps) k) n = count_list needs k"
proof -
  have "count_list (concat (map (\<lambda>(name, needs). replicate (count_list needs k) name) deps)) n
      = count_list needs k"
    using assms
  proof (induction deps)
    case (Cons d deps)
    then show ?case
      using count_list_concat_absent [of n deps k]
      by (cases d) (force simp: count_list_replicate)
  qed simp
  then show ?thesis
    by (simp add: entries_dependents)
qed

lemma set_dependents:
  "set (entries (kahn_dependents deps) k) = {n. \<exists>needs. (n, needs) \<in> set deps \<and> k \<in> set needs}"
  by (auto simp: entries_dependents set_replicate_conv_if count_list_0_iff split: if_splits)

lemma kahn_enter_parts:
  "remaining_needs (fold kahn_enter deps st) =
    fold (\<lambda>(k, v). bt_insert k v) (map (\<lambda>p. (fst p, length (snd p))) deps) (remaining_needs st)"
  "ready (fold kahn_enter deps st) =
    fold insort_insert (map fst (filter (\<lambda>p. snd p = []) deps)) (ready st)"
  "dispatch_order (fold kahn_enter deps st) = dispatch_order st"
  by (induction deps arbitrary: st) (simp_all add: kahn_enter_def)

lemma insort_insert_fold:
  "sorted xs \<Longrightarrow> distinct xs \<Longrightarrow>
    sorted (fold insort_insert ys xs) \<and> distinct (fold insort_insert ys xs)
    \<and> set (fold insort_insert ys xs) = set ys \<union> set xs"
  by (induction ys arbitrary: xs)
    (auto simp: sorted_insort_insert distinct_insort_insert set_insort_insert)

lemma kahn_start_remaining:
  "distinct (map fst deps) \<Longrightarrow>
    map_of (remaining_needs (kahn_start deps)) = map_of (map (\<lambda>p. (fst p, length (snd p))) deps)"
proof -
  assume d: "distinct (map fst deps)"
  let ?l = "map (\<lambda>p. (fst p, length (snd p))) deps"
  have "map_of (remaining_needs (kahn_start deps)) = map_of (rev ?l)"
    unfolding kahn_start_def by (simp add: kahn_enter_parts bt.get_collect)
  also have "\<dots> = map_of ?l"
    using d by (intro map_of_inject_set [THEN iffD2]) (auto simp: comp_def simp flip: rev_map)
  finally show ?thesis .
qed

lemma kahn_start_ready:
  "sorted (ready (kahn_start deps)) \<and> distinct (ready (kahn_start deps))
    \<and> set (ready (kahn_start deps)) = {n. (n, []) \<in> set deps}
    \<and> dispatch_order (kahn_start deps) = []"
  using insort_insert_fold [of "[]" "map fst (filter (\<lambda>p. snd p = []) deps)"]
  unfolding kahn_start_def by (force simp: kahn_enter_parts)


section \<open>The loop invariant\<close>

definition needs_of :: "'a needs_list \<Rightarrow> 'a \<Rightarrow> 'a list" where
  "needs_of deps n = entries deps n"

lemma needs_of_entry: "distinct (map fst deps) \<Longrightarrow> (n, ns) \<in> set deps \<Longrightarrow> needs_of deps n = ns"
  by (simp add: needs_of_def entries_def)

text \<open>A name is ready when it is not dispatched and everything it needs is.\<close>

definition eligible :: "'a needs_list \<Rightarrow> 'a list \<Rightarrow> 'a set" where
  "eligible deps sofar = {n \<in> fst ` set deps. n \<notin> set sofar \<and> set (needs_of deps n) \<subseteq> set sofar}"

definition least_first :: "'a::linorder needs_list \<Rightarrow> 'a list \<Rightarrow> bool" where
  "least_first deps xs \<longleftrightarrow>
    (\<forall>i<length xs. xs ! i \<in> eligible deps (take i xs)
      \<and> (\<forall>n\<in>eligible deps (take i xs). xs ! i \<le> n))"

definition kahn_inv :: "'a::linorder needs_list \<Rightarrow> 'a kahn_state \<Rightarrow> bool" where
  "kahn_inv deps st \<longleftrightarrow>
    dom (map_of (remaining_needs st)) = fst ` set deps
    \<and> (\<forall>n\<in>fst ` set deps. map_of (remaining_needs st) n =
        Some (length (filter (\<lambda>m. m \<notin> set (dispatch_order st)) (needs_of deps n))))
    \<and> sorted (ready st) \<and> distinct (ready st)
    \<and> set (ready st) = eligible deps (dispatch_order st)
    \<and> least_first deps (dispatch_order st)"

lemma kahn_start_inv: "distinct (map fst deps) \<Longrightarrow> kahn_inv deps (kahn_start deps)"
  using kahn_start_ready [of deps] kahn_start_remaining [of deps]
  unfolding kahn_inv_def eligible_def least_first_def
  by (auto simp: needs_of_entry dom_map_of_conv_image_fst image_image map_of_eq_Some_iff comp_def
      intro: rev_image_eqI)

lemma relax_parts:
  assumes "map_of (remaining_needs st) d = Some (Suc c)"
  shows "map_of (remaining_needs (relax d st)) = (map_of (remaining_needs st))(d \<mapsto> c)"
    and "ready (relax d st) = (if c = 0 then insort_insert d (ready st) else ready st)"
    and "dispatch_order (relax d st) = dispatch_order st"
  using assms by (simp_all add: relax_def bt_insert_get)

text \<open>Relaxing a list of dependents, when no count is smaller than the number of its
  occurrences: no count underflows, and exactly those that reach zero become ready.\<close>

lemma fold_relax:
  assumes "\<And>d. d \<in> set ds \<Longrightarrow> \<exists>c. map_of (remaining_needs st) d = Some c \<and> count_list ds d \<le> c"
    and "sorted (ready st)" "distinct (ready st)"
  shows "map_of (remaining_needs (fold relax ds st)) n =
      map_option (\<lambda>c. c - count_list ds n) (map_of (remaining_needs st) n)
    \<and> sorted (ready (fold relax ds st)) \<and> distinct (ready (fold relax ds st))
    \<and> (n \<in> set (ready (fold relax ds st)) \<longleftrightarrow> n \<in> set (ready st)
        \<or> (n \<in> set ds \<and> map_of (remaining_needs st) n = Some (count_list ds n)))
    \<and> dispatch_order (fold relax ds st) = dispatch_order st"
  using assms
proof (induction ds arbitrary: st)
  case Nil
  then show ?case
    by (simp add: option.map_ident)
next
  case (Cons d ds)
  obtain c where c: "map_of (remaining_needs st) d = Some (Suc c)" "count_list ds d \<le> c"
    using Cons.prems(1) [of d] by (auto simp: Suc_le_eq dest: less_imp_Suc_add)
  note parts = relax_parts [OF c(1)]
  have "\<exists>c. map_of (remaining_needs (relax d st)) e = Some c \<and> count_list ds e \<le> c" if "e \<in> set ds" for e
    using Cons.prems(1) [of e] c that by (auto simp: parts split: if_splits)
  moreover have "sorted (ready (relax d st))" "distinct (ready (relax d st))"
    using Cons.prems(2,3) by (auto simp: parts sorted_insort_insert distinct_insort_insert)
  ultimately have IH: "map_of (remaining_needs (fold relax ds (relax d st))) n =
      map_option (\<lambda>c. c - count_list ds n) (map_of (remaining_needs (relax d st)) n)
    \<and> sorted (ready (fold relax ds (relax d st))) \<and> distinct (ready (fold relax ds (relax d st)))
    \<and> (n \<in> set (ready (fold relax ds (relax d st))) \<longleftrightarrow> n \<in> set (ready (relax d st))
        \<or> (n \<in> set ds \<and> map_of (remaining_needs (relax d st)) n = Some (count_list ds n)))
    \<and> dispatch_order (fold relax ds (relax d st)) = dispatch_order (relax d st)"
    by (rule Cons.IH)
  then show ?case
    using c by (auto simp: parts set_insort_insert count_list_0_iff [symmetric])
qed


lemma least_first_member:
  assumes "least_first deps xs" "i < length xs"
  shows "xs ! i \<in> fst ` set deps" "xs ! i \<notin> set (take i xs)"
    "set (needs_of deps (xs ! i)) \<subseteq> set (take i xs)"
  using assms by (auto simp: least_first_def eligible_def)

lemma least_first_set:
  assumes "least_first deps xs" "n \<in> set xs"
  shows "n \<in> fst ` set deps" "set (needs_of deps n) \<subseteq> set xs"
proof -
  obtain i where i: "i < length xs" "n = xs ! i"
    using assms(2) by (auto simp: in_set_conv_nth)
  then show "n \<in> fst ` set deps" "set (needs_of deps n) \<subseteq> set xs"
    using least_first_member [OF assms(1) i(1)] by (auto dest: in_set_takeD)
qed

lemma least_first_distinct: "least_first deps xs \<Longrightarrow> distinct xs"
  unfolding distinct_conv_nth
  by (metis in_set_conv_nth least_first_member(2) length_take min_less_iff_conj nat_neq_iff nth_take)

lemma length_filter_extend:
  "x \<notin> A \<Longrightarrow> length (filter (\<lambda>m. m \<notin> insert x A) ns) = length (filter (\<lambda>m. m \<notin> A) ns) - count_list ns x
    \<and> count_list ns x \<le> length (filter (\<lambda>m. m \<notin> A) ns)
    \<and> (length (filter (\<lambda>m. m \<notin> A) ns) = count_list ns x \<longleftrightarrow> set ns \<subseteq> insert x A)"
  by (induction ns) (auto simp: Suc_diff_le)

text \<open>In an invariant state no decrement of the next round is taken on a zero count.\<close>

lemma kahn_no_underflow:
  assumes "distinct (map fst deps)" "kahn_inv deps st" "ready st = x # rest"
    and "d \<in> set (entries (kahn_dependents deps) x)"
  shows "\<exists>c. map_of (remaining_needs st) d = Some c \<and> count_list (entries (kahn_dependents deps) x) d \<le> c"
proof -
  obtain ns where d: "(d, ns) \<in> set deps"
    using assms(4) by (auto simp: set_dependents)
  have "x \<notin> set (dispatch_order st)"
    using assms(2,3) by (auto simp: kahn_inv_def eligible_def)
  then have "count_list ns x \<le> length (filter (\<lambda>m. m \<notin> set (dispatch_order st)) ns)"
    using length_filter_extend by metis
  moreover have "map_of (remaining_needs st) d =
      Some (length (filter (\<lambda>m. m \<notin> set (dispatch_order st)) ns))"
    using assms(1,2) d by (force simp: kahn_inv_def needs_of_entry)
  ultimately show ?thesis
    using count_dependents [OF assms(1) d] by simp
qed

lemma eligible_extend:
  assumes "distinct (map fst deps)" "least_first deps sofar" "x \<in> eligible deps sofar"
  shows "n \<in> eligible deps (sofar @ [x]) \<longleftrightarrow>
    (n \<in> eligible deps sofar \<and> n \<noteq> x)
    \<or> (n \<in> fst ` set deps \<and> x \<in> set (needs_of deps n) \<and> set (needs_of deps n) \<subseteq> insert x (set sofar))"
  using assms least_first_set(2) [OF assms(2), of n] by (auto simp: eligible_def)

lemma least_first_snoc:
  assumes "least_first deps xs" "x \<in> eligible deps xs" "\<And>n. n \<in> eligible deps xs \<Longrightarrow> x \<le> n"
  shows "least_first deps (xs @ [x])"
  using assms unfolding least_first_def by (auto simp: nth_append less_Suc_eq)

lemma kahn_pop_inv:
  assumes "distinct (map fst deps)" "kahn_inv deps st" "ready st \<noteq> []"
  shows "kahn_inv deps (kahn_pop (kahn_dependents deps) st)"
proof -
  obtain x rest where r: "ready st = x # rest"
    using assms(3) by (cases "ready st") auto
  let ?ds = "entries (kahn_dependents deps) x"
  let ?o = "dispatch_order st"
  define st1 where "st1 = st\<lparr>ready := rest, dispatch_order := ?o @ [x]\<rparr>"
  have pop: "kahn_pop (kahn_dependents deps) st = fold relax ?ds st1"
    by (simp add: kahn_pop_def r st1_def)
  have x: "x \<in> eligible deps ?o" "x \<notin> set ?o" and lf: "least_first deps ?o"
    and rest: "set rest = eligible deps ?o - {x}" and least: "\<And>n. n \<in> eligible deps ?o \<Longrightarrow> x \<le> n"
    using assms(2) r by (auto simp: kahn_inv_def eligible_def)
  have fr: "map_of (remaining_needs (fold relax ?ds st1)) n =
        map_option (\<lambda>c. c - count_list ?ds n) (map_of (remaining_needs st) n)
      \<and> sorted (ready (fold relax ?ds st1)) \<and> distinct (ready (fold relax ?ds st1))
      \<and> (n \<in> set (ready (fold relax ?ds st1)) \<longleftrightarrow> n \<in> set rest
          \<or> (n \<in> set ?ds \<and> map_of (remaining_needs st) n = Some (count_list ?ds n)))
      \<and> dispatch_order (fold relax ?ds st1) = ?o @ [x]" for n
    using fold_relax [of ?ds st1 n] kahn_no_underflow [OF assms(1,2) r] assms(2) r
    by (simp add: st1_def kahn_inv_def)
  have cnt: "map_of (remaining_needs st) n = Some (length (filter (\<lambda>m. m \<notin> set ?o) (needs_of deps n)))
      \<and> count_list ?ds n = count_list (needs_of deps n) x" if "n \<in> fst ` set deps" for n
    using that assms(1,2) by (force simp: kahn_inv_def needs_of_entry count_dependents)
  have ds: "n \<in> set ?ds \<longleftrightarrow> n \<in> fst ` set deps \<and> x \<in> set (needs_of deps n)" for n
    using assms(1) by (force simp: set_dependents needs_of_entry)
  have "n \<in> set (ready (fold relax ?ds st1)) \<longleftrightarrow> n \<in> eligible deps (?o @ [x])" for n
  proof (cases "n \<in> set ?ds")
    case True
    then have "map_of (remaining_needs st) n = Some (count_list ?ds n)
        \<longleftrightarrow> set (needs_of deps n) \<subseteq> insert x (set ?o)"
      using ds [of n] cnt [of n] length_filter_extend [OF x(2), of "needs_of deps n"] by simp
    then show ?thesis
      unfolding eligible_extend [OF assms(1) lf x(1)] using fr [of n] rest ds [of n] True by blast
  next
    case False
    then show ?thesis
      unfolding eligible_extend [OF assms(1) lf x(1)] using fr [of n] rest ds [of n] by blast
  qed
  moreover have "map_of (remaining_needs (fold relax ?ds st1)) n =
      Some (length (filter (\<lambda>m. m \<notin> set (?o @ [x])) (needs_of deps n)))" if "n \<in> fst ` set deps" for n
    using fr [of n] cnt [OF that] length_filter_extend [OF x(2), of "needs_of deps n"] by simp
  moreover have "dom (map_of (remaining_needs (fold relax ?ds st1))) = fst ` set deps"
    using fr assms(2) by (auto simp: kahn_inv_def dom_def)
  moreover have "least_first deps (?o @ [x])"
    by (rule least_first_snoc [OF lf x(1) least])
  ultimately show ?thesis
    using fr unfolding kahn_inv_def pop by auto
qed

lemma kahn_loop_inv:
  assumes "distinct (map fst deps)" "kahn_inv deps st"
  shows "kahn_inv deps (kahn_loop (kahn_dependents deps) st)
    \<and> ready (kahn_loop (kahn_dependents deps) st) = []"
  using assms(2)
proof (induction "kahn_dependents deps" st rule: kahn_loop.induct)
  case (1 st)
  then show ?case
    using kahn_pop_inv [OF assms(1)]
    by (subst (1 2) kahn_loop.simps) simp
qed

lemma kahn_result:
  assumes "distinct (map fst deps)"
  shows "kahn_inv deps (kahn deps)" "ready (kahn deps) = []"
  using kahn_loop_inv [OF assms kahn_start_inv [OF assms]] by (simp_all add: kahn_def)

section \<open>What the loop computes\<close>

text \<open>A set of names is blocked when every member needs a member of the set, or a name
  that is not there at all.\<close>

definition blocked :: "'a needs_list \<Rightarrow> 'a set \<Rightarrow> bool" where
  "blocked deps B \<longleftrightarrow> B \<noteq> {} \<and> B \<subseteq> fst ` set deps
    \<and> (\<forall>n\<in>B. \<exists>m\<in>set (needs_of deps n). m \<in> B \<or> m \<notin> fst ` set deps)"

lemma least_first_avoids_blocked:
  assumes "least_first deps xs" "blocked deps B"
  shows "set xs \<inter> B = {}"
proof -
  have "xs ! i \<notin> B" if "i < length xs" for i
    using that
  proof (induction i rule: less_induct)
    case (less i)
    show ?case
    proof
      assume "xs ! i \<in> B"
      then obtain m where m: "m \<in> set (needs_of deps (xs ! i))" "m \<in> B \<or> m \<notin> fst ` set deps"
        using assms(2) unfolding blocked_def by blast
      then have "m \<in> set (take i xs)"
        using least_first_member(3) [OF assms(1) less.prems] by blast
      then obtain j where "j < i" "m = xs ! j"
        by (auto simp: in_set_conv_nth)
      then show False
        using m(2) less least_first_member(1) [OF assms(1), of j] by auto
    qed
  qed
  then show ?thesis
    by (auto simp: in_set_conv_nth)
qed

lemma kahn_stuck:
  assumes "distinct (map fst deps)" "B = fst ` set deps - set (dispatch_order (kahn deps))" "B \<noteq> {}"
  shows "blocked deps B"
proof -
  have e: "eligible deps (dispatch_order (kahn deps)) = {}"
    using kahn_result [OF assms(1)] by (simp add: kahn_inv_def)
  have "\<exists>m\<in>set (needs_of deps n). m \<in> B \<or> m \<notin> fst ` set deps" if "n \<in> B" for n
  proof -
    have "\<not> set (needs_of deps n) \<subseteq> set (dispatch_order (kahn deps))"
      using e that assms(2) by (auto simp: eligible_def)
    then show ?thesis
      using assms(2) by auto
  qed
  then show ?thesis
    using assms(2,3) by (auto simp: blocked_def)
qed

lemma kahn_waiting:
  assumes "distinct (map fst deps)" "n \<in> fst ` set deps"
  shows "n \<in> set (dispatch_order (kahn deps)) \<longleftrightarrow> map_of (remaining_needs (kahn deps)) n = Some 0"
proof -
  have inv: "kahn_inv deps (kahn deps)" and e: "eligible deps (dispatch_order (kahn deps)) = {}"
    using kahn_result [OF assms(1)] by (simp_all add: kahn_inv_def)
  then have "least_first deps (dispatch_order (kahn deps))"
    by (simp add: kahn_inv_def)
  from least_first_set(2) [OF this, of n]
  have "n \<in> set (dispatch_order (kahn deps)) \<longleftrightarrow> set (needs_of deps n) \<subseteq> set (dispatch_order (kahn deps))"
    using e assms(2) by (auto simp: eligible_def)
  moreover have "map_of (remaining_needs (kahn deps)) n =
      Some (length (filter (\<lambda>m. m \<notin> set (dispatch_order (kahn deps))) (needs_of deps n)))"
    using inv assms(2) unfolding kahn_inv_def by blast
  ultimately show ?thesis
    by (auto simp: filter_empty_conv)
qed

lemma kahn_complete_iff:
  assumes "distinct (map fst deps)"
  shows "length (dispatch_order (kahn deps)) = length deps \<longleftrightarrow> set (dispatch_order (kahn deps)) = fst ` set deps"
    and "set (dispatch_order (kahn deps)) = fst ` set deps \<longleftrightarrow> (\<nexists>B. blocked deps B)"
proof -
  have lf: "least_first deps (dispatch_order (kahn deps))"
    using kahn_result [OF assms] by (simp add: kahn_inv_def)
  have sub: "set (dispatch_order (kahn deps)) \<subseteq> fst ` set deps"
    using least_first_set(1) [OF lf] by blast
  have "card (fst ` set deps) = length deps"
    using assms by (metis distinct_card length_map list.set_map)
  moreover have "card (set (dispatch_order (kahn deps))) = length (dispatch_order (kahn deps))"
    by (rule distinct_card [OF least_first_distinct [OF lf]])
  ultimately show "length (dispatch_order (kahn deps)) = length deps
      \<longleftrightarrow> set (dispatch_order (kahn deps)) = fst ` set deps"
    using sub card_subset_eq [of "fst ` set deps" "set (dispatch_order (kahn deps))"] by auto
  show "set (dispatch_order (kahn deps)) = fst ` set deps \<longleftrightarrow> (\<nexists>B. blocked deps B)"
  proof
    assume all: "set (dispatch_order (kahn deps)) = fst ` set deps"
    show "\<nexists>B. blocked deps B"
    proof
      assume "\<exists>B. blocked deps B"
      then obtain B where "blocked deps B" ..
      from least_first_avoids_blocked [OF lf this] show False
        using all \<open>blocked deps B\<close> by (auto simp: blocked_def)
    qed
  next
    assume "\<nexists>B. blocked deps B"
    then show "set (dispatch_order (kahn deps)) = fst ` set deps"
      using kahn_stuck [OF assms refl] sub by auto
  qed
qed

section \<open>What the loop leaves over\<close>

lemma relax_bt_inv: "bt_inv (remaining_needs st) \<Longrightarrow> bt_inv (remaining_needs (relax d st))"
  by (auto simp: relax_def bt_insert_inv split: option.splits nat.splits)

lemma fold_relax_bt_inv: "bt_inv (remaining_needs st) \<Longrightarrow> bt_inv (remaining_needs (fold relax ds st))"
  by (induction ds arbitrary: st) (simp_all add: relax_bt_inv)

lemma kahn_loop_bt_inv: "bt_inv (remaining_needs st) \<Longrightarrow> bt_inv (remaining_needs (kahn_loop dependents st))"
proof (induction dependents st rule: kahn_loop.induct)
  case (1 dependents st)
  have "bt_inv (remaining_needs (kahn_pop dependents st))"
    using "1.prems" by (simp add: kahn_pop_def Let_def fold_relax_bt_inv)
  then show ?case
    using 1 by (subst kahn_loop.simps) simp
qed

lemma kahn_bt_inv: "bt_inv (remaining_needs (kahn deps))"
proof -
  have "bt_inv (remaining_needs (fold kahn_enter deps st))" if "bt_inv (remaining_needs st)" for st
    using that by (induction deps arbitrary: st) (simp_all add: kahn_enter_def bt_insert_inv)
  then have "bt_inv (remaining_needs (kahn_start deps))"
    by (simp add: kahn_start_def bt_inv_def)
  then show ?thesis
    by (simp add: kahn_def kahn_loop_bt_inv)
qed

text \<open>The names that keep a positive count are those of the largest blocked set.\<close>

lemma kahn_left_over:
  assumes "distinct (map fst deps)"
  shows "set (map fst (filter (\<lambda>(_, count). count > 0) (remaining_needs (kahn deps)))) = \<Union> {B. blocked deps B}"
    and "distinct (map fst (filter (\<lambda>(_, count). count > 0) (remaining_needs (kahn deps))))"
proof -
  let ?rem = "remaining_needs (kahn deps)" and ?left = "fst ` set deps - set (dispatch_order (kahn deps))"
  have keys: "distinct (map fst ?rem)"
    by (rule bt_inv_distinct [OF kahn_bt_inv])
  then show "distinct (map fst (filter (\<lambda>(_, count). count > 0) ?rem))"
    by (rule distinct_map_filter)
  have inv: "kahn_inv deps (kahn deps)"
    using kahn_result [OF assms] by simp
  have "n \<in> set (map fst (filter (\<lambda>(_, count). count > 0) ?rem)) \<longleftrightarrow> n \<in> ?left" for n
  proof (cases "n \<in> fst ` set deps")
    case True
    then obtain c where c: "map_of ?rem n = Some c"
      using inv by (auto simp: kahn_inv_def)
    have "n \<in> set (map fst (filter (\<lambda>(_, count). count > 0) ?rem)) \<longleftrightarrow> c > 0"
    proof
      assume "n \<in> set (map fst (filter (\<lambda>(_, count). count > 0) ?rem))"
      then obtain b where "(n, b) \<in> set ?rem" "b > 0"
        by auto
      then show "c > 0"
        using c map_of_is_SomeI [OF keys, of n b] by simp
    next
      assume "c > 0"
      then show "n \<in> set (map fst (filter (\<lambda>(_, count). count > 0) ?rem))"
        using map_of_SomeD [OF c] by force
    qed
    then show ?thesis
      using kahn_waiting [OF assms True] c True by simp
  next
    case False
    then have "map_of ?rem n = None"
      using inv by (auto simp: kahn_inv_def)
    then show ?thesis
      using False by (force simp: map_of_eq_None_iff)
  qed
  moreover have "?left = \<Union> {B. blocked deps B}"
  proof
    show "?left \<subseteq> \<Union> {B. blocked deps B}"
      using kahn_stuck [OF assms refl] by blast
    have lf: "least_first deps (dispatch_order (kahn deps))"
      using inv by (simp add: kahn_inv_def)
    have "B \<subseteq> ?left" if "blocked deps B" for B
      using least_first_avoids_blocked [OF lf that] that unfolding blocked_def by blast
    then show "\<Union> {B. blocked deps B} \<subseteq> ?left"
      by blast
  qed
  ultimately show "set (map fst (filter (\<lambda>(_, count). count > 0) ?rem)) = \<Union> {B. blocked deps B}"
    by blast
qed

end
