(* ===== verification/Limits.thy ===== *)
theory Limits
  imports Policy_Input
begin

text \<open>
  Resource limits (\<open>limits.rs\<close>): nesting depth, serialized size, and the
  screen for reserved reasons in annotator output.  A \<open>usize\<close> is a natural
  number: the only arithmetic is the depth counter, which a value held in memory
  cannot overflow.
\<close>

section \<open>The limits\<close>

record limits =
  max_snapshot_bytes :: nat
  max_policy_input_depth :: nat
  max_annotators_per_point :: nat
  max_annotator_output_bytes :: nat
  max_policy_output_bytes :: nat
  max_extends_depth :: nat
  max_merged_manifest_bytes :: nat
  max_manifest_depth :: nat
  max_manifest_nodes :: nat
  max_manifest_events :: nat
  max_manifest_aliases :: nat
  max_manifest_anchors :: nat
  max_manifest_anchor_events :: nat
  max_manifest_url_bytes :: nat
  manifest_url_timeout_ms :: nat
  max_manifest_url_redirects :: nat

definition default_limits :: limits where
  "default_limits = \<lparr>
     max_snapshot_bytes = 1048576,
     max_policy_input_depth = 64,
     max_annotators_per_point = 16,
     max_annotator_output_bytes = 262144,
     max_policy_output_bytes = 262144,
     max_extends_depth = 16,
     max_merged_manifest_bytes = 1048576,
     max_manifest_depth = 64,
     max_manifest_nodes = 100000,
     max_manifest_events = 300000,
     max_manifest_aliases = 50000,
     max_manifest_anchors = 50000,
     max_manifest_anchor_events = 10000,
     max_manifest_url_bytes = 1048576,
     manifest_url_timeout_ms = 30000,
     max_manifest_url_redirects = 5\<rparr>"

section \<open>Checks\<close>

definition depth_error :: "string \<Rightarrow> nat \<Rightarrow> runtime_error" where
  "depth_error ctxt max_depth =
    ResourceLimitExceeded (ctxt @ '' JSON nesting depth exceeds limit '' @ nat_to_string max_depth)"

fun check_json_depth :: "json \<Rightarrow> nat \<Rightarrow> nat \<Rightarrow> string \<Rightarrow> (runtime_error, unit) result" where
  "check_json_depth (JArray items) depth max_depth ctxt =
    (let next_depth = depth + 1 in
     if next_depth > max_depth then Inl (depth_error ctxt max_depth)
     else try_each (\<lambda>item. check_json_depth item next_depth max_depth ctxt) items)"
| "check_json_depth (JObject m) depth max_depth ctxt =
    (let next_depth = depth + 1 in
     if next_depth > max_depth then Inl (depth_error ctxt max_depth)
     else try_each (\<lambda>p. check_json_depth (snd p) next_depth max_depth ctxt) m)"
| "check_json_depth _ depth max_depth ctxt = Inr ()"

definition reserved_reason_text :: string where
  "reserved_reason_text = ''annotator output reason must not use reserved runtime_error prefix''"

fun reject_reserved_reason :: "json \<Rightarrow> (string, unit) result" where
  "reject_reserved_reason (JArray items) = try_each reject_reserved_reason items"
| "reject_reserved_reason (JObject m) =
    (case map_of m ''reason'' of
       Some (JString r) \<Rightarrow>
         if starts_with r ''runtime_error:'' then Inl reserved_reason_text
         else try_each (\<lambda>p. reject_reserved_reason (snd p)) m
     | _ \<Rightarrow> try_each (\<lambda>p. reject_reserved_reason (snd p)) m)"
| "reject_reserved_reason _ = Inr ()"

definition validate_json_depth :: "limits \<Rightarrow> json \<Rightarrow> string \<Rightarrow> (runtime_error, unit) result" where
  "validate_json_depth lim v ctxt = check_json_depth v 0 (max_policy_input_depth lim) ctxt"

definition validate_snapshot :: "serializer \<Rightarrow> limits \<Rightarrow> json \<Rightarrow> (runtime_error, unit) result" where
  "validate_snapshot ser lim snapshot =
    rbind (validate_json_depth lim snapshot ''snapshot'') (\<lambda>_.
    rbind (map_err (\<lambda>err. ResourceLimitExceeded
              (''failed to serialize snapshot for resource limit check: '' @ err))
            (canonical_json ser snapshot)) (\<lambda>bytes.
    if length bytes > max_snapshot_bytes lim then
      Inl (ResourceLimitExceeded (''snapshot serialized size '' @ nat_to_string (length bytes)
        @ '' exceeds limit '' @ nat_to_string (max_snapshot_bytes lim)))
    else Inr ()))"

definition validate_policy_input :: "limits \<Rightarrow> json \<Rightarrow> (runtime_error, unit) result" where
  "validate_policy_input lim v = validate_json_depth lim v ''policy input''"

definition validate_policy_annotations :: "limits \<Rightarrow> json \<Rightarrow> (runtime_error, unit) result" where
  "validate_policy_annotations lim v =
    check_json_depth v 1 (max_policy_input_depth lim) ''policy input''"

definition validate_policy_output :: "serializer \<Rightarrow> limits \<Rightarrow> json \<Rightarrow> (runtime_error, unit) result" where
  "validate_policy_output ser lim output =
    rbind (validate_json_depth lim output ''policy output'') (\<lambda>_.
    rbind (map_err (\<lambda>err. ResourceLimitExceeded
              (''failed to serialize policy output for resource limit check: '' @ err))
            (canonical_json ser output)) (\<lambda>bytes.
    if length bytes > max_policy_output_bytes lim then
      Inl (ResourceLimitExceeded (''policy output serialized size '' @ nat_to_string (length bytes)
        @ '' exceeds limit '' @ nat_to_string (max_policy_output_bytes lim)))
    else Inr ()))"

definition validate_annotator_output ::
  "serializer \<Rightarrow> limits \<Rightarrow> string \<Rightarrow> json \<Rightarrow> (runtime_error, unit) result"
where
  "validate_annotator_output ser lim annotator_name output =
    rbind (map_err (\<lambda>err. AnnotationFailed (annotator_name @ '': '' @ show_error err))
            (validate_json_depth lim output ''annotator output'')) (\<lambda>_.
    rbind (map_err (\<lambda>err. AnnotationFailed (annotator_name @ '': '' @ err))
            (reject_reserved_reason output)) (\<lambda>_.
    rbind (map_err (\<lambda>err. AnnotationFailed
              (annotator_name @ '': failed to serialize annotator output: '' @ err))
            (canonical_json ser output)) (\<lambda>bytes.
    if length bytes > max_annotator_output_bytes lim then
      Inl (AnnotationFailed (annotator_name @ '': annotator output serialized size ''
        @ nat_to_string (length bytes) @ '' exceeds limit ''
        @ nat_to_string (max_annotator_output_bytes lim)))
    else Inr ())))"

section \<open>What the checks decide\<close>

lemma Max_le_iff0: "finite S \<Longrightarrow> Max (insert 0 S) \<le> (n :: nat) \<longleftrightarrow> (\<forall>x\<in>S. x \<le> n)"
  by (cases "S = {}") auto

lemma json_depth_array_le: "json_depth (JArray xs) \<le> n \<longleftrightarrow> 0 < n \<and> (\<forall>x\<in>set xs. json_depth x \<le> n - 1)"
  by (cases n) (auto simp: Max_le_iff0 simp del: Max_insert)

lemma json_depth_object_le:
  "json_depth (JObject m) \<le> n \<longleftrightarrow> 0 < n \<and> (\<forall>p\<in>set m. json_depth (snd p) \<le> n - 1)"
  by (cases n) (auto simp: Max_le_iff0 simp del: Max_insert)

text \<open>The recursive check accepts exactly the values whose nesting fits under the limit.\<close>

lemma check_json_depth_ok_iff:
  "check_json_depth v depth max_depth ctxt = Inr () \<longleftrightarrow> json_depth v \<le> max_depth - depth"
proof (induction v arbitrary: depth)
  case (JArray xs)
  have "check_json_depth (JArray xs) depth max_depth ctxt = Inr () \<longleftrightarrow>
      depth < max_depth \<and> (\<forall>x\<in>set xs. json_depth x \<le> max_depth - (depth + 1))"
    using JArray by (auto simp: Let_def try_each_ok_iff)
  then show ?case
    by (auto simp: json_depth_array_le simp del: json_depth.simps)
next
  case (JObject m)
  have "check_json_depth (JObject m) depth max_depth ctxt = Inr () \<longleftrightarrow>
      depth < max_depth \<and> (\<forall>p\<in>set m. json_depth (snd p) \<le> max_depth - (depth + 1))"
    using JObject by (auto simp: Let_def try_each_ok_iff)
  then show ?case
    by (auto simp: json_depth_object_le simp del: json_depth.simps)
qed simp_all

lemma check_json_depth_err:
  "check_json_depth v depth max_depth ctxt = Inl e \<Longrightarrow> e = depth_error ctxt max_depth"
proof (induction v arbitrary: depth)
  case (JObject m)
  then show ?case
    by (fastforce simp: Let_def dest!: try_each_errD split: if_splits)
qed (auto simp: Let_def dest!: try_each_errD split: if_splits)

text \<open>All the values inside a value, itself included.\<close>

fun subvalues :: "json \<Rightarrow> json list" where
  "subvalues (JArray xs) = JArray xs # concat (map subvalues xs)"
| "subvalues (JObject m) = JObject m # concat (map (\<lambda>p. subvalues (snd p)) m)"
| "subvalues v = [v]"

definition reserved_reason_at :: "json \<Rightarrow> bool" where
  "reserved_reason_at v = (case json_get v ''reason'' of
      Some (JString r) \<Rightarrow> starts_with r ''runtime_error:'' | _ \<Rightarrow> False)"

lemma reject_reserved_reason_ok_iff:
  "reject_reserved_reason v = Inr () \<longleftrightarrow> (\<forall>u\<in>set (subvalues v). \<not> reserved_reason_at u)"
proof (induction v)
  case (JObject m)
  have "reject_reserved_reason (JObject m) = Inr () \<longleftrightarrow>
      \<not> reserved_reason_at (JObject m) \<and> (\<forall>p\<in>set m. reject_reserved_reason (snd p) = Inr ())"
    by (auto simp: reserved_reason_at_def try_each_ok_iff split: option.splits json.splits)
  then show ?case
    using JObject by fastforce
qed (auto simp: reserved_reason_at_def json_get_def try_each_ok_iff)

text \<open>
  The nesting limit is decided exactly: a value passes the depth check if and
  only if the number of arrays and objects on its longest path is at most the
  configured limit, and otherwise the one error is the resource limit error naming the
  context and the limit.
\<close>

theorem depth_limit_exact:
  "validate_json_depth lim v ctxt =
    (if json_depth v \<le> max_policy_input_depth lim then Inr ()
     else Inl (depth_error ctxt (max_policy_input_depth lim)))"
  using check_json_depth_ok_iff [of v 0 "max_policy_input_depth lim" ctxt]
    check_json_depth_err [of v 0 "max_policy_input_depth lim" ctxt]
    unit_result_cases [of "check_json_depth v 0 (max_policy_input_depth lim) ctxt"]
  by (auto simp: validate_json_depth_def)

text \<open>
  Checking only the replaced annotations is enough.  A policy input with
  annotations passes the full depth check if and only if the same input with empty
  annotations passes it and the annotations alone pass the incremental check that the
  runtime runs after collecting them.
\<close>

theorem annotations_check_suffices:
  "validate_policy_input lim (build_policy_input point path kind target snapshot annotations tool) = Inr ()
   \<longleftrightarrow>
   validate_policy_input lim (build_policy_input point path kind target snapshot (JObject []) tool) = Inr ()
   \<and> validate_policy_annotations lim annotations = Inr ()"
proof -
  have "json_depth (JObject []) \<le> n - Suc 0 \<longleftrightarrow> Suc 0 < n" for n
    by (auto simp: json_depth_object_le simp del: json_depth.simps)
  then show ?thesis
    unfolding validate_policy_input_def validate_policy_annotations_def validate_json_depth_def
      check_json_depth_ok_iff build_policy_input_members
    by (auto simp: json_depth_object_le simp del: json_depth.simps)
qed

text \<open>
  C39: An annotator's output is accepted exactly when its nesting is within
  the limit, no object anywhere inside it has a reason under the reserved
  \<open>runtime_error:\<close> prefix, and its canonical serialization exists and is within the
  byte limit; every refusal is an \<open>annotation_failed\<close> error that names the annotator.
\<close>

theorem annotator_output_accepted_iff:
  "(validate_annotator_output ser lim name output = Inr () \<longleftrightarrow>
     json_depth output \<le> max_policy_input_depth lim
     \<and> \<not> list_ex reserved_reason_at (subvalues output)
     \<and> (\<exists>text. ser (sort_json output) = Inr text \<and> length text \<le> max_annotator_output_bytes lim))
   \<and> (case validate_annotator_output ser lim name output of
        Inr u \<Rightarrow> True
      | Inl e \<Rightarrow> (\<exists>why. e = AnnotationFailed (name @ '': '' @ why)))"
proof -
  let ?r = "validate_annotator_output ser lim name output"
  have "validate_json_depth lim output ctxt = Inr () \<longleftrightarrow> json_depth output \<le> max_policy_input_depth lim" for ctxt
    by (simp add: validate_json_depth_def check_json_depth_ok_iff)
  then have ok: "?r = Inr () \<longleftrightarrow> json_depth output \<le> max_policy_input_depth lim
      \<and> \<not> list_ex reserved_reason_at (subvalues output)
      \<and> (\<exists>text. ser (sort_json output) = Inr text \<and> length text \<le> max_annotator_output_bytes lim)"
    unfolding validate_annotator_output_def canonical_json_def
    by (auto simp: rbind_eq_Inr_iff reject_reserved_reason_ok_iff list_ex_iff not_less)
  have "\<exists>why. e = AnnotationFailed (name @ '': '' @ why)" if "?r = Inl e" for e
    using that unfolding validate_annotator_output_def
    by (auto simp: rbind_eq_Inl_iff map_err_eq_Inl_iff split: if_splits)
  with ok show ?thesis
    by (simp split: sum.split)
qed

end
