(* ===== verification/Manifest.thy ===== *)
theory Manifest
  imports Annotations Dispatch_Order Limits "HOL-Library.Product_Lexorder"
begin

text \<open>
  The manifest and its validation (\<open>manifest.rs\<close>, with the version contracts of
  \<open>constants.rs\<close> and the tool projection of \<open>tool_projection.rs\<close>): the
  document type with its provenance, the gates for documents that came over the network,
  the checks of each intervention point, the annotation order and the approval section.
\<close>

section \<open>The document\<close>

datatype approval_on_timeout = TimeoutDeny | TimeoutAllow | TimeoutSuspend

record approval_resolver_config =
  ar_type :: string
  ar_additional_properties :: field_map

record approval_section =
  ap_default_resolver :: "string option"
  ap_timeout_seconds :: "64 word option"
  ap_on_timeout :: "approval_on_timeout option"
  ap_fatigue_threshold :: "64 word option"
  ap_fatigue_window_seconds :: "64 word option"
  ap_resolvers :: "(string \<times> approval_resolver_config) list"

record point_config =
  pc_policy_target :: string
  pc_policy_target_kind :: "string option"
  pc_tool_name_from :: "string option"
  pc_annotations :: "(string \<times> annotation_config) list"
  pc_policy :: policy_binding

record tool_config =
  tc_fields :: field_map

datatype composition = Document | Loaded | Merged

record manifest =
  m_version :: string
  m_metadata :: json_map
  m_extends :: "manifest_extends list"
  m_policies :: "(string \<times> policy_config) list"
  m_points :: "(interception_point \<times> point_config) list"
  m_tools :: "(string \<times> tool_config) list"
  m_annotators :: "(string \<times> annotator_config) list"
  m_approval :: "approval_section option"
  m_url_sources :: "string list"
  m_url_sourced_annotators :: "string list"
  m_url_sourced_annotations :: "(interception_point \<times> string) list"
  m_composition :: composition

definition to_projected_value :: "tool_config \<Rightarrow> string \<Rightarrow> json" where
  "to_projected_value tool name =
    JObject (jm_insert ''name'' (JString name) (fold (\<lambda>(k, v). jm_insert k v) (tc_fields tool) []))"

definition url_sourced :: "manifest \<Rightarrow> bool" where
  "url_sourced m \<longleftrightarrow> m_url_sources m \<noteq> []"

section \<open>Version contracts\<close>

record contract =
  c_name :: string
  c_annotation_chaining :: bool

definition CONTRACTS :: "contract list" where
  "CONTRACTS = [\<lparr>c_name = ''0.4.0-alpha.1'', c_annotation_chaining = False\<rparr>,
                \<lparr>c_name = ''0.5.0-alpha.1'', c_annotation_chaining = True\<rparr>]"

definition SUPPORTED :: "string list" where
  "SUPPORTED = map c_name CONTRACTS"

definition version_contract :: "string \<Rightarrow> contract option" where
  "version_contract version = find (\<lambda>c. c_name c = trim version) CONTRACTS"

definition annotation_chaining_enabled :: "manifest \<Rightarrow> bool" where
  "annotation_chaining_enabled m = (case version_contract (m_version m) of
      Some c \<Rightarrow> c_annotation_chaining c
    | None \<Rightarrow> False)"

definition from_annotation_in :: "manifest \<Rightarrow> annotator_config \<Rightarrow> annotation_config \<Rightarrow> annotator_invocation" where
  "from_annotation_in m annotator annotation =
    (let invoc = (from_annotation annotator annotation)\<lparr>ai_url_sourced := url_sourced m\<rparr> in
     if annotation_chaining_enabled m then invoc\<lparr>ai_fields := bt_remove ''needs'' (ai_fields invoc)\<rparr>
     else invoc)"

definition annotation_dependencies :: "manifest \<Rightarrow> annotation_config \<Rightarrow> (runtime_error, string list) result" where
  "annotation_dependencies m annotation =
    (if \<not> annotation_chaining_enabled m then Inr []
     else case map_of (an_fields annotation) ''needs'' of
       None \<Rightarrow> Inr []
     | Some v \<Rightarrow>
         rbind (ok_or (ManifestInvalid ''annotation needs must be an array of names'') (as_array v)) (\<lambda>values.
         try_map (\<lambda>value. ok_or (ManifestInvalid ''annotation needs entries must be non-empty names'')
           (Option.bind (as_str value) (\<lambda>name. if is_blank name then None else Some name))) values))"

section \<open>Provenance\<close>

definition HOST_MARKED_SOURCE :: string where
  "HOST_MARKED_SOURCE = ''host-marked remote content''"

definition HOST_ENV_SECRET_FIELDS :: "string list" where
  "HOST_ENV_SECRET_FIELDS =
    [''api_key_env'', ''aws_access_key_id_env'', ''aws_secret_access_key_env'', ''aws_session_token_env'']"

definition INLINE_CREDENTIAL_FIELDS :: "string list" where
  "INLINE_CREDENTIAL_FIELDS =
    [''api_key'', ''headers'', ''aws_access_key_id'', ''aws_secret_access_key'', ''aws_session_token'']"

text \<open>The vector is sorted, so the binary search either finds the entry or gives its
  place.\<close>

definition push_url_source :: "string list \<Rightarrow> string \<Rightarrow> string list" where
  "push_url_source sources u = insort_insert u sources"

definition merge_url_sources :: "string list \<Rightarrow> string list \<Rightarrow> string list" where
  "merge_url_sources existing incoming = remdups_adj (sort (existing @ incoming))"

definition record_fetched_declarations :: "manifest \<Rightarrow> manifest" where
  "record_fetched_declarations m = m\<lparr>
     m_url_sourced_annotators :=
       fold insort_insert (map fst (m_annotators m)) (m_url_sourced_annotators m),
     m_url_sourced_annotations :=
       fold insort_insert (concat (map (\<lambda>(point, config). map (\<lambda>(name, _). (point, name)) (pc_annotations config))
         (m_points m))) (m_url_sourced_annotations m)\<rparr>"

definition annotation_label :: "string \<Rightarrow> interception_point \<Rightarrow> string" where
  "annotation_label name point =
    ''annotation '' @ quoted name @ '' for intervention point '' @ point_as_str point"

definition reject_fetched_annotator_fields ::
  "string \<Rightarrow> string \<Rightarrow> field_map \<Rightarrow> bool \<Rightarrow> (runtime_error, unit) result"
where
  "reject_fetched_annotator_fields document label flds chain_pinned =
    rbind (try_each (\<lambda>field.
        if has_key flds field then
          Inl (ManifestInvalid (document @ '': '' @ label @ '' declares host environment secret field ''
            @ quoted field @ ''; a '' @ MARKER
            @ '' must not read host secrets because it also chooses the endpoint that receives them; ''
            @ ''supply the credential inline on a host declared annotator or declare the ''
            @ ''annotator in a manifest with no URL extends''))
        else Inr ()) HOST_ENV_SECRET_FIELDS) (\<lambda>_.
    if \<not> chain_pinned \<and> has_key flds ''system_prompt_url'' then
      Inl (ManifestInvalid (document @ '': '' @ label @ '' declares a remote '' @ quoted ''system_prompt_url''
        @ '' on an unpinned path; a '' @ MARKER
        @ '' may name one only when every URL extends from the root manifest to this document is ''
        @ ''pinned with sha256 or integrity, and a document the host marked carries no pin''))
    else Inr ())"

definition reject_url_sourced_annotator_fields ::
  "string \<Rightarrow> field_map \<Rightarrow> string list \<Rightarrow> (runtime_error, unit) result"
where
  "reject_url_sourced_annotator_fields label flds url_sources =
    try_each (\<lambda>field.
      if has_key flds field then
        Inl (ManifestInvalid (label @ '' declares host environment secret field '' @ quoted field
          @ '' in a '' @ MARKER @ ''; a chain that ''
          @ ''fetched a document must not read host secrets because a fetched document can ''
          @ ''also choose the endpoint that receives them; supply the credential inline on ''
          @ ''the annotator declaration or drop the URL extends; fetched documents: ''
          @ join '', '' url_sources))
      else Inr ()) HOST_ENV_SECRET_FIELDS"

text \<open>Loops over the annotations of every point, and over every binding.\<close>

definition each_annotation ::
  "manifest \<Rightarrow> (interception_point \<Rightarrow> string \<Rightarrow> annotation_config \<Rightarrow> ('e, unit) result) \<Rightarrow> ('e, unit) result"
where
  "each_annotation m f =
    try_each (\<lambda>(point, config). try_each (\<lambda>(name, annotation). f point name annotation) (pc_annotations config))
      (m_points m)"

definition binding_label :: "interception_point \<Rightarrow> string" where
  "binding_label point = ''intervention point '' @ point_as_str point @ '' policy binding''"

definition policy_label :: "string \<Rightarrow> string" where
  "policy_label name = ''policy '' @ quoted name"

definition reject_fetched_document_local_access ::
  "string \<Rightarrow> bool \<Rightarrow> manifest \<Rightarrow> (runtime_error, unit) result"
where
  "reject_fetched_document_local_access document chain_pinned m =
    rbind (try_each (\<lambda>(name, annotator).
        reject_fetched_annotator_fields document (''annotator '' @ quoted name) (ac_fields annotator)
          chain_pinned) (m_annotators m)) (\<lambda>_.
    rbind (each_annotation m (\<lambda>point name annotation.
        reject_fetched_annotator_fields document (annotation_label name point) (an_fields annotation)
          chain_pinned)) (\<lambda>_.
    rbind (try_each (\<lambda>(name, policy).
        policy_reject_filesystem_path_fields document (policy_label name) policy) (m_policies m)) (\<lambda>_.
    rbind (try_each (\<lambda>(point, config).
        binding_reject_filesystem_path_fields document (binding_label point) (pc_policy config))
        (m_points m)) (\<lambda>_.
    rbind (if chain_pinned then Inr () else
        rbind (try_each (\<lambda>(name, policy).
            policy_reject_remote_bundle_field document (policy_label name) policy) (m_policies m)) (\<lambda>_.
        try_each (\<lambda>(point, config).
            binding_reject_remote_bundle_field document (binding_label point) (pc_policy config))
            (m_points m))) (\<lambda>_.
    rbind (try_each (\<lambda>(name, policy).
        policy_reject_non_rule_query document (policy_label name) policy) (m_policies m)) (\<lambda>_.
    rbind (try_each (\<lambda>(point, config).
        binding_reject_non_rule_query document (binding_label point) (pc_policy config))
        (m_points m)) (\<lambda>_.
    if m_approval m \<noteq> None then
      Inl (ManifestInvalid (document @ '' declares an approval section; approval resolver configuration is ''
        @ ''host configuration and a '' @ MARKER @ '' must not supply it''))
    else case m_tools m of
      (name, _) # _ \<Rightarrow>
        Inl (ManifestInvalid (document @ '' declares tool '' @ quoted name
          @ ''; the tool catalog is host configuration and a '' @ MARKER @ '' must not supply it''))
    | [] \<Rightarrow> Inr ())))))))"

definition mark_url_sourced :: "manifest \<Rightarrow> (runtime_error, manifest) result" where
  "mark_url_sourced m = (case m_composition m of
      Loaded \<Rightarrow> Inl (ManifestInvalid (''mark_url_sourced takes one document parsed from text; this manifest came ''
        @ ''from the file loader, which records provenance itself; parse the fetched ''
        @ ''text with parse_yaml_str and mark that''))
    | Merged \<Rightarrow> Inl (ManifestInvalid (''mark_url_sourced takes one document parsed from text; this manifest was ''
        @ ''merged from more than one document, so mark each fetched document before ''
        @ ''merging it''))
    | Document \<Rightarrow>
        if url_sourced m then
          Inl (ManifestInvalid (''mark_url_sourced applies once; this manifest is already URL sourced; fetched ''
            @ ''documents: '' @ join '', '' (m_url_sources m)))
        else
          rbind (reject_fetched_document_local_access HOST_MARKED_SOURCE False m) (\<lambda>_.
          Inr (record_fetched_declarations
            (m\<lparr>m_url_sources := push_url_source (m_url_sources m) HOST_MARKED_SOURCE\<rparr>))))"

definition reject_cross_document_overlay ::
  "manifest \<Rightarrow> interception_point \<Rightarrow> string \<Rightarrow> annotation_config \<Rightarrow> (runtime_error, unit) result"
where
  "reject_cross_document_overlay m point name annotation =
    (let declaration_fetched = name \<in> set (m_url_sourced_annotators m);
         binding_fetched = (point, name) \<in> set (m_url_sourced_annotations m) in
     rbind (if binding_fetched \<and> \<not> declaration_fetched then
         case find (\<lambda>field. field \<noteq> ''input_from'') (map fst (an_fields annotation)) of
           Some field \<Rightarrow> Inl (ManifestInvalid (annotation_label name point @ '' comes from a fetched ''
             @ ''document and sets field '' @ quoted field @ '' on annotator '' @ quoted name
             @ '', which the host declared; binding fields overlay the declaration at dispatch, so in a ''
             @ MARKER @ '' a fetched binding for a host declared annotator may set only `from`; fetched ''
             @ ''documents: '' @ join '', '' (m_url_sources m)))
         | None \<Rightarrow> Inr ()
       else Inr ()) (\<lambda>_.
     rbind (if declaration_fetched then
         rbind (annotation_dependencies m annotation) (\<lambda>needs.
         case find (\<lambda>need. need \<notin> set (m_url_sourced_annotators m)) needs of
           Some need \<Rightarrow> Inl (ManifestInvalid (annotation_label name point @ '' needs '' @ quoted need
             @ '', which the host declared, onto annotator '' @ quoted name
             @ '', which a fetched document declared; in a '' @ MARKER
             @ '' that document chose the endpoint that would receive '' @ quoted need
             @ '' results; fetched documents: '' @ join '', '' (m_url_sources m)))
         | None \<Rightarrow> Inr ())
       else Inr ()) (\<lambda>_.
     if declaration_fetched \<and> \<not> binding_fetched then
       try_each (\<lambda>field.
         if has_key (an_fields annotation) field then
           Inl (ManifestInvalid (annotation_label name point @ '' carries inline credential field ''
             @ quoted field @ '' onto annotator '' @ quoted name
             @ '', which a fetched document declared; in a '' @ MARKER
             @ '' that document chose the endpoint that would receive the value; ''
             @ ''declare the annotator in the host manifest or drop the credential; fetched documents: ''
             @ join '', '' (m_url_sources m)))
         else Inr ()) INLINE_CREDENTIAL_FIELDS
     else Inr ())))"

definition reject_url_sourced_host_secrets :: "manifest \<Rightarrow> (runtime_error, unit) result" where
  "reject_url_sourced_host_secrets m =
    rbind (try_each (\<lambda>(name, annotator).
        reject_url_sourced_annotator_fields (''annotator '' @ quoted name) (ac_fields annotator)
          (m_url_sources m)) (m_annotators m)) (\<lambda>_.
    each_annotation m (\<lambda>point name annotation.
      case map_of (m_annotators m) name of
        None \<Rightarrow> Inr ()
      | Some annotator \<Rightarrow>
          rbind (reject_url_sourced_annotator_fields (annotation_label name point)
                   (ai_fields (from_annotation annotator annotation)) (m_url_sources m)) (\<lambda>_.
          reject_cross_document_overlay m point name annotation)))"


section \<open>Annotation order\<close>

definition annotation_dispatch_order ::
  "interception_point \<Rightarrow> point_config \<Rightarrow> manifest \<Rightarrow> (runtime_error, string list) result"
where
  "annotation_dispatch_order point config m =
    (if \<not> annotation_chaining_enabled m then Inr (map fst (pc_annotations config))
     else
       rbind (try_map (\<lambda>(name, annotation).
           rbind (annotation_dependencies m annotation) (\<lambda>needs. Inr (name, needs)))
           (pc_annotations config)) (\<lambda>deps.
       let st = kahn deps in
       if length (dispatch_order st) \<noteq> length (pc_annotations config) then
         let cycle = sort (map fst (filter (\<lambda>(_, count). count > 0) (remaining_needs st))) in
         Inl (ManifestInvalid (''intervention point '' @ point_as_str point
           @ '' has unresolvable annotation needs (cycle or blocked by one) among: '' @ join '', '' cycle))
       else Inr (dispatch_order st)))"

section \<open>Validation\<close>

definition check_need ::
  "interception_point \<Rightarrow> point_config \<Rightarrow> string \<Rightarrow> string \<Rightarrow> string list \<Rightarrow> (runtime_error, string list) result"
where
  "check_need point config name need seen =
    (if need = name then
       Inl (ManifestInvalid (annotation_label name point @ '' must not depend on itself''))
     else if need \<in> set seen then
       Inl (ManifestInvalid (annotation_label name point @ '' lists '' @ quoted need
         @ '' in needs more than once''))
     else if \<not> has_key (pc_annotations config) need then
       Inl (ManifestInvalid (annotation_label name point @ '' needs '' @ quoted need
         @ '', which the point does not opt into''))
     else Inr (insort_insert need seen))"

definition check_needs ::
  "interception_point \<Rightarrow> point_config \<Rightarrow> string \<Rightarrow> string list \<Rightarrow> (runtime_error, string list) result"
where
  "check_needs point config name needs = try_fold (check_need point config name) needs []"

definition validate_annotation ::
  "externals \<Rightarrow> interception_point \<Rightarrow> point_config \<Rightarrow> manifest \<Rightarrow> string \<Rightarrow> annotation_config
    \<Rightarrow> (runtime_error, unit) result"
where
  "validate_annotation x point config m name annotation =
    (case map_of (m_annotators m) name of
       None \<Rightarrow> Inl (ManifestInvalid (''intervention point '' @ point_as_str point
         @ '' references unknown annotator '' @ quoted name))
     | Some annotator \<Rightarrow>
         let invoc = from_annotation_in m annotator annotation in
         rbind (if Option.bind (invocation_field invoc ''type'') as_str = Some ''llm'' then
                  rbind (system_prompt_source x (ai_fields invoc)) (\<lambda>_. Inr ())
                else Inr ()) (\<lambda>_.
         if has_key (an_fields annotation) ''annotator'' then
           Inl (ManifestInvalid (annotation_label name point
             @ '' must use the annotations map key as the annotator name''))
         else if is_blank (an_from annotation) then
           Inl (ManifestInvalid (annotation_label name point @ '' must define from''))
         else
           rbind (map_err (\<lambda>err. ManifestInvalid (''invalid annotation '' @ quoted name
                     @ '' from path for intervention point '' @ point_as_str point @ '': ''
                     @ show_path_error err))
                   (parse_with_snapshot_alias (x_literal x) (an_from annotation))) (\<lambda>from_path.
           if \<not> annotation_chaining_enabled m then
             (if references_pi_annotations from_path then
                Inl (ManifestInvalid (''annotation '' @ quoted name
                  @ '' must not read policy-input annotations in this manifest version''))
              else Inr ())
           else
             rbind (annotation_dependencies m annotation) (\<lambda>needs.
             rbind (check_needs point config name needs) (\<lambda>seen.
             case pi_annotation_reference from_path of
               Some reference \<Rightarrow>
                 if reference \<notin> set seen then
                   Inl (ManifestInvalid (annotation_label name point @ '' reads annotation ''
                     @ quoted reference @ '' without naming it in needs''))
                 else Inr ()
             | None \<Rightarrow>
                 if references_pi_annotations from_path then
                   Inl (ManifestInvalid (annotation_label name point
                     @ '' must read a named annotation, not the whole annotations map''))
                 else Inr ())))))"

definition validate_point_config ::
  "externals \<Rightarrow> interception_point \<Rightarrow> point_config \<Rightarrow> manifest \<Rightarrow> (runtime_error, unit) result"
where
  "validate_point_config x point config m =
    (if is_blank (pc_policy_target config) then
       Inl (ManifestInvalid (''intervention point '' @ point_as_str point
         @ '' must define policy_target after extends resolution''))
     else
       rbind (map_err (\<lambda>err. ManifestInvalid (''invalid policy_target for intervention point ''
                 @ point_as_str point @ '': '' @ show_path_error err))
               (parse_with_snapshot_alias (x_literal x) (pc_policy_target config))) (\<lambda>target_path.
       rbind (ensure (root target_path = Snap)
               (ManifestInvalid (''policy_target for intervention point '' @ point_as_str point
                 @ '' must use $, $snap, or a snapshot alias''))) (\<lambda>_.
       rbind (case pc_policy_target_kind config of
           Some kind \<Rightarrow>
             ensure (\<not> is_blank kind) (ManifestInvalid (''policy_target_kind for intervention point ''
               @ point_as_str point @ '' must not be empty''))
         | None \<Rightarrow> Inr ()) (\<lambda>_.
       rbind (case pc_tool_name_from config of
           None \<Rightarrow> Inr ()
         | Some tool_name_from \<Rightarrow>
             if \<not> is_tool_point point then
               Inl (ManifestInvalid (''tool_name_from is only valid on tool intervention points, not ''
                 @ point_as_str point))
             else
               rbind (map_err (\<lambda>err. ManifestInvalid (''invalid tool_name_from for intervention point ''
                         @ point_as_str point @ '': '' @ show_path_error err))
                       (parse_with_snapshot_alias (x_literal x) tool_name_from)) (\<lambda>tool_path.
               ensure (root tool_path = Snap)
                 (ManifestInvalid (''tool_name_from for intervention point '' @ point_as_str point
                   @ '' must use $, $snap, or a snapshot alias'')))) (\<lambda>_.
       rbind (try_each (\<lambda>(name, annotation). validate_annotation x point config m name annotation)
               (pc_annotations config)) (\<lambda>_.
       rbind (annotation_dispatch_order point config m) (\<lambda>_.
       if is_blank (pb_id (pc_policy config)) then
         Inl (ManifestInvalid (''intervention point '' @ point_as_str point
           @ '' must define policy after extends resolution''))
       else
         rbind (ok_or (ManifestInvalid (''intervention point '' @ point_as_str point
                   @ '' references unknown policy '' @ quoted (pb_id (pc_policy config))))
                 (map_of (m_policies m) (pb_id (pc_policy config)))) (\<lambda>policy_config.
         validate_policy_binding x point (pc_policy config) policy_config))))))))"

definition validate_positive :: "string \<Rightarrow> 64 word option \<Rightarrow> (runtime_error, unit) result" where
  "validate_positive field value = (case value of
      Some v \<Rightarrow> if v = 0 then Inl (ManifestInvalid (field @ '' must be greater than zero'')) else Inr ()
    | None \<Rightarrow> Inr ())"

definition validate_approval_section :: "approval_section \<Rightarrow> (runtime_error, unit) result" where
  "validate_approval_section approval =
    rbind (case ap_default_resolver approval of
        None \<Rightarrow> Inr ()
      | Some default_resolver \<Rightarrow>
          if is_blank default_resolver then
            Inl (ManifestInvalid ''approval.default_resolver must not be empty'')
          else if ap_resolvers approval \<noteq> [] \<and> \<not> has_key (ap_resolvers approval) default_resolver then
            Inl (ManifestInvalid (''approval.default_resolver '' @ quoted default_resolver
              @ '' does not match any entry under approval.resolvers''))
          else Inr ()) (\<lambda>_.
    rbind (validate_positive ''approval.timeout_seconds'' (ap_timeout_seconds approval)) (\<lambda>_.
    rbind (validate_positive ''approval.fatigue_threshold'' (ap_fatigue_threshold approval)) (\<lambda>_.
    rbind (validate_positive ''approval.fatigue_window_seconds'' (ap_fatigue_window_seconds approval)) (\<lambda>_.
    try_each (\<lambda>(name, config).
      if is_blank name then
        Inl (ManifestInvalid ''approval.resolvers entries must have non-empty names'')
      else if is_blank (ar_type config) then
        Inl (ManifestInvalid (''approval.resolvers.'' @ name @ ''.type must not be empty''))
      else Inr ()) (ap_resolvers approval)))))"

definition validate_annotator :: "externals \<Rightarrow> manifest \<Rightarrow> string \<Rightarrow> annotator_config \<Rightarrow> (runtime_error, unit) result" where
  "validate_annotator x m name annotator =
    (if is_blank name then Inl (ManifestInvalid ''annotator names must not be empty'')
     else if annotation_chaining_enabled m \<and> has_key (ac_fields annotator) ''needs'' then
       Inl (ManifestInvalid (''annotator '' @ quoted name
         @ '' must declare needs on an intervention-point binding''))
     else if ac_type annotator = Llm then
       rbind (system_prompt_source x (ac_fields annotator)) (\<lambda>_. Inr ())
     else Inr ())"

definition manifest_validate :: "externals \<Rightarrow> manifest \<Rightarrow> (runtime_error, unit) result" where
  "manifest_validate x m =
    (let version = trim (m_version m) in
     if version = [] then Inl (ManifestInvalid ''agent_control_specification_version is required'')
     else if version \<notin> set SUPPORTED then
       Inl (ManifestInvalid (''unsupported agent_control_specification_version '' @ quoted version
         @ ''; supported versions are '' @ join '', '' SUPPORTED))
     else
       rbind (try_each (\<lambda>ext.
           if is_blank (extends_reference ext) then
             Inl (ManifestInvalid ''extends entries must not be empty'')
           else validate_extends_trust x ext) (m_extends m)) (\<lambda>_.
       rbind (ensure (m_points m \<noteq> [])
               (ManifestInvalid ''at least one intervention point config is required'')) (\<lambda>_.
       rbind (try_each (\<lambda>(name, config).
           if is_blank name then Inl (ManifestInvalid ''policy ids must not be empty'')
           else validate_policy_definition x name config) (m_policies m)) (\<lambda>_.
       rbind (try_each (\<lambda>(name, annotator). validate_annotator x m name annotator) (m_annotators m)) (\<lambda>_.
       rbind (try_each (\<lambda>(point, config). validate_point_config x point config m) (m_points m)) (\<lambda>_.
       rbind (case m_approval m of Some approval \<Rightarrow> validate_approval_section approval | None \<Rightarrow> Inr ()) (\<lambda>_.
       if url_sourced m then reject_url_sourced_host_secrets m else Inr ())))))))"

section \<open>Other operations\<close>

definition manifest_resolve_relative_paths :: "string \<Rightarrow> manifest \<Rightarrow> manifest" where
  "manifest_resolve_relative_paths base_dir m = m\<lparr>
     m_policies := map (\<lambda>(id, config). (id, policy_resolve_relative_paths base_dir config)) (m_policies m),
     m_points := map (\<lambda>(point, config). (point,
       config\<lparr>pc_policy := binding_resolve_relative_paths base_dir (pc_policy config)\<rparr>)) (m_points m)\<rparr>"

definition set_rego_bundle_in_memory ::
  "string \<Rightarrow> in_memory_bundle \<Rightarrow> manifest \<Rightarrow> (runtime_error, manifest) result"
where
  "set_rego_bundle_in_memory policy_id bundle m =
    (let refuse = (\<lambda>why. ManifestInvalid (''cannot supply in-memory Rego modules for policy ''
           @ quoted policy_id @ '': '' @ why)) in
     case map_of (m_policies m) policy_id of
       None \<Rightarrow> Inl (refuse ''the manifest declares no such policy'')
     | Some (Rego rego) \<Rightarrow>
         rbind (try_each (\<lambda>(point, config).
             if pb_id (pc_policy config) = policy_id \<and> has_key (pb_adapter_config (pc_policy config)) ''bundle_url''
             then Inl (refuse (''intervention point '' @ point_as_str point
               @ '' still declares a bundle_url override; remove the binding override first''))
             else Inr ()) (m_points m)) (\<lambda>_.
         Inr (m\<lparr>m_policies := bt_insert policy_id (Rego (rego\<lparr>rp_bundle := None,
           rp_adapter_config := bt_remove ''bundle_url'' (rp_adapter_config rego),
           rp_inline_bundle := Some bundle\<rparr>)) (m_policies m)\<rparr>))
     | Some _ \<Rightarrow> Inl (refuse ''it is not a rego policy''))"

definition relative_data :: "adapter_config \<Rightarrow> bool" where
  "relative_data cfg = (case rego_adapter_data_paths cfg of
      Inr paths \<Rightarrow> list_ex (\<lambda>p. \<not> path_is_absolute p) paths
    | Inl _ \<Rightarrow> False)"

definition relative_path :: "string option \<Rightarrow> bool" where
  "relative_path v = (case v of Some p \<Rightarrow> p \<noteq> [] \<and> \<not> path_is_absolute p | None \<Rightarrow> False)"

definition unresolved_relative_rego_paths :: "manifest \<Rightarrow> string list" where
  "unresolved_relative_rego_paths m =
    (let ids = map fst (filter (\<lambda>(id, config). case config of
                 Rego rego \<Rightarrow> relative_path (rp_bundle rego) \<or> relative_data (rp_adapter_config rego)
               | _ \<Rightarrow> False) (m_policies m));
         ids = fold (\<lambda>(point, config) ids.
                 let binding = pc_policy config;
                     is_rego = (case map_of (m_policies m) (pb_id binding) of Some (Rego _) \<Rightarrow> True | _ \<Rightarrow> False)
                 in if is_rego \<and> relative_data (pb_adapter_config binding) \<and> pb_id binding \<notin> set ids
                    then ids @ [pb_id binding] else ids) (m_points m) ids
     in remdups_adj (sort ids))"

text \<open>\<open>project_tool\<close> of \<open>tool_projection.rs\<close>.\<close>

definition project_tool ::
  "literal_decoder \<Rightarrow> manifest \<Rightarrow> interception_point \<Rightarrow> point_config \<Rightarrow> json \<Rightarrow> (runtime_error, json) result"
where
  "project_tool lit m point config snapshot = (case pc_tool_name_from config of
      None \<Rightarrow> Inr JNull
    | Some tool_name_from \<Rightarrow>
        if \<not> is_tool_point point then
          Inl (ManifestInvalid (''tool_name_from is only valid on tool intervention points, not ''
            @ point_as_str point))
        else
          rbind (map_err (\<lambda>err. ManifestInvalid (''invalid tool_name_from for intervention_point ''
                    @ point_as_str point @ '': '' @ show_path_error err))
                  (parse_with_snapshot_alias lit tool_name_from)) (\<lambda>path.
          rbind (resolve path (with_snap snapshot)) (\<lambda>value.
          rbind (ok_or (PathTypeMismatch (''tool_name_from '' @ quoted tool_name_from
                    @ '' did not resolve to a string'')) (as_str value)) (\<lambda>tool_name.
          rbind (ok_or (ToolUnknown tool_name) (map_of (m_tools m) tool_name)) (\<lambda>tool.
          Inr (to_projected_value tool tool_name))))))"

end
