(* ===== verification/Manifest_Laws.thy ===== *)
theory Manifest_Laws
  imports Manifest
begin

text \<open>
  What validation and the provenance gates guarantee: the order annotations run in,
  what a validated point can rely on, what a fetched document cannot do, and how
  bindings overlay declarations across the host boundary.
\<close>

section \<open>Maps of a well formed manifest\<close>

text \<open>The \<open>BTreeMap\<close> and \<open>BTreeSet\<close> invariants of the fields, which the types guarantee.\<close>

definition manifest_wf :: "manifest \<Rightarrow> bool" where
  "manifest_wf m \<longleftrightarrow>
    bt_inv (m_policies m) \<and> bt_inv (m_points m) \<and> bt_inv (m_tools m) \<and> bt_inv (m_annotators m)
    \<and> (\<forall>(name, annotator)\<in>set (m_annotators m). bt_inv (ac_fields annotator))
    \<and> (\<forall>(point, config)\<in>set (m_points m). bt_inv (pc_annotations config)
        \<and> (\<forall>(name, annotation)\<in>set (pc_annotations config). bt_inv (an_fields annotation)))"

lemma manifest_wfD:
  assumes "manifest_wf m"
  shows "(point, config) \<in> set (m_points m) \<Longrightarrow> bt_inv (pc_annotations config)"
    and "(point, config) \<in> set (m_points m) \<Longrightarrow> (name, annotation) \<in> set (pc_annotations config)
      \<Longrightarrow> bt_inv (an_fields annotation)"
    and "map_of (m_annotators m) name = Some annotator \<Longrightarrow> bt_inv (ac_fields annotator)"
    and "bt_inv (m_annotators m)" "bt_inv (m_points m)" "bt_inv (m_policies m)"
  using assms by (auto simp: manifest_wf_def dest!: map_of_SomeD)

section \<open>An example manifest\<close>

text \<open>Two annotations at the input point, the first needing the second, and one custom policy.\<close>

definition example_point :: point_config where
  "example_point = \<lparr>pc_policy_target = ''$'', pc_policy_target_kind = None, pc_tool_name_from = None,
    pc_annotations =
      [(''a'', \<lparr>an_from = ''$'', an_fields = [(''needs'', JArray [JString ''b''])]\<rparr>),
       (''b'', \<lparr>an_from = ''$'', an_fields = []\<rparr>)],
    pc_policy = \<lparr>pb_id = ''p'', pb_query = None, pb_adapter_config = []\<rparr>\<rparr>"

definition example_sourced :: "string list \<Rightarrow> string list \<Rightarrow> (interception_point \<times> string) list \<Rightarrow> manifest" where
  "example_sourced sources annotators bindings = \<lparr>m_version = ''0.5.0-alpha.1'', m_metadata = [], m_extends = [],
    m_policies = [(''p'', Custom \<lparr>up_adapter = ''t'', up_adapter_config = []\<rparr>)],
    m_points = [(Input, example_point)], m_tools = [],
    m_annotators = [(''a'', \<lparr>ac_type = Endpoint, ac_fields = []\<rparr>),
                    (''b'', \<lparr>ac_type = Classifier, ac_fields = []\<rparr>)],
    m_approval = None, m_url_sources = sources, m_url_sourced_annotators = annotators,
    m_url_sourced_annotations = bindings, m_composition = Document\<rparr>"

definition example_manifest :: manifest where
  "example_manifest = example_sourced [] [] []"

lemma example_parts:
  "m_annotators (example_sourced u a b) = [(''a'', \<lparr>ac_type = Endpoint, ac_fields = []\<rparr>),
                    (''b'', \<lparr>ac_type = Classifier, ac_fields = []\<rparr>)]"
  "m_points (example_sourced u a b) = [(Input, example_point)]"
  "m_version (example_sourced u a b) = ''0.5.0-alpha.1''" "m_extends (example_sourced u a b) = []"
  "m_policies (example_sourced u a b) = [(''p'', Custom \<lparr>up_adapter = ''t'', up_adapter_config = []\<rparr>)]"
  "m_approval (example_sourced u a b) = None"
  "url_sourced (example_sourced u a b) \<longleftrightarrow> u \<noteq> []"
  by (simp_all add: example_sourced_def url_sourced_def)

lemma not_blank_ascii: "byte c < 128 \<and> \<not> is_whitespace [c] \<Longrightarrow> \<not> is_blank [c]"
  using trim_no_whitespace [of "[c]"] by (simp add: is_blank_def)

lemma not_blank_examples: "\<not> is_blank ''a''" "\<not> is_blank ''b''" "\<not> is_blank ''p''" "\<not> is_blank ''t''" "\<not> is_blank ''$''"
  by (rule not_blank_ascii, simp add: is_whitespace_def)+

lemma example_version: "trim ''0.5.0-alpha.1'' = ''0.5.0-alpha.1''"
  by (rule trim_no_whitespace) (simp add: is_whitespace_def)

lemma example_chaining: "annotation_chaining_enabled (example_sourced u a b)"
  by (simp add: annotation_chaining_enabled_def version_contract_def example_sourced_def CONTRACTS_def example_version)

lemma example_wf: "manifest_wf (example_sourced u a b)"
  by (simp add: manifest_wf_def example_sourced_def example_point_def bt_inv_def less_char_def)

lemma example_needs:
  "annotation_dependencies (example_sourced u a b) \<lparr>an_from = f, an_fields = [(''needs'', JArray [JString ''b''])]\<rparr> = Inr [''b'']"
  "annotation_dependencies (example_sourced u a b) \<lparr>an_from = f, an_fields = []\<rparr> = Inr []"
  by (simp_all add: annotation_dependencies_def example_chaining not_blank_examples)

section \<open>Annotation order\<close>

lemma try_map_pairs:
  "try_map (\<lambda>(name, annotation). rbind (f annotation) (\<lambda>needs. Inr (name, needs))) xs = Inr ys
    \<longleftrightarrow> list_all2 (\<lambda>(name, annotation) (name', needs). name' = name \<and> f annotation = Inr needs) xs ys"
  by (auto simp: try_map_ok_iff rbind_eq_Inr_iff split_beta elim: list.rel_mono_strong)

lemma list_all2_keys:
  "list_all2 (\<lambda>(name, annotation) (name', needs). name' = name \<and> f annotation = Inr needs) xs ys
    \<Longrightarrow> map fst ys = map fst xs \<and> (\<forall>(name, annotation)\<in>set xs. \<exists>needs. f annotation = Inr needs \<and> (name, needs) \<in> set ys)"
  by (induction rule: list_all2_induct) auto

definition order_needs :: "manifest \<Rightarrow> point_config \<Rightarrow> string needs_list" where
  "order_needs m config = map (\<lambda>(name, annotation). (name,
     case annotation_dependencies m annotation of Inr needs \<Rightarrow> needs | Inl _ \<Rightarrow> [])) (pc_annotations config)"

lemma order_needs_keys: "map fst (order_needs m config) = map fst (pc_annotations config)"
  by (simp add: order_needs_def split_beta comp_def)

lemma order_needs_facts:
  assumes "bt_inv (pc_annotations config)"
  shows "distinct (map fst (order_needs m config))"
    and "fst ` set (order_needs m config) = fst ` set (pc_annotations config)"
  using assms order_needs_keys [of m config] by (simp add: bt_inv_distinct, metis list.set_map)

lemma order_needs_of:
  assumes "bt_inv (pc_annotations config)" "(name, annotation) \<in> set (pc_annotations config)"
    and "annotation_dependencies m annotation = Inr needs"
  shows "needs_of (order_needs m config) name = needs"
proof -
  have "distinct (map fst (order_needs m config))"
    using assms(1) by (simp add: order_needs_keys bt_inv_distinct)
  moreover have "(name, needs) \<in> set (order_needs m config)"
    using assms(2,3) by (force simp: order_needs_def)
  ultimately show ?thesis
    by (rule needs_of_entry)
qed

lemma order_needs_read:
  assumes "\<forall>(name, annotation)\<in>set (pc_annotations config). is_ok (annotation_dependencies m annotation)"
  shows "try_map (\<lambda>(name, annotation). rbind (annotation_dependencies m annotation) (\<lambda>needs. Inr (name, needs)))
      (pc_annotations config) = Inr (order_needs m config)"
  using assms unfolding try_map_pairs order_needs_def list_all2_map2
  by (force simp: list_all2_same is_ok_iff split: prod.splits)

lemma dispatch_order_refused:
  assumes "annotation_chaining_enabled m"
    and "\<forall>(name, annotation)\<in>set (pc_annotations config). is_ok (annotation_dependencies m annotation)"
    and "annotation_dispatch_order point config m = Inl e"
  shows "e = ManifestInvalid (''intervention point '' @ point_as_str point
      @ '' has unresolvable annotation needs (cycle or blocked by one) among: ''
      @ join '', '' (sort (map fst (filter (\<lambda>(_, count). count > 0)
          (remaining_needs (kahn (order_needs m config)))))))"
  using assms(1,3) by (simp add: annotation_dispatch_order_def order_needs_read [OF assms(2)] Let_def split: if_splits)

lemma dispatch_order_cases:
  assumes "annotation_chaining_enabled m"
  shows "annotation_dispatch_order point config m = Inr xs \<longleftrightarrow>
    (\<forall>(name, annotation)\<in>set (pc_annotations config). is_ok (annotation_dependencies m annotation))
    \<and> length (dispatch_order (kahn (order_needs m config))) = length (pc_annotations config)
    \<and> xs = dispatch_order (kahn (order_needs m config))"
proof (cases "\<forall>(name, annotation)\<in>set (pc_annotations config). is_ok (annotation_dependencies m annotation)")
  case True
  then show ?thesis
    using assms order_needs_read [OF True] by (auto simp: annotation_dispatch_order_def Let_def)
next
  case False
  have "try_map (\<lambda>(name, annotation). rbind (annotation_dependencies m annotation) (\<lambda>needs. Inr (name, needs)))
      (pc_annotations config) \<noteq> Inr ys" for ys
    using False list_all2_keys [of "annotation_dependencies m" "pc_annotations config" ys]
    unfolding try_map_pairs by (force simp: is_ok_iff)
  then have "annotation_dispatch_order point config m \<noteq> Inr xs"
    using assms by (auto simp: annotation_dispatch_order_def rbind_eq_Inr_iff)
  then show ?thesis
    using False by blast
qed

lemma dispatch_order_keys:
  assumes "bt_inv (pc_annotations config)" "annotation_dispatch_order point config m = Inr xs"
  shows "distinct xs" "set xs = fst ` set (pc_annotations config)"
proof -
  have d: "distinct (map fst (order_needs m config))" "fst ` set (order_needs m config) = fst ` set (pc_annotations config)"
    using order_needs_facts [OF assms(1)] by simp_all
  have "distinct xs \<and> set xs = fst ` set (pc_annotations config)"
  proof (cases "annotation_chaining_enabled m")
    case True
    have "least_first (order_needs m config) (dispatch_order (kahn (order_needs m config)))"
      using kahn_result [OF d(1)] by (simp add: kahn_inv_def)
    then show ?thesis
      using assms(2) kahn_complete_iff(1) [OF d(1)] d(2) least_first_distinct
      by (auto simp: dispatch_order_cases [OF True] order_needs_def)
  next
    case False
    then show ?thesis
      using assms by (force simp: annotation_dispatch_order_def bt_inv_distinct)
  qed
  then show "distinct xs" "set xs = fst ` set (pc_annotations config)"
    by auto
qed

text \<open>
  C7: The annotation order.  At a point whose annotations declare well
  formed dependencies, an order exists exactly when no set of annotations blocks itself
  (every member needing another member, or a name the point does not have); it then
  contains each annotation once, after everything it needs, and at every position the
  lexicographically least annotation that could run there.  A rejection lists, in order and
  each once, exactly the annotations of such sets: those on a cycle or a missing need, and
  those behind one.
\<close>

theorem annotation_order_correct:
  assumes "bt_inv (pc_annotations config)" "annotation_chaining_enabled m"
    and "\<forall>(name, annotation)\<in>set (pc_annotations config). annotation_dependencies m annotation = Inr (needs name)"
  shows "(is_ok (annotation_dispatch_order point config m) \<longleftrightarrow>
      \<not> (\<exists>B. B \<noteq> {} \<and> B \<subseteq> fst ` set (pc_annotations config)
          \<and> (\<forall>n\<in>B. \<exists>k\<in>set (needs n). k \<in> B \<or> k \<notin> fst ` set (pc_annotations config))))
    \<and> (\<forall>xs. annotation_dispatch_order point config m = Inr xs \<longrightarrow>
      distinct xs \<and> set xs = fst ` set (pc_annotations config)
      \<and> (\<forall>i<length xs. set (needs (xs ! i)) \<subseteq> set (take i xs)
          \<and> (\<forall>n\<in>fst ` set (pc_annotations config) - set (take i xs).
               set (needs n) \<subseteq> set (take i xs) \<longrightarrow> xs ! i \<le> n)))
    \<and> (\<forall>e. annotation_dispatch_order point config m = Inl e \<longrightarrow> (\<exists>names.
      e = ManifestInvalid (''intervention point '' @ point_as_str point
        @ '' has unresolvable annotation needs (cycle or blocked by one) among: '' @ join '', '' names)
      \<and> sorted names \<and> distinct names
      \<and> set names = \<Union> {B. B \<subseteq> fst ` set (pc_annotations config)
          \<and> (\<forall>n\<in>B. \<exists>k\<in>set (needs n). k \<in> B \<or> k \<notin> fst ` set (pc_annotations config))}))"
proof -
  let ?d = "order_needs m config" and ?N = "fst ` set (pc_annotations config)"
  note d = order_needs_facts [OF assms(1), of m]
  have needs: "needs_of ?d n = needs n" if "n \<in> ?N" for n
    using that assms(3) order_needs_of [OF assms(1)] by force
  have ok: "\<forall>(name, annotation)\<in>set (pc_annotations config). is_ok (annotation_dependencies m annotation)"
    using assms(3) by (auto simp: is_ok_iff)
  have len: "length ?d = length (pc_annotations config)"
    by (simp add: order_needs_def)
  have blocked: "blocked ?d B \<longleftrightarrow> B \<noteq> {} \<and> B \<subseteq> ?N \<and> (\<forall>n\<in>B. \<exists>k\<in>set (needs n). k \<in> B \<or> k \<notin> ?N)" for B
    unfolding blocked_def d(2) using needs by (metis subsetD)
  have lf: "least_first ?d (dispatch_order (kahn ?d))"
    using kahn_result [OF d(1)] by (simp add: kahn_inv_def)
  have exists: "is_ok (annotation_dispatch_order point config m) \<longleftrightarrow> (\<nexists>B. blocked ?d B)"
    using kahn_complete_iff [OF d(1)] ok len
    by (auto simp: is_ok_iff dispatch_order_cases [OF assms(2)])
  have each: "set (needs (xs ! i)) \<subseteq> set (take i xs) \<and>
      (\<forall>n\<in>?N - set (take i xs). set (needs n) \<subseteq> set (take i xs) \<longrightarrow> xs ! i \<le> n)"
    if "annotation_dispatch_order point config m = Inr xs" "i < length xs" for xs i
  proof -
    have "xs = dispatch_order (kahn ?d)"
      using that(1) by (simp add: dispatch_order_cases [OF assms(2)])
    then have "xs ! i \<in> ?N" "set (needs_of ?d (xs ! i)) \<subseteq> set (take i xs)"
        "\<forall>n\<in>eligible ?d (take i xs). xs ! i \<le> n"
      using lf that(2) d(2) by (auto simp: least_first_def eligible_def)
    then show ?thesis
      using needs d(2) by (simp add: eligible_def)
  qed
  have refusal: "\<exists>names. e = ManifestInvalid (''intervention point '' @ point_as_str point
        @ '' has unresolvable annotation needs (cycle or blocked by one) among: '' @ join '', '' names)
      \<and> sorted names \<and> distinct names \<and> set names = \<Union> {B. B \<subseteq> ?N \<and> (\<forall>n\<in>B. \<exists>k\<in>set (needs n). k \<in> B \<or> k \<notin> ?N)}"
    if e: "annotation_dispatch_order point config m = Inl e" for e
  proof -
    let ?left = "map fst (filter (\<lambda>(_, count). count > 0) (remaining_needs (kahn ?d)))"
    have "\<Union> {B. blocked ?d B} = \<Union> {B. B \<subseteq> ?N \<and> (\<forall>n\<in>B. \<exists>k\<in>set (needs n). k \<in> B \<or> k \<notin> ?N)}"
      unfolding blocked by blast
    then have "set (sort ?left) = \<Union> {B. B \<subseteq> ?N \<and> (\<forall>n\<in>B. \<exists>k\<in>set (needs n). k \<in> B \<or> k \<notin> ?N)}"
      using kahn_left_over(1) [OF d(1)] by (simp only: set_sort)
    then show ?thesis
      using dispatch_order_refused [OF assms(2) ok e] kahn_left_over(2) [OF d(1)]
      by (intro exI [of _ "sort ?left"]) simp
  qed
  show ?thesis
  proof (intro conjI)
    show "\<forall>xs. annotation_dispatch_order point config m = Inr xs \<longrightarrow> distinct xs \<and> set xs = ?N
      \<and> (\<forall>i<length xs. set (needs (xs ! i)) \<subseteq> set (take i xs)
          \<and> (\<forall>n\<in>?N - set (take i xs). set (needs n) \<subseteq> set (take i xs) \<longrightarrow> xs ! i \<le> n))"
      using each dispatch_order_keys [OF assms(1), of point m] by simp
  qed (rule exists [unfolded blocked], use refusal in simp)
qed

theorem annotation_order_correct_witness:
  "\<exists>xs. annotation_dispatch_order Input example_point example_manifest = Inr xs
    \<and> distinct xs \<and> set xs = {''a'', ''b''}"
proof -
  let ?needs = "\<lambda>n. if n = ''a'' then [''b''] else []"
  have "bt_inv (pc_annotations example_point)"
    using example_wf by (simp add: manifest_wf_def example_parts)
  moreover have "\<forall>(name, annotation)\<in>set (pc_annotations example_point).
      annotation_dependencies example_manifest annotation = Inr (?needs name)"
    by (simp add: example_point_def example_manifest_def example_needs)
  moreover have "annotation_chaining_enabled example_manifest"
    by (simp add: example_manifest_def example_chaining)
  ultimately have main: "is_ok (annotation_dispatch_order Input example_point example_manifest) \<longleftrightarrow>
      \<not> (\<exists>B. B \<noteq> {} \<and> B \<subseteq> fst ` set (pc_annotations example_point)
          \<and> (\<forall>n\<in>B. \<exists>k\<in>set (?needs n). k \<in> B \<or> k \<notin> fst ` set (pc_annotations example_point)))"
    "\<And>xs. annotation_dispatch_order Input example_point example_manifest = Inr xs \<Longrightarrow>
      distinct xs \<and> set xs = fst ` set (pc_annotations example_point)"
    using annotation_order_correct [of example_point example_manifest ?needs Input] by simp_all
  have "\<not> (B \<noteq> {} \<and> B \<subseteq> {''a'', ''b''}
      \<and> (\<forall>n\<in>B. \<exists>k\<in>set (?needs n). k \<in> B \<or> k \<notin> {''a'', ''b''}))" for B
  proof
    assume B: "B \<noteq> {} \<and> B \<subseteq> {''a'', ''b''}
      \<and> (\<forall>n\<in>B. \<exists>k\<in>set (?needs n). k \<in> B \<or> k \<notin> {''a'', ''b''})"
    then have "''b'' \<notin> B"
      by (auto dest!: bspec [where x = "''b''"])
    with B have "''a'' \<notin> B"
      by (auto dest!: bspec [where x = "''a''"])
    with \<open>''b'' \<notin> B\<close> B show False
      by blast
  qed
  then have "is_ok (annotation_dispatch_order Input example_point example_manifest)"
    unfolding main(1) by (simp add: example_point_def)
  then show ?thesis
    using main(2) by (auto simp: is_ok_iff example_point_def)
qed

section \<open>What a validated manifest guarantees\<close>

lemma manifest_validateD:
  assumes "manifest_validate x m = Inr ()"
  shows "(point, config) \<in> set (m_points m) \<Longrightarrow> validate_point_config x point config m = Inr ()"
    and "(pid, policy) \<in> set (m_policies m) \<Longrightarrow> validate_policy_definition x pid policy = Inr ()"
    and "url_sourced m \<Longrightarrow> reject_url_sourced_host_secrets m = Inr ()"
    and "(name, annotator) \<in> set (m_annotators m) \<Longrightarrow> validate_annotator x m name annotator = Inr ()"
    and "trim (m_version m) \<in> set SUPPORTED" "m_points m \<noteq> []"
  using assms
  by (auto simp: manifest_validate_def Let_def rbind_eq_Inr_iff try_each_ok_iff split: if_splits)

lemma validate_point_configD:
  assumes "validate_point_config x point config m = Inr ()"
  shows "\<exists>p. parse_with_snapshot_alias (x_literal x) (pc_policy_target config) = Inr p \<and> root p = Snap"
    and "pc_tool_name_from config = Some t \<Longrightarrow> is_tool_point point
      \<and> (\<exists>p. parse_with_snapshot_alias (x_literal x) t = Inr p \<and> root p = Snap)"
    and "(name, annotation) \<in> set (pc_annotations config)
      \<Longrightarrow> validate_annotation x point config m name annotation = Inr ()"
    and "is_ok (annotation_dispatch_order point config m)"
    and "\<exists>policy. map_of (m_policies m) (pb_id (pc_policy config)) = Some policy
      \<and> validate_policy_binding x point (pc_policy config) policy = Inr ()"
  using assms
  by (auto simp: validate_point_config_def rbind_eq_Inr_iff try_each_ok_iff is_ok_iff split: if_splits)

lemma check_need_ok:
  "check_need point config name need acc = Inr acc' \<longleftrightarrow>
    need \<noteq> name \<and> need \<notin> set acc \<and> need \<in> fst ` set (pc_annotations config) \<and> acc' = insort_insert need acc"
  by (auto simp: check_need_def has_key_iff)

lemma check_needs_ok:
  assumes "check_needs point config name needs = Inr seen"
  shows "set seen = set needs" "set needs \<subseteq> fst ` set (pc_annotations config)" "name \<notin> set needs" "distinct needs"
proof -
  have gen: "set seen = set needs \<union> set acc \<and> set needs \<subseteq> fst ` set (pc_annotations config)
      \<and> name \<notin> set needs \<and> distinct needs \<and> set needs \<inter> set acc = {}"
    if "try_fold (check_need point config name) needs acc = Inr seen" for acc
    using that
  proof (induction needs arbitrary: acc)
    case (Cons need needs)
    then have c: "need \<noteq> name" "need \<notin> set acc" "need \<in> fst ` set (pc_annotations config)"
        "try_fold (check_need point config name) needs (insort_insert need acc) = Inr seen"
      by (auto simp: check_need_ok rbind_eq_Inr_iff)
    from Cons.IH [OF c(4)] show ?case
      using c(1-3) by (auto simp: set_insort_insert)
  qed simp
  from gen [OF assms [unfolded check_needs_def]]
  show "set seen = set needs" "set needs \<subseteq> fst ` set (pc_annotations config)" "name \<notin> set needs" "distinct needs"
    by auto
qed

lemma validate_annotationD:
  assumes "validate_annotation x point config m name annotation = Inr ()"
  obtains annotator p needs where "map_of (m_annotators m) name = Some annotator"
    and "parse_with_snapshot_alias (x_literal x) (an_from annotation) = Inr p"
    and "annotation_dependencies m annotation = Inr needs"
    and "set needs \<subseteq> fst ` set (pc_annotations config)"
    and "references_pi_annotations p \<Longrightarrow> \<exists>r\<in>set needs. pi_annotation_reference p = Some r"
proof -
  obtain annotator where a: "map_of (m_annotators m) name = Some annotator"
    using assms by (auto simp: validate_annotation_def split: option.splits)
  obtain p where p: "parse_with_snapshot_alias (x_literal x) (an_from annotation) = Inr p"
    using assms a by (auto simp: validate_annotation_def Let_def rbind_eq_Inr_iff split: if_splits)
  show thesis
  proof (cases "annotation_chaining_enabled m")
    case True
    obtain needs seen where n: "annotation_dependencies m annotation = Inr needs"
        "check_needs point config name needs = Inr seen"
      using assms a p True
      by (auto simp: validate_annotation_def Let_def rbind_eq_Inr_iff split: if_splits)
    have "\<exists>r\<in>set seen. pi_annotation_reference p = Some r" if "references_pi_annotations p"
      using assms a p True n that
      by (cases "pi_annotation_reference p")
        (auto simp: validate_annotation_def Let_def rbind_eq_Inr_iff split: if_splits)
    then show thesis
      using a p n(1) check_needs_ok [OF n(2)] by (intro that [of annotator p needs]) auto
  next
    case False
    then have "\<not> references_pi_annotations p" "annotation_dependencies m annotation = Inr []"
      using assms a p
      by (auto simp: validate_annotation_def annotation_dependencies_def Let_def rbind_eq_Inr_iff split: if_splits)
    with a p show thesis
      by (intro that [of annotator p "[]"]) auto
  qed
qed

text \<open>
  C30: What a validated manifest guarantees at every point it configures: the
  target path parses and starts at the snapshot; a tool name path occurs only at a tool point; the
  bound policy exists and its binding is valid; and there is an annotation order with each
  configured annotation exactly once, in which every annotation names a declared annotator,
  has a well formed input path, comes after all its needs, and reads another
  annotation's result only when it declared that need.
\<close>

theorem validated_point_ready:
  assumes "manifest_wf m" "manifest_validate x m = Inr ()" "map_of (m_points m) point = Some config"
  shows "(\<exists>p. parse_with_snapshot_alias (x_literal x) (pc_policy_target config) = Inr p \<and> root p = Snap)
    \<and> (pc_tool_name_from config \<noteq> None \<longrightarrow> is_tool_point point)
    \<and> (\<exists>policy. map_of (m_policies m) (pb_id (pc_policy config)) = Some policy
        \<and> validate_policy_binding x point (pc_policy config) policy = Inr ())
    \<and> (\<exists>xs. annotation_dispatch_order point config m = Inr xs
        \<and> distinct xs \<and> set xs = fst ` set (pc_annotations config)
        \<and> (\<forall>i<length xs. \<exists>annotator annotation p needs.
            map_of (m_annotators m) (xs ! i) = Some annotator
            \<and> map_of (pc_annotations config) (xs ! i) = Some annotation
            \<and> parse_with_snapshot_alias (x_literal x) (an_from annotation) = Inr p
            \<and> annotation_dependencies m annotation = Inr needs
            \<and> set needs \<subseteq> set (take i xs)
            \<and> (references_pi_annotations p \<longrightarrow> (\<exists>r\<in>set needs. pi_annotation_reference p = Some r))))"
proof -
  have entry: "(point, config) \<in> set (m_points m)"
    using assms(3) by (rule map_of_SomeD)
  note ok = validate_point_configD [OF manifest_validateD(1) [OF assms(2) entry]]
  note inv = manifest_wfD(1) [OF assms(1) entry]
  obtain xs where xs: "annotation_dispatch_order point config m = Inr xs"
    using ok(4) by (auto simp: is_ok_iff)
  note keys = dispatch_order_keys [OF inv xs]
  have "\<exists>annotator annotation p needs.
            map_of (m_annotators m) (xs ! i) = Some annotator
            \<and> map_of (pc_annotations config) (xs ! i) = Some annotation
            \<and> parse_with_snapshot_alias (x_literal x) (an_from annotation) = Inr p
            \<and> annotation_dependencies m annotation = Inr needs
            \<and> set needs \<subseteq> set (take i xs)
            \<and> (references_pi_annotations p \<longrightarrow> (\<exists>r\<in>set needs. pi_annotation_reference p = Some r))"
    if i: "i < length xs" for i
  proof -
    obtain annotation where an: "(xs ! i, annotation) \<in> set (pc_annotations config)"
      using keys(2) i nth_mem [OF i] by auto
    from validate_annotationD [OF ok(3) [OF an]] obtain annotator p needs
      where v: "map_of (m_annotators m) (xs ! i) = Some annotator"
        "parse_with_snapshot_alias (x_literal x) (an_from annotation) = Inr p"
        "annotation_dependencies m annotation = Inr needs"
        "references_pi_annotations p \<longrightarrow> (\<exists>r\<in>set needs. pi_annotation_reference p = Some r)"
      by metis
    have "set needs \<subseteq> set (take i xs)"
    proof (cases "annotation_chaining_enabled m")
      case True
      have "least_first (order_needs m config) xs"
        using kahn_result [OF order_needs_facts(1) [OF inv]] xs
        by (simp add: dispatch_order_cases [OF True] kahn_inv_def)
      from least_first_member(3) [OF this i] show ?thesis
        using order_needs_of [OF inv an v(3)] by simp
    qed (use v(3) in \<open>simp add: annotation_dependencies_def\<close>)
    then show ?thesis
      using v an bt_entry_iff [OF inv] by blast
  qed
  then show ?thesis
    using ok(1,2,5) xs keys by blast
qed


lemma example_order: "annotation_dispatch_order Input example_point (example_sourced u a b) = Inr [''b'', ''a'']"
  by (simp add: annotation_dispatch_order_def example_chaining example_point_def example_needs
      kahn_def kahn_dependents_def push_dependent_def entries_def kahn_start_def kahn_enter_def
      insort_insert_key_def kahn_loop.simps kahn_pop_def relax_def less_char_def Let_def)

lemma example_root:
  "parse_with_snapshot_alias (x_literal example_externals) ''$'' =
    Inr \<lparr>original = ''$snap'', root = Snap, segments = []\<rparr>"
  by (simp add: parse_with_snapshot_alias_def normalize_snapshot_alias_def path_parse_def parse_root_def
      root_table_def starts_with_def)

lemma example_root_reads: "\<not> references_pi_annotations \<lparr>original = s, root = Snap, segments = []\<rparr>"
  by (simp add: references_pi_annotations_def)

lemma example_annotations_valid:
  "(name, annotation) \<in> set (pc_annotations example_point)
    \<Longrightarrow> validate_annotation example_externals Input example_point (example_sourced u a b) name annotation = Inr ()"
proof -
  assume "(name, annotation) \<in> set (pc_annotations example_point)"
  then consider
      "name = ''a''" "annotation = \<lparr>an_from = ''$'', an_fields = [(''needs'', JArray [JString ''b''])]\<rparr>"
    | "name = ''b''" "annotation = \<lparr>an_from = ''$'', an_fields = []\<rparr>"
    by (auto simp: example_point_def)
  then show ?thesis
  proof cases
    case 1
    then have "check_needs Input example_point name [''b''] = Inr [''b'']"
      by (simp add: check_needs_def check_need_def has_key_def example_point_def insort_insert_key_def)
    with 1 show ?thesis
      by (simp add: validate_annotation_def example_needs example_root example_root_reads example_chaining
          not_blank_examples pi_annotation_reference_def has_key_def invocation_field_def from_annotation_in_def
          from_annotation_def bt_remove_def less_char_def example_parts Let_def)
  next
    case 2
    then show ?thesis
      by (simp add: validate_annotation_def example_needs example_root example_root_reads example_chaining
          not_blank_examples pi_annotation_reference_def has_key_def invocation_field_def from_annotation_in_def
          from_annotation_def bt_remove_def less_char_def check_needs_def example_parts Let_def)
  qed
qed

lemma example_point_valid: "validate_point_config example_externals Input example_point (example_sourced u a b) = Inr ()"
proof -
  have "try_each (\<lambda>(name, annotation). validate_annotation example_externals Input example_point (example_sourced u a b)
      name annotation) (pc_annotations example_point) = Inr ()"
    using example_annotations_valid by (auto simp: try_each_ok_iff)
  then show ?thesis
    unfolding validate_point_config_def
    by (simp add: example_order)
      (simp add: example_point_def example_sourced_def example_root not_blank_examples
        validate_policy_binding_def validate_optional_string_def)
qed

lemma example_valid:
  assumes "u = [] \<or> reject_url_sourced_host_secrets (example_sourced u a b) = Inr ()"
  shows "manifest_validate example_externals (example_sourced u a b) = Inr ()"
proof -
  have "\<forall>(name, annotator)\<in>set (m_annotators (example_sourced u a b)).
      validate_annotator example_externals (example_sourced u a b) name annotator = Inr ()"
    by (simp add: example_sourced_def validate_annotator_def not_blank_examples has_key_def)
  then have "try_each (\<lambda>(name, annotator). validate_annotator example_externals (example_sourced u a b) name annotator)
      (m_annotators (example_sourced u a b)) = Inr ()"
    by (auto simp: try_each_ok_iff)
  moreover have "try_each (\<lambda>(point, config). validate_point_config example_externals point config (example_sourced u a b))
      (m_points (example_sourced u a b)) = Inr ()"
    using example_point_valid by (simp add: example_sourced_def)
  ultimately show ?thesis
    unfolding manifest_validate_def Let_def
    using assms by (cases u) (simp_all add: example_parts example_version not_blank_examples
        validate_policy_definition_def validate_required_string_def SUPPORTED_def CONTRACTS_def)
qed

theorem validated_point_ready_witness:
  "\<exists>xs. annotation_dispatch_order Input example_point example_manifest = Inr xs \<and> distinct xs
    \<and> set xs = fst ` set (pc_annotations example_point)"
proof -
  have "map_of (m_points example_manifest) Input = Some example_point"
    by (simp add: example_manifest_def example_parts)
  moreover have "manifest_wf example_manifest" "manifest_validate example_externals example_manifest = Inr ()"
    by (simp_all add: example_manifest_def example_wf example_valid)
  ultimately show ?thesis
    using validated_point_ready [of example_manifest example_externals Input example_point] by blast
qed

end
