(* ===== verification/Manifest_Provenance.thy ===== *)
theory Manifest_Provenance
  imports Manifest_Laws
begin

text \<open>
  The host boundary: what a fetched document may contain, what a host's mark records, and
  that at dispatch neither side of the boundary can redirect or receive the
  other side's credentials.
\<close>

section \<open>Rule paths\<close>

lemma split_on_nonempty [simp]: "split_on c s \<noteq> []"
  by (induction c s rule: split_on.induct) (auto split: list.splits)

lemma join_Cons: "xs \<noteq> [] \<Longrightarrow> join sep (x # xs) = x @ sep @ join sep xs"
  by (cases xs) (simp_all add: join_def)

lemma join_split_on: "join [c] (split_on c s) = s"
proof (induction c s rule: split_on.induct)
  case (2 c b bs)
  show ?case
  proof (cases "b = c")
    case True
    with 2 show ?thesis
      by (simp add: join_Cons)
  next
    case False
    obtain seg segs where "split_on c bs = seg # segs"
      using split_on_nonempty by (cases "split_on c bs") auto
    with 2 False show ?thesis
      by (cases segs) (simp_all add: join_def)
  qed
qed (simp add: join_def)

lemma split_on_segment: "c \<notin> set s \<Longrightarrow> split_on c s = [s]"
  by (induction s) auto

lemma split_on_append: "c \<notin> set s \<Longrightarrow> split_on c (s @ c # t) = s # split_on c t"
  by (induction s) auto

lemma split_on_join:
  assumes "segs \<noteq> []" "\<forall>s\<in>set segs. c \<notin> set s"
  shows "split_on c (join [c] segs) = segs"
  using assms
proof (induction segs)
  case (Cons s segs)
  then show ?case
    by (cases segs) (simp_all add: join_def split_on_segment split_on_append)
qed simp

definition rule_segment :: "string \<Rightarrow> bool" where
  "rule_segment s \<longleftrightarrow> s \<noteq> [] \<and> list_all (\<lambda>c. is_ascii_alphanumeric c \<or> c = CHR ''_'') s"

lemma rule_segment_no_dot: "rule_segment s \<Longrightarrow> CHR ''.'' \<notin> set s"
  by (auto simp: rule_segment_def list_all_iff is_ascii_alphanumeric_def is_ascii_digit_def)

lemma is_rule_path_iff:
  "is_rule_path q \<longleftrightarrow> (\<exists>segs. segs \<noteq> [] \<and> list_all rule_segment segs \<and> q = ''data.'' @ join ''.'' segs)"
proof
  assume "is_rule_path q"
  then obtain rest where "q = ''data.'' @ rest" "list_all rule_segment (split_on (CHR ''.'') rest)"
    by (auto simp: is_rule_path_def rule_segment_def [abs_def] strip_prefix_eq_Some_iff split: option.splits)
  then show "\<exists>segs. segs \<noteq> [] \<and> list_all rule_segment segs \<and> q = ''data.'' @ join ''.'' segs"
    using join_split_on [of "CHR ''.''" rest] by (metis split_on_nonempty)
next
  assume "\<exists>segs. segs \<noteq> [] \<and> list_all rule_segment segs \<and> q = ''data.'' @ join ''.'' segs"
  then obtain segs where s: "segs \<noteq> []" "list_all rule_segment segs" "q = ''data.'' @ join ''.'' segs"
    by blast
  then have split: "split_on (CHR ''.'') (join ''.'' segs) = segs"
    using rule_segment_no_dot by (intro split_on_join) (auto simp: list_all_iff)
  have "join ''.'' segs \<noteq> []"
  proof
    assume "join ''.'' segs = []"
    with split s(2) show False
      by (auto simp: rule_segment_def)
  qed
  moreover have "strip_prefix q ''data.'' = Some (join ''.'' segs)"
    using s(3) by (simp add: strip_prefix_eq_Some_iff)
  ultimately show "is_rule_path q"
    using split s(2) by (simp add: is_rule_path_def rule_segment_def [abs_def])
qed

section \<open>The gate for one fetched document\<close>

fun reads_host_files :: "policy_config \<Rightarrow> bool" where
  "reads_host_files (Rego c) \<longleftrightarrow> rp_bundle c \<noteq> None \<or> (\<exists>k\<in>set DATA_PATH_KEYS. has_key (rp_adapter_config c) k)"
| "reads_host_files (Cedar c) \<longleftrightarrow>
    cp_policy_path c \<noteq> None \<or> cp_entities_path c \<noteq> None \<or> cp_schema_path c \<noteq> None"
| "reads_host_files (TestPolicy c) \<longleftrightarrow> (\<exists>k\<in>set DATA_PATH_KEYS. has_key (tp_adapter_config c) k)"
| "reads_host_files (Custom c) \<longleftrightarrow> (\<exists>k\<in>set DATA_PATH_KEYS. has_key (up_adapter_config c) k)"

fun policy_adapter :: "policy_config \<Rightarrow> adapter_config" where
  "policy_adapter (Rego c) = rp_adapter_config c"
| "policy_adapter (Cedar c) = []"
| "policy_adapter (TestPolicy c) = tp_adapter_config c"
| "policy_adapter (Custom c) = up_adapter_config c"

fun rego_query :: "policy_config \<Rightarrow> string option" where
  "rego_query (Rego c) = rp_query c"
| "rego_query _ = None"

definition annotator_fields_allowed :: "bool \<Rightarrow> field_map \<Rightarrow> bool" where
  "annotator_fields_allowed pinned flds \<longleftrightarrow>
    (\<forall>f\<in>set HOST_ENV_SECRET_FIELDS. \<not> has_key flds f) \<and> (pinned \<or> \<not> has_key flds ''system_prompt_url'')"

lemma reject_adapter_data_paths_ok:
  "reject_adapter_data_paths document ctxt cfg = Inr () \<longleftrightarrow> (\<forall>k\<in>set DATA_PATH_KEYS. \<not> has_key cfg k)"
  by (auto simp: reject_adapter_data_paths_def try_each_ok_iff)

lemma policy_files_ok:
  "policy_reject_filesystem_path_fields document ctxt c = Inr () \<longleftrightarrow> \<not> reads_host_files c"
  by (cases c) (auto simp: reject_adapter_data_paths_ok)

lemma remote_key_ok: "reject_remote_bundle_key document ctxt cfg = Inr () \<longleftrightarrow> \<not> has_key cfg ''bundle_url''"
  by (simp add: reject_remote_bundle_key_def)

lemma policy_remote_ok:
  "policy_reject_remote_bundle_field document ctxt c = Inr () \<longleftrightarrow> \<not> has_key (policy_adapter c) ''bundle_url''"
  by (cases c) (auto simp: remote_key_ok has_key_def)

lemma query_text_ok: "reject_non_rule_query_text document ctxt q = Inr () \<longleftrightarrow> is_rule_path q"
  by (simp add: reject_non_rule_query_text_def)

lemma policy_query_ok:
  "policy_reject_non_rule_query document ctxt c = Inr () \<longleftrightarrow> (\<forall>q. rego_query c = Some q \<longrightarrow> is_rule_path q)"
  by (cases c) (auto simp: query_text_ok split: option.splits)

lemma annotator_fields_ok:
  "reject_fetched_annotator_fields document label flds pinned = Inr () \<longleftrightarrow> annotator_fields_allowed pinned flds"
  by (auto simp: reject_fetched_annotator_fields_def annotator_fields_allowed_def rbind_eq_Inr_iff try_each_ok_unit)

lemma each_annotation_ok:
  "each_annotation m f = Inr () \<longleftrightarrow>
    (\<forall>(point, config)\<in>set (m_points m). \<forall>(name, annotation)\<in>set (pc_annotations config).
      f point name annotation = Inr ())"
  by (fastforce simp: each_annotation_def try_each_ok_iff split_beta)

lemmas gate_simps =
  remote_key_ok reject_adapter_data_paths_ok policy_files_ok policy_remote_ok query_text_ok policy_query_ok
  annotator_fields_ok each_annotation_ok binding_reject_filesystem_path_fields_def
  binding_reject_remote_bundle_field_def

lemma rbind_unit_ok: "rbind m f = Inr () \<longleftrightarrow> m = Inr () \<and> f () = Inr ()" for m :: "('e, unit) result"
  by (cases m) auto

text \<open>
  C31: The gate for fetched documents is exact.  A document passes if and only
  if no annotator or annotation names a host environment secret, no policy or
  binding names a host file, remote artifacts are named only on a pinned chain, every Rego
  query is a plain dotted rule path under \<open>data\<close>, and the document brings neither an
  approval section nor tools.
\<close>

theorem fetched_gate_exact:
  "reject_fetched_document_local_access document pinned m = Inr () \<longleftrightarrow>
    (\<forall>(name, annotator)\<in>set (m_annotators m). annotator_fields_allowed pinned (ac_fields annotator))
    \<and> (\<forall>(point, config)\<in>set (m_points m). \<forall>(name, annotation)\<in>set (pc_annotations config).
        annotator_fields_allowed pinned (an_fields annotation))
    \<and> (\<forall>(name, policy)\<in>set (m_policies m). \<not> reads_host_files policy
        \<and> (pinned \<or> \<not> has_key (policy_adapter policy) ''bundle_url''))
    \<and> (\<forall>(point, config)\<in>set (m_points m).
        (\<forall>k\<in>set DATA_PATH_KEYS. \<not> has_key (pb_adapter_config (pc_policy config)) k)
        \<and> (pinned \<or> \<not> has_key (pb_adapter_config (pc_policy config)) ''bundle_url''))
    \<and> (\<forall>q. ((\<exists>(name, policy)\<in>set (m_policies m). rego_query policy = Some q)
          \<or> (\<exists>(point, config)\<in>set (m_points m). pb_query (pc_policy config) = Some q))
        \<longrightarrow> (\<exists>segs. segs \<noteq> [] \<and> list_all rule_segment segs \<and> q = ''data.'' @ join ''.'' segs))
    \<and> m_approval m = None \<and> m_tools m = []"
proof -
  have bq: "binding_reject_non_rule_query document l b = Inr () \<longleftrightarrow> (\<forall>q. pb_query b = Some q \<longrightarrow> is_rule_path q)" for l b
    by (auto simp: binding_reject_non_rule_query_def query_text_ok split: option.splits)
  have last: "(if m_approval m \<noteq> None then Inl e else case m_tools m of (n, _) # _ \<Rightarrow> Inl (g n) | [] \<Rightarrow> Inr ()) = Inr ()
      \<longleftrightarrow> m_approval m = None \<and> m_tools m = []" for e and g :: "string \<Rightarrow> runtime_error"
    by (auto split: list.splits)
  show ?thesis
    unfolding reject_fetched_document_local_access_def rbind_unit_ok last is_rule_path_iff [symmetric]
    by (cases pinned) (auto simp: try_each_ok_iff gate_simps bq rbind_unit_ok split_beta)
qed


theorem fetched_gate_exact_witness:
  "reject_fetched_document_local_access ''remote manifest'' False example_manifest = Inr ()"
  unfolding fetched_gate_exact
  by (simp add: example_manifest_def example_sourced_def example_point_def annotator_fields_allowed_def
      has_key_def HOST_ENV_SECRET_FIELDS_def)

section \<open>The host's mark\<close>

lemma fold_insort_insert_set: "set (fold insort_insert xs acc) = set xs \<union> set acc"
  by (induction xs arbitrary: acc) (auto simp: set_insort_insert)

text \<open>
  Marking a document as fetched.  It succeeds only for a single parsed document
  that is not yet URL sourced and passes the gate as an unpinned document; it then
  changes no part of the grammar, records the mark as the only source and every annotator
  and every binding of the document as fetched, and cannot be applied again.
\<close>

theorem mark_url_sourced_records_everything:
  assumes "mark_url_sourced m = Inr m'"
  shows "m_composition m = Document \<and> \<not> url_sourced m
    \<and> reject_fetched_document_local_access HOST_MARKED_SOURCE False m = Inr ()
    \<and> url_sourced m' \<and> m_url_sources m' = [HOST_MARKED_SOURCE]
    \<and> set (m_url_sourced_annotators m') = fst ` set (m_annotators m) \<union> set (m_url_sourced_annotators m)
    \<and> set (m_url_sourced_annotations m') =
        {(point, name). \<exists>config. (point, config) \<in> set (m_points m) \<and> name \<in> fst ` set (pc_annotations config)}
        \<union> set (m_url_sourced_annotations m)
    \<and> m'\<lparr>m_url_sources := m_url_sources m, m_url_sourced_annotators := m_url_sourced_annotators m,
         m_url_sourced_annotations := m_url_sourced_annotations m\<rparr> = m
    \<and> \<not> is_ok (mark_url_sourced m')"
proof -
  have c: "m_composition m = Document" "\<not> url_sourced m"
      "reject_fetched_document_local_access HOST_MARKED_SOURCE False m = Inr ()"
      "m' = record_fetched_declarations (m\<lparr>m_url_sources := push_url_source (m_url_sources m) HOST_MARKED_SOURCE\<rparr>)"
    using assms by (auto simp: mark_url_sourced_def rbind_eq_Inr_iff split: composition.splits if_splits)
  then have src: "m_url_sources m' = [HOST_MARKED_SOURCE]"
    by (simp add: record_fetched_declarations_def push_url_source_def url_sourced_def insort_insert_key_def)
  have "set (m_url_sourced_annotators m') = fst ` set (m_annotators m) \<union> set (m_url_sourced_annotators m)"
    using c(4) by (simp add: record_fetched_declarations_def fold_insort_insert_set)
  moreover have "set (m_url_sourced_annotations m') =
        {(point, name). \<exists>config. (point, config) \<in> set (m_points m) \<and> name \<in> fst ` set (pc_annotations config)}
        \<union> set (m_url_sourced_annotations m)"
    using c(4) by (force simp: record_fetched_declarations_def fold_insort_insert_set)
  moreover have "m'\<lparr>m_url_sources := m_url_sources m, m_url_sourced_annotators := m_url_sourced_annotators m,
         m_url_sourced_annotations := m_url_sourced_annotations m\<rparr> = m"
    using c(4) by (simp add: record_fetched_declarations_def)
  moreover have "\<not> is_ok (mark_url_sourced m')"
    using c(1,4) src by (simp add: record_fetched_declarations_def mark_url_sourced_def url_sourced_def)
  ultimately show ?thesis
    using c src by (simp add: url_sourced_def)
qed

theorem mark_url_sourced_records_everything_witness:
  "\<exists>m'. mark_url_sourced example_manifest = Inr m' \<and> set (m_url_sourced_annotators m') = {''a'', ''b''}
    \<and> \<not> is_ok (mark_url_sourced m')"
proof -
  have "reject_fetched_document_local_access HOST_MARKED_SOURCE False example_manifest = Inr ()"
    by (simp add: reject_fetched_document_local_access_def rbind_unit_ok gate_simps)
      (simp add: example_manifest_def example_sourced_def example_point_def annotator_fields_allowed_def
        has_key_def HOST_ENV_SECRET_FIELDS_def gate_simps binding_reject_non_rule_query_def rbind_unit_ok)
  then obtain m' where m': "mark_url_sourced example_manifest = Inr m'"
    by (simp add: mark_url_sourced_def) (simp add: example_manifest_def example_sourced_def url_sourced_def)
  from mark_url_sourced_records_everything [OF this]
  have "set (m_url_sourced_annotators m') = fst ` set (m_annotators example_manifest)
      \<union> set (m_url_sourced_annotators example_manifest)" "\<not> is_ok (mark_url_sourced m')"
    by blast+
  with m' show ?thesis
    by (auto simp: example_manifest_def example_sourced_def)
qed

section \<open>Overlays across the host boundary\<close>

lemma cross_overlayD:
  assumes "reject_cross_document_overlay m point name annotation = Inr ()"
  shows "(point, name) \<in> set (m_url_sourced_annotations m) \<Longrightarrow> name \<notin> set (m_url_sourced_annotators m)
      \<Longrightarrow> fst ` set (an_fields annotation) \<subseteq> {''input_from''}"
    and "name \<in> set (m_url_sourced_annotators m) \<Longrightarrow> annotation_dependencies m annotation = Inr needs
      \<Longrightarrow> set needs \<subseteq> set (m_url_sourced_annotators m)"
    and "name \<in> set (m_url_sourced_annotators m) \<Longrightarrow> (point, name) \<notin> set (m_url_sourced_annotations m)
      \<Longrightarrow> f \<in> set INLINE_CREDENTIAL_FIELDS \<Longrightarrow> \<not> has_key (an_fields annotation) f"
  using assms unfolding reject_cross_document_overlay_def Let_def rbind_unit_ok
  by (auto simp: find_None_iff try_each_ok_iff split: option.splits if_splits)

lemma from_annotation_in_get:
  assumes "bt_inv (ac_fields annotator)" "bt_inv (an_fields annotation)"
  shows "map_of (ai_fields (from_annotation_in m annotator annotation)) k =
    (if annotation_chaining_enabled m \<and> k = ''needs'' then None
     else map_of (ai_fields (from_annotation annotator annotation)) k)"
  by (simp add: from_annotation_in_def Let_def bt_remove_get)

lemma url_sourced_bindingD:
  assumes "manifest_validate x m = Inr ()" "url_sourced m" "(point, config) \<in> set (m_points m)"
    and "(name, annotation) \<in> set (pc_annotations config)" "map_of (m_annotators m) name = Some annotator"
  shows "\<forall>f\<in>set HOST_ENV_SECRET_FIELDS. \<not> has_key (ai_fields (from_annotation annotator annotation)) f"
    and "reject_cross_document_overlay m point name annotation = Inr ()"
proof -
  have "rbind (reject_url_sourced_annotator_fields (annotation_label name point)
          (ai_fields (from_annotation annotator annotation)) (m_url_sources m)) (\<lambda>_.
        reject_cross_document_overlay m point name annotation) = Inr ()"
    using manifest_validateD(3) [OF assms(1,2)] assms(5)
    unfolding reject_url_sourced_host_secrets_def rbind_unit_ok each_annotation_ok
    by (auto dest!: bspec [OF _ assms(3)] bspec [OF _ assms(4)] simp: rbind_unit_ok)
  then show "\<forall>f\<in>set HOST_ENV_SECRET_FIELDS. \<not> has_key (ai_fields (from_annotation annotator annotation)) f"
      "reject_cross_document_overlay m point name annotation = Inr ()"
    by (auto simp: rbind_unit_ok reject_url_sourced_annotator_fields_def try_each_ok_iff split: if_splits)
qed

text \<open>
  C8: The host boundary holds at dispatch.  In a validated manifest
  that folded in fetched content, consider the invocation the runtime builds for any annotation.  It
  names no host environment secret.  When a fetched binding overlays a host
  annotator, every field other than the input selection is the host's own.  When a host binding
  overlays a fetched annotator, no inline credential comes from the binding.  A fetched
  annotator never depends on the result of a host annotator.
\<close>

theorem overlay_respects_host_boundary:
  assumes "manifest_wf m" "manifest_validate x m = Inr ()" "url_sourced m"
    and "map_of (m_points m) point = Some config" "map_of (pc_annotations config) name = Some annotation"
    and "map_of (m_annotators m) name = Some annotator"
    and "sent = map_of (ai_fields (from_annotation_in m annotator annotation))"
    and "declared = [''type'' \<mapsto> JString (annotator_type_as_str (ac_type annotator))] ++ map_of (ac_fields annotator)"
  shows "(\<forall>f\<in>set HOST_ENV_SECRET_FIELDS. sent f = None)
    \<and> ((point, name) \<in> set (m_url_sourced_annotations m) \<and> name \<notin> set (m_url_sourced_annotators m)
        \<longrightarrow> (\<forall>k. k \<notin> {''from'', ''input_from''} \<longrightarrow> sent k = declared k))
    \<and> ((point, name) \<notin> set (m_url_sourced_annotations m) \<and> name \<in> set (m_url_sourced_annotators m)
        \<longrightarrow> (\<forall>f\<in>set INLINE_CREDENTIAL_FIELDS. sent f = declared f))
    \<and> (name \<in> set (m_url_sourced_annotators m)
        \<longrightarrow> (\<exists>needs. annotation_dependencies m annotation = Inr needs \<and> set needs \<subseteq> set (m_url_sourced_annotators m)))"
proof -
  note entries = map_of_SomeD [OF assms(4)] map_of_SomeD [OF assms(5)]
  note invs = manifest_wfD(3) [OF assms(1,6)] manifest_wfD(2) [OF assms(1) entries]
  note d = url_sourced_bindingD [OF assms(2,3) entries assms(6)]
  note overlay = cross_overlayD [OF d(2)]
  have sent: "sent k = (if annotation_chaining_enabled m \<and> k = ''needs'' then None
      else (declared(''from'' \<mapsto> JString (an_from annotation)) ++ map_of (an_fields annotation)) k)" for k
    unfolding assms(7,8) from_annotation_in_get [OF invs] from_annotation_layers(2) [OF invs] ..
  have "declared ''needs'' = None" if "annotation_chaining_enabled m"
    using that manifest_validateD(4) [OF assms(2) map_of_SomeD [OF assms(6)]] assms(8)
    by (auto simp: validate_annotator_def has_key_def map_add_def split: if_splits)
  then have absent: "sent k = declared k" if "k \<noteq> ''from''" "k \<notin> fst ` set (an_fields annotation)" for k
    using that by (auto simp: sent map_add_dom_app_simps dom_map_of_conv_image_fst)
  have "sent f = None" if "f \<in> set HOST_ENV_SECRET_FIELDS" for f
    using d(1) that unfolding assms(7) from_annotation_in_get [OF invs] by (simp add: has_key_def)
  moreover have "sent k = declared k"
    if "(point, name) \<in> set (m_url_sourced_annotations m)" "name \<notin> set (m_url_sourced_annotators m)"
      "k \<notin> {''from'', ''input_from''}" for k
    using overlay(1) [OF that(1,2)] that(3) by (intro absent) auto
  moreover have "sent f = declared f"
    if "name \<in> set (m_url_sourced_annotators m)" "(point, name) \<notin> set (m_url_sourced_annotations m)"
      "f \<in> set INLINE_CREDENTIAL_FIELDS" for f
    using overlay(3) [OF that] that(3) by (intro absent) (auto simp: has_key_iff INLINE_CREDENTIAL_FIELDS_def)
  moreover obtain needs where "annotation_dependencies m annotation = Inr needs"
    using validate_annotationD [OF validate_point_configD(3)
        [OF manifest_validateD(1) [OF assms(2) entries(1)] entries(2)]] by metis
  ultimately show ?thesis
    using overlay(2) by blast
qed


lemma example_provenance:
  "m_url_sourced_annotators (example_sourced u a b) = a"
  "m_url_sourced_annotations (example_sourced u a b) = b"
  by (simp_all add: example_sourced_def)

text \<open>A fetched binding of the host's annotator \<open>b\<close>.\<close>

theorem overlay_respects_host_boundary_witness:
  "map_of (ai_fields (from_annotation_in (example_sourced [''https://h/m''] [] [(Input, ''b'')])
      \<lparr>ac_type = Classifier, ac_fields = []\<rparr> \<lparr>an_from = ''$'', an_fields = []\<rparr>)) ''type''
    = Some (JString (annotator_type_as_str Classifier))"
proof -
  let ?m = "example_sourced [''https://h/m''] [] [(Input, ''b'')]"
  have "reject_cross_document_overlay ?m Input name annotation = Inr ()"
    if "(name, annotation) \<in> set (pc_annotations example_point)" for name annotation
    using that by (auto simp: reject_cross_document_overlay_def example_point_def example_provenance)
  then have "reject_url_sourced_host_secrets ?m = Inr ()"
    by (simp add: reject_url_sourced_host_secrets_def rbind_unit_ok each_annotation_ok example_parts)
      (simp add: example_point_def reject_url_sourced_annotator_fields_def HOST_ENV_SECRET_FIELDS_def
        has_key_def from_annotation_def less_char_def)
  then have "manifest_validate example_externals ?m = Inr ()" "url_sourced ?m"
    by (simp_all add: example_valid example_parts)
  then show ?thesis
    using overlay_respects_host_boundary [OF example_wf, of example_externals "[''https://h/m'']" "[]" "[(Input, ''b'')]"
        Input example_point "''b''" "\<lparr>an_from = ''$'', an_fields = []\<rparr>" "\<lparr>ac_type = Classifier, ac_fields = []\<rparr>",
        OF _ _ _ _ _ refl refl]
    by (simp add: example_parts example_provenance) (simp add: example_point_def)
qed

end
