(* ===== verification/Manifest_Merge.thy ===== *)
theory Manifest_Merge
  imports Manifest_Laws
begin

text \<open>
  Composition of manifests (\<open>manifest.rs\<close>: \<open>merge_manifest\<close> and the functions it
  calls, \<open>merge_chain\<close>).  \<open>PartialEq\<close> is derived in the source, so two JSON values
  compare with \<open>json_eq\<close> and two \<open>BTreeMap\<close>s entry by entry.
\<close>

section \<open>Equality of declarations\<close>

definition bt_eq :: "('v \<Rightarrow> 'v \<Rightarrow> bool) \<Rightarrow> (string \<times> 'v) list \<Rightarrow> (string \<times> 'v) list \<Rightarrow> bool" where
  "bt_eq eq = list_all2 (\<lambda>p q. fst p = fst q \<and> eq (snd p) (snd q))"

definition opt_eq :: "('v \<Rightarrow> 'v \<Rightarrow> bool) \<Rightarrow> 'v option \<Rightarrow> 'v option \<Rightarrow> bool" where
  "opt_eq eq a b = (case (a, b) of (None, None) \<Rightarrow> True | (Some v, Some w) \<Rightarrow> eq v w | _ \<Rightarrow> False)"

definition mounted_eq :: "mounted_rego_data \<Rightarrow> mounted_rego_data \<Rightarrow> bool" where
  "mounted_eq a b \<longleftrightarrow> md_mount a = md_mount b \<and> json_eq (md_document a) (md_document b)"

definition bundle_eq :: "in_memory_bundle \<Rightarrow> in_memory_bundle \<Rightarrow> bool" where
  "bundle_eq a b \<longleftrightarrow>
    ib_modules a = ib_modules b \<and> list_all2 mounted_eq (ib_data a) (ib_data b) \<and> ib_digest a = ib_digest b"

fun policy_eq :: "policy_config \<Rightarrow> policy_config \<Rightarrow> bool" where
  "policy_eq (Rego a) (Rego b) \<longleftrightarrow>
    rp_query a = rp_query b \<and> rp_bundle a = rp_bundle b
    \<and> opt_eq bundle_eq (rp_inline_bundle a) (rp_inline_bundle b)
    \<and> bt_eq json_eq (rp_adapter_config a) (rp_adapter_config b)"
| "policy_eq (Cedar a) (Cedar b) \<longleftrightarrow>
    cp_policy_set a = cp_policy_set b \<and> cp_policy_path a = cp_policy_path b
    \<and> cp_entities_path a = cp_entities_path b \<and> cp_schema_path a = cp_schema_path b
    \<and> opt_eq json_eq (cp_query a) (cp_query b)"
| "policy_eq (TestPolicy a) (TestPolicy b) \<longleftrightarrow> bt_eq json_eq (tp_adapter_config a) (tp_adapter_config b)"
| "policy_eq (Custom a) (Custom b) \<longleftrightarrow>
    up_adapter a = up_adapter b \<and> bt_eq json_eq (up_adapter_config a) (up_adapter_config b)"
| "policy_eq _ _ \<longleftrightarrow> False"

definition binding_eq :: "policy_binding \<Rightarrow> policy_binding \<Rightarrow> bool" where
  "binding_eq a b \<longleftrightarrow> pb_id a = pb_id b \<and> pb_query a = pb_query b
    \<and> bt_eq json_eq (pb_adapter_config a) (pb_adapter_config b)"

definition tool_eq :: "tool_config \<Rightarrow> tool_config \<Rightarrow> bool" where
  "tool_eq a b \<longleftrightarrow> bt_eq json_eq (tc_fields a) (tc_fields b)"

definition annotator_eq :: "annotator_config \<Rightarrow> annotator_config \<Rightarrow> bool" where
  "annotator_eq a b \<longleftrightarrow> ac_type a = ac_type b \<and> bt_eq json_eq (ac_fields a) (ac_fields b)"

definition annotation_eq :: "annotation_config \<Rightarrow> annotation_config \<Rightarrow> bool" where
  "annotation_eq a b \<longleftrightarrow> an_from a = an_from b \<and> bt_eq json_eq (an_fields a) (an_fields b)"

definition point_eq :: "point_config \<Rightarrow> point_config \<Rightarrow> bool" where
  "point_eq a b \<longleftrightarrow> pc_policy_target a = pc_policy_target b
    \<and> pc_policy_target_kind a = pc_policy_target_kind b \<and> pc_tool_name_from a = pc_tool_name_from b
    \<and> bt_eq annotation_eq (pc_annotations a) (pc_annotations b) \<and> binding_eq (pc_policy a) (pc_policy b)"

definition resolver_eq :: "approval_resolver_config \<Rightarrow> approval_resolver_config \<Rightarrow> bool" where
  "resolver_eq a b \<longleftrightarrow> ar_type a = ar_type b
    \<and> bt_eq json_eq (ar_additional_properties a) (ar_additional_properties b)"

definition approval_eq :: "approval_section \<Rightarrow> approval_section \<Rightarrow> bool" where
  "approval_eq a b \<longleftrightarrow> ap_default_resolver a = ap_default_resolver b
    \<and> ap_timeout_seconds a = ap_timeout_seconds b \<and> ap_on_timeout a = ap_on_timeout b
    \<and> ap_fatigue_threshold a = ap_fatigue_threshold b
    \<and> ap_fatigue_window_seconds a = ap_fatigue_window_seconds b
    \<and> bt_eq resolver_eq (ap_resolvers a) (ap_resolvers b)"

section \<open>Sources\<close>

datatype manifest_location = PathLoc string | UrlLoc string

fun location_label :: "manifest_location \<Rightarrow> string" where
  "location_label (PathLoc p) = p"
| "location_label (UrlLoc u) = u"

datatype manifest_source = Location manifest_location | ChainEntry nat

fun source_label :: "manifest_source \<Rightarrow> string" where
  "source_label (Location l) = location_label l"
| "source_label (ChainEntry i) = ''manifest chain entry '' @ nat_to_string i"

definition manifest_merge_conflict :: "string \<Rightarrow> manifest_source \<Rightarrow> runtime_error" where
  "manifest_merge_conflict field src =
    ManifestInvalid (''manifest extends conflict for '' @ field @ '' from '' @ quoted (source_label src)
      @ '': duplicate definitions must be identical or additive'')"

section \<open>Merging\<close>

fun merge_string_keyed_map ::
  "('v \<Rightarrow> 'v \<Rightarrow> bool) \<Rightarrow> (string \<times> 'v) list \<Rightarrow> (string \<times> 'v) list \<Rightarrow> string \<Rightarrow> manifest_source
    \<Rightarrow> (runtime_error, (string \<times> 'v) list) result"
where
  "merge_string_keyed_map eq existing [] map_name src = Inr existing"
| "merge_string_keyed_map eq existing ((key, value) # incoming) map_name src =
    (case map_of existing key of
       Some existing_value \<Rightarrow>
         if eq existing_value value then merge_string_keyed_map eq existing incoming map_name src
         else Inl (manifest_merge_conflict (map_name @ ''.'' @ key) src)
     | None \<Rightarrow> merge_string_keyed_map eq (bt_insert key value existing) incoming map_name src)"

function merge_metadata_object ::
  "json_map \<Rightarrow> json_map \<Rightarrow> string \<Rightarrow> manifest_source \<Rightarrow> (runtime_error, json_map) result"
where
  "merge_metadata_object existing [] path src = Inr existing"
| "merge_metadata_object existing ((key, value) # incoming) path src =
    (let field = path @ ''.'' @ key in
     rbind (case map_of existing key of
         None \<Rightarrow> Inr (jm_insert key value existing)
       | Some existing_value \<Rightarrow>
           if json_eq existing_value value then Inr existing
           else case (existing_value, value) of
               (JObject existing_object, JObject incoming_object) \<Rightarrow>
                 rbind (merge_metadata_object existing_object incoming_object field src) (\<lambda>object.
                 Inr (jm_insert key (JObject object) existing))
             | _ \<Rightarrow> Inl (manifest_merge_conflict field src)) (\<lambda>existing.
     merge_metadata_object existing incoming path src))"
  by pat_completeness auto

termination
  by (relation "measure (\<lambda>(existing, incoming, path, src). size (JObject incoming))") auto

definition merge_metadata ::
  "json_map \<Rightarrow> json_map \<Rightarrow> manifest_source \<Rightarrow> (runtime_error, json_map) result"
where
  "merge_metadata existing incoming src =
    (if incoming = [] then Inr existing
     else if existing = [] then Inr incoming
     else if json_eq (JObject existing) (JObject incoming) then Inr existing
     else merge_metadata_object existing incoming ''metadata'' src)"

definition merge_point_config ::
  "interception_point \<Rightarrow> point_config \<Rightarrow> point_config \<Rightarrow> manifest_source \<Rightarrow> (runtime_error, point_config) result"
where
  "merge_point_config point existing incoming src =
    (if point_eq existing incoming then Inr existing
     else
       let point_path = ''intervention_points.'' @ point_as_str point;
           differing =
             [(''policy_target'', pc_policy_target existing \<noteq> pc_policy_target incoming),
              (''policy_target_kind'', pc_policy_target_kind existing \<noteq> pc_policy_target_kind incoming),
              (''tool_name_from'', pc_tool_name_from existing \<noteq> pc_tool_name_from incoming),
              (''policy'', \<not> binding_eq (pc_policy existing) (pc_policy incoming))]
       in case find snd differing of
            Some (field, _) \<Rightarrow>
              Inl (ManifestInvalid (''manifest extends conflict for '' @ point_path @ ''.'' @ field
                @ '' from '' @ quoted (source_label src) @ '': only annotations may ''
                @ ''differ for an intervention point defined in more than one document''))
          | None \<Rightarrow>
              rbind (merge_string_keyed_map annotation_eq (pc_annotations existing) (pc_annotations incoming)
                       (point_path @ ''.annotations'') src) (\<lambda>annotations.
              Inr (existing\<lparr>pc_annotations := annotations\<rparr>)))"

fun merge_intervention_points ::
  "(interception_point \<times> point_config) list \<Rightarrow> (interception_point \<times> point_config) list \<Rightarrow> manifest_source
    \<Rightarrow> (runtime_error, (interception_point \<times> point_config) list) result"
where
  "merge_intervention_points existing [] src = Inr existing"
| "merge_intervention_points existing ((point, config) # incoming) src =
    (case map_of existing point of
       Some existing_config \<Rightarrow>
         rbind (merge_point_config point existing_config config src) (\<lambda>merged.
         merge_intervention_points (bt_insert point merged existing) incoming src)
     | None \<Rightarrow> merge_intervention_points (bt_insert point config existing) incoming src)"

definition merge_approval ::
  "approval_section option \<Rightarrow> approval_section option \<Rightarrow> manifest_source
    \<Rightarrow> (runtime_error, approval_section option) result"
where
  "merge_approval existing incoming src = (case incoming of
      None \<Rightarrow> Inr existing
    | Some inc \<Rightarrow> (case existing of
          Some ex \<Rightarrow> if approval_eq ex inc then Inr existing else Inl (manifest_merge_conflict ''approval'' src)
        | None \<Rightarrow> Inr (Some inc)))"

record host_written =
  hw_annotators :: "string list"
  hw_annotations :: "(interception_point \<times> string) list"

text \<open>Every binding of a manifest as point and annotator name, in the order of the maps.\<close>

definition manifest_bindings :: "manifest \<Rightarrow> (interception_point \<times> string) list" where
  "manifest_bindings m =
    concat (map (\<lambda>(point, config). map (\<lambda>(name, _). (point, name)) (pc_annotations config)) (m_points m))"

definition manifest_host_written :: "manifest \<Rightarrow> host_written" where
  "manifest_host_written m = \<lparr>
     hw_annotators = fold insort_insert
       (filter (\<lambda>name. name \<notin> set (m_url_sourced_annotators m)) (map fst (m_annotators m))) [],
     hw_annotations = fold insort_insert
       (filter (\<lambda>b. b \<notin> set (m_url_sourced_annotations m)) (manifest_bindings m)) []\<rparr>"

definition host_written_extend :: "host_written \<Rightarrow> host_written \<Rightarrow> host_written" where
  "host_written_extend a b = \<lparr>
     hw_annotators = fold insort_insert (hw_annotators b) (hw_annotators a),
     hw_annotations = fold insort_insert (hw_annotations b) (hw_annotations a)\<rparr>"

definition merge_manifest :: "manifest \<Rightarrow> manifest \<Rightarrow> manifest_source \<Rightarrow> (runtime_error, manifest) result" where
  "merge_manifest existing incoming src =
    (if trim (m_version existing) \<noteq> trim (m_version incoming) then
       Inl (manifest_merge_conflict ''agent_control_specification_version'' src)
     else
       let host = host_written_extend (manifest_host_written existing) (manifest_host_written incoming) in
       rbind (merge_metadata (m_metadata existing) (m_metadata incoming) src) (\<lambda>metadata.
       rbind (merge_string_keyed_map tool_eq (m_tools existing) (m_tools incoming) ''tools'' src) (\<lambda>tools.
       rbind (merge_string_keyed_map annotator_eq (m_annotators existing) (m_annotators incoming)
                ''annotators'' src) (\<lambda>annotators.
       rbind (merge_string_keyed_map policy_eq (m_policies existing) (m_policies incoming)
                ''policies'' src) (\<lambda>policies.
       rbind (merge_intervention_points (m_points existing) (m_points incoming) src) (\<lambda>points.
       rbind (merge_approval (m_approval existing) (m_approval incoming) src) (\<lambda>approval.
       Inr (existing\<lparr>m_metadata := metadata, m_tools := tools, m_annotators := annotators,
         m_policies := policies, m_points := points, m_approval := approval,
         m_url_sources := merge_url_sources (m_url_sources existing) (m_url_sources incoming),
         m_url_sourced_annotators := filter (\<lambda>name. name \<notin> set (hw_annotators host))
           (fold insort_insert (m_url_sourced_annotators incoming) (m_url_sourced_annotators existing)),
         m_url_sourced_annotations := filter (\<lambda>b. b \<notin> set (hw_annotations host))
           (fold insort_insert (m_url_sourced_annotations incoming) (m_url_sourced_annotations existing)),
         m_composition := Merged\<rparr>))))))))"

definition merge_resolved_manifest ::
  "manifest option \<Rightarrow> manifest \<Rightarrow> manifest_source \<Rightarrow> (runtime_error, manifest option) result"
where
  "merge_resolved_manifest resolved incoming src = (case resolved of
      Some existing \<Rightarrow> rbind (merge_manifest existing incoming src) (\<lambda>m. Inr (Some m))
    | None \<Rightarrow> Inr (Some incoming))"

definition validate_chain_extends :: "externals \<Rightarrow> manifest \<Rightarrow> nat \<Rightarrow> (runtime_error, unit) result" where
  "validate_chain_extends x m index =
    try_each (\<lambda>ext.
      if is_blank (extends_reference ext) then
        Inl (ManifestInvalid (''extends entries in manifest chain entry '' @ nat_to_string index
          @ '' must not be empty''))
      else validate_extends_trust x ext) (m_extends m)"

definition chain_entry ::
  "externals \<Rightarrow> nat \<times> manifest \<Rightarrow> manifest option \<Rightarrow> (runtime_error, manifest option) result"
where
  "chain_entry x entry resolved =
    rbind (validate_chain_extends x (snd entry) (fst entry)) (\<lambda>_.
    if m_extends (snd entry) \<noteq> [] then
      Inl (ManifestInvalid (''manifest chain entry '' @ nat_to_string (fst entry)
        @ '' contains unresolved extends''))
    else merge_resolved_manifest resolved (snd entry) (ChainEntry (fst entry)))"

text \<open>The \<open>expect\<close> on the resolved manifest cannot fail: the list is not empty.\<close>

definition merge_chain :: "externals \<Rightarrow> manifest list \<Rightarrow> (runtime_error, manifest) result" where
  "merge_chain x manifests =
    (if manifests = [] then Inl (ManifestInvalid ''manifest chain must not be empty'')
     else
       rbind (try_fold (chain_entry x) (enumerate 0 manifests) None) (\<lambda>resolved.
       rbind (manifest_validate x (the resolved)) (\<lambda>_. Inr (the resolved))))"

end
