(* ===== verification/Merge_Laws.thy ===== *)
theory Merge_Laws
  imports Manifest_Merge
begin

text \<open>
  What composition guarantees: merging is additive, a shared declaration must be
  identical, nothing a document wrote is lost or replaced, and the
  provenance of a merged manifest is exact.
\<close>

section \<open>Keyed maps\<close>

lemma keyed_merge_result:
  assumes "merge_string_keyed_map rel existing incoming label src = Inr c"
    and "bt_inv existing" "distinct (map fst incoming)"
  shows "bt_inv c" "map_of c = map_of incoming ++ map_of existing"
    and "\<And>k v w. map_of incoming k = Some v \<Longrightarrow> map_of existing k = Some w \<Longrightarrow> rel w v"
proof -
  have "bt_inv c \<and> map_of c = map_of incoming ++ map_of existing
    \<and> (\<forall>k v w. map_of incoming k = Some v \<longrightarrow> map_of existing k = Some w \<longrightarrow> rel w v)"
    using assms
  proof (induction rel existing incoming label src rule: merge_string_keyed_map.induct)
    case (2 rel existing key val incoming label src)
    have fresh: "map_of incoming key = None"
      using 2(5) by (simp add: map_of_eq_None_iff)
    show ?case
    proof (cases "map_of existing key")
      case None
      have IH: "bt_inv c \<and> map_of c = map_of incoming ++ map_of (bt_insert key val existing)
        \<and> (\<forall>k v w. map_of incoming k = Some v \<longrightarrow> map_of (bt_insert key val existing) k = Some w \<longrightarrow> rel w v)"
        using 2(1) [OF None] 2(3-5) None by (simp add: bt_insert_inv)
      have "map_of incoming ++ (map_of existing)(key \<mapsto> val) =
          (map_of incoming)(key \<mapsto> val) ++ map_of existing"
        using None by (auto simp: fun_eq_iff map_add_def split: option.splits)
      then show ?thesis
        using IH None fresh by (auto simp: bt_insert_get fun_upd_def split: if_splits)
    next
      case (Some w)
      have e: "rel w val"
        using 2(3) Some by (simp split: if_splits)
      have IH: "bt_inv c \<and> map_of c = map_of incoming ++ map_of existing
        \<and> (\<forall>k v w. map_of incoming k = Some v \<longrightarrow> map_of existing k = Some w \<longrightarrow> rel w v)"
        using 2(2) [OF Some e] 2(3-5) Some e by simp
      moreover have "map_of incoming ++ map_of existing = (map_of incoming)(key \<mapsto> val) ++ map_of existing"
        using Some by (auto simp: fun_eq_iff map_add_def split: option.splits)
      ultimately show ?thesis
        using e Some by (auto simp: fun_upd_def)
    qed
  qed simp
  then show "bt_inv c" "map_of c = map_of incoming ++ map_of existing"
      "\<And>k v w. map_of incoming k = Some v \<Longrightarrow> map_of existing k = Some w \<Longrightarrow> rel w v"
    by blast+
qed

lemma keyed_merge_ok_iff:
  assumes "bt_inv existing" "distinct (map fst incoming)"
  shows "is_ok (merge_string_keyed_map rel existing incoming label src) \<longleftrightarrow>
    (\<forall>k v w. map_of incoming k = Some v \<longrightarrow> map_of existing k = Some w \<longrightarrow> rel w v)"
proof
  assume "is_ok (merge_string_keyed_map rel existing incoming label src)"
  then show "\<forall>k v w. map_of incoming k = Some v \<longrightarrow> map_of existing k = Some w \<longrightarrow> rel w v"
    using keyed_merge_result(3) [OF _ assms] by (auto simp: is_ok_iff)
next
  assume "\<forall>k v w. map_of incoming k = Some v \<longrightarrow> map_of existing k = Some w \<longrightarrow> rel w v"
  then show "is_ok (merge_string_keyed_map rel existing incoming label src)"
    using assms
  proof (induction rel existing incoming label src rule: merge_string_keyed_map.induct)
    case (2 rel existing key val incoming label src)
    have fresh: "map_of incoming key = None"
      using 2(5) by (simp add: map_of_eq_None_iff)
    show ?case
    proof (cases "map_of existing key")
      case None
      have "\<forall>k v w. map_of incoming k = Some v \<longrightarrow> map_of (bt_insert key val existing) k = Some w \<longrightarrow> rel w v"
        using 2(3) fresh by (auto simp: bt_insert_get split: if_splits)
      from 2(1) [OF None this] show ?thesis
        using None 2(4,5) by (simp add: bt_insert_inv)
    next
      case (Some w)
      then have "rel w val"
        using 2(3) by (auto dest: spec [where x = key])
      have "\<forall>k v w. map_of incoming k = Some v \<longrightarrow> map_of existing k = Some w \<longrightarrow> rel w v"
        using 2(3) fresh by (metis map_of_Cons_code(2) option.distinct(1))
      from 2(2) [OF Some \<open>rel w val\<close> this] show ?thesis
        using Some \<open>rel w val\<close> 2(4,5) by simp
    qed
  qed simp
qed

lemma bt_eq_keys: "bt_eq eq a b \<Longrightarrow> map fst a = map fst b"
  unfolding bt_eq_def by (induction rule: list_all2_induct) auto

lemma bt_eq_get: "bt_eq eq a b \<Longrightarrow> map_of a k = Some v \<Longrightarrow> \<exists>w. map_of b k = Some w \<and> eq v w"
  unfolding bt_eq_def by (induction rule: list_all2_induct) (auto split: if_splits)

section \<open>Points\<close>

definition annotations_merged :: "point_config \<Rightarrow> point_config \<Rightarrow> point_config \<Rightarrow> bool" where
  "annotations_merged a b c \<longleftrightarrow>
    c = a\<lparr>pc_annotations := pc_annotations c\<rparr>
    \<and> pc_policy_target a = pc_policy_target b \<and> pc_policy_target_kind a = pc_policy_target_kind b
    \<and> pc_tool_name_from a = pc_tool_name_from b \<and> binding_eq (pc_policy a) (pc_policy b)
    \<and> bt_inv (pc_annotations c)
    \<and> map_of (pc_annotations c) = map_of (pc_annotations b) ++ map_of (pc_annotations a)
    \<and> (\<forall>k v w. map_of (pc_annotations b) k = Some v \<longrightarrow> map_of (pc_annotations a) k = Some w
        \<longrightarrow> annotation_eq w v)"

lemma merge_point_config_result:
  assumes "merge_point_config point a b src = Inr c" "bt_inv (pc_annotations a)" "bt_inv (pc_annotations b)"
  shows "annotations_merged a b c"
proof (cases "point_eq a b")
  case True
  then have eq: "bt_eq annotation_eq (pc_annotations a) (pc_annotations b)" and c: "c = a"
    using assms(1) by (simp_all add: point_eq_def merge_point_config_def)
  have "dom (map_of (pc_annotations b)) = dom (map_of (pc_annotations a))"
    using bt_eq_keys [OF eq] by (metis dom_map_of_conv_image_fst list.set_map)
  then have "map_of (pc_annotations b) ++ map_of (pc_annotations a) = map_of (pc_annotations a)"
    by (intro ext) (metis domIff map_add_dom_app_simps(1,3))
  then show ?thesis
    using True bt_eq_get [OF eq] assms(2) c by (fastforce simp: annotations_merged_def point_eq_def)
next
  case False
  from assms(1) False obtain annotations where m:
      "merge_string_keyed_map annotation_eq (pc_annotations a) (pc_annotations b)
        (''intervention_points.'' @ point_as_str point @ ''.annotations'') src = Inr annotations"
      "c = a\<lparr>pc_annotations := annotations\<rparr>"
      "pc_policy_target a = pc_policy_target b" "pc_policy_target_kind a = pc_policy_target_kind b"
      "pc_tool_name_from a = pc_tool_name_from b" "binding_eq (pc_policy a) (pc_policy b)"
    by (auto simp: merge_point_config_def Let_def rbind_eq_Inr_iff split: if_splits)
  show ?thesis
    using keyed_merge_result [OF m(1) assms(2) bt_inv_distinct [OF assms(3)]] m(2-6)
    by (simp add: annotations_merged_def)
qed

lemma merge_points_result:
  assumes "merge_intervention_points existing incoming src = Inr c"
    and "bt_inv existing" "distinct (map fst incoming)"
  shows "bt_inv c \<and> (\<forall>p. case (map_of existing p, map_of incoming p) of
      (Some a, Some b) \<Rightarrow> \<exists>m. merge_point_config p a b src = Inr m \<and> map_of c p = Some m
    | (Some a, None) \<Rightarrow> map_of c p = Some a
    | (None, i) \<Rightarrow> map_of c p = i)"
  using assms
proof (induction existing incoming src rule: merge_intervention_points.induct)
  case (2 existing point config incoming src)
  have fresh: "map_of incoming point = None"
    using 2(5) by (simp add: map_of_eq_None_iff)
  show ?case
  proof (cases "map_of existing point")
    case None
    from 2(1) [OF None] 2(3-5) None
    have IH: "bt_inv c \<and> (\<forall>p. case (map_of (bt_insert point config existing) p, map_of incoming p) of
      (Some a, Some b) \<Rightarrow> \<exists>m. merge_point_config p a b src = Inr m \<and> map_of c p = Some m
    | (Some a, None) \<Rightarrow> map_of c p = Some a
    | (None, i) \<Rightarrow> map_of c p = i)"
      by (simp add: bt_insert_inv)
    then show ?thesis
      using None fresh by (auto simp: bt_insert_get split: option.splits if_splits)
  next
    case (Some a)
    then obtain merged where m: "merge_point_config point a config src = Inr merged"
        "merge_intervention_points (bt_insert point merged existing) incoming src = Inr c"
      using 2(3) by (auto simp: rbind_eq_Inr_iff)
    from 2(2) [OF Some m] 2(4,5)
    have IH: "bt_inv c \<and> (\<forall>p. case (map_of (bt_insert point merged existing) p, map_of incoming p) of
      (Some a, Some b) \<Rightarrow> \<exists>m. merge_point_config p a b src = Inr m \<and> map_of c p = Some m
    | (Some a, None) \<Rightarrow> map_of c p = Some a
    | (None, i) \<Rightarrow> map_of c p = i)"
      by (simp add: bt_insert_inv)
    then show ?thesis
      using Some fresh m(1) by (auto simp: bt_insert_get split: option.splits if_splits)
  qed
qed (auto split: option.splits)


section \<open>Whole manifests\<close>

lemma mem_bindings:
  "(point, name) \<in> set (manifest_bindings m) \<longleftrightarrow>
    (\<exists>config. (point, config) \<in> set (m_points m) \<and> name \<in> fst ` set (pc_annotations config))"
  by (force simp: manifest_bindings_def)

lemma mem_bindings_get:
  assumes "bt_inv (m_points m)"
  shows "(point, name) \<in> set (manifest_bindings m) \<longleftrightarrow>
    (\<exists>config. map_of (m_points m) point = Some config \<and> map_of (pc_annotations config) name \<noteq> None)"
  using bt_entry_iff [OF assms] by (auto simp: mem_bindings map_of_eq_None_iff)

lemma fold_insort_set: "set (fold insort_insert xs acc) = set xs \<union> set acc"
  by (induction xs arbitrary: acc) (auto simp: set_insort_insert)

lemma host_written_sets:
  "set (hw_annotators (manifest_host_written m)) = fst ` set (m_annotators m) - set (m_url_sourced_annotators m)"
  "set (hw_annotations (manifest_host_written m)) = set (manifest_bindings m) - set (m_url_sourced_annotations m)"
  by (auto simp: manifest_host_written_def fold_insort_set)

lemma merge_manifest_parts:
  assumes "merge_manifest a b src = Inr c"
  shows "trim (m_version a) = trim (m_version b)"
    and "merge_string_keyed_map tool_eq (m_tools a) (m_tools b) ''tools'' src = Inr (m_tools c)"
    and "merge_string_keyed_map annotator_eq (m_annotators a) (m_annotators b) ''annotators'' src = Inr (m_annotators c)"
    and "merge_string_keyed_map policy_eq (m_policies a) (m_policies b) ''policies'' src = Inr (m_policies c)"
    and "merge_intervention_points (m_points a) (m_points b) src = Inr (m_points c)"
    and "set (m_url_sources c) = set (m_url_sources a) \<union> set (m_url_sources b)"
    and "set (m_url_sourced_annotators c) =
      (set (m_url_sourced_annotators a) \<union> set (m_url_sourced_annotators b))
      - (fst ` set (m_annotators a) - set (m_url_sourced_annotators a))
      - (fst ` set (m_annotators b) - set (m_url_sourced_annotators b))"
    and "set (m_url_sourced_annotations c) =
      (set (m_url_sourced_annotations a) \<union> set (m_url_sourced_annotations b))
      - (set (manifest_bindings a) - set (m_url_sourced_annotations a))
      - (set (manifest_bindings b) - set (m_url_sourced_annotations b))"
proof -
  let ?host = "host_written_extend (manifest_host_written a) (manifest_host_written b)"
  have p: "trim (m_version a) = trim (m_version b)"
      "merge_string_keyed_map tool_eq (m_tools a) (m_tools b) ''tools'' src = Inr (m_tools c)"
      "merge_string_keyed_map annotator_eq (m_annotators a) (m_annotators b) ''annotators'' src = Inr (m_annotators c)"
      "merge_string_keyed_map policy_eq (m_policies a) (m_policies b) ''policies'' src = Inr (m_policies c)"
      "merge_intervention_points (m_points a) (m_points b) src = Inr (m_points c)"
      "m_url_sources c = merge_url_sources (m_url_sources a) (m_url_sources b)"
      "m_url_sourced_annotators c = filter (\<lambda>name. name \<notin> set (hw_annotators ?host))
           (fold insort_insert (m_url_sourced_annotators b) (m_url_sourced_annotators a))"
      "m_url_sourced_annotations c = filter (\<lambda>x. x \<notin> set (hw_annotations ?host))
           (fold insort_insert (m_url_sourced_annotations b) (m_url_sourced_annotations a))"
    using assms by (auto simp: merge_manifest_def Let_def rbind_eq_Inr_iff split: if_splits)
  have host: "set (hw_annotators ?host) = (fst ` set (m_annotators a) - set (m_url_sourced_annotators a))
        \<union> (fst ` set (m_annotators b) - set (m_url_sourced_annotators b))"
      "set (hw_annotations ?host) = (set (manifest_bindings a) - set (m_url_sourced_annotations a))
        \<union> (set (manifest_bindings b) - set (m_url_sourced_annotations b))"
    unfolding host_written_sets [symmetric] by (simp_all add: host_written_extend_def fold_insort_set Un_commute)
  show "set (m_url_sourced_annotators c) =
      (set (m_url_sourced_annotators a) \<union> set (m_url_sourced_annotators b))
      - (fst ` set (m_annotators a) - set (m_url_sourced_annotators a))
      - (fst ` set (m_annotators b) - set (m_url_sourced_annotators b))"
    unfolding p(7) set_filter host fold_insort_set by blast
  show "set (m_url_sourced_annotations c) =
      (set (m_url_sourced_annotations a) \<union> set (m_url_sourced_annotations b))
      - (set (manifest_bindings a) - set (m_url_sourced_annotations a))
      - (set (manifest_bindings b) - set (m_url_sourced_annotations b))"
    unfolding p(8) set_filter host fold_insort_set by blast
  show "set (m_url_sources c) = set (m_url_sources a) \<union> set (m_url_sources b)"
    by (simp add: p(6) merge_url_sources_def)
qed (use assms in \<open>auto simp: merge_manifest_def Let_def rbind_eq_Inr_iff split: if_splits\<close>)


lemma merge_manifest_result:
  assumes "manifest_wf a" "manifest_wf b" "merge_manifest a b src = Inr c"
  shows "map_of (m_tools c) = map_of (m_tools b) ++ map_of (m_tools a)"
    and "map_of (m_annotators c) = map_of (m_annotators b) ++ map_of (m_annotators a)"
    and "map_of (m_policies c) = map_of (m_policies b) ++ map_of (m_policies a)"
    and "map_of (m_tools b) k = Some tv \<Longrightarrow> map_of (m_tools a) k = Some tw \<Longrightarrow> tool_eq tw tv"
    and "map_of (m_annotators b) k = Some nv \<Longrightarrow> map_of (m_annotators a) k = Some nw \<Longrightarrow> annotator_eq nw nv"
    and "map_of (m_policies b) k = Some pv \<Longrightarrow> map_of (m_policies a) k = Some pw \<Longrightarrow> policy_eq pw pv"
    and "case (map_of (m_points a) p, map_of (m_points b) p) of
          (Some pa, Some pb) \<Rightarrow> \<exists>m. map_of (m_points c) p = Some m \<and> annotations_merged pa pb m
        | (Some pa, None) \<Rightarrow> map_of (m_points c) p = Some pa
        | (None, i) \<Rightarrow> map_of (m_points c) p = i"
    and "manifest_wf c"
proof -
  note parts = merge_manifest_parts [OF assms(3)]
  have inv: "bt_inv (m_tools a)" "bt_inv (m_annotators a)" "bt_inv (m_policies a)" "bt_inv (m_points a)"
      "distinct (map fst (m_tools b))" "distinct (map fst (m_annotators b))" "distinct (map fst (m_policies b))"
      "distinct (map fst (m_points b))"
    using assms(1,2) by (auto simp: manifest_wf_def bt_inv_distinct)
  note t = keyed_merge_result [OF parts(2) inv(1,5)] and n = keyed_merge_result [OF parts(3) inv(2,6)]
    and q = keyed_merge_result [OF parts(4) inv(3,7)] and ps = merge_points_result [OF parts(5) inv(4,8)]
  have merged: "annotations_merged pa pb m"
    if "map_of (m_points a) p = Some pa" "map_of (m_points b) p = Some pb" "merge_point_config p pa pb src = Inr m" for p pa pb m
    using that assms(1,2) by (intro merge_point_config_result) (auto simp: manifest_wf_def dest!: map_of_SomeD)
  have points: "case (map_of (m_points a) p, map_of (m_points b) p) of
          (Some pa, Some pb) \<Rightarrow> \<exists>m. map_of (m_points c) p = Some m \<and> annotations_merged pa pb m
        | (Some pa, None) \<Rightarrow> map_of (m_points c) p = Some pa
        | (None, i) \<Rightarrow> map_of (m_points c) p = i" for p
    using ps merged [of p] by (fastforce split: option.splits)
  show "case (map_of (m_points a) p, map_of (m_points b) p) of
          (Some pa, Some pb) \<Rightarrow> \<exists>m. map_of (m_points c) p = Some m \<and> annotations_merged pa pb m
        | (Some pa, None) \<Rightarrow> map_of (m_points c) p = Some pa
        | (None, i) \<Rightarrow> map_of (m_points c) p = i"
    by (rule points)
  have ac: "bt_inv (ac_fields v)" if "(k, v) \<in> set (m_annotators c)" for k v
  proof -
    have "map_of (m_annotators c) k = Some v"
      using that n(1) by (simp add: bt_entry_iff)
    then have "map_of (m_annotators a) k = Some v \<or> map_of (m_annotators b) k = Some v"
      using n(2) by (auto simp: map_add_Some_iff)
    then show ?thesis
      using manifest_wfD(3) [OF assms(1)] manifest_wfD(3) [OF assms(2)] by blast
  qed
  have an: "bt_inv (pc_annotations v) \<and> (\<forall>name annotation. map_of (pc_annotations v) name = Some annotation
      \<longrightarrow> bt_inv (an_fields annotation))"
    if "map_of (m_points d) k = Some v" "manifest_wf d" for d k v
    using manifest_wfD(1,2) [OF that(2) map_of_SomeD [OF that(1)]] by (blast dest: map_of_SomeD)
  have pc: "bt_inv (pc_annotations v) \<and> (\<forall>(name, annotation)\<in>set (pc_annotations v). bt_inv (an_fields annotation))"
    if "(k, v) \<in> set (m_points c)" for k v
  proof -
    have "map_of (m_points c) k = Some v"
      using that ps by (simp add: bt_entry_iff)
    then consider "map_of (m_points a) k = Some v" | "map_of (m_points b) k = Some v"
      | pa pb where "map_of (m_points a) k = Some pa" "map_of (m_points b) k = Some pb" "annotations_merged pa pb v"
      using points [of k] by (auto split: option.splits)
    then have "bt_inv (pc_annotations v) \<and> (\<forall>name annotation. map_of (pc_annotations v) name = Some annotation
      \<longrightarrow> bt_inv (an_fields annotation))"
      using an assms(1,2) by cases (auto simp: annotations_merged_def map_add_Some_iff)
    then show ?thesis
      by (auto simp: bt_entry_iff)
  qed
  show "manifest_wf c"
    using t(1) n(1) q(1) ps ac pc unfolding manifest_wf_def by blast
  show "map_of (m_tools c) = map_of (m_tools b) ++ map_of (m_tools a)"
      "map_of (m_annotators c) = map_of (m_annotators b) ++ map_of (m_annotators a)"
      "map_of (m_policies c) = map_of (m_policies b) ++ map_of (m_policies a)"
    by (fact t(2) n(2) q(2))+
  show "map_of (m_tools b) k = Some tv \<Longrightarrow> map_of (m_tools a) k = Some tw \<Longrightarrow> tool_eq tw tv"
      "map_of (m_annotators b) k = Some nv \<Longrightarrow> map_of (m_annotators a) k = Some nw \<Longrightarrow> annotator_eq nw nv"
      "map_of (m_policies b) k = Some pv \<Longrightarrow> map_of (m_policies a) k = Some pw \<Longrightarrow> policy_eq pw pv"
    by (fact t(3) n(3) q(3))+
qed

text \<open>
  C32: Merging two manifests is additive.  The merge of well formed
  manifests exists only for equal versions and identical shared declarations; the result has
  every tool, annotator and policy of both, with the value of the first document where both
  have one; each point is the point of the document that has it, and for a shared point only the
  annotations are combined while every other field already agreed.
\<close>

theorem merge_is_additive:
  assumes "manifest_wf a" "manifest_wf b" "merge_manifest a b src = Inr c"
  shows "trim (m_version a) = trim (m_version b)
    \<and> map_of (m_tools c) = map_of (m_tools b) ++ map_of (m_tools a)
    \<and> map_of (m_annotators c) = map_of (m_annotators b) ++ map_of (m_annotators a)
    \<and> map_of (m_policies c) = map_of (m_policies b) ++ map_of (m_policies a)
    \<and> (\<forall>k v w. map_of (m_tools b) k = Some v \<and> map_of (m_tools a) k = Some w \<longrightarrow> tool_eq w v)
    \<and> (\<forall>k v w. map_of (m_annotators b) k = Some v \<and> map_of (m_annotators a) k = Some w \<longrightarrow> annotator_eq w v)
    \<and> (\<forall>k v w. map_of (m_policies b) k = Some v \<and> map_of (m_policies a) k = Some w \<longrightarrow> policy_eq w v)
    \<and> (\<forall>p. case (map_of (m_points a) p, map_of (m_points b) p) of
          (Some pa, Some pb) \<Rightarrow> \<exists>m. map_of (m_points c) p = Some m \<and> annotations_merged pa pb m
        | (Some pa, None) \<Rightarrow> map_of (m_points c) p = Some pa
        | (None, i) \<Rightarrow> map_of (m_points c) p = i)
    \<and> manifest_wf c"
  using merge_manifest_parts(1) [OF assms(3)] merge_manifest_result [OF assms] by blast


definition example_overlay :: manifest where
  "example_overlay = example_manifest\<lparr>m_points := [], m_policies := [],
    m_annotators := [(''c'', \<lparr>ac_type = Llm, ac_fields = []\<rparr>)]\<rparr>"

lemma example_overlay_wf: "manifest_wf example_overlay"
  using example_wf [of "[]" "[]" "[]"]
  by (simp add: manifest_wf_def example_overlay_def example_manifest_def bt_inv_def)

lemma example_merge: "is_ok (merge_manifest example_manifest example_overlay (ChainEntry 1))"
  by (simp add: merge_manifest_def example_overlay_def example_manifest_def example_sourced_def Let_def
      merge_metadata_def merge_approval_def)

theorem merge_is_additive_witness:
  "\<exists>c. merge_manifest example_manifest example_overlay (ChainEntry 1) = Inr c
    \<and> map_of (m_annotators c) ''c'' = Some \<lparr>ac_type = Llm, ac_fields = []\<rparr>
    \<and> map_of (m_points c) Input = Some example_point"
proof -
  obtain c where c: "merge_manifest example_manifest example_overlay (ChainEntry 1) = Inr c"
    using example_merge by (auto simp: is_ok_iff)
  have wf: "manifest_wf example_manifest"
    by (simp add: example_manifest_def example_wf)
  have r: "map_of (m_annotators c) = map_of (m_annotators example_overlay) ++ map_of (m_annotators example_manifest)"
    and p: "\<forall>p. case (map_of (m_points example_manifest) p, map_of (m_points example_overlay) p) of
          (Some pa, Some pb) \<Rightarrow> \<exists>m. map_of (m_points c) p = Some m \<and> annotations_merged pa pb m
        | (Some pa, None) \<Rightarrow> map_of (m_points c) p = Some pa
        | (None, i) \<Rightarrow> map_of (m_points c) p = i"
    using merge_is_additive [OF wf example_overlay_wf c] by blast+
  have "map_of (m_points c) Input = Some example_point"
    using spec [OF p, of Input] by (simp add: example_overlay_def example_manifest_def example_sourced_def)
  then show ?thesis
    using c r by (auto simp: example_overlay_def example_manifest_def example_sourced_def map_add_def)
qed

section \<open>Chains\<close>

text \<open>Only declarations and bindings of the document itself are ever recorded as fetched.\<close>

definition provenance_wf :: "manifest \<Rightarrow> bool" where
  "provenance_wf m \<longleftrightarrow> set (m_url_sourced_annotators m) \<subseteq> fst ` set (m_annotators m)
    \<and> set (m_url_sourced_annotations m) \<subseteq> set (manifest_bindings m)"

text \<open>A name is fetched in a set of documents when some document has it and every document that
  has it fetched it.\<close>

definition fetched_in :: "(manifest \<Rightarrow> 'a set) \<Rightarrow> (manifest \<Rightarrow> 'a set) \<Rightarrow> manifest set \<Rightarrow> 'a set" where
  "fetched_in declares fetched D =
    {k. (\<exists>d\<in>D. k \<in> declares d) \<and> (\<forall>d\<in>D. k \<in> declares d \<longrightarrow> k \<in> fetched d)}"

text \<open>Every declaration of the documents is in the result, identical.\<close>

definition keeps :: "(manifest \<Rightarrow> (string \<times> 'v) list) \<Rightarrow> ('v \<Rightarrow> 'v \<Rightarrow> bool) \<Rightarrow> manifest set \<Rightarrow> manifest \<Rightarrow> bool" where
  "keeps sel rel D r \<longleftrightarrow> (\<forall>d\<in>D. \<forall>k v. map_of (sel d) k = Some v
      \<longrightarrow> (\<exists>w. map_of (sel r) k = Some w \<and> (w = v \<or> rel w v)))"

definition chain_inv :: "manifest set \<Rightarrow> manifest \<Rightarrow> bool" where
  "chain_inv D r \<longleftrightarrow> manifest_wf r
    \<and> fst ` set (m_annotators r) = (\<Union>d\<in>D. fst ` set (m_annotators d))
    \<and> set (manifest_bindings r) = (\<Union>d\<in>D. set (manifest_bindings d))
    \<and> set (m_url_sources r) = (\<Union>d\<in>D. set (m_url_sources d))
    \<and> set (m_url_sourced_annotators r) =
        fetched_in (\<lambda>d. fst ` set (m_annotators d)) (\<lambda>d. set (m_url_sourced_annotators d)) D
    \<and> set (m_url_sourced_annotations r) =
        fetched_in (\<lambda>d. set (manifest_bindings d)) (\<lambda>d. set (m_url_sourced_annotations d)) D
    \<and> keeps m_annotators annotator_eq D r \<and> keeps m_policies policy_eq D r \<and> keeps m_tools tool_eq D r"

lemma chain_inv_single: "manifest_wf d \<Longrightarrow> provenance_wf d \<Longrightarrow> chain_inv {d} d"
  by (auto simp: chain_inv_def fetched_in_def provenance_wf_def keeps_def)

lemma keys_map_add: "map_of c = map_of b ++ map_of a \<Longrightarrow> fst ` set c = fst ` set a \<union> fst ` set b"
  by (metis dom_map_add dom_map_of_conv_image_fst)

lemma merge_bindings:
  assumes "manifest_wf a" "manifest_wf b" "merge_manifest a b src = Inr c"
  shows "set (manifest_bindings c) = set (manifest_bindings a) \<union> set (manifest_bindings b)"
proof -
  note r = merge_manifest_result [OF assms]
  have "(p, name) \<in> set (manifest_bindings c) \<longleftrightarrow>
      (p, name) \<in> set (manifest_bindings a) \<or> (p, name) \<in> set (manifest_bindings b)" for p name
    using r(7) [of p]
    unfolding mem_bindings_get [OF manifest_wfD(5) [OF r(8)]] mem_bindings_get [OF manifest_wfD(5) [OF assms(1)]]
      mem_bindings_get [OF manifest_wfD(5) [OF assms(2)]]
    by (auto simp del: not_None_eq simp: annotations_merged_def split: option.splits)
  then show ?thesis
    by auto
qed

lemma fetched_step:
  assumes "fr = fetched_in declares fetched D" "R = (\<Union>d\<in>D. declares d)" "fetched d \<subseteq> declares d"
  shows "(fr \<union> fetched d) - (R - fr) - (declares d - fetched d) = fetched_in declares fetched (insert d D)"
  using assms by (auto simp: fetched_in_def)

lemma keeps_step:
  assumes "keeps sel rel D r" "map_of (sel r') = map_of (sel d) ++ map_of (sel r)"
    and "\<And>k v w. map_of (sel d) k = Some v \<Longrightarrow> map_of (sel r) k = Some w \<Longrightarrow> rel w v"
  shows "keeps sel rel (insert d D) r'"
  unfolding keeps_def
proof (intro ballI allI impI)
  fix e k v
  assume e: "e \<in> insert d D" "map_of (sel e) k = Some v"
  show "\<exists>w. map_of (sel r') k = Some w \<and> (w = v \<or> rel w v)"
  proof (cases "map_of (sel r) k")
    case None
    then have "e = d"
      using e assms(1) unfolding keeps_def by (metis insertE option.distinct(1))
    then show ?thesis
      using None e(2) by (simp add: assms(2) map_add_def)
  next
    case (Some w)
    then show ?thesis
      using e assms(1,3) by (force simp: assms(2) keeps_def)
  qed
qed

lemma chain_inv_merge:
  assumes "chain_inv D r" "manifest_wf d" "provenance_wf d" "merge_manifest r d src = Inr r'"
  shows "chain_inv (insert d D) r'"
proof -
  have wf: "manifest_wf r"
    using assms(1) by (simp add: chain_inv_def)
  note parts = merge_manifest_parts [OF assms(4)] and res = merge_manifest_result [OF wf assms(2,4)]
  have ann: "set (m_url_sourced_annotators r') =
      fetched_in (\<lambda>d. fst ` set (m_annotators d)) (\<lambda>d. set (m_url_sourced_annotators d)) (insert d D)"
    unfolding parts(7) using assms(1,3) by (intro fetched_step) (auto simp: chain_inv_def provenance_wf_def)
  have bind: "set (m_url_sourced_annotations r') =
      fetched_in (\<lambda>d. set (manifest_bindings d)) (\<lambda>d. set (m_url_sourced_annotations d)) (insert d D)"
    unfolding parts(8) using assms(1,3) by (intro fetched_step) (auto simp: chain_inv_def provenance_wf_def)
  have "keeps m_annotators annotator_eq (insert d D) r'" "keeps m_policies policy_eq (insert d D) r'"
      "keeps m_tools tool_eq (insert d D) r'"
    using assms(1) res(1-6) by (auto intro!: keeps_step [of _ _ D r] simp: chain_inv_def)
  then show ?thesis
    using assms(1) res(8) keys_map_add [OF res(2)] merge_bindings [OF wf assms(2,4)] parts(6) ann bind
    unfolding chain_inv_def by auto
qed


lemma chain_entry_ok: "chain_entry x (i, d) resolved = Inr res \<Longrightarrow> merge_resolved_manifest resolved d (ChainEntry i) = Inr res"
  by (auto simp: chain_entry_def rbind_eq_Inr_iff split: if_splits)

lemma chain_fold:
  assumes "try_fold (chain_entry x) (enumerate i ds) (Some r) = Inr res" "chain_inv D r"
    and "\<forall>d\<in>set ds. manifest_wf d \<and> provenance_wf d"
  shows "\<exists>r'. res = Some r' \<and> chain_inv (D \<union> set ds) r'"
  using assms
proof (induction ds arbitrary: i r D)
  case (Cons d ds)
  from Cons.prems(1) obtain mid where mid: "chain_entry x (i, d) (Some r) = Inr mid"
      "try_fold (chain_entry x) (enumerate (Suc i) ds) mid = Inr res"
    by (auto simp: rbind_eq_Inr_iff)
  obtain r1 where r1: "mid = Some r1" "merge_manifest r d (ChainEntry i) = Inr r1"
    using chain_entry_ok [OF mid(1)] by (auto simp: merge_resolved_manifest_def rbind_eq_Inr_iff)
  have "chain_inv (insert d D) r1"
    using Cons.prems(2,3) r1(2) by (intro chain_inv_merge) auto
  from Cons.IH [OF mid(2) [unfolded r1(1)] this] show ?case
    using Cons.prems(3) by simp
qed auto

text \<open>
  C3: The provenance of a merged chain is exact.  When a chain of well
  formed documents merges, the result is valid and declares exactly what the documents declare, each
  declaration identical to the one in its document; its sources are the sources of all
  documents; and an annotator or a binding counts as fetched exactly when every document that has
  it fetched it, so a repeat of a host declaration never hands it over.
\<close>

theorem merge_chain_provenance_exact:
  assumes "merge_chain x ds = Inr r" "\<forall>d\<in>set ds. manifest_wf d \<and> provenance_wf d"
  shows "manifest_validate x r = Inr () \<and> manifest_wf r
    \<and> fst ` set (m_annotators r) = (\<Union>d\<in>set ds. fst ` set (m_annotators d))
    \<and> set (manifest_bindings r) = (\<Union>d\<in>set ds. set (manifest_bindings d))
    \<and> set (m_url_sources r) = (\<Union>d\<in>set ds. set (m_url_sources d))
    \<and> (\<forall>name. name \<in> set (m_url_sourced_annotators r) \<longleftrightarrow>
        (\<exists>d\<in>set ds. name \<in> fst ` set (m_annotators d))
        \<and> (\<forall>d\<in>set ds. name \<in> fst ` set (m_annotators d) \<longrightarrow> name \<in> set (m_url_sourced_annotators d)))
    \<and> (\<forall>b. b \<in> set (m_url_sourced_annotations r) \<longleftrightarrow>
        (\<exists>d\<in>set ds. b \<in> set (manifest_bindings d))
        \<and> (\<forall>d\<in>set ds. b \<in> set (manifest_bindings d) \<longrightarrow> b \<in> set (m_url_sourced_annotations d)))
    \<and> keeps m_annotators annotator_eq (set ds) r \<and> keeps m_policies policy_eq (set ds) r
    \<and> keeps m_tools tool_eq (set ds) r"
proof -
  obtain d rest where ds: "ds = d # rest"
    using assms(1) by (cases ds) (auto simp: merge_chain_def)
  obtain res where res: "try_fold (chain_entry x) (enumerate 0 ds) None = Inr res"
      "manifest_validate x (the res) = Inr ()" "r = the res"
    using assms(1) ds by (auto simp: merge_chain_def rbind_eq_Inr_iff)
  then obtain mid where mid: "chain_entry x (0, d) None = Inr mid"
      "try_fold (chain_entry x) (enumerate (Suc 0) rest) mid = Inr res"
    by (auto simp: ds rbind_eq_Inr_iff)
  have "mid = Some d"
    using chain_entry_ok [OF mid(1)] by (simp add: merge_resolved_manifest_def)
  then obtain r' where "res = Some r'" "chain_inv ({d} \<union> set rest) r'"
    using chain_fold [of x "Suc 0" rest d res "{d}"] mid(2) chain_inv_single [of d] assms(2) ds by auto
  then have "chain_inv (set ds) r"
    using res(3) ds by simp
  then show ?thesis
    using res(2,3) unfolding chain_inv_def fetched_in_def by auto
qed

theorem merge_chain_provenance_exact_witness:
  "\<exists>r. merge_chain example_externals [example_manifest] = Inr r \<and> set (m_url_sourced_annotators r) = {}"
proof -
  have v: "manifest_validate example_externals example_manifest = Inr ()"
    by (simp add: example_manifest_def example_valid)
  have m: "merge_chain example_externals [example_manifest] = Inr example_manifest"
    using v by (simp add: merge_chain_def chain_entry_def validate_chain_extends_def merge_resolved_manifest_def)
      (simp add: example_manifest_def example_sourced_def)
  have "manifest_wf example_manifest \<and> provenance_wf example_manifest"
    using example_wf [of "[]" "[]" "[]"]
    by (simp add: provenance_wf_def example_manifest_def) (simp add: example_sourced_def)
  then show ?thesis
    using merge_chain_provenance_exact [OF m] m by (auto simp: example_manifest_def example_sourced_def)
qed

end
