(* ===== verification/Run_Monad.thy ===== *)
theory Run_Monad
  imports Prelude
begin

text \<open>
  Computations that may fail and change a state, with the state kept on failure: what the
  code does before it returns an error stays done.  The runtime uses it over the trace of
  its outward actions, the manifest loader over its caches.
\<close>

type_synonym ('t, 'e, 'a) stateful = "'t \<Rightarrow> ('e, 'a) result \<times> 't"

definition run_lift :: "('e, 'a) result \<Rightarrow> ('t, 'e, 'a) stateful" where
  "run_lift r t = (r, t)"

definition run_bind :: "('t, 'e, 'a) stateful \<Rightarrow> ('a \<Rightarrow> ('t, 'e, 'b) stateful) \<Rightarrow> ('t, 'e, 'b) stateful" where
  "run_bind m f t = (case m t of (Inl e, t') \<Rightarrow> (Inl e, t') | (Inr v, t') \<Rightarrow> f v t')"

definition run_map_err :: "('e \<Rightarrow> 'f) \<Rightarrow> ('t, 'e, 'a) stateful \<Rightarrow> ('t, 'f, 'a) stateful" where
  "run_map_err g m t = (case m t of (r, t') \<Rightarrow> (map_err g r, t'))"

text \<open>\<open>Result::inspect_err\<close> with a closure that emits.\<close>

definition inspect_err :: "('t, 'e, 'a) stateful \<Rightarrow> ('e \<Rightarrow> 't \<Rightarrow> 't) \<Rightarrow> ('t, 'e, 'a) stateful" where
  "inspect_err m f t = (case m t of (Inl e, t') \<Rightarrow> (Inl e, f e t') | (Inr v, t') \<Rightarrow> (Inr v, t'))"

definition run_effect :: "('t \<Rightarrow> 't) \<Rightarrow> ('t, 'e, unit) stateful" where
  "run_effect f t = (Inr (), f t)"

fun run_fold :: "('a \<Rightarrow> 's \<Rightarrow> ('t, 'e, 's) stateful) \<Rightarrow> 'a list \<Rightarrow> 's \<Rightarrow> ('t, 'e, 's) stateful" where
  "run_fold f [] s = run_lift (Inr s)"
| "run_fold f (x # xs) s = run_bind (f x s) (run_fold f xs)"

lemma run_lift_eq [simp]: "run_lift r t = (r, t)"
  by (simp add: run_lift_def)

lemma run_bind_ok: "run_bind m f t = (Inr v, t') \<longleftrightarrow> (\<exists>a s. m t = (Inr a, s) \<and> f a s = (Inr v, t'))"
  by (auto simp: run_bind_def split: prod.splits sum.splits)

lemma run_bind_err:
  "run_bind m f t = (Inl e, t') \<longleftrightarrow> m t = (Inl e, t') \<or> (\<exists>a s. m t = (Inr a, s) \<and> f a s = (Inl e, t'))"
  by (auto simp: run_bind_def split: prod.splits sum.splits)

lemma run_map_err_ok: "run_map_err g m t = (Inr v, t') \<longleftrightarrow> m t = (Inr v, t')"
  by (auto simp: run_map_err_def split: prod.splits)

lemma run_map_err_err: "run_map_err g m t = (Inl f, t') \<longleftrightarrow> (\<exists>e. m t = (Inl e, t') \<and> f = g e)"
  by (auto simp: run_map_err_def map_err_eq_Inl_iff split: prod.splits)

lemma inspect_err_ok: "inspect_err m f t = (Inr v, t') \<longleftrightarrow> m t = (Inr v, t')"
  by (auto simp: inspect_err_def split: prod.splits sum.splits)

lemma inspect_err_err: "inspect_err m f t = (Inl e, t') \<longleftrightarrow> (\<exists>s. m t = (Inl e, s) \<and> t' = f e s)"
  by (auto simp: inspect_err_def split: prod.splits sum.splits)

lemmas run_iffs = run_bind_ok run_bind_err run_map_err_ok run_map_err_err inspect_err_ok inspect_err_err

end
