(* ===== verification/Telemetry.thy ===== *)
theory Telemetry
  imports Verdicts
begin

text \<open>
  Telemetry events and their builder (\<open>telemetry.rs\<close>), the performance telemetry level
  (\<open>perf_telemetry.rs\<close>), and the classification of reasons that the runtime applies
  before a reason reaches a sink (\<open>runtime.rs\<close>).

  \<open>EnforcementMode\<close> belongs to the agent-hooks crate and is only carried; its two values are
  those \<open>wire.rs\<close> matches.  A duration is the 64 bits of its \<open>f64\<close>.
\<close>

section \<open>Events\<close>

datatype enforcement_mode = Enforce | EvaluateOnly

datatype telemetry_event_type =
    DecisionEvent
  | AnnotatorDispatch
  | PolicyEvaluation
  | EvaluationTiming
  | InterventionPointTransformed
  | AnnotatorFailed
  | PolicyFailed

fun event_type_as_str :: "telemetry_event_type \<Rightarrow> string" where
  "event_type_as_str DecisionEvent = ''decision''"
| "event_type_as_str AnnotatorDispatch = ''annotator_dispatch''"
| "event_type_as_str PolicyEvaluation = ''policy_evaluation''"
| "event_type_as_str EvaluationTiming = ''evaluation_timing''"
| "event_type_as_str InterventionPointTransformed = ''intervention_point.transformed''"
| "event_type_as_str AnnotatorFailed = ''annotator_failed''"
| "event_type_as_str PolicyFailed = ''policy_failed''"

record telemetry_event =
  te_type :: telemetry_event_type
  te_point :: interception_point
  te_decision :: "decision option"
  te_reason_code :: "string option"
  te_error_class :: "string option"
  te_policy_id :: "string option"
  te_annotators :: "string list"
  te_enforcement_mode :: "enforcement_mode option"
  te_duration_ms :: "64 word option"
  te_evidence_artefact :: "string option"
  te_evidence_pointer_keys :: "string list"
  te_action_identity :: "string option"
  te_metadata :: "(string \<times> string) list"

definition event_new :: "telemetry_event_type \<Rightarrow> interception_point \<Rightarrow> telemetry_event" where
  "event_new ty point = \<lparr>te_type = ty, te_point = point, te_decision = None, te_reason_code = None,
    te_error_class = None, te_policy_id = None, te_annotators = [], te_enforcement_mode = None,
    te_duration_ms = None, te_evidence_artefact = None, te_evidence_pointer_keys = [],
    te_action_identity = None, te_metadata = []\<rparr>"

definition with_decision :: "decision \<Rightarrow> telemetry_event \<Rightarrow> telemetry_event" where
  "with_decision d ev = ev\<lparr>te_decision := Some d\<rparr>"

definition with_reason_code :: "string \<Rightarrow> telemetry_event \<Rightarrow> telemetry_event" where
  "with_reason_code r ev = ev\<lparr>te_reason_code := Some r\<rparr>"

definition with_optional_reason_code :: "string option \<Rightarrow> telemetry_event \<Rightarrow> telemetry_event" where
  "with_optional_reason_code r ev = ev\<lparr>te_reason_code := r\<rparr>"

definition with_error_class :: "string \<Rightarrow> telemetry_event \<Rightarrow> telemetry_event" where
  "with_error_class c ev = ev\<lparr>te_error_class := Some c\<rparr>"

definition with_optional_error_class :: "string option \<Rightarrow> telemetry_event \<Rightarrow> telemetry_event" where
  "with_optional_error_class c ev = ev\<lparr>te_error_class := c\<rparr>"

definition with_policy_id :: "string \<Rightarrow> telemetry_event \<Rightarrow> telemetry_event" where
  "with_policy_id p ev = ev\<lparr>te_policy_id := Some p\<rparr>"

definition with_optional_policy_id :: "string option \<Rightarrow> telemetry_event \<Rightarrow> telemetry_event" where
  "with_optional_policy_id p ev = ev\<lparr>te_policy_id := p\<rparr>"

definition with_annotator :: "string \<Rightarrow> telemetry_event \<Rightarrow> telemetry_event" where
  "with_annotator a ev = ev\<lparr>te_annotators := te_annotators ev @ [a]\<rparr>"

definition with_annotators :: "string list \<Rightarrow> telemetry_event \<Rightarrow> telemetry_event" where
  "with_annotators as ev = ev\<lparr>te_annotators := as\<rparr>"

definition with_enforcement_mode :: "enforcement_mode \<Rightarrow> telemetry_event \<Rightarrow> telemetry_event" where
  "with_enforcement_mode m ev = ev\<lparr>te_enforcement_mode := Some m\<rparr>"

definition with_duration_ms :: "64 word \<Rightarrow> telemetry_event \<Rightarrow> telemetry_event" where
  "with_duration_ms d ev = ev\<lparr>te_duration_ms := Some d\<rparr>"

definition with_action_identity :: "string \<Rightarrow> telemetry_event \<Rightarrow> telemetry_event" where
  "with_action_identity i ev = ev\<lparr>te_action_identity := Some i\<rparr>"

definition with_optional_action_identity :: "string option \<Rightarrow> telemetry_event \<Rightarrow> telemetry_event" where
  "with_optional_action_identity i ev = ev\<lparr>te_action_identity := i\<rparr>"

definition with_metadata :: "string \<Rightarrow> string \<Rightarrow> telemetry_event \<Rightarrow> telemetry_event" where
  "with_metadata k v ev = ev\<lparr>te_metadata := bt_insert k v (te_metadata ev)\<rparr>"

definition with_evidence :: "string option \<Rightarrow> string list \<Rightarrow> telemetry_event \<Rightarrow> telemetry_event" where
  "with_evidence a keys ev = ev\<lparr>te_evidence_artefact := a, te_evidence_pointer_keys := keys\<rparr>"

named_theorems event_defs \<open>the event builders\<close>

lemmas [event_defs] =
  event_new_def with_decision_def with_reason_code_def with_optional_reason_code_def with_error_class_def
  with_optional_error_class_def with_policy_id_def with_optional_policy_id_def with_annotator_def
  with_annotators_def with_enforcement_mode_def with_duration_ms_def with_action_identity_def
  with_optional_action_identity_def with_metadata_def with_evidence_def

section \<open>Performance telemetry\<close>

datatype perf_telemetry = Off | External | Full

fun emit_external_events :: "perf_telemetry \<Rightarrow> bool" where
  "emit_external_events Off = False"
| "emit_external_events _ = True"

fun emit_stage_events :: "perf_telemetry \<Rightarrow> bool" where
  "emit_stage_events Full = True"
| "emit_stage_events _ = False"

fun perf_as_u8 :: "perf_telemetry \<Rightarrow> 8 word" where
  "perf_as_u8 Off = 0"
| "perf_as_u8 External = 1"
| "perf_as_u8 Full = 2"

definition perf_from_u8 :: "8 word \<Rightarrow> perf_telemetry option" where
  "perf_from_u8 v =
    (if v = 0 then Some Off else if v = 1 then Some External else if v = 2 then Some Full else None)"

lemma perf_u8_round_trip: "perf_from_u8 v = Some l \<longleftrightarrow> v = perf_as_u8 l"
  by (cases l) (auto simp: perf_from_u8_def)

section \<open>Reasons that may leave the process\<close>

definition is_identifier_byte :: "char \<Rightarrow> bool" where
  "is_identifier_byte c \<longleftrightarrow>
    is_ascii_digit c \<or> (byte c \<ge> 65 \<and> byte c \<le> 90) \<or> (byte c \<ge> 97 \<and> byte c \<le> 122)
    \<or> c \<in> {CHR ''_'', CHR ''-'', CHR ''.'', CHR '':'', CHR ''/''}"

definition is_identifier_reason_code :: "string \<Rightarrow> bool" where
  "is_identifier_reason_code r \<longleftrightarrow> r \<noteq> [] \<and> length r \<le> 96 \<and> list_all is_identifier_byte r"

definition safe_telemetry_reason_code :: "string option \<Rightarrow> string option" where
  "safe_telemetry_reason_code r = (case r of
      None \<Rightarrow> None
    | Some s \<Rightarrow> if is_identifier_reason_code s then Some s else Some ''policy_reason'')"

definition telemetry_error_class :: "string option \<Rightarrow> string option" where
  "telemetry_error_class r = (case r of
      Some s \<Rightarrow> if starts_with s ''runtime_error:'' then Some ''runtime_error'' else None
    | None \<Rightarrow> None)"

lemma reason_is_identifier: "is_identifier_reason_code (reason e)"
  by (cases e) (simp_all add: is_identifier_reason_code_def is_identifier_byte_def is_ascii_digit_def)

lemma safe_reason_identifier: "safe_telemetry_reason_code r = Some s \<Longrightarrow> is_identifier_reason_code s"
  by (auto simp: safe_telemetry_reason_code_def is_identifier_reason_code_def is_identifier_byte_def
      is_ascii_digit_def split: option.splits if_splits)

end
