(* ===== verification/Policy_Output.thy ===== *)
theory Policy_Output
  imports Policy_Input
begin

text \<open>
  Normalization of policy output (\<open>policy_output.rs\<close>): from the raw JSON of a policy
  dispatcher to the verdict handed to the host, the degradation of oversize evidence, and
  the verdict synthesized for a runtime error.

  Parameters: the functions of agent-hooks (\<open>ah\<close>) and the SHA-256 digest (\<open>sha\<close>).
\<close>

named_theorems po_defs \<open>field readers of the normalizer\<close>

section \<open>Field readers\<close>

definition RESERVED_PREFIXES :: "string list" where
  "RESERVED_PREFIXES = [''runtime_error:'', ''host_error:'']"

definition EVIDENCE_TRUNCATED_REASON :: string where
  "EVIDENCE_TRUNCATED_REASON = ''evidence_truncated''"

definition reject_unknown_members ::
  "json_map \<Rightarrow> string list \<Rightarrow> string \<Rightarrow> (runtime_error, unit) result"
where
  "reject_unknown_members obj allowed location =
    (if list_ex (\<lambda>p. fst p \<notin> set allowed) obj
     then Inl (PolicyOutputInvalid (location @ '' has an unknown member''))
     else Inr ())"

definition string_field :: "json_map \<Rightarrow> string \<Rightarrow> (runtime_error, string option) result" where
  "string_field obj key = (case map_of obj key of
      None \<Rightarrow> Inr None
    | Some JNull \<Rightarrow> Inr None
    | Some (JString v) \<Rightarrow> Inr (Some v)
    | _ \<Rightarrow> Inl (PolicyOutputInvalid (''policy output '' @ key @ '' must be a string'')))"

text \<open>The loop over the reserved prefixes, shared by the verdict reason and the warnings.\<close>

definition check_prefixes :: "string \<Rightarrow> string option \<Rightarrow> (runtime_error, unit) result" where
  "check_prefixes lead r = (case r of
      None \<Rightarrow> Inr ()
    | Some text \<Rightarrow> try_each (\<lambda>prefix.
        if starts_with text prefix
        then Inl (PolicyOutputInvalid (lead @ prefix @ ''* prefix''))
        else Inr ()) RESERVED_PREFIXES)"

definition reason_field :: "json_map \<Rightarrow> (runtime_error, string option) result" where
  "reason_field obj =
    rbind (string_field obj ''reason'') (\<lambda>r.
    rbind (check_prefixes ''policy reasons must not use the reserved '' r) (\<lambda>_.
    Inr r))"

definition warning_entry :: "json \<Rightarrow> (runtime_error, warning) result" where
  "warning_entry item =
    rbind (ok_or (PolicyOutputInvalid ''policy output warnings entries must be objects'')
             (as_object item)) (\<lambda>entry.
    rbind (reject_unknown_members entry [''reason'', ''message''] ''policy output warning'') (\<lambda>_.
    rbind (string_field entry ''reason'') (\<lambda>r.
    rbind (check_prefixes ''policy output warnings must not use the reserved '' r) (\<lambda>_.
    rbind (string_field entry ''message'') (\<lambda>msg.
    Inr \<lparr>w_reason = r, w_message = msg\<rparr>)))))"

definition warnings_field :: "json_map \<Rightarrow> (runtime_error, warning list) result" where
  "warnings_field obj = (case map_of obj ''warnings'' of
      None \<Rightarrow> Inr []
    | Some JNull \<Rightarrow> Inr []
    | Some (JArray items) \<Rightarrow> try_map warning_entry items
    | _ \<Rightarrow> Inl (PolicyOutputInvalid ''policy output warnings must be an array''))"

definition result_labels_field :: "json_map \<Rightarrow> (runtime_error, string list) result" where
  "result_labels_field obj = (case map_of obj ''result_labels'' of
      None \<Rightarrow> Inr []
    | Some JNull \<Rightarrow> Inr []
    | Some (JArray items) \<Rightarrow> try_map (\<lambda>item.
        ok_or (PolicyOutputInvalid ''policy output result_labels must be an array of strings'')
          (as_str item)) items
    | _ \<Rightarrow> Inl (PolicyOutputInvalid ''policy output result_labels must be an array''))"

definition approval_field :: "json_map \<Rightarrow> (runtime_error, json_map option) result" where
  "approval_field obj = (case map_of obj ''approval'' of
      None \<Rightarrow> Inr None
    | Some JNull \<Rightarrow> Inr None
    | Some (JObject m) \<Rightarrow> Inr (Some m)
    | _ \<Rightarrow> Inl (PolicyOutputInvalid ''policy output approval must be an object''))"

definition is_rooted_at :: "string \<Rightarrow> string \<Rightarrow> bool" where
  "is_rooted_at path rt = (case strip_prefix path rt of
      Some rest \<Rightarrow> rest = [] \<or> starts_with rest ''.'' \<or> starts_with rest ''[''
    | None \<Rightarrow> False)"

definition transform_field :: "agent_hooks \<Rightarrow> json \<Rightarrow> (runtime_error, transform) result" where
  "transform_field ah value =
    rbind (ok_or (PolicyOutputInvalid ''transform must be an object'') (as_object value)) (\<lambda>obj.
    rbind (reject_unknown_members obj [''path'', ''value''] ''policy output transform'') (\<lambda>_.
    rbind (ok_or (PolicyOutputInvalid ''transform.path is required when decision is transform'')
             (Option.bind (map_of obj ''path'') as_str)) (\<lambda>path.
    if is_rooted_at path ''$policy_target'' then
      Inl (TransformInvalid ''transform.path invalid: the $policy_target root was renamed $target'')
    else if \<not> is_rooted_at path ''$target'' then Inl (TransformTargetForbidden path)
    else rbind (case ah_parse_transform_path ah path of
            Some err \<Rightarrow> Inl (TransformInvalid (''transform.path invalid: '' @ err))
          | None \<Rightarrow> Inr ()) (\<lambda>_.
    rbind (ok_or (PolicyOutputInvalid ''transform.value is required when decision is transform'')
             (map_of obj ''value'')) (\<lambda>v.
    Inr \<lparr>t_path = path, t_value = v\<rparr>)))))"

definition pointer_entries :: "json_map \<Rightarrow> (runtime_error, (string \<times> string) list) result" where
  "pointer_entries m =
    try_fold (\<lambda>p out.
      rbind (ok_or (PolicyOutputInvalid ''evidence.verification_pointers values must be strings'')
               (as_str (snd p))) (\<lambda>url.
      Inr (bt_insert (fst p) url out))) m []"

definition artefact_member :: "json_map \<Rightarrow> (runtime_error, string option) result" where
  "artefact_member entry = (case map_of entry ''artefact'' of
      None \<Rightarrow> Inr None
    | Some JNull \<Rightarrow> Inr None
    | Some (JString v) \<Rightarrow> Inr (Some v)
    | _ \<Rightarrow> Inl (PolicyOutputInvalid ''evidence.artefact must be a string''))"

definition pointers_member :: "json_map \<Rightarrow> (runtime_error, (string \<times> string) list) result" where
  "pointers_member entry = (case map_of entry ''verification_pointers'' of
      None \<Rightarrow> Inr []
    | Some JNull \<Rightarrow> Inr []
    | Some (JObject m) \<Rightarrow> pointer_entries m
    | _ \<Rightarrow> Inl (PolicyOutputInvalid ''evidence.verification_pointers must be an object of strings''))"

definition evidence_entry :: "json \<Rightarrow> (runtime_error, evidence) result" where
  "evidence_entry value =
    rbind (ok_or (PolicyOutputInvalid ''evidence must be an object'') (as_object value)) (\<lambda>entry.
    if list_ex (\<lambda>p. fst p \<noteq> ''artefact'' \<and> fst p \<noteq> ''verification_pointers'') entry then
      Inl (PolicyOutputInvalid ''evidence has a member other than artefact and verification_pointers'')
    else
      rbind (artefact_member entry) (\<lambda>art.
      rbind (pointers_member entry) (\<lambda>pointers.
      Inr \<lparr>artefact = art, verification_pointers = pointers\<rparr>)))"

definition evidence_field :: "json_map \<Rightarrow> (runtime_error, evidence option) result" where
  "evidence_field obj = (case map_of obj ''evidence'' of
      None \<Rightarrow> Inr None
    | Some JNull \<Rightarrow> Inr None
    | Some value \<Rightarrow> rbind (evidence_entry value) (\<lambda>e. Inr (Some e)))"

section \<open>Evidence under the size cap\<close>

definition canonical_evidence :: "agent_hooks \<Rightarrow> evidence \<Rightarrow> (runtime_error, string) result" where
  "canonical_evidence ah e =
    rbind (ok_or (PolicyOutputInvalid ''evidence could not be serialized'') (ah_evidence_value ah e))
      (\<lambda>v. Inr (ah_canonical_json ah v))"

definition evidence_within_cap :: "agent_hooks \<Rightarrow> evidence \<Rightarrow> nat \<Rightarrow> (runtime_error, bool) result" where
  "evidence_within_cap ah e cap =
    rbind (canonical_evidence ah e) (\<lambda>text. Inr (length text \<le> cap))"

record degraded_evidence =
  d_evidence :: evidence
  d_warning :: "warning option"

definition truncation_warning :: "nat \<Rightarrow> nat \<Rightarrow> string \<Rightarrow> nat \<Rightarrow> nat \<Rightarrow> string \<Rightarrow> warning" where
  "truncation_warning original_bytes cap artefact_outcome kept_pointers total_pointers digest_hex =
    \<lparr>w_reason = Some EVIDENCE_TRUNCATED_REASON,
     w_message = Some (''evidence degraded: '' @ nat_to_string original_bytes
       @ '' canonical bytes exceeded the '' @ nat_to_string cap @ '' byte cap; ''
       @ artefact_outcome @ ''; verification_pointers kept '' @ nat_to_string kept_pointers
       @ '' of '' @ nat_to_string total_pointers @ ''; full evidence sha256:'' @ digest_hex)\<rparr>"

text \<open>The binary search over the number of kept pointers.\<close>

function prefix_search :: "(nat \<Rightarrow> ('e, bool) result) \<Rightarrow> nat \<Rightarrow> nat \<Rightarrow> ('e, nat) result" where
  "prefix_search test fits too_many =
    (if too_many - fits > 1 then
       (let probe = fits + (too_many - fits) div 2 in
        rbind (test probe) (\<lambda>within.
          if within then prefix_search test probe too_many else prefix_search test fits probe))
     else Inr fits)"
  by pat_completeness auto
termination
  by (relation "measure (\<lambda>(test, fits, too_many). too_many - fits)") auto

declare prefix_search.simps [simp del]

definition sorted_pointers :: "evidence \<Rightarrow> (string \<times> string) list" where
  "sorted_pointers e = sort_key (encode_utf16 \<circ> fst) (verification_pointers e)"

definition with_prefix :: "string option \<Rightarrow> (string \<times> string) list \<Rightarrow> nat \<Rightarrow> evidence" where
  "with_prefix art pointers n =
    \<lparr>artefact = art, verification_pointers = bt_collect (take n pointers)\<rparr>"

definition degrade_evidence ::
  "agent_hooks \<Rightarrow> (string \<Rightarrow> string) \<Rightarrow> evidence \<Rightarrow> nat \<Rightarrow> (runtime_error, degraded_evidence) result"
where
  "degrade_evidence ah sha e cap =
    rbind (canonical_evidence ah e) (\<lambda>full_text.
    if length full_text \<le> cap then Inr \<lparr>d_evidence = e, d_warning = None\<rparr>
    else
      let digest = lower (sha full_text) in
      rbind (evidence_within_cap ah (e\<lparr>verification_pointers := []\<rparr>) cap) (\<lambda>art_fits.
      let art = (if art_fits then artefact e else None);
          artefact_outcome = (case (artefact e, art) of
              (None, _) \<Rightarrow> ''no artefact''
            | (Some _, Some _) \<Rightarrow> ''artefact kept''
            | (Some _, None) \<Rightarrow> ''artefact dropped'');
          pointers = sorted_pointers e
      in rbind (prefix_search (\<lambda>n. evidence_within_cap ah (with_prefix art pointers n) cap)
                 0 (length pointers + 1)) (\<lambda>fits.
         Inr \<lparr>d_evidence = with_prefix art pointers fits,
              d_warning = Some (truncation_warning (length full_text) cap artefact_outcome fits
                (length pointers) digest)\<rparr>)))"

section \<open>Normalization\<close>

definition output_members :: "string list" where
  "output_members = [''decision'', ''reason'', ''message'', ''warnings'', ''result_labels'',
     ''approval'', ''evidence'', ''transform'']"

text \<open>
  The decision, with the two policy intents mapped to their native shapes: the new
  warnings and approval beside the decision.
\<close>

definition map_decision ::
  "string \<Rightarrow> string option \<Rightarrow> string option \<Rightarrow> warning list \<Rightarrow> json_map option
    \<Rightarrow> (runtime_error, decision \<times> warning list \<times> json_map option) result"
where
  "map_decision name r msg warnings approval =
    (if name = ''allow'' then Inr (Allow, warnings, approval)
     else if name = ''deny'' then Inr (Deny, warnings, approval)
     else if name = ''transform'' then Inr (Transform, warnings, approval)
     else if name = ''warn'' then
       Inr (Allow, warnings @ [\<lparr>w_reason = r, w_message = msg\<rparr>], approval)
     else if name = ''escalate'' then
       Inr (Deny, warnings, Some (case approval of Some m \<Rightarrow> m | None \<Rightarrow> []))
     else Inl (PolicyOutputInvalid (''unsupported decision '' @ quoted name)))"

definition transform_for ::
  "agent_hooks \<Rightarrow> decision \<Rightarrow> json option \<Rightarrow> (runtime_error, transform option) result"
where
  "transform_for ah dec member =
    (let absent = (case member of None \<Rightarrow> True | Some JNull \<Rightarrow> True | _ \<Rightarrow> False) in
     if dec = Transform then
       (if absent then Inl (PolicyOutputInvalid ''transform decision requires a transform object'')
        else rbind (transform_field ah (the member)) (\<lambda>t. Inr (Some t)))
     else if absent then Inr None
     else Inl (PolicyOutputInvalid ''transform is only permitted on the transform decision''))"

definition normalize_policy_output ::
  "agent_hooks \<Rightarrow> (string \<Rightarrow> string) \<Rightarrow> json \<Rightarrow> (runtime_error, verdict) result"
where
  "normalize_policy_output ah sha output =
    rbind (ok_or (PolicyOutputInvalid ''policy output must be an object'') (as_object output)) (\<lambda>obj.
    rbind (ok_or (PolicyOutputInvalid ''policy output decision is required'')
             (Option.bind (map_of obj ''decision'') as_str)) (\<lambda>decision_name.
    if map_of obj ''effects'' \<noteq> None then
      Inl (PolicyOutputInvalid (''verdict '' @ quoted ''effects'' @ '' is not supported; ''
        @ ''use the transform decision. Migrate multi-step rewriting to an annotator''))
    else
    rbind (reject_unknown_members obj output_members ''policy output'') (\<lambda>_.
    rbind (reason_field obj) (\<lambda>r.
    rbind (string_field obj ''message'') (\<lambda>msg.
    rbind (warnings_field obj) (\<lambda>warnings0.
    rbind (result_labels_field obj) (\<lambda>labels.
    rbind (approval_field obj) (\<lambda>approval0.
    rbind (evidence_field obj) (\<lambda>ev0.
    rbind (map_decision decision_name r msg warnings0 approval0) (\<lambda>(dec, warnings1, approval).
    if list_ex (\<lambda>w. w_reason w = Some EVIDENCE_TRUNCATED_REASON) warnings1 then
      Inl (PolicyOutputInvalid
        ''policy output warnings must not use the runtime owned evidence_truncated reason'')
    else if approval \<noteq> None \<and> dec \<noteq> Deny then
      Inl (PolicyOutputInvalid ''approval is only permitted on the deny decision'')
    else
    rbind (transform_for ah dec (map_of obj ''transform'')) (\<lambda>tr.
    rbind (case ev0 of
             None \<Rightarrow> Inr (None, warnings1)
           | Some e \<Rightarrow>
               rbind (degrade_evidence ah sha e (ah_evidence_max_bytes ah)) (\<lambda>d.
               Inr (Some (d_evidence d),
                    warnings1 @ (case d_warning d of Some w \<Rightarrow> [w] | None \<Rightarrow> [])))) (\<lambda>(ev, warnings).
    let v = \<lparr>v_decision = dec, v_reason = r, v_message = msg, v_warnings = warnings,
             v_approval = approval, v_transform = tr, v_evidence = ev, v_result_labels = labels\<rparr>
    in case ah_validate ah v of
         Some err \<Rightarrow> Inl (PolicyOutputInvalid
           (''verdict fails '' @ [CHR 0xC2, CHR 0xA7] @ ''5: '' @ err))
       | None \<Rightarrow> Inr v))))))))))))"

section \<open>Verdicts for runtime errors\<close>

definition MAX_RUNTIME_ERROR_DETAIL_BYTES :: nat where
  "MAX_RUNTIME_ERROR_DETAIL_BYTES = 256"

function back_to_boundary :: "string \<Rightarrow> nat \<Rightarrow> nat" where
  "back_to_boundary s i = (if is_char_boundary s i then i else back_to_boundary s (i - 1))"
  by pat_completeness auto
termination
  by (relation "measure snd") (auto simp: is_char_boundary_def)

declare back_to_boundary.simps [simp del]

definition bounded_detail :: "string \<Rightarrow> string" where
  "bounded_detail d =
    (let cleaned = concat (filter (\<lambda>c. \<not> is_control c) (chars d)) in
     if length cleaned \<le> MAX_RUNTIME_ERROR_DETAIL_BYTES then cleaned
     else take (back_to_boundary cleaned (MAX_RUNTIME_ERROR_DETAIL_BYTES - 3)) cleaned @ ''...'')"

definition runtime_error_verdict :: "agent_hooks \<Rightarrow> runtime_error \<Rightarrow> verdict" where
  "runtime_error_verdict ah e =
    (let message = (case e of
           AnnotationFailed d \<Rightarrow>
             (if d \<noteq> [] then ''Request blocked by Agent Control Specification. '' @ bounded_detail d
              else ''Request blocked by Agent Control Specification.'')
         | _ \<Rightarrow> ''Request blocked by Agent Control Specification.'')
     in (ah_allow ah)\<lparr>v_decision := Deny, v_reason := Some (reason e), v_message := Some message\<rparr>)"

end
