(* ===== verification/Evidence_Laws.thy ===== *)
theory Evidence_Laws
  imports Policy_Output
begin

text \<open>
  The evidence cap.  The size that matters is the length of the RFC 8785 form, which
  is external: \<open>canonical_size_law\<close> states the one thing relied on, that an object's
  form is its braces, its members and the commas between them.  From it follow that the
  canonical size grows with the number of pointers kept, hence that the binary
  search returns the longest prefix that fits.
\<close>

section \<open>Binary search\<close>

lemma prefix_search_result:
  assumes t: "\<And>n. test n = Inr (P n)"
  shows "lo < hi \<Longrightarrow> \<exists>k. prefix_search test lo hi = Inr k \<and> lo \<le> k \<and> k < hi
    \<and> (k = lo \<or> P k) \<and> (Suc k = hi \<or> \<not> P (Suc k))"
proof (induction "hi - lo" arbitrary: lo hi rule: less_induct)
  case less
  define mid where "mid = lo + (hi - lo) div 2"
  show ?case
  proof (cases "hi - lo > 1")
    case True
    then have b: "lo < mid" "mid < hi"
      by (auto simp: mid_def)
    have eq: "prefix_search test lo hi =
        (if P mid then prefix_search test mid hi else prefix_search test lo mid)"
      using True by (subst prefix_search.simps) (simp add: Let_def t mid_def)
    show ?thesis
    proof (cases "P mid")
      case True
      then show ?thesis
        using less.hyps [of hi mid] b eq by fastforce
    next
      case False
      then show ?thesis
        using less.hyps [of mid lo] b eq by fastforce
    qed
  next
    case False
    then show ?thesis
      using less.prems by (subst prefix_search.simps) auto
  qed
qed

text \<open>With a predicate closed downwards the search finds the threshold.\<close>

lemma prefix_search_threshold:
  assumes t: "\<And>n. test n = Inr (P n)" and base: "P 0"
    and down: "\<And>m n. m \<le> n \<Longrightarrow> n \<le> bound \<Longrightarrow> P n \<Longrightarrow> P m"
  shows "\<exists>k. prefix_search test 0 (bound + 1) = Inr k \<and> k \<le> bound \<and> (\<forall>m\<le>bound. P m \<longleftrightarrow> m \<le> k)"
proof -
  obtain k where k: "prefix_search test 0 (bound + 1) = Inr k" "k < bound + 1"
      "k = 0 \<or> P k" "Suc k = bound + 1 \<or> \<not> P (Suc k)"
    using prefix_search_result [of test P 0 "bound + 1"] t by auto
  have "P m \<longleftrightarrow> m \<le> k" if m: "m \<le> bound" for m
  proof
    assume "P m"
    then have "P (Suc k)" if "Suc k \<le> m"
      using that m by (rule_tac down)
    then show "m \<le> k"
      using k(4) m by (cases "Suc k \<le> m") auto
  next
    assume "m \<le> k"
    then show "P m"
      using k(2,3) base down [of m k] by auto
  qed
  with k show ?thesis
    by auto
qed

section \<open>Sizes\<close>

definition evidence_size :: "agent_hooks \<Rightarrow> evidence \<Rightarrow> nat" where
  "evidence_size ah e = (case canonical_evidence ah e of Inr text \<Rightarrow> length text | Inl _ \<Rightarrow> 0)"

definition canonical_size_law ::
  "agent_hooks \<Rightarrow> (string option \<Rightarrow> nat) \<Rightarrow> (string option \<Rightarrow> nat) \<Rightarrow> (string \<times> string \<Rightarrow> nat) \<Rightarrow> bool"
where
  "canonical_size_law ah bare frame member \<longleftrightarrow>
    (\<forall>e. \<exists>v. ah_evidence_value ah e = Some v \<and> length (ah_canonical_json ah v) =
      (if verification_pointers e = [] then bare (artefact e)
       else frame (artefact e) + sum_list (map (\<lambda>p. member p + 1) (verification_pointers e))))
    \<and> (\<forall>a. bare a \<le> frame a)"

lemma size_law_total:
  assumes "canonical_size_law ah bare frame member"
  shows "\<exists>text. canonical_evidence ah e = Inr text \<and> length text = evidence_size ah e"
    and "evidence_size ah e = (if verification_pointers e = [] then bare (artefact e)
       else frame (artefact e) + sum_list (map (\<lambda>p. member p + 1) (verification_pointers e)))"
proof -
  obtain v where "ah_evidence_value ah e = Some v" "length (ah_canonical_json ah v) =
      (if verification_pointers e = [] then bare (artefact e)
       else frame (artefact e) + sum_list (map (\<lambda>p. member p + 1) (verification_pointers e)))"
    using assms unfolding canonical_size_law_def by meson
  then show "\<exists>text. canonical_evidence ah e = Inr text \<and> length text = evidence_size ah e"
    "evidence_size ah e = (if verification_pointers e = [] then bare (artefact e)
       else frame (artefact e) + sum_list (map (\<lambda>p. member p + 1) (verification_pointers e)))"
    by (simp_all add: evidence_size_def canonical_evidence_def)
qed

lemma within_cap_size:
  "canonical_size_law ah bare frame member \<Longrightarrow>
    evidence_within_cap ah e cap = Inr (evidence_size ah e \<le> cap)"
  using size_law_total(1) [of ah bare frame member e] by (auto simp: evidence_within_cap_def)

lemma bt_insert_mset: "k \<notin> fst ` set m \<Longrightarrow> mset (bt_insert k v m) = add_mset (k, v) (mset m)"
  by (induction k v m rule: bt_insert.induct) auto

lemma bt_collect_snoc: "bt_collect (xs @ [(k, v)]) = bt_insert k v (bt_collect xs)"
  by (simp add: bt_collect_def)

lemma bt_collect_mset: "distinct (map fst xs) \<Longrightarrow> mset (bt_collect xs) = mset xs"
proof (induction xs rule: rev_induct)
  case (snoc x xs)
  have "fst ` set (bt_collect xs) = fst ` set xs"
    using snoc by (metis butlast_snoc distinct_butlast map_butlast mset_eq_setD)
  then show ?case
    using snoc by (cases x) (auto simp: bt_collect_snoc bt_insert_mset)
qed (simp add: bt_collect_def)

lemma sorted_pointers_distinct:
  "bt_inv (verification_pointers e) \<Longrightarrow> distinct (map fst (sorted_pointers e))"
  unfolding sorted_pointers_def
  by (metis bt_inv_distinct mset_eq_imp_distinct_iff mset_map mset_sort)

lemma bt_collect_empty_iff: "distinct (map fst xs) \<Longrightarrow> bt_collect xs = [] \<longleftrightarrow> xs = []"
  using bt_collect_mset by (metis mset_zero_iff)

lemma sum_list_mset: "mset xs = mset ys \<Longrightarrow> sum_list (map f xs) = (sum_list (map f ys) :: nat)"
  by (simp flip: sum_mset_sum_list)

lemma size_with_prefix:
  assumes "canonical_size_law ah bare frame member" "distinct (map fst pointers)"
  shows "evidence_size ah (with_prefix art pointers n) =
    (if take n pointers = [] then bare art
     else frame art + sum_list (map (\<lambda>p. member p + 1) (take n pointers)))"
proof -
  have d: "distinct (map fst (take n pointers))"
    using assms(2) by (metis distinct_take take_map)
  have "sum_list (map (\<lambda>p. member p + 1) (bt_collect (take n pointers))) =
      sum_list (map (\<lambda>p. member p + 1) (take n pointers))"
    using bt_collect_mset [OF d] by (rule sum_list_mset)
  then show ?thesis
    using size_law_total(2) [OF assms(1)] bt_collect_empty_iff [OF d] by (simp add: with_prefix_def)
qed

lemma size_prefix_mono:
  assumes "canonical_size_law ah bare frame member" "distinct (map fst pointers)" "m \<le> n"
  shows "evidence_size ah (with_prefix art pointers m) \<le> evidence_size ah (with_prefix art pointers n)"
proof -
  obtain rest where "take n pointers = take m pointers @ rest"
    using assms(3) by (metis le_Suc_ex take_add)
  moreover have "bare art \<le> frame art"
    using assms(1) by (simp add: canonical_size_law_def)
  ultimately show ?thesis
    by (simp add: size_with_prefix [OF assms(1,2)])
qed

section \<open>The degraded evidence\<close>

text \<open>What \<open>degrade_evidence\<close> keeps of an artefact: all of it, if alone it fits, or none.\<close>

definition kept_artefact :: "agent_hooks \<Rightarrow> evidence \<Rightarrow> nat \<Rightarrow> string option" where
  "kept_artefact ah e cap =
    (if evidence_size ah (e\<lparr>verification_pointers := []\<rparr>) \<le> cap then artefact e else None)"

lemma degrade_small:
  assumes "canonical_size_law ah bare frame member" "evidence_size ah e \<le> cap"
  shows "degrade_evidence ah sha e cap = Inr \<lparr>d_evidence = e, d_warning = None\<rparr>"
  using assms size_law_total(1) [OF assms(1), of e] by (auto simp: degrade_evidence_def)

lemma degrade_large:
  assumes law: "canonical_size_law ah bare frame member" and inv: "bt_inv (verification_pointers e)"
    and base: "bare None \<le> cap" and large: "cap < evidence_size ah e"
  obtains k w where
    "degrade_evidence ah sha e cap = Inr \<lparr>d_evidence =
        with_prefix (kept_artefact ah e cap) (sorted_pointers e) k, d_warning = Some w\<rparr>"
    "w_reason w = Some EVIDENCE_TRUNCATED_REASON"
    "k \<le> length (sorted_pointers e)"
    "\<And>m. m \<le> length (sorted_pointers e) \<Longrightarrow>
      evidence_size ah (with_prefix (kept_artefact ah e cap) (sorted_pointers e) m) \<le> cap \<longleftrightarrow> m \<le> k"
proof -
  let ?art = "kept_artefact ah e cap"
  let ?ps = "sorted_pointers e"
  let ?size = "\<lambda>n. evidence_size ah (with_prefix ?art ?ps n)"
  note dist = sorted_pointers_distinct [OF inv]
  have test: "evidence_within_cap ah (with_prefix ?art ?ps n) cap = Inr (?size n \<le> cap)" for n
    by (rule within_cap_size [OF law])
  have down: "?size m \<le> cap" if "m \<le> n" "n \<le> length ?ps" "?size n \<le> cap" for m n
    using size_prefix_mono [OF law dist that(1), of ?art] that(3) by (rule order_trans)
  have start: "?size 0 \<le> cap"
    using base size_with_prefix [OF law dist, of _ 0] size_law_total(2) [OF law, of "e\<lparr>verification_pointers := []\<rparr>"]
    by (simp add: kept_artefact_def)
  have "\<exists>k. prefix_search (\<lambda>n. evidence_within_cap ah (with_prefix ?art ?ps n) cap)
        0 (length ?ps + 1) = Inr k \<and> k \<le> length ?ps \<and> (\<forall>m\<le>length ?ps. ?size m \<le> cap \<longleftrightarrow> m \<le> k)"
    using test start down by (rule prefix_search_threshold)
  then obtain k where k: "prefix_search (\<lambda>n. evidence_within_cap ah (with_prefix ?art ?ps n) cap)
        0 (length ?ps + 1) = Inr k" "k \<le> length ?ps"
      "\<And>m. m \<le> length ?ps \<Longrightarrow> ?size m \<le> cap \<longleftrightarrow> m \<le> k"
    by blast
  obtain bytes where bytes: "canonical_evidence ah e = Inr bytes" "length bytes = evidence_size ah e"
    using size_law_total(1) [OF law] by blast
  show thesis
    using that k bytes large
    by (auto simp: degrade_evidence_def within_cap_size [OF law] Let_def kept_artefact_def
        truncation_warning_def)
qed

section \<open>The example instance obeys the size law\<close>

definition example_bare :: "string option \<Rightarrow> nat" where
  "example_bare a = (case a of None \<Rightarrow> 2 | Some s \<Rightarrow> 13 + length (jcs_string s))"

definition example_frame :: "string option \<Rightarrow> nat" where
  "example_frame a = (case a of None \<Rightarrow> 27 | Some s \<Rightarrow> 39 + length (jcs_string s))"

definition example_member :: "string \<times> string \<Rightarrow> nat" where
  "example_member p = length (jcs_string (fst p)) + 1 + length (jcs_string (snd p))"

lemma join_length:
  "xs \<noteq> [] \<Longrightarrow> Suc (length (join '','' xs)) = sum_list (map (\<lambda>x. length x + 1) xs)"
  by (cases xs) (simp_all add: join_def length_concat comp_def)

lemma sum_list_sort_key:
  "sum_list (map f (sort_key k xs)) = (sum_list (map f xs) :: nat)"
  by (rule sum_list_mset) simp

lemma sort_key_empty_iff: "sort_key k xs = [] \<longleftrightarrow> xs = []"
  by (metis length_0_conv length_sort)

lemma jcs_object_length:
  "m \<noteq> [] \<Longrightarrow> length (jcs (JObject m)) =
    1 + sum_list (map (\<lambda>p. length (jcs_string (fst p)) + 1 + length (jcs (snd p)) + 1) m)"
proof -
  assume "m \<noteq> []"
  let ?parts = "map snd (sort_key (encode_utf16 \<circ> fst)
        (map (\<lambda>p. (fst p, jcs_string (fst p) @ '':'' @ jcs (snd p))) m))"
  have "?parts \<noteq> []"
    using \<open>m \<noteq> []\<close> by (simp add: sort_key_empty_iff)
  then have "Suc (length (join '','' ?parts)) = sum_list (map (\<lambda>x. length x + 1) ?parts)"
    by (rule join_length)
  also have "\<dots> = sum_list (map (\<lambda>p. length (jcs_string (fst p)) + 1 + length (jcs (snd p)) + 1) m)"
    by (simp add: sum_list_sort_key comp_def)
  finally show ?thesis
    by simp
qed

lemma key_lengths:
  "length (jcs_string ''artefact'') = 10" "length (jcs_string ''verification_pointers'') = 23"
  by (simp_all add: jcs_string_def jcs_escape_def)

lemma example_size_law: "canonical_size_law (example_hooks cap) example_bare example_frame example_member"
proof -
  have pointers: "length (jcs (JObject (map (\<lambda>p. (fst p, JString (snd p))) ps))) =
      1 + sum_list (map (\<lambda>p. example_member p + 1) ps)" if "ps \<noteq> []" for ps :: "(string \<times> string) list"
    using that by (subst jcs_object_length) (simp_all add: comp_def example_member_def)
  have "length (jcs (the (example_evidence_value e))) =
      (if verification_pointers e = [] then example_bare (artefact e)
       else example_frame (artefact e) + sum_list (map (\<lambda>p. example_member p + 1) (verification_pointers e)))" for e
  proof (cases "verification_pointers e = []")
    case True
    then show ?thesis
      by (cases "artefact e")
        (simp_all add: example_evidence_value_def example_bare_def join_def jcs_object_length
          key_lengths del: jcs.simps(8), simp add: join_def)
  next
    case False
    then show ?thesis
      using pointers [OF False]
      by (cases "artefact e")
        (simp_all add: example_evidence_value_def example_frame_def jcs_object_length key_lengths
          del: jcs.simps(8))
  qed
  moreover have "example_bare a \<le> example_frame a" for a
    by (cases a) (simp_all add: example_bare_def example_frame_def)
  ultimately show ?thesis
    unfolding canonical_size_law_def
    by (auto simp: example_hooks_def example_evidence_value_def)
qed

end
