(* ===== verification/Verdict_Laws.thy ===== *)
theory Verdict_Laws
  imports Evidence_Laws
begin

text \<open>
  What a normalized verdict is, and what the verdict for a runtime error is.  One
  elimination rule (\<open>normalize_okE\<close>) opens a successful normalization; the
  properties of the verdict are read off it.
\<close>

section \<open>Successful normalization\<close>

lemma normalize_okE:
  assumes "normalize_policy_output ah sha output = Inr v"
  obtains obj name warnings0 approval0 ev0 dec warnings1 approval ev warnings where
    "output = JObject obj" "map_of obj ''decision'' = Some (JString name)"
    "map_of obj ''effects'' = None"
    "reject_unknown_members obj output_members ''policy output'' = Inr ()"
    "reason_field obj = Inr (v_reason v)" "string_field obj ''message'' = Inr (v_message v)"
    "warnings_field obj = Inr warnings0" "result_labels_field obj = Inr (v_result_labels v)"
    "approval_field obj = Inr approval0" "evidence_field obj = Inr ev0"
    "map_decision name (v_reason v) (v_message v) warnings0 approval0 = Inr (dec, warnings1, approval)"
    "dec = v_decision v" "approval = v_approval v"
    "\<not> list_ex (\<lambda>w. w_reason w = Some EVIDENCE_TRUNCATED_REASON) warnings1"
    "v_approval v \<noteq> None \<Longrightarrow> v_decision v = Deny"
    "transform_for ah (v_decision v) (map_of obj ''transform'') = Inr (v_transform v)"
    "ev = v_evidence v" "warnings = v_warnings v"
    "(case ev0 of None \<Rightarrow> Inr (None, warnings1)
      | Some e \<Rightarrow> rbind (degrade_evidence ah sha e (ah_evidence_max_bytes ah)) (\<lambda>d.
          Inr (Some (d_evidence d), warnings1 @ (case d_warning d of Some w \<Rightarrow> [w] | None \<Rightarrow> [])))) =
      Inr (ev, warnings)"
    "ah_validate ah v = None"
  using assms unfolding normalize_policy_output_def
  by (auto simp: rbind_eq_Inr_iff as_object_eq_Some_iff as_str_eq_Some_iff bind_eq_Some_conv Let_def
      split: if_splits prod.splits option.splits)

definition unreserved :: "string option \<Rightarrow> bool" where
  "unreserved r = (case r of None \<Rightarrow> True | Some text \<Rightarrow>
     \<not> starts_with text ''runtime_error:'' \<and> \<not> starts_with text ''host_error:'')"

lemma check_prefixes_ok_iff: "check_prefixes lead r = Inr () \<longleftrightarrow> unreserved r"
  by (cases r) (simp_all add: check_prefixes_def unreserved_def RESERVED_PREFIXES_def)

lemma reason_field_unreserved: "reason_field obj = Inr r \<Longrightarrow> unreserved r"
  by (auto simp: reason_field_def rbind_eq_Inr_iff check_prefixes_ok_iff)

lemma warning_entry_unreserved: "warning_entry item = Inr w \<Longrightarrow> unreserved (w_reason w)"
  by (auto simp: warning_entry_def rbind_eq_Inr_iff check_prefixes_ok_iff)

lemma warnings_field_unreserved:
  assumes "warnings_field obj = Inr ws"
  shows "list_all (\<lambda>w. unreserved (w_reason w)) ws"
proof -
  have "list_all (\<lambda>w. unreserved (w_reason w)) ws" if "list_all2 (\<lambda>x y. warning_entry x = Inr y) items ws" for items
    using that by (induction rule: list_all2_induct) (auto dest: warning_entry_unreserved)
  then show ?thesis
    using assms by (auto simp: warnings_field_def try_map_ok_iff split: option.splits json.splits)
qed

lemma map_decision_warnings:
  assumes "map_decision name r msg warnings approval = Inr (dec, warnings', approval')"
    "unreserved r" "list_all (\<lambda>w. unreserved (w_reason w)) warnings"
  shows "list_all (\<lambda>w. unreserved (w_reason w)) warnings'"
  using assms by (auto simp: map_decision_def split: if_splits)

lemma degrade_warning:
  assumes "degrade_evidence ah sha e cap = Inr d"
  shows "(d_warning d \<noteq> None \<longleftrightarrow> cap < evidence_size ah e)
    \<and> (\<forall>w. d_warning d = Some w \<longrightarrow> w_reason w = Some EVIDENCE_TRUNCATED_REASON)"
  using assms
  by (auto simp: degrade_evidence_def rbind_eq_Inr_iff Let_def evidence_size_def truncation_warning_def
      split: if_splits)

lemma unreserved_truncated: "unreserved (Some EVIDENCE_TRUNCATED_REASON)"
  by (simp add: unreserved_def EVIDENCE_TRUNCATED_REASON_def starts_with_def)

text \<open>The final warnings: those of the policy, then possibly the marker.\<close>

lemma final_warnings:
  assumes "(case ev0 of None \<Rightarrow> Inr (None, warnings1)
      | Some e \<Rightarrow> rbind (degrade_evidence ah sha e cap) (\<lambda>d.
          Inr (Some (d_evidence d), warnings1 @ (case d_warning d of Some w \<Rightarrow> [w] | None \<Rightarrow> [])))) =
      Inr (ev, warnings)"
  obtains extra where "warnings = warnings1 @ extra"
    "list_all (\<lambda>w. w_reason w = Some EVIDENCE_TRUNCATED_REASON) extra"
proof (cases ev0)
  case (Some e)
  then obtain d where d: "degrade_evidence ah sha e cap = Inr d"
      "warnings = warnings1 @ (case d_warning d of Some w \<Rightarrow> [w] | None \<Rightarrow> [])"
    using assms by (auto simp: rbind_eq_Inr_iff)
  then show thesis
    using that [OF d(2)] degrade_warning [OF d(1)] by (cases "d_warning d") auto
qed (use assms that in auto)

lemma transform_for_ok:
  assumes "transform_for ah dec member = Inr tr"
  shows "(dec = Transform \<longleftrightarrow> tr \<noteq> None) \<and> (\<forall>t. tr = Some t \<longrightarrow>
    is_rooted_at (t_path t) ''$target'' \<and> ah_parse_transform_path ah (t_path t) = None)"
  using assms
  by (auto simp: transform_for_def transform_field_def Let_def rbind_eq_Inr_iff
      split: if_splits option.splits)

section \<open>Failing normalization\<close>

definition output_error :: "runtime_error \<Rightarrow> bool" where
  "output_error e = (case e of
      PolicyOutputInvalid _ \<Rightarrow> True | TransformInvalid _ \<Rightarrow> True
    | TransformTargetForbidden _ \<Rightarrow> True | _ \<Rightarrow> False)"

lemma output_error_simps [simp]:
  "output_error (PolicyOutputInvalid d)" "output_error (TransformInvalid d)"
  "output_error (TransformTargetForbidden d)"
  by (simp_all add: output_error_def)

lemma small_field_errors [errors_in_intros]:
  "errors_in output_error (reject_unknown_members obj allowed location)"
  "errors_in output_error (string_field obj key)"
  "errors_in output_error (check_prefixes lead r)"
  "errors_in output_error (approval_field obj)"
  "errors_in output_error (artefact_member obj)"
  "errors_in output_error (canonical_evidence ah ev)"
  "errors_in output_error (map_decision n r m w a)"
  by (auto simp: reject_unknown_members_def string_field_def check_prefixes_def approval_field_def
      artefact_member_def canonical_evidence_def map_decision_def
      intro!: errors_in_intros split: option.split json.split)

lemma list_field_errors [errors_in_intros]:
  "errors_in output_error (reason_field obj)"
  "errors_in output_error (warning_entry item)"
  "errors_in output_error (result_labels_field obj)"
  "errors_in output_error (pointer_entries m)"
  unfolding reason_field_def warning_entry_def result_labels_field_def pointer_entries_def
  by (auto intro!: errors_in_intros split: option.split json.split)

lemma nested_field_errors [errors_in_intros]:
  "errors_in output_error (warnings_field obj)"
  "errors_in output_error (pointers_member obj)"
  "errors_in output_error (transform_field ah member)"
  unfolding warnings_field_def pointers_member_def transform_field_def
  by (auto intro!: errors_in_intros split: option.split json.split)

lemma evidence_entry_errors [errors_in_intros]: "errors_in output_error (evidence_entry item)"
  unfolding evidence_entry_def by (auto intro!: errors_in_intros)

lemma evidence_field_errors [errors_in_intros]: "errors_in output_error (evidence_field obj)"
  unfolding evidence_field_def by (auto intro!: errors_in_intros split: option.split json.split)

lemma transform_for_errors [errors_in_intros]: "errors_in output_error (transform_for ah dec member)"
  unfolding transform_for_def by (auto simp: Let_def intro!: errors_in_intros)

lemma errors_in_prefix_search [errors_in_intros]:
  "(\<And>n. errors_in P (test n)) \<Longrightarrow> errors_in P (prefix_search test lo hi)"
proof (induction "hi - lo" arbitrary: lo hi rule: less_induct)
  case less
  then show ?case
    by (subst prefix_search.simps) (auto simp: Let_def intro!: errors_in_rbind)
qed

lemma degrade_errors [errors_in_intros]: "errors_in output_error (degrade_evidence ah sha ev cap)"
  unfolding degrade_evidence_def evidence_within_cap_def by (intro errors_in_intros)

lemma normalize_errors: "errors_in output_error (normalize_policy_output ah sha output)"
  unfolding normalize_policy_output_def by (intro errors_in_intros output_error_simps)

section \<open>Bounded details\<close>

lemma back_to_boundary_spec:
  "back_to_boundary s i \<le> i \<and> is_char_boundary s (back_to_boundary s i)"
proof (induction i)
  case (Suc i)
  then show ?case
    by (cases "is_char_boundary s (Suc i)") (simp_all add: back_to_boundary.simps [of s "Suc i"])
qed (simp add: back_to_boundary.simps is_char_boundary_def)

lemma cleaned_chars: "chars (concat (filter P (chars d))) = filter P (chars d)"
  by (intro chars_concat chunks_filter chunks_chars)

section \<open>Properties\<close>

text \<open>
  C9: A normalized verdict satisfies the contract.  If the output of a policy
  dispatcher normalizes, the verdict passed the agent-hooks validation; it carries a transform
  exactly when its decision is \<open>transform\<close>, the transform's path is rooted at \<open>$target\<close>
  and parses with the host's parser; it carries an approval only on a deny;
  and neither its reason nor the reason of any warning uses a reserved prefix.
\<close>

theorem normalized_verdict_contract:
  assumes "normalize_policy_output ah sha output = Inr v"
  shows "ah_validate ah v = None
    \<and> (v_decision v = Transform \<longleftrightarrow> v_transform v \<noteq> None)
    \<and> (\<forall>t. v_transform v = Some t \<longrightarrow>
        is_rooted_at (t_path t) ''$target'' \<and> ah_parse_transform_path ah (t_path t) = None)
    \<and> (v_approval v \<noteq> None \<longrightarrow> v_decision v = Deny)
    \<and> unreserved (v_reason v) \<and> list_all (\<lambda>w. unreserved (w_reason w)) (v_warnings v)"
  using assms
proof (cases rule: normalize_okE)
  case (1 obj name warnings0 approval0 ev0 dec warnings1 approval ev warnings)
  have r: "unreserved (v_reason v)"
    using 1 by (simp add: reason_field_unreserved)
  have "list_all (\<lambda>w. unreserved (w_reason w)) warnings1"
    using map_decision_warnings [OF 1(11) r] warnings_field_unreserved [OF 1(7)] by simp
  moreover obtain extra where "warnings = warnings1 @ extra"
      "list_all (\<lambda>w. w_reason w = Some EVIDENCE_TRUNCATED_REASON) extra"
    using final_warnings [OF 1(19)] .
  ultimately have "list_all (\<lambda>w. unreserved (w_reason w)) (v_warnings v)"
    using 1(18) unreserved_truncated by (auto simp: list_all_iff)
  then show ?thesis
    using 1 r transform_for_ok [OF 1(16)] by simp
qed

definition sample_output :: json where
  "sample_output = JObject [(''decision'', JString ''transform''), (''reason'', JString ''pii''),
     (''transform'', JObject [(''path'', JString ''$target.text''), (''value'', JString ''***'')])]"

definition sample_verdict :: verdict where
  "sample_verdict = \<lparr>v_decision = Transform, v_reason = Some ''pii'', v_message = None, v_warnings = [],
     v_approval = None, v_transform = Some \<lparr>t_path = ''$target.text'', t_value = JString ''***''\<rparr>,
     v_evidence = None, v_result_labels = []\<rparr>"

lemmas normalize_eval =
  normalize_policy_output_def reject_unknown_members_def output_members_def reason_field_def
  string_field_def check_prefixes_def RESERVED_PREFIXES_def starts_with_def warnings_field_def
  result_labels_field_def approval_field_def evidence_field_def map_decision_def transform_for_def
  transform_field_def is_rooted_at_def strip_prefix_def example_hooks_def example_validate_def

lemma sample_normalizes:
  "normalize_policy_output (example_hooks 10240) (\<lambda>t. []) sample_output = Inr sample_verdict"
  by (simp add: sample_output_def sample_verdict_def normalize_eval)

theorem normalized_verdict_contract_witness:
  "is_rooted_at (t_path (the (v_transform sample_verdict))) ''$target'' \<and> unreserved (v_reason sample_verdict)"
  using normalized_verdict_contract [OF sample_normalizes] by (simp add: sample_verdict_def)

text \<open>
  C19: The five policy intents map to the three wire decisions.  A normalized
  output is an object whose members are all known, without \<open>effects\<close>, and whose decision
  is one of five names: \<open>allow\<close>, \<open>deny\<close> and \<open>transform\<close> keep theirs, \<open>warn\<close> becomes an
  allow that records the reason and message as a warning, and \<open>escalate\<close> a deny with an
  approval block.
\<close>

theorem normalized_decision_mapping:
  assumes "normalize_policy_output ah sha output = Inr v"
  shows "\<exists>obj name. output = JObject obj \<and> list_all (\<lambda>p. fst p \<in> set output_members) obj
    \<and> map_of obj ''effects'' = None \<and> map_of obj ''decision'' = Some (JString name)
    \<and> (name, v_decision v) \<in> {(''allow'', Allow), (''deny'', Deny), (''transform'', Transform),
        (''warn'', Allow), (''escalate'', Deny)}
    \<and> (name = ''warn'' \<longrightarrow> \<lparr>w_reason = v_reason v, w_message = v_message v\<rparr> \<in> set (v_warnings v))
    \<and> (name = ''escalate'' \<longrightarrow> v_approval v \<noteq> None)"
  using assms
proof (cases rule: normalize_okE)
  case (1 obj name warnings0 approval0 ev0 dec warnings1 approval ev warnings)
  have "list_all (\<lambda>p. fst p \<in> set output_members) obj"
    using 1(4) by (auto simp: reject_unknown_members_def list_ex_iff list_all_iff split: if_splits)
  moreover have "set warnings1 \<subseteq> set (v_warnings v)"
    using final_warnings [OF 1(19)] 1(18) by (metis Un_upper1 set_append)
  ultimately show ?thesis
    using 1(1-3,11) 1(12,13) [symmetric]
    by (intro exI [of _ obj] exI [of _ name]) (auto simp: map_decision_def intro: sym split: if_splits)
qed

theorem normalized_decision_mapping_witness:
  "\<exists>obj name. sample_output = JObject obj \<and> list_all (\<lambda>p. fst p \<in> set output_members) obj
    \<and> map_of obj ''effects'' = None \<and> map_of obj ''decision'' = Some (JString name)
    \<and> (name, v_decision sample_verdict) \<in> {(''allow'', Allow), (''deny'', Deny), (''transform'', Transform),
        (''warn'', Allow), (''escalate'', Deny)}
    \<and> (name = ''warn'' \<longrightarrow> \<lparr>w_reason = v_reason sample_verdict, w_message = v_message sample_verdict\<rparr>
        \<in> set (v_warnings sample_verdict))
    \<and> (name = ''escalate'' \<longrightarrow> v_approval sample_verdict \<noteq> None)"
  by (rule normalized_decision_mapping [OF sample_normalizes])

text \<open>
  C20: Normalization fails only with the reserved output errors: every refusal
  is \<open>policy_output_invalid\<close>, \<open>transform_invalid\<close> or \<open>transform_target_forbidden\<close>, so a
  malformed policy answer is never reported as another kind of failure.
\<close>

theorem normalization_errors_classified:
  "case normalize_policy_output ah sha output of
     Inr _ \<Rightarrow> True
   | Inl e \<Rightarrow> reason e \<in> {''runtime_error:policy_output_invalid'', ''runtime_error:transform_invalid'',
       ''runtime_error:transform_target_forbidden''}"
proof -
  have "reason e \<in> {''runtime_error:policy_output_invalid'', ''runtime_error:transform_invalid'',
       ''runtime_error:transform_target_forbidden''}" if "output_error e" for e
    using that by (cases e) (simp_all add: output_error_def)
  then show ?thesis
    using normalize_errors [of ah sha "output"] by (simp add: errors_in_def split: sum.splits)
qed

text \<open>
  C19: The truncation marker is authentic.  A normalized verdict carries a
  warning with the runtime's \<open>evidence_truncated\<close> reason exactly when the policy returned
  evidence over the cap, so a policy can neither forge nor suppress it.
\<close>

theorem truncation_marker_authentic:
  assumes "normalize_policy_output ah sha (JObject obj) = Inr v"
  shows "list_ex (\<lambda>w. w_reason w = Some EVIDENCE_TRUNCATED_REASON) (v_warnings v) \<longleftrightarrow>
    (\<exists>e. evidence_field obj = Inr (Some e) \<and> ah_evidence_max_bytes ah < evidence_size ah e)"
  using assms
proof (cases rule: normalize_okE)
  case (1 obj' name warnings0 approval0 ev0 dec warnings1 approval ev warnings)
  then have obj: "obj' = obj"
    by simp
  show ?thesis
  proof (cases ev0)
    case None
    then show ?thesis
      using 1(10,14,17-19) obj by simp
  next
    case (Some e)
    then obtain d where d: "degrade_evidence ah sha e (ah_evidence_max_bytes ah) = Inr d"
        "v_warnings v = warnings1 @ (case d_warning d of Some w \<Rightarrow> [w] | None \<Rightarrow> [])"
      using 1(17-19) by (auto simp: rbind_eq_Inr_iff)
    then show ?thesis
      using 1(10,14) Some obj degrade_warning [OF d(1)] by (cases "d_warning d") auto
  qed
qed

theorem truncation_marker_authentic_witness:
  "\<not> list_ex (\<lambda>w. w_reason w = Some EVIDENCE_TRUNCATED_REASON) (v_warnings sample_verdict)"
  using truncation_marker_authentic [OF sample_normalizes [unfolded sample_output_def]]
  by (simp add: evidence_field_def)

text \<open>
  C17: Degrading evidence never fails and always fits.  For an RFC 8785 serializer and a
  cap that admits the empty object, \<open>degrade_evidence\<close> returns evidence within the cap: the
  original, without a warning, when that fits, and otherwise a part of it with the
  \<open>evidence_truncated\<close> warning.
\<close>

theorem degraded_evidence_fits:
  assumes "canonical_size_law ah bare frame member" "bt_inv (verification_pointers e)" "bare None \<le> cap"
  shows "\<exists>d. degrade_evidence ah sha e cap = Inr d \<and> evidence_size ah (d_evidence d) \<le> cap
    \<and> (if evidence_size ah e \<le> cap then d = \<lparr>d_evidence = e, d_warning = None\<rparr>
       else \<exists>w. d_warning d = Some w \<and> w_reason w = Some EVIDENCE_TRUNCATED_REASON)"
proof (cases "evidence_size ah e \<le> cap")
  case True
  then show ?thesis
    using degrade_small [OF assms(1) True] by auto
next
  case False
  then obtain k w where "degrade_evidence ah sha e cap = Inr \<lparr>d_evidence =
        with_prefix (kept_artefact ah e cap) (sorted_pointers e) k, d_warning = Some w\<rparr>"
      "w_reason w = Some EVIDENCE_TRUNCATED_REASON" "k \<le> length (sorted_pointers e)"
      "evidence_size ah (with_prefix (kept_artefact ah e cap) (sorted_pointers e) k) \<le> cap"
    using degrade_large [OF assms] by (metis not_le order_refl)
  with False show ?thesis
    by auto
qed

definition sample_evidence :: evidence where
  "sample_evidence = \<lparr>artefact = None,
     verification_pointers = [(''a'', ''https://one''), (''b'', ''https://two'')]\<rparr>"

theorem degraded_evidence_fits_witness:
  "\<exists>d. degrade_evidence (example_hooks 50) (\<lambda>t. []) sample_evidence 50 = Inr d
    \<and> evidence_size (example_hooks 50) (d_evidence d) \<le> 50"
  using degraded_evidence_fits [OF example_size_law, of sample_evidence 50]
  by (auto simp: sample_evidence_def bt_inv_def example_bare_def)

text \<open>
  C33: Degrading keeps as much as fits.  Evidence over the cap keeps its artefact whole
  if the artefact alone fits and drops it otherwise, never cutting it; and of the
  verification pointers, in RFC 8785 member order, it keeps the longest prefix that
  fits beside that artefact: the binary search is optimal.
\<close>

theorem degraded_evidence_maximal:
  assumes "canonical_size_law ah bare frame member" "bt_inv (verification_pointers e)"
    and "bare None \<le> cap" "cap < evidence_size ah e"
  shows "\<exists>d k. degrade_evidence ah sha e cap = Inr d \<and> k \<le> length (sorted_pointers e)
    \<and> d_evidence d = with_prefix
        (if evidence_size ah (e\<lparr>verification_pointers := []\<rparr>) \<le> cap then artefact e else None)
        (sorted_pointers e) k
    \<and> (\<forall>m \<le> length (sorted_pointers e).
        evidence_size ah (with_prefix (artefact (d_evidence d)) (sorted_pointers e) m) \<le> cap \<longleftrightarrow> m \<le> k)"
proof -
  obtain k w where k: "degrade_evidence ah sha e cap = Inr \<lparr>d_evidence =
        with_prefix (kept_artefact ah e cap) (sorted_pointers e) k, d_warning = Some w\<rparr>"
      "k \<le> length (sorted_pointers e)"
      "\<And>m. m \<le> length (sorted_pointers e) \<Longrightarrow>
        evidence_size ah (with_prefix (kept_artefact ah e cap) (sorted_pointers e) m) \<le> cap \<longleftrightarrow> m \<le> k"
    using degrade_large [OF assms] by blast
  have "artefact (with_prefix a ps n) = a" for a ps n
    by (simp add: with_prefix_def)
  with k show ?thesis
    by (auto simp: kept_artefact_def [symmetric])
qed

theorem degraded_evidence_maximal_witness:
  "\<exists>d k. degrade_evidence (example_hooks 50) (\<lambda>t. []) sample_evidence 50 = Inr d
    \<and> k \<le> length (sorted_pointers sample_evidence)"
proof -
  have size: "evidence_size (example_hooks 50) sample_evidence = 63"
    using size_law_total(2) [OF example_size_law, of 50 sample_evidence]
    by (simp add: sample_evidence_def example_frame_def example_member_def jcs_string_def jcs_escape_def)
  show ?thesis
    using degraded_evidence_maximal [OF example_size_law [of 50], of sample_evidence 50] size
    by (auto simp: sample_evidence_def bt_inv_def example_bare_def)
qed

text \<open>
  The detail shown in a synthesized verdict is bounded and clean.  It
  is at most 256 bytes; it is the detail's characters without control characters, all of them
  or, when they are too long, a whole number of leading ones followed by an ellipsis,
  so it never ends in a broken character.
\<close>

theorem bounded_detail_clean:
  "length (bounded_detail d) \<le> MAX_RUNTIME_ERROR_DETAIL_BYTES
   \<and> (let kept = filter (\<lambda>c. \<not> is_control c) (chars d) in
      if length (concat kept) \<le> MAX_RUNTIME_ERROR_DETAIL_BYTES then chars (bounded_detail d) = kept
      else \<exists>k. bounded_detail d = concat (take k kept) @ ''...'')"
proof -
  let ?kept = "filter (\<lambda>c. \<not> is_control c) (chars d)"
  let ?i = "back_to_boundary (concat ?kept) (MAX_RUNTIME_ERROR_DETAIL_BYTES - 3)"
  have i: "?i \<le> 253" "is_char_boundary (concat ?kept) ?i"
    using back_to_boundary_spec [of "concat ?kept" 253] by (simp_all add: MAX_RUNTIME_ERROR_DETAIL_BYTES_def)
  have "\<exists>k. take ?i (concat ?kept) = concat (take k ?kept)"
    if "\<not> length (concat ?kept) \<le> MAX_RUNTIME_ERROR_DETAIL_BYTES"
    using boundary_take_chars [OF i(2)] i(1) that
    by (simp add: cleaned_chars MAX_RUNTIME_ERROR_DETAIL_BYTES_def)
  with i(1) show ?thesis
    by (auto simp: bounded_detail_def Let_def cleaned_chars MAX_RUNTIME_ERROR_DETAIL_BYTES_def)
qed

end
