(* ===== verification/Runtime.thy ===== *)
theory Runtime
  imports Manifest_Laws Run_Monad Telemetry Verdict_Laws
begin

text \<open>
  The evaluation pipeline (\<open>runtime.rs\<close>): construction of a runtime from a manifest,
  the staged collection of annotations, the policy call and the synthesis of a verdict.

  The host's callbacks are arguments.  A callback may keep state, so its answer is a
  function of the whole trace of actions so far; it returns a result or panics.  What the
  runtime does outwardly is the trace: telemetry events and the calls of the two
  dispatchers, in order.  The clock readings that end up in an event are a function of the
  trace too.  A sink that panics changes nothing (\<open>catch_unwind\<close> around \<open>emit\<close>), so emitting
  is appending to the trace.
\<close>

section \<open>Host callbacks and the trace\<close>

datatype panic_payload = StrPayload string | StringPayload string | OtherPayload

fun panic_detail :: "panic_payload \<Rightarrow> string" where
  "panic_detail (StrPayload m) = m"
| "panic_detail (StringPayload m) = m"
| "panic_detail OtherPayload = ''unknown panic''"

datatype outcome = Returned "runtime_error + json" | Panicked panic_payload

datatype action =
    Emitted telemetry_event
  | AnnotatorCalled string annotator_invocation json
  | PolicyCalled prepared_invocation

type_synonym trace = "action list"

record host =
  h_dispatch :: "trace \<Rightarrow> string \<Rightarrow> annotator_invocation \<Rightarrow> json \<Rightarrow> outcome"
  h_evaluate :: "trace \<Rightarrow> prepared_invocation \<Rightarrow> outcome"
  h_elapsed_ms :: "trace \<Rightarrow> 64 word"

text \<open>Computations that may fail and extend the trace.\<close>

type_synonym ('e, 'a) run = "(trace, 'e, 'a) stateful"

definition emit_event :: "telemetry_event \<Rightarrow> trace \<Rightarrow> trace" where
  "emit_event ev t = t @ [Emitted ev]"

section \<open>Construction\<close>

record annotation_plan_deps =
  ad_names :: "string list"
  ad_metadata :: string

record annotation_plan =
  plan_order :: "string list"
  plan_dependencies :: "(string \<times> annotation_plan_deps) list"

definition plan_entry ::
  "externals \<Rightarrow> manifest \<Rightarrow> string \<times> annotation_config \<Rightarrow> (string \<times> annotation_plan_deps) list
    \<Rightarrow> (runtime_error, (string \<times> annotation_plan_deps) list) result"
where
  "plan_entry x m entry deps =
    rbind (annotation_dependencies m (snd entry)) (\<lambda>names.
    if names = [] then Inr deps
    else
      rbind (map_err (\<lambda>err. ManifestInvalid (''cannot serialize dependencies for annotation ''
                @ quoted (fst entry) @ '': '' @ err))
              (x_to_string x (JArray (map JString names)))) (\<lambda>metadata.
      Inr (bt_insert (fst entry) \<lparr>ad_names = names, ad_metadata = metadata\<rparr> deps)))"

definition plan_prepare ::
  "externals \<Rightarrow> interception_point \<Rightarrow> point_config \<Rightarrow> manifest \<Rightarrow> (runtime_error, annotation_plan) result"
where
  "plan_prepare x point config m =
    rbind (annotation_dispatch_order point config m) (\<lambda>order.
    rbind (try_fold (plan_entry x m) (pc_annotations config) []) (\<lambda>deps.
    Inr \<lparr>plan_order = order, plan_dependencies = deps\<rparr>))"

record runtime =
  rt_manifest :: manifest
  rt_plans :: "(interception_point \<times> annotation_plan) list"
  rt_perf :: perf_telemetry
  rt_limits :: limits

definition with_telemetry_perf_and_limits ::
  "externals \<Rightarrow> manifest \<Rightarrow> perf_telemetry \<Rightarrow> limits \<Rightarrow> (runtime_error, runtime) result"
where
  "with_telemetry_perf_and_limits x m perf lim =
    rbind (manifest_validate x m) (\<lambda>_.
    if m_extends m \<noteq> [] then
      Inl (ManifestInvalid
        (''manifest '' @ quoted ''extends'' @ '' was not resolved; an enforcing runtime requires a fully ''
         @ ''composed manifest. Compose with Manifest::from_path, Manifest::from_yaml_chain, ''
         @ ''acs_builder_from_path, or acs_builder_from_yaml_chain; single-string loaders ''
         @ ''must be given an already-merged manifest''))
    else
      rbind (try_map (\<lambda>(point, config).
          rbind (plan_prepare x point config m) (\<lambda>plan. Inr (point, plan))) (m_points m)) (\<lambda>plans.
      Inr \<lparr>rt_manifest = m, rt_plans = bt_collect plans, rt_perf = perf, rt_limits = lim\<rparr>))"

text \<open>The sink is the consumer of the trace, so the constructors that differ only in the sink are one.\<close>

definition with_telemetry_and_perf :: "externals \<Rightarrow> manifest \<Rightarrow> perf_telemetry \<Rightarrow> (runtime_error, runtime) result" where
  "with_telemetry_and_perf x m perf = with_telemetry_perf_and_limits x m perf default_limits"

definition runtime_new :: "externals \<Rightarrow> manifest \<Rightarrow> (runtime_error, runtime) result" where
  "runtime_new x m = with_telemetry_and_perf x m Off"

definition with_limits :: "externals \<Rightarrow> manifest \<Rightarrow> limits \<Rightarrow> (runtime_error, runtime) result" where
  "with_limits x m lim = with_telemetry_perf_and_limits x m Off lim"

definition with_perf_telemetry_level :: "runtime \<Rightarrow> perf_telemetry \<Rightarrow> runtime" where
  "with_perf_telemetry_level rt perf = rt\<lparr>rt_perf := perf\<rparr>"

section \<open>Telemetry of the pipeline\<close>

definition policy_id_for :: "runtime \<Rightarrow> interception_point \<Rightarrow> string option" where
  "policy_id_for rt point = map_option (\<lambda>c. pb_id (pc_policy c)) (map_of (m_points (rt_manifest rt)) point)"

definition annotators_for :: "runtime \<Rightarrow> interception_point \<Rightarrow> string list" where
  "annotators_for rt point = (case map_of (m_points (rt_manifest rt)) point of
      Some c \<Rightarrow> map fst (pc_annotations c)
    | None \<Rightarrow> [])"

definition annotation_needs :: "runtime \<Rightarrow> interception_point \<Rightarrow> string \<Rightarrow> string option" where
  "annotation_needs rt point name =
    Option.bind (map_of (rt_plans rt) point) (\<lambda>plan.
      map_option ad_metadata (map_of (plan_dependencies plan) name))"

definition with_needs :: "string option \<Rightarrow> telemetry_event \<Rightarrow> telemetry_event" where
  "with_needs needs ev = (case needs of Some n \<Rightarrow> with_metadata ''annotation_needs'' n ev | None \<Rightarrow> ev)"

definition emit_annotator_failed ::
  "runtime \<Rightarrow> interception_point \<Rightarrow> string \<Rightarrow> runtime_error \<Rightarrow> trace \<Rightarrow> trace"
where
  "emit_annotator_failed rt point name e =
    emit_event (with_needs (annotation_needs rt point name)
      (with_optional_error_class (telemetry_error_class (Some (reason e)))
      (with_reason_code (reason e)
      (with_annotator name (event_new AnnotatorFailed point)))))"

definition emit_policy_failed ::
  "interception_point \<Rightarrow> string \<Rightarrow> policy_config \<Rightarrow> runtime_error \<Rightarrow> trace \<Rightarrow> trace"
where
  "emit_policy_failed point policy_id config e =
    emit_event (with_metadata ''policy_type'' (engine_type config)
      (with_optional_error_class (telemetry_error_class (Some (reason e)))
      (with_reason_code (reason e)
      (with_policy_id policy_id (event_new PolicyFailed point)))))"

definition emit_annotator_external_event ::
  "runtime \<Rightarrow> interception_point \<Rightarrow> string \<Rightarrow> string option \<Rightarrow> 64 word \<Rightarrow> trace \<Rightarrow> trace"
where
  "emit_annotator_external_event rt point name r duration =
    (if \<not> emit_external_events (rt_perf rt) then id
     else emit_event (with_needs (annotation_needs rt point name)
       (with_duration_ms duration
       (with_optional_error_class (telemetry_error_class r)
       (with_optional_reason_code (safe_telemetry_reason_code r)
       (with_annotator name (event_new AnnotatorDispatch point)))))))"

definition emit_policy_external_event ::
  "runtime \<Rightarrow> interception_point \<Rightarrow> string \<Rightarrow> policy_config \<Rightarrow> string option \<Rightarrow> 64 word \<Rightarrow> trace \<Rightarrow> trace"
where
  "emit_policy_external_event rt point policy_id config r duration =
    (if \<not> emit_external_events (rt_perf rt) then id
     else emit_event (with_metadata ''policy_type'' (engine_type config)
       (with_duration_ms duration
       (with_optional_error_class (telemetry_error_class r)
       (with_optional_reason_code (safe_telemetry_reason_code r)
       (with_policy_id policy_id (event_new PolicyEvaluation point)))))))"

definition decision_event ::
  "telemetry_event_type \<Rightarrow> interception_point \<Rightarrow> verdict \<Rightarrow> string option \<Rightarrow> string list \<Rightarrow> 64 word
    \<Rightarrow> string option \<Rightarrow> telemetry_event"
where
  "decision_event ty point v policy_id annotators duration action_identity =
    (let ev = with_evidence
           (case v_evidence v of Some e \<Rightarrow> artefact e | None \<Rightarrow> None)
           (case v_evidence v of Some e \<Rightarrow> map fst (verification_pointers e) | None \<Rightarrow> [])
           (with_optional_action_identity action_identity
           (with_duration_ms duration
           (with_annotators annotators
           (with_optional_policy_id policy_id
           (with_optional_error_class (telemetry_error_class (v_reason v))
           (with_optional_reason_code (safe_telemetry_reason_code (v_reason v))
           (with_decision (v_decision v) (event_new ty point))))))))
     in if list_ex (\<lambda>w. w_reason w = Some EVIDENCE_TRUNCATED_REASON) (v_warnings v)
        then with_metadata EVIDENCE_TRUNCATED_REASON ''true'' ev else ev)"

definition emit_decision_event ::
  "interception_point \<Rightarrow> verdict \<Rightarrow> string option \<Rightarrow> string list \<Rightarrow> 64 word \<Rightarrow> string option \<Rightarrow> trace \<Rightarrow> trace"
where
  "emit_decision_event point v policy_id annotators duration action_identity t =
    (let t = emit_event (decision_event DecisionEvent point v policy_id annotators duration action_identity) t in
     if v_decision v = Transform then
       emit_event (decision_event InterventionPointTransformed point v policy_id annotators duration
         action_identity) t
     else t)"

section \<open>Annotations\<close>

definition annotator_error_detail :: "string \<Rightarrow> string \<Rightarrow> string" where
  "annotator_error_detail name d =
    (if d = [] \<or> d = name then name
     else if starts_with d (name @ '':'') then d
     else name @ '': '' @ d)"

definition normalize_annotator_error :: "string \<Rightarrow> runtime_error \<Rightarrow> runtime_error" where
  "normalize_annotator_error name e = (case e of
      AnnotationTimeout d \<Rightarrow> AnnotationTimeout (annotator_error_detail name d)
    | AnnotationFailed d \<Rightarrow> AnnotationFailed (annotator_error_detail name d)
    | other \<Rightarrow> AnnotationFailed (name @ '': '' @ show_error other))"

text \<open>What one annotator may see: the preliminary input, or a staged copy that holds the
  results of its declared dependencies and nothing else.\<close>

definition visible_results ::
  "string \<Rightarrow> string list \<Rightarrow> json_map \<Rightarrow> (runtime_error, json_map) result"
where
  "visible_results name needs results =
    try_fold (\<lambda>need visible.
      rbind (ok_or (ManifestInvalid (''annotator '' @ quoted name @ '' needs '' @ quoted need
                @ '', which has not run'')) (map_of results need)) (\<lambda>result.
      Inr (jm_insert need result visible))) needs []"

definition stage_input ::
  "runtime \<Rightarrow> annotation_plan \<Rightarrow> json \<Rightarrow> string \<Rightarrow> json_map \<Rightarrow> json option
    \<Rightarrow> (runtime_error, json \<times> json option) result"
where
  "stage_input rt plan preliminary name results staged =
    (case map_of (plan_dependencies plan) name of
       None \<Rightarrow> Inr (preliminary, staged)
     | Some deps \<Rightarrow>
         rbind (visible_results name (ad_names deps) results) (\<lambda>visible.
         rbind (ok_or (ManifestInvalid ''preliminary policy input is not an object'')
                 (as_object (case staged of Some s \<Rightarrow> s | None \<Rightarrow> preliminary))) (\<lambda>object.
         rbind (validate_policy_annotations (rt_limits rt) (JObject visible)) (\<lambda>_.
         let input = JObject (jm_insert pi_annotations (JObject visible) object) in
         Inr (input, Some input)))))"

definition check_input_path ::
  "externals \<Rightarrow> runtime \<Rightarrow> interception_point \<Rightarrow> string \<Rightarrow> annotator_invocation \<Rightarrow> json \<Rightarrow> (runtime_error, unit) run"
where
  "check_input_path x rt point name annotator input = (case input_from annotator of
      None \<Rightarrow> run_lift (Inr ())
    | Some from \<Rightarrow>
        run_bind (inspect_err (run_lift (map_err (\<lambda>err. ManifestInvalid (''invalid from path for annotator ''
                    @ quoted name @ '': '' @ show_path_error err))
                  (parse_with_snapshot_alias (x_literal x) from)))
                (emit_annotator_failed rt point name)) (\<lambda>path.
        run_bind (run_lift (ok_or (ManifestInvalid ''preliminary policy input missing snapshot'')
                  (json_get input pi_snapshot))) (\<lambda>snapshot.
        run_bind (inspect_err (run_lift (resolve path (with_pi_and_snap input snapshot)))
                (emit_annotator_failed rt point name)) (\<lambda>_.
        run_lift (Inr ())))))"

definition dispatch_annotator ::
  "host \<Rightarrow> runtime \<Rightarrow> interception_point \<Rightarrow> string \<Rightarrow> annotator_invocation \<Rightarrow> json \<Rightarrow> (runtime_error, json) run"
where
  "dispatch_annotator h rt point name annotator input =
    inspect_err
      (\<lambda>t. (map_err (normalize_annotator_error name)
              (case h_dispatch h t name annotator input of
                 Panicked p \<Rightarrow> Inl (AnnotationFailed (''annotator dispatcher panicked: '' @ panic_detail p))
               | Returned r \<Rightarrow> r),
            t @ [AnnotatorCalled name annotator input]))
      (\<lambda>e t. emit_annotator_failed rt point name e
        (emit_annotator_external_event rt point name (Some (reason e)) (h_elapsed_ms h t) t))"

definition annotate ::
  "externals \<Rightarrow> host \<Rightarrow> runtime \<Rightarrow> interception_point \<Rightarrow> point_config \<Rightarrow> annotation_plan \<Rightarrow> json \<Rightarrow> string
    \<Rightarrow> json_map \<times> json option \<Rightarrow> (runtime_error, json_map \<times> json option) run"
where
  "annotate x h rt point config plan preliminary name st =
    run_bind (inspect_err (run_lift (ok_or (ManifestInvalid name) (map_of (pc_annotations config) name)))
            (emit_annotator_failed rt point name)) (\<lambda>annotation.
    run_bind (inspect_err (run_lift (ok_or (ManifestInvalid name) (map_of (m_annotators (rt_manifest rt)) name)))
            (emit_annotator_failed rt point name)) (\<lambda>annotator_config.
    let annotator = from_annotation_in (rt_manifest rt) annotator_config annotation in
    run_bind (inspect_err (run_lift (stage_input rt plan preliminary name (fst st) (snd st)))
            (emit_annotator_failed rt point name)) (\<lambda>(input, staged).
    run_bind (check_input_path x rt point name annotator input) (\<lambda>_.
    run_bind (dispatch_annotator h rt point name annotator input) (\<lambda>result.
    run_bind (inspect_err (run_lift (validate_annotator_output (x_to_string x) (rt_limits rt) name result))
            (emit_annotator_failed rt point name)) (\<lambda>_.
    run_bind (\<lambda>t. run_effect (emit_annotator_external_event rt point name None (h_elapsed_ms h t)) t) (\<lambda>_.
    run_lift (Inr (jm_insert name result (fst st), staged)))))))))"

definition collect_annotations ::
  "externals \<Rightarrow> host \<Rightarrow> runtime \<Rightarrow> interception_point \<Rightarrow> point_config \<Rightarrow> json \<Rightarrow> (runtime_error, json) run"
where
  "collect_annotations x h rt point config preliminary =
    (if length (pc_annotations config) > max_annotators_per_point (rt_limits rt) then
       run_lift (Inl (ResourceLimitExceeded (''intervention point '' @ point_as_str point @ '' invokes ''
         @ nat_to_string (length (pc_annotations config)) @ '' annotators, limit ''
         @ nat_to_string (max_annotators_per_point (rt_limits rt)))))
     else
       run_bind (run_lift (ok_or (ManifestInvalid (''missing annotation plan for '' @ point_as_str point))
                 (map_of (rt_plans rt) point))) (\<lambda>plan.
       run_bind (run_fold (annotate x h rt point config plan preliminary) (plan_order plan) ([], None)) (\<lambda>st.
       run_lift (Inr (JObject (fst st))))))"

section \<open>Evaluation\<close>

record evaluation_failure =
  ef_error :: runtime_error
  ef_policy_input :: "json option"

record evaluation_result =
  er_verdict :: verdict
  er_policy_input :: "json option"

definition failed_without_input :: "runtime_error \<Rightarrow> evaluation_failure" where
  "failed_without_input e = \<lparr>ef_error = e, ef_policy_input = None\<rparr>"

definition failed_with_input :: "json \<Rightarrow> runtime_error \<Rightarrow> evaluation_failure" where
  "failed_with_input input e = \<lparr>ef_error = e, ef_policy_input = Some input\<rparr>"

definition run_early :: "('a, 'b) result \<Rightarrow> ('a \<Rightarrow> evaluation_failure) \<Rightarrow> (evaluation_failure, 'b) run" where
  "run_early r g = run_lift (map_err g r)"

definition evaluate_policy ::
  "externals \<Rightarrow> host \<Rightarrow> runtime \<Rightarrow> interception_point \<Rightarrow> string \<Rightarrow> policy_config \<Rightarrow> prepared_invocation
    \<Rightarrow> (runtime_error, json) run"
where
  "evaluate_policy x h rt point policy_id config invocation =
    run_bind (inspect_err
      (\<lambda>t. (case h_evaluate h t invocation of
               Panicked p \<Rightarrow> Inl (PolicyInvocationFailed (''policy dispatcher panicked: '' @ panic_detail p))
             | Returned r \<Rightarrow> map_err (\<lambda>err. PolicyInvocationFailed (show_error err)) r,
            t @ [PolicyCalled invocation]))
      (\<lambda>e t. emit_policy_failed point policy_id config e
        (emit_policy_external_event rt point policy_id config (Some (reason e)) (h_elapsed_ms h t) t)))
    (\<lambda>result.
    run_bind (\<lambda>t. run_effect (emit_policy_external_event rt point policy_id config None (h_elapsed_ms h t)) t) (\<lambda>_.
    run_lift (Inr result)))"

definition decide ::
  "externals \<Rightarrow> host \<Rightarrow> runtime \<Rightarrow> interception_point \<Rightarrow> point_config \<Rightarrow> json
    \<Rightarrow> (evaluation_failure, evaluation_result) run"
where
  "decide x h rt point config final_input =
    (let policy = pc_policy config in
     run_bind (run_early (ok_or (ManifestInvalid (''intervention point '' @ point_as_str point
               @ '' references unknown policy '' @ quoted (pb_id policy)))
               (map_of (m_policies (rt_manifest rt)) (pb_id policy))) failed_without_input) (\<lambda>policy_config.
     run_map_err (failed_with_input final_input)
       (run_bind (inspect_err (run_lift (prepare_policy_invocation x policy_config policy final_input))
                (emit_policy_failed point (pb_id policy) policy_config)) (\<lambda>invocation.
        run_bind (evaluate_policy x h rt point (pb_id policy) policy_config invocation) (\<lambda>result.
        run_bind (inspect_err (run_lift (validate_policy_output (x_to_string x) (rt_limits rt) result))
                (emit_policy_failed point (pb_id policy) policy_config)) (\<lambda>_.
        run_bind (inspect_err (run_lift (normalize_policy_output (x_hooks x) (x_sha256 x) result))
                (emit_policy_failed point (pb_id policy) policy_config)) (\<lambda>v.
        run_lift (Inr \<lparr>er_verdict = v, er_policy_input = Some final_input\<rparr>))))))))"

definition evaluate_inner ::
  "externals \<Rightarrow> host \<Rightarrow> runtime \<Rightarrow> interception_point \<Rightarrow> json \<Rightarrow> (evaluation_failure, evaluation_result) run"
where
  "evaluate_inner x h rt point snapshot =
    run_bind (run_early (ok_or (InterventionPointUnknown (point_as_str point))
              (map_of (m_points (rt_manifest rt)) point)) failed_without_input) (\<lambda>config.
    run_bind (run_early (validate_snapshot (x_to_string x) (rt_limits rt) snapshot) failed_without_input) (\<lambda>_.
    run_bind (run_early (map_err (\<lambda>err. ManifestInvalid (''invalid policy_target for intervention point ''
                @ point_as_str point @ '': '' @ show_path_error err))
              (parse_with_snapshot_alias (x_literal x) (pc_policy_target config))) failed_without_input) (\<lambda>path.
    run_bind (run_early (resolve path (with_snap snapshot)) failed_without_input) (\<lambda>target.
    run_bind (run_early (project_tool (x_literal x) (rt_manifest rt) point config snapshot)
              failed_without_input) (\<lambda>tool.
    let preliminary = build_policy_input point (pc_policy_target config) (pc_policy_target_kind config)
          target snapshot (JObject []) tool in
    run_bind (run_early (validate_policy_input (rt_limits rt) preliminary) failed_without_input) (\<lambda>_.
    run_bind (run_map_err (failed_with_input preliminary)
              (collect_annotations x h rt point config preliminary)) (\<lambda>annotations.
    let final_input = build_policy_input point (pc_policy_target config) (pc_policy_target_kind config)
          target snapshot annotations tool in
    run_bind (run_early (validate_policy_input (rt_limits rt) final_input) failed_without_input) (\<lambda>_.
    decide x h rt point config final_input))))))))"

definition evaluate_point ::
  "externals \<Rightarrow> host \<Rightarrow> runtime \<Rightarrow> interception_point \<Rightarrow> json \<Rightarrow> trace \<Rightarrow> evaluation_result \<times> trace"
where
  "evaluate_point x h rt point snapshot t =
    (let policy_id = policy_id_for rt point;
         annotators = annotators_for rt point;
         (r, t) = evaluate_inner x h rt point snapshot t;
         result = (case r of
             Inr result \<Rightarrow> result
           | Inl failure \<Rightarrow> \<lparr>er_verdict = runtime_error_verdict (x_hooks x) (ef_error failure),
               er_policy_input = ef_policy_input failure\<rparr>);
         v = er_verdict result;
         duration = h_elapsed_ms h t;
         t = emit_decision_event point v policy_id annotators duration None t;
         t = (if emit_stage_events (rt_perf rt) then
                emit_event (with_optional_action_identity None
                  (with_duration_ms duration
                  (with_optional_error_class (telemetry_error_class (v_reason v))
                  (with_optional_policy_id policy_id
                  (with_optional_reason_code (safe_telemetry_reason_code (v_reason v))
                  (with_decision (v_decision v) (event_new EvaluationTiming point))))))) t
              else t)
     in (result, t))"

definition evaluate ::
  "externals \<Rightarrow> host \<Rightarrow> runtime \<Rightarrow> json \<Rightarrow> trace \<Rightarrow> evaluation_result \<times> trace"
where
  "evaluate x h rt snapshot t =
    (case Option.bind (Option.bind (json_get snapshot ''interception_point'') as_str)
            (ah_parse_point (x_hooks x)) of
       Some point \<Rightarrow> evaluate_point x h rt point snapshot t
     | None \<Rightarrow> (\<lparr>er_verdict = runtime_error_verdict (x_hooks x)
           (InterventionPointUnknown ''context carries no valid interception_point''),
         er_policy_input = None\<rparr>, t))"

end
