(* ===== verification/Run_Spec.thy ===== *)
theory Run_Spec
  imports Run_Monad
begin

text \<open>
  A small logic for computations whose state is a trace they append to: which actions a
  computation may append, which errors and which values it may return.  One rule per
  combinator of \<open>Run_Monad\<close>.
\<close>

section \<open>What a computation appends to the trace\<close>

definition appends :: "('act \<Rightarrow> bool) \<Rightarrow> ('act list \<Rightarrow> 'act list) \<Rightarrow> bool" where
  "appends P f \<longleftrightarrow> (\<forall>t. \<exists>acts. f t = t @ acts \<and> list_all P acts)"

text \<open>
  \<open>run_spec P E Q m\<close>: the computation only appends actions that satisfy \<open>P\<close>, every error it
  returns satisfies \<open>E\<close> and every value \<open>Q\<close>.
\<close>

definition run_spec ::
  "('act \<Rightarrow> bool) \<Rightarrow> ('e \<Rightarrow> bool) \<Rightarrow> ('a \<Rightarrow> bool) \<Rightarrow> ('act list, 'e, 'a) stateful \<Rightarrow> bool"
where
  "run_spec P E Q m \<longleftrightarrow> (\<forall>t. (\<exists>acts. snd (m t) = t @ acts \<and> list_all P acts)
    \<and> (case fst (m t) of Inl e \<Rightarrow> E e | Inr v \<Rightarrow> Q v))"

abbreviation emits :: "('act \<Rightarrow> bool) \<Rightarrow> ('act list, 'e, 'a) stateful \<Rightarrow> bool" where
  "emits P \<equiv> run_spec P (\<lambda>_. True) (\<lambda>_. True)"

named_theorems emits_intros \<open>structural rules for \<open>run_spec\<close>\<close>

lemma emitsD: "run_spec P E Q m \<Longrightarrow> m t = (r, t') \<Longrightarrow> \<exists>acts. t' = t @ acts \<and> list_all P acts"
  unfolding run_spec_def by (metis snd_conv)

lemma run_specD:
  "run_spec P E Q m \<Longrightarrow> m t = (Inl e, t') \<Longrightarrow> E e"
  "run_spec P E Q m \<Longrightarrow> m t = (Inr v, t') \<Longrightarrow> Q v"
  unfolding run_spec_def by (metis fst_conv sum.case(1), metis fst_conv sum.case(2))

lemma run_specI:
  assumes "\<And>t r t'. m t = (r, t') \<Longrightarrow> (\<exists>acts. t' = t @ acts \<and> list_all P acts)"
    and "\<And>t e t'. m t = (Inl e, t') \<Longrightarrow> E e" "\<And>t v t'. m t = (Inr v, t') \<Longrightarrow> Q v"
  shows "run_spec P E Q m"
  unfolding run_spec_def using assms by (metis (mono_tags, lifting) prod.collapse sum.case_eq_if sum.collapse)

lemma appends_id [emits_intros]: "appends P id"
  by (simp add: appends_def)

lemma appends_if [emits_intros]:
  "(b \<Longrightarrow> appends P f) \<Longrightarrow> (\<not> b \<Longrightarrow> appends P g) \<Longrightarrow> appends P (if b then f else g)"
  by simp

lemma spec_lift: "(case r of Inl e \<Rightarrow> E e | Inr v \<Rightarrow> Q v) \<Longrightarrow> run_spec P E Q (run_lift r)"
  by (simp add: run_spec_def)

lemma emits_lift [emits_intros]: "emits P (run_lift r)"
  by (rule spec_lift) (simp split: sum.splits)

lemma spec_bind:
  assumes "run_spec P E R m" "\<And>a. R a \<Longrightarrow> run_spec P E Q (f a)"
  shows "run_spec P E Q (run_bind m f)"
proof (rule run_specI)
  fix t r t'
  assume run: "run_bind m f t = (r, t')"
  obtain r1 s where m: "m t = (r1, s)"
    by fastforce
  from emitsD [OF assms(1) m] obtain acts where acts: "s = t @ acts" "list_all P acts"
    by blast
  show "\<exists>acts. t' = t @ acts \<and> list_all P acts"
  proof (cases r1)
    case (Inl e)
    then show ?thesis
      using m acts run by (auto simp: run_bind_def)
  next
    case (Inr a)
    then have "f a s = (r, t')" "R a"
      using m run run_specD(2) [OF assms(1)] by (auto simp: run_bind_def)
    then show ?thesis
      using emitsD [OF assms(2)] acts by fastforce
  qed
next
  fix t e t'
  assume "run_bind m f t = (Inl e, t')"
  then consider "m t = (Inl e, t')" | a s where "m t = (Inr a, s)" "f a s = (Inl e, t')"
    by (auto simp: run_bind_err)
  then show "E e"
    using run_specD [OF assms(1)] run_specD(1) [OF assms(2)] by cases blast+
next
  fix t v t'
  assume "run_bind m f t = (Inr v, t')"
  then obtain a s where "m t = (Inr a, s)" "f a s = (Inr v, t')"
    by (auto simp: run_bind_ok)
  then show "Q v"
    using run_specD(2) [OF assms(1)] run_specD(2) [OF assms(2)] by blast
qed

lemma emits_bind [emits_intros]: "emits P m \<Longrightarrow> (\<And>a. emits P (f a)) \<Longrightarrow> emits P (run_bind m f)"
  by (rule spec_bind)

lemma spec_map_err: "run_spec P (\<lambda>e. E (g e)) Q m \<Longrightarrow> run_spec P E Q (run_map_err g m)"
  unfolding run_spec_def run_map_err_def by (simp add: case_prod_unfold map_err_def split: sum.splits)

lemma emits_map_err [emits_intros]: "emits P m \<Longrightarrow> emits P (run_map_err g m)"
  by (rule spec_map_err)

lemma spec_inspect_err:
  assumes "run_spec P E Q m" "\<And>e. appends P (f e)"
  shows "run_spec P E Q (inspect_err m f)"
proof (rule run_specI)
  fix t r t'
  assume run: "inspect_err m f t = (r, t')"
  obtain r1 s where m: "m t = (r1, s)"
    by fastforce
  from emitsD [OF assms(1) m] obtain acts where acts: "s = t @ acts" "list_all P acts"
    by blast
  have "t' = s \<or> (\<exists>e. t' = f e s)"
    using run m by (auto simp: inspect_err_def split: sum.splits)
  then show "\<exists>acts. t' = t @ acts \<and> list_all P acts"
  proof
    assume "\<exists>e. t' = f e s"
    then obtain e more where "t' = s @ more" "list_all P more"
      using assms(2) unfolding appends_def by metis
    with acts show ?thesis
      by simp
  qed (use acts in blast)
qed (use run_specD [OF assms(1)] in \<open>auto simp: inspect_err_ok inspect_err_err\<close>)

lemmas emits_inspect_err [emits_intros] = spec_inspect_err [where E = "\<lambda>_. True" and Q = "\<lambda>_. True"]

lemma spec_effect: "(\<And>t. appends P (f t)) \<Longrightarrow> Q () \<Longrightarrow> run_spec P E Q (\<lambda>t. run_effect (f t) t)"
  by (simp add: run_spec_def run_effect_def appends_def)

lemma emits_effect [emits_intros]: "(\<And>t. appends P (f t)) \<Longrightarrow> emits P (\<lambda>t. run_effect (f t) t)"
  by (rule spec_effect) simp_all

text \<open>The loop rule: the invariant speaks of the items already processed.\<close>

lemma spec_fold:
  assumes "\<And>pre x post s. xs = pre @ x # post \<Longrightarrow> I pre s \<Longrightarrow> run_spec P E (I (pre @ [x])) (f x s)"
    and "I [] s"
  shows "run_spec P E (I xs) (run_fold f xs s)"
proof -
  have "run_spec P E (I xs) (run_fold f ys s)" if "xs = pre @ ys" "I pre s" for pre ys s
    using that
  proof (induction ys arbitrary: pre s)
    case Nil
    then show ?case
      by (simp del: run_lift_eq add: spec_lift)
  next
    case (Cons y ys)
    have "run_spec P E (I (pre @ [y])) (f y s)"
      using Cons.prems by (intro assms(1)) auto
    moreover have "run_spec P E (I xs) (run_fold f ys a)" if "I (pre @ [y]) a" for a
      using Cons.IH [of "pre @ [y]" a] Cons.prems that by simp
    ultimately show ?case
      by (simp add: spec_bind)
  qed
  then show ?thesis
    using assms(2) by (metis append_Nil)
qed

lemma emits_fold [emits_intros]: "(\<And>x s. emits P (f x s)) \<Longrightarrow> emits P (run_fold f xs s)"
  by (rule spec_fold [where I = "\<lambda>_ _. True"]) simp_all

lemma spec_if [emits_intros]:
  "(b \<Longrightarrow> run_spec P E Q m) \<Longrightarrow> (\<not> b \<Longrightarrow> run_spec P E Q n) \<Longrightarrow> run_spec P E Q (if b then m else n)"
  by simp

lemma emits_case_option [emits_intros]:
  "run_spec P E Q m \<Longrightarrow> (\<And>y. run_spec P E Q (f y)) \<Longrightarrow> run_spec P E Q (case v of None \<Rightarrow> m | Some y \<Rightarrow> f y)"
  by (cases v) simp_all

lemma emits_case_prod [emits_intros]:
  "(\<And>a b. run_spec P E Q (f a b)) \<Longrightarrow> run_spec P E Q (case p of (a, b) \<Rightarrow> f a b)"
  by (cases p) simp

lemma emits_Let [emits_intros]: "(\<And>a. run_spec P E Q (f a)) \<Longrightarrow> run_spec P E Q (Let v f)"
  by simp

text \<open>An emission with a clock reading, followed by another one.\<close>

lemma appends_timed:
  assumes "\<And>d. appends P (f d)" "appends P g"
  shows "appends P (\<lambda>t. g (f (clock t) t))"
  unfolding appends_def
proof
  fix t
  obtain as where "f (clock t) t = t @ as" "list_all P as"
    using assms(1) [of "clock t"] by (auto simp: appends_def)
  moreover obtain bs where "g (t @ as) = (t @ as) @ bs" "list_all P bs"
    using assms(2) unfolding appends_def by blast
  ultimately show "\<exists>acts. g (f (clock t) t) = t @ acts \<and> list_all P acts"
    by simp
qed

lemma emits_case_sum [emits_intros]:
  "(\<And>a. run_spec P E Q (f a)) \<Longrightarrow> (\<And>b. run_spec P E Q (g b)) \<Longrightarrow> run_spec P E Q (case v of Inl a \<Rightarrow> f a | Inr b \<Rightarrow> g b)"
  by (cases v) simp_all

lemma run_spec_weaken:
  assumes "run_spec P E Q m" "\<And>a. P a \<Longrightarrow> P' a" "\<And>e. E e \<Longrightarrow> E' e" "\<And>v. Q v \<Longrightarrow> Q' v"
  shows "run_spec P' E' Q' m"
  using assms unfolding run_spec_def list_all_iff by (metis (no_types, lifting) sum.case_eq_if)

end
