(* ===== verification/Runtime_Laws.thy ===== *)
theory Runtime_Laws
  imports Runtime Run_Spec
begin

text \<open>
  What the evaluation pipeline guarantees.  The lemmas about computations are a small
  logic over traces, \<open>run_spec\<close>.
\<close>

section \<open>Computations\<close>

lemma run_early_eq [simp]: "run_early r g t = (map_err g r, t)"
  by (simp add: run_early_def)

section \<open>Rules for the pipeline\<close>

lemma appends_event [emits_intros]: "P (Emitted ev) \<Longrightarrow> appends P (emit_event ev)"
  by (simp add: appends_def emit_event_def)

lemma spec_early:
  "(case r of Inl e \<Rightarrow> E (g e) | Inr v \<Rightarrow> Q v) \<Longrightarrow> run_spec P E Q (run_early r g)"
  by (cases r) (simp_all add: run_spec_def)

lemma emits_early [emits_intros]: "emits P (run_early r g)"
  by (rule spec_early) (simp split: sum.splits)

section \<open>Events of the pipeline\<close>

text \<open>What may be told to a sink before the decision: the four kinds of call and failure
  events, never a decision, and reason codes that are short identifiers.\<close>

definition quiet_event :: "telemetry_event \<Rightarrow> bool" where
  "quiet_event ev \<longleftrightarrow> te_type ev \<in> {AnnotatorDispatch, PolicyEvaluation, AnnotatorFailed, PolicyFailed}
    \<and> te_decision ev = None
    \<and> (case te_reason_code ev of Some r \<Rightarrow> is_identifier_reason_code r | None \<Rightarrow> True)
    \<and> te_evidence_artefact ev = None \<and> te_action_identity ev = None"

definition quiet :: "action \<Rightarrow> bool" where
  "quiet a = (case a of Emitted ev \<Rightarrow> quiet_event ev | _ \<Rightarrow> True)"

lemma quiet_simps [simp]:
  "quiet (Emitted ev) = quiet_event ev" "quiet (AnnotatorCalled n i v)" "quiet (PolicyCalled p)"
  by (simp_all add: quiet_def)

lemma with_needs_parts [simp]:
  "te_type (with_needs n ev) = te_type ev" "te_decision (with_needs n ev) = te_decision ev"
  "te_reason_code (with_needs n ev) = te_reason_code ev"
  "te_evidence_artefact (with_needs n ev) = te_evidence_artefact ev"
  "te_action_identity (with_needs n ev) = te_action_identity ev"
  by (cases n; simp add: with_needs_def event_defs)+

lemma emit_annotator_failed_quiet [emits_intros]: "appends quiet (emit_annotator_failed rt point name e)"
  unfolding emit_annotator_failed_def
  by (rule appends_event) (simp add: quiet_event_def event_defs reason_is_identifier)

lemma emit_policy_failed_quiet [emits_intros]: "appends quiet (emit_policy_failed point pid config e)"
  unfolding emit_policy_failed_def
  by (rule appends_event) (simp add: quiet_event_def event_defs reason_is_identifier)

lemma emit_annotator_external_quiet [emits_intros]:
  "appends quiet (emit_annotator_external_event rt point name r d)"
  unfolding emit_annotator_external_event_def
  by (intro emits_intros) (auto simp: quiet_event_def event_defs safe_reason_identifier split: option.splits)

lemma emit_policy_external_quiet [emits_intros]:
  "appends quiet (emit_policy_external_event rt point pid config r d)"
  unfolding emit_policy_external_event_def
  by (intro emits_intros) (auto simp: quiet_event_def event_defs safe_reason_identifier split: option.splits)

lemma call_quiet [emits_intros]: "quiet a \<Longrightarrow> emits quiet (\<lambda>t. (r t, t @ [a]))"
  by (simp add: run_spec_def split: sum.splits)

lemma annotator_failure_quiet:
  "appends quiet (\<lambda>t. emit_annotator_failed rt point name e
    (emit_annotator_external_event rt point name r (clock t) t))"
  by (rule appends_timed [where f = "emit_annotator_external_event rt point name r"])
    (rule emit_annotator_external_quiet emit_annotator_failed_quiet)+

lemma policy_failure_quiet:
  "appends quiet (\<lambda>t. emit_policy_failed point pid config e
    (emit_policy_external_event rt point pid config r (clock t) t))"
  by (rule appends_timed [where f = "emit_policy_external_event rt point pid config r"])
    (rule emit_policy_external_quiet emit_policy_failed_quiet)+

lemma dispatch_annotator_quiet [emits_intros]: "emits quiet (dispatch_annotator h rt point name a input)"
  unfolding dispatch_annotator_def
  by (rule emits_inspect_err [OF call_quiet annotator_failure_quiet]) simp

lemma check_input_path_quiet [emits_intros]: "emits quiet (check_input_path x rt point name a input)"
  unfolding check_input_path_def by (intro emits_intros)

lemma annotate_quiet [emits_intros]: "emits quiet (annotate x h rt point config plan preliminary name st)"
  unfolding annotate_def by (intro emits_intros)

lemma collect_annotations_quiet [emits_intros]:
  "emits quiet (collect_annotations x h rt point config preliminary)"
  unfolding collect_annotations_def by (intro emits_intros)

lemma evaluate_policy_quiet [emits_intros]: "emits quiet (evaluate_policy x h rt point pid config invoc)"
  unfolding evaluate_policy_def
  by (intro emits_bind emits_inspect_err [OF call_quiet policy_failure_quiet] emit_policy_external_quiet
      emits_effect emits_lift) simp

lemma decide_quiet [emits_intros]: "emits quiet (decide x h rt point config input)"
  unfolding decide_def by (intro emits_intros)

lemma evaluate_inner_quiet: "emits quiet (evaluate_inner x h rt point snapshot)"
  unfolding evaluate_inner_def by (intro emits_intros)


section \<open>Where a verdict comes from\<close>

lemma prepared_input: "prepare_policy_invocation x config b input = Inr i \<Longrightarrow> invocation_input i = input"
  by (auto simp: prepare_policy_invocation_def rbind_eq_Inr_iff Let_def split: policy_config.splits)

lemma evaluate_policy_ok:
  assumes "evaluate_policy x h rt point pid config i t = (Inr result, t')"
  shows "h_evaluate h t i = Returned (Inr result) \<and> (\<exists>rest. t' = t @ PolicyCalled i # rest)"
proof -
  have "\<exists>acts. snd (emit_policy_external_event rt point pid config None d s, s) = s @ acts" for d s
    by simp
  have e: "\<exists>acts. emit_policy_external_event rt point pid config None d s = s @ acts" for d s
    using emit_policy_external_quiet [of rt point pid config None d] by (auto simp: appends_def)
  show ?thesis
    using assms e [of _ "t @ [PolicyCalled i]"]
    by (auto simp: evaluate_policy_def run_iffs run_effect_def map_err_eq_Inr_iff split: outcome.splits)
qed

lemma decide_ok:
  assumes "decide x h rt point config input t = (Inr res, t')"
  shows "\<exists>i result rest. t' = t @ PolicyCalled i # rest \<and> h_evaluate h t i = Returned (Inr result)
    \<and> normalize_policy_output (x_hooks x) (x_sha256 x) result = Inr (er_verdict res)
    \<and> invocation_input i = input \<and> er_policy_input res = Some input"
proof -
  from assms obtain i result where
      i: "evaluate_policy x h rt point (pb_id (pc_policy config))
        (the (map_of (m_policies (rt_manifest rt)) (pb_id (pc_policy config)))) i t = (Inr result, t')"
      "prepare_policy_invocation x
        (the (map_of (m_policies (rt_manifest rt)) (pb_id (pc_policy config)))) (pc_policy config) input = Inr i"
      "normalize_policy_output (x_hooks x) (x_sha256 x) result = Inr (er_verdict res)"
      "er_policy_input res = Some input"
    by (auto simp: decide_def Let_def run_iffs)
  then show ?thesis
    using evaluate_policy_ok [OF i(1)] prepared_input by blast
qed

lemma evaluate_inner_ok:
  assumes "evaluate_inner x h rt point snapshot t = (Inr res, t')"
  shows "\<exists>config acts i result rest. map_of (m_points (rt_manifest rt)) point = Some config
    \<and> t' = t @ acts @ PolicyCalled i # rest
    \<and> h_evaluate h (t @ acts) i = Returned (Inr result)
    \<and> normalize_policy_output (x_hooks x) (x_sha256 x) result = Inr (er_verdict res)
    \<and> er_policy_input res = Some (invocation_input i)"
proof -
  from assms obtain config preliminary annotations s final_input where
      c: "map_of (m_points (rt_manifest rt)) point = Some config"
      "collect_annotations x h rt point config preliminary t = (Inr annotations, s)"
      "decide x h rt point config final_input s = (Inr res, t')"
    by (auto simp: evaluate_inner_def Let_def run_iffs)
  obtain acts where "s = t @ acts"
    using emitsD [OF collect_annotations_quiet c(2)] by blast
  then show ?thesis
    using c(1) decide_ok [OF c(3)] by fastforce
qed

text \<open>
  C1: Evaluation fails closed.  Whatever the callbacks do, panics
  included, the verdict of an evaluation is one of two: the normalization of the value that the policy
  dispatcher returned for the recorded invocation, whose input is reported, or the
  denial synthesized for a runtime error, with that error's reserved reason.
\<close>

theorem evaluation_fails_closed:
  "case evaluate_point x h rt point snapshot t of (res, t') \<Rightarrow>
    (\<exists>acts i result rest. t' = t @ acts @ PolicyCalled i # rest
      \<and> h_evaluate h (t @ acts) i = Returned (Inr result)
      \<and> normalize_policy_output (x_hooks x) (x_sha256 x) result = Inr (er_verdict res)
      \<and> er_policy_input res = Some (invocation_input i))
    \<or> (\<exists>e. er_verdict res = runtime_error_verdict (x_hooks x) e
      \<and> v_decision (er_verdict res) = Deny \<and> v_reason (er_verdict res) = Some (reason e))"
proof -
  obtain r s where inner: "evaluate_inner x h rt point snapshot t = (r, s)"
    by fastforce
  obtain res t' where ep: "evaluate_point x h rt point snapshot t = (res, t')"
    by fastforce
  have res: "res = (case r of Inr result \<Rightarrow> result
      | Inl failure \<Rightarrow> \<lparr>er_verdict = runtime_error_verdict (x_hooks x) (ef_error failure),
          er_policy_input = ef_policy_input failure\<rparr>)" and ext: "\<exists>more. t' = s @ more"
    using ep inner by (auto simp: evaluate_point_def Let_def emit_decision_event_def emit_event_def split: if_splits)
  show ?thesis
  proof (cases r)
    case (Inl failure)
    then show ?thesis
      using ep res by (auto simp: runtime_error_verdict_def Let_def)
  next
    case (Inr result)
    with inner have "evaluate_inner x h rt point snapshot t = (Inr res, s)"
      using res by simp
    from evaluate_inner_ok [OF this] ext show ?thesis
      using ep by fastforce
  qed
qed

definition is_event :: "telemetry_event_type \<Rightarrow> action \<Rightarrow> bool" where
  "is_event ty a = (case a of Emitted ev \<Rightarrow> te_type ev = ty | _ \<Rightarrow> False)"

definition safe_action :: "action \<Rightarrow> bool" where
  "safe_action a = (case a of
      Emitted ev \<Rightarrow> (case te_reason_code ev of Some r \<Rightarrow> is_identifier_reason_code r | None \<Rightarrow> True)
    | _ \<Rightarrow> True)"

lemma quiet_not_decision: "quiet a \<Longrightarrow> ty \<in> {DecisionEvent, InterventionPointTransformed, EvaluationTiming}
    \<Longrightarrow> \<not> is_event ty a"
  by (auto simp: is_event_def quiet_event_def split: action.splits)

lemma quiet_safe: "quiet a \<Longrightarrow> safe_action a"
  by (auto simp: quiet_event_def safe_action_def split: action.splits)

lemma decision_event_parts [simp]:
  "te_type (decision_event ty point v pid as d ai) = ty"
  "te_point (decision_event ty point v pid as d ai) = point"
  "te_decision (decision_event ty point v pid as d ai) = Some (v_decision v)"
  "te_reason_code (decision_event ty point v pid as d ai) = safe_telemetry_reason_code (v_reason v)"
  "te_policy_id (decision_event ty point v pid as d ai) = pid"
  by (simp_all add: decision_event_def event_defs Let_def)

lemma decision_event_error_class [simp]:
  "te_error_class (decision_event ty point v pid as d ai) = telemetry_error_class (v_reason v)"
  by (simp add: decision_event_def event_defs Let_def)

lemma decision_event_retyped:
  "(decision_event ty point v pid as d ai)\<lparr>te_type := ty'\<rparr> = decision_event ty' point v pid as d ai"
  by (simp add: decision_event_def event_defs Let_def)

lemma evaluate_point_shape:
  obtains res acts d timing where "list_all quiet acts"
    and "evaluate_point x h rt point snapshot t = (res, t @ acts
      @ Emitted (decision_event DecisionEvent point (er_verdict res) (policy_id_for rt point) (annotators_for rt point) d None)
      # (if v_decision (er_verdict res) = Transform then
           [Emitted (decision_event InterventionPointTransformed point (er_verdict res) (policy_id_for rt point)
             (annotators_for rt point) d None)] else [])
      @ (if emit_stage_events (rt_perf rt) then [Emitted timing] else []))"
    and "te_type timing = EvaluationTiming"
    and "te_reason_code timing = safe_telemetry_reason_code (v_reason (er_verdict res))"
proof -
  obtain r s where inner: "evaluate_inner x h rt point snapshot t = (r, s)"
    by fastforce
  obtain acts where acts: "s = t @ acts" "list_all quiet acts"
    using emitsD [OF evaluate_inner_quiet inner] by blast
  define res where "res = (case r of Inr result \<Rightarrow> result
      | Inl failure \<Rightarrow> \<lparr>er_verdict = runtime_error_verdict (x_hooks x) (ef_error failure),
          er_policy_input = ef_policy_input failure\<rparr>)"
  show thesis
    by (rule that [of acts res "h_elapsed_ms h s" "with_optional_action_identity None
                  (with_duration_ms (h_elapsed_ms h s)
                  (with_optional_error_class (telemetry_error_class (v_reason (er_verdict res)))
                  (with_optional_policy_id (policy_id_for rt point)
                  (with_optional_reason_code (safe_telemetry_reason_code (v_reason (er_verdict res)))
                  (with_decision (v_decision (er_verdict res)) (event_new EvaluationTiming point))))))"])
      (simp_all add: acts(2) evaluate_point_def inner res_def [symmetric] emit_decision_event_def emit_event_def
        acts(1) Let_def event_defs)
qed

lemma safe_event: "te_reason_code ev = safe_telemetry_reason_code r \<Longrightarrow> safe_action (Emitted ev)"
  using safe_reason_identifier by (auto simp: safe_action_def split: option.splits)

text \<open>
  C29: Every evaluation of a point reports exactly one decision, the one it returns, and reports
  it last.  After everything else the evaluation did come one decision event with the
  decision, reason code and error class of the returned verdict; then, exactly for a
  transform, the same event as a transformed event; then, exactly at the full level, one
  timing event.  Nothing before them is an event of these kinds, and nothing is removed from
  the trace.  Every reason code a sink sees is a short identifier, so free text from a policy
  never leaves through telemetry.
\<close>

theorem telemetry_reports_one_decision:
  "case evaluate_point x h rt point snapshot t of (res, t') \<Rightarrow>
    \<exists>acts ev changed timed. t' = t @ acts @ Emitted ev # changed @ timed
      \<and> te_type ev = DecisionEvent \<and> te_point ev = point \<and> te_policy_id ev = policy_id_for rt point
      \<and> te_decision ev = Some (v_decision (er_verdict res))
      \<and> te_reason_code ev = safe_telemetry_reason_code (v_reason (er_verdict res))
      \<and> te_error_class ev = telemetry_error_class (v_reason (er_verdict res))
      \<and> list_all (\<lambda>a. \<not> is_event DecisionEvent a \<and> \<not> is_event InterventionPointTransformed a
          \<and> \<not> is_event EvaluationTiming a) acts
      \<and> changed = (if v_decision (er_verdict res) = Transform
          then [Emitted (ev\<lparr>te_type := InterventionPointTransformed\<rparr>)] else [])
      \<and> (if emit_stage_events (rt_perf rt)
          then \<exists>timing. timed = [Emitted timing] \<and> te_type timing = EvaluationTiming else timed = [])
      \<and> list_all safe_action (acts @ Emitted ev # changed @ timed)"
proof (rule evaluate_point_shape [of x h rt point snapshot t])
  fix res :: evaluation_result and acts d timing
  let ?event = "\<lambda>ty. decision_event ty point (er_verdict res) (policy_id_for rt point) (annotators_for rt point) d None"
  let ?changed = "if v_decision (er_verdict res) = Transform then [Emitted (?event InterventionPointTransformed)] else []"
  let ?timed = "if emit_stage_events (rt_perf rt) then [Emitted timing] else []"
  assume quiet: "list_all quiet acts"
    and shape: "evaluate_point x h rt point snapshot t = (res, t @ acts @ Emitted (?event DecisionEvent) # ?changed @ ?timed)"
    and timing: "te_type timing = EvaluationTiming"
      "te_reason_code timing = safe_telemetry_reason_code (v_reason (er_verdict res))"
  have "list_all safe_action acts"
    using quiet quiet_safe by (auto simp: list_all_iff)
  moreover have "list_all (\<lambda>a. \<not> is_event DecisionEvent a \<and> \<not> is_event InterventionPointTransformed a
      \<and> \<not> is_event EvaluationTiming a) acts"
    using quiet quiet_not_decision by (auto simp: list_all_iff)
  ultimately show ?thesis
    unfolding shape prod.case using timing
    by (intro exI [of _ acts] exI [of _ "?event DecisionEvent"] exI [of _ ?changed] exI [of _ ?timed])
      (simp add: safe_event decision_event_retyped)
qed

end
