(* ===== verification/Unix_Paths.thy ===== *)
theory Unix_Paths
  imports Policies
begin

text \<open>
  What the manifest loader uses of \<open>std::path::Path\<close> on Unix, and \<open>String::from_utf8\<close>.
  A path is its bytes; two paths are equal, and one starts with another, by components.
\<close>

section \<open>Components\<close>

text \<open>The root is the component \<open>/\<close>; empty components vanish, and so does a \<open>.\<close> that does
  not open a relative path.\<close>

definition path_components :: "string \<Rightarrow> string list" where
  "path_components p =
    (let segs = split_on (CHR ''/'') p;
         start = (if path_is_absolute p then [''/''] else if hd segs = ''.'' then [''.''] else [])
     in start @ filter (\<lambda>s. s \<noteq> [] \<and> s \<noteq> ''.'') segs)"

definition path_eq :: "string \<Rightarrow> string \<Rightarrow> bool" where
  "path_eq p q \<longleftrightarrow> path_components p = path_components q"

definition path_starts_with :: "string \<Rightarrow> string \<Rightarrow> bool" where
  "path_starts_with p base \<longleftrightarrow>
    take (length (path_components base)) (path_components p) = path_components base"

text \<open>\<open>Path::parent\<close>: separators and \<open>.\<close> components at the end do not count.\<close>

function path_trim_end :: "string \<Rightarrow> string" where
  "path_trim_end p =
    (if length p > 1 \<and> last p = CHR ''/'' then path_trim_end (butlast p)
     else if length p > 1 \<and> drop (length p - 2) p = ''/.'' then path_trim_end (butlast p)
     else p)"
  by pat_completeness auto
termination
  by (relation "measure length") auto

declare path_trim_end.simps [simp del]

definition path_parent :: "string \<Rightarrow> string option" where
  "path_parent p =
    (let q = path_trim_end p in
     if q = [] \<or> q = ''/'' then None
     else if CHR ''/'' \<notin> set q then Some []
     else
       let dir = rev (tl (dropWhile (\<lambda>c. c \<noteq> CHR ''/'') (rev q))) in
       if dir = [] then Some ''/'' else Some (path_trim_end dir))"

text \<open>\<open>Path::file_name\<close> and \<open>Path::extension\<close>.\<close>

definition path_file_name :: "string \<Rightarrow> string option" where
  "path_file_name p = (case rev (path_components p) of
      [] \<Rightarrow> None
    | c # _ \<Rightarrow> if c \<in> {''/'', ''.'', ''..''} then None else Some c)"

definition path_extension :: "string \<Rightarrow> string option" where
  "path_extension p = Option.bind (path_file_name p) (\<lambda>name.
    let after = rev (takeWhile (\<lambda>c. c \<noteq> CHR ''.'') (rev name)) in
    if CHR ''.'' \<notin> set name \<or> length after + 1 = length name then None else Some after)"

definition to_ascii_lowercase :: "char \<Rightarrow> char" where
  "to_ascii_lowercase c = (if byte c \<ge> 65 \<and> byte c \<le> 90 then char_of (byte c + 32) else c)"

definition eq_ignore_ascii_case :: "string \<Rightarrow> string \<Rightarrow> bool" where
  "eq_ignore_ascii_case a b \<longleftrightarrow> map to_ascii_lowercase a = map to_ascii_lowercase b"

section \<open>UTF-8\<close>

text \<open>What may follow a first byte: the range of each further byte.\<close>

definition utf8_tail :: "nat \<Rightarrow> (nat \<times> nat) list option" where
  "utf8_tail b =
    (if b < 128 then Some []
     else if 194 \<le> b \<and> b \<le> 223 then Some [(128, 191)]
     else if b = 224 then Some [(160, 191), (128, 191)]
     else if b = 237 then Some [(128, 159), (128, 191)]
     else if 225 \<le> b \<and> b \<le> 239 then Some [(128, 191), (128, 191)]
     else if b = 240 then Some [(144, 191), (128, 191), (128, 191)]
     else if b = 244 then Some [(128, 143), (128, 191), (128, 191)]
     else if 241 \<le> b \<and> b \<le> 243 then Some [(128, 191), (128, 191), (128, 191)]
     else None)"

text \<open>Match the tail; an error says how many bytes were good, or that the input ended.\<close>

fun utf8_match :: "(nat \<times> nat) list \<Rightarrow> string \<Rightarrow> nat \<Rightarrow> (nat option, string) result" where
  "utf8_match [] rest good = Inr rest"
| "utf8_match (r # rs) [] good = Inl None"
| "utf8_match ((low, high) # rs) (c # rest) good =
    (if low \<le> byte c \<and> byte c \<le> high then utf8_match rs rest (Suc good) else Inl (Some good))"

lemma utf8_match_length: "utf8_match rs s good = Inr rest \<Longrightarrow> length rest \<le> length s"
  by (induction rs s good rule: utf8_match.induct) (auto split: if_splits)

definition utf8_error :: "nat \<Rightarrow> nat option \<Rightarrow> string" where
  "utf8_error at n = (case n of
      Some good \<Rightarrow> ''invalid utf-8 sequence of '' @ nat_to_string good @ '' bytes from index '' @ nat_to_string at
    | None \<Rightarrow> ''incomplete utf-8 byte sequence from index '' @ nat_to_string at)"

function utf8_check :: "string \<Rightarrow> nat \<Rightarrow> (string, unit) result" where
  "utf8_check [] at = Inr ()"
| "utf8_check (c # s) at = (case utf8_tail (byte c) of
      None \<Rightarrow> Inl (utf8_error at (Some 1))
    | Some rs \<Rightarrow> (case utf8_match rs s 1 of
          Inl n \<Rightarrow> Inl (utf8_error at n)
        | Inr rest \<Rightarrow> utf8_check rest (at + 1 + length rs)))"
  by pat_completeness auto
termination
  by (relation "measure (length \<circ> fst)") (auto dest: utf8_match_length simp: less_Suc_eq_le)

definition from_utf8 :: "string \<Rightarrow> (string, string) result" where
  "from_utf8 bytes = rbind (utf8_check bytes 0) (\<lambda>_. Inr bytes)"

end
