(* ===== verification/Manifest_Loader.thy ===== *)
theory Manifest_Loader
  imports Manifest_Merge Run_Monad Unix_Paths
begin

text \<open>
  The walk of a manifest's \<open>extends\<close> entries over files and HTTPS URLs (\<open>manifest.rs\<close>:
  \<open>ManifestLoader\<close>, \<open>HttpExtendsFetcher\<close> and the functions that resolve a reference).

  The file system, the HTTPS client, the two parsers, the manifest serializer and
  \<open>Url::join\<close> are the record \<open>environment\<close>.  A file or a server may answer differently
  each time it is asked, so the answers are functions of the trace of the questions asked
  before.  The loader's stack is pushed before the loop over the entries and popped after
  it, and an error ends the whole load, so the stack is an argument.
\<close>

section \<open>Environment and state\<close>

record io_error =
  io_not_found :: bool
  io_text :: string

record http_response =
  hr_status :: nat
  hr_read :: "nat \<Rightarrow> (string, string) result"

datatype io_action = Canonicalize string | ReadFile string | HttpGet string

type_synonym io_trace = "io_action list"

record environment =
  env_canonicalize :: "io_trace \<Rightarrow> string \<Rightarrow> (io_error, string) result"
  env_read_file :: "io_trace \<Rightarrow> string \<Rightarrow> nat \<Rightarrow> (string, string) result"
  env_http_get :: "io_trace \<Rightarrow> limits \<Rightarrow> string \<Rightarrow> (string, http_response) result"
  env_json :: "string \<Rightarrow> (string, manifest) result"
  env_yaml :: "limits \<Rightarrow> string \<Rightarrow> (runtime_error, manifest) result"
  env_to_vec :: "manifest \<Rightarrow> (string, string) result"
  env_url_join :: "url \<Rightarrow> string \<Rightarrow> (url_error, url) result"
  env_url_path :: "url \<Rightarrow> string"

record loader =
  ld_trust_root :: "string option"
  ld_url_bodies :: "(string \<times> string) list"
  ld_url_sources :: "string list"
  ld_io :: io_trace

type_synonym 'a loading = "(loader, runtime_error, 'a) stateful"

definition loader_new :: loader where
  "loader_new = \<lparr>ld_trust_root = None, ld_url_bodies = [], ld_url_sources = [], ld_io = []\<rparr>"

text \<open>Ask the environment: the answer depends on what was asked before.\<close>

definition ask :: "(io_trace \<Rightarrow> 'a) \<Rightarrow> io_action \<Rightarrow> ('a \<Rightarrow> (runtime_error, 'b) result) \<Rightarrow> 'b loading" where
  "ask answer act f st = (f (answer (ld_io st)), st\<lparr>ld_io := ld_io st @ [act]\<rparr>)"

section \<open>References\<close>

datatype resolved_extends = ResolvedPath string | ResolvedUrl string

definition trim_start :: "string \<Rightarrow> string" where
  "trim_start s = concat (dropWhile is_whitespace (chars s))"

definition is_ascii_alphabetic :: "char \<Rightarrow> bool" where
  "is_ascii_alphabetic c \<longleftrightarrow> (byte c \<ge> 65 \<and> byte c \<le> 90) \<or> (byte c \<ge> 97 \<and> byte c \<le> 122)"

definition has_url_scheme :: "string \<Rightarrow> bool" where
  "has_url_scheme reference =
    (let trimmed = trim_start reference;
         scheme = takeWhile (\<lambda>c. c \<noteq> CHR '':'') trimmed in
     contains_str trimmed ''://''
     \<and> scheme \<noteq> [] \<and> is_ascii_alphabetic (hd scheme)
     \<and> list_all (\<lambda>c. is_ascii_alphanumeric c \<or> c \<in> {CHR ''+'', CHR ''-'', CHR ''.''}) scheme)"

definition validate_https_url :: "externals \<Rightarrow> string \<Rightarrow> (runtime_error, string) result" where
  "validate_https_url x raw = validate_https_url_with_context x raw ''extends''"

definition resolve_url_reference ::
  "externals \<Rightarrow> environment \<Rightarrow> manifest_location \<Rightarrow> string \<Rightarrow> (runtime_error, string) result"
where
  "resolve_url_reference x env parent raw =
    rbind (case x_url_parse x raw of
        Inr u \<Rightarrow> Inr u
      | Inl RelativeUrlWithoutBase \<Rightarrow> (case parent of
            UrlLoc base \<Rightarrow>
              rbind (map_err (\<lambda>err. ManifestInvalid (''internal manifest URL '' @ quoted base @ '' is invalid: ''
                        @ show_url_error err)) (x_url_parse x base)) (\<lambda>base_url.
              map_err (\<lambda>err. ManifestInvalid (''failed to resolve URL extends entry '' @ quoted raw @ '' from ''
                        @ quoted base @ '': '' @ show_url_error err)) (env_url_join env base_url raw))
          | PathLoc path \<Rightarrow> Inl (ManifestInvalid (''extends URL '' @ quoted raw @ '' in '' @ quoted path
                @ '' must be absolute HTTPS'')))
      | Inl err \<Rightarrow> Inl (ManifestInvalid (''extends URL '' @ quoted raw @ '' is invalid: '' @ show_url_error err)))
      (\<lambda>u. validate_url_components_with_context u ''extends'')"

definition parent_dir :: "string \<Rightarrow> string" where
  "parent_dir path = (case path_parent path of Some dir \<Rightarrow> dir | None \<Rightarrow> ''.'')"

definition resolve_reference ::
  "externals \<Rightarrow> environment \<Rightarrow> manifest_location \<Rightarrow> string \<Rightarrow> (runtime_error, resolved_extends) result"
where
  "resolve_reference x env parent reference =
    (if has_url_scheme reference then
       rbind (validate_https_url x reference) (\<lambda>link. Inr (ResolvedUrl link))
     else case parent of
         PathLoc path \<Rightarrow>
           if path_is_absolute reference then Inr (ResolvedPath reference)
           else Inr (ResolvedPath (path_join (parent_dir path) reference))
       | UrlLoc _ \<Rightarrow> rbind (resolve_url_reference x env parent reference) (\<lambda>link. Inr (ResolvedUrl link)))"

definition resolve_extends_entry ::
  "externals \<Rightarrow> environment \<Rightarrow> manifest_location \<Rightarrow> manifest_extends \<Rightarrow> (runtime_error, resolved_extends) result"
where
  "resolve_extends_entry x env parent ext = (case ext of
      Reference reference \<Rightarrow> resolve_reference x env parent reference
    | Url u \<Rightarrow> rbind (resolve_url_reference x env parent (ue_url u)) (\<lambda>link. Inr (ResolvedUrl link)))"

definition validate_extends_entries ::
  "externals \<Rightarrow> manifest \<Rightarrow> manifest_location \<Rightarrow> (runtime_error, unit) result"
where
  "validate_extends_entries x m loc =
    try_each (\<lambda>ext.
      if is_blank (extends_reference ext) then
        Inl (ManifestInvalid (''extends entries in '' @ quoted (location_label loc) @ '' must not be empty''))
      else validate_extends_trust x ext) (m_extends m)"

section \<open>Reading documents\<close>

definition saturating_succ :: "nat \<Rightarrow> nat" where
  "saturating_succ n = min (n + 1) (2 ^ 64 - 1)"

definition fetch_body ::
  "environment \<Rightarrow> limits \<Rightarrow> string \<Rightarrow> string \<Rightarrow> bool \<Rightarrow> string loading"
where
  "fetch_body env lim link ctxt require_success =
    ask (\<lambda>io. env_http_get env io lim link) (HttpGet link) (\<lambda>answer.
      rbind (map_err (\<lambda>err. ManifestUnreadable (''failed to fetch '' @ ctxt @ '' URL '' @ quoted link @ '': '' @ err))
               answer) (\<lambda>response.
      if hr_status response \<ge> 400
          \<or> (require_success \<and> \<not> (200 \<le> hr_status response \<and> hr_status response < 300)) then
        Inl (ManifestUnreadable (''failed to fetch '' @ ctxt @ '' URL '' @ quoted link @ '': HTTP ''
          @ nat_to_string (hr_status response)))
      else
        rbind (map_err (\<lambda>err. ManifestUnreadable (''failed to read '' @ ctxt @ '' URL '' @ quoted link
                  @ '' response body: '' @ err))
                (hr_read response (saturating_succ (max_manifest_url_bytes lim)))) (\<lambda>body.
        if length body > max_manifest_url_bytes lim then
          Inl (ResourceLimitExceeded
            ((if ctxt = ''extends'' then ''manifest URL extends'' else ctxt @ '' URL'')
             @ '' body from '' @ quoted link @ '' exceeds limit '' @ nat_to_string (max_manifest_url_bytes lim)))
        else Inr body)))"

definition fetcher_fetch :: "externals \<Rightarrow> environment \<Rightarrow> limits \<Rightarrow> string \<Rightarrow> string loading" where
  "fetcher_fetch x env lim link =
    run_bind (run_lift (validate_https_url x link)) (\<lambda>_.
    fetch_body env lim link ''extends'' False)"

definition fetch_url_body :: "externals \<Rightarrow> environment \<Rightarrow> limits \<Rightarrow> string \<Rightarrow> string loading" where
  "fetch_url_body x env lim link st = (case map_of (ld_url_bodies st) link of
      Some body \<Rightarrow> (Inr body, st)
    | None \<Rightarrow>
        run_bind (fetcher_fetch x env lim link) (\<lambda>body.
        run_bind (run_lift (if length body > max_manifest_url_bytes lim then
            Inl (ResourceLimitExceeded (''manifest URL extends body from '' @ quoted link @ '' is ''
              @ nat_to_string (length body) @ '' bytes, exceeding limit ''
              @ nat_to_string (max_manifest_url_bytes lim)))
          else Inr ())) (\<lambda>_.
        run_bind (run_effect (\<lambda>st. st\<lparr>ld_url_bodies := bt_insert link body (ld_url_bodies st)\<rparr>)) (\<lambda>_.
        run_lift (Inr body)))) st)"

definition read_location_body :: "externals \<Rightarrow> environment \<Rightarrow> limits \<Rightarrow> manifest_location \<Rightarrow> string loading" where
  "read_location_body x env lim loc = (case loc of
      PathLoc path \<Rightarrow>
        ask (\<lambda>io. env_read_file env io path (saturating_succ (max_merged_manifest_bytes lim))) (ReadFile path)
          (\<lambda>answer.
            rbind (map_err (\<lambda>err. ManifestUnreadable (''failed to read manifest file '' @ quoted path @ '': '' @ err))
              answer) (\<lambda>body.
            if length body > max_merged_manifest_bytes lim then
              Inl (ResourceLimitExceeded (''manifest source '' @ quoted path @ '' exceeds the byte limit''))
            else Inr body))
    | UrlLoc link \<Rightarrow> fetch_url_body x env lim link)"

definition canonicalize_manifest_path :: "environment \<Rightarrow> string \<Rightarrow> string option \<Rightarrow> string loading" where
  "canonicalize_manifest_path env path including =
    ask (\<lambda>io. env_canonicalize env io path) (Canonicalize path) (map_err (\<lambda>err. case including of
        Some inc \<Rightarrow>
          let d = ''failed to resolve extends file '' @ quoted path @ '' from '' @ quoted inc @ '': '' @ io_text err in
          if io_not_found err then ManifestInvalid d else ManifestUnreadable d
      | None \<Rightarrow> ManifestUnreadable (''failed to resolve manifest file '' @ quoted path @ '': '' @ io_text err)))"

section \<open>Parsing\<close>

definition is_json :: "externals \<Rightarrow> environment \<Rightarrow> manifest_location \<Rightarrow> bool" where
  "is_json x env loc = (case (case loc of
        PathLoc path \<Rightarrow> path_extension path
      | UrlLoc raw \<Rightarrow> (case x_url_parse x raw of
            Inr u \<Rightarrow> path_extension (env_url_path env u)
          | Inl _ \<Rightarrow> None)) of
      Some extension \<Rightarrow> eq_ignore_ascii_case extension ''json''
    | None \<Rightarrow> False)"

text \<open>The provenance fields are \<open>#[serde(skip)]\<close>: text cannot set them.\<close>

definition deserialized :: "manifest \<Rightarrow> manifest" where
  "deserialized m = m\<lparr>m_url_sources := [], m_url_sourced_annotators := [],
    m_url_sourced_annotations := [], m_composition := Document\<rparr>"

definition parse_yaml_str_with_limits :: "environment \<Rightarrow> string \<Rightarrow> limits \<Rightarrow> (runtime_error, manifest) result" where
  "parse_yaml_str_with_limits env input lim =
    (if length input > max_merged_manifest_bytes lim then
       Inl (ResourceLimitExceeded (''manifest source bytes '' @ nat_to_string (length input)
         @ '' exceeds max_merged_manifest_bytes limit '' @ nat_to_string (max_merged_manifest_bytes lim)))
     else rbind (env_yaml env lim input) (\<lambda>m. Inr (deserialized m)))"

definition as_invalid :: "string \<Rightarrow> runtime_error \<Rightarrow> runtime_error" where
  "as_invalid opening e = (case e of ManifestInvalid d \<Rightarrow> ManifestInvalid (opening @ d) | other \<Rightarrow> other)"

definition parse_manifest_source ::
  "externals \<Rightarrow> environment \<Rightarrow> string \<Rightarrow> manifest_location \<Rightarrow> limits \<Rightarrow> (runtime_error, manifest) result"
where
  "parse_manifest_source x env src loc lim =
    (if length src > max_merged_manifest_bytes lim then
       Inl (ResourceLimitExceeded ''manifest source exceeds the byte limit'')
     else if is_json x env loc then
       rbind (map_err (\<lambda>err. ManifestInvalid (''failed to parse manifest '' @ quoted (location_label loc)
                @ '' as JSON: '' @ err)) (env_json env src)) (\<lambda>m. Inr (deserialized m))
     else
       map_err (as_invalid (''failed to parse manifest '' @ quoted (location_label loc) @ '' as YAML: ''))
         (parse_yaml_str_with_limits env src lim))"

definition from_yaml_str_with_limits ::
  "externals \<Rightarrow> environment \<Rightarrow> string \<Rightarrow> limits \<Rightarrow> (runtime_error, manifest) result"
where
  "from_yaml_str_with_limits x env input lim =
    rbind (parse_yaml_str_with_limits env input lim) (\<lambda>m.
    rbind (manifest_validate x m) (\<lambda>_. Inr m))"

definition from_json_str :: "externals \<Rightarrow> environment \<Rightarrow> string \<Rightarrow> (runtime_error, manifest) result" where
  "from_json_str x env input =
    rbind (map_err ManifestInvalid (env_json env input)) (\<lambda>m.
    rbind (manifest_validate x (deserialized m)) (\<lambda>_. Inr (deserialized m)))"

section \<open>The walk\<close>

definition validate_merged_manifest_size ::
  "environment \<Rightarrow> limits \<Rightarrow> manifest option \<Rightarrow> (runtime_error, unit) result"
where
  "validate_merged_manifest_size env lim resolved = (case resolved of
      None \<Rightarrow> Inr ()
    | Some m \<Rightarrow>
        rbind (map_err (\<lambda>err. ResourceLimitExceeded
                 (''failed to serialize merged manifest for resource limit check: '' @ err))
                 (env_to_vec env m)) (\<lambda>serialized.
        if length serialized > max_merged_manifest_bytes lim then
          Inl (ResourceLimitExceeded (''merged manifest serialized size ''
            @ nat_to_string (length serialized) @ '' exceeds limit ''
            @ nat_to_string (max_merged_manifest_bytes lim)))
        else Inr ()))"

definition location_eq :: "manifest_location \<Rightarrow> manifest_location \<Rightarrow> bool" where
  "location_eq a b = (case (a, b) of
      (PathLoc p, PathLoc q) \<Rightarrow> path_eq p q
    | (UrlLoc u, UrlLoc v) \<Rightarrow> u = v
    | _ \<Rightarrow> False)"

text \<open>One document, from the cycle check to the point before its entries are walked.\<close>

definition open_document ::
  "externals \<Rightarrow> environment \<Rightarrow> limits \<Rightarrow> manifest_location list \<Rightarrow> manifest_location \<Rightarrow> string option \<Rightarrow> bool
    \<Rightarrow> manifest loading"
where
  "open_document x env lim stack loc body chain_pinned =
    run_bind (run_lift (case dropWhile (\<lambda>l. \<not> location_eq l loc) stack of
        [] \<Rightarrow> Inr ()
      | cycle \<Rightarrow> Inl (ManifestInvalid (''manifest extends cycle detected: ''
          @ join '' -> '' (map location_label cycle @ [location_label loc]))))) (\<lambda>_.
    run_bind (case body of Some b \<Rightarrow> run_lift (Inr b) | None \<Rightarrow> read_location_body x env lim loc) (\<lambda>bytes.
    run_bind (run_lift (map_err (\<lambda>err. ManifestInvalid (''manifest '' @ quoted (location_label loc)
                @ '' is not valid UTF-8: '' @ err)) (from_utf8 bytes))) (\<lambda>src.
    run_bind (run_lift (parse_manifest_source x env src loc lim)) (\<lambda>m.
    run_bind (run_lift (validate_extends_entries x m loc)) (\<lambda>_.
    case loc of
      UrlLoc link \<Rightarrow>
        run_bind (run_effect (\<lambda>st. st\<lparr>ld_url_sources := push_url_source (ld_url_sources st) link\<rparr>)) (\<lambda>_.
        run_bind (run_lift (reject_fetched_document_local_access (''remote manifest '' @ quoted link) chain_pinned
                  (record_fetched_declarations m))) (\<lambda>_.
        run_lift (Inr (record_fetched_declarations m))))
    | PathLoc path \<Rightarrow> run_lift (Inr (manifest_resolve_relative_paths (parent_dir path) m)))))))"

text \<open>What an entry leads to: the checks before the included document is opened, and for a
  URL its verified body.  The last component is the location a merge conflict names.\<close>

record inclusion =
  in_location :: manifest_location
  in_body :: "string option"
  in_pinned :: bool
  in_source :: manifest_location

definition load_extends_path :: "environment \<Rightarrow> string \<Rightarrow> string \<Rightarrow> string \<Rightarrow> manifest_location loading" where
  "load_extends_path env include_path including entry =
    run_bind (canonicalize_manifest_path env include_path (Some including)) (\<lambda>canonical st.
      (rbind (ok_or (ManifestInvalid ''manifest loader trust root was not initialized'') (ld_trust_root st))
        (\<lambda>root.
          if \<not> path_starts_with canonical root then
            Inl (ManifestInvalid (''extends entry '' @ quoted entry @ '' in '' @ quoted including
              @ '' resolves outside manifest root '' @ quoted root @ '': '' @ quoted canonical))
          else Inr (PathLoc canonical)), st))"

definition load_extends_url ::
  "externals \<Rightarrow> environment \<Rightarrow> limits \<Rightarrow> string \<Rightarrow> manifest_extends \<Rightarrow> (string \<times> string) loading"
where
  "load_extends_url x env lim link ext =
    run_bind (run_lift (validate_https_url x link)) (\<lambda>normalized.
    run_bind (fetch_url_body x env lim normalized) (\<lambda>body.
    run_bind (run_lift (verify_extends_hash x ext normalized body)) (\<lambda>_.
    run_lift (Inr (normalized, body)))))"

definition include_entry ::
  "externals \<Rightarrow> environment \<Rightarrow> limits \<Rightarrow> manifest_location \<Rightarrow> bool \<Rightarrow> manifest_extends \<Rightarrow> inclusion loading"
where
  "include_entry x env lim loc chain_pinned ext =
    run_bind (run_lift (resolve_extends_entry x env loc ext)) (\<lambda>resolved. case resolved of
      ResolvedPath include_path \<Rightarrow> (case loc of
          UrlLoc link \<Rightarrow> run_lift (Inl (ManifestInvalid (''remote manifest '' @ quoted link
            @ '' cannot extend local path '' @ quoted (extends_reference ext))))
        | PathLoc including \<Rightarrow>
            run_bind (canonicalize_manifest_path env include_path (Some including)) (\<lambda>canonical.
            run_bind (load_extends_path env include_path including (extends_reference ext)) (\<lambda>target.
            run_lift (Inr \<lparr>in_location = target, in_body = None, in_pinned = True,
              in_source = PathLoc canonical\<rparr>))))
    | ResolvedUrl link \<Rightarrow>
        run_bind (run_lift (validate_https_url x link)) (\<lambda>normalized.
        run_bind (load_extends_url x env lim normalized ext) (\<lambda>(fetched, body).
        run_lift (Inr \<lparr>in_location = UrlLoc fetched, in_body = Some body,
          in_pinned = (chain_pinned \<and> is_pinned ext), in_source = UrlLoc normalized\<rparr>))))"

definition merge_included ::
  "environment \<Rightarrow> limits \<Rightarrow> manifest option \<Rightarrow> manifest \<Rightarrow> manifest_location
    \<Rightarrow> (runtime_error, manifest option) result"
where
  "merge_included env lim resolved m loc =
    rbind (merge_resolved_manifest resolved m (Location loc)) (\<lambda>merged.
    rbind (validate_merged_manifest_size env lim merged) (\<lambda>_. Inr merged))"

function load_location_with_body ::
  "externals \<Rightarrow> environment \<Rightarrow> limits \<Rightarrow> manifest_location list \<Rightarrow> manifest_location \<Rightarrow> string option \<Rightarrow> bool
    \<Rightarrow> manifest loading"
and load_entries ::
  "externals \<Rightarrow> environment \<Rightarrow> limits \<Rightarrow> manifest_location list \<Rightarrow> manifest_location \<Rightarrow> bool
    \<Rightarrow> manifest_extends list \<Rightarrow> manifest option \<Rightarrow> manifest option loading"
where
  "load_location_with_body x env lim stack loc body chain_pinned st =
    (if length stack + 1 > max_extends_depth lim then
       (Inl (ResourceLimitExceeded (''manifest extends depth exceeds limit ''
          @ nat_to_string (max_extends_depth lim) @ '' at '' @ quoted (location_label loc))), st)
     else case open_document x env lim stack loc body chain_pinned st of
       (Inl e, st) \<Rightarrow> (Inl e, st)
     | (Inr m, st) \<Rightarrow>
         (case load_entries x env lim (stack @ [loc]) loc chain_pinned (m_extends m) None st of
           (Inl e, st) \<Rightarrow> (Inl e, st)
         | (Inr resolved, st) \<Rightarrow>
             (rbind (merge_included env lim resolved (m\<lparr>m_extends := []\<rparr>) loc) (\<lambda>merged.
                Inr (the merged)), st)))"
| "load_entries x env lim stack loc chain_pinned [] resolved st = (Inr resolved, st)"
| "load_entries x env lim stack loc chain_pinned (ext # exts) resolved st =
    (case include_entry x env lim loc chain_pinned ext st of
       (Inl e, st) \<Rightarrow> (Inl e, st)
     | (Inr inc, st) \<Rightarrow>
         (case load_location_with_body x env lim stack (in_location inc) (in_body inc) (in_pinned inc) st of
           (Inl e, st) \<Rightarrow> (Inl e, st)
         | (Inr m, st) \<Rightarrow>
             (case merge_included env lim resolved m (in_source inc) of
               Inl e \<Rightarrow> (Inl e, st)
             | Inr merged \<Rightarrow> load_entries x env lim stack loc chain_pinned exts merged st)))"
  by pat_completeness auto

text \<open>The walk ends whatever the documents say: each document is one deeper than the one that
  named it, and the depth is bounded.\<close>

termination
  by (relation "measures [case_sum
        (\<lambda>(x, env, lim, stack, _). max_extends_depth lim - length stack)
        (\<lambda>(x, env, lim, stack, _). max_extends_depth lim - length stack),
      case_sum (\<lambda>_. 0) (\<lambda>(x, env, lim, stack, loc, pinned, exts, _). Suc (length exts))]") auto

declare load_location_with_body.simps [simp del] load_entries.simps(2) [simp del]

definition load :: "externals \<Rightarrow> environment \<Rightarrow> limits \<Rightarrow> string \<Rightarrow> manifest loading" where
  "load x env lim path =
    run_bind (canonicalize_manifest_path env path None) (\<lambda>canonical st.
      let previous_root = ld_trust_root st;
          (result, st) = load_location_with_body x env lim [] (PathLoc canonical) None True
            (st\<lparr>ld_trust_root := Some (parent_dir canonical), ld_url_sources := []\<rparr>);
          st = st\<lparr>ld_trust_root := previous_root\<rparr>
      in run_bind (run_lift result) (\<lambda>m st.
           let m = m\<lparr>m_url_sources := ld_url_sources st, m_composition := Loaded\<rparr> in
           run_bind (run_lift (manifest_validate x m)) (\<lambda>_. run_lift (Inr m)) (st\<lparr>ld_url_sources := []\<rparr>)) st)"

definition from_path_with_limits ::
  "externals \<Rightarrow> environment \<Rightarrow> limits \<Rightarrow> string \<Rightarrow> (runtime_error, manifest) result"
where
  "from_path_with_limits x env lim path = fst (load x env lim path loader_new)"

text \<open>\<open>from_yaml_chain_with_limits\<close>: text fragments, parsed in order and composed.\<close>

definition from_yaml_chain_with_limits ::
  "externals \<Rightarrow> environment \<Rightarrow> string list \<Rightarrow> limits \<Rightarrow> (runtime_error, manifest) result"
where
  "from_yaml_chain_with_limits x env inputs lim =
    (if inputs = [] then Inl (ManifestInvalid ''manifest yaml chain must not be empty'')
     else
       rbind (try_map (\<lambda>(index, input).
           map_err (as_invalid (''failed to parse manifest chain entry '' @ nat_to_string index @ '' as YAML: ''))
             (parse_yaml_str_with_limits env input lim)) (enumerate 0 inputs)) (\<lambda>manifests.
       rbind (merge_chain x manifests) (\<lambda>m.
       rbind (validate_merged_manifest_size env lim (Some m)) (\<lambda>_. Inr m))))"

end
