(* ===== verification/Loader_Laws.thy ===== *)
theory Loader_Laws
  imports Manifest_Loader Manifest_Provenance Merge_Laws "HOL-Library.Sublist"
begin

text \<open>
  What the manifest loader guarantees.  A load that succeeds is the composition of a tree
  of documents: \<open>trusted_tree\<close> says how each document of the tree was obtained and which
  checks it passed, \<open>composes\<close> which merges gave the result.
\<close>

section \<open>Trees of documents\<close>

datatype document_tree = Document_Tree (dt_location: manifest_location) (dt_pinned: bool)
  (dt_bytes: string) (dt_document: manifest) (dt_children: "document_tree list")

text \<open>The bytes of a document are an answer of the environment to a question the trace holds.\<close>

definition obtained :: "environment \<Rightarrow> limits \<Rightarrow> io_trace \<Rightarrow> manifest_location \<Rightarrow> string \<Rightarrow> bool" where
  "obtained env lim io loc bytes = (case loc of
      PathLoc path \<Rightarrow> (\<exists>earlier. prefix (earlier @ [ReadFile path]) io
        \<and> env_read_file env earlier path (saturating_succ (max_merged_manifest_bytes lim)) = Inr bytes
        \<and> length bytes \<le> max_merged_manifest_bytes lim)
    | UrlLoc link \<Rightarrow> (\<exists>earlier response. prefix (earlier @ [HttpGet link]) io
        \<and> env_http_get env earlier lim link = Inr response \<and> hr_status response < 400
        \<and> hr_read response (saturating_succ (max_manifest_url_bytes lim)) = Inr bytes
        \<and> length bytes \<le> max_manifest_url_bytes lim))"

definition document_ok ::
  "externals \<Rightarrow> environment \<Rightarrow> limits \<Rightarrow> io_trace \<Rightarrow> manifest_location \<Rightarrow> bool \<Rightarrow> string \<Rightarrow> manifest \<Rightarrow> bool"
where
  "document_ok x env lim io loc pinned bytes doc \<longleftrightarrow> obtained env lim io loc bytes
    \<and> (\<exists>m. parse_manifest_source x env bytes loc lim = Inr m \<and> validate_extends_entries x m loc = Inr ()
        \<and> (case loc of
            PathLoc path \<Rightarrow> doc = manifest_resolve_relative_paths (parent_dir path) m
          | UrlLoc link \<Rightarrow> doc = record_fetched_declarations m
              \<and> reject_fetched_document_local_access (''remote manifest '' @ quoted link) pinned doc = Inr ()))"

text \<open>Only a file leads to a file, below the trust root; a URL document has the digest its entry
  pins, and counts as pinned when its entry and everything above it is.\<close>

definition edge_ok ::
  "externals \<Rightarrow> string \<Rightarrow> manifest_location \<Rightarrow> bool \<Rightarrow> manifest_extends \<Rightarrow> document_tree \<Rightarrow> bool"
where
  "edge_ok x base parent pinned ext t = (case dt_location t of
      PathLoc path \<Rightarrow> path_starts_with path base \<and> dt_pinned t \<and> (\<exists>p. parent = PathLoc p)
    | UrlLoc link \<Rightarrow> dt_pinned t = (pinned \<and> is_pinned ext)
        \<and> (\<exists>raw. validate_https_url x raw = Inr link) \<and> verify_extends_hash x ext link (dt_bytes t) = Inr ())"

fun trusted_tree :: "externals \<Rightarrow> environment \<Rightarrow> limits \<Rightarrow> string \<Rightarrow> io_trace \<Rightarrow> document_tree \<Rightarrow> bool" where
  "trusted_tree x env lim base io (Document_Tree loc pinned bytes doc ts) \<longleftrightarrow>
    document_ok x env lim io loc pinned bytes doc
    \<and> list_all2 (edge_ok x base loc pinned) (m_extends doc) ts
    \<and> (\<forall>t\<in>set ts. trusted_tree x env lim base io t)"

fun tree_depth :: "document_tree \<Rightarrow> nat" where
  "tree_depth (Document_Tree loc pinned bytes doc ts) = Suc (fold max (map tree_depth ts) 0)"

fun tree_documents :: "document_tree \<Rightarrow> (manifest_location \<times> manifest) list" where
  "tree_documents (Document_Tree loc pinned bytes doc ts) = concat (map tree_documents ts) @ [(loc, doc)]"

inductive composes :: "document_tree \<Rightarrow> manifest \<Rightarrow> bool"
  and composes_all :: "document_tree list \<Rightarrow> manifest option \<Rightarrow> manifest option \<Rightarrow> bool"
where
  composes_document: "\<lbrakk>composes_all ts None resolved;
      merge_resolved_manifest resolved (doc\<lparr>m_extends := []\<rparr>) src = Inr (Some m)\<rbrakk>
    \<Longrightarrow> composes (Document_Tree loc pinned bytes doc ts) m"
| composes_none: "composes_all [] resolved resolved"
| composes_next: "\<lbrakk>composes t m; merge_resolved_manifest resolved m src = Inr merged;
      composes_all ts merged result\<rbrakk> \<Longrightarrow> composes_all (t # ts) resolved result"

lemma obtained_mono: "obtained env lim io loc bytes \<Longrightarrow> prefix io io' \<Longrightarrow> obtained env lim io' loc bytes"
  unfolding obtained_def by (cases loc) (auto dest: prefix_order.trans)

lemma document_ok_mono:
  "document_ok x env lim io loc pinned bytes doc \<Longrightarrow> prefix io io' \<Longrightarrow> document_ok x env lim io' loc pinned bytes doc"
  unfolding document_ok_def by (auto dest: obtained_mono)

lemma trusted_tree_mono: "trusted_tree x env lim base io t \<Longrightarrow> prefix io io' \<Longrightarrow> trusted_tree x env lim base io' t"
  by (induction t) (auto dest: document_ok_mono)

section \<open>The state of a load\<close>

definition cache_ok :: "environment \<Rightarrow> limits \<Rightarrow> loader \<Rightarrow> bool" where
  "cache_ok env lim st \<longleftrightarrow>
    (\<forall>link body. map_of (ld_url_bodies st) link = Some body \<longrightarrow> obtained env lim (ld_io st) (UrlLoc link) body)"

text \<open>What every step of a load keeps.\<close>

definition advanced :: "environment \<Rightarrow> limits \<Rightarrow> loader \<Rightarrow> loader \<Rightarrow> bool" where
  "advanced env lim st st' \<longleftrightarrow> prefix (ld_io st) (ld_io st') \<and> ld_trust_root st' = ld_trust_root st
    \<and> (cache_ok env lim st \<longrightarrow> cache_ok env lim st')"

lemma advanced_refl [simp]: "advanced env lim st st"
  by (simp add: advanced_def)

lemma advanced_trans: "advanced env lim st st' \<Longrightarrow> advanced env lim st' st'' \<Longrightarrow> advanced env lim st st''"
  unfolding advanced_def by (auto dest: prefix_order.trans)

lemma ask_ok:
  "ask answer act f st = (r, st') \<longleftrightarrow> r = f (answer (ld_io st)) \<and> st' = st\<lparr>ld_io := ld_io st @ [act]\<rparr>"
  by (auto simp: ask_def)

lemma advanced_io: "advanced env lim st (st\<lparr>ld_io := ld_io st @ [act]\<rparr>)"
  unfolding advanced_def cache_ok_def by (auto intro: obtained_mono [where io = "ld_io st"])

lemma advanced_sources: "advanced env lim st (st\<lparr>ld_url_sources := s\<rparr>)"
  unfolding advanced_def cache_ok_def by simp

lemma advanced_cache:
  "obtained env lim (ld_io st) (UrlLoc link) body
    \<Longrightarrow> advanced env lim st (st\<lparr>ld_url_bodies := bt_insert link body (ld_url_bodies st)\<rparr>)"
  unfolding advanced_def cache_ok_def by (simp add: bt_insert_get)

text \<open>The steps of the walk: each only advances the state, and what it returns was obtained.\<close>

lemma fetch_body_result:
  assumes "fetch_body env lim link ctxt require st = (r, st')"
  shows "advanced env lim st st'" "ld_url_sources st' = ld_url_sources st"
    and "r = Inr body \<Longrightarrow> obtained env lim (ld_io st') (UrlLoc link) body"
  using assms unfolding fetch_body_def ask_ok
  by (auto simp: advanced_io obtained_def rbind_eq_Inr_iff map_err_eq_Inr_iff not_le split: if_splits)

lemma fetch_url_body_result:
  assumes "fetch_url_body x env lim link st = (r, st')"
  shows "advanced env lim st st'" "ld_url_sources st' = ld_url_sources st"
    and "r = Inr body \<Longrightarrow> cache_ok env lim st \<Longrightarrow> obtained env lim (ld_io st') (UrlLoc link) body"
proof -
  have "advanced env lim st st' \<and> ld_url_sources st' = ld_url_sources st
    \<and> (r = Inr body \<longrightarrow> cache_ok env lim st \<longrightarrow> obtained env lim (ld_io st') (UrlLoc link) body)"
  proof (cases "map_of (ld_url_bodies st) link")
    case (Some b)
    then show ?thesis
      using assms by (auto simp: fetch_url_body_def cache_ok_def)
  next
    case None
    show ?thesis
    proof (cases "validate_https_url x link")
      case (Inl e)
      then show ?thesis
        using None assms by (auto simp: fetch_url_body_def fetcher_fetch_def run_bind_def)
    next
      case (Inr u)
      obtain r1 s1 where fetch: "fetch_body env lim link ''extends'' False st = (r1, s1)"
        by fastforce
      note step = fetch_body_result [OF fetch]
      have "(r, st') = (case r1 of Inl e \<Rightarrow> (Inl e, s1) | Inr b \<Rightarrow>
          if length b > max_manifest_url_bytes lim then (r, s1)
          else (Inr b, s1\<lparr>ld_url_bodies := bt_insert link b (ld_url_bodies s1)\<rparr>))"
        using None assms Inr fetch
        by (auto simp: fetch_url_body_def fetcher_fetch_def run_bind_def run_effect_def split: sum.splits if_splits)
      moreover have "length b \<le> max_manifest_url_bytes lim" if "r1 = Inr b" for b
        using step(3) [OF that] by (auto simp: obtained_def)
      ultimately show ?thesis
        using step advanced_trans [OF step(1)] advanced_cache
        by (cases r1) auto
    qed
  qed
  then show "advanced env lim st st'" "ld_url_sources st' = ld_url_sources st"
    "r = Inr body \<Longrightarrow> cache_ok env lim st \<Longrightarrow> obtained env lim (ld_io st') (UrlLoc link) body"
    by blast+
qed

lemma read_location_body_result:
  assumes "read_location_body x env lim loc st = (r, st')"
  shows "advanced env lim st st'" "ld_url_sources st' = ld_url_sources st"
    and "r = Inr body \<Longrightarrow> cache_ok env lim st \<Longrightarrow> obtained env lim (ld_io st') loc body"
proof -
  have "advanced env lim st st' \<and> ld_url_sources st' = ld_url_sources st
    \<and> (r = Inr body \<longrightarrow> cache_ok env lim st \<longrightarrow> obtained env lim (ld_io st') loc body)"
  proof (cases loc)
    case (PathLoc path)
    then show ?thesis
      using assms by (auto simp: read_location_body_def ask_ok advanced_io obtained_def rbind_eq_Inr_iff
          map_err_eq_Inr_iff not_less split: if_splits)
  next
    case (UrlLoc link)
    then have "fetch_url_body x env lim link st = (r, st')"
      using assms by (simp add: read_location_body_def)
    from fetch_url_body_result [OF this] show ?thesis
      by (simp add: UrlLoc)
  qed
  then show "advanced env lim st st'" "ld_url_sources st' = ld_url_sources st"
    "r = Inr body \<Longrightarrow> cache_ok env lim st \<Longrightarrow> obtained env lim (ld_io st') loc body"
    by blast+
qed

lemma from_utf8_same: "from_utf8 b = Inr s \<Longrightarrow> s = b"
  by (auto simp: from_utf8_def rbind_eq_Inr_iff)

definition sources_after :: "manifest_location \<Rightarrow> string list \<Rightarrow> string list" where
  "sources_after loc sources = (case loc of UrlLoc link \<Rightarrow> push_url_source sources link | PathLoc _ \<Rightarrow> sources)"

lemma open_document_result:
  assumes "open_document x env lim stack loc body pinned st = (Inr doc, st')" "cache_ok env lim st"
    and "\<And>b. body = Some b \<Longrightarrow> obtained env lim (ld_io st) loc b"
  obtains bytes where "document_ok x env lim (ld_io st') loc pinned bytes doc" "advanced env lim st st'"
    "\<And>b. body = Some b \<Longrightarrow> bytes = b" "ld_url_sources st' = sources_after loc (ld_url_sources st)"
proof -
  from assms(1) obtain bytes s1 m where
    body: "(case body of Some b \<Rightarrow> run_lift (Inr b) | None \<Rightarrow> read_location_body x env lim loc) st = (Inr bytes, s1)"
    and parse: "parse_manifest_source x env bytes loc lim = Inr m" "validate_extends_entries x m loc = Inr ()"
    and rest: "(case loc of
      UrlLoc link \<Rightarrow>
        run_bind (run_effect (\<lambda>st. st\<lparr>ld_url_sources := push_url_source (ld_url_sources st) link\<rparr>)) (\<lambda>_.
        run_bind (run_lift (reject_fetched_document_local_access (''remote manifest '' @ quoted link) pinned
                  (record_fetched_declarations m))) (\<lambda>_.
        run_lift (Inr (record_fetched_declarations m))))
    | PathLoc path \<Rightarrow> run_lift (Inr (manifest_resolve_relative_paths (parent_dir path) m))) s1 = (Inr doc, st')"
    unfolding open_document_def run_bind_ok run_lift_eq
    by (auto simp: map_err_eq_Inr_iff dest!: from_utf8_same)
  have read: "advanced env lim st s1 \<and> ld_url_sources s1 = ld_url_sources st \<and> obtained env lim (ld_io s1) loc bytes
      \<and> (\<forall>b. body = Some b \<longrightarrow> bytes = b)"
  proof (cases body)
    case None
    then have "read_location_body x env lim loc st = (Inr bytes, s1)"
      using body by simp
    from read_location_body_result [OF this] show ?thesis
      using assms(2) None by simp
  next
    case (Some b)
    then show ?thesis
      using body assms(3) by simp
  qed
  have "advanced env lim s1 st' \<and> ld_io st' = ld_io s1 \<and> ld_url_sources st' = sources_after loc (ld_url_sources s1)
      \<and> (case loc of
            PathLoc path \<Rightarrow> doc = manifest_resolve_relative_paths (parent_dir path) m
          | UrlLoc link \<Rightarrow> doc = record_fetched_declarations m
              \<and> reject_fetched_document_local_access (''remote manifest '' @ quoted link) pinned doc = Inr ())"
    using rest by (cases loc) (auto simp: run_bind_ok run_effect_def sources_after_def advanced_sources)
  then show thesis
    using read parse that [of bytes] advanced_trans by (auto simp: document_ok_def)
qed

lemma canonicalize_result:
  "canonicalize_manifest_path env path inc st = (r, st') \<Longrightarrow> advanced env lim st st' \<and> ld_url_sources st' = ld_url_sources st"
  by (auto simp: canonicalize_manifest_path_def ask_ok advanced_io)

lemma load_extends_path_result:
  assumes "load_extends_path env p inc entry st = (Inr target, st')" "ld_trust_root st = Some base"
  shows "advanced env lim st st' \<and> ld_url_sources st' = ld_url_sources st
    \<and> (\<exists>path. target = PathLoc path \<and> path_starts_with path base)"
  using assms canonicalize_result [of env p "Some inc" st _ _ lim]
  by (fastforce simp: load_extends_path_def run_bind_ok advanced_def ok_or_def split: if_splits option.splits)

lemma load_extends_url_result:
  assumes "load_extends_url x env lim link ext st = (Inr (fetched, body), st')" "cache_ok env lim st"
  shows "advanced env lim st st' \<and> ld_url_sources st' = ld_url_sources st
    \<and> obtained env lim (ld_io st') (UrlLoc fetched) body \<and> validate_https_url x link = Inr fetched
    \<and> verify_extends_hash x ext fetched body = Inr ()"
  using assms fetch_url_body_result [of x env lim fetched st]
  by (auto simp: load_extends_url_def run_bind_ok)

lemma include_entry_result:
  assumes "include_entry x env lim loc pinned ext st = (Inr inc, st')" "cache_ok env lim st"
    and "ld_trust_root st = Some base"
  shows "advanced env lim st st'" "ld_url_sources st' = ld_url_sources st"
    and "\<And>b. in_body inc = Some b \<Longrightarrow> obtained env lim (ld_io st') (in_location inc) b"
    and "\<And>t. \<lbrakk>dt_location t = in_location inc; dt_pinned t = in_pinned inc;
      \<And>b. in_body inc = Some b \<Longrightarrow> dt_bytes t = b\<rbrakk> \<Longrightarrow> edge_ok x base loc pinned ext t"
proof -
  from assms(1) obtain resolved where resolved: "resolve_extends_entry x env loc ext = Inr resolved"
    by (auto simp: include_entry_def run_bind_ok)
  have "advanced env lim st st' \<and> ld_url_sources st' = ld_url_sources st
    \<and> (\<forall>b. in_body inc = Some b \<longrightarrow> obtained env lim (ld_io st') (in_location inc) b)
    \<and> (\<forall>t. dt_location t = in_location inc \<and> dt_pinned t = in_pinned inc
      \<and> (\<forall>b. in_body inc = Some b \<longrightarrow> dt_bytes t = b) \<longrightarrow> edge_ok x base loc pinned ext t)"
  proof (cases resolved)
    case (ResolvedUrl link)
    then obtain normalized fetched body where
      url: "load_extends_url x env lim normalized ext st = (Inr (fetched, body), st')"
      and inc: "inc = \<lparr>in_location = UrlLoc fetched, in_body = Some body,
          in_pinned = (pinned \<and> is_pinned ext), in_source = UrlLoc normalized\<rparr>"
      using assms(1) resolved by (auto simp: include_entry_def run_bind_ok)
    show ?thesis
      using load_extends_url_result [OF url assms(2)] by (auto simp: inc edge_ok_def)
  next
    case (ResolvedPath p)
    then obtain parent s1 canonical target where loc: "loc = PathLoc parent"
      and can: "canonicalize_manifest_path env p (Some parent) st = (Inr canonical, s1)"
      and target: "load_extends_path env p parent (extends_reference ext) s1 = (Inr target, st')"
      and inc: "inc = \<lparr>in_location = target, in_body = None, in_pinned = True, in_source = PathLoc canonical\<rparr>"
      using assms(1) resolved by (auto simp: include_entry_def run_bind_ok split: manifest_location.splits)
    note step = canonicalize_result [OF can, of lim]
    moreover have "ld_trust_root s1 = Some base"
      using step assms(3) by (simp add: advanced_def)
    ultimately show ?thesis
      using load_extends_path_result [OF target, of base lim] advanced_trans [of env lim st s1 st']
      by (auto simp: inc loc edge_ok_def)
  qed
  then show "advanced env lim st st'" "ld_url_sources st' = ld_url_sources st"
    "\<And>b. in_body inc = Some b \<Longrightarrow> obtained env lim (ld_io st') (in_location inc) b"
    "\<And>t. \<lbrakk>dt_location t = in_location inc; dt_pinned t = in_pinned inc;
      \<And>b. in_body inc = Some b \<Longrightarrow> dt_bytes t = b\<rbrakk> \<Longrightarrow> edge_ok x base loc pinned ext t"
    by blast+
qed

section \<open>The walk is a composition\<close>

definition tree_urls :: "document_tree \<Rightarrow> string set" where
  "tree_urls t = {link. UrlLoc link \<in> fst ` set (tree_documents t)}"

definition sources_ok :: "loader \<Rightarrow> bool" where
  "sources_ok st \<longleftrightarrow> sorted (ld_url_sources st) \<and> distinct (ld_url_sources st)"

text \<open>\<open>visited\<close>: from one state of the loader to another, with the trees read in between.\<close>

definition visited ::
  "externals \<Rightarrow> environment \<Rightarrow> limits \<Rightarrow> string \<Rightarrow> nat \<Rightarrow> loader \<Rightarrow> loader \<Rightarrow> document_tree list \<Rightarrow> bool"
where
  "visited x env lim base depth st st' ts \<longleftrightarrow> advanced env lim st st'
    \<and> (\<forall>t\<in>set ts. trusted_tree x env lim base (ld_io st') t \<and> tree_depth t + depth \<le> max_extends_depth lim)
    \<and> set (ld_url_sources st') = set (ld_url_sources st) \<union> \<Union> (tree_urls ` set ts)
    \<and> (sources_ok st \<longrightarrow> sources_ok st')"

lemma visited_none [simp]: "visited x env lim base depth st st []"
  by (simp add: visited_def)

lemma visited_append:
  assumes "visited x env lim base depth st st' ts" "visited x env lim base depth st' st'' us"
  shows "visited x env lim base depth st st'' (ts @ us)"
  using assms advanced_trans [of env lim st st' st''] unfolding visited_def advanced_def
  by (auto dest: trusted_tree_mono)

lemma visited_silent:
  "advanced env lim st st' \<Longrightarrow> ld_url_sources st' = ld_url_sources st \<Longrightarrow> visited x env lim base depth st st' []"
  by (simp add: visited_def sources_ok_def)

lemma fold_max_le: "fold max xs a \<le> n \<longleftrightarrow> a \<le> n \<and> (\<forall>v\<in>set xs. v \<le> (n :: nat))"
  by (induction xs arbitrary: a) auto

lemma tree_urls_node:
  "tree_urls (Document_Tree loc pinned bytes doc ts) = {link. loc = UrlLoc link} \<union> \<Union> (tree_urls ` set ts)"
  by (auto simp: tree_urls_def)

lemma sources_after_set: "set (sources_after loc xs) = {link. loc = UrlLoc link} \<union> set xs"
  by (auto simp: sources_after_def push_url_source_def set_insort_insert split: manifest_location.splits)

lemma sources_after_sorted: "sorted xs \<and> distinct xs \<Longrightarrow> sorted (sources_after loc xs) \<and> distinct (sources_after loc xs)"
  by (auto simp: sources_after_def push_url_source_def sorted_insort_insert distinct_insort_insert
      split: manifest_location.splits)

lemma visited_node:
  assumes open_doc: "document_ok x env lim (ld_io s1) loc pinned bytes doc" "advanced env lim st s1"
      "ld_url_sources s1 = sources_after loc (ld_url_sources st)"
    and walk: "visited x env lim base (Suc depth) s1 st' ts" "list_all2 (edge_ok x base loc pinned) (m_extends doc) ts"
    and "depth + 1 \<le> max_extends_depth lim"
  shows "visited x env lim base depth st st' [Document_Tree loc pinned bytes doc ts]"
proof -
  have "document_ok x env lim (ld_io st') loc pinned bytes doc"
    using open_doc(1) walk(1) document_ok_mono by (auto simp: visited_def advanced_def)
  moreover have "sources_ok st \<longrightarrow> sources_ok s1"
    using sources_after_sorted open_doc(3) by (simp add: sources_ok_def)
  moreover have "fold max (map tree_depth ts) 0 \<le> max_extends_depth lim - Suc depth"
    using walk(1) by (auto simp: fold_max_le visited_def)
  moreover have "advanced env lim st st'"
    using open_doc(2) walk(1) advanced_trans by (auto simp: visited_def)
  ultimately show ?thesis
    using walk assms(6) open_doc(3) by (auto simp: visited_def tree_urls_node sources_after_set)
qed

lemma merge_included_ok:
  "merge_included env lim resolved m loc = Inr merged \<Longrightarrow> merge_resolved_manifest resolved m (Location loc) = Inr merged"
  by (auto simp: merge_included_def rbind_eq_Inr_iff)

lemma merge_resolved_some: "merge_resolved_manifest resolved m src = Inr merged \<Longrightarrow> \<exists>r. merged = Some r"
  by (auto simp: merge_resolved_manifest_def rbind_eq_Inr_iff split: option.splits)

lemma walk_composes:
  "\<lbrakk>load_location_with_body x env lim stack loc body pinned st = (Inr m, st'); cache_ok env lim st;
     ld_trust_root st = Some base; \<And>b. body = Some b \<Longrightarrow> obtained env lim (ld_io st) loc b\<rbrakk>
   \<Longrightarrow> \<exists>t. composes t m \<and> visited x env lim base (length stack) st st' [t]
        \<and> dt_location t = loc \<and> dt_pinned t = pinned \<and> (\<forall>b. body = Some b \<longrightarrow> dt_bytes t = b)"
  "\<lbrakk>load_entries x env lim stack loc pinned exts resolved st = (Inr result, st'); cache_ok env lim st;
     ld_trust_root st = Some base\<rbrakk>
   \<Longrightarrow> \<exists>ts. composes_all ts resolved result \<and> list_all2 (edge_ok x base loc pinned) exts ts
        \<and> visited x env lim base (length stack) st st' ts"
proof (induction x env lim stack loc body pinned st and x env lim stack loc pinned exts resolved st
    arbitrary: m st' and result st' rule: load_location_with_body_load_entries.induct)
  case (1 x env lim stack loc body pinned st)
  from 1(2) have depth: "length stack + 1 \<le> max_extends_depth lim"
    by (auto simp: load_location_with_body.simps split: if_splits)
  with 1(2) obtain doc s1 resolved merged where
    doc: "open_document x env lim stack loc body pinned st = (Inr doc, s1)"
    and entries: "load_entries x env lim (stack @ [loc]) loc pinned (m_extends doc) None s1 = (Inr resolved, st')"
    and merged: "merge_included env lim resolved (doc\<lparr>m_extends := []\<rparr>) loc = Inr merged" "m = the merged"
    by (auto simp: load_location_with_body.simps rbind_eq_Inr_iff split: prod.splits sum.splits if_splits)
  obtain bytes where opened: "document_ok x env lim (ld_io s1) loc pinned bytes doc" "advanced env lim st s1"
      "\<And>b. body = Some b \<Longrightarrow> bytes = b" "ld_url_sources s1 = sources_after loc (ld_url_sources st)"
    using open_document_result [OF doc 1(3,5)] by blast
  have "\<exists>ts. composes_all ts None resolved \<and> list_all2 (edge_ok x base loc pinned) (m_extends doc) ts
      \<and> visited x env lim base (length (stack @ [loc])) s1 st' ts"
    using opened(2) depth doc 1(3,4) by (intro 1(1) [OF _ doc [symmetric] refl entries]) (auto simp: advanced_def)
  then obtain ts where ts: "composes_all ts None resolved"
      "list_all2 (edge_ok x base loc pinned) (m_extends doc) ts" "visited x env lim base (Suc (length stack)) s1 st' ts"
    by auto
  have "composes (Document_Tree loc pinned bytes doc ts) m"
    using composes_document [OF ts(1)] merge_included_ok [OF merged(1)] merge_resolved_some merged(2) by fastforce
  moreover have "visited x env lim base (length stack) st st' [Document_Tree loc pinned bytes doc ts]"
    using visited_node [OF opened(1,2,4) ts(3,2)] depth by simp
  ultimately show ?case
    using opened(3) by (intro exI [of _ "Document_Tree loc pinned bytes doc ts"]) simp
next
  case (2 x env lim stack loc pinned resolved st)
  then show ?case
    by (intro exI [of _ "[]"]) (auto intro: composes_none)
next
  case (3 x env lim stack loc pinned ext exts resolved st)
  from 3(3) obtain inc s1 m s2 merged where
    inc: "include_entry x env lim loc pinned ext st = (Inr inc, s1)"
    and load: "load_location_with_body x env lim stack (in_location inc) (in_body inc) (in_pinned inc) s1 = (Inr m, s2)"
    and merged: "merge_included env lim resolved m (in_source inc) = Inr merged"
    and rest: "load_entries x env lim stack loc pinned exts merged s2 = (Inr result, st')"
    by (auto simp: load_entries.simps(2) split: prod.splits sum.splits)
  note step = include_entry_result [OF inc 3(4,5)]
  have s1: "cache_ok env lim s1" "ld_trust_root s1 = Some base"
    using step(1) 3(4,5) by (simp_all add: advanced_def)
  obtain t where t: "composes t m" "visited x env lim base (length stack) s1 s2 [t]"
      "dt_location t = in_location inc" "dt_pinned t = in_pinned inc" "\<And>b. in_body inc = Some b \<Longrightarrow> dt_bytes t = b"
    using 3(1) [OF inc [symmetric] refl load s1 step(3)] by blast
  have s2: "cache_ok env lim s2" "ld_trust_root s2 = Some base"
    using t(2) s1 by (simp_all add: visited_def advanced_def)
  obtain ts where ts: "composes_all ts merged result" "list_all2 (edge_ok x base loc pinned) exts ts"
      "visited x env lim base (length stack) s2 st' ts"
    using 3(2) [OF inc [symmetric] refl load [symmetric] refl merged rest s2] by blast
  have "composes_all (t # ts) resolved result"
    using composes_next [OF t(1) merge_included_ok [OF merged] ts(1)] .
  moreover have "visited x env lim base (length stack) st st' ([] @ [t] @ ts)"
    using visited_append [OF visited_silent [OF step(1,2)] visited_append [OF t(2) ts(3)]] .
  ultimately show ?case
    using step(4) [OF t(3-5)] ts(2) by (intro exI [of _ "t # ts"]) auto
qed

lemma load_walk:
  assumes "load x env lim path loader_new = (Inr m, st)"
  obtains main t r where "dt_location t = PathLoc main" "dt_pinned t"
    "trusted_tree x env lim (parent_dir main) (ld_io st) t" "tree_depth t \<le> max_extends_depth lim"
    "composes t r" "m = r\<lparr>m_url_sources := sorted_list_of_set (tree_urls t), m_composition := Loaded\<rparr>"
    "manifest_validate x m = Inr ()"
proof -
  obtain answer s1 where asked: "canonicalize_manifest_path env path None loader_new = (answer, s1)"
    by fastforce
  with assms obtain main where can: "canonicalize_manifest_path env path None loader_new = (Inr main, s1)"
    by (cases answer) (simp_all add: load_def run_bind_def)
  obtain result s2 where loaded: "load_location_with_body x env lim [] (PathLoc main) None True
        (s1\<lparr>ld_trust_root := Some (parent_dir main), ld_url_sources := []\<rparr>) = (result, s2)"
    by fastforce
  with assms can obtain r where walk: "load_location_with_body x env lim [] (PathLoc main) None True
        (s1\<lparr>ld_trust_root := Some (parent_dir main), ld_url_sources := []\<rparr>) = (Inr r, s2)"
    by (cases result) (simp_all add: load_def run_bind_def)
  have m: "m = r\<lparr>m_url_sources := ld_url_sources s2, m_composition := Loaded\<rparr>" "manifest_validate x m = Inr ()"
      "ld_io st = ld_io s2"
    using assms can walk by (auto simp: load_def run_bind_def Let_def split: sum.splits)
  have "cache_ok env lim (s1\<lparr>ld_trust_root := Some (parent_dir main), ld_url_sources := []\<rparr>)"
    using can by (auto simp: canonicalize_manifest_path_def ask_ok cache_ok_def loader_new_def)
  from walk_composes(1) [OF walk this, of "parent_dir main"] obtain t where t: "composes t r"
      "visited x env lim (parent_dir main) 0 (s1\<lparr>ld_trust_root := Some (parent_dir main), ld_url_sources := []\<rparr>) s2 [t]"
      "dt_location t = PathLoc main" "dt_pinned t"
    by auto
  have "ld_url_sources s2 = sorted_list_of_set (tree_urls t)"
    using t(2) sorted_list_of_set.idem_if_sorted_distinct [of "ld_url_sources s2"]
    by (auto simp: visited_def sources_ok_def)
  then show thesis
    using that [of t main r] t m by (simp add: visited_def)
qed

section \<open>Provenance of a composition\<close>

definition provenance_of :: "manifest set \<Rightarrow> manifest \<Rightarrow> bool" where
  "provenance_of D r \<longleftrightarrow> manifest_wf r
    \<and> fst ` set (m_annotators r) = (\<Union>d\<in>D. fst ` set (m_annotators d))
    \<and> fst ` set (m_policies r) = (\<Union>d\<in>D. fst ` set (m_policies d))
    \<and> fst ` set (m_tools r) = (\<Union>d\<in>D. fst ` set (m_tools d))
    \<and> set (manifest_bindings r) = (\<Union>d\<in>D. set (manifest_bindings d))
    \<and> set (m_url_sourced_annotators r) =
        fetched_in (\<lambda>d. fst ` set (m_annotators d)) (\<lambda>d. set (m_url_sourced_annotators d)) D
    \<and> set (m_url_sourced_annotations r) =
        fetched_in (\<lambda>d. set (manifest_bindings d)) (\<lambda>d. set (m_url_sourced_annotations d)) D"

definition provenance_opt :: "manifest set \<Rightarrow> manifest option \<Rightarrow> bool" where
  "provenance_opt D resolved = (case resolved of None \<Rightarrow> D = {} | Some r \<Rightarrow> provenance_of D r)"

lemma fetched_union:
  assumes "A = (\<Union>d\<in>D. declares d)" "B = (\<Union>d\<in>E. declares d)"
  shows "(fetched_in declares fetched D \<union> fetched_in declares fetched E)
      - (A - fetched_in declares fetched D) - (B - fetched_in declares fetched E)
    = fetched_in declares fetched (D \<union> E)"
  using assms by (auto simp: fetched_in_def)

lemma provenance_merge:
  assumes "provenance_of D a" "provenance_of E b" "merge_manifest a b src = Inr c"
  shows "provenance_of (D \<union> E) c"
proof -
  have wf: "manifest_wf a" "manifest_wf b"
    using assms(1,2) by (simp_all add: provenance_of_def)
  note parts = merge_manifest_parts [OF assms(3)] and res = merge_manifest_result [OF wf assms(3)]
  have "set (m_url_sourced_annotators c) =
      fetched_in (\<lambda>d. fst ` set (m_annotators d)) (\<lambda>d. set (m_url_sourced_annotators d)) (D \<union> E)"
    unfolding parts(7) using assms(1,2) fetched_union [where declares = "\<lambda>d. fst ` set (m_annotators d)"]
    by (simp add: provenance_of_def)
  moreover have "set (m_url_sourced_annotations c) =
      fetched_in (\<lambda>d. set (manifest_bindings d)) (\<lambda>d. set (m_url_sourced_annotations d)) (D \<union> E)"
    unfolding parts(8) using assms(1,2) fetched_union [where declares = "\<lambda>d. set (manifest_bindings d)"]
    by (simp add: provenance_of_def)
  ultimately show ?thesis
    using assms(1,2) res(8) keys_map_add [OF res(1)] keys_map_add [OF res(2)] keys_map_add [OF res(3)]
      merge_bindings [OF wf assms(3)]
    by (simp add: provenance_of_def UN_Un)
qed

lemma provenance_merge_resolved:
  assumes "provenance_opt D resolved" "provenance_of E m" "merge_resolved_manifest resolved m src = Inr merged"
  shows "provenance_opt (D \<union> E) merged"
  using assms provenance_merge
  by (auto simp: provenance_opt_def merge_resolved_manifest_def rbind_eq_Inr_iff split: option.splits)

lemma provenance_single: "manifest_wf d \<Longrightarrow> provenance_wf d \<Longrightarrow> provenance_of {d} (d\<lparr>m_extends := []\<rparr>)"
proof -
  assume "manifest_wf d" "provenance_wf d"
  moreover have "manifest_bindings (d\<lparr>m_extends := []\<rparr>) = manifest_bindings d" "manifest_wf (d\<lparr>m_extends := []\<rparr>) = manifest_wf d"
    by (simp_all add: manifest_bindings_def manifest_wf_def)
  ultimately show ?thesis
    by (auto simp: provenance_of_def fetched_in_def provenance_wf_def)
qed

lemma composes_provenance:
  "composes t m \<Longrightarrow> (\<And>loc d. (loc, d) \<in> set (tree_documents t) \<Longrightarrow> manifest_wf d \<and> provenance_wf d)
    \<Longrightarrow> provenance_of (snd ` set (tree_documents t)) m"
  "composes_all ts resolved result
    \<Longrightarrow> (\<And>t loc d. t \<in> set ts \<Longrightarrow> (loc, d) \<in> set (tree_documents t) \<Longrightarrow> manifest_wf d \<and> provenance_wf d)
    \<Longrightarrow> \<forall>D. provenance_opt D resolved
      \<longrightarrow> provenance_opt (D \<union> (\<Union>t\<in>set ts. snd ` set (tree_documents t))) result"
proof (induction rule: composes_composes_all.inducts)
  case (composes_document ts resolved doc src m loc pinned bytes)
  have "\<forall>D. provenance_opt D None \<longrightarrow> provenance_opt (D \<union> (\<Union>t\<in>set ts. snd ` set (tree_documents t))) resolved"
    using composes_document(4) by (intro composes_document(3)) auto
  then have "provenance_opt ({} \<union> (\<Union>t\<in>set ts. snd ` set (tree_documents t))) resolved"
    by (simp add: provenance_opt_def)
  moreover have "provenance_of {doc} (doc\<lparr>m_extends := []\<rparr>)"
    using composes_document(4) [of loc doc] by (intro provenance_single) auto
  ultimately have "provenance_opt ({} \<union> (\<Union>t\<in>set ts. snd ` set (tree_documents t)) \<union> {doc}) (Some m)"
    using composes_document(2) by (rule provenance_merge_resolved)
  then show ?case
    by (simp add: provenance_opt_def image_UN Un_commute insert_is_Un [symmetric])
next
  case (composes_next t m resolved src merged ts result)
  have "provenance_of (snd ` set (tree_documents t)) m"
    using composes_next(6) by (intro composes_next(4)) auto
  moreover have "\<forall>D. provenance_opt D merged
      \<longrightarrow> provenance_opt (D \<union> (\<Union>t\<in>set ts. snd ` set (tree_documents t))) result"
    using composes_next(6) by (intro composes_next(5)) auto
  ultimately show ?case
    using provenance_merge_resolved [OF _ _ composes_next(2)] by (simp add: Un_assoc [symmetric])
qed simp

definition parsers_ok :: "environment \<Rightarrow> bool" where
  "parsers_ok env \<longleftrightarrow> (\<forall>src m. env_json env src = Inr m \<longrightarrow> manifest_wf m)
    \<and> (\<forall>lim src m. env_yaml env lim src = Inr m \<longrightarrow> manifest_wf m)"

lemma parsed_fresh:
  assumes "parse_manifest_source x env src loc lim = Inr m" "parsers_ok env"
  shows "manifest_wf m" "m_url_sourced_annotators m = []" "m_url_sourced_annotations m = []"
proof -
  obtain m0 where "m = deserialized m0" "manifest_wf m0"
    using assms by (auto simp: parse_manifest_source_def parse_yaml_str_with_limits_def parsers_ok_def
        rbind_eq_Inr_iff map_err_eq_Inr_iff split: if_splits)
  then show "manifest_wf m" "m_url_sourced_annotators m = []" "m_url_sourced_annotations m = []"
    by (simp_all add: deserialized_def manifest_wf_def)
qed

lemma record_fetched_all:
  assumes "m_url_sourced_annotators m = []" "m_url_sourced_annotations m = []"
  shows "set (m_url_sourced_annotators (record_fetched_declarations m)) = fst ` set (m_annotators m)"
    and "set (m_url_sourced_annotations (record_fetched_declarations m)) = set (manifest_bindings m)"
  using assms by (auto simp: record_fetched_declarations_def fold_insort_set manifest_bindings_def)

lemma resolved_paths_keep:
  "m_annotators (manifest_resolve_relative_paths base m) = m_annotators m"
  "m_url_sourced_annotators (manifest_resolve_relative_paths base m) = m_url_sourced_annotators m"
  "m_url_sourced_annotations (manifest_resolve_relative_paths base m) = m_url_sourced_annotations m"
  "manifest_wf (manifest_resolve_relative_paths base m) = manifest_wf m"
  by (auto simp: manifest_resolve_relative_paths_def manifest_wf_def bt_inv_def comp_def split_beta)

abbreviation is_url :: "manifest_location \<Rightarrow> bool" where
  "is_url loc \<equiv> (\<exists>link. loc = UrlLoc link)"

lemma document_provenance:
  assumes "document_ok x env lim io loc pinned bytes doc" "parsers_ok env"
  shows "manifest_wf doc" "provenance_wf doc"
    and "set (m_url_sourced_annotators doc) = (if is_url loc then fst ` set (m_annotators doc) else {})"
    and "set (m_url_sourced_annotations doc) = (if is_url loc then set (manifest_bindings doc) else {})"
proof -
  obtain m where parse: "parse_manifest_source x env bytes loc lim = Inr m"
    and doc: "case loc of PathLoc path \<Rightarrow> doc = manifest_resolve_relative_paths (parent_dir path) m
          | UrlLoc link \<Rightarrow> doc = record_fetched_declarations m"
    using assms(1) by (cases loc) (auto simp: document_ok_def)
  note fresh = parsed_fresh [OF parse assms(2)]
  have same: "manifest_wf (record_fetched_declarations m) = manifest_wf m"
      "m_annotators (record_fetched_declarations m) = m_annotators m"
      "manifest_bindings (record_fetched_declarations m) = manifest_bindings m"
    by (simp_all add: record_fetched_declarations_def manifest_wf_def manifest_bindings_def)
  show "manifest_wf doc" "set (m_url_sourced_annotators doc) = (if is_url loc then fst ` set (m_annotators doc) else {})"
    "set (m_url_sourced_annotations doc) = (if is_url loc then set (manifest_bindings doc) else {})"
    using doc fresh record_fetched_all [OF fresh(2,3)]
    by (cases loc; simp add: same resolved_paths_keep)+
  then show "provenance_wf doc"
    by (simp add: provenance_wf_def)
qed

lemma trusted_document:
  "trusted_tree x env lim base io t \<Longrightarrow> (loc, doc) \<in> set (tree_documents t)
    \<Longrightarrow> \<exists>pinned bytes. document_ok x env lim io loc pinned bytes doc"
  by (induction t) auto

lemma fetched_in_documents:
  assumes "\<And>loc d. (loc, d) \<in> docs \<Longrightarrow> fetched d = (if is_url loc then declares d else {})"
  shows "fetched_in declares fetched (snd ` docs) =
    {k. (\<exists>(loc, d)\<in>docs. k \<in> declares d) \<and> (\<forall>(loc, d)\<in>docs. k \<in> declares d \<longrightarrow> is_url loc)}"
proof -
  have "(k \<in> declares (snd p) \<longrightarrow> k \<in> fetched (snd p)) = (k \<in> declares (snd p) \<longrightarrow> is_url (fst p))"
    if "p \<in> docs" for p k
    using assms [of "fst p" "snd p"] that by simp
  then show ?thesis
    by (simp add: fetched_in_def split_beta)
qed

text \<open>
  C4: A manifest the loader returns is the composition of a tree of documents it could trust.
  The root is the file the host named.  Every document was read from the place it is
  attributed to, in full and within the size limit.  A file is only ever reached from a
  file and lies in the directory of the root file or below.  A document fetched from a URL
  has the digest its \<open>extends\<close> entry pins, declares every one of its annotators as fetched,
  and passed the gate on local access with the licence of a pinned chain only if every URL
  entry from the root down to it carried a pin.  No chain of documents is longer than the
  limit, the URLs are recorded sorted and without repetition, and the result validated.
\<close>

theorem load_composes_trusted_documents:
  assumes "load x env lim path loader_new = (Inr m, st)"
  shows "\<exists>main t r. dt_location t = PathLoc main \<and> dt_pinned t
    \<and> trusted_tree x env lim (parent_dir main) (ld_io st) t \<and> tree_depth t \<le> max_extends_depth lim
    \<and> composes t r \<and> m = r\<lparr>m_url_sources := sorted_list_of_set (tree_urls t), m_composition := Loaded\<rparr>
    \<and> manifest_validate x m = Inr ()"
  using assms by (rule load_walk) blast

text \<open>
  C5: The provenance of a loaded manifest is exact.  With parsers that build ordered maps,
  its annotators, policies, tools and annotation bindings are those of the documents it
  was composed from; an annotator, or a binding of an annotation to a point, is marked as
  fetched exactly when some document declares it and every document that does was fetched
  from a URL; and the recorded sources are the URLs of the fetched documents.
\<close>

theorem load_provenance_exact:
  assumes "load x env lim path loader_new = (Inr m, st)" "parsers_ok env"
  shows "\<exists>main t. dt_location t = PathLoc main \<and> trusted_tree x env lim (parent_dir main) (ld_io st) t
    \<and> set (m_url_sources m) = tree_urls t
    \<and> fst ` set (m_annotators m) = (\<Union>(loc, d)\<in>set (tree_documents t). fst ` set (m_annotators d))
    \<and> fst ` set (m_policies m) = (\<Union>(loc, d)\<in>set (tree_documents t). fst ` set (m_policies d))
    \<and> fst ` set (m_tools m) = (\<Union>(loc, d)\<in>set (tree_documents t). fst ` set (m_tools d))
    \<and> set (manifest_bindings m) = (\<Union>(loc, d)\<in>set (tree_documents t). set (manifest_bindings d))
    \<and> set (m_url_sourced_annotators m) = {name.
        (\<exists>(loc, d)\<in>set (tree_documents t). name \<in> fst ` set (m_annotators d))
        \<and> (\<forall>(loc, d)\<in>set (tree_documents t). name \<in> fst ` set (m_annotators d) \<longrightarrow> is_url loc)}
    \<and> set (m_url_sourced_annotations m) = {b.
        (\<exists>(loc, d)\<in>set (tree_documents t). b \<in> set (manifest_bindings d))
        \<and> (\<forall>(loc, d)\<in>set (tree_documents t). b \<in> set (manifest_bindings d) \<longrightarrow> is_url loc)}
    \<and> manifest_wf m"
proof -
  obtain main t r where t: "dt_location t = PathLoc main" "trusted_tree x env lim (parent_dir main) (ld_io st) t"
      "composes t r" and m: "m = r\<lparr>m_url_sources := sorted_list_of_set (tree_urls t), m_composition := Loaded\<rparr>"
    using assms(1) by (rule load_walk) blast
  have doc: "manifest_wf d" "provenance_wf d"
      "set (m_url_sourced_annotators d) = (if is_url loc then fst ` set (m_annotators d) else {})"
      "set (m_url_sourced_annotations d) = (if is_url loc then set (manifest_bindings d) else {})"
    if entry: "(loc, d) \<in> set (tree_documents t)" for loc d
  proof -
    obtain pinned bytes where "document_ok x env lim (ld_io st) loc pinned bytes d"
      using trusted_document [OF t(2) entry] by blast
    from document_provenance [OF this assms(2)] show "manifest_wf d" "provenance_wf d"
        "set (m_url_sourced_annotators d) = (if is_url loc then fst ` set (m_annotators d) else {})"
        "set (m_url_sourced_annotations d) = (if is_url loc then set (manifest_bindings d) else {})" .
  qed
  have prov: "provenance_of (snd ` set (tree_documents t)) r"
    using composes_provenance(1) [OF t(3)] doc(1,2) by blast
  have "finite (tree_urls t)"
    by (simp add: tree_urls_def vimage_def [symmetric] finite_vimageI inj_def)
  moreover have "manifest_bindings m = manifest_bindings r" "manifest_wf m = manifest_wf r"
    by (simp_all add: m manifest_bindings_def manifest_wf_def)
  moreover note fetched_in_documents [of "set (tree_documents t)" "\<lambda>d. set (m_url_sourced_annotators d)"
      "\<lambda>d. fst ` set (m_annotators d)", OF doc(3)]
    fetched_in_documents [of "set (tree_documents t)" "\<lambda>d. set (m_url_sourced_annotations d)"
      "\<lambda>d. set (manifest_bindings d)", OF doc(4)]
  ultimately show ?thesis
    using t(1,2) prov by (intro exI [of _ main] exI [of _ t]) (simp add: provenance_of_def m case_prod_unfold)
qed

section \<open>An example load\<close>

text \<open>A file that extends a document at a URL, over an environment that serves both.\<close>

definition example_included_document :: manifest where
  "example_included_document = (example_sourced [] [] [])\<lparr>m_points := [], m_policies := [], m_annotators := []\<rparr>"

definition example_main_document :: manifest where
  "example_main_document = (example_sourced [] [] [])\<lparr>m_extends :=
    [Url \<lparr>ue_url = ''https://h/c.json'', ue_integrity = None, ue_sha256 = None\<rparr>]\<rparr>"

definition example_environment :: environment where
  "example_environment = \<lparr>
     env_canonicalize = (\<lambda>io p. Inr p),
     env_read_file = (\<lambda>io p n. Inr ''r''),
     env_http_get = (\<lambda>io lim u. Inr \<lparr>hr_status = 200, hr_read = (\<lambda>n. Inr ''c'')\<rparr>),
     env_json = (\<lambda>s. if s = ''r'' then Inr example_main_document else if s = ''c'' then Inr example_included_document else Inl ''eof''),
     env_yaml = (\<lambda>lim s. Inl (ManifestInvalid ''unsupported'')),
     env_to_vec = (\<lambda>m. Inr ''{}''),
     env_url_join = (\<lambda>u r. Inl RelativeUrlWithoutBase),
     env_url_path = u_text\<rparr>"

lemma is_json_examples:
  "is_json example_externals example_environment (PathLoc ''/m/r.json'')"
  "is_json example_externals example_environment (UrlLoc ''https://h/c.json'')"
  by (simp_all add: is_json_def path_extension_def path_file_name_def path_components_def
      path_is_absolute_def starts_with_def eq_ignore_ascii_case_def to_ascii_lowercase_def
      example_externals_def example_environment_def)

lemma parent_example: "parent_dir ''/m/r.json'' = ''/m''"
  by (simp add: parent_dir_def path_parent_def path_trim_end.simps)

lemma utf8_examples: "from_utf8 ''r'' = Inr ''r''" "from_utf8 ''c'' = Inr ''c''"
  by (simp_all add: from_utf8_def utf8_tail_def)

lemma deserialized_examples: "deserialized example_main_document = example_main_document" "deserialized example_included_document = example_included_document"
  by (simp_all add: deserialized_def example_main_document_def example_included_document_def example_sourced_def)

lemma parse_examples:
  "parse_manifest_source example_externals example_environment ''r'' (PathLoc ''/m/r.json'') default_limits = Inr example_main_document"
  "parse_manifest_source example_externals example_environment ''c'' (UrlLoc ''https://h/c.json'') default_limits = Inr example_included_document"
  by (simp_all add: parse_manifest_source_def is_json_examples deserialized_examples default_limits_def)
    (simp_all add: example_environment_def deserialized_examples)

lemma resolve_example: "manifest_resolve_relative_paths b example_main_document = example_main_document"
  by (simp add: manifest_resolve_relative_paths_def example_main_document_def example_sourced_def example_point_def
      resolve_adapter_config_paths_def DATA_PATH_KEYS_def binding_resolve_relative_paths_def)

lemma environment_answers:
  "env_canonicalize example_environment io p = Inr p"
  "env_read_file example_environment io p n = Inr ''r''"
  "env_http_get example_environment io lim u = Inr \<lparr>hr_status = 200, hr_read = (\<lambda>n. Inr ''c'')\<rparr>"
  "env_to_vec example_environment m = Inr ''{}''"
  by (simp_all add: example_environment_def)

lemma limit_examples: "max_merged_manifest_bytes default_limits = 1048576" "max_extends_depth default_limits = 16"
    "0 < max_manifest_url_bytes default_limits"
  by (simp_all add: default_limits_def)

lemma url_examples: "\<not> is_blank ''https://h/c.json''"
    "x_url_parse example_externals ''https://h/c.json'' = Inr \<lparr>u_text = ''https://h/c.json'', u_scheme = ''https'',
      u_username = [], u_password = None, u_fragment = None\<rparr>"
  using trim_no_whitespace [of "''https://h/c.json''"]
  by (simp_all add: is_blank_def is_whitespace_def example_externals_def starts_with_def)

lemma open_root:
  "open_document example_externals example_environment default_limits [] (PathLoc ''/m/r.json'') None True st
    = (Inr example_main_document, st\<lparr>ld_io := ld_io st @ [ReadFile ''/m/r.json'']\<rparr>)"
proof -
  have "read_location_body example_externals example_environment default_limits (PathLoc ''/m/r.json'') st
      = (Inr ''r'', st\<lparr>ld_io := ld_io st @ [ReadFile ''/m/r.json'']\<rparr>)"
    by (simp add: read_location_body_def ask_def environment_answers limit_examples)
  moreover have "validate_extends_entries example_externals example_main_document (PathLoc ''/m/r.json'') = Inr ()"
    by (simp add: validate_extends_entries_def example_main_document_def url_examples validate_extends_trust_def)
  ultimately show ?thesis
    by (simp add: open_document_def run_bind_def utf8_examples parse_examples resolve_example)
qed

lemma open_child:
  "open_document example_externals example_environment default_limits [PathLoc ''/m/r.json''] (UrlLoc ''https://h/c.json'')
      (Some ''c'') False st
    = (Inr example_included_document, st\<lparr>ld_url_sources := push_url_source (ld_url_sources st) ''https://h/c.json''\<rparr>)"
proof -
  have "record_fetched_declarations example_included_document = example_included_document"
    by (simp add: record_fetched_declarations_def example_included_document_def example_sourced_def)
  moreover have "reject_fetched_document_local_access d False example_included_document = Inr ()" for d
    by (simp add: reject_fetched_document_local_access_def example_included_document_def example_sourced_def each_annotation_def)
  moreover have "validate_extends_entries example_externals example_included_document l = Inr ()" for l
    by (simp add: validate_extends_entries_def example_included_document_def example_sourced_def)
  ultimately show ?thesis
    by (simp add: open_document_def run_bind_def run_effect_def utf8_examples parse_examples location_eq_def)
qed

lemma include_child:
  assumes "ld_url_bodies st = []"
  shows "include_entry example_externals example_environment default_limits (PathLoc ''/m/r.json'') True
      (Url \<lparr>ue_url = ''https://h/c.json'', ue_integrity = None, ue_sha256 = None\<rparr>) st =
    (Inr \<lparr>in_location = UrlLoc ''https://h/c.json'', in_body = Some ''c'', in_pinned = False,
       in_source = UrlLoc ''https://h/c.json''\<rparr>,
     st\<lparr>ld_io := ld_io st @ [HttpGet ''https://h/c.json''], ld_url_bodies := [(''https://h/c.json'', ''c'')]\<rparr>)"
proof -
  have valid: "validate_https_url example_externals ''https://h/c.json'' = Inr ''https://h/c.json''"
    by (simp add: validate_https_url_def validate_https_url_with_context_def url_examples
        validate_url_components_with_context_def)
  have "fetch_url_body example_externals example_environment default_limits ''https://h/c.json'' st =
     (Inr ''c'', st\<lparr>ld_io := ld_io st @ [HttpGet ''https://h/c.json''], ld_url_bodies := [(''https://h/c.json'', ''c'')]\<rparr>)"
    using assms limit_examples(3) by (simp add: fetch_url_body_def fetcher_fetch_def run_bind_def valid fetch_body_def ask_def
        environment_answers run_effect_def)
  then show ?thesis
    by (simp add: include_entry_def run_bind_def resolve_extends_entry_def resolve_url_reference_def url_examples
        validate_url_components_with_context_def valid load_extends_url_def verify_extends_hash_def)
qed

lemma composition_free:
  "annotation_chaining_enabled (m\<lparr>m_composition := c\<rparr>) = annotation_chaining_enabled m"
  "url_sourced (m\<lparr>m_composition := c\<rparr>) = url_sourced m"
  by (simp_all add: annotation_chaining_enabled_def url_sourced_def)

lemma dependencies_composition: "annotation_dependencies (m\<lparr>m_composition := c\<rparr>) = annotation_dependencies m"
  by (rule ext) (simp add: annotation_dependencies_def composition_free)

lemma validate_composition:
  "validate_annotator x (m\<lparr>m_composition := c\<rparr>) = validate_annotator x m"
  "from_annotation_in (m\<lparr>m_composition := c\<rparr>) = from_annotation_in m"
  "(\<lambda>point config. annotation_dispatch_order point config (m\<lparr>m_composition := c\<rparr>)) =
    (\<lambda>point config. annotation_dispatch_order point config m)"
  "reject_cross_document_overlay (m\<lparr>m_composition := c\<rparr>) = reject_cross_document_overlay m"
  by (intro ext, simp add: validate_annotator_def from_annotation_in_def annotation_dispatch_order_def
      reject_cross_document_overlay_def composition_free dependencies_composition Let_def
      cong: option.case_cong if_cong)+

lemma validate_point_composition:
  "validate_annotation x point config (m\<lparr>m_composition := c\<rparr>) = validate_annotation x point config m"
  by (rule ext)+ (simp add: validate_annotation_def composition_free dependencies_composition validate_composition Let_def cong: option.case_cong if_cong)

lemma manifest_validate_composition: "manifest_validate x (m\<lparr>m_composition := c\<rparr>) = manifest_validate x m"
proof -
  have "validate_point_config x point config (m\<lparr>m_composition := c\<rparr>) = validate_point_config x point config m" for point config
    by (simp add: validate_point_config_def validate_point_composition fun_cong [OF fun_cong [OF validate_composition(3)]] cong: option.case_cong if_cong)
  moreover have "reject_url_sourced_host_secrets (m\<lparr>m_composition := c\<rparr>) = reject_url_sourced_host_secrets m"
    by (simp add: reject_url_sourced_host_secrets_def each_annotation_def validate_composition cong: option.case_cong if_cong)
  ultimately show ?thesis
    by (simp add: manifest_validate_def validate_composition composition_free Let_def cong: option.case_cong if_cong)
qed

lemma example_valid_loaded:
  "manifest_validate example_externals ((example_sourced [''https://h/c.json''] [] [])\<lparr>m_composition := Loaded\<rparr>) = Inr ()"
proof -
  let ?m = "example_sourced [''https://h/c.json''] [] []"
  have "reject_cross_document_overlay ?m Input name annotation = Inr ()" for name annotation
    by (simp add: reject_cross_document_overlay_def example_provenance)
  then have "reject_url_sourced_host_secrets ?m = Inr ()"
    by (simp add: reject_url_sourced_host_secrets_def rbind_unit_ok each_annotation_ok example_parts)
      (simp add: example_point_def reject_url_sourced_annotator_fields_def HOST_ENV_SECRET_FIELDS_def
        has_key_def from_annotation_def less_char_def)
  then show ?thesis
    using example_valid [of "[''https://h/c.json'']" "[]" "[]"] by (simp add: manifest_validate_composition)
qed

lemma example_merge_loaded:
  "merge_included example_environment default_limits (Some (example_included_document\<lparr>m_extends := []\<rparr>))
      (example_main_document\<lparr>m_extends := []\<rparr>) loc
    = Inr (Some ((example_sourced [] [] [])\<lparr>m_composition := Merged\<rparr>))"
  by (simp add: merge_included_def merge_resolved_manifest_def merge_manifest_def example_included_document_def example_main_document_def
      example_sourced_def Let_def merge_metadata_def merge_approval_def merge_url_sources_def
      validate_merged_manifest_size_def environment_answers limit_examples manifest_host_written_def
      host_written_extend_def manifest_bindings_def less_char_def)

lemma child_extends: "m_extends example_included_document = []"
  by (simp add: example_included_document_def example_sourced_def)

lemma root_extends:
  "m_extends example_main_document = [Url \<lparr>ue_url = ''https://h/c.json'', ue_integrity = None, ue_sha256 = None\<rparr>]"
  by (simp add: example_main_document_def example_sourced_def)

lemma example_load:
  "\<exists>st. load example_externals example_environment default_limits ''/m/r.json'' loader_new =
    (Inr ((example_sourced [''https://h/c.json''] [] [])\<lparr>m_composition := Loaded\<rparr>), st)"
proof -
  let ?s0 = "\<lparr>ld_trust_root = Some ''/m'', ld_url_bodies = [], ld_url_sources = [], ld_io = [Canonicalize ''/m/r.json'']\<rparr>"
  let ?entry = "Url \<lparr>ue_url = ''https://h/c.json'', ue_integrity = None, ue_sha256 = None\<rparr>"
  let ?X = example_externals and ?E = example_environment and ?L = default_limits
  obtain s1 where s1: "load_entries ?X ?E ?L [PathLoc ''/m/r.json''] (PathLoc ''/m/r.json'') True [?entry] None
        (?s0\<lparr>ld_io := ld_io ?s0 @ [ReadFile ''/m/r.json'']\<rparr>)
      = (Inr (Some (example_included_document\<lparr>m_extends := []\<rparr>)), s1)" "ld_url_sources s1 = [''https://h/c.json'']"
    by (simp add: load_entries.simps(2) include_child load_location_with_body.simps limit_examples open_child
        merge_included_def merge_resolved_manifest_def validate_merged_manifest_size_def environment_answers
        push_url_source_def insort_insert_key_def child_extends)
  have "load_location_with_body ?X ?E ?L [] (PathLoc ''/m/r.json'') None True ?s0
      = (Inr ((example_sourced [] [] [])\<lparr>m_composition := Merged\<rparr>), s1)"
    using s1(1) by (simp add: load_location_with_body.simps limit_examples open_root example_merge_loaded root_extends)
  then show ?thesis
    using s1(2) example_valid_loaded
    by (simp add: load_def run_bind_def canonicalize_manifest_path_def ask_def environment_answers loader_new_def
        parent_example Let_def example_sourced_def)
qed

theorem load_composes_trusted_documents_witness:
  "\<exists>m st main t. load example_externals example_environment default_limits ''/m/r.json'' loader_new = (Inr m, st)
    \<and> trusted_tree example_externals example_environment default_limits (parent_dir main) (ld_io st) t
    \<and> sorted_list_of_set (tree_urls t) = [''https://h/c.json'']"
proof -
  obtain st where st: "load example_externals example_environment default_limits ''/m/r.json'' loader_new =
      (Inr ((example_sourced [''https://h/c.json''] [] [])\<lparr>m_composition := Loaded\<rparr>), st)"
    using example_load by blast
  from load_composes_trusted_documents [OF st] obtain main t r where
    t: "trusted_tree example_externals example_environment default_limits (parent_dir main) (ld_io st) t"
      "(example_sourced [''https://h/c.json''] [] [])\<lparr>m_composition := Loaded\<rparr>
        = r\<lparr>m_url_sources := sorted_list_of_set (tree_urls t), m_composition := Loaded\<rparr>"
    by blast
  then have "sorted_list_of_set (tree_urls t) = [''https://h/c.json'']"
    by (auto simp: example_sourced_def dest!: arg_cong [where f = m_url_sources])
  then show ?thesis
    using st t(1) by blast
qed

theorem load_provenance_exact_witness:
  "\<exists>m st t. load example_externals example_environment default_limits ''/m/r.json'' loader_new = (Inr m, st)
    \<and> tree_urls t = {''https://h/c.json''}
    \<and> fst ` set (m_annotators m) = (\<Union>(loc, d)\<in>set (tree_documents t). fst ` set (m_annotators d))
    \<and> ''a'' \<in> fst ` set (m_annotators m) - set (m_url_sourced_annotators m)"
proof -
  let ?m = "(example_sourced [''https://h/c.json''] [] [])\<lparr>m_composition := Loaded\<rparr>"
  obtain st where st: "load example_externals example_environment default_limits ''/m/r.json'' loader_new = (Inr ?m, st)"
    using example_load by blast
  have "manifest_wf example_main_document" "manifest_wf example_included_document"
    using example_wf [of "[]" "[]" "[]"] by (simp_all add: manifest_wf_def example_main_document_def example_included_document_def bt_inv_def)
  then have "parsers_ok example_environment"
    by (simp add: parsers_ok_def example_environment_def)
  from load_provenance_exact [OF st this] obtain t where
    "set (m_url_sources ?m) = tree_urls t"
    and keys: "fst ` set (m_annotators ?m) = (\<Union>(loc, d)\<in>set (tree_documents t). fst ` set (m_annotators d))"
    by (elim exE conjE) (rule that)
  then have "tree_urls t = {''https://h/c.json''}"
    by (simp add: example_sourced_def)
  moreover have "''a'' \<in> fst ` set (m_annotators ?m) - set (m_url_sourced_annotators ?m)"
    by (simp add: example_parts example_provenance)
  ultimately show ?thesis
    using st keys by blast
qed

end
