(* ===== verification/Wire.thy ===== *)
theory Wire
  imports Limits Stream_Session Telemetry
begin

text \<open>
  The JSON shapes every language binding answers with (\<open>wire.rs\<close>): perf levels, resource
  caps, diagnostics, the state of a streaming session and telemetry events.

  The caps are a table of names with the field each reads and writes.  The interface
  \<open>field_table\<close> states what such a table has to satisfy; that overrides are honoured, and
  that caps survive the round trip, is proved there once.
\<close>

section \<open>Perf levels and enforcement modes\<close>

definition parse_perf_telemetry :: "string \<Rightarrow> (runtime_error, perf_telemetry) result" where
  "parse_perf_telemetry value =
    (if value = ''off'' then Inr Off
     else if value = ''external'' then Inr External
     else if value = ''full'' then Inr Full
     else Inl (ManifestInvalid (''unknown perf telemetry level '' @ quoted value)))"

fun perf_telemetry_str :: "perf_telemetry \<Rightarrow> string" where
  "perf_telemetry_str Off = ''off''"
| "perf_telemetry_str External = ''external''"
| "perf_telemetry_str Full = ''full''"

fun enforcement_mode_str :: "enforcement_mode \<Rightarrow> string" where
  "enforcement_mode_str Enforce = ''enforce''"
| "enforcement_mode_str EvaluateOnly = ''evaluate_only''"

section \<open>Resource caps\<close>

definition from_u64 :: "nat \<Rightarrow> json" where
  "from_u64 n = JNumber (PosInt (word_of_nat n))"

type_synonym 's field = "string \<times> ('s \<Rightarrow> nat) \<times> (nat \<Rightarrow> 's \<Rightarrow> 's)"

definition limit_table :: "limits field list" where
  "limit_table = [
     (''max_snapshot_bytes'', max_snapshot_bytes, \<lambda>n. max_snapshot_bytes_update (\<lambda>_. n)),
     (''max_policy_input_depth'', max_policy_input_depth, \<lambda>n. max_policy_input_depth_update (\<lambda>_. n)),
     (''max_annotators_per_point'', max_annotators_per_point, \<lambda>n. max_annotators_per_point_update (\<lambda>_. n)),
     (''max_annotator_output_bytes'', max_annotator_output_bytes, \<lambda>n. max_annotator_output_bytes_update (\<lambda>_. n)),
     (''max_policy_output_bytes'', max_policy_output_bytes, \<lambda>n. max_policy_output_bytes_update (\<lambda>_. n)),
     (''max_extends_depth'', max_extends_depth, \<lambda>n. max_extends_depth_update (\<lambda>_. n)),
     (''max_merged_manifest_bytes'', max_merged_manifest_bytes, \<lambda>n. max_merged_manifest_bytes_update (\<lambda>_. n)),
     (''max_manifest_depth'', max_manifest_depth, \<lambda>n. max_manifest_depth_update (\<lambda>_. n)),
     (''max_manifest_nodes'', max_manifest_nodes, \<lambda>n. max_manifest_nodes_update (\<lambda>_. n)),
     (''max_manifest_events'', max_manifest_events, \<lambda>n. max_manifest_events_update (\<lambda>_. n)),
     (''max_manifest_aliases'', max_manifest_aliases, \<lambda>n. max_manifest_aliases_update (\<lambda>_. n)),
     (''max_manifest_anchors'', max_manifest_anchors, \<lambda>n. max_manifest_anchors_update (\<lambda>_. n)),
     (''max_manifest_anchor_events'', max_manifest_anchor_events, \<lambda>n. max_manifest_anchor_events_update (\<lambda>_. n)),
     (''max_manifest_url_bytes'', max_manifest_url_bytes, \<lambda>n. max_manifest_url_bytes_update (\<lambda>_. n)),
     (''manifest_url_timeout_ms'', manifest_url_timeout_ms, \<lambda>n. manifest_url_timeout_ms_update (\<lambda>_. n)),
     (''max_manifest_url_redirects'', max_manifest_url_redirects, \<lambda>n. max_manifest_url_redirects_update (\<lambda>_. n))]"

definition LIMIT_FIELDS :: "string list" where
  "LIMIT_FIELDS = [''max_snapshot_bytes'', ''max_policy_input_depth'', ''max_annotators_per_point'',
     ''max_annotator_output_bytes'', ''max_policy_output_bytes'', ''max_extends_depth'',
     ''max_merged_manifest_bytes'', ''max_manifest_depth'', ''max_manifest_nodes'', ''max_manifest_events'',
     ''max_manifest_aliases'', ''max_manifest_anchors'', ''max_manifest_anchor_events'',
     ''max_manifest_url_bytes'', ''manifest_url_timeout_ms'', ''max_manifest_url_redirects'']"

definition read_limit :: "json_map \<Rightarrow> string \<Rightarrow> (runtime_error, nat option) result" where
  "read_limit flds key = (case map_of flds key of
      None \<Rightarrow> Inr None
    | Some JNull \<Rightarrow> Inr None
    | Some found \<Rightarrow>
        rbind (ok_or (ManifestInvalid (key @ '' must be a non negative integer'')) (as_u64 found)) (\<lambda>n.
        Inr (Some n)))"

definition apply_limit :: "json_map \<Rightarrow> 's field \<Rightarrow> 's \<Rightarrow> (runtime_error, 's) result" where
  "apply_limit flds field s = (case field of (key, get, put) \<Rightarrow>
    rbind (read_limit flds key) (\<lambda>found. Inr (case found of Some n \<Rightarrow> put n s | None \<Rightarrow> s)))"

definition limits_from_json :: "json \<Rightarrow> (runtime_error, limits) result" where
  "limits_from_json v = (case v of
      JObject flds \<Rightarrow>
        rbind (try_fold (apply_limit flds) limit_table default_limits) (\<lambda>lim.
        let unknown = filter (\<lambda>key. key \<notin> set LIMIT_FIELDS) (map fst flds) in
        if unknown \<noteq> [] then Inl (ManifestInvalid (''unknown limit field(s): '' @ join '', '' unknown))
        else Inr lim)
    | _ \<Rightarrow> Inl (ManifestInvalid ''limits must be a JSON object''))"

definition limits_json :: "limits \<Rightarrow> json" where
  "limits_json lim = JObject [
     (''max_snapshot_bytes'', from_u64 (max_snapshot_bytes lim)),
     (''max_policy_input_depth'', from_u64 (max_policy_input_depth lim)),
     (''max_annotators_per_point'', from_u64 (max_annotators_per_point lim)),
     (''max_annotator_output_bytes'', from_u64 (max_annotator_output_bytes lim)),
     (''max_policy_output_bytes'', from_u64 (max_policy_output_bytes lim)),
     (''max_extends_depth'', from_u64 (max_extends_depth lim)),
     (''max_merged_manifest_bytes'', from_u64 (max_merged_manifest_bytes lim)),
     (''max_manifest_depth'', from_u64 (max_manifest_depth lim)),
     (''max_manifest_nodes'', from_u64 (max_manifest_nodes lim)),
     (''max_manifest_events'', from_u64 (max_manifest_events lim)),
     (''max_manifest_aliases'', from_u64 (max_manifest_aliases lim)),
     (''max_manifest_anchors'', from_u64 (max_manifest_anchors lim)),
     (''max_manifest_anchor_events'', from_u64 (max_manifest_anchor_events lim)),
     (''max_manifest_url_bytes'', from_u64 (max_manifest_url_bytes lim)),
     (''manifest_url_timeout_ms'', from_u64 (manifest_url_timeout_ms lim)),
     (''max_manifest_url_redirects'', from_u64 (max_manifest_url_redirects lim))]"

section \<open>Diagnostics\<close>

definition DIAGNOSTIC_FIELDS :: "string list" where
  "DIAGNOSTIC_FIELDS = [''agent_control_specification_version'', ''policy_target_kind'', ''policy_target'',
     ''tool_name_from'', ''annotations'', ''annotators'', ''intervention_points'', ''intervention point'',
     ''extends'', ''policies'', ''policy.id'', ''approval'', ''metadata'', ''tools'']"

definition diagnostic_field :: "string \<Rightarrow> string option" where
  "diagnostic_field message =
    find (contains_str message) (sort_key (\<lambda>field. - int (length field)) DIAGNOSTIC_FIELDS)"

fun option_json :: "json option \<Rightarrow> json" where
  "option_json None = JNull"
| "option_json (Some v) = v"

definition diagnostic_json :: "runtime_error \<Rightarrow> json" where
  "diagnostic_json e = JObject [
     (''code'', JString (reason e)),
     (''message'', JString (detail e)),
     (''severity'', JString ''error''),
     (''field'', option_json (map_option JString (diagnostic_field (detail e))))]"

definition diagnostics_json :: "runtime_error list \<Rightarrow> json" where
  "diagnostics_json errors = JArray (map diagnostic_json errors)"

section \<open>Streaming sessions\<close>

definition from_u32 :: "32 word \<Rightarrow> json" where
  "from_u32 n = JNumber (PosInt (ucast n))"

fun end_reason_json :: "stream_end_reason \<Rightarrow> json" where
  "end_reason_json EndComplete = JObject [(''kind'', JString ''complete'')]"
| "end_reason_json (EndDenied track task span) = JObject [
     (''kind'', JString ''denied''), (''track'', JString (track_as_str track)), (''task'', JString task),
     (''start'', from_u32 (range_start span)), (''end'', from_u32 (range_end span))]"
| "end_reason_json (EndRewritten track task span) = JObject [
     (''kind'', JString ''rewritten''), (''track'', JString (track_as_str track)), (''task'', JString task),
     (''start'', from_u32 (range_start span)), (''end'', from_u32 (range_end span))]"
| "end_reason_json (EndFailed e) = JObject [
     (''kind'', JString ''failed''), (''reason'', JString (stream_error_reason e)),
     (''message'', JString (show_stream_error e))]"

definition watermark_json :: "stream_track \<Rightarrow> watermark \<Rightarrow> json" where
  "watermark_json track mark = JObject [
     (''track'', JString (track_as_str track)),
     (''confirmed'', from_u32 (wm_confirmed mark)),
     (''received'', from_u32 (wm_received mark)),
     (''pending'', from_u32 (wm_pending mark)),
     (''tasks'', JArray (map (JString \<circ> fst) (wm_tasks mark)))]"

definition completion_json :: "stream_completion \<Rightarrow> json" where
  "completion_json c = JObject [
     (''reason'', end_reason_json (c_reason c)),
     (''transformed'', JBool (c_transformed c)),
     (''is_clean'', JBool (is_clean (c_reason c)))]"

definition stream_config_json :: "session_config \<Rightarrow> json" where
  "stream_config_json cfg = JObject [
     (''safety_level'', JString (safety_level_as_str (cfg_safety_level cfg))),
     (''request_start_rune_offset'', from_u32 (request_start_rune_offset cfg)),
     (''response_start_rune_offset'', from_u32 (response_start_rune_offset cfg)),
     (''request_tasks'', JArray (map JString (request_tasks cfg))),
     (''response_tasks'', JArray (map JString (response_tasks cfg)))]"

definition stream_session_state_json :: "session \<Rightarrow> json" where
  "stream_session_state_json s = JObject [
     (''is_ended'', JBool (is_ended s)),
     (''transformed'', JBool (transformed s)),
     (''end_reason'', option_json (map_option end_reason_json (s_ended s))),
     (''config'', stream_config_json (s_config s))]"

definition config_offset :: "json_map \<Rightarrow> string \<Rightarrow> (stream_error, 32 word) result" where
  "config_offset flds key = (case map_of flds key of
      None \<Rightarrow> Inr 0
    | Some JNull \<Rightarrow> Inr 0
    | Some found \<Rightarrow>
        ok_or (UnknownSourceType (key @ '' is not a rune offset''))
          (Option.bind (as_u64 found) (\<lambda>n. if n < 2 ^ 32 then Some (word_of_nat n) else None)))"

definition config_tasks :: "json_map \<Rightarrow> string \<Rightarrow> (stream_error, string list) result" where
  "config_tasks flds key = (case map_of flds key of
      None \<Rightarrow> Inr []
    | Some JNull \<Rightarrow> Inr []
    | Some (JArray items) \<Rightarrow>
        try_map (\<lambda>item. ok_or (UnknownSourceType (key @ '' holds a non string task name'')) (as_str item)) items
    | Some _ \<Rightarrow> Inl (UnknownSourceType (key @ '' is not an array of task names'')))"

definition stream_config_from_json :: "json \<Rightarrow> (stream_error, session_config) result" where
  "stream_config_from_json v =
    (let flds = (case as_object v of Some flds \<Rightarrow> flds | None \<Rightarrow> []) in
     rbind (safety_level_parse (case Option.bind (map_of flds ''safety_level'') as_str of
         Some s \<Rightarrow> s | None \<Rightarrow> ''blocking'')) (\<lambda>safety_level.
     rbind (config_offset flds ''request_start_rune_offset'') (\<lambda>request_start.
     rbind (config_offset flds ''response_start_rune_offset'') (\<lambda>response_start.
     rbind (config_tasks flds ''request_tasks'') (\<lambda>request_tasks.
     rbind (config_tasks flds ''response_tasks'') (\<lambda>response_tasks.
     Inr \<lparr>cfg_safety_level = safety_level, request_start_rune_offset = request_start,
       response_start_rune_offset = response_start, request_tasks = request_tasks,
       response_tasks = response_tasks\<rparr>))))))"

section \<open>Telemetry events\<close>

text \<open>The wire name of a decision is an argument: \<open>Decision::as_str\<close> belongs to agent-hooks.
  A float is a JSON number unless it is infinite or not a number; the bits are IEEE 754.\<close>

definition from_f64 :: "64 word \<Rightarrow> json" where
  "from_f64 bits = (if unat (drop_bit 52 bits) mod 2048 = 2047 then JNull else JNumber (Float bits))"

definition telemetry_event_json :: "(decision \<Rightarrow> string) \<Rightarrow> telemetry_event \<Rightarrow> json" where
  "telemetry_event_json decision_str ev = JObject [
     (''event_type'', JString (event_type_as_str (te_type ev))),
     (''intervention_point'', JString (point_as_str (te_point ev))),
     (''decision'', option_json (map_option (JString \<circ> decision_str) (te_decision ev))),
     (''reason_code'', option_json (map_option JString (te_reason_code ev))),
     (''error_class'', option_json (map_option JString (te_error_class ev))),
     (''policy_id'', option_json (map_option JString (te_policy_id ev))),
     (''annotators'', JArray (map JString (te_annotators ev))),
     (''enforcement_mode'', option_json (map_option (JString \<circ> enforcement_mode_str) (te_enforcement_mode ev))),
     (''duration_ms'', option_json (map_option from_f64 (te_duration_ms ev))),
     (''evidence_artefact'', option_json (map_option JString (te_evidence_artefact ev))),
     (''evidence_verification_pointer_keys'', JArray (map JString (te_evidence_pointer_keys ev))),
     (''action_identity'', option_json (map_option JString (te_action_identity ev))),
     (''metadata'', JObject (map (\<lambda>(key, value). (key, JString value)) (te_metadata ev)))]"

section \<open>Properties of the caps\<close>

lemma apply_limit_eq:
  "apply_limit flds (key, get, put) s =
    rbind (read_limit flds key) (\<lambda>found. Inr (case found of Some n \<Rightarrow> put n s | None \<Rightarrow> s))"
  by (simp add: apply_limit_def)

locale field_table =
  fixes table :: "'s field list"
  assumes distinct_keys: "distinct (map fst table)"
    and get_put: "(key, get, put) \<in> set table \<Longrightarrow> get (put n s) = n"
    and get_other: "\<lbrakk>(key, get, put) \<in> set table; (key', get', put') \<in> set table; key \<noteq> key'\<rbrakk>
      \<Longrightarrow> get (put' n s) = get s"
    and same_fields: "(\<And>key get put. (key, get, put) \<in> set table \<Longrightarrow> get s = get t) \<Longrightarrow> s = t"
begin

definition overridden :: "json_map \<Rightarrow> 's \<Rightarrow> 's \<Rightarrow> bool" where
  "overridden flds s0 s \<longleftrightarrow> (\<forall>(key, get, put)\<in>set table.
    \<exists>found. read_limit flds key = Inr found \<and> get s = (case found of Some n \<Rightarrow> n | None \<Rightarrow> get s0))"

lemma apply_some:
  assumes "try_fold (apply_limit flds) tbl s0 = Inr s" "set tbl \<subseteq> set table" "distinct (map fst tbl)"
    and "(key, get, put) \<in> set table"
  shows "if key \<in> fst ` set tbl
    then \<exists>found. read_limit flds key = Inr found \<and> get s = (case found of Some n \<Rightarrow> n | None \<Rightarrow> get s0)
    else get s = get s0"
  using assms
proof (induction tbl arbitrary: s0)
  case (Cons field tbl)
  obtain k g p where field: "field = (k, g, p)"
    by (cases field) auto
  from Cons.prems(1) obtain found where read: "read_limit flds k = Inr found"
    and rest: "try_fold (apply_limit flds) tbl (case found of Some n \<Rightarrow> p n s0 | None \<Rightarrow> s0) = Inr s"
    by (auto simp: field apply_limit_eq rbind_eq_Inr_iff)
  have kg: "(k, g, p) \<in> set table"
    using Cons.prems(2) field by simp
  note ih = Cons.IH [OF rest _ _ Cons.prems(4)]
  show ?case
  proof (cases "key = k")
    case True
    then have "get = g"
      using Cons.prems(4) kg distinct_keys by (metis Pair_inject eq_key_imp_eq_value)
    then show ?thesis
      using True ih Cons.prems(2,3) read get_put [OF kg] by (auto simp: field split: option.splits)
  next
    case False
    then have "get (case found of Some n \<Rightarrow> p n s0 | None \<Rightarrow> s0) = get s0"
      using get_other [OF Cons.prems(4) kg] by (simp split: option.splits)
    then show ?thesis
      using False ih Cons.prems(2,3) by (auto simp: field split: if_splits option.splits)
  qed
qed simp

lemma apply_ok: "(\<And>key get put. (key, get, put) \<in> set tbl \<Longrightarrow> is_ok (read_limit flds key))
    \<Longrightarrow> \<exists>s. try_fold (apply_limit flds) tbl s0 = Inr s"
proof (induction tbl arbitrary: s0)
  case (Cons field tbl)
  obtain k g p where field: "field = (k, g, p)"
    by (cases field) auto
  obtain found where "read_limit flds k = Inr found"
    using Cons.prems [of k g p] field by (auto simp: is_ok_iff)
  moreover have "\<exists>s. try_fold (apply_limit flds) tbl s1 = Inr s" for s1
    using Cons.prems by (intro Cons.IH) (meson list.set_intros(2))
  ultimately show ?case
    by (simp add: field apply_limit_eq)
qed simp

lemma apply_iff: "try_fold (apply_limit flds) table s0 = Inr s \<longleftrightarrow> overridden flds s0 s"
proof
  assume run: "try_fold (apply_limit flds) table s0 = Inr s"
  have "\<exists>found. read_limit flds key = Inr found \<and> get s = (case found of Some n \<Rightarrow> n | None \<Rightarrow> get s0)"
    if "(key, get, put) \<in> set table" for key get put
  proof -
    have "key \<in> fst ` set table"
      using that by force
    then show ?thesis
      using apply_some [OF run subset_refl distinct_keys that] by simp
  qed
  then show "overridden flds s0 s"
    by (auto simp: overridden_def)
next
  assume over: "overridden flds s0 s"
  have "is_ok (read_limit flds key)" if "(key, get, put) \<in> set table" for key get put
    using over that by (fastforce simp: overridden_def is_ok_iff)
  then obtain s' where run: "try_fold (apply_limit flds) table s0 = Inr s'"
    using apply_ok [of table flds s0] by blast
  have "get s' = get s" if entry: "(key, get, put) \<in> set table" for key get put
  proof -
    have "key \<in> fst ` set table"
      using entry by force
    then show ?thesis
      using apply_some [OF run subset_refl distinct_keys entry] over [unfolded overridden_def, THEN bspec, OF entry]
      by auto
  qed
  then have "s' = s"
    by (rule same_fields)
  with run show "try_fold (apply_limit flds) table s0 = Inr s"
    by simp
qed

lemma round_trip:
  assumes "\<forall>(key, get, put)\<in>set table. get s < 2 ^ 64"
  shows "try_fold (apply_limit (map (\<lambda>(key, get, put). (key, from_u64 (get s))) table)) table s0 = Inr s"
proof -
  have "read_limit (map (\<lambda>(key, get, put). (key, from_u64 (get s))) table) key = Inr (Some (get s))"
    if entry: "(key, get, put) \<in> set table" for key get put
  proof -
    have "map_of (map (\<lambda>(key, get, put). (key, from_u64 (get s))) table) key = Some (from_u64 (get s))"
      using entry distinct_keys by (intro map_of_is_SomeI) (force simp: comp_def split_beta)+
    moreover have "as_u64 (from_u64 (get s)) = Some (get s)"
      using assms entry by (auto simp: as_u64_def from_u64_def unat_of_nat)
    ultimately show ?thesis
      by (simp add: read_limit_def from_u64_def)
  qed
  then show ?thesis
    unfolding apply_iff overridden_def by auto
qed

end

lemma limit_table_laws:
  "\<forall>f\<in>set limit_table. \<forall>n s. fst (snd f) (snd (snd f) n s) = n"
  "\<forall>f\<in>set limit_table. \<forall>g\<in>set limit_table. fst f \<noteq> fst g \<longrightarrow> (\<forall>n s. fst (snd f) (snd (snd g) n s) = fst (snd f) s)"
  by (simp_all add: limit_table_def)

interpretation caps: field_table limit_table
proof
  show "distinct (map fst limit_table)"
    by (simp add: limit_table_def)
next
  fix key get put n s
  assume "(key, get, put) \<in> set limit_table"
  then show "get (put n s) = n"
    using limit_table_laws(1) by force
next
  fix key get put key' get' put' n s
  assume "(key, get, put) \<in> set limit_table" "(key', get', put') \<in> set limit_table" "key \<noteq> key'"
  then show "get (put' n s) = get s"
    using limit_table_laws(2) by fastforce
next
  fix s t :: limits
  assume "\<And>key get put. (key, get, put) \<in> set limit_table \<Longrightarrow> get s = get t"
  then have "\<forall>f\<in>set limit_table. fst (snd f) s = fst (snd f) t"
    by (metis prod.collapse)
  then show "s = t"
    by (intro limits.equality) (simp_all add: limit_table_def)
qed

text \<open>
  Resource caps sent as JSON are honoured or refused, never dropped.  The caps are
  accepted exactly when the value is an object with no member but the sixteen caps and
  every member is a non negative integer or null; each cap then has the number the host
  sent, and its default if the host sent nothing or null.
\<close>

theorem limits_overrides_honoured:
  "limits_from_json v = Inr lim \<longleftrightarrow> (\<exists>flds. v = JObject flds \<and> fst ` set flds \<subseteq> set LIMIT_FIELDS
    \<and> (\<forall>(key, get, put)\<in>set limit_table. case map_of flds key of
          None \<Rightarrow> get lim = get default_limits
        | Some JNull \<Rightarrow> get lim = get default_limits
        | Some (JNumber (PosInt n)) \<Rightarrow> get lim = unat n
        | Some _ \<Rightarrow> False))"
proof -
  have "(\<exists>found. read_limit flds key = Inr found \<and> n = (case found of Some k \<Rightarrow> k | None \<Rightarrow> n0)) \<longleftrightarrow>
      (case map_of flds key of
          None \<Rightarrow> n = n0
        | Some JNull \<Rightarrow> n = n0
        | Some (JNumber (PosInt k)) \<Rightarrow> n = unat k
        | Some _ \<Rightarrow> False)" for flds key n n0
    by (auto simp: read_limit_def as_u64_def ok_or_def split: option.splits json.splits number.splits)
  then have "caps.overridden flds default_limits lim \<longleftrightarrow> (\<forall>(key, get, put)\<in>set limit_table. case map_of flds key of
          None \<Rightarrow> get lim = get default_limits
        | Some JNull \<Rightarrow> get lim = get default_limits
        | Some (JNumber (PosInt n)) \<Rightarrow> get lim = unat n
        | Some _ \<Rightarrow> False)" for flds
    by (simp add: caps.overridden_def split_beta)
  moreover have "limits_from_json v = Inr lim \<longleftrightarrow> (\<exists>flds. v = JObject flds \<and> fst ` set flds \<subseteq> set LIMIT_FIELDS
      \<and> caps.overridden flds default_limits lim)"
    by (cases v) (auto simp: limits_from_json_def rbind_eq_Inr_iff caps.apply_iff Let_def filter_empty_conv)
  ultimately show ?thesis
    by simp
qed

theorem limits_overrides_honoured_witness:
  "limits_from_json (JObject [(''max_extends_depth'', JNumber (PosInt 3)), (''max_snapshot_bytes'', JNull)])
    = Inr (default_limits\<lparr>max_extends_depth := 3\<rparr>)"
proof -
  let ?flds = "[(''max_extends_depth'', JNumber (PosInt 3)), (''max_snapshot_bytes'', JNull)]"
  have "fst ` set ?flds \<subseteq> set LIMIT_FIELDS"
    by (simp add: LIMIT_FIELDS_def)
  moreover have "\<forall>(key, get, put)\<in>set limit_table. case map_of ?flds key of
          None \<Rightarrow> get (default_limits\<lparr>max_extends_depth := 3\<rparr>) = get default_limits
        | Some JNull \<Rightarrow> get (default_limits\<lparr>max_extends_depth := 3\<rparr>) = get default_limits
        | Some (JNumber (PosInt n)) \<Rightarrow> get (default_limits\<lparr>max_extends_depth := 3\<rparr>) = unat n
        | Some _ \<Rightarrow> False"
    by (simp add: limit_table_def)
  ultimately show ?thesis
    unfolding limits_overrides_honoured by blast
qed

lemma config_offset_back:
  "map_of flds key = Some (from_u32 w) \<Longrightarrow> config_offset flds key = Inr w"
proof -
  have bound: "unat w < 2 ^ 32"
    using unsigned_less [of w] by simp
  moreover from bound have "unat (ucast w :: 64 word) = unat w"
    by (simp add: unsigned_ucast_eq take_bit_nat_eq_self)
  ultimately show "map_of flds key = Some (from_u32 w) \<Longrightarrow> config_offset flds key = Inr w"
    by (simp add: config_offset_def from_u32_def as_u64_def ok_or_def)
qed

lemma config_tasks_back: "map_of flds key = Some (JArray (map JString tasks)) \<Longrightarrow> config_tasks flds key = Inr tasks"
proof -
  have "try_map (\<lambda>item. ok_or e (as_str item)) (map JString tasks) = Inr tasks" for e :: stream_error
    by (induction tasks) (simp_all add: ok_or_def)
  then show "map_of flds key = Some (JArray (map JString tasks)) \<Longrightarrow> config_tasks flds key = Inr tasks"
    by (simp add: config_tasks_def)
qed

lemma limits_json_table: "limits_json lim = JObject (map (\<lambda>(key, get, put). (key, from_u64 (get lim))) limit_table)"
  by (simp add: limits_json_def limit_table_def)

text \<open>
  C40: What a binding sends back to the engine is what the engine sent out: resource caps
  that fit 64 bits, the configuration of a streaming session and the perf level all
  survive the way through their JSON form.
\<close>

theorem wire_round_trips:
  assumes "\<forall>(key, get, put)\<in>set limit_table. get lim < 2 ^ 64"
  shows "limits_from_json (limits_json lim) = Inr lim
    \<and> stream_config_from_json (stream_config_json cfg) = Inr cfg
    \<and> parse_perf_telemetry (perf_telemetry_str level) = Inr level"
proof (intro conjI)
  have "map fst (map (\<lambda>(key, get, put). (key, from_u64 (get lim))) limit_table) = LIMIT_FIELDS"
    by (simp add: limit_table_def LIMIT_FIELDS_def)
  then show "limits_from_json (limits_json lim) = Inr lim"
    using caps.round_trip [OF assms, of default_limits]
    by (simp add: limits_from_json_def limits_json_table)
  have "safety_level_parse (safety_level_as_str l) = Inr l" for l
    by (cases l) (simp_all add: safety_level_parse_def)
  then show "stream_config_from_json (stream_config_json cfg) = Inr cfg"
    by (simp add: stream_config_from_json_def stream_config_json_def config_offset_back config_tasks_back)
  show "parse_perf_telemetry (perf_telemetry_str level) = Inr level"
    by (cases level) (simp_all add: parse_perf_telemetry_def)
qed

theorem wire_round_trips_witness:
  "limits_from_json (limits_json default_limits) = Inr default_limits"
proof -
  have "\<forall>(key, get, put)\<in>set limit_table. get default_limits < 2 ^ 64"
    by (simp add: limit_table_def default_limits_def)
  then show ?thesis
    using wire_round_trips by blast
qed

end
