(* ===== verification/Activation.thy ===== *)
theory Activation
  imports Manifest_Loader Runtime
begin

text \<open>
  One policy version, readied once and evaluated many times (\<open>activation.rs\<close>), and the
  agent-hooks interceptor over a runtime (\<open>interceptor.rs\<close>).

  \<open>PolicyDispatcher::warm\<close> is an argument; a dispatcher keeps what it prepared, so its
  answer is a function of the invocations it was given before.
\<close>

section \<open>Activation\<close>

record activated_policy =
  act_runtime :: runtime
  act_points :: "interception_point list"

type_synonym warmer = "prepared_invocation list \<Rightarrow> prepared_invocation \<Rightarrow> (runtime_error, unit) result"

type_synonym 'a warming = "(prepared_invocation list, runtime_error, 'a) stateful"

definition warm_point :: "externals \<Rightarrow> warmer \<Rightarrow> runtime \<Rightarrow> interception_point \<Rightarrow> unit warming" where
  "warm_point x warm rt point = (case map_of (m_points (rt_manifest rt)) point of
      None \<Rightarrow> run_lift (Inr ())
    | Some config \<Rightarrow> (case map_of (m_policies (rt_manifest rt)) (pb_id (pc_policy config)) of
          None \<Rightarrow> run_lift (Inr ())
        | Some policy \<Rightarrow>
            run_bind (run_lift (prepare_policy_invocation x policy (pc_policy config) (JObject []))) (\<lambda>invocation.
            (\<lambda>warmed. (warm warmed invocation, warmed @ [invocation])))))"

definition activate :: "externals \<Rightarrow> warmer \<Rightarrow> runtime \<Rightarrow> activated_policy warming" where
  "activate x warm rt =
    (let points = map fst (m_points (rt_manifest rt)) in
     run_bind (run_fold (\<lambda>point _. warm_point x warm rt point) points ()) (\<lambda>_.
     run_lift (Inr \<lparr>act_runtime = rt, act_points = points\<rparr>)))"

definition activate_with :: "externals \<Rightarrow> warmer \<Rightarrow> manifest \<Rightarrow> activated_policy warming" where
  "activate_with x warm m = run_bind (run_lift (runtime_new x m)) (activate x warm)"

definition parse_yaml_str :: "environment \<Rightarrow> string \<Rightarrow> (runtime_error, manifest) result" where
  "parse_yaml_str env input = parse_yaml_str_with_limits env input default_limits"

definition manifest_from_memory ::
  "environment \<Rightarrow> string \<Rightarrow> (string \<times> in_memory_bundle) list \<Rightarrow> (runtime_error, manifest) result"
where
  "manifest_from_memory env manifest_yaml bundles =
    rbind (parse_yaml_str env manifest_yaml) (\<lambda>m.
    rbind (try_fold (\<lambda>(policy_id, bundle). set_rego_bundle_in_memory policy_id bundle) bundles m) (\<lambda>m.
    let unresolved = unresolved_relative_rego_paths m in
    if unresolved \<noteq> [] then
      Inl (ManifestInvalid (''activating from memory, but rego ''
        @ (if length unresolved = 1 then ''policy'' else ''policies'') @ '' ''
        @ join '', '' (map quoted unresolved)
        @ '' still point at a relative bundle or data path, which has no manifest directory to resolve ''
        @ ''against. Supply modules for '' @ (if length unresolved = 1 then ''it'' else ''them'')
        @ '', or write the path as absolute''))
    else Inr m))"

definition activate_from_memory_with_telemetry_perf_and_limits ::
  "externals \<Rightarrow> environment \<Rightarrow> warmer \<Rightarrow> string \<Rightarrow> (string \<times> in_memory_bundle) list \<Rightarrow> perf_telemetry \<Rightarrow> limits
    \<Rightarrow> activated_policy warming"
where
  "activate_from_memory_with_telemetry_perf_and_limits x env warm manifest_yaml bundles perf lim =
    run_bind (run_lift (manifest_from_memory env manifest_yaml bundles)) (\<lambda>m.
    run_bind (run_lift (with_telemetry_perf_and_limits x m perf lim)) (activate x warm))"

definition activate_from_memory_with ::
  "externals \<Rightarrow> environment \<Rightarrow> warmer \<Rightarrow> string \<Rightarrow> (string \<times> in_memory_bundle) list \<Rightarrow> activated_policy warming"
where
  "activate_from_memory_with x env warm manifest_yaml bundles =
    activate_from_memory_with_telemetry_perf_and_limits x env warm manifest_yaml bundles Off default_limits"

definition act_evaluate ::
  "externals \<Rightarrow> host \<Rightarrow> activated_policy \<Rightarrow> interception_point \<Rightarrow> json \<Rightarrow> trace \<Rightarrow> evaluation_result \<times> trace"
where
  "act_evaluate x h p point snapshot = evaluate_point x h (act_runtime p) point snapshot"

definition governs :: "activated_policy \<Rightarrow> interception_point \<Rightarrow> bool" where
  "governs p point \<longleftrightarrow> point \<in> set (act_points p)"

section \<open>Interceptor\<close>

datatype runtime_source = Owned runtime | Activated activated_policy

fun source_runtime :: "runtime_source \<Rightarrow> runtime" where
  "source_runtime (Owned rt) = rt"
| "source_runtime (Activated p) = act_runtime p"

record interceptor =
  ic_runtime :: runtime_source
  ic_name :: string

definition interceptor_new :: "runtime \<Rightarrow> interceptor" where
  "interceptor_new rt = \<lparr>ic_runtime = Owned rt, ic_name = ''acs''\<rparr>"

definition from_activated :: "activated_policy \<Rightarrow> interceptor" where
  "from_activated p = \<lparr>ic_runtime = Activated p, ic_name = ''acs''\<rparr>"

definition with_name :: "interceptor \<Rightarrow> string \<Rightarrow> interceptor" where
  "with_name ic name = ic\<lparr>ic_name := name\<rparr>"

text \<open>The inline path; the worker path runs the same evaluation on another thread.\<close>

definition evaluate_snapshot :: "externals \<Rightarrow> host \<Rightarrow> interceptor \<Rightarrow> json \<Rightarrow> trace \<Rightarrow> verdict \<times> trace" where
  "evaluate_snapshot x h ic snapshot t =
    (case evaluate x h (source_runtime (ic_runtime ic)) snapshot t of (res, t') \<Rightarrow> (er_verdict res, t'))"

definition intercept :: "externals \<Rightarrow> host \<Rightarrow> interceptor \<Rightarrow> json_map \<Rightarrow> trace \<Rightarrow> verdict \<times> trace" where
  "intercept x h ic ctxt = evaluate_snapshot x h ic (JObject ctxt)"

section \<open>Properties\<close>

lemma set_bundle_result:
  assumes "set_rego_bundle_in_memory policy_id bundle m = Inr m'"
  obtains rego where "map_of (m_policies m) policy_id = Some (Rego rego)"
    "m' = m\<lparr>m_policies := bt_insert policy_id (Rego (rego\<lparr>rp_bundle := None,
       rp_adapter_config := bt_remove ''bundle_url'' (rp_adapter_config rego),
       rp_inline_bundle := Some bundle\<rparr>)) (m_policies m)\<rparr>"
    "\<forall>(point, config)\<in>set (m_points m). pb_id (pc_policy config) = policy_id
       \<longrightarrow> \<not> has_key (pb_adapter_config (pc_policy config)) ''bundle_url''"
proof -
  obtain rego where rego: "map_of (m_policies m) policy_id = Some (Rego rego)"
    using assms by (auto simp: set_rego_bundle_in_memory_def Let_def split: option.splits policy_config.splits)
  have guard: "\<not> (pb_id (pc_policy config) = policy_id
        \<and> has_key (pb_adapter_config (pc_policy config)) ''bundle_url'')" if "(point, config) \<in> set (m_points m)" for point config
  proof -
    from assms obtain u where "try_each (\<lambda>(point, config).
        if pb_id (pc_policy config) = policy_id \<and> has_key (pb_adapter_config (pc_policy config)) ''bundle_url''
        then Inl (ManifestInvalid (''cannot supply in-memory Rego modules for policy '' @ quoted policy_id @ '': ''
          @ ''intervention point '' @ point_as_str point
          @ '' still declares a bundle_url override; remove the binding override first''))
        else Inr ()) (m_points m) = Inr u"
      unfolding set_rego_bundle_in_memory_def Let_def rego option.case policy_config.case rbind_eq_Inr_iff by blast
    then show ?thesis
      using that by (cases u) (auto simp: try_each_ok_iff split: if_splits dest!: bspec)
  qed
  show thesis
    using assms guard by (intro that [OF rego]) (auto simp: set_rego_bundle_in_memory_def Let_def rego rbind_eq_Inr_iff)
qed

text \<open>A policy whose modules the host holds in memory has no other source of modules.\<close>

definition served_from_memory :: "manifest \<Rightarrow> string \<Rightarrow> in_memory_bundle \<Rightarrow> bool" where
  "served_from_memory m policy_id bundle \<longleftrightarrow> (\<exists>rego. map_of (m_policies m) policy_id = Some (Rego rego)
    \<and> rp_inline_bundle rego = Some bundle \<and> rp_bundle rego = None
    \<and> \<not> has_key (rp_adapter_config rego) ''bundle_url''
    \<and> (\<forall>(point, config)\<in>set (m_points m). pb_id (pc_policy config) = policy_id
        \<longrightarrow> \<not> has_key (pb_adapter_config (pc_policy config)) ''bundle_url''))"

lemma set_bundle_serves:
  assumes "set_rego_bundle_in_memory policy_id bundle m = Inr m'"
  shows "served_from_memory m' policy_id bundle" "m_points m' = m_points m"
    and "other \<noteq> policy_id \<Longrightarrow> served_from_memory m other b \<Longrightarrow> served_from_memory m' other b"
proof -
  obtain rego where "map_of (m_policies m) policy_id = Some (Rego rego)"
    and m': "m' = m\<lparr>m_policies := bt_insert policy_id (Rego (rego\<lparr>rp_bundle := None,
       rp_adapter_config := bt_remove ''bundle_url'' (rp_adapter_config rego),
       rp_inline_bundle := Some bundle\<rparr>)) (m_policies m)\<rparr>"
    and points: "\<forall>(point, config)\<in>set (m_points m). pb_id (pc_policy config) = policy_id
       \<longrightarrow> \<not> has_key (pb_adapter_config (pc_policy config)) ''bundle_url''"
    using assms by (rule set_bundle_result)
  have "\<not> has_key (bt_remove ''bundle_url'' cfg) ''bundle_url''" for cfg :: adapter_config
    by (auto simp: has_key_def bt_remove_def map_of_eq_None_iff)
  then show "served_from_memory m' policy_id bundle"
    using points by (simp add: served_from_memory_def m' bt_insert_get)
  show "m_points m' = m_points m"
    by (simp add: m')
  show "other \<noteq> policy_id \<Longrightarrow> served_from_memory m other b \<Longrightarrow> served_from_memory m' other b"
    by (simp add: served_from_memory_def m' bt_insert_get)
qed

lemma set_bundles_serve:
  assumes "try_fold (\<lambda>(policy_id, bundle). set_rego_bundle_in_memory policy_id bundle) bundles m = Inr m'"
    and "distinct (map fst bundles)"
  shows "(\<forall>(policy_id, bundle)\<in>set bundles. served_from_memory m' policy_id bundle)
    \<and> (\<forall>policy_id b. policy_id \<notin> fst ` set bundles \<longrightarrow> served_from_memory m policy_id b
        \<longrightarrow> served_from_memory m' policy_id b)"
  using assms
proof (induction bundles arbitrary: m)
  case (Cons entry bundles)
  obtain i b where entry: "entry = (i, b)"
    by (cases entry)
  from Cons.prems(1) obtain m1 where step: "set_rego_bundle_in_memory i b m = Inr m1"
    and rest: "try_fold (\<lambda>(policy_id, bundle). set_rego_bundle_in_memory policy_id bundle) bundles m1 = Inr m'"
    by (auto simp: entry rbind_eq_Inr_iff)
  show ?case
    using Cons.IH [OF rest] Cons.prems(2) set_bundle_serves [OF step] by (auto simp: entry)
qed simp

text \<open>Warming: one invocation per point, and each was accepted.\<close>

definition warms :: "externals \<Rightarrow> runtime \<Rightarrow> interception_point \<Rightarrow> prepared_invocation \<Rightarrow> bool" where
  "warms x rt point invocation \<longleftrightarrow> (\<exists>config policy. map_of (m_points (rt_manifest rt)) point = Some config
    \<and> map_of (m_policies (rt_manifest rt)) (pb_id (pc_policy config)) = Some policy
    \<and> prepare_policy_invocation x policy (pc_policy config) (JObject []) = Inr invocation)"

definition bound_point :: "runtime \<Rightarrow> interception_point \<Rightarrow> bool" where
  "bound_point rt point \<longleftrightarrow> (\<exists>config policy. map_of (m_points (rt_manifest rt)) point = Some config
    \<and> map_of (m_policies (rt_manifest rt)) (pb_id (pc_policy config)) = Some policy)"

lemma warm_point_ok:
  assumes "warm_point x warm rt point warmed = (Inr (), warmed')" "bound_point rt point"
  shows "\<exists>invocation. warms x rt point invocation \<and> warmed' = warmed @ [invocation] \<and> warm warmed invocation = Inr ()"
  using assms by (auto simp: warm_point_def bound_point_def warms_def run_bind_ok)

lemma warm_fold_ok:
  assumes "run_fold (\<lambda>point _. warm_point x warm rt point) points () warmed = (Inr (), warmed')"
    and "\<forall>point\<in>set points. bound_point rt point"
  shows "\<exists>invocations. warmed' = warmed @ invocations \<and> list_all2 (warms x rt) points invocations
    \<and> (\<forall>i<length invocations. warm (warmed @ take i invocations) (invocations ! i) = Inr ())"
  using assms
proof (induction points arbitrary: warmed)
  case (Cons point points)
  from Cons.prems(1) obtain w1 where first: "warm_point x warm rt point warmed = (Inr (), w1)"
    and rest: "run_fold (\<lambda>point _. warm_point x warm rt point) points () w1 = (Inr (), warmed')"
    by (auto simp: run_bind_ok)
  obtain v where v: "warms x rt point v" "w1 = warmed @ [v]" "warm warmed v = Inr ()"
    using warm_point_ok [OF first] Cons.prems(2) by auto
  obtain vs where vs: "warmed' = w1 @ vs" "list_all2 (warms x rt) points vs"
      "\<forall>i<length vs. warm (w1 @ take i vs) (vs ! i) = Inr ()"
    using Cons.IH [OF rest] Cons.prems(2) by auto
  have "warm (warmed @ take i (v # vs)) ((v # vs) ! i) = Inr ()" if "i < length (v # vs)" for i
    using that v vs(3) by (cases i) auto
  then show ?case
    using v vs by (intro exI [of _ "v # vs"]) simp
qed simp

lemma validated_bound:
  assumes "manifest_validate x (rt_manifest rt) = Inr ()" "point \<in> set (map fst (m_points (rt_manifest rt)))"
  shows "bound_point rt point"
proof -
  obtain config where config: "map_of (m_points (rt_manifest rt)) point = Some config"
    using assms(2) by (metis list.set_map map_of_eq_None_iff not_None_eq)
  then show ?thesis
    using validate_point_configD(5) [OF manifest_validateD(1) [OF assms(1) map_of_SomeD [OF config]]]
    by (auto simp: bound_point_def)
qed

lemma runtime_built:
  assumes "with_telemetry_perf_and_limits x m perf lim = Inr rt"
  shows "rt_manifest rt = m" "manifest_validate x m = Inr ()" "m_extends m = []"
  using assms by (auto simp: with_telemetry_perf_and_limits_def rbind_eq_Inr_iff split: if_splits)

lemma grown_ids:
  "set ids \<union> {pb_id (pc_policy config) | point config. (point, config) \<in> set points \<and> P (pc_policy config)}
    \<subseteq> set (fold (\<lambda>(point, config) ids.
        if P (pc_policy config) \<and> pb_id (pc_policy config) \<notin> set ids
        then ids @ [pb_id (pc_policy config)] else ids) points ids)"
proof (induction points arbitrary: ids)
  case (Cons entry points)
  show ?case
    using Cons.IH [of "if P (pc_policy (snd entry)) \<and> pb_id (pc_policy (snd entry)) \<notin> set ids
        then ids @ [pb_id (pc_policy (snd entry))] else ids"]
    by (auto simp: split_beta split: if_splits)
qed simp

text \<open>
  What the check for unresolved paths rules out: a Rego policy that names a relative bundle,
  and a policy or a binding of one whose own data paths are well formed and relative.
\<close>

lemma no_unresolved_paths:
  assumes "unresolved_relative_rego_paths m = []" "(policy_id, Rego rego) \<in> set (m_policies m)"
  shows "\<not> relative_path (rp_bundle rego)" "\<not> relative_data (rp_adapter_config rego)"
    and "\<lbrakk>(point, config) \<in> set (m_points m); map_of (m_policies m) (pb_id (pc_policy config)) = Some (Rego r)\<rbrakk>
      \<Longrightarrow> \<not> relative_data (pb_adapter_config (pc_policy config))"
proof -
  let ?ids = "map fst (filter (\<lambda>(id, config). case config of
                 Rego rego \<Rightarrow> relative_path (rp_bundle rego) \<or> relative_data (rp_adapter_config rego)
               | _ \<Rightarrow> False) (m_policies m))"
  let ?P = "\<lambda>b. (case map_of (m_policies m) (pb_id b) of Some (Rego _) \<Rightarrow> True | _ \<Rightarrow> False)
      \<and> relative_data (pb_adapter_config b)"
  let ?bound = "{pb_id (pc_policy config) | point config. (point, config) \<in> set (m_points m) \<and> ?P (pc_policy config)}"
  have "set (unresolved_relative_rego_paths m) = set (fold (\<lambda>(point, config) ids.
        if ?P (pc_policy config) \<and> pb_id (pc_policy config) \<notin> set ids
        then ids @ [pb_id (pc_policy config)] else ids) (m_points m) ?ids)"
    unfolding unresolved_relative_rego_paths_def Let_def conj_assoc remdups_adj_set set_sort ..
  then have "set ?ids \<union> ?bound \<subseteq> set (unresolved_relative_rego_paths m)"
    using grown_ids [of ?ids "m_points m" ?P] by (simp only:)
  then have none: "set ?ids = {} \<and> ?bound = {}"
    unfolding assms(1) list.set(1) subset_empty Un_empty .
  from conjunct1 [OF none] have "\<not> (relative_path (rp_bundle rego) \<or> relative_data (rp_adapter_config rego))"
    using assms(2) by (force simp: filter_empty_conv)
  then show "\<not> relative_path (rp_bundle rego)" "\<not> relative_data (rp_adapter_config rego)"
    by simp_all
  show "\<not> relative_data (pb_adapter_config (pc_policy config))"
    if "(point, config) \<in> set (m_points m)" "map_of (m_policies m) (pb_id (pc_policy config)) = Some (Rego r)"
    using conjunct2 [OF none] that by auto
qed

lemma manifest_from_memory_result:
  assumes "manifest_from_memory env src bundles = Inr m" "distinct (map fst bundles)"
  shows "\<forall>(policy_id, bundle)\<in>set bundles. served_from_memory m policy_id bundle"
    and "unresolved_relative_rego_paths m = []"
proof -
  from assms(1) obtain m0 where
    fold: "try_fold (\<lambda>(policy_id, bundle). set_rego_bundle_in_memory policy_id bundle) bundles m0 = Inr m"
    and paths: "unresolved_relative_rego_paths m = []"
    by (auto simp: manifest_from_memory_def rbind_eq_Inr_iff Let_def split: if_splits)
  show "\<forall>(policy_id, bundle)\<in>set bundles. served_from_memory m policy_id bundle"
    using set_bundles_serve [OF fold assms(2)] by blast
  show "unresolved_relative_rego_paths m = []"
    by (rule paths)
qed

lemma activate_result:
  assumes "activate x warm rt [] = (Inr p, warmed)" "manifest_validate x (rt_manifest rt) = Inr ()"
  shows "p = \<lparr>act_runtime = rt, act_points = map fst (m_points (rt_manifest rt))\<rparr>"
    and "list_all2 (warms x rt) (map fst (m_points (rt_manifest rt))) warmed"
    and "\<forall>i<length warmed. warm (take i warmed) (warmed ! i) = Inr ()"
proof -
  let ?points = "map fst (m_points (rt_manifest rt))"
  have p: "p = \<lparr>act_runtime = rt, act_points = ?points\<rparr>"
    and fold: "run_fold (\<lambda>point _. warm_point x warm rt point) ?points () [] = (Inr (), warmed)"
    using assms(1) by (auto simp: activate_def Let_def run_bind_ok run_lift_def)
  show "p = \<lparr>act_runtime = rt, act_points = ?points\<rparr>"
    by (rule p)
  show "list_all2 (warms x rt) ?points warmed" "\<forall>i<length warmed. warm (take i warmed) (warmed ! i) = Inr ()"
    using warm_fold_ok [OF fold] validated_bound [OF assms(2)] by auto
qed

text \<open>
  C6: A policy version activated from memory is ready at every point it governs.  The manifest
  that stands behind it is validated and fully composed; each Rego policy the host supplied
  modules for reads them from memory only, no path or pinned URL left that a decision could
  fall back to; no Rego policy is left with a relative bundle or data path of its own; and the
  dispatcher was given the invocation of every governed point, in order, before the activation
  returned, and accepted each.
\<close>

theorem activation_readies_every_point:
  assumes "activate_from_memory_with_telemetry_perf_and_limits x env warm src bundles perf lim [] = (Inr p, warmed)"
    and "distinct (map fst bundles)"
  shows "\<exists>m. m = rt_manifest (act_runtime p)
    \<and> manifest_validate x m = Inr () \<and> m_extends m = []
    \<and> (\<forall>point. governs p point \<longleftrightarrow> map_of (m_points m) point \<noteq> None)
    \<and> (\<forall>(policy_id, bundle)\<in>set bundles. served_from_memory m policy_id bundle)
    \<and> (\<forall>policy_id rego. (policy_id, Rego rego) \<in> set (m_policies m)
        \<longrightarrow> \<not> relative_path (rp_bundle rego) \<and> \<not> relative_data (rp_adapter_config rego))
    \<and> list_all2 (warms x (act_runtime p)) (act_points p) warmed
    \<and> (\<forall>i<length warmed. warm (take i warmed) (warmed ! i) = Inr ())"
proof -
  from assms(1) obtain m rt where memory: "manifest_from_memory env src bundles = Inr m"
    and rt: "with_telemetry_perf_and_limits x m perf lim = Inr rt"
    and act: "activate x warm rt [] = (Inr p, warmed)"
    by (auto simp: activate_from_memory_with_telemetry_perf_and_limits_def run_bind_ok run_lift_def)
  have valid: "manifest_validate x (rt_manifest rt) = Inr ()"
    using runtime_built [OF rt] by simp
  note result = activate_result [OF act valid]
  have p: "rt_manifest (act_runtime p) = m"
    using result(1) runtime_built(1) [OF rt] by simp
  have governs: "governs p point \<longleftrightarrow> map_of (m_points m) point \<noteq> None" for point
    using result(1) runtime_built(1) [OF rt] by (simp add: governs_def map_of_eq_None_iff)
  have rego: "\<not> relative_path (rp_bundle rego) \<and> \<not> relative_data (rp_adapter_config rego)"
    if "(policy_id, Rego rego) \<in> set (m_policies m)" for policy_id rego
    using no_unresolved_paths(1,2) [OF manifest_from_memory_result(2) [OF memory assms(2)] that] by simp
  show ?thesis
    using p governs rego result valid runtime_built [OF rt] manifest_from_memory_result(1) [OF memory assms(2)]
    by (intro exI [of _ m] conjI) auto
qed

text \<open>A manifest whose only policy names a bundle by a relative path, and modules for it.\<close>

definition example_modules :: in_memory_bundle where
  "example_modules = \<lparr>ib_modules = [(''a.rego'', ''package a'')], ib_data = [], ib_digest = ''d''\<rparr>"

definition example_binding :: "adapter_config \<Rightarrow> policy_binding" where
  "example_binding cfg = \<lparr>pb_id = ''p'', pb_query = None, pb_adapter_config = cfg\<rparr>"

definition example_rego :: "string option \<Rightarrow> in_memory_bundle option \<Rightarrow> adapter_config \<Rightarrow> rego_policy_config" where
  "example_rego bundle inline cfg = \<lparr>rp_query = Some ''p'', rp_bundle = bundle, rp_inline_bundle = inline,
     rp_adapter_config = cfg\<rparr>"

definition example_governed :: "rego_policy_config \<Rightarrow> adapter_config \<Rightarrow> manifest" where
  "example_governed rego cfg = (example_sourced [] [] [])\<lparr>m_policies := [(''p'', Rego rego)],
     m_points := [(Input, \<lparr>pc_policy_target = ''$'', pc_policy_target_kind = None, pc_tool_name_from = None,
       pc_annotations = [], pc_policy = example_binding cfg\<rparr>)], m_annotators := []\<rparr>"

definition example_memory_environment :: environment where
  "example_memory_environment = \<lparr>
     env_canonicalize = (\<lambda>io p. Inr p), env_read_file = (\<lambda>io p n. Inl ''none''),
     env_http_get = (\<lambda>io lim u. Inl ''none''), env_json = (\<lambda>s. Inl ''eof''),
     env_yaml = (\<lambda>lim s. Inr (example_governed (example_rego (Some ''policy'') None []) [])),
     env_to_vec = (\<lambda>m. Inr ''{}''), env_url_join = (\<lambda>u r. Inl RelativeUrlWithoutBase),
     env_url_path = u_text\<rparr>"

lemma example_from_memory:
  "manifest_from_memory example_memory_environment ''m'' [(''p'', example_modules)]
    = Inr (example_governed (example_rego None (Some example_modules) []) [])"
  by (simp add: manifest_from_memory_def parse_yaml_str_def parse_yaml_str_with_limits_def default_limits_def
      example_memory_environment_def deserialized_def example_governed_def example_sourced_def
      set_rego_bundle_in_memory_def example_rego_def example_binding_def has_key_def bt_remove_def
      unresolved_relative_rego_paths_def relative_path_def relative_data_def rego_adapter_data_paths_def
      DATA_PATH_KEYS_def Let_def)

lemma kahn_nothing: "dispatch_order (kahn ([] :: string needs_list)) = []"
  unfolding kahn_def by (subst kahn_loop.simps) (simp add: kahn_start_def)

lemma no_annotations_order: "pc_annotations config = [] \<Longrightarrow> annotation_dispatch_order point config m = Inr []"
  by (simp add: annotation_dispatch_order_def kahn_nothing Let_def)

lemma example_governed_valid:
  "manifest_validate example_externals (example_governed (example_rego None (Some example_modules) []) []) = Inr ()"
  unfolding manifest_validate_def Let_def
  by (simp add: example_governed_def example_sourced_def url_sourced_def example_version not_blank_examples
      SUPPORTED_def CONTRACTS_def validate_policy_definition_def validate_rego_config_def example_rego_def
      validate_optional_string_def validate_required_string_def rego_bundle_url_def CEDAR_FIELDS_def has_key_def
      validate_point_config_def example_root example_binding_def validate_policy_binding_def
      merge_adapter_config_def or_else_def no_annotations_order)

lemma example_runtime:
  "with_telemetry_perf_and_limits example_externals
     (example_governed (example_rego None (Some example_modules) []) []) Off default_limits
   = Inr \<lparr>rt_manifest = example_governed (example_rego None (Some example_modules) []) [],
       rt_plans = [(Input, \<lparr>plan_order = [], plan_dependencies = []\<rparr>)], rt_perf = Off, rt_limits = default_limits\<rparr>"
  unfolding with_telemetry_perf_and_limits_def example_governed_valid
  by (simp add: example_governed_def example_sourced_def plan_prepare_def no_annotations_order
      bt_collect_def)

definition example_invocation :: prepared_invocation where
  "example_invocation = RegoInvocation \<lparr>ri_query = ''p'', ri_bundle = None,
     ri_inline_bundle = Some example_modules, ri_adapter_config = [], ri_input = JObject [],
     ri_canonical_input = ''{}''\<rparr>"

lemma example_activated:
  "\<exists>p. activate_from_memory_with_telemetry_perf_and_limits example_externals example_memory_environment
      (\<lambda>warmed invocation. Inr ()) ''m'' [(''p'', example_modules)] Off default_limits [] = (Inr p, [example_invocation])
    \<and> act_points p = [Input]"
  unfolding activate_from_memory_with_telemetry_perf_and_limits_def example_from_memory run_bind_def run_lift_def
    prod.case sum.case example_runtime activate_def Let_def
  by (simp add: run_bind_def run_lift_def warm_point_def example_governed_def
      example_sourced_def example_binding_def prepare_policy_invocation_def example_rego_def
      example_invocation_def merge_adapter_config_def rego_bundle_url_def or_else_def
      canonical_policy_input_def canonical_json_def example_externals_def sort_json.simps jcs.simps Let_def join_def)

theorem activation_readies_every_point_witness:
  "\<exists>p. activate_from_memory_with_telemetry_perf_and_limits example_externals example_memory_environment
      (\<lambda>warmed invocation. Inr ()) ''m'' [(''p'', example_modules)] Off default_limits [] = (Inr p, [example_invocation])
    \<and> governs p Input \<and> served_from_memory (rt_manifest (act_runtime p)) ''p'' example_modules
    \<and> warms example_externals (act_runtime p) Input example_invocation"
proof -
  obtain p where p: "activate_from_memory_with_telemetry_perf_and_limits example_externals example_memory_environment
      (\<lambda>warmed invocation. Inr ()) ''m'' [(''p'', example_modules)] Off default_limits [] = (Inr p, [example_invocation])"
    "act_points p = [Input]"
    using example_activated by blast
  from activation_readies_every_point [OF p(1)] show ?thesis
    using p by (auto simp: governs_def)
qed

end
