(* ===== verification/Worker_Pool.thy ===== *)
theory Worker_Pool
  imports Errors Json Transition
begin

text \<open>
  The pool of worker threads behind the deadline of the Rego dispatcher (\<open>WorkerPool\<close>,
  \<open>Worker\<close>, \<open>WorkerState\<close> and \<open>LiveCount\<close> of \<open>rego.rs\<close>).  Callers and worker threads take
  turns in any order; a step is one atomic operation: a critical section of the idle list, an
  operation on a channel, a compare-exchange, or a change of the counter.  A call is named by
  its position in the list of calls, and its job by the call it was made for.
\<close>

section \<open>Workers\<close>

datatype worker_state = WorkerRunning | WorkerAbandoned | WorkerFinished

type_synonym eval_outcome = "(runtime_error, json) result"

text \<open>
  Where the thread is: waiting for a job, running one, past its loop with its slot still to
  be dropped, past a lost compare-exchange with the counter still to be lowered, or gone
  with its channel ends closed.
\<close>

datatype thread_phase = Receiving | Running nat | Leaving | Repaying | Gone

record worker =
  wk_state :: worker_state
  wk_jobs :: "nat list"
  wk_outcomes :: "(nat \<times> eval_outcome) list"
  wk_owned :: bool
  wk_phase :: thread_phase

definition worker_spawn :: worker where
  "worker_spawn = \<lparr>wk_state = WorkerRunning, wk_jobs = [], wk_outcomes = [], wk_owned = True, wk_phase = Receiving\<rparr>"

text \<open>The compare-exchange of \<open>abandon\<close>, and whether it claimed the worker.\<close>

definition claim_abandoned :: "worker \<Rightarrow> bool \<times> worker" where
  "claim_abandoned w =
    (if wk_state w = WorkerRunning then (True, w\<lparr>wk_state := WorkerAbandoned\<rparr>) else (False, w))"

text \<open>The compare-exchange of dropping the slot; a thread that loses it has a slot to give back.\<close>

definition drop_slot :: "worker \<Rightarrow> worker" where
  "drop_slot w =
    (if wk_state w = WorkerRunning then w\<lparr>wk_state := WorkerFinished, wk_phase := Gone\<rparr>
     else w\<lparr>wk_phase := Repaying\<rparr>)"

text \<open>The end of one turn of the thread's loop: a closed outcome channel ends it.\<close>

definition finish_job :: "nat \<Rightarrow> eval_outcome \<Rightarrow> worker \<Rightarrow> worker" where
  "finish_job job outcome w =
    (if wk_owned w then w\<lparr>wk_outcomes := wk_outcomes w @ [(job, outcome)], wk_phase := Receiving\<rparr>
     else w\<lparr>wk_phase := Leaving\<rparr>)"

section \<open>The pool\<close>

datatype deadline_outcome =
    Completed "nat option" eval_outcome
  | TimedOut
  | Unavailable runtime_error

datatype call_phase =
    Started
  | NoneIdle
  | MaySpawn
  | Held nat
  | Waiting nat
  | Expired nat
  | Claimed nat
  | Received nat nat eval_outcome
  | Returned deadline_outcome

record pool =
  pl_idle :: "nat list"
  pl_poisoned :: bool
  pl_abandoned :: "64 word"
  pl_workers :: "worker list"
  pl_calls :: "call_phase list"

definition pool_new :: pool where
  "pool_new = \<lparr>pl_idle = [], pl_poisoned = False, pl_abandoned = 0, pl_workers = [], pl_calls = []\<rparr>"

definition MAX_ABANDONED_WORKERS :: nat where
  "MAX_ABANDONED_WORKERS = 32"

definition MAX_IDLE_WORKERS :: nat where
  "MAX_IDLE_WORKERS = 16"

text \<open>The idle list is a stack; its top is the head here.\<close>

definition take_idle :: "pool \<Rightarrow> nat option \<times> pool" where
  "take_idle s =
    (if pl_poisoned s then (None, s)
     else case pl_idle s of
       [] \<Rightarrow> (None, s)
     | w # ws \<Rightarrow> (Some w, s\<lparr>pl_idle := ws\<rparr>))"

definition spawn_refused :: "64 word \<Rightarrow> deadline_outcome" where
  "spawn_refused abandoned = Unavailable (PolicyInvocationFailed (nat_to_string (unat abandoned)
     @ '' Rego evaluations are still running past their timeout and cannot be interrupted, at the limit of ''
     @ nat_to_string MAX_ABANDONED_WORKERS
     @ ''; refusing to start another. Raise ACS_OPA_TIMEOUT_MS, or fix the policy that is not terminating''))"

text \<open>The check of \<open>spawn_worker\<close> on the counter it loaded.\<close>

definition check_abandoned :: "64 word \<Rightarrow> call_phase" where
  "check_abandoned abandoned =
    (if unat abandoned \<ge> MAX_ABANDONED_WORKERS then Returned (spawn_refused abandoned) else MaySpawn)"

definition set_call :: "nat \<Rightarrow> call_phase \<Rightarrow> pool \<Rightarrow> pool" where
  "set_call c phase s = s\<lparr>pl_calls := (pl_calls s)[c := phase]\<rparr>"

definition set_worker :: "nat \<Rightarrow> worker \<Rightarrow> pool \<Rightarrow> pool" where
  "set_worker w cell s = s\<lparr>pl_workers := (pl_workers s)[w := cell]\<rparr>"

text \<open>A \<open>Worker\<close> that goes out of scope closes its ends of the channels.\<close>

definition drop_worker :: "nat \<Rightarrow> pool \<Rightarrow> pool" where
  "drop_worker w s = set_worker w ((pl_workers s ! w)\<lparr>wk_owned := False\<rparr>) s"

definition release :: "nat \<Rightarrow> pool \<Rightarrow> pool" where
  "release w s =
    (if \<not> pl_poisoned s \<and> length (pl_idle s) < MAX_IDLE_WORKERS then s\<lparr>pl_idle := w # pl_idle s\<rparr>
     else drop_worker w s)"

text \<open>One step of the call \<open>c\<close> of \<open>run_with_deadline\<close>; \<open>None\<close> where it has to wait.\<close>

datatype caller_choice = Proceed | SpawnFails string | DeadlinePasses

definition run_with_deadline :: "nat \<Rightarrow> caller_choice \<Rightarrow> pool \<Rightarrow> pool option" where
  "run_with_deadline c choice s = (case pl_calls s ! c of
      Started \<Rightarrow> (case take_idle s of
          (Some w, s') \<Rightarrow> Some (set_call c (Held w) s')
        | (None, s') \<Rightarrow> Some (set_call c NoneIdle s'))
    | NoneIdle \<Rightarrow> Some (set_call c (check_abandoned (pl_abandoned s)) s)
    | MaySpawn \<Rightarrow> (case choice of
          SpawnFails err \<Rightarrow> Some (set_call c (Returned (Unavailable (PolicyInvocationFailed
            (''failed to start Rego evaluation thread: '' @ err)))) s)
        | _ \<Rightarrow> Some (set_call c (Held (length (pl_workers s))) (s\<lparr>pl_workers := pl_workers s @ [worker_spawn]\<rparr>)))
    | Held w \<Rightarrow>
        if wk_phase (pl_workers s ! w) = Gone then
          Some (set_call c (Returned (Unavailable (PolicyInvocationFailed
            ''Rego evaluation thread ended before it accepted the query''))) (drop_worker w s))
        else Some (set_call c (Waiting w)
          (set_worker w ((pl_workers s ! w)\<lparr>wk_jobs := wk_jobs (pl_workers s ! w) @ [c]\<rparr>) s))
    | Waiting w \<Rightarrow> (case wk_outcomes (pl_workers s ! w) of
          (job, outcome) # rest \<Rightarrow>
            Some (set_call c (Received w job outcome)
              (set_worker w ((pl_workers s ! w)\<lparr>wk_outcomes := rest\<rparr>) s))
        | [] \<Rightarrow>
            if wk_phase (pl_workers s ! w) = Gone then
              Some (set_call c (Returned (Completed None (Inl (PolicyInvocationFailed
                ''Rego evaluation thread ended without producing a verdict'')))) (drop_worker w s))
            else if choice = DeadlinePasses then Some (set_call c (Expired w) s)
            else None)
    | Received w job outcome \<Rightarrow> Some (set_call c (Returned (Completed (Some job) outcome)) (release w s))
    | Expired w \<Rightarrow>
        (case claim_abandoned (pl_workers s ! w) of
           (True, cell) \<Rightarrow> Some (set_call c (Claimed w) (set_worker w cell s))
         | (False, cell) \<Rightarrow> Some (set_call c (Returned TimedOut) (drop_worker w s)))
    | Claimed w \<Rightarrow>
        Some (set_call c (Returned TimedOut) (drop_worker w (s\<lparr>pl_abandoned := pl_abandoned s + 1\<rparr>)))
    | Returned _ \<Rightarrow> None)"

text \<open>
  One step of the thread of worker \<open>w\<close>.  The channel of a thread that ends closes with the last
  step of its slot.
\<close>

datatype thread_choice = JobReturns eval_outcome | JobPanics

definition thread_cell :: "thread_choice \<Rightarrow> worker \<Rightarrow> worker option" where
  "thread_cell choice cell = (case wk_phase cell of
       Receiving \<Rightarrow> (case wk_jobs cell of
           job # rest \<Rightarrow> Some (cell\<lparr>wk_jobs := rest, wk_phase := Running job\<rparr>)
         | [] \<Rightarrow> if wk_owned cell then None else Some (cell\<lparr>wk_phase := Leaving\<rparr>))
     | Running job \<Rightarrow> (case choice of
           JobReturns outcome \<Rightarrow> Some (finish_job job outcome cell)
         | JobPanics \<Rightarrow> Some (cell\<lparr>wk_phase := Leaving\<rparr>))
     | Leaving \<Rightarrow> Some (drop_slot cell)
     | Repaying \<Rightarrow> Some (cell\<lparr>wk_phase := Gone\<rparr>)
     | Gone \<Rightarrow> None)"

definition worker_thread :: "nat \<Rightarrow> thread_choice \<Rightarrow> pool \<Rightarrow> pool option" where
  "worker_thread w choice s =
    (let cell = pl_workers s ! w;
         s' = (if wk_phase cell = Repaying then s\<lparr>pl_abandoned := pl_abandoned s - 1\<rparr> else s) in
     map_option (\<lambda>next. set_worker w next s') (thread_cell choice cell))"

datatype pool_label =
    Arrive
  | Caller nat caller_choice
  | Thread nat thread_choice
  | Poison

inductive pool_step :: "pool \<Rightarrow> pool_label \<Rightarrow> pool \<Rightarrow> bool" where
  arrive: "pool_step s Arrive (s\<lparr>pl_calls := pl_calls s @ [Started]\<rparr>)"
| caller: "c < length (pl_calls s) \<Longrightarrow> run_with_deadline c choice s = Some t \<Longrightarrow> pool_step s (Caller c choice) t"
| thread: "w < length (pl_workers s) \<Longrightarrow> worker_thread w choice s = Some t \<Longrightarrow> pool_step s (Thread w choice) t"
| poison: "pool_step s Poison (s\<lparr>pl_poisoned := True\<rparr>)"

end
