(* ===== verification/Rego.thy ===== *)
theory Rego
  imports Worker_Pool Unix_Paths Run_Monad "HOL-Library.Option_ord" "HOL-Library.Product_Lexorder"
begin

text \<open>
  The in-process Rego dispatcher (\<open>rego.rs\<close>): loading a bundle into an engine, the cache of
  loaded engines, warming and evaluation.  The \<open>regorus\<close> crate is the record \<open>regorus\<close> over a
  type of engines and a type of values; the file system is the record \<open>rego_files\<close>, what it
  holds while one bundle is loaded.  What the clock and the worker pool decide is an
  argument of each call; the pool itself is the theory \<open>Worker_Pool\<close>.
\<close>

section \<open>The crate and the files\<close>

record ('e, 'v) regorus =
  rg_new :: 'e
  rg_set_strict_builtin_errors :: "bool \<Rightarrow> 'e \<Rightarrow> 'e"
  rg_set_rego_v0 :: "bool \<Rightarrow> 'e \<Rightarrow> 'e"
  rg_set_gather_prints :: "bool \<Rightarrow> 'e \<Rightarrow> 'e"
  rg_add_failing_extension :: "string \<Rightarrow> nat \<Rightarrow> string \<Rightarrow> 'e \<Rightarrow> (string, 'e) result"
  rg_add_policy :: "string \<Rightarrow> string \<Rightarrow> 'e \<Rightarrow> (string, 'e) result"
  rg_add_data :: "'v \<Rightarrow> 'e \<Rightarrow> (string, 'e) result"
  rg_from_json_str :: "string \<Rightarrow> (string, 'v) result"
  rg_from_yaml_str :: "string \<Rightarrow> (string, 'v) result"
  rg_to_value :: "'v \<Rightarrow> (string, json) result"
  rg_show :: "json \<Rightarrow> string"
  rg_is_undefined :: "'v \<Rightarrow> bool"
  rg_set_timer :: "nat \<Rightarrow> nat \<Rightarrow> 'e \<Rightarrow> 'e"
  rg_set_input_json :: "string \<Rightarrow> 'e \<Rightarrow> (string, 'e) result"
  rg_eval_rule :: "string \<Rightarrow> 'e \<Rightarrow> (string, 'v) result \<times> 'e"
  rg_eval_query :: "string \<Rightarrow> 'e \<Rightarrow> (string, 'v list list) result \<times> 'e"

text \<open>A listing is an error, or per entry an error or the name of the entry.\<close>

record rego_files =
  rf_metadata_is_dir :: "string \<Rightarrow> (string, bool) result"
  rf_is_dir :: "string \<Rightarrow> bool"
  rf_read_dir :: "string \<Rightarrow> (string, (string, string) result list) result"
  rf_read_to_string :: "string \<Rightarrow> (string, string) result"

section \<open>Loading\<close>

datatype data_scope = Bundle | DataPath

definition path_file_stem :: "string \<Rightarrow> string option" where
  "path_file_stem p = map_option (\<lambda>name. case path_extension p of
      None \<Rightarrow> name
    | Some ext \<Rightarrow> take (length name - length ext - 1) name) (path_file_name p)"

definition accepts_data_file :: "data_scope \<Rightarrow> string \<Rightarrow> bool" where
  "accepts_data_file scope path = (case scope of
      Bundle \<Rightarrow> path_file_stem path = Some ''data''
    | DataPath \<Rightarrow> True)"

definition is_rego_file :: "string \<Rightarrow> bool" where
  "is_rego_file path \<longleftrightarrow> path_extension path = Some ''rego''"

definition is_data_file :: "string \<Rightarrow> bool" where
  "is_data_file path = (case path_extension path of
      Some ext \<Rightarrow> ext \<in> {''json'', ''yaml'', ''yml''}
    | None \<Rightarrow> False)"

definition ends_with :: "string \<Rightarrow> string \<Rightarrow> bool" where
  "ends_with s p \<longleftrightarrow> length p \<le> length s \<and> drop (length s - length p) s = p"

definition is_packaged_bundle :: "string \<Rightarrow> bool" where
  "is_packaged_bundle path =
    (let name = (case path_file_name path of Some n \<Rightarrow> map to_ascii_lowercase n | None \<Rightarrow> []) in
     ends_with name ''.tar.gz'' \<or> ends_with name ''.tgz'' \<or> ends_with name ''.tar'')"

text \<open>\<open>Path::strip_prefix\<close> by components, here of the parent directory.\<close>

definition data_mount_path :: "string \<Rightarrow> string \<Rightarrow> string list" where
  "data_mount_path base path = (case path_parent path of
      None \<Rightarrow> []
    | Some parent \<Rightarrow>
        if path_starts_with parent base then
          filter (\<lambda>c. c \<notin> {''/'', ''.'', ''..''}) (drop (length (path_components base)) (path_components parent))
        else [])"

definition mounted_json :: "string list \<Rightarrow> json \<Rightarrow> json" where
  "mounted_json mount v = fold (\<lambda>key j. JObject [(key, j)]) (rev mount) v"

definition mount_data :: "('e, 'v) regorus \<Rightarrow> 'v \<Rightarrow> string list \<Rightarrow> (runtime_error, 'v) result" where
  "mount_data g v mount =
    (if mount = [] then Inr v
     else
       rbind (map_err (\<lambda>err. PolicyInvocationFailed (''failed to prepare Rego data for mounting: '' @ err))
         (rg_to_value g v)) (\<lambda>json.
       map_err (\<lambda>err. PolicyInvocationFailed (''failed to mount Rego data: '' @ err))
         (rg_from_json_str g (rg_show g (mounted_json mount json)))))"

definition add_data :: "('e, 'v) regorus \<Rightarrow> 'v \<Rightarrow> string \<Rightarrow> 'e \<Rightarrow> (runtime_error, 'e) result" where
  "add_data g v display engine = map_err (\<lambda>err. PolicyInvocationFailed
     (''failed to load Rego data file '' @ quoted display @ '': '' @ err)) (rg_add_data g v engine)"

definition load_data_text ::
  "('e, 'v) regorus \<Rightarrow> (string, 'v) result \<Rightarrow> string \<Rightarrow> string list \<Rightarrow> 'e \<Rightarrow> (runtime_error, 'e) result"
where
  "load_data_text g parsed path mount engine =
    rbind (map_err (\<lambda>err. PolicyInvocationFailed
      (''failed to parse Rego data file '' @ quoted path @ '': '' @ err)) parsed) (\<lambda>v.
    rbind (mount_data g v mount) (\<lambda>mounted. add_data g mounted path engine))"

definition load_file ::
  "('e, 'v) regorus \<Rightarrow> rego_files \<Rightarrow> string \<Rightarrow> string \<Rightarrow> string list \<Rightarrow> 'e \<Rightarrow> (runtime_error, 'e) result"
where
  "load_file g files path label mount engine =
    rbind (map_err (\<lambda>err. PolicyInvocationFailed
      (''failed to read Rego '' @ label @ '' file '' @ quoted path @ '': '' @ err))
      (rf_read_to_string files path)) (\<lambda>contents.
    let ext = path_extension path in
    if ext = Some ''rego'' then
      map_err (\<lambda>err. PolicyInvocationFailed (''failed to load Rego policy '' @ quoted path @ '': '' @ err))
        (rg_add_policy g path contents engine)
    else if ext = Some ''json'' then load_data_text g (rg_from_json_str g contents) path mount engine
    else if ext = Some ''yaml'' \<or> ext = Some ''yml'' then
      load_data_text g (rg_from_yaml_str g contents) path mount engine
    else Inl (PolicyInvocationFailed (''Rego '' @ label @ '' file '' @ quoted path
      @ '' must be a .rego, .json, .yaml, or .yml file'')))"

definition MAX_BUNDLE_DEPTH :: nat where
  "MAX_BUNDLE_DEPTH = 32"

definition list_error :: "string \<Rightarrow> string \<Rightarrow> string \<Rightarrow> runtime_error" where
  "list_error label dir err = PolicyInvocationFailed
    (''failed to list Rego '' @ label @ '' directory '' @ quoted dir @ '': '' @ err)"

definition depth_error :: "string \<Rightarrow> string \<Rightarrow> runtime_error" where
  "depth_error label dir = PolicyInvocationFailed (''Rego '' @ label @ '' '' @ quoted dir
     @ '' nests deeper than '' @ nat_to_string MAX_BUNDLE_DEPTH @ '' directories'')"

text \<open>The entries of a directory, sorted; within one directory the order of paths is that of names.\<close>

definition sorted_entries :: "rego_files \<Rightarrow> string \<Rightarrow> string \<Rightarrow> (runtime_error, string list) result" where
  "sorted_entries files label dir =
    rbind (map_err (list_error label dir) (rf_read_dir files dir)) (\<lambda>listing.
    rbind (try_map (map_err (list_error label dir)) listing) (\<lambda>names.
    Inr (sort (map (path_join dir) names))))"

text \<open>What the loop does with an entry that is not a directory; the engine with the count of
  files it was given.\<close>

definition load_entry ::
  "('e, 'v) regorus \<Rightarrow> rego_files \<Rightarrow> string \<Rightarrow> string \<Rightarrow> data_scope \<Rightarrow> string \<Rightarrow> 'e \<times> nat \<Rightarrow> (runtime_error, 'e \<times> nat) result"
where
  "load_entry g files base label scope path st =
    (if is_rego_file path then
       rbind (load_file g files path label [] (fst st)) (\<lambda>engine. Inr (engine, snd st + 1))
     else if is_data_file path \<and> accepts_data_file scope path then
       rbind (load_file g files path label (data_mount_path base path) (fst st)) (\<lambda>engine. Inr (engine, snd st + 1))
     else Inr st)"

text \<open>
  A directory past the limit is refused by the call for it whatever else holds; the loop says
  so itself where the limit is already passed, which makes the recursion end for every depth.
\<close>

function load_directory ::
  "('e, 'v) regorus \<Rightarrow> rego_files \<Rightarrow> string \<Rightarrow> string \<Rightarrow> data_scope \<Rightarrow> string \<Rightarrow> nat \<Rightarrow> 'e \<times> nat
    \<Rightarrow> (runtime_error, 'e \<times> nat) result"
  and load_all ::
  "('e, 'v) regorus \<Rightarrow> rego_files \<Rightarrow> string \<Rightarrow> string \<Rightarrow> data_scope \<Rightarrow> string list \<Rightarrow> nat \<Rightarrow> 'e \<times> nat
    \<Rightarrow> (runtime_error, 'e \<times> nat) result"
where
  "load_directory g files base label scope dir depth st =
    (if depth > MAX_BUNDLE_DEPTH then Inl (depth_error label dir)
     else rbind (sorted_entries files label dir) (\<lambda>paths. load_all g files base label scope paths depth st))"
| "load_all g files base label scope [] depth st = Inr st"
| "load_all g files base label scope (path # paths) depth st =
    rbind (if rf_is_dir files path then
        (if depth > MAX_BUNDLE_DEPTH then Inl (depth_error label path)
         else load_directory g files base label scope path (depth + 1) st)
      else load_entry g files base label scope path st) (\<lambda>st.
    load_all g files base label scope paths depth st)"
  by pat_completeness auto

termination
  by (relation "measures [case_sum
        (\<lambda>(g, files, base, label, scope, dir, depth, st). 2 * (Suc (Suc MAX_BUNDLE_DEPTH) - depth) + 1)
        (\<lambda>(g, files, base, label, scope, paths, depth, st). 2 * (Suc (Suc MAX_BUNDLE_DEPTH) - depth)),
      case_sum (\<lambda>(g, files, base, label, scope, dir, depth, st). 0)
        (\<lambda>(g, files, base, label, scope, paths, depth, st). length paths)]") auto

definition load_path ::
  "('e, 'v) regorus \<Rightarrow> rego_files \<Rightarrow> string \<Rightarrow> string \<Rightarrow> data_scope \<Rightarrow> 'e \<Rightarrow> (runtime_error, 'e) result"
where
  "load_path g files path label scope engine =
    rbind (map_err (\<lambda>err.
        if is_packaged_bundle path then PolicyInvocationFailed (''Rego '' @ label @ '' '' @ quoted path
          @ '' looks like a packaged OPA bundle archive; the in-process Rego ''
          @ ''dispatcher reads a directory or a single .rego/.json/.yaml file. Unpack the ''
          @ ''bundle, or register the opt-in OpaPolicyDispatcher instead'')
        else PolicyInvocationFailed (''failed to read Rego '' @ label @ '' '' @ quoted path @ '': '' @ err))
      (rf_metadata_is_dir files path)) (\<lambda>is_dir.
    if is_dir then
      rbind (load_directory g files path label scope path 0 (engine, 0)) (\<lambda>(engine, loaded).
      if loaded = 0 then Inl (PolicyInvocationFailed (''Rego '' @ label @ '' '' @ quoted path
        @ '' contains no .rego, .json, .yaml, or .yml files''))
      else Inr engine)
    else if is_packaged_bundle path then Inl (PolicyInvocationFailed (''Rego '' @ label @ '' '' @ quoted path
      @ '' is a packaged OPA bundle archive; the in-process Rego dispatcher ''
      @ ''reads a directory or a single .rego/.json/.yaml file. Unpack the bundle, or register ''
      @ ''the opt-in OpaPolicyDispatcher instead''))
    else load_file g files path label [] engine)"

definition document_display :: "nat \<Rightarrow> string list \<Rightarrow> string" where
  "document_display index mount = ''in-memory data document '' @ nat_to_string index
    @ (if mount = [] then '' at the data root'' else '' at data.'' @ join ''.'' mount)"

definition load_in_memory_bundle :: "('e, 'v) regorus \<Rightarrow> in_memory_bundle \<Rightarrow> 'e \<Rightarrow> (runtime_error, 'e) result" where
  "load_in_memory_bundle g bundle engine =
    rbind (try_fold (\<lambda>(name, source) engine.
        map_err (\<lambda>err. PolicyInvocationFailed (''failed to load in-memory Rego policy '' @ quoted name @ '': '' @ err))
          (rg_add_policy g name source engine)) (ib_modules bundle) engine) (\<lambda>engine.
    try_fold (\<lambda>(index, entry) engine.
        let display = document_display index (md_mount entry) in
        rbind (map_err (\<lambda>err. PolicyInvocationFailed (''failed to parse '' @ display @ '': '' @ err))
          (rg_from_json_str g (rg_show g (md_document entry)))) (\<lambda>v.
        rbind (mount_data g v (md_mount entry)) (\<lambda>mounted. add_data g mounted display engine)))
      (enumerate 0 (ib_data bundle)) engine)"

definition HTTP_SEND_MESSAGE :: string where
  "HTTP_SEND_MESSAGE = ''http.send is not available: the in-process Rego dispatcher evaluates policy ''
     @ ''offline, and regorus leaves this builtin permanently undefined, which would ''
     @ ''silently skip any rule gated on it''"

definition disable_builtin :: "('e, 'v) regorus \<Rightarrow> string \<Rightarrow> nat \<Rightarrow> string \<Rightarrow> 'e \<Rightarrow> (runtime_error, 'e) result" where
  "disable_builtin g name arity message engine = map_err (\<lambda>err. PolicyInvocationFailed
     (''failed to disable the '' @ name @ '' builtin: '' @ err)) (rg_add_failing_extension g name arity message engine)"

definition shadow_http_send :: "('e, 'v) regorus \<Rightarrow> 'e \<Rightarrow> (runtime_error, 'e) result" where
  "shadow_http_send g engine = disable_builtin g ''http.send'' 1 HTTP_SEND_MESSAGE engine"

definition NONDETERMINISTIC_BUILTINS :: "(string \<times> nat) list" where
  "NONDETERMINISTIC_BUILTINS = [(''time.now_ns'', 0), (''rand.intn'', 2), (''uuid.rfc4122'', 1), (''opa.runtime'', 0)]"

definition nondeterministic_message :: "string \<Rightarrow> string" where
  "nondeterministic_message name = name @ '' is not available: the in-process Rego dispatcher evaluates ''
     @ ''policy deterministically, and a decision that depends on the clock, ''
     @ ''randomness or the runtime cannot be replayed from its input''"

definition shadow_nondeterministic_builtins :: "('e, 'v) regorus \<Rightarrow> 'e \<Rightarrow> (runtime_error, 'e) result" where
  "shadow_nondeterministic_builtins g engine =
    try_fold (\<lambda>(name, arity). disable_builtin g name arity (nondeterministic_message name))
      NONDETERMINISTIC_BUILTINS engine"

record rego_key =
  rk_bundle :: "string option"
  rk_inline_bundle :: "in_memory_bundle option"
  rk_data_paths :: "string list"
  rk_strict_builtin_errors :: bool
  rk_rego_v0 :: bool

definition build_engine :: "('e, 'v) regorus \<Rightarrow> rego_files \<Rightarrow> rego_key \<Rightarrow> (runtime_error, 'e) result" where
  "build_engine g files key =
    (let engine = rg_set_gather_prints g True (rg_set_rego_v0 g (rk_rego_v0 key)
           (rg_set_strict_builtin_errors g (rk_strict_builtin_errors key) (rg_new g))) in
     rbind (shadow_http_send g engine) (\<lambda>engine.
     rbind (shadow_nondeterministic_builtins g engine) (\<lambda>engine.
     rbind (case rk_inline_bundle key of
         Some bundle \<Rightarrow> load_in_memory_bundle g bundle engine | None \<Rightarrow> Inr engine) (\<lambda>engine.
     rbind (case rk_bundle key of
         Some bundle \<Rightarrow> load_path g files bundle ''bundle'' Bundle engine | None \<Rightarrow> Inr engine) (\<lambda>engine.
     try_fold (\<lambda>data_path. load_path g files data_path ''data path'' DataPath) (rk_data_paths key) engine)))))"

section \<open>The runner and its cache\<close>

record rego_runner =
  rr_data_paths :: "string list"
  rr_eval_timeout :: nat
  rr_strict_builtin_errors :: bool
  rr_rego_v0 :: bool
  rr_hard_deadline :: bool
  rr_policy_cache :: bool

definition rego_runner_new :: rego_runner where
  "rego_runner_new = \<lparr>rr_data_paths = [], rr_eval_timeout = 5000, rr_strict_builtin_errors = False,
     rr_rego_v0 = False, rr_hard_deadline = True, rr_policy_cache = False\<rparr>"

definition rego_with_eval_timeout :: "nat \<Rightarrow> rego_runner \<Rightarrow> rego_runner" where
  "rego_with_eval_timeout timeout runner = runner\<lparr>rr_eval_timeout := timeout\<rparr>"

definition rego_with_data_path :: "string \<Rightarrow> rego_runner \<Rightarrow> rego_runner" where
  "rego_with_data_path path runner = runner\<lparr>rr_data_paths := rr_data_paths runner @ [path]\<rparr>"

definition rego_with_data_paths :: "string list \<Rightarrow> rego_runner \<Rightarrow> rego_runner" where
  "rego_with_data_paths paths runner = runner\<lparr>rr_data_paths := rr_data_paths runner @ paths\<rparr>"

definition with_strict_builtin_errors :: "bool \<Rightarrow> rego_runner \<Rightarrow> rego_runner" where
  "with_strict_builtin_errors strict runner = runner\<lparr>rr_strict_builtin_errors := strict\<rparr>"

definition with_rego_v0 :: "bool \<Rightarrow> rego_runner \<Rightarrow> rego_runner" where
  "with_rego_v0 rego_v0 runner = runner\<lparr>rr_rego_v0 := rego_v0\<rparr>"

definition with_hard_deadline :: "bool \<Rightarrow> rego_runner \<Rightarrow> rego_runner" where
  "with_hard_deadline hard_deadline runner = runner\<lparr>rr_hard_deadline := hard_deadline\<rparr>"

definition eval_timeout_from_environment :: "(string \<Rightarrow> string option) \<Rightarrow> nat option" where
  "eval_timeout_from_environment env = Option.bind (Option.bind (env ''ACS_OPA_TIMEOUT_MS'') parse_u64)
     (\<lambda>millis. if millis > 0 then Some millis else None)"

definition rego_v0_from_environment :: "(string \<Rightarrow> string option) \<Rightarrow> bool" where
  "rego_v0_from_environment env \<longleftrightarrow> env ''ACS_REGO_V0'' \<in> {Some ''1'', Some ''true'', Some ''TRUE''}"

definition rego_runner_from_environment :: "(string \<Rightarrow> string option) \<Rightarrow> rego_runner" where
  "rego_runner_from_environment env =
    (let runner = rego_runner_new;
         runner = (case eval_timeout_from_environment env of
             Some timeout \<Rightarrow> rego_with_eval_timeout timeout runner | None \<Rightarrow> runner) in
     if rego_v0_from_environment env then with_rego_v0 True runner else runner)"

definition invocation_bundle_url :: "externals \<Rightarrow> rego_invocation \<Rightarrow> (runtime_error, pinned_source option) result" where
  "invocation_bundle_url x i = map_err (\<lambda>err. PolicyInvocationFailed (detail err))
     (rego_bundle_url x (ri_bundle i) (ri_inline_bundle i \<noteq> None) (ri_adapter_config i))"

definition reject_remote_bundle :: "externals \<Rightarrow> rego_invocation \<Rightarrow> (runtime_error, unit) result" where
  "reject_remote_bundle x i =
    rbind (invocation_bundle_url x i) (\<lambda>remote.
    if remote \<noteq> None then Inl (PolicyInvocationFailed (''Regorus does not support bundle_url archives; ''
      @ ''use the opt-in OPA dispatcher or supply a local directory or in-memory Rego modules''))
    else Inr ())"

definition rego_cache_key :: "rego_runner \<Rightarrow> rego_invocation \<Rightarrow> (runtime_error, rego_key) result" where
  "rego_cache_key runner i =
    rbind (rego_adapter_data_paths (ri_adapter_config i)) (\<lambda>paths.
    Inr \<lparr>rk_bundle = ri_bundle i, rk_inline_bundle = ri_inline_bundle i,
      rk_data_paths = rr_data_paths runner @ paths,
      rk_strict_builtin_errors = rr_strict_builtin_errors runner, rk_rego_v0 = rr_rego_v0 runner\<rparr>)"

text \<open>The order of keys; an in-memory bundle counts as its digest.\<close>

type_synonym rego_ident = "string option \<times> string option \<times> string list \<times> bool \<times> bool"

definition rego_ident :: "rego_key \<Rightarrow> rego_ident" where
  "rego_ident key = (rk_bundle key, map_option ib_digest (rk_inline_bundle key), rk_data_paths key,
     rk_strict_builtin_errors key, rk_rego_v0 key)"

record 'e rego_cache =
  rc_map :: "(rego_ident \<times> 'e) list"
  rc_poisoned :: bool

definition REGO_MAX_CACHED_POLICY_SETS :: nat where
  "REGO_MAX_CACHED_POLICY_SETS = 64"

text \<open>Turning the cache on or off gives the runner a new one.\<close>

definition with_policy_cache :: "bool \<Rightarrow> rego_runner \<Rightarrow> rego_runner \<times> 'e rego_cache" where
  "with_policy_cache enabled runner = (runner\<lparr>rr_policy_cache := enabled\<rparr>, \<lparr>rc_map = [], rc_poisoned = False\<rparr>)"

definition clear_policy_cache :: "rego_runner \<Rightarrow> 'e rego_cache \<Rightarrow> 'e rego_cache" where
  "clear_policy_cache runner st =
    (if rr_policy_cache runner \<and> \<not> rc_poisoned st then st\<lparr>rc_map := []\<rparr> else st)"

definition prepared_engine ::
  "('e, 'v) regorus \<Rightarrow> rego_files \<Rightarrow> rego_runner \<Rightarrow> rego_key \<Rightarrow> ('e rego_cache, runtime_error, 'e) stateful"
where
  "prepared_engine g files runner key st =
    (if \<not> rr_policy_cache runner then (build_engine g files key, st)
     else case (if rc_poisoned st then None else map_of (rc_map st) (rego_ident key)) of
       Some engine \<Rightarrow> (Inr engine, st)
     | None \<Rightarrow> (case build_engine g files key of
           Inl e \<Rightarrow> (Inl e, st)
         | Inr engine \<Rightarrow> (Inr engine,
             if \<not> rc_poisoned st \<and> length (rc_map st) < REGO_MAX_CACHED_POLICY_SETS
             then st\<lparr>rc_map := bt_insert (rego_ident key) engine (rc_map st)\<rparr> else st)))"

definition store_warmed :: "rego_runner \<Rightarrow> rego_key \<Rightarrow> 'e \<Rightarrow> 'e rego_cache \<Rightarrow> 'e rego_cache" where
  "store_warmed runner key engine st =
    (if rr_policy_cache runner \<and> \<not> rc_poisoned st
        \<and> (length (rc_map st) < REGO_MAX_CACHED_POLICY_SETS \<or> has_key (rc_map st) (rego_ident key))
     then st\<lparr>rc_map := bt_insert (rego_ident key) engine (rc_map st)\<rparr> else st)"

section \<open>Evaluation\<close>

definition TIMER_CHECK_INTERVAL :: nat where
  "TIMER_CHECK_INTERVAL = 32"

definition eval_error :: "string \<Rightarrow> runtime_error" where
  "eval_error err =
    (if contains_str err ''execution exceeded time limit''
     then PolicyInvocationFailed (''Rego eval exceeded timeout: '' @ err)
     else PolicyInvocationFailed (''Rego eval failed: '' @ err))"

definition may_retry_after :: "nat \<Rightarrow> nat \<Rightarrow> bool" where
  "may_retry_after elapsed timeout \<longleftrightarrow> elapsed < timeout"

definition value_to_json :: "('e, 'v) regorus \<Rightarrow> 'v \<Rightarrow> (runtime_error, json) result" where
  "value_to_json g v = map_err (\<lambda>err. PolicyInvocationFailed
     (''failed to convert Rego query result to JSON: '' @ err)) (rg_to_value g v)"

definition rule_value :: "('e, 'v) regorus \<Rightarrow> 'v \<Rightarrow> (runtime_error, json) result" where
  "rule_value g v =
    (if rg_is_undefined g v then Inl (PolicyInvocationFailed ''Rego query returned no result'')
     else value_to_json g v)"

definition single_expression_value :: "('e, 'v) regorus \<Rightarrow> 'v list list \<Rightarrow> (runtime_error, json) result" where
  "single_expression_value g results = (case results of
      [] \<Rightarrow> Inl (PolicyInvocationFailed ''Rego query returned no result'')
    | [expressions] \<Rightarrow> (case expressions of
          [expression] \<Rightarrow> value_to_json g expression
        | [] \<Rightarrow> Inl (PolicyInvocationFailed ''Rego query returned a result with no expression value'')
        | _ \<Rightarrow> Inl (PolicyInvocationFailed (''Rego query returned multiple expression values; ''
            @ ''policy query must resolve to one verdict'')))
    | _ \<Rightarrow> Inl (PolicyInvocationFailed (''Rego query returned multiple results; ''
        @ ''policy query must resolve to one verdict'')))"

text \<open>The work of one evaluation on an engine of its own; \<open>elapsed\<close> is what the clock says of
  the attempt to evaluate the query as a rule.\<close>

definition evaluate_engine ::
  "('e, 'v) regorus \<Rightarrow> nat \<Rightarrow> nat \<Rightarrow> string \<Rightarrow> string \<Rightarrow> 'e \<Rightarrow> (runtime_error, json) result"
where
  "evaluate_engine g timeout elapsed query input engine =
    rbind (map_err (\<lambda>err. PolicyInvocationFailed (''failed to set Rego policy input: '' @ err))
      (rg_set_input_json g input (rg_set_timer g timeout TIMER_CHECK_INTERVAL engine))) (\<lambda>engine.
    let by_query = (\<lambda>engine. rbind (map_err eval_error (fst (rg_eval_query g query engine))) (single_expression_value g)) in
    if is_rule_path query then
      (case rg_eval_rule g query engine of
         (Inr v, _) \<Rightarrow> rule_value g v
       | (Inl err, engine) \<Rightarrow>
           if \<not> may_retry_after elapsed timeout then Inl (eval_error err) else by_query engine)
    else by_query engine)"

text \<open>What the deadline makes of a call: in time, past the deadline, ended by a panic, or no
  worker to run it.  Work that is abandoned or panics has got so far with the cache.\<close>

datatype progress = Nothing_Loaded | Engine_Loaded | Engine_Warmed

datatype deadline = InTime | Late progress | Died progress | NoWorker runtime_error

definition no_verdict :: runtime_error where
  "no_verdict = PolicyInvocationFailed ''Rego evaluation thread ended without producing a verdict''"

definition evaluate_work ::
  "('e, 'v) regorus \<Rightarrow> rego_files \<Rightarrow> rego_runner \<Rightarrow> nat \<Rightarrow> rego_key \<Rightarrow> rego_invocation
    \<Rightarrow> ('e rego_cache, runtime_error, json) stateful"
where
  "evaluate_work g files runner elapsed key i =
    run_bind (prepared_engine g files runner key) (\<lambda>engine.
    run_lift (evaluate_engine g (rr_eval_timeout runner) elapsed (ri_query i) (ri_canonical_input i) engine))"

definition runner_evaluate ::
  "externals \<Rightarrow> ('e, 'v) regorus \<Rightarrow> rego_files \<Rightarrow> rego_runner \<Rightarrow> nat \<Rightarrow> deadline \<Rightarrow> rego_invocation
    \<Rightarrow> ('e rego_cache, runtime_error, json) stateful"
where
  "runner_evaluate x g files runner elapsed dl i =
    run_bind (run_lift (reject_remote_bundle x i)) (\<lambda>_.
    run_bind (run_lift (rego_cache_key runner i)) (\<lambda>key st.
    if \<not> rr_hard_deadline runner then evaluate_work g files runner elapsed key i st
    else case dl of
      InTime \<Rightarrow> evaluate_work g files runner elapsed key i st
    | Late reached \<Rightarrow> (Inl (PolicyInvocationFailed (''Rego eval exceeded timeout of ''
        @ nat_to_string (rr_eval_timeout runner) @ '' ms'')),
        if reached = Nothing_Loaded then st else snd (prepared_engine g files runner key st))
    | Died reached \<Rightarrow> (Inl no_verdict,
        if reached = Nothing_Loaded then st else snd (prepared_engine g files runner key st))
    | NoWorker e \<Rightarrow> (Inl e, st)))"

definition warm_engine :: "('e, 'v) regorus \<Rightarrow> nat \<Rightarrow> string \<Rightarrow> 'e \<Rightarrow> (runtime_error, 'e) result" where
  "warm_engine g timeout query engine =
    rbind (map_err (\<lambda>err. PolicyInvocationFailed (''failed to set Rego warm-up input: '' @ err))
      (rg_set_input_json g ''{}'' (rg_set_timer g timeout TIMER_CHECK_INTERVAL engine))) (\<lambda>engine.
    Inr (snd (rg_eval_query g query engine)))"

definition warm_work ::
  "('e, 'v) regorus \<Rightarrow> rego_files \<Rightarrow> rego_runner \<Rightarrow> rego_key \<Rightarrow> rego_invocation
    \<Rightarrow> ('e rego_cache, runtime_error, unit) stateful"
where
  "warm_work g files runner key i =
    run_bind (prepared_engine g files runner key) (\<lambda>engine.
    run_bind (run_lift (warm_engine g (rr_eval_timeout runner) (ri_query i) engine)) (\<lambda>warmed.
    run_effect (store_warmed runner key warmed)))"

definition warm_progress ::
  "('e, 'v) regorus \<Rightarrow> rego_files \<Rightarrow> rego_runner \<Rightarrow> rego_key \<Rightarrow> rego_invocation \<Rightarrow> progress
    \<Rightarrow> 'e rego_cache \<Rightarrow> 'e rego_cache"
where
  "warm_progress g files runner key i reached st = (case reached of
      Nothing_Loaded \<Rightarrow> st
    | Engine_Loaded \<Rightarrow> snd (prepared_engine g files runner key st)
    | Engine_Warmed \<Rightarrow> snd (warm_work g files runner key i st))"

definition runner_warm ::
  "externals \<Rightarrow> ('e, 'v) regorus \<Rightarrow> rego_files \<Rightarrow> rego_runner \<Rightarrow> deadline \<Rightarrow> rego_invocation
    \<Rightarrow> ('e rego_cache, runtime_error, unit) stateful"
where
  "runner_warm x g files runner dl i =
    run_bind (run_lift (reject_remote_bundle x i)) (\<lambda>_.
    if \<not> rr_policy_cache runner then run_lift (Inr ())
    else run_bind (run_lift (rego_cache_key runner i)) (\<lambda>key st.
      if \<not> rr_hard_deadline runner then warm_work g files runner key i st
      else case dl of
        InTime \<Rightarrow> warm_work g files runner key i st
      | Late reached \<Rightarrow> (Inr (), warm_progress g files runner key i reached st)
      | Died reached \<Rightarrow> (Inl no_verdict, warm_progress g files runner key i reached st)
      | NoWorker e \<Rightarrow> (Inl e, st)))"

definition regorus_evaluate ::
  "externals \<Rightarrow> ('e, 'v) regorus \<Rightarrow> rego_files \<Rightarrow> rego_runner \<Rightarrow> nat \<Rightarrow> deadline \<Rightarrow> prepared_invocation
    \<Rightarrow> ('e rego_cache, runtime_error, json) stateful"
where
  "regorus_evaluate x g files runner elapsed dl invocation = (case invocation of
      RegoInvocation i \<Rightarrow> runner_evaluate x g files runner elapsed dl i
    | _ \<Rightarrow> run_lift (Inl (PolicyInvocationFailed (''Rego policy dispatcher only supports Rego invocations; received ''
        @ invocation_engine_type invocation @ '' invocation''))))"

definition regorus_warm ::
  "externals \<Rightarrow> ('e, 'v) regorus \<Rightarrow> rego_files \<Rightarrow> rego_runner \<Rightarrow> deadline \<Rightarrow> prepared_invocation
    \<Rightarrow> ('e rego_cache, runtime_error, unit) stateful"
where
  "regorus_warm x g files runner dl invocation = (case invocation of
      RegoInvocation i \<Rightarrow> runner_warm x g files runner dl i
    | _ \<Rightarrow> run_lift (Inr ()))"

text \<open>Threads past their deadline, of the evaluation pool and of the warming pool.\<close>

definition abandoned_evaluations :: "pool \<Rightarrow> pool \<Rightarrow> 64 word" where
  "abandoned_evaluations workers warm_workers = pl_abandoned workers + pl_abandoned warm_workers"

end
