(* ===== verification/Activation_Rego_Laws.thy ===== *)
theory Activation_Rego_Laws
  imports Activation Rego
begin

text \<open>
  Activation from memory together with the in-process Rego dispatcher: which files the decisions
  of an activated policy may still read.
\<close>

section \<open>A manifest that hides a relative path\<close>








section \<open>A host with one file\<close>








end
