(* ===== verification/Annotator_Http.thy ===== *)
theory Annotator_Http
  imports Manifest Unix_Paths Run_Monad
begin

text \<open>
  What the bundled annotator dispatchers share: the guard in front of the host environment
  (\<open>host_env.rs\<close>), the text an annotator is asked about (\<open>resolve.rs\<close>), HTTP requests and
  answers (\<open>http.rs\<close>, \<open>TransportRequest\<close> of \<open>bundled.rs\<close>), and the endpoint dispatcher
  (\<open>endpoint.rs\<close>).

  A dispatch is a computation over the trace of its outward actions: reads of the process
  environment and of the clock, fetches of a pinned prompt, POST requests.  What the outside
  answers is a function of that trace, in the record \<open>outside\<close> with the functions of
  \<open>serde_json\<close>, \<open>ureq\<close> and the \<open>http\<close> crate that the code calls.
\<close>

section \<open>Outward actions\<close>

record outbound =
  ob_url :: string
  ob_headers :: "(string \<times> string) list"
  ob_body :: string
  ob_timeout_ms :: nat

datatype outward = EnvRead string | ClockRead | PromptFetched string | Posted outbound

text \<open>Reading at most \<open>n\<close> bytes of a reply gives the text that was read and the error, if
  any, that ended the reading.\<close>

record http_reply =
  hp_status :: nat
  hp_read :: "nat \<Rightarrow> string \<times> string option"

datatype ureq_kind = UreqTimeout | UreqIo bool | UreqOther

text \<open>The chain of sources of an error has, per element, whether it is an I/O error and then
  whether that is \<open>ErrorKind::TimedOut\<close>.\<close>

record ureq_error =
  ue_kind :: ureq_kind
  ue_sources :: "bool option list"
  ue_text :: string

record outside =
  o_env :: "outward list \<Rightarrow> string \<Rightarrow> string option"
  o_post :: "outward list \<Rightarrow> outbound \<Rightarrow> (ureq_error, http_reply) result"
  o_prompt :: "outward list \<Rightarrow> limits \<Rightarrow> string \<Rightarrow> (runtime_error, string) result"
  o_deadline_ok :: "nat \<Rightarrow> bool"
  o_now :: "outward list \<Rightarrow> (string, nat) result"
  o_from_str :: "string \<Rightarrow> (string, json) result"
  o_show :: "json \<Rightarrow> string"
  o_to_vec :: "json \<Rightarrow> (string, string) result"
  o_canonical_reason :: "nat \<Rightarrow> string option"

type_synonym ('e, 'a) dispatching = "(outward list, 'e, 'a) stateful"

definition outward_call :: "outward \<Rightarrow> (outward list \<Rightarrow> 'r) \<Rightarrow> ('e, 'r) dispatching" where
  "outward_call a answer t = (Inr (answer t), t @ [a])"

section \<open>The host environment\<close>

definition env_var :: "outside \<Rightarrow> string \<Rightarrow> ('e, string option) dispatching" where
  "env_var out name = outward_call (EnvRead name) (\<lambda>t. o_env out t name)"

definition read_with ::
  "bool \<Rightarrow> string \<Rightarrow> (string \<Rightarrow> (string, string option) dispatching) \<Rightarrow> (string, string option) dispatching"
where
  "read_with from_url env_name lookup =
    (if from_url then
       run_lift (Inl (MARKER @ '' must not read host environment credential '' @ quoted env_name
         @ ''; supply the credential inline on the annotator declaration or declare this annotator in a ''
         @ ''manifest chain with no URL extends''))
     else lookup env_name)"

definition host_env_read :: "outside \<Rightarrow> bool \<Rightarrow> string \<Rightarrow> (string, string option) dispatching" where
  "host_env_read out from_url env_name = read_with from_url env_name (env_var out)"

definition host_env_read_optional :: "outside \<Rightarrow> bool \<Rightarrow> string \<Rightarrow> ('e, string option) dispatching" where
  "host_env_read_optional out from_url env_name t =
    (case host_env_read out from_url env_name t of (r, t') \<Rightarrow>
       (Inr (case r of Inr v \<Rightarrow> v | Inl _ \<Rightarrow> None), t'))"

section \<open>The text an annotator is asked about\<close>

definition failed :: "string \<Rightarrow> string \<Rightarrow> runtime_error" where
  "failed annotator_name reason_text = AnnotationFailed (annotator_name @ '': '' @ reason_text)"

definition policy_target_text ::
  "literal_decoder \<Rightarrow> string \<Rightarrow> annotator_invocation \<Rightarrow> json \<Rightarrow> (runtime_error, string) result"
where
  "policy_target_text lit name annotator preliminary =
    rbind (ok_or (failed name ''missing from path'')
      (or_else (input_from annotator)
        (or_else (Option.bind (invocation_field annotator ''from'') as_str)
          (Option.bind (invocation_field annotator ''input_from'') as_str)))) (\<lambda>from_path.
    rbind (map_err (\<lambda>e. failed name (''invalid from path: '' @ show_path_error e))
      (parse_with_snapshot_alias lit from_path)) (\<lambda>path.
    let env = (case json_get preliminary ''snapshot'' of
          None \<Rightarrow> with_pi preliminary
        | Some snapshot \<Rightarrow> with_pi_and_snap preliminary snapshot) in
    rbind (map_err (\<lambda>e. failed name (''from path failed: '' @ show_error e)) (resolve path env)) (\<lambda>found.
    ok_or (failed name ''from path did not resolve to a string'') (as_str found))))"

section \<open>Fields\<close>

definition optional_string_field :: "field_map \<Rightarrow> string \<Rightarrow> string option" where
  "optional_string_field flds name =
    (case Option.bind (map_of flds name) as_str of
       Some v \<Rightarrow> if v \<noteq> [] then Some v else None
     | None \<Rightarrow> None)"

definition required_string_field :: "string \<Rightarrow> field_map \<Rightarrow> string \<Rightarrow> (runtime_error, string) result" where
  "required_string_field annotator_name flds name =
    (case Option.bind (map_of flds name) as_str of
       Some v \<Rightarrow> if v \<noteq> [] then Inr v else Inl (failed annotator_name (''missing required field '' @ quoted name))
     | None \<Rightarrow> Inl (failed annotator_name (''missing required field '' @ quoted name)))"

definition DEFAULT_TIMEOUT_MS :: nat where
  "DEFAULT_TIMEOUT_MS = 10000"

definition field_timeout_ms :: "string \<Rightarrow> field_map \<Rightarrow> (runtime_error, nat) result" where
  "field_timeout_ms annotator_name flds = (case map_of flds ''timeout_ms'' of
      None \<Rightarrow> Inr DEFAULT_TIMEOUT_MS
    | Some JNull \<Rightarrow> Inr DEFAULT_TIMEOUT_MS
    | Some v \<Rightarrow> (case as_u64 v of
          Some n \<Rightarrow> if n > 0 then Inr n else Inl (failed annotator_name ''timeout_ms must be a positive integer'')
        | None \<Rightarrow> Inl (failed annotator_name ''timeout_ms must be a positive integer'')))"

record authorization =
  au_header :: string
  au_value :: string

definition authorization_for :: "field_map \<Rightarrow> string \<Rightarrow> authorization" where
  "authorization_for flds key = (case optional_string_field flds ''api_key_header'' of
      Some header \<Rightarrow> \<lparr>au_header = header, au_value = key\<rparr>
    | None \<Rightarrow> \<lparr>au_header = ''Authorization'', au_value = ''Bearer '' @ key\<rparr>)"

definition env_api_key ::
  "outside \<Rightarrow> string \<Rightarrow> annotator_invocation \<Rightarrow> (runtime_error, authorization option) dispatching"
where
  "env_api_key out name annotator =
    (case optional_string_field (ai_fields annotator) ''api_key_env'' of
       None \<Rightarrow> run_lift (Inr None)
     | Some env_name \<Rightarrow>
         run_bind (run_map_err (failed name) (host_env_read out (ai_url_sourced annotator) env_name)) (\<lambda>found.
         run_lift (rbind (ok_or (failed name (''API key environment variable '' @ quoted env_name @ '' is not set'')) found)
           (\<lambda>key. Inr (Some (authorization_for (ai_fields annotator) key))))))"

definition configured_fields :: "field_map \<Rightarrow> string list \<Rightarrow> json" where
  "configured_fields flds transport_fields =
    JObject (fold (\<lambda>(key, v). jm_insert key v) (filter (\<lambda>(key, _). key \<notin> set transport_fields) flds) [])"

definition ENDPOINT_TRANSPORT_FIELDS :: "string list" where
  "ENDPOINT_TRANSPORT_FIELDS = [''type'', ''from'', ''input_from'', ''endpoint'', ''url'', ''timeout_ms'',
     ''api_key_env'', ''api_key'', ''api_key_header'', ''headers'', ''provider_config'',
     ''aws_access_key_id'', ''aws_secret_access_key'', ''aws_session_token'',
     ''aws_access_key_id_env'', ''aws_secret_access_key_env'', ''aws_session_token_env'']"

definition endpoint_payload :: "string \<Rightarrow> field_map \<Rightarrow> json" where
  "endpoint_payload input flds = JObject [
     (''input'', JString input), (''fields'', configured_fields flds ENDPOINT_TRANSPORT_FIELDS)]"

section \<open>Exchanges\<close>

definition MAX_RESPONSE_BYTES :: nat where
  "MAX_RESPONSE_BYTES = 1048576"

definition describe_error_body :: "externals \<Rightarrow> string \<Rightarrow> string" where
  "describe_error_body x body =
    (if body = [] then ''empty body''
     else nat_to_string (length body) @ '' byte body, sha256 '' @ lower (take 8 (x_sha256 x body)))"

definition describe_http_failure :: "externals \<Rightarrow> outside \<Rightarrow> nat \<Rightarrow> string \<Rightarrow> string" where
  "describe_http_failure x out status body =
    ''HTTP request failed with status '' @ nat_to_string status @ '' (''
      @ (case o_canonical_reason out status of Some r \<Rightarrow> r | None \<Rightarrow> [])
      @ ''); '' @ describe_error_body x body"

fun first_io_error :: "bool option list \<Rightarrow> bool" where
  "first_io_error [] = False"
| "first_io_error (Some timed_out # _) = timed_out"
| "first_io_error (None # sources) = first_io_error sources"

definition is_timeout_error :: "ureq_error \<Rightarrow> bool" where
  "is_timeout_error e =
    (if ue_kind e = UreqTimeout then True
     else if ue_kind e = UreqIo True then True
     else first_io_error (ue_sources e))"

definition transport_error :: "string \<Rightarrow> ureq_error \<Rightarrow> runtime_error" where
  "transport_error name e =
    (if is_timeout_error e then AnnotationTimeout (''HTTP request timed out: '' @ ue_text e)
     else failed name (''HTTP request failed: '' @ ue_text e))"

definition read_error_body :: "http_reply \<Rightarrow> string" where
  "read_error_body reply = trim (fst (hp_read reply MAX_RESPONSE_BYTES))"

definition read_response_body :: "http_reply \<Rightarrow> (string, string) result" where
  "read_response_body reply = (case hp_read reply (MAX_RESPONSE_BYTES + 1) of
      (body, Some e) \<Rightarrow> Inl (''HTTP response read failed: '' @ e)
    | (body, None) \<Rightarrow>
        if length body > MAX_RESPONSE_BYTES then Inl ''HTTP response exceeded size limit'' else Inr body)"

definition parse_response :: "outside \<Rightarrow> string \<Rightarrow> http_reply \<Rightarrow> (runtime_error, json) result" where
  "parse_response out name reply =
    rbind (map_err (failed name) (read_response_body reply)) (\<lambda>body.
    map_err (\<lambda>e. failed name (''HTTP response was not valid JSON: '' @ e)) (o_from_str out body))"

definition exchange :: "outside \<Rightarrow> outbound \<Rightarrow> ('e, (ureq_error, http_reply) result) dispatching" where
  "exchange out request = outward_call (Posted request) (\<lambda>t. o_post out t request)"

definition post_json ::
  "externals \<Rightarrow> outside \<Rightarrow> string \<Rightarrow> string \<Rightarrow> json \<Rightarrow> authorization option \<Rightarrow> nat \<Rightarrow> (runtime_error, json) dispatching"
where
  "post_json x out name url payload auth timeout_ms =
    run_bind (exchange out \<lparr>ob_url = url,
      ob_headers = [(''Content-Type'', ''application/json''), (''Accept'', ''application/json'')]
        @ (case auth of Some a \<Rightarrow> [(au_header a, au_value a)] | None \<Rightarrow> []),
      ob_body = o_show out payload, ob_timeout_ms = timeout_ms\<rparr>) (\<lambda>answer.
    run_lift (rbind (map_err (transport_error name) answer) (\<lambda>reply.
      if \<not> (200 \<le> hp_status reply \<and> hp_status reply < 300) then
        Inl (failed name (describe_http_failure x out (hp_status reply) (read_error_body reply)))
      else parse_response out name reply)))"

section \<open>Transport requests\<close>

record transport_request =
  tr_method :: string
  tr_url :: string
  tr_headers :: "(string \<times> string) list"
  tr_body :: json
  tr_timeout_ms :: nat

definition tr_post :: "string \<Rightarrow> transport_request" where
  "tr_post url = \<lparr>tr_method = ''POST'', tr_url = url, tr_headers = [], tr_body = JNull, tr_timeout_ms = 10000\<rparr>"

definition with_header :: "string \<Rightarrow> string \<Rightarrow> transport_request \<Rightarrow> transport_request" where
  "with_header name v r = r\<lparr>tr_headers := bt_insert name v (tr_headers r)\<rparr>"

definition with_json :: "json \<Rightarrow> transport_request \<Rightarrow> transport_request" where
  "with_json body r = r\<lparr>tr_body := body\<rparr>"

definition with_timeout_ms :: "nat \<Rightarrow> transport_request \<Rightarrow> transport_request" where
  "with_timeout_ms n r = r\<lparr>tr_timeout_ms := n\<rparr>"

record transport_response =
  ts_status :: nat
  ts_body :: string

type_synonym transport = "transport_request \<Rightarrow> (string, transport_response) dispatching"

definition send_transport_request :: "outside \<Rightarrow> transport" where
  "send_transport_request out request =
    (if tr_method request \<noteq> ''POST'' then
       run_lift (Inl (''unsupported HTTP method '' @ quoted (tr_method request)))
     else
       run_bind (exchange out \<lparr>ob_url = tr_url request, ob_headers = tr_headers request,
         ob_body = o_show out (tr_body request), ob_timeout_ms = tr_timeout_ms request\<rparr>) (\<lambda>answer.
       run_lift (case answer of
           Inr reply \<Rightarrow> rbind (read_response_body reply) (\<lambda>body.
             Inr \<lparr>ts_status = hp_status reply, ts_body = body\<rparr>)
         | Inl e \<Rightarrow> Inl (''HTTP request failed: '' @ ue_text e))))"

section \<open>The endpoint dispatcher\<close>

definition is_type :: "annotator_invocation \<Rightarrow> string \<Rightarrow> bool" where
  "is_type annotator ty \<longleftrightarrow> Option.bind (invocation_field annotator ''type'') as_str = Some ty"

definition endpoint_dispatch ::
  "externals \<Rightarrow> outside \<Rightarrow> string \<Rightarrow> annotator_invocation \<Rightarrow> json \<Rightarrow> (runtime_error, json) dispatching"
where
  "endpoint_dispatch x out name annotator preliminary =
    (if \<not> is_type annotator ''endpoint'' then
       run_lift (Inl (failed name ''endpoint dispatcher received a non-endpoint annotator''))
     else
       run_bind (run_lift (ok_or (failed name (''missing required field '' @ quoted ''endpoint'' @ '' or '' @ quoted ''url''))
         (or_else (optional_string_field (ai_fields annotator) ''endpoint'')
           (optional_string_field (ai_fields annotator) ''url'')))) (\<lambda>url.
       run_bind (run_lift (field_timeout_ms name (ai_fields annotator))) (\<lambda>timeout_ms.
       run_bind (run_lift (policy_target_text (x_literal x) name annotator preliminary)) (\<lambda>policy_target.
       run_bind (post_json x out name url (endpoint_payload policy_target (ai_fields annotator)) None timeout_ms) (\<lambda>answer.
       run_lift (if as_object answer = None then
           Inl (failed name ''endpoint annotator response must be a JSON object'')
         else Inr answer))))))"

end
