(* ===== verification/Float64.thy ===== *)
theory Float64
  imports Json "HOL-Library.Word"
begin

text \<open>
  \<open>f64\<close> as its IEEE 754 bits: comparison, rounding of a ratio of naturals (the cast from an
  unsigned integer, the quotient of two of them, the product), rounding to an integer and
  the cast to one, and the \<open>{:.3}\<close> format.  A value that is not a number compares with
  nothing.
\<close>

unbundle bit_operations_syntax

type_synonym f64 = "64 word"

definition f64_negative :: "f64 \<Rightarrow> bool" where
  "f64_negative b \<longleftrightarrow> 2 ^ 63 \<le> unat b"

definition f64_magnitude :: "f64 \<Rightarrow> nat" where
  "f64_magnitude b = unat b mod 2 ^ 63"

definition f64_infinity :: nat where
  "f64_infinity = 2047 * 2 ^ 52"

definition f64_is_nan :: "f64 \<Rightarrow> bool" where
  "f64_is_nan b \<longleftrightarrow> f64_magnitude b > f64_infinity"

text \<open>The order of the bits as sign and magnitude; both zeros are 0.\<close>

definition f64_rank :: "f64 \<Rightarrow> int" where
  "f64_rank b = (if f64_negative b then - int (f64_magnitude b) else int (f64_magnitude b))"

definition f64_le :: "f64 \<Rightarrow> f64 \<Rightarrow> bool" where
  "f64_le a b \<longleftrightarrow> \<not> f64_is_nan a \<and> \<not> f64_is_nan b \<and> f64_rank a \<le> f64_rank b"

definition f64_less :: "f64 \<Rightarrow> f64 \<Rightarrow> bool" where
  "f64_less a b \<longleftrightarrow> \<not> f64_is_nan a \<and> \<not> f64_is_nan b \<and> f64_rank a < f64_rank b"

definition f64_zero :: f64 where
  "f64_zero = 0"

definition f64_one :: f64 where
  "f64_one = 0x3FF0000000000000"

definition f64_half :: f64 where
  "f64_half = 0x3FE0000000000000"

section \<open>Rounding\<close>

definition round_half_even :: "nat \<Rightarrow> nat \<Rightarrow> nat" where
  "round_half_even p q =
    (let n = p div q; r = p mod q in
     if 2 * r > q \<or> (2 * r = q \<and> odd n) then n + 1 else n)"

fun bit_length :: "nat \<Rightarrow> nat" where
  "bit_length n = (if n = 0 then 0 else Suc (bit_length (n div 2)))"

declare bit_length.simps [simp del]

definition scaled :: "nat \<Rightarrow> nat \<Rightarrow> int \<Rightarrow> nat \<times> nat" where
  "scaled p q k = (if k \<ge> 0 then (p * 2 ^ nat k, q) else (p, q * 2 ^ nat (- k)))"

text \<open>
  The nearest \<open>f64\<close> to \<open>p / q\<close>, ties to even: \<open>2 ^ k\<close> scales the ratio to 53 bits, or to
  fewer where the result is subnormal, and what rounds past the largest number is infinite.
\<close>

definition f64_of_ratio :: "nat \<Rightarrow> nat \<Rightarrow> f64" where
  "f64_of_ratio p q =
    (if p = 0 then 0
     else
       let k = 52 + int (bit_length q) - int (bit_length p);
           k = (case scaled p q k of (a, b) \<Rightarrow> if a div b < 2 ^ 52 then k + 1 else k);
           k = min k 1074;
           m = (case scaled p q k of (a, b) \<Rightarrow> round_half_even a b)
       in word_of_int (min (int f64_infinity) ((1074 - k) * 2 ^ 52 + int m)))"

definition f64_of_nat :: "nat \<Rightarrow> f64" where
  "f64_of_nat n = f64_of_ratio n 1"

definition f64_neg :: "f64 \<Rightarrow> f64" where
  "f64_neg b = b XOR (2 ^ 63)"

definition f64_abs :: "f64 \<Rightarrow> f64" where
  "f64_abs b = word_of_nat (f64_magnitude b)"

text \<open>A finite magnitude as \<open>m * 2 ^ e\<close>.\<close>

definition f64_parts :: "f64 \<Rightarrow> nat \<times> int" where
  "f64_parts b =
    (let e = f64_magnitude b div 2 ^ 52; m = f64_magnitude b mod 2 ^ 52 in
     if e = 0 then (m, - 1074) else (m + 2 ^ 52, int e - 1075))"

definition f64_is_finite :: "f64 \<Rightarrow> bool" where
  "f64_is_finite b \<longleftrightarrow> f64_magnitude b < f64_infinity"

definition f64_signed :: "bool \<Rightarrow> f64 \<Rightarrow> f64" where
  "f64_signed s b = (if s then f64_neg b else b)"

definition f64_nan :: f64 where
  "f64_nan = 0x7FF8000000000000"

definition f64_mul :: "f64 \<Rightarrow> f64 \<Rightarrow> f64" where
  "f64_mul a b =
    (if f64_is_nan a \<or> f64_is_nan b then f64_nan
     else if \<not> f64_is_finite a \<or> \<not> f64_is_finite b then
       (if f64_magnitude a = 0 \<or> f64_magnitude b = 0 then f64_nan
        else f64_signed (f64_negative a \<noteq> f64_negative b) (word_of_nat f64_infinity))
     else f64_signed (f64_negative a \<noteq> f64_negative b)
       (case f64_parts a of (m, e) \<Rightarrow> case f64_parts b of (n, f) \<Rightarrow>
          case scaled (m * n) 1 (e + f) of (p, q) \<Rightarrow> f64_of_ratio p q))"

text \<open>\<open>f64::round_ties_even\<close>; a number with no fractional bits is its own rounding.\<close>

definition f64_round_ties_even :: "f64 \<Rightarrow> f64" where
  "f64_round_ties_even b =
    (if \<not> f64_is_finite b then b
     else case f64_parts b of (m, e) \<Rightarrow>
       if e \<ge> 0 then b
       else f64_signed (f64_negative b) (f64_of_nat (round_half_even m (2 ^ nat (- e)))))"

text \<open>The cast \<open>as i64\<close>: towards zero, to the nearest bound out of range, 0 for NaN.\<close>

definition f64_as_i64 :: "f64 \<Rightarrow> int" where
  "f64_as_i64 b =
    (if f64_is_nan b then 0
     else let n = (case f64_parts b of (m, e) \<Rightarrow> case scaled m 1 e of (p, q) \<Rightarrow> int (p div q)) in
       if f64_negative b then max (- (2 ^ 63)) (- n) else min (2 ^ 63 - 1) n)"

definition as_f64 :: "json \<Rightarrow> f64 option" where
  "as_f64 v = (case v of
      JNumber (PosInt n) \<Rightarrow> Some (f64_of_nat (unat n))
    | JNumber (NegInt n) \<Rightarrow> Some (f64_neg (f64_of_nat (unat (- n))))
    | JNumber (Float b) \<Rightarrow> Some b
    | _ \<Rightarrow> None)"

section \<open>Formatting\<close>

definition zero_padded :: "nat \<Rightarrow> nat \<Rightarrow> string" where
  "zero_padded width n = replicate (width - length (nat_to_string n)) (CHR ''0'') @ nat_to_string n"

definition format_fixed3 :: "f64 \<Rightarrow> string" where
  "format_fixed3 b =
    (if f64_is_nan b then ''NaN''
     else (if f64_negative b then ''-'' else '''') @
       (if f64_magnitude b = f64_infinity then ''inf''
        else case f64_parts b of (m, e) \<Rightarrow> case scaled (m * 1000) 1 e of (p, q) \<Rightarrow>
          let n = round_half_even p q in nat_to_string (n div 1000) @ ''.'' @ zero_padded 3 (n mod 1000)))"

section \<open>Laws\<close>

lemma f64_less_le_trans: "f64_less a b \<Longrightarrow> f64_le b c \<Longrightarrow> f64_less a c"
  by (auto simp: f64_less_def f64_le_def)

lemma f64_le_less_trans: "f64_le a b \<Longrightarrow> f64_less b c \<Longrightarrow> f64_less a c"
  by (auto simp: f64_less_def f64_le_def)

lemma f64_le_trans: "f64_le a b \<Longrightarrow> f64_le b c \<Longrightarrow> f64_le a c"
  by (auto simp: f64_le_def)

lemma f64_not_less: "\<not> f64_is_nan a \<Longrightarrow> \<not> f64_is_nan b \<Longrightarrow> \<not> f64_less a b \<longleftrightarrow> f64_le b a"
  by (auto simp: f64_less_def f64_le_def)

lemma f64_less_imp_le: "f64_less a b \<Longrightarrow> f64_le a b"
  by (auto simp: f64_less_def f64_le_def)

lemma f64_zero_number [simp]: "\<not> f64_is_nan f64_zero"
  by (simp add: f64_is_nan_def f64_zero_def f64_magnitude_def)

lemma f64_zero_rank [simp]: "f64_rank f64_zero = 0"
  by (simp add: f64_rank_def f64_zero_def f64_magnitude_def)

end
