(* ===== verification/Classifiers.thy ===== *)
theory Classifiers
  imports Annotator_Http Float64
begin

text \<open>
  The classifier dispatcher (\<open>classifier.rs\<close>), the configuration and the verdict of a bundled
  classifier (\<open>bundled.rs\<close>) and the six providers (\<open>bundled/\<close>).  Scores are \<open>f64\<close> bits.
\<close>

section \<open>Verdict and configuration\<close>

definition json_of_f64 :: "f64 \<Rightarrow> json" where
  "json_of_f64 b = (if f64_magnitude b \<ge> f64_infinity then JNull else JNumber (Float b))"

definition json_of_option :: "string option \<Rightarrow> json" where
  "json_of_option v = (case v of Some s \<Rightarrow> JString s | None \<Rightarrow> JNull)"

record classifier_verdict =
  cv_flagged :: bool
  cv_score :: f64
  cv_threshold :: f64
  cv_label :: "string option"
  cv_reason :: "string option"
  cv_category_scores :: "(string \<times> f64) list"

definition cv_to_json :: "classifier_verdict \<Rightarrow> json" where
  "cv_to_json v = JObject [
     (''verdict'', JString (if cv_flagged v then ''block'' else ''allow'')),
     (''flagged'', JBool (cv_flagged v)),
     (''score'', json_of_f64 (cv_score v)),
     (''threshold'', json_of_f64 (cv_threshold v)),
     (''label'', json_of_option (cv_label v)),
     (''reason'', json_of_option (cv_reason v)),
     (''category_scores'', JObject (map (\<lambda>(k, s). (k, json_of_f64 s)) (cv_category_scores v)))]"

record classifier_config =
  cc_provider :: string
  cc_endpoint :: string
  cc_api_key :: "string option"
  cc_timeout_ms :: nat
  cc_threshold :: f64
  cc_category_thresholds :: "(string \<times> f64) list"
  cc_extra_headers :: "(string \<times> string) list"
  cc_provider_config :: json

definition validate_threshold :: "string \<Rightarrow> f64 \<Rightarrow> (string, unit) result" where
  "validate_threshold name threshold =
    (if f64_le f64_zero threshold \<and> f64_le threshold f64_one then Inr ()
     else Inl (''field '' @ quoted name @ '' must be between 0 and 1''))"

definition optional_f64_map :: "field_map \<Rightarrow> string \<Rightarrow> (string, (string \<times> f64) list) result" where
  "optional_f64_map flds name = (case map_of flds name of
      None \<Rightarrow> Inr []
    | Some v \<Rightarrow>
        rbind (ok_or (''field '' @ quoted name @ '' must be an object'') (as_object v)) (\<lambda>object.
        rbind (try_map (\<lambda>(key, v). rbind (ok_or (''field '' @ quoted (name @ ''.'' @ key) @ '' must be a number'')
                  (as_f64 v)) (\<lambda>number. Inr (key, number))) object) (\<lambda>pairs.
        Inr (bt_collect pairs))))"

definition optional_string_map :: "field_map \<Rightarrow> string \<Rightarrow> (string, (string \<times> string) list) result" where
  "optional_string_map flds name = (case map_of flds name of
      None \<Rightarrow> Inr []
    | Some v \<Rightarrow>
        rbind (ok_or (''field '' @ quoted name @ '' must be an object'') (as_object v)) (\<lambda>object.
        rbind (try_map (\<lambda>(key, v). rbind (ok_or (''field '' @ quoted (name @ ''.'' @ key) @ '' must be a string'')
                  (as_str v)) (\<lambda>found. Inr (key, found))) object) (\<lambda>pairs.
        Inr (bt_collect pairs))))"

definition from_fields_with_provenance ::
  "outside \<Rightarrow> field_map \<Rightarrow> bool \<Rightarrow> (string, classifier_config) dispatching"
where
  "from_fields_with_provenance out flds from_url =
    run_bind (run_lift (ok_or (''missing required field '' @ quoted ''provider'')
      (optional_string_field flds ''provider''))) (\<lambda>provider.
    run_bind (case optional_string_field flds ''api_key_env'' of
        Some env_name \<Rightarrow>
          run_bind (host_env_read out from_url env_name) (\<lambda>found.
          run_lift (rbind (ok_or (''API key environment variable '' @ quoted env_name @ '' is not set'') found)
            (\<lambda>key. Inr (Some key))))
      | None \<Rightarrow> run_lift (Inr None)) (\<lambda>api_key.
    run_lift (
      let threshold = (case Option.bind (map_of flds ''threshold'') as_f64 of Some n \<Rightarrow> n | None \<Rightarrow> f64_half) in
      rbind (validate_threshold ''threshold'' threshold) (\<lambda>_.
      rbind (optional_f64_map flds ''category_thresholds'') (\<lambda>category_thresholds.
      rbind (try_each (\<lambda>(category, n). validate_threshold (''category_thresholds.'' @ category) n)
        category_thresholds) (\<lambda>_.
      rbind (optional_string_map flds ''headers'') (\<lambda>headers.
      Inr \<lparr>cc_provider = map to_ascii_lowercase provider,
        cc_endpoint = (case or_else (optional_string_field flds ''endpoint'')
            (or_else (optional_string_field flds ''base_url'') (optional_string_field flds ''url'')) of
          Some url \<Rightarrow> url | None \<Rightarrow> []),
        cc_api_key = api_key,
        cc_timeout_ms = (case Option.bind (map_of flds ''timeout_ms'') as_u64 of Some n \<Rightarrow> n | None \<Rightarrow> 10000),
        cc_threshold = threshold,
        cc_category_thresholds = category_thresholds,
        cc_extra_headers = headers,
        cc_provider_config = (case map_of flds ''provider_config'' of Some v \<Rightarrow> v | None \<Rightarrow> JNull)\<rparr>)))))))"

section \<open>From scores to a verdict\<close>

record score_fold =
  sf_flagged :: bool
  sf_label :: "string option"
  sf_score :: f64
  sf_threshold :: f64
  sf_reasons :: "string list"

definition take_higher :: "string \<times> f64 \<Rightarrow> score_fold \<Rightarrow> score_fold" where
  "take_higher entry st = (case entry of (category, score) \<Rightarrow>
     if f64_less (sf_score st) score then st\<lparr>sf_score := score, sf_label := Some category\<rparr> else st)"

definition weigh_category :: "(string \<times> f64) list \<Rightarrow> string \<times> f64 \<Rightarrow> score_fold \<Rightarrow> score_fold" where
  "weigh_category scores entry st = (case entry of (category, category_threshold) \<Rightarrow>
     case map_of scores category of
       None \<Rightarrow> st
     | Some score \<Rightarrow>
         let st = (if f64_le category_threshold score
                   then st\<lparr>sf_flagged := True,
                     sf_reasons := sf_reasons st @ [category @ '' '' @ format_fixed3 score @ '' >= ''
                       @ format_fixed3 category_threshold]\<rparr>
                   else st) in
         if f64_less (sf_score st) score
         then st\<lparr>sf_score := score, sf_label := Some category, sf_threshold := category_threshold\<rparr>
         else st)"

definition fold_score_verdict :: "classifier_config \<Rightarrow> (string \<times> f64) list \<Rightarrow> classifier_verdict" where
  "fold_score_verdict cfg scores =
    (let st = \<lparr>sf_flagged = False, sf_label = None, sf_score = f64_zero, sf_threshold = cc_threshold cfg,
           sf_reasons = []\<rparr>;
         st = (if cc_category_thresholds cfg = [] then
                 let st = fold take_higher scores st in
                 st\<lparr>sf_flagged := f64_le (cc_threshold cfg) (sf_score st)\<rparr>
               else fold (weigh_category scores) (cc_category_thresholds cfg) st)
     in \<lparr>cv_flagged = sf_flagged st, cv_score = sf_score st, cv_threshold = sf_threshold st,
          cv_label = sf_label st,
          cv_reason = (if sf_reasons st \<noteq> [] then Some (join ''; '' (sf_reasons st)) else None),
          cv_category_scores = scores\<rparr>)"

section \<open>Providers\<close>

type_synonym classifier = "classifier_config \<Rightarrow> string \<Rightarrow> transport \<Rightarrow> (string, classifier_verdict) dispatching"

text \<open>The request every provider opens with, and its check of the status.\<close>

definition json_request :: "string \<Rightarrow> transport_request" where
  "json_request url = with_header ''Accept'' ''application/json''
     (with_header ''Content-Type'' ''application/json'' (tr_post url))"

definition with_headers :: "(string \<times> string) list \<Rightarrow> transport_request \<Rightarrow> transport_request" where
  "with_headers headers r = fold (\<lambda>(name, v). with_header name v) headers r"

definition send_checked ::
  "externals \<Rightarrow> string \<Rightarrow> transport \<Rightarrow> transport_request \<Rightarrow> (string, string) dispatching"
where
  "send_checked x provider send request =
    run_bind (send request) (\<lambda>response.
    run_lift (if \<not> (200 \<le> ts_status response \<and> ts_status response < 300) then
        Inl (provider @ '' HTTP '' @ nat_to_string (ts_status response) @ '' ('' @ describe_error_body x (ts_body response) @ '')'')
      else Inr (ts_body response)))"

definition nonempty_key :: "classifier_config \<Rightarrow> string \<Rightarrow> (string, string) result" where
  "nonempty_key cfg provider = (case cc_api_key cfg of
      Some key \<Rightarrow> if key \<noteq> [] then Inr key else Inl (provider @ '' api key is required'')
    | None \<Rightarrow> Inl (provider @ '' api key is required''))"

definition trim_end_slashes :: "string \<Rightarrow> string" where
  "trim_end_slashes s = rev (dropWhile (\<lambda>c. c = CHR ''/'') (rev s))"

definition nonempty_str :: "json \<Rightarrow> string option" where
  "nonempty_str v = (case as_str v of Some s \<Rightarrow> if s \<noteq> [] then Some s else None | None \<Rightarrow> None)"

text \<open>The names a provider asks for: the categories with a threshold, else a configured list,
  else the default.\<close>

definition requested_names ::
  "classifier_config \<Rightarrow> string \<Rightarrow> string \<Rightarrow> string list \<Rightarrow> (string, string list) result"
where
  "requested_names cfg provider key defaults =
    (if cc_category_thresholds cfg \<noteq> [] then Inr (map fst (cc_category_thresholds cfg))
     else case Option.bind (json_get (cc_provider_config cfg) key) as_array of
       Some values \<Rightarrow>
         rbind (try_map (\<lambda>v. ok_or (provider @ '' provider_config '' @ key @ '' must be strings'') (nonempty_str v))
           values) (\<lambda>names.
         if names = [] then Inl (provider @ '' '' @ key @ '' must not be empty'') else Inr names)
     | None \<Rightarrow> Inr defaults)"

subsection \<open>Azure AI Content Safety\<close>

definition aacs_analyze_url :: "string \<Rightarrow> string \<Rightarrow> string" where
  "aacs_analyze_url endpoint api_version =
    (let endpoint = trim_end_slashes endpoint in
     if contains_str endpoint ''/contentsafety/'' then
       if contains_str endpoint ''api-version='' then endpoint
       else if contains_str endpoint ''?'' then endpoint @ ''&api-version='' @ api_version
       else endpoint @ ''?api-version='' @ api_version
     else endpoint @ ''/contentsafety/text:analyze?api-version='' @ api_version)"

definition aacs_categories :: "classifier_config \<Rightarrow> (string, string list) result" where
  "aacs_categories cfg = requested_names cfg ''aacs'' ''categories'' [''Hate'', ''SelfHarm'', ''Sexual'', ''Violence'']"

definition aacs_score :: "json \<Rightarrow> (string \<times> f64) list \<Rightarrow> (string, (string \<times> f64) list) result" where
  "aacs_score item scores =
    rbind (ok_or ''aacs response item missing category'' (Option.bind (json_get item ''category'') nonempty_str))
      (\<lambda>category.
    rbind (ok_or ''aacs response item missing severity'' (Option.bind (json_get item ''severity'') as_u64))
      (\<lambda>severity.
    if severity \<notin> {0, 2, 4, 6} then Inl (''aacs response severity '' @ nat_to_string severity @ '' is invalid'')
    else Inr (bt_insert category (f64_of_ratio severity 6) scores)))"

definition aacs_parse_response ::
  "outside \<Rightarrow> classifier_config \<Rightarrow> string \<Rightarrow> string list \<Rightarrow> (string, classifier_verdict) result"
where
  "aacs_parse_response out cfg body expected =
    rbind (map_err (\<lambda>e. ''aacs JSON parse failed '' @ e) (o_from_str out body)) (\<lambda>v.
    rbind (ok_or ''aacs response missing categoriesAnalysis'' (Option.bind (json_get v ''categoriesAnalysis'') as_array))
      (\<lambda>analysis.
    if analysis = [] then Inl ''aacs response categoriesAnalysis was empty''
    else
      rbind (try_fold aacs_score analysis []) (\<lambda>scores.
      rbind (try_each (\<lambda>category. if has_key scores category then Inr ()
          else Inl (''aacs response missing category '' @ category)) expected) (\<lambda>_.
      Inr (fold_score_verdict cfg scores)))))"

definition aacs_classify :: "externals \<Rightarrow> outside \<Rightarrow> classifier" where
  "aacs_classify x out cfg subject send =
    run_bind (run_lift (nonempty_key cfg ''aacs'')) (\<lambda>api_key.
    if cc_endpoint cfg = [] then run_lift (Inl ''aacs endpoint is required'')
    else
      let api_version = (case Option.bind (json_get (cc_provider_config cfg) ''api_version'') as_str of
            Some v \<Rightarrow> v | None \<Rightarrow> ''2024-09-01'') in
      run_bind (run_lift (aacs_categories cfg)) (\<lambda>categories.
      run_bind (send_checked x ''aacs'' send
        (with_headers (cc_extra_headers cfg) (with_timeout_ms (cc_timeout_ms cfg) (with_json (JObject [
            (''text'', JString subject), (''categories'', JArray (map JString categories)),
            (''outputType'', JString ''FourSeverityLevels'')])
          (with_header ''Ocp-Apim-Subscription-Key'' api_key
            (json_request (aacs_analyze_url (cc_endpoint cfg) api_version))))))) (\<lambda>body.
      run_lift (aacs_parse_response out cfg body categories))))"

subsection \<open>OpenAI moderation\<close>

definition numeric_scores :: "(string \<Rightarrow> string) \<Rightarrow> json_map \<Rightarrow> (string, (string \<times> f64) list) result" where
  "numeric_scores complaint object =
    rbind (try_map (\<lambda>(category, v). rbind (ok_or (complaint category) (as_f64 v)) (\<lambda>score. Inr (category, score))) object)
      (\<lambda>pairs. Inr (bt_collect pairs))"

definition first_item :: "json list \<Rightarrow> json option" where
  "first_item xs = (case xs of [] \<Rightarrow> None | v # _ \<Rightarrow> Some v)"

text \<open>A native flag counts where no category has a threshold of its own.\<close>

definition honour_native_flag :: "classifier_config \<Rightarrow> bool \<Rightarrow> classifier_verdict \<Rightarrow> classifier_verdict" where
  "honour_native_flag cfg flagged v =
    (if flagged \<and> cc_category_thresholds cfg = [] then v\<lparr>cv_flagged := True\<rparr> else v)"

definition moderation_parse_response ::
  "outside \<Rightarrow> classifier_config \<Rightarrow> string \<Rightarrow> (string, classifier_verdict) result"
where
  "moderation_parse_response out cfg body =
    rbind (map_err (\<lambda>e. ''openai_moderation JSON parse failed '' @ e) (o_from_str out body)) (\<lambda>v.
    rbind (ok_or ''openai_moderation response missing results[0]''
      (Option.bind (Option.bind (json_get v ''results'') as_array) first_item)) (\<lambda>found.
    rbind (ok_or ''openai_moderation response missing flagged'' (Option.bind (json_get found ''flagged'') as_bool))
      (\<lambda>native_flagged.
    rbind (ok_or ''openai_moderation response missing category_scores''
      (Option.bind (json_get found ''category_scores'') as_object)) (\<lambda>category_scores.
    if category_scores = [] then Inl ''openai_moderation response category_scores was empty''
    else
      rbind (numeric_scores (\<lambda>category. ''openai_moderation response score '' @ category @ '' is not a number'')
        category_scores) (\<lambda>scores.
      Inr (honour_native_flag cfg native_flagged (fold_score_verdict cfg scores)))))))"

definition moderation_classify :: "externals \<Rightarrow> outside \<Rightarrow> classifier" where
  "moderation_classify x out cfg subject send =
    run_bind (run_lift (nonempty_key cfg ''openai_moderation'')) (\<lambda>api_key.
    let endpoint = (if cc_endpoint cfg = [] then ''https://api.openai.com/v1/moderations'' else cc_endpoint cfg);
        model = (case Option.bind (json_get (cc_provider_config cfg) ''model'') nonempty_str of
          Some m \<Rightarrow> m | None \<Rightarrow> ''omni-moderation-latest'') in
    run_bind (send_checked x ''openai_moderation'' send
      (with_headers (cc_extra_headers cfg) (with_timeout_ms (cc_timeout_ms cfg)
        (with_json (JObject [(''input'', JString subject), (''model'', JString model)])
          (with_header ''Authorization'' (''Bearer '' @ api_key) (json_request endpoint)))))) (\<lambda>body.
    run_lift (moderation_parse_response out cfg body)))"

subsection \<open>Perspective\<close>

definition perspective_analyze_url :: "string \<Rightarrow> string \<Rightarrow> string" where
  "perspective_analyze_url endpoint api_key =
    (let base = (if endpoint = [] then ''https://commentanalyzer.googleapis.com/v1alpha1/comments:analyze''
                 else endpoint) in
     if contains_str base ''?key='' \<or> contains_str base ''&key='' then base
     else if contains_str base ''?'' then base @ ''&key='' @ api_key
     else base @ ''?key='' @ api_key)"

definition perspective_attributes :: "classifier_config \<Rightarrow> (string, string list) result" where
  "perspective_attributes cfg = requested_names cfg ''perspective'' ''attributes'' [''TOXICITY'']"

definition requested_attributes :: "string list \<Rightarrow> json" where
  "requested_attributes attributes = JObject (fold (\<lambda>attribute. jm_insert attribute (JObject [])) attributes [])"

definition perspective_parse_response ::
  "outside \<Rightarrow> classifier_config \<Rightarrow> string \<Rightarrow> string list \<Rightarrow> (string, classifier_verdict) result"
where
  "perspective_parse_response out cfg body expected =
    rbind (map_err (\<lambda>e. ''perspective JSON parse failed '' @ e) (o_from_str out body)) (\<lambda>v.
    rbind (ok_or ''perspective response missing attributeScores'' (Option.bind (json_get v ''attributeScores'') as_object))
      (\<lambda>attribute_scores.
    if attribute_scores = [] then Inl ''perspective response attributeScores was empty''
    else
      rbind (try_fold (\<lambda>attribute scores.
          rbind (ok_or (''perspective response missing attribute '' @ attribute) (map_of attribute_scores attribute))
            (\<lambda>found.
          rbind (ok_or (''perspective response attribute '' @ attribute @ '' missing score'')
            (Option.bind (Option.bind (json_get found ''summaryScore'') (\<lambda>v. json_get v ''value'')) as_f64)) (\<lambda>score.
          Inr (bt_insert attribute score scores)))) expected []) (\<lambda>scores.
      Inr (fold_score_verdict cfg scores))))"

definition perspective_classify :: "externals \<Rightarrow> outside \<Rightarrow> classifier" where
  "perspective_classify x out cfg subject send =
    run_bind (run_lift (nonempty_key cfg ''perspective'')) (\<lambda>api_key.
    run_bind (run_lift (perspective_attributes cfg)) (\<lambda>attributes.
    run_bind (send_checked x ''perspective'' send
      (with_headers (cc_extra_headers cfg) (with_timeout_ms (cc_timeout_ms cfg) (with_json (JObject [
          (''comment'', JObject [(''text'', JString subject)]),
          (''requestedAttributes'', requested_attributes attributes)])
        (json_request (perspective_analyze_url (cc_endpoint cfg) api_key)))))) (\<lambda>body.
    run_lift (perspective_parse_response out cfg body attributes))))"

subsection \<open>Llama Guard\<close>

text \<open>Splitting a string at the characters that satisfy a predicate; \<open>str::lines\<close>.\<close>

fun split_by :: "('a \<Rightarrow> bool) \<Rightarrow> 'a list \<Rightarrow> 'a list list" where
  "split_by P [] = [[]]"
| "split_by P (c # cs) = (if P c then [] # split_by P cs
     else case split_by P cs of [] \<Rightarrow> [[c]] | w # ws \<Rightarrow> (c # w) # ws)"

definition strip_cr :: "string \<Rightarrow> string" where
  "strip_cr line = (if line \<noteq> [] \<and> last line = CHR 0x0D then butlast line else line)"

definition str_lines :: "string \<Rightarrow> string list" where
  "str_lines s = (let pieces = split_by (\<lambda>c. c = CHR 0x0A) s in
     map strip_cr (butlast pieces) @ (if last pieces = [] then [] else [last pieces]))"

definition parse_categories :: "string \<Rightarrow> string list" where
  "parse_categories line = filter (\<lambda>category. category \<noteq> [])
     (map (trim \<circ> concat) (split_by (\<lambda>c. c = '','' \<or> is_whitespace c) (chars line)))"

definition llama_guard_parse_response ::
  "outside \<Rightarrow> classifier_config \<Rightarrow> string \<Rightarrow> (string, classifier_verdict) result"
where
  "llama_guard_parse_response out cfg body =
    rbind (map_err (\<lambda>e. ''llama_guard JSON parse failed '' @ e) (o_from_str out body)) (\<lambda>v.
    rbind (ok_or ''llama_guard response missing choices[0].message.content''
      (Option.bind (json_get v ''choices'') (\<lambda>v. Option.bind (as_array v) (\<lambda>choices.
        Option.bind (first_item choices) (\<lambda>choice. Option.bind (json_get choice ''message'') (\<lambda>message.
        Option.bind (json_get message ''content'') as_str)))))) (\<lambda>content.
    case filter (\<lambda>line. line \<noteq> []) (map trim (str_lines content)) of
      [] \<Rightarrow> Inl ''llama_guard response content was empty''
    | first_line # rest \<Rightarrow>
        let unsafe_verdict = eq_ignore_ascii_case first_line ''unsafe'' in
        if \<not> unsafe_verdict \<and> \<not> eq_ignore_ascii_case first_line ''safe'' then
          Inl (''llama_guard response first line was not safe or unsafe '' @ first_line)
        else
          let categories = (if unsafe_verdict then (case rest of line # _ \<Rightarrow> parse_categories line | [] \<Rightarrow> []) else [])
          in Inr \<lparr>cv_flagged = unsafe_verdict,
              cv_score = (if unsafe_verdict then f64_one else f64_zero),
              cv_threshold = cc_threshold cfg,
              cv_label = Some (if unsafe_verdict then (case categories of c # _ \<Rightarrow> c | [] \<Rightarrow> ''unsafe'') else ''safe''),
              cv_reason = (if unsafe_verdict \<and> categories \<noteq> [] then Some (join '','' categories) else None),
              cv_category_scores = bt_collect (map (\<lambda>c. (c, f64_one)) categories)\<rparr>))"

definition llama_guard_classify :: "externals \<Rightarrow> outside \<Rightarrow> classifier" where
  "llama_guard_classify x out cfg subject send =
    run_bind (run_lift (nonempty_key cfg ''llama_guard'')) (\<lambda>api_key.
    if cc_endpoint cfg = [] then run_lift (Inl ''llama_guard endpoint is required'')
    else
      let model = (case Option.bind (json_get (cc_provider_config cfg) ''model'') as_str of
            Some m \<Rightarrow> m | None \<Rightarrow> ''meta-llama/Llama-Guard-3-8B'') in
      run_bind (send_checked x ''llama_guard'' send
        (with_headers (cc_extra_headers cfg) (with_timeout_ms (cc_timeout_ms cfg) (with_json (JObject [
            (''model'', JString model),
            (''messages'', JArray [JObject [(''role'', JString ''user''), (''content'', JString subject)]])])
          (with_header ''Authorization'' (''Bearer '' @ api_key) (json_request (cc_endpoint cfg))))))) (\<lambda>body.
      run_lift (llama_guard_parse_response out cfg body)))"

subsection \<open>Lakera Guard\<close>

definition lakera_category_scores :: "json \<Rightarrow> (string, (string \<times> f64) list) result" where
  "lakera_category_scores found = (case json_get found ''category_scores'' of
      None \<Rightarrow> Inr []
    | Some scores \<Rightarrow>
        rbind (ok_or ''lakera_guard response category_scores must be an object'' (as_object scores))
          (numeric_scores (\<lambda>category. ''lakera_guard response category_scores.'' @ category @ '' must be a number'')))"

definition lakera_category_flags :: "json \<Rightarrow> (string, (string \<times> bool) list) result" where
  "lakera_category_flags found = (case json_get found ''categories'' of
      None \<Rightarrow> Inr []
    | Some categories \<Rightarrow>
        rbind (ok_or ''lakera_guard response categories must be an object'' (as_object categories)) (\<lambda>object.
        rbind (try_map (\<lambda>(category, v). rbind (ok_or
            (''lakera_guard response categories.'' @ category @ '' must be a boolean'') (as_bool v))
            (\<lambda>flagged. Inr (category, flagged))) object) (\<lambda>pairs.
        Inr (bt_collect pairs))))"

definition lakera_parse_response ::
  "outside \<Rightarrow> classifier_config \<Rightarrow> string \<Rightarrow> (string, classifier_verdict) result"
where
  "lakera_parse_response out cfg body =
    rbind (map_err (\<lambda>e. ''lakera_guard JSON parse failed '' @ e) (o_from_str out body)) (\<lambda>v.
    rbind (ok_or ''lakera_guard response missing results[0]''
      (Option.bind (Option.bind (json_get v ''results'') as_array) first_item)) (\<lambda>found.
    rbind (ok_or ''lakera_guard response missing flagged'' (Option.bind (json_get found ''flagged'') as_bool))
      (\<lambda>flagged.
    rbind (lakera_category_scores found) (\<lambda>category_scores.
    if category_scores \<noteq> [] then Inr (honour_native_flag cfg flagged (fold_score_verdict cfg category_scores))
    else
      rbind (lakera_category_flags found) (\<lambda>category_flags.
      let flagged_categories = map fst (filter snd category_flags) in
      Inr \<lparr>cv_flagged = flagged, cv_score = (if flagged then f64_one else f64_zero),
        cv_threshold = cc_threshold cfg, cv_label = (case flagged_categories of c # _ \<Rightarrow> Some c | [] \<Rightarrow> None),
        cv_reason = (if flagged_categories \<noteq> [] then Some (join '', '' flagged_categories) else None),
        cv_category_scores = bt_collect (map (\<lambda>(category, is_flagged).
          (category, if is_flagged then f64_one else f64_zero)) category_flags)\<rparr>)))))"

definition lakera_classify :: "externals \<Rightarrow> outside \<Rightarrow> classifier" where
  "lakera_classify x out cfg subject send =
    run_bind (run_lift (nonempty_key cfg ''lakera_guard'')) (\<lambda>api_key.
    let endpoint = (if cc_endpoint cfg = [] then ''https://api.lakera.ai/v1/guard'' else cc_endpoint cfg) in
    run_bind (send_checked x ''lakera_guard'' send
      (with_headers (cc_extra_headers cfg) (with_timeout_ms (cc_timeout_ms cfg)
        (with_json (JObject [(''input'', JString subject)])
          (with_header ''Authorization'' (''Bearer '' @ api_key) (json_request endpoint)))))) (\<lambda>body.
    run_lift (lakera_parse_response out cfg body)))"

subsection \<open>The auto provider\<close>

definition canonical_provider_name :: "string \<Rightarrow> string" where
  "canonical_provider_name name =
    (let name = map to_ascii_lowercase (trim name) in
     if name \<in> {''aacs'', ''azure_content_safety'', ''azure-content-safety'', ''content_safety'', ''acs''} then ''aacs''
     else if name \<in> {''openai_moderation'', ''openai-moderation'', ''openai'', ''moderation'', ''openai_moderations''}
       then ''openai_moderation''
     else if name \<in> {''perspective'', ''perspective_api'', ''perspective-api''} then ''perspective''
     else if name \<in> {''llama_guard'', ''llama-guard'', ''llamaguard'', ''llama_guard_3''} then ''llama_guard''
     else if name \<in> {''lakera_guard'', ''lakera-guard'', ''lakera''} then ''lakera_guard''
     else name)"

definition provider_from_endpoint :: "string \<Rightarrow> string option" where
  "provider_from_endpoint endpoint =
    (let url = map to_ascii_lowercase endpoint in
     if contains_str url ''/contentsafety/'' \<or> contains_str url ''cognitiveservices'' then Some ''aacs''
     else if contains_str url ''commentanalyzer'' \<or> contains_str url ''comments:analyze'' then Some ''perspective''
     else if contains_str url ''lakera'' then Some ''lakera_guard''
     else if contains_str url ''/moderations'' then Some ''openai_moderation''
     else if contains_str url ''/chat/completions'' then Some ''llama_guard''
     else None)"

definition resolve_target_provider :: "classifier_config \<Rightarrow> (string, string) result" where
  "resolve_target_provider cfg =
    (case Option.bind (Option.bind (json_get (cc_provider_config cfg) ''provider'') as_str)
        (\<lambda>hint. if is_blank hint then None else Some hint) of
       Some hint \<Rightarrow>
         let target = canonical_provider_name hint in
         if target = ''auto'' then
           Inl (''auto classifier provider_config.provider cannot itself be '' @ quoted ''auto'')
         else Inr target
     | None \<Rightarrow>
         ok_or (''auto classifier could not determine a provider from the endpoint; set ''
           @ ''provider_config.provider to one of aacs, openai_moderation, perspective, ''
           @ ''llama_guard, lakera_guard'') (provider_from_endpoint (cc_endpoint cfg)))"

lemma resolve_target_not_auto: "resolve_target_provider cfg = Inr target \<Longrightarrow> target \<noteq> ''auto''"
  by (auto simp: resolve_target_provider_def provider_from_endpoint_def Let_def split: option.splits if_splits)

function classify :: "externals \<Rightarrow> outside \<Rightarrow> classifier" where
  "classify x out cfg subject send =
    (if cc_provider cfg = ''aacs'' then aacs_classify x out cfg subject send
     else if cc_provider cfg = ''openai_moderation'' then moderation_classify x out cfg subject send
     else if cc_provider cfg = ''perspective'' then perspective_classify x out cfg subject send
     else if cc_provider cfg = ''llama_guard'' then llama_guard_classify x out cfg subject send
     else if cc_provider cfg = ''lakera_guard'' then lakera_classify x out cfg subject send
     else if cc_provider cfg = ''auto'' then
       (case resolve_target_provider cfg of
          Inl e \<Rightarrow> run_lift (Inl e)
        | Inr target \<Rightarrow> classify x out (cfg\<lparr>cc_provider := target\<rparr>) subject send)
     else run_lift (Inl (''unsupported classifier provider '' @ quoted (cc_provider cfg))))"
  by auto

termination
  by (relation "measure (\<lambda>(_, _, cfg, _, _). if cc_provider cfg = ''auto'' then 1 else 0)")
    (auto dest: resolve_target_not_auto)

declare classify.simps [simp del]

section \<open>The classifier dispatcher\<close>

definition dispatch_generic ::
  "externals \<Rightarrow> outside \<Rightarrow> string \<Rightarrow> annotator_invocation \<Rightarrow> string \<Rightarrow> (runtime_error, json) dispatching"
where
  "dispatch_generic x out name annotator policy_target =
    run_bind (run_lift (required_string_field name (ai_fields annotator) ''url'')) (\<lambda>url.
    let input_field = (case optional_string_field (ai_fields annotator) ''input_field'' of
          Some f \<Rightarrow> f | None \<Rightarrow> ''input'') in
    run_bind (env_api_key out name annotator) (\<lambda>api_key.
    run_bind (run_lift (field_timeout_ms name (ai_fields annotator))) (\<lambda>timeout_ms.
    run_bind (post_json x out name url (JObject [(input_field, JString policy_target)]) api_key timeout_ms) (\<lambda>response.
    run_lift (case optional_string_field (ai_fields annotator) ''response_field'' of
        Some field \<Rightarrow> ok_or (failed name (''response missing field '' @ quoted field)) (json_get response field)
      | None \<Rightarrow> Inr response)))))"

definition dispatch_bundled_with_transport ::
  "externals \<Rightarrow> outside \<Rightarrow> string \<Rightarrow> annotator_invocation \<Rightarrow> string \<Rightarrow> transport \<Rightarrow> (runtime_error, json) dispatching"
where
  "dispatch_bundled_with_transport x out name annotator policy_target send =
    run_bind (run_map_err (failed name)
      (from_fields_with_provenance out (ai_fields annotator) (ai_url_sourced annotator))) (\<lambda>cfg.
    run_map_err (failed name) (run_bind (classify x out cfg policy_target send) (\<lambda>v. run_lift (Inr (cv_to_json v)))))"

definition classifier_dispatch_with_transport ::
  "externals \<Rightarrow> outside \<Rightarrow> string \<Rightarrow> annotator_invocation \<Rightarrow> json \<Rightarrow> transport \<Rightarrow> (runtime_error, json) dispatching"
where
  "classifier_dispatch_with_transport x out name annotator preliminary send =
    (if \<not> is_type annotator ''classifier'' then
       run_lift (Inl (failed name ''classifier dispatcher received a non-classifier annotator''))
     else
       run_bind (run_lift (policy_target_text (x_literal x) name annotator preliminary)) (\<lambda>policy_target.
       if optional_string_field (ai_fields annotator) ''provider'' = None then
         run_lift (Inl (failed name ''custom transport requires a bundled classifier provider''))
       else dispatch_bundled_with_transport x out name annotator policy_target send))"

definition classifier_dispatch ::
  "externals \<Rightarrow> outside \<Rightarrow> string \<Rightarrow> annotator_invocation \<Rightarrow> json \<Rightarrow> (runtime_error, json) dispatching"
where
  "classifier_dispatch x out name annotator preliminary =
    (if \<not> is_type annotator ''classifier'' then
       run_lift (Inl (failed name ''classifier dispatcher received a non-classifier annotator''))
     else
       run_bind (run_lift (policy_target_text (x_literal x) name annotator preliminary)) (\<lambda>policy_target.
       if optional_string_field (ai_fields annotator) ''provider'' \<noteq> None then
         dispatch_bundled_with_transport x out name annotator policy_target (send_transport_request out)
       else dispatch_generic x out name annotator policy_target))"

end
