(* ===== verification/Bedrock_Signing.thy ===== *)
theory Bedrock_Signing
  imports Annotator_Http Float64 "HOL-Library.Signed_Division"
begin

text \<open>
  AWS Signature Version 4 as the Bedrock provider computes it (\<open>llm.rs\<close>): the date of the
  request from the clock, HMAC-SHA256, canonical headers and the signature.
\<close>

section \<open>Dates\<close>

text \<open>Division of \<open>i64\<close> truncates.  Days count from 1970-01-01.\<close>

definition civil_from_days :: "int \<Rightarrow> int \<times> int \<times> int" where
  "civil_from_days days_since_epoch =
    (let z = days_since_epoch + 719468;
         era = (if z \<ge> 0 then z else z - 146096) sdiv 146097;
         doe = z - era * 146097;
         yoe = (doe - doe sdiv 1460 + doe sdiv 36524 - doe sdiv 146096) sdiv 365;
         y = yoe + era * 400;
         doy = doe - (365 * yoe + yoe sdiv 4 - yoe sdiv 100);
         mp = (5 * doy + 2) sdiv 153;
         d = doy - (153 * mp + 2) sdiv 5 + 1;
         m = mp + (if mp < 10 then 3 else - 9);
         year = y + (if m \<le> 2 then 1 else 0)
     in (year, m, d))"

definition int_padded :: "nat \<Rightarrow> int \<Rightarrow> string" where
  "int_padded width n =
    (if n < 0 then CHR ''-'' # zero_padded (width - 1) (nat (- n)) else zero_padded width (nat n))"

definition aws_dates :: "outside \<Rightarrow> (string, string \<times> string) dispatching" where
  "aws_dates out =
    run_bind (outward_call ClockRead (\<lambda>t. o_now out t)) (\<lambda>now.
    run_lift (rbind (map_err (\<lambda>e. ''system clock is before Unix epoch: '' @ e) now) (\<lambda>elapsed.
      let secs = sint (word_of_nat elapsed :: 64 word);
          days = secs div 86400;
          seconds_of_day = secs mod 86400 in
      case civil_from_days days of (year, month, day) \<Rightarrow>
        let hour = seconds_of_day sdiv 3600;
            minute = (seconds_of_day mod 3600) sdiv 60;
            second = seconds_of_day mod 60;
            date = int_padded 4 year @ int_padded 2 month @ int_padded 2 day in
        Inr (date @ ''T'' @ int_padded 2 hour @ int_padded 2 minute @ int_padded 2 second @ ''Z'', date))))"

section \<open>HMAC\<close>

definition byte_xor :: "nat \<Rightarrow> char \<Rightarrow> char" where
  "byte_xor n c = char_of (n XOR byte c)"

definition hmac_sha256 :: "externals \<Rightarrow> string \<Rightarrow> string \<Rightarrow> string" where
  "hmac_sha256 x key message =
    (let key_bytes = (if length key > 64 then x_sha256 x key else key);
         key_block = key_bytes @ replicate (64 - length key_bytes) (CHR 0x00);
         outer = map (byte_xor 92) key_block;
         inner = map (byte_xor 54) key_block
     in x_sha256 x (outer @ x_sha256 x (inner @ message)))"

definition hex_sha256 :: "externals \<Rightarrow> string \<Rightarrow> string" where
  "hex_sha256 x bytes = lower (x_sha256 x bytes)"

definition aws_signing_key :: "externals \<Rightarrow> string \<Rightarrow> string \<Rightarrow> string \<Rightarrow> string \<Rightarrow> string" where
  "aws_signing_key x secret_key date region service =
    (let k_date = hmac_sha256 x (''AWS4'' @ secret_key) date;
         k_region = hmac_sha256 x k_date region;
         k_service = hmac_sha256 x k_region service
     in hmac_sha256 x k_service ''aws4_request'')"

section \<open>Canonical form\<close>

text \<open>\<open>str::split_once\<close> with a character.\<close>

definition split_once :: "char \<Rightarrow> string \<Rightarrow> (string \<times> string) option" where
  "split_once c s =
    (if c \<in> set s then Some (takeWhile (\<lambda>d. d \<noteq> c) s, tl (dropWhile (\<lambda>d. d \<noteq> c) s)) else None)"

definition parse_url_for_signing :: "string \<Rightarrow> (string \<times> string \<times> string) option" where
  "parse_url_for_signing url =
    Option.bind (or_else (strip_prefix url ''https://'') (strip_prefix url ''http://'')) (\<lambda>rest.
    case (case split_once (CHR ''/'') rest of
        Some (host, path) \<Rightarrow> (host, CHR ''/'' # path)
      | None \<Rightarrow> (rest, ''/'')) of (host, path_and_query) \<Rightarrow>
    case (case split_once (CHR ''?'') path_and_query of
        Some (path, query) \<Rightarrow> (path, query)
      | None \<Rightarrow> (path_and_query, [])) of (path, query) \<Rightarrow>
    Some (host, path, query))"

text \<open>\<open>str::split_whitespace\<close>.\<close>

fun words_from :: "string list \<Rightarrow> string list \<Rightarrow> string list" where
  "words_from [] word = (if word = [] then [] else [concat word])"
| "words_from (c # cs) word =
    (if is_whitespace c then (if word = [] then [] else [concat word]) @ words_from cs []
     else words_from cs (word @ [c]))"

definition normalize_sigv4_header_value :: "string \<Rightarrow> string" where
  "normalize_sigv4_header_value v = join '' '' (words_from (chars v) [])"

definition normalized_headers :: "(string \<times> string) list \<Rightarrow> (string \<times> string) list" where
  "normalized_headers headers = fold (\<lambda>(name, v) m.
     let lower_name = map to_ascii_lowercase name; v = normalize_sigv4_header_value v in
     case map_of m lower_name of
       Some existing \<Rightarrow> bt_insert lower_name (existing @ '','' @ v) m
     | None \<Rightarrow> bt_insert lower_name v m) headers []"

definition canonical_sigv4_headers :: "(string \<times> string) list \<Rightarrow> string \<times> string" where
  "canonical_sigv4_headers headers =
    (let normalized = normalized_headers headers in
     (concat (map (\<lambda>(name, v). name @ '':'' @ v @ [CHR 0x0A]) normalized), join '';'' (map fst normalized)))"

definition hex_upper :: "nat \<Rightarrow> char" where
  "hex_upper n = (if n < 10 then digit n else char_of (55 + n))"

definition is_unreserved :: "char \<Rightarrow> bool" where
  "is_unreserved c \<longleftrightarrow> (CHR ''A'' \<le> c \<and> c \<le> CHR ''Z'') \<or> (CHR ''a'' \<le> c \<and> c \<le> CHR ''z'')
     \<or> (CHR ''0'' \<le> c \<and> c \<le> CHR ''9'') \<or> c \<in> {CHR ''-'', CHR ''_'', CHR ''.'', CHR ''~''}"

definition percent_encode_path_segment :: "string \<Rightarrow> string" where
  "percent_encode_path_segment v = concat (map (\<lambda>c.
     if is_unreserved c then [c]
     else [CHR ''%'', hex_upper (byte c div 16), hex_upper (byte c mod 16)]) v)"

section \<open>Signing\<close>

record bedrock_signing =
  bs_region :: string
  bs_access_key :: string
  bs_secret_key :: string
  bs_session_token :: "string option"
  bs_amz_date_override :: "string option"
  bs_date_override :: "string option"

definition NL :: string where
  "NL = [CHR 0x0A]"

definition put_header :: "string \<Rightarrow> string \<Rightarrow> transport_request \<Rightarrow> transport_request" where
  "put_header name v r = r\<lparr>tr_headers := bt_insert name v (tr_headers r)\<rparr>"

definition signed_request ::
  "externals \<Rightarrow> transport_request \<Rightarrow> bedrock_signing \<Rightarrow> string \<times> string \<Rightarrow> string \<times> string \<times> string \<Rightarrow> string
    \<Rightarrow> transport_request"
where
  "signed_request x request signing dates parts body_bytes =
    (case dates of (amz_date, date_stamp) \<Rightarrow> case parts of (host, canonical_uri, canonical_query) \<Rightarrow>
     let request = put_header ''x-amz-date'' amz_date (put_header ''host'' host request);
         request = (case bs_session_token signing of
           Some token \<Rightarrow> put_header ''x-amz-security-token'' token request | None \<Rightarrow> request);
         payload_hash = hex_sha256 x body_bytes;
         request = put_header ''x-amz-content-sha256'' payload_hash request in
     case canonical_sigv4_headers (tr_headers request) of (canonical_headers, signed_headers) \<Rightarrow>
     let canonical_request = ''POST'' @ NL @ canonical_uri @ NL @ canonical_query @ NL @ canonical_headers @ NL
           @ signed_headers @ NL @ payload_hash;
         credential_scope = date_stamp @ ''/'' @ bs_region signing @ ''/bedrock/aws4_request'';
         string_to_sign = ''AWS4-HMAC-SHA256'' @ NL @ amz_date @ NL @ credential_scope @ NL
           @ hex_sha256 x canonical_request;
         signing_key = aws_signing_key x (bs_secret_key signing) date_stamp (bs_region signing) ''bedrock'';
         signature = lower (hmac_sha256 x signing_key string_to_sign)
     in put_header ''Authorization'' (''AWS4-HMAC-SHA256 Credential='' @ bs_access_key signing @ ''/''
          @ credential_scope @ '', SignedHeaders='' @ signed_headers @ '', Signature='' @ signature) request)"

definition sign_bedrock_request ::
  "externals \<Rightarrow> outside \<Rightarrow> string \<Rightarrow> transport_request \<Rightarrow> bedrock_signing \<Rightarrow> (runtime_error, transport_request) dispatching"
where
  "sign_bedrock_request x out name request signing =
    run_bind (case (bs_amz_date_override signing, bs_date_override signing) of
        (Some amz_date, Some date) \<Rightarrow> run_lift (Inr (amz_date, date))
      | _ \<Rightarrow> run_map_err (failed name) (aws_dates out)) (\<lambda>dates.
    run_lift (
      rbind (ok_or (failed name ''bedrock endpoint must be an absolute HTTP URL'')
        (parse_url_for_signing (tr_url request))) (\<lambda>parts.
      rbind (map_err (\<lambda>e. failed name (''failed to serialize bedrock request: '' @ e))
        (o_to_vec out (tr_body request))) (\<lambda>body_bytes.
      Inr (signed_request x request signing dates parts body_bytes)))))"

end
