(* ===== verification/Llm.thy ===== *)
theory Llm
  imports Classifiers Bedrock_Signing Limits
begin

text \<open>
  The LLM dispatcher (\<open>llm.rs\<close>): configuration, the requests of the six providers, and the
  annotation read out of an answer.
\<close>

section \<open>Configuration\<close>

datatype llm_provider = OpenAi | OpenAiCompatible | AzureOpenAi | Bedrock | Gemini | Ollama

definition llm_provider_parse :: "string option \<Rightarrow> (string, llm_provider) result" where
  "llm_provider_parse v =
    (let name = map to_ascii_lowercase (case v of Some s \<Rightarrow> s | None \<Rightarrow> ''openai'') in
     if name = ''openai'' then Inr OpenAi
     else if name \<in> {''openai_compatible'', ''openai-compatible'', ''compatible''} then Inr OpenAiCompatible
     else if name \<in> {''azure_openai'', ''azure-openai''} then Inr AzureOpenAi
     else if name \<in> {''bedrock'', ''aws_bedrock'', ''aws-bedrock''} then Inr Bedrock
     else if name \<in> {''gemini'', ''google_gemini'', ''google-gemini''} then Inr Gemini
     else if name = ''ollama'' then Inr Ollama
     else Inl (''unsupported LLM provider '' @ quoted name))"

record llm_config =
  lc_provider :: llm_provider
  lc_endpoint :: "string option"
  lc_base_url :: "string option"
  lc_model :: string
  lc_deployment :: "string option"
  lc_api_version :: "string option"
  lc_api_key :: "string option"
  lc_api_key_env :: "string option"
  lc_api_key_header :: "string option"
  lc_timeout_ms :: nat
  lc_prompt :: string
  lc_label_field :: string
  lc_headers :: "(string \<times> string) list"
  lc_provider_config :: json
  lc_aws_region :: "string option"
  lc_aws_access_key_id :: "string option"
  lc_aws_access_key_id_env :: "string option"
  lc_aws_secret_access_key :: "string option"
  lc_aws_secret_access_key_env :: "string option"
  lc_aws_session_token :: "string option"
  lc_aws_session_token_env :: "string option"
  lc_aws_amz_date :: "string option"
  lc_aws_date :: "string option"
  lc_url_sourced :: bool

abbreviation opt_string :: "field_map \<Rightarrow> string \<Rightarrow> string option" where
  "opt_string \<equiv> optional_string_field"

definition unwrap_or :: "'a \<Rightarrow> 'a option \<Rightarrow> 'a" where
  "unwrap_or d v = (case v of Some a \<Rightarrow> a | None \<Rightarrow> d)"

definition llm_string_map :: "string \<Rightarrow> field_map \<Rightarrow> string \<Rightarrow> (runtime_error, (string \<times> string) list) result" where
  "llm_string_map annotator_name flds name = map_err (failed annotator_name) (optional_string_map flds name)"

definition secret_field_or_env ::
  "outside \<Rightarrow> string \<Rightarrow> string option \<Rightarrow> string option \<Rightarrow> string \<Rightarrow> bool \<Rightarrow> (runtime_error, string) dispatching"
where
  "secret_field_or_env out name direct env_name default_env from_url = (case direct of
      Some v \<Rightarrow> run_lift (Inr v)
    | None \<Rightarrow>
        let env_name = unwrap_or default_env env_name in
        run_bind (run_map_err (failed name) (host_env_read out from_url env_name)) (\<lambda>found.
        run_lift (ok_or (failed name (''credential environment variable '' @ quoted env_name @ '' is not set'')) found)))"

definition reject_api_key_env ::
  "outside \<Rightarrow> string \<Rightarrow> field_map \<Rightarrow> bool \<Rightarrow> string option \<Rightarrow> (runtime_error, unit) dispatching"
where
  "reject_api_key_env out name flds from_url default_env =
    (if opt_string flds ''api_key'' = None then
       (case or_else (opt_string flds ''api_key_env'') default_env of
          Some env_name \<Rightarrow>
            run_bind (run_map_err (failed name) (host_env_read out from_url env_name)) (\<lambda>_. run_lift (Inr ()))
        | None \<Rightarrow> run_lift (Inr ()))
     else run_lift (Inr ()))"

definition reject_pre_fetch_host_env_access ::
  "outside \<Rightarrow> string \<Rightarrow> llm_provider \<Rightarrow> field_map \<Rightarrow> bool \<Rightarrow> (runtime_error, unit) dispatching"
where
  "reject_pre_fetch_host_env_access out name provider flds from_url =
    (if \<not> from_url then run_lift (Inr ())
     else case provider of
       OpenAi \<Rightarrow> reject_api_key_env out name flds from_url (Some ''OPENAI_API_KEY'')
     | OpenAiCompatible \<Rightarrow> reject_api_key_env out name flds from_url None
     | AzureOpenAi \<Rightarrow> reject_api_key_env out name flds from_url (Some ''AZURE_OPENAI_API_KEY'')
     | Gemini \<Rightarrow> reject_api_key_env out name flds from_url (Some ''GEMINI_API_KEY'')
     | Ollama \<Rightarrow> run_lift (Inr ())
     | Bedrock \<Rightarrow>
         run_bind (if opt_string flds ''aws_region'' = None then
             run_bind (run_map_err (failed name) (host_env_read out from_url ''AWS_REGION'')) (\<lambda>_. run_lift (Inr ()))
           else run_lift (Inr ())) (\<lambda>_.
         run_bind (secret_field_or_env out name (opt_string flds ''aws_access_key_id'')
           (opt_string flds ''aws_access_key_id_env'') ''AWS_ACCESS_KEY_ID'' from_url) (\<lambda>_.
         run_bind (secret_field_or_env out name (opt_string flds ''aws_secret_access_key'')
           (opt_string flds ''aws_secret_access_key_env'') ''AWS_SECRET_ACCESS_KEY'' from_url) (\<lambda>_.
         run_lift (Inr ())))))"

definition fetch_pinned_https_text ::
  "externals \<Rightarrow> outside \<Rightarrow> limits \<Rightarrow> pinned_source \<Rightarrow> (runtime_error, string) dispatching"
where
  "fetch_pinned_https_text x out lim src t =
    (let fetched = fetch_pinned_https_bytes x (o_prompt out t lim) (o_deadline_ok out (manifest_url_timeout_ms lim))
           (manifest_url_timeout_ms lim) src in
     (rbind fetched (\<lambda>bytes. map_err (\<lambda>e. ManifestInvalid (''artifact URL '' @ quoted (ps_url src) @ '' is not UTF-8: '' @ e))
        (from_utf8 bytes)),
      if is_ok (pinned_validate x src) \<and> manifest_url_timeout_ms lim \<noteq> 0
        \<and> o_deadline_ok out (manifest_url_timeout_ms lim)
      then t @ [PromptFetched (ps_url src)] else t))"

definition llm_prompt ::
  "externals \<Rightarrow> outside \<Rightarrow> string \<Rightarrow> field_map \<Rightarrow> limits \<Rightarrow> (runtime_error, string) dispatching"
where
  "llm_prompt x out name flds lim =
    run_bind (run_lift (map_err (\<lambda>e. failed name (detail e)) (system_prompt_source x flds))) (\<lambda>src.
    case src of
      Some src \<Rightarrow> run_map_err (\<lambda>e. failed name (detail e)) (fetch_pinned_https_text x out lim src)
    | None \<Rightarrow> run_lift (Inr (unwrap_or
        ''Classify the input and respond with a JSON object containing a label field.''
        (or_else (opt_string flds ''system_prompt'') (opt_string flds ''prompt'')))))"

definition llm_from_fields ::
  "externals \<Rightarrow> outside \<Rightarrow> string \<Rightarrow> field_map \<Rightarrow> bool \<Rightarrow> limits \<Rightarrow> (runtime_error, llm_config) dispatching"
where
  "llm_from_fields x out name flds from_url lim =
    run_bind (run_lift (map_err (failed name) (llm_provider_parse (opt_string flds ''provider'')))) (\<lambda>provider.
    let model = unwrap_or (case provider of Gemini \<Rightarrow> ''gemini-1.5-flash'' | Ollama \<Rightarrow> ''llama3.1'' | _ \<Rightarrow> ''gpt-4o-mini'')
          (opt_string flds ''model'') in
    run_bind (reject_pre_fetch_host_env_access out name provider flds from_url) (\<lambda>_.
    run_bind (llm_prompt x out name flds lim) (\<lambda>prompt.
    run_lift (
      rbind (field_timeout_ms name flds) (\<lambda>timeout_ms.
      rbind (llm_string_map name flds ''headers'') (\<lambda>headers.
      Inr \<lparr>lc_provider = provider, lc_endpoint = opt_string flds ''endpoint'',
        lc_base_url = opt_string flds ''base_url'', lc_model = model,
        lc_deployment = opt_string flds ''deployment'', lc_api_version = opt_string flds ''api_version'',
        lc_api_key = opt_string flds ''api_key'', lc_api_key_env = opt_string flds ''api_key_env'',
        lc_api_key_header = opt_string flds ''api_key_header'', lc_timeout_ms = timeout_ms,
        lc_prompt = prompt, lc_label_field = unwrap_or ''label'' (opt_string flds ''label_field''),
        lc_headers = headers, lc_provider_config = unwrap_or JNull (map_of flds ''provider_config''),
        lc_aws_region = opt_string flds ''aws_region'',
        lc_aws_access_key_id = opt_string flds ''aws_access_key_id'',
        lc_aws_access_key_id_env = opt_string flds ''aws_access_key_id_env'',
        lc_aws_secret_access_key = opt_string flds ''aws_secret_access_key'',
        lc_aws_secret_access_key_env = opt_string flds ''aws_secret_access_key_env'',
        lc_aws_session_token = opt_string flds ''aws_session_token'',
        lc_aws_session_token_env = opt_string flds ''aws_session_token_env'',
        lc_aws_amz_date = opt_string flds ''aws_amz_date'', lc_aws_date = opt_string flds ''aws_date'',
        lc_url_sourced = from_url\<rparr>))))))"

definition secret_from_field_or_env ::
  "outside \<Rightarrow> string \<Rightarrow> llm_config \<Rightarrow> string option \<Rightarrow> (runtime_error, string option) dispatching"
where
  "secret_from_field_or_env out name cfg default_env = (case lc_api_key cfg of
      Some v \<Rightarrow> run_lift (Inr (Some v))
    | None \<Rightarrow> (case or_else (lc_api_key_env cfg) default_env of
          Some env_name \<Rightarrow>
            run_bind (run_map_err (failed name) (host_env_read out (lc_url_sourced cfg) env_name)) (\<lambda>found.
            run_lift (rbind (ok_or (failed name (''API key environment variable '' @ quoted env_name @ '' is not set'')) found)
              (\<lambda>key. Inr (Some key))))
        | None \<Rightarrow> run_lift (Inr None)))"

section \<open>Requests\<close>

definition base_request :: "llm_config \<Rightarrow> string \<Rightarrow> transport_request" where
  "base_request cfg url = with_headers (lc_headers cfg) (with_timeout_ms (lc_timeout_ms cfg) (json_request url))"

definition merge_provider_config :: "json \<Rightarrow> json \<Rightarrow> json" where
  "merge_provider_config body provider_config = (case (as_object provider_config, body) of
      (Some extra, JObject m) \<Rightarrow> JObject (fold (\<lambda>(key, v). jm_insert key v) extra m)
    | _ \<Rightarrow> body)"

definition auth_value :: "llm_config \<Rightarrow> string \<Rightarrow> string" where
  "auth_value cfg api_key = (if lc_api_key_header cfg \<noteq> None then api_key else ''Bearer '' @ api_key)"

definition chat_messages :: "llm_config \<Rightarrow> string \<Rightarrow> json" where
  "chat_messages cfg policy_target = JArray [
     JObject [(''role'', JString ''system''), (''content'', JString (lc_prompt cfg))],
     JObject [(''role'', JString ''user''), (''content'', JString policy_target)]]"

definition json_object_format :: json where
  "json_object_format = JObject [(''type'', JString ''json_object'')]"

definition openai_request ::
  "outside \<Rightarrow> string \<Rightarrow> llm_config \<Rightarrow> string \<Rightarrow> bool \<Rightarrow> (runtime_error, transport_request) dispatching"
where
  "openai_request out name cfg policy_target require_default_key =
    (let url = unwrap_or ''https://api.openai.com/v1/chat/completions'' (or_else (lc_endpoint cfg) (lc_base_url cfg));
         body = merge_provider_config (JObject [(''model'', JString (lc_model cfg)),
           (''messages'', chat_messages cfg policy_target), (''response_format'', json_object_format)])
           (lc_provider_config cfg);
         request = with_json body (base_request cfg url) in
     run_bind (secret_from_field_or_env out name cfg (if require_default_key then Some ''OPENAI_API_KEY'' else None)) (\<lambda>key.
     run_lift (Inr (case key of
         Some api_key \<Rightarrow> with_header (unwrap_or ''Authorization'' (lc_api_key_header cfg)) (auth_value cfg api_key) request
       | None \<Rightarrow> request))))"

definition azure_url :: "string \<Rightarrow> llm_config \<Rightarrow> (runtime_error, string) result" where
  "azure_url name cfg = (case lc_endpoint cfg of
      Some endpoint \<Rightarrow>
        if contains_str endpoint ''/chat/completions'' then Inr endpoint
        else
          rbind (ok_or (failed name (''azure_openai requires '' @ quoted ''deployment''
            @ '' when endpoint is not the full chat completions URL'')) (lc_deployment cfg)) (\<lambda>deployment.
          rbind (ok_or (failed name (''azure_openai requires '' @ quoted ''api_version''
            @ '' when endpoint is not the full chat completions URL'')) (lc_api_version cfg)) (\<lambda>api_version.
          Inr (trim_end_slashes endpoint @ ''/openai/deployments/'' @ deployment
            @ ''/chat/completions?api-version='' @ api_version)))
    | None \<Rightarrow> ok_or (failed name (''azure_openai requires '' @ quoted ''endpoint'' @ '' or a full '' @ quoted ''base_url''))
        (lc_base_url cfg))"

definition azure_openai_request ::
  "outside \<Rightarrow> string \<Rightarrow> llm_config \<Rightarrow> string \<Rightarrow> (runtime_error, transport_request) dispatching"
where
  "azure_openai_request out name cfg policy_target =
    run_bind (run_lift (azure_url name cfg)) (\<lambda>url.
    run_bind (secret_from_field_or_env out name cfg (Some ''AZURE_OPENAI_API_KEY'')) (\<lambda>key.
    run_lift (rbind (ok_or (failed name ''azure_openai requires an API key'') key) (\<lambda>api_key.
      Inr (with_json (merge_provider_config (JObject [
            (''messages'', chat_messages cfg policy_target), (''response_format'', json_object_format)])
            (lc_provider_config cfg))
        (with_header (unwrap_or ''api-key'' (lc_api_key_header cfg)) api_key (base_request cfg url)))))))"

definition text_part :: "string \<Rightarrow> json" where
  "text_part s = JObject [(''text'', JString s)]"

definition gemini_request ::
  "outside \<Rightarrow> string \<Rightarrow> llm_config \<Rightarrow> string \<Rightarrow> (runtime_error, transport_request) dispatching"
where
  "gemini_request out name cfg policy_target =
    run_bind (secret_from_field_or_env out name cfg (Some ''GEMINI_API_KEY'')) (\<lambda>key.
    run_lift (rbind (ok_or (failed name ''gemini requires an API key'') key) (\<lambda>api_key.
      let url = unwrap_or (''https://generativelanguage.googleapis.com/v1beta/models/'' @ lc_model cfg @ '':generateContent'')
            (lc_endpoint cfg) in
      Inr (with_json (merge_provider_config (JObject [
            (''systemInstruction'', JObject [(''parts'', JArray [text_part (lc_prompt cfg)])]),
            (''contents'', JArray [JObject [(''role'', JString ''user''), (''parts'', JArray [text_part policy_target])]]),
            (''generationConfig'', JObject [(''responseMimeType'', JString ''application/json'')])])
            (lc_provider_config cfg))
        (with_header (unwrap_or ''x-goog-api-key'' (lc_api_key_header cfg)) api_key (base_request cfg url))))))"

definition ollama_request :: "llm_config \<Rightarrow> string \<Rightarrow> transport_request" where
  "ollama_request cfg policy_target =
    (let url = unwrap_or ''http://localhost:11434/api/chat'' (or_else (lc_endpoint cfg)
           (map_option (\<lambda>base. trim_end_slashes base @ ''/api/chat'') (lc_base_url cfg))) in
     with_json (merge_provider_config (JObject [(''model'', JString (lc_model cfg)),
         (''messages'', chat_messages cfg policy_target), (''format'', JString ''json''), (''stream'', JBool False)])
         (lc_provider_config cfg))
       (base_request cfg url))"

definition bedrock_region :: "outside \<Rightarrow> string \<Rightarrow> llm_config \<Rightarrow> (runtime_error, string) dispatching" where
  "bedrock_region out name cfg = (case lc_aws_region cfg of
      Some region \<Rightarrow> run_lift (Inr region)
    | None \<Rightarrow>
        run_bind (run_map_err (failed name) (host_env_read out (lc_url_sourced cfg) ''AWS_REGION'')) (\<lambda>found.
        case found of
          Some region \<Rightarrow> run_lift (Inr region)
        | None \<Rightarrow>
            run_bind (run_map_err (failed name) (host_env_read out (lc_url_sourced cfg) ''AWS_DEFAULT_REGION'')) (\<lambda>found.
            run_lift (ok_or (failed name (''bedrock requires '' @ quoted ''aws_region'' @ '' or AWS_REGION'')) found))))"

definition require_non_empty :: "string \<Rightarrow> string \<Rightarrow> string \<Rightarrow> (runtime_error, string) result" where
  "require_non_empty name field v =
    (if v = [] then Inl (failed name (''missing required field '' @ quoted field)) else Inr v)"

definition bedrock_request ::
  "externals \<Rightarrow> outside \<Rightarrow> string \<Rightarrow> llm_config \<Rightarrow> string \<Rightarrow> (runtime_error, transport_request) dispatching"
where
  "bedrock_request x out name cfg policy_target =
    run_bind (bedrock_region out name cfg) (\<lambda>region.
    run_bind (secret_field_or_env out name (lc_aws_access_key_id cfg) (lc_aws_access_key_id_env cfg)
      ''AWS_ACCESS_KEY_ID'' (lc_url_sourced cfg)) (\<lambda>access_key.
    run_bind (secret_field_or_env out name (lc_aws_secret_access_key cfg) (lc_aws_secret_access_key_env cfg)
      ''AWS_SECRET_ACCESS_KEY'' (lc_url_sourced cfg)) (\<lambda>secret_key.
    run_bind (case lc_aws_session_token cfg of
        Some token \<Rightarrow> run_lift (Inr (Some token))
      | None \<Rightarrow> host_env_read_optional out (lc_url_sourced cfg)
          (unwrap_or ''AWS_SESSION_TOKEN'' (lc_aws_session_token_env cfg))) (\<lambda>session_token.
    run_bind (run_lift (require_non_empty name ''model'' (lc_model cfg))) (\<lambda>model.
    let url = unwrap_or (''https://bedrock-runtime.'' @ region @ ''.amazonaws.com/model/''
          @ percent_encode_path_segment model @ ''/converse'') (lc_endpoint cfg);
        body = merge_provider_config (JObject [(''system'', JArray [text_part (lc_prompt cfg)]),
          (''messages'', JArray [JObject [(''role'', JString ''user''), (''content'', JArray [text_part policy_target])]])])
          (lc_provider_config cfg) in
    sign_bedrock_request x out name (with_json body (base_request cfg url))
      \<lparr>bs_region = region, bs_access_key = access_key, bs_secret_key = secret_key,
       bs_session_token = session_token, bs_amz_date_override = lc_aws_amz_date cfg,
       bs_date_override = lc_aws_date cfg\<rparr>)))))"

definition request_for_provider ::
  "externals \<Rightarrow> outside \<Rightarrow> string \<Rightarrow> llm_config \<Rightarrow> string \<Rightarrow> (runtime_error, transport_request) dispatching"
where
  "request_for_provider x out name cfg policy_target = (case lc_provider cfg of
      OpenAi \<Rightarrow> openai_request out name cfg policy_target True
    | OpenAiCompatible \<Rightarrow> openai_request out name cfg policy_target False
    | AzureOpenAi \<Rightarrow> azure_openai_request out name cfg policy_target
    | Bedrock \<Rightarrow> bedrock_request x out name cfg policy_target
    | Gemini \<Rightarrow> gemini_request out name cfg policy_target
    | Ollama \<Rightarrow> run_lift (Inr (ollama_request cfg policy_target)))"

section \<open>Answers\<close>

definition content_text :: "json \<Rightarrow> string option" where
  "content_text v = (case v of
      JString s \<Rightarrow> Some s
    | JArray parts \<Rightarrow>
        let out = concat (map (\<lambda>part. unwrap_or [] (Option.bind (json_get part ''text'') as_str)) parts) in
        if out \<noteq> [] then Some out else None
    | _ \<Rightarrow> None)"

definition extract_openai_content :: "json \<Rightarrow> string option" where
  "extract_openai_content response =
    Option.bind (json_get response ''choices'') (\<lambda>v. Option.bind (as_array v) (\<lambda>choices.
    Option.bind (first_item choices) (\<lambda>choice. Option.bind (json_get choice ''message'') (\<lambda>message.
    Option.bind (json_get message ''content'') content_text))))"

definition extract_gemini_content :: "json \<Rightarrow> string option" where
  "extract_gemini_content response =
    Option.bind (json_get response ''candidates'') (\<lambda>v. Option.bind (as_array v) (\<lambda>candidates.
    Option.bind (first_item candidates) (\<lambda>candidate. Option.bind (json_get candidate ''content'') (\<lambda>content.
    Option.bind (json_get content ''parts'') content_text))))"

definition extract_ollama_content :: "json \<Rightarrow> string option" where
  "extract_ollama_content response =
    or_else (Option.bind (json_get response ''message'') (\<lambda>message. Option.bind (json_get message ''content'') content_text))
      (Option.bind (json_get response ''response'') as_str)"

definition extract_bedrock_content :: "json \<Rightarrow> string option" where
  "extract_bedrock_content response =
    Option.bind (json_get response ''output'') (\<lambda>v. Option.bind (json_get v ''message'') (\<lambda>message.
    Option.bind (json_get message ''content'') content_text))"

definition annotation_from_json_text :: "outside \<Rightarrow> string \<Rightarrow> string \<Rightarrow> string \<Rightarrow> (runtime_error, json) result" where
  "annotation_from_json_text out name label_field raw =
    rbind (map_err (\<lambda>e. failed name (''model content was not valid JSON: '' @ e)) (o_from_str out raw)) (\<lambda>parsed.
    rbind (ok_or (failed name (''model JSON missing string field '' @ quoted label_field))
      (Option.bind (json_get parsed label_field) as_str)) (\<lambda>label.
    Inr (JObject [(''label'', JString label), (''raw'', JString raw)])))"

definition annotation_from_provider_response ::
  "outside \<Rightarrow> string \<Rightarrow> llm_config \<Rightarrow> json \<Rightarrow> (runtime_error, json) result"
where
  "annotation_from_provider_response out name cfg response =
    rbind (ok_or (failed name ''LLM response missing text content'')
      (case lc_provider cfg of
         Gemini \<Rightarrow> extract_gemini_content response
       | Ollama \<Rightarrow> extract_ollama_content response
       | Bedrock \<Rightarrow> extract_bedrock_content response
       | _ \<Rightarrow> extract_openai_content response))
      (annotation_from_json_text out name (lc_label_field cfg))"

definition ensure_success :: "externals \<Rightarrow> outside \<Rightarrow> string \<Rightarrow> transport_response \<Rightarrow> (runtime_error, unit) result" where
  "ensure_success x out name response =
    (if 200 \<le> ts_status response \<and> ts_status response < 300 then Inr ()
     else Inl (failed name (describe_http_failure x out (ts_status response) (ts_body response))))"

section \<open>Dispatch\<close>

definition llm_dispatch_with_transport ::
  "externals \<Rightarrow> outside \<Rightarrow> string \<Rightarrow> annotator_invocation \<Rightarrow> json \<Rightarrow> transport \<Rightarrow> limits \<Rightarrow> (runtime_error, json) dispatching"
where
  "llm_dispatch_with_transport x out name annotator preliminary send lim =
    (if \<not> is_type annotator ''llm'' then run_lift (Inl (failed name ''LLM dispatcher received a non-LLM annotator''))
     else
       run_bind (llm_from_fields x out name (ai_fields annotator) (ai_url_sourced annotator) lim) (\<lambda>cfg.
       run_bind (run_lift (policy_target_text (x_literal x) name annotator preliminary)) (\<lambda>policy_target.
       run_bind (request_for_provider x out name cfg policy_target) (\<lambda>request.
       run_bind (run_map_err (failed name) (send request)) (\<lambda>response.
       run_lift (
         rbind (ensure_success x out name response) (\<lambda>_.
         rbind (map_err (\<lambda>e. failed name (''LLM response was not valid JSON: '' @ e)) (o_from_str out (ts_body response)))
           (annotation_from_provider_response out name cfg))))))))"

definition configured_llm_dispatch ::
  "externals \<Rightarrow> outside \<Rightarrow> limits \<Rightarrow> string \<Rightarrow> annotator_invocation \<Rightarrow> json \<Rightarrow> (runtime_error, json) dispatching"
where
  "configured_llm_dispatch x out lim name annotator preliminary =
    llm_dispatch_with_transport x out name annotator preliminary (send_transport_request out) lim"

definition llm_dispatch ::
  "externals \<Rightarrow> outside \<Rightarrow> string \<Rightarrow> annotator_invocation \<Rightarrow> json \<Rightarrow> (runtime_error, json) dispatching"
where
  "llm_dispatch x out name annotator preliminary =
    llm_dispatch_with_transport x out name annotator preliminary (send_transport_request out) default_limits"

end
