(* ===== verification/Default_Dispatch.thy ===== *)
theory Default_Dispatch
  imports Llm Activation
begin

text \<open>
  The bundled dispatchers as a host without dispatchers of its own gets them: annotators by
  their declared type (\<open>default.rs\<close>), policies by their engine (\<open>binding.rs\<close>), and the
  activations that use them (\<open>mod.rs\<close>, \<open>activation.rs\<close>).  The evaluators of Rego and Cedar are
  arguments; they keep a cache, so they are computations over a state.
\<close>

section \<open>Annotators\<close>

definition configured_annotator_dispatch ::
  "externals \<Rightarrow> outside \<Rightarrow> limits \<Rightarrow> string \<Rightarrow> annotator_invocation \<Rightarrow> json \<Rightarrow> (runtime_error, json) dispatching"
where
  "configured_annotator_dispatch x out lim name annotator preliminary =
    (case Option.bind (invocation_field annotator ''type'') as_str of
       Some ty \<Rightarrow>
         if ty = ''classifier'' then classifier_dispatch x out name annotator preliminary
         else if ty = ''llm'' then configured_llm_dispatch x out lim name annotator preliminary
         else if ty = ''endpoint'' then endpoint_dispatch x out name annotator preliminary
         else run_lift (Inl (failed name (''default annotator dispatcher does not support type '' @ quoted ty)))
     | None \<Rightarrow> run_lift (Inl (failed name (''annotator is missing a '' @ quoted ''type'' @ '' field''))))"

definition default_annotator_dispatch ::
  "externals \<Rightarrow> outside \<Rightarrow> string \<Rightarrow> annotator_invocation \<Rightarrow> json \<Rightarrow> (runtime_error, json) dispatching"
where
  "default_annotator_dispatch x out name annotator preliminary =
    configured_annotator_dispatch x out default_limits name annotator preliminary"

definition default_annotator_dispatcher_for ::
  "externals \<Rightarrow> outside \<Rightarrow> manifest \<Rightarrow> limits
    \<Rightarrow> (runtime_error, string \<Rightarrow> annotator_invocation \<Rightarrow> json \<Rightarrow> (runtime_error, json) dispatching) result"
where
  "default_annotator_dispatcher_for x out m lim =
    rbind (manifest_validate x m) (\<lambda>_. Inr (configured_annotator_dispatch x out lim))"

section \<open>Policies\<close>

record 's engines =
  rego_warm :: "prepared_invocation \<Rightarrow> ('s, runtime_error, unit) stateful"
  rego_evaluate :: "prepared_invocation \<Rightarrow> ('s, runtime_error, json) stateful"
  cedar_warm :: "prepared_invocation \<Rightarrow> ('s, runtime_error, unit) stateful"
  cedar_evaluate :: "prepared_invocation \<Rightarrow> ('s, runtime_error, json) stateful"

definition binding_warm :: "'s engines \<Rightarrow> prepared_invocation \<Rightarrow> ('s, runtime_error, unit) stateful" where
  "binding_warm e invocation = (case invocation of
      RegoInvocation _ \<Rightarrow> rego_warm e invocation
    | CedarInvocation _ \<Rightarrow> cedar_warm e invocation
    | _ \<Rightarrow> run_lift (Inr ()))"

definition binding_evaluate :: "'s engines \<Rightarrow> prepared_invocation \<Rightarrow> ('s, runtime_error, json) stateful" where
  "binding_evaluate e invocation = (case invocation of
      RegoInvocation _ \<Rightarrow> rego_evaluate e invocation
    | CedarInvocation _ \<Rightarrow> cedar_evaluate e invocation
    | TestInvocation test \<Rightarrow> run_lift (ok_or
        (PolicyInvocationFailed (''test policy declares no '' @ quoted ''verdict'' @ '' in its configuration''))
        (map_of (ti_adapter_config test) ''verdict''))
    | CustomInvocation custom \<Rightarrow> run_lift (Inl (PolicyInvocationFailed
        (''custom policy adapter '' @ quoted (ui_adapter custom)
          @ '' requires a host-supplied dispatcher; none is available over this binding''))))"

text \<open>Whether the default policy dispatcher is built for a manifest; it is the Rego evaluator.\<close>

definition default_policy_dispatcher :: "manifest \<Rightarrow> (runtime_error, unit) result" where
  "default_policy_dispatcher m = try_each (\<lambda>(name, policy).
     let engine = engine_type policy in
     if engine \<noteq> ''rego'' then
       Inl (PolicyInvocationFailed (''default policy dispatcher supports only Rego policies; policy ''
         @ quoted name @ '' uses engine '' @ quoted engine))
     else Inr ()) (m_policies m)"

section \<open>Activation with the bundled dispatchers\<close>

definition activate_manifest :: "externals \<Rightarrow> warmer \<Rightarrow> manifest \<Rightarrow> activated_policy warming" where
  "activate_manifest x rego m =
    run_bind (run_lift (default_policy_dispatcher m)) (\<lambda>_. activate_with x rego m)"

definition activate_from_path :: "externals \<Rightarrow> environment \<Rightarrow> warmer \<Rightarrow> string \<Rightarrow> activated_policy warming" where
  "activate_from_path x env rego path =
    run_bind (run_lift (fst (load x env default_limits path loader_new))) (activate_manifest x rego)"

definition activate_from_memory ::
  "externals \<Rightarrow> environment \<Rightarrow> warmer \<Rightarrow> string \<Rightarrow> (string \<times> in_memory_bundle) list \<Rightarrow> activated_policy warming"
where
  "activate_from_memory x env rego manifest_yaml bundles =
    run_bind (run_lift (manifest_from_memory env manifest_yaml bundles)) (activate_manifest x rego)"

end
