(* ===== verification/Dispatch_Laws.thy ===== *)
theory Dispatch_Laws
  imports Default_Dispatch Run_Spec
begin

text \<open>
  What a bundled annotator dispatch may do on the outside: which parts of the host it reads,
  how often it posts and what it sends, and which errors it reports.
\<close>

section \<open>Outward actions of a dispatch\<close>

definition annotation_error :: "runtime_error \<Rightarrow> bool" where
  "annotation_error e \<longleftrightarrow> (\<exists>d. e = AnnotationFailed d \<or> e = AnnotationTimeout d)"

lemma annotation_error_simps [simp]:
  "annotation_error (failed name d)" "annotation_error (transport_error name u)"
  by (simp_all add: annotation_error_def failed_def transport_error_def)

text \<open>A fetched invocation reads nothing of the host environment.\<close>

definition keeps_out :: "bool \<Rightarrow> outward \<Rightarrow> bool" where
  "keeps_out from_url a = (case a of EnvRead _ \<Rightarrow> \<not> from_url | _ \<Rightarrow> True)"

lemma keeps_out_simps [simp]:
  "keeps_out from_url (EnvRead v) \<longleftrightarrow> \<not> from_url" "keeps_out from_url ClockRead"
  "keeps_out from_url (PromptFetched u)" "keeps_out from_url (Posted r)"
  by (simp_all add: keeps_out_def)

abbreviation sound :: "bool \<Rightarrow> ('e \<Rightarrow> bool) \<Rightarrow> ('a \<Rightarrow> bool) \<Rightarrow> ('e, 'a) dispatching \<Rightarrow> bool" where
  "sound from_url \<equiv> run_spec (keeps_out from_url)"

named_theorems dispatch_intros \<open>what the parts of a dispatch may do\<close>

lemma lift_errors_in [dispatch_intros]: "errors_in E r \<Longrightarrow> run_spec P E (\<lambda>_. True) (run_lift r)"
  by (rule spec_lift) (simp add: errors_in_def split: sum.splits)

lemma spec_bind_any [dispatch_intros]:
  "run_spec P E (\<lambda>_. True) m \<Longrightarrow> (\<And>a. run_spec P E Q (f a)) \<Longrightarrow> run_spec P E Q (run_bind m f)"
  by (rule spec_bind)

lemma map_err_any [dispatch_intros]:
  "run_spec P (\<lambda>_. True) Q m \<Longrightarrow> (\<And>e. E (g e)) \<Longrightarrow> run_spec P E Q (run_map_err g m)"
  by (rule spec_map_err) (rule run_spec_weaken, auto)

lemma outward_call_spec [dispatch_intros]: "P a \<Longrightarrow> run_spec P E (\<lambda>_. True) (outward_call a f)"
  by (simp add: run_spec_def outward_call_def)

lemma host_env_read_spec [dispatch_intros]:
  "sound from_url (\<lambda>_. True) (\<lambda>_. True) (host_env_read out from_url name)"
  unfolding host_env_read_def read_with_def env_var_def
  by (intro emits_intros dispatch_intros) simp

lemma host_env_read_optional_spec [dispatch_intros]:
  "sound from_url E (\<lambda>_. True) (host_env_read_optional out from_url name)"
  using host_env_read_spec [of from_url out name]
  by (simp add: run_spec_def host_env_read_optional_def split_beta)

lemma exchange_spec [dispatch_intros]: "sound from_url E (\<lambda>_. True) (exchange out r)"
  unfolding exchange_def by (intro dispatch_intros) simp

lemma errors_any: "errors_in (\<lambda>_. True) r"
  by (simp add: errors_in_def split: sum.splits)

lemma policy_target_text_errors [errors_in_intros]:
  "errors_in annotation_error (policy_target_text lit name annotator input)"
  unfolding policy_target_text_def Let_def by (intro errors_in_intros) simp_all

lemma field_errors [errors_in_intros]:
  "errors_in annotation_error (field_timeout_ms name flds)"
  "errors_in annotation_error (required_string_field name flds f)"
  unfolding field_timeout_ms_def required_string_field_def
  by (auto split: option.splits json.splits)

lemma post_json_spec [dispatch_intros]:
  "sound from_url annotation_error (\<lambda>_. True) (post_json x out name url payload auth timeout_ms)"
  unfolding post_json_def parse_response_def
  by (intro emits_intros dispatch_intros errors_in_intros) simp_all

lemma endpoint_dispatch_spec [dispatch_intros]:
  "sound from_url annotation_error (\<lambda>_. True) (endpoint_dispatch x out name annotator input)"
  unfolding endpoint_dispatch_def
  by (intro emits_intros dispatch_intros errors_in_intros) simp_all

lemma send_transport_request_spec [dispatch_intros]:
  "sound from_url (\<lambda>_. True) (\<lambda>_. True) (send_transport_request out request)"
  unfolding send_transport_request_def
  by (intro emits_intros dispatch_intros errors_in_intros errors_any)

lemma env_api_key_spec [dispatch_intros]:
  "sound (ai_url_sourced annotator) annotation_error (\<lambda>_. True) (env_api_key out name annotator)"
  unfolding env_api_key_def
  by (intro emits_intros dispatch_intros errors_in_intros) simp_all

lemma dispatch_generic_spec [dispatch_intros]:
  "sound (ai_url_sourced annotator) annotation_error (\<lambda>_. True) (dispatch_generic x out name annotator policy_target)"
  unfolding dispatch_generic_def Let_def
  by (intro emits_intros dispatch_intros errors_in_intros) simp_all

lemma from_fields_with_provenance_spec [dispatch_intros]:
  "sound from_url (\<lambda>_. True) (\<lambda>_. True) (from_fields_with_provenance out flds from_url)"
  unfolding from_fields_with_provenance_def
  by (intro emits_intros dispatch_intros errors_any)

lemma send_checked_spec [dispatch_intros]:
  "(\<And>r. sound from_url (\<lambda>_. True) (\<lambda>_. True) (send r))
    \<Longrightarrow> sound from_url (\<lambda>_. True) (\<lambda>_. True) (send_checked x provider send request)"
  unfolding send_checked_def by (intro emits_intros dispatch_intros errors_any)

lemmas provider_defs = aacs_classify_def moderation_classify_def perspective_classify_def
  llama_guard_classify_def lakera_classify_def

lemma providers_spec [dispatch_intros]:
  assumes "\<And>r. sound from_url (\<lambda>_. True) (\<lambda>_. True) (send r)"
  shows "sound from_url (\<lambda>_. True) (\<lambda>_. True) (aacs_classify x out cfg subject send)"
    "sound from_url (\<lambda>_. True) (\<lambda>_. True) (moderation_classify x out cfg subject send)"
    "sound from_url (\<lambda>_. True) (\<lambda>_. True) (perspective_classify x out cfg subject send)"
    "sound from_url (\<lambda>_. True) (\<lambda>_. True) (llama_guard_classify x out cfg subject send)"
    "sound from_url (\<lambda>_. True) (\<lambda>_. True) (lakera_classify x out cfg subject send)"
  unfolding provider_defs by (intro emits_intros dispatch_intros errors_any assms)+

lemma classify_spec [dispatch_intros]:
  assumes "\<And>r. sound from_url (\<lambda>_. True) (\<lambda>_. True) (send r)"
  shows "sound from_url (\<lambda>_. True) (\<lambda>_. True) (classify x out cfg subject send)"
  using assms
proof (induction x out cfg subject send rule: classify.induct)
  case (1 x out cfg subject send)
  have chosen: "sound from_url (\<lambda>_. True) (\<lambda>_. True) (case resolve_target_provider cfg of
      Inl e \<Rightarrow> run_lift (Inl e)
    | Inr target \<Rightarrow> classify x out (cfg\<lparr>cc_provider := target\<rparr>) subject send)" if "cc_provider cfg = ''auto''"
  proof (cases "resolve_target_provider cfg")
    case (Inr target)
    then show ?thesis
      using 1 that by simp
  qed (simp del: run_lift_eq add: emits_lift)
  show ?case
    by (subst classify.simps) (intro spec_if emits_lift providers_spec chosen 1; assumption)
qed

lemma classifier_dispatch_spec [dispatch_intros]:
  "sound (ai_url_sourced annotator) annotation_error (\<lambda>_. True) (classifier_dispatch x out name annotator input)"
  unfolding classifier_dispatch_def dispatch_bundled_with_transport_def
  by (intro emits_intros dispatch_intros errors_in_intros errors_any) simp_all

section \<open>LLM dispatch\<close>

lemma secret_field_or_env_spec [dispatch_intros]:
  "sound from_url annotation_error (\<lambda>_. True) (secret_field_or_env out name direct env d from_url)"
  unfolding secret_field_or_env_def
  by (intro emits_intros dispatch_intros errors_in_intros) simp_all

lemma reject_pre_fetch_spec [dispatch_intros]:
  "sound from_url annotation_error (\<lambda>_. True) (reject_pre_fetch_host_env_access out name provider flds from_url)"
proof -
  have "sound from_url annotation_error (\<lambda>_. True) (reject_api_key_env out name flds from_url d)" for d
    unfolding reject_api_key_env_def by (intro emits_intros dispatch_intros errors_in_intros) simp_all
  then show ?thesis
    unfolding reject_pre_fetch_host_env_access_def
    by (cases provider) (auto intro!: emits_intros dispatch_intros errors_in_intros)
qed

lemma llm_prompt_spec [dispatch_intros]:
  "sound from_url annotation_error (\<lambda>_. True) (llm_prompt x out name flds lim)"
proof -
  have "run_spec (keeps_out from_url) (\<lambda>_. True) (\<lambda>_. True) (fetch_pinned_https_text x out lim src)" for src
    by (simp add: run_spec_def fetch_pinned_https_text_def Let_def split: sum.splits)
  then show ?thesis
    unfolding llm_prompt_def
    by (intro emits_intros dispatch_intros errors_in_intros) simp_all
qed

lemma llm_from_fields_spec:
  "sound from_url annotation_error (\<lambda>cfg. lc_url_sourced cfg = from_url) (llm_from_fields x out name flds from_url lim)"
  unfolding llm_from_fields_def Let_def llm_string_map_def
  by (intro emits_intros dispatch_intros errors_in_intros spec_lift)
    (auto simp: rbind_def map_err_def split: sum.splits dest: errors_inD [OF field_errors(1)])

lemma secret_from_field_or_env_spec [dispatch_intros]:
  "sound (lc_url_sourced cfg) annotation_error (\<lambda>_. True) (secret_from_field_or_env out name cfg d)"
  unfolding secret_from_field_or_env_def
  by (intro emits_intros dispatch_intros errors_in_intros) simp_all

lemma sign_bedrock_request_spec [dispatch_intros]:
  "sound from_url annotation_error (\<lambda>_. True) (sign_bedrock_request x out name request signing)"
  unfolding sign_bedrock_request_def aws_dates_def
  by (intro emits_intros dispatch_intros errors_in_intros errors_any) simp_all

lemma bedrock_request_spec [dispatch_intros]:
  "sound (lc_url_sourced cfg) annotation_error (\<lambda>_. True) (bedrock_request x out name cfg policy_target)"
  unfolding bedrock_request_def bedrock_region_def require_non_empty_def
  by (intro emits_intros dispatch_intros errors_in_intros) simp_all

lemma request_for_provider_spec [dispatch_intros]:
  "sound (lc_url_sourced cfg) annotation_error (\<lambda>_. True) (request_for_provider x out name cfg policy_target)"
  unfolding request_for_provider_def openai_request_def azure_openai_request_def azure_url_def gemini_request_def
  by (cases "lc_provider cfg") (auto intro!: emits_intros dispatch_intros errors_in_intros simp del: run_lift_eq)

lemma ensure_success_errors [errors_in_intros]: "errors_in annotation_error (ensure_success x out name response)"
  unfolding ensure_success_def by (intro errors_in_intros) simp

lemma annotation_response_errors [errors_in_intros]:
  "errors_in annotation_error (annotation_from_provider_response out name cfg response)"
  unfolding annotation_from_provider_response_def annotation_from_json_text_def
  by (intro errors_in_intros) simp_all

lemma configured_llm_dispatch_spec [dispatch_intros]:
  "sound (ai_url_sourced annotator) annotation_error (\<lambda>_. True) (configured_llm_dispatch x out lim name annotator input)"
proof -
  have rest: "sound from_url annotation_error (\<lambda>_. True)
      (run_bind (run_lift (policy_target_text (x_literal x) name annotator input)) (\<lambda>policy_target.
       run_bind (request_for_provider x out name cfg policy_target) (\<lambda>request.
       run_bind (run_map_err (failed name) (send_transport_request out request)) (\<lambda>response.
       run_lift (
         rbind (ensure_success x out name response) (\<lambda>_.
         rbind (map_err (\<lambda>e. failed name (''LLM response was not valid JSON: '' @ e)) (o_from_str out (ts_body response)))
           (annotation_from_provider_response out name cfg)))))))" if "lc_url_sourced cfg = from_url" for cfg from_url
    unfolding that [symmetric] by (intro emits_intros dispatch_intros errors_in_intros) simp_all
  show ?thesis
    unfolding configured_llm_dispatch_def llm_dispatch_with_transport_def
    by (intro spec_if spec_bind [OF llm_from_fields_spec] rest lift_errors_in errors_in_intros) simp_all
qed

lemma annotator_dispatch_spec:
  "sound (ai_url_sourced annotator) annotation_error (\<lambda>_. True)
     (configured_annotator_dispatch x out lim name annotator input)"
  unfolding configured_annotator_dispatch_def
  by (intro emits_intros dispatch_intros errors_in_intros) simp_all

section \<open>Independence of the host environment\<close>

lemma run_bind_eq:
  assumes "m = m'" "\<And>v t t'. m t = (Inr v, t') \<Longrightarrow> f v = f' v"
  shows "run_bind m f = run_bind m' f'"
proof
  fix t
  show "run_bind m f t = run_bind m' f' t"
    using assms by (cases "m' t") (auto simp: run_bind_def split: sum.splits)
qed

lemma host_env_blind: "host_env_read (out\<lparr>o_env := env\<rparr>) True v = host_env_read out True v"
  by (simp add: host_env_read_def read_with_def)

lemma host_env_optional_blind: "host_env_read_optional (out\<lparr>o_env := env\<rparr>) True v = host_env_read_optional out True v"
  by (rule ext) (simp add: host_env_read_optional_def host_env_blind)

lemma exchange_blind: "exchange (out\<lparr>o_env := env\<rparr>) r = exchange out r"
  by (simp add: exchange_def)

lemma post_json_blind: "post_json x (out\<lparr>o_env := env\<rparr>) name url payload auth n = post_json x out name url payload auth n"
  by (simp add: post_json_def exchange_blind describe_http_failure_def parse_response_def cong: if_cong)

lemma endpoint_blind: "endpoint_dispatch x (out\<lparr>o_env := env\<rparr>) name annotator input = endpoint_dispatch x out name annotator input"
  by (simp add: endpoint_dispatch_def post_json_blind cong: if_cong)

lemma send_blind: "send_transport_request (out\<lparr>o_env := env\<rparr>) = send_transport_request out"
  by (rule ext) (simp add: send_transport_request_def exchange_blind cong: if_cong)

lemma parsers_blind:
  "aacs_parse_response (out\<lparr>o_env := env\<rparr>) = aacs_parse_response out"
  "moderation_parse_response (out\<lparr>o_env := env\<rparr>) = moderation_parse_response out"
  "perspective_parse_response (out\<lparr>o_env := env\<rparr>) = perspective_parse_response out"
  "llama_guard_parse_response (out\<lparr>o_env := env\<rparr>) = llama_guard_parse_response out"
  "lakera_parse_response (out\<lparr>o_env := env\<rparr>) = lakera_parse_response out"
  by (intro ext, simp add: aacs_parse_response_def moderation_parse_response_def
      perspective_parse_response_def llama_guard_parse_response_def lakera_parse_response_def)+

lemma providers_blind:
  "aacs_classify x (out\<lparr>o_env := env\<rparr>) = aacs_classify x out"
  "moderation_classify x (out\<lparr>o_env := env\<rparr>) = moderation_classify x out"
  "perspective_classify x (out\<lparr>o_env := env\<rparr>) = perspective_classify x out"
  "llama_guard_classify x (out\<lparr>o_env := env\<rparr>) = llama_guard_classify x out"
  "lakera_classify x (out\<lparr>o_env := env\<rparr>) = lakera_classify x out"
  by (intro ext, simp add: provider_defs parsers_blind cong: if_cong)+

lemma classify_blind: "classify x (out\<lparr>o_env := env\<rparr>) cfg subject send = classify x out cfg subject send"
proof (induction x out cfg subject send rule: classify.induct)
  case (1 x out cfg subject send)
  then show ?case
    by (simp add: classify.simps [of x "out\<lparr>o_env := env\<rparr>" cfg subject send] classify.simps [of x out cfg subject send]
        providers_blind split: sum.splits)
qed

lemma classifier_blind:
  assumes "ai_url_sourced annotator"
  shows "classifier_dispatch x (out\<lparr>o_env := env\<rparr>) name annotator input = classifier_dispatch x out name annotator input"
  using assms
  by (simp add: classifier_dispatch_def dispatch_bundled_with_transport_def dispatch_generic_def classify_blind
      from_fields_with_provenance_def env_api_key_def host_env_blind send_blind post_json_blind Let_def
      cong: if_cong option.case_cong)

lemma llm_from_fields_blind: "llm_from_fields x (out\<lparr>o_env := env\<rparr>) name flds True lim = llm_from_fields x out name flds True lim"
proof -
  have "fetch_pinned_https_text x (out\<lparr>o_env := env\<rparr>) lim src = fetch_pinned_https_text x out lim src" for src
    by (rule ext) (simp add: fetch_pinned_https_text_def)
  then show ?thesis
    by (simp add: llm_from_fields_def llm_prompt_def reject_pre_fetch_host_env_access_def reject_api_key_env_def
        secret_field_or_env_def host_env_blind cong: llm_provider.case_cong option.case_cong)
qed

lemma request_blind:
  assumes "lc_url_sourced cfg"
  shows "request_for_provider x (out\<lparr>o_env := env\<rparr>) name cfg policy_target = request_for_provider x out name cfg policy_target"
  using assms
  by (simp add: request_for_provider_def openai_request_def azure_openai_request_def gemini_request_def
      bedrock_request_def bedrock_region_def secret_from_field_or_env_def secret_field_or_env_def host_env_blind
      host_env_optional_blind sign_bedrock_request_def aws_dates_def outward_call_def Let_def
      cong: llm_provider.case_cong option.case_cong)

lemma answer_blind:
  "ensure_success x (out\<lparr>o_env := env\<rparr>) name response = ensure_success x out name response"
  "annotation_from_provider_response (out\<lparr>o_env := env\<rparr>) name cfg = annotation_from_provider_response out name cfg"
proof -
  have "annotation_from_json_text (out\<lparr>o_env := env\<rparr>) name field = annotation_from_json_text out name field" for field
    by (rule ext) (simp add: annotation_from_json_text_def)
  then show "annotation_from_provider_response (out\<lparr>o_env := env\<rparr>) name cfg = annotation_from_provider_response out name cfg"
    by (intro ext) (simp add: annotation_from_provider_response_def)
  show "ensure_success x (out\<lparr>o_env := env\<rparr>) name response = ensure_success x out name response"
    by (simp add: ensure_success_def describe_http_failure_def)
qed

lemma llm_blind:
  assumes "ai_url_sourced annotator"
  shows "configured_llm_dispatch x (out\<lparr>o_env := env\<rparr>) lim name annotator input
    = configured_llm_dispatch x out lim name annotator input"
proof -
  let ?rest = "\<lambda>out cfg. run_bind (run_lift (policy_target_text (x_literal x) name annotator input)) (\<lambda>policy_target.
       run_bind (request_for_provider x out name cfg policy_target) (\<lambda>request.
       run_bind (run_map_err (failed name) (send_transport_request out request)) (\<lambda>response.
       run_lift (
         rbind (ensure_success x out name response) (\<lambda>_.
         rbind (map_err (\<lambda>e. failed name (''LLM response was not valid JSON: '' @ e)) (o_from_str out (ts_body response)))
           (annotation_from_provider_response out name cfg))))))"
  have rest: "?rest (out\<lparr>o_env := env\<rparr>) cfg = ?rest out cfg" if "lc_url_sourced cfg" for cfg
    using that by (simp add: request_blind send_blind answer_blind)
  have "run_bind (llm_from_fields x (out\<lparr>o_env := env\<rparr>) name (ai_fields annotator) True lim) (?rest (out\<lparr>o_env := env\<rparr>))
      = run_bind (llm_from_fields x out name (ai_fields annotator) True lim) (?rest out)"
  proof (rule run_bind_eq [OF llm_from_fields_blind])
    fix cfg t t'
    assume "llm_from_fields x (out\<lparr>o_env := env\<rparr>) name (ai_fields annotator) True lim t = (Inr cfg, t')"
    then show "?rest (out\<lparr>o_env := env\<rparr>) cfg = ?rest out cfg"
      using run_specD(2) [OF llm_from_fields_spec] by (intro rest) fastforce
  qed
  then show ?thesis
    using assms by (simp add: configured_llm_dispatch_def llm_dispatch_with_transport_def)
qed

lemma annotator_dispatch_blind:
  assumes "ai_url_sourced annotator"
  shows "configured_annotator_dispatch x (out\<lparr>o_env := env\<rparr>) lim name annotator input
    = configured_annotator_dispatch x out lim name annotator input"
  using assms by (simp add: configured_annotator_dispatch_def classifier_blind llm_blind endpoint_blind split: option.splits)

text \<open>
  C10: No annotator of a URL sourced manifest reaches the host environment.  Whatever the
  bundled dispatcher does for such an invocation, it reads no environment variable, neither
  one the manifest names nor a default of a provider, and its result and its outward actions
  are the same in every environment.
\<close>

theorem fetched_annotators_keep_out_of_environment:
  assumes "url_sourced m"
    and "configured_annotator_dispatch x out lim name (from_annotation_in m annotator annotation) input t = (r, t')"
  shows "\<exists>acts. t' = t @ acts \<and> (\<forall>v. EnvRead v \<notin> set acts)
    \<and> (\<forall>env. configured_annotator_dispatch x (out\<lparr>o_env := env\<rparr>) lim name (from_annotation_in m annotator annotation) input t
        = (r, t'))"
proof -
  have "ai_url_sourced (from_annotation_in m annotator annotation)"
    using assms(1) by (simp add: from_annotation_in_def Let_def)
  then show ?thesis
    using emitsD [OF annotator_dispatch_spec assms(2)] assms(2) annotator_dispatch_blind
    by (fastforce simp: list_all_iff)
qed

section \<open>Posts\<close>

text \<open>
  A computation that posts nothing, and one whose actions end in at most one post, in exactly
  one if it returns a value.
\<close>

definition no_post :: "outward \<Rightarrow> bool" where
  "no_post a = (case a of Posted _ \<Rightarrow> False | _ \<Rightarrow> True)"

lemma no_post_simps [simp]:
  "no_post (EnvRead v)" "no_post ClockRead" "no_post (PromptFetched u)" "\<not> no_post (Posted r)"
  by (simp_all add: no_post_def)

abbreviation postless :: "('e, 'a) dispatching \<Rightarrow> bool" where
  "postless \<equiv> emits no_post"

definition posts_last :: "('e, 'a) dispatching \<Rightarrow> bool" where
  "posts_last m \<longleftrightarrow> (\<forall>t. \<exists>acts. snd (m t) = t @ acts
    \<and> ((\<exists>pre request. acts = pre @ [Posted request] \<and> list_all no_post pre)
       \<or> (\<not> is_ok (fst (m t)) \<and> list_all no_post acts)))"

lemma posts_last_error: "posts_last (run_lift (Inl e))"
  by (simp add: posts_last_def)

lemma posts_last_exchange: "posts_last (exchange out r)"
  by (simp add: posts_last_def exchange_def outward_call_def)

lemma posts_last_map_err: "posts_last m \<Longrightarrow> posts_last (run_map_err g m)"
  unfolding posts_last_def run_map_err_def by (auto simp: split_beta is_ok_def map_err_def split: sum.splits)

lemma posts_last_then:
  assumes "posts_last m"
  shows "posts_last (run_bind m (\<lambda>a. run_lift (f a)))"
  unfolding posts_last_def
proof
  fix t
  obtain r s where m: "m t = (r, s)"
    by fastforce
  from assms obtain acts where acts: "s = t @ acts"
    "(\<exists>pre request. acts = pre @ [Posted request] \<and> list_all no_post pre) \<or> (\<not> is_ok r \<and> list_all no_post acts)"
    unfolding posts_last_def by (metis fst_conv m snd_conv)
  show "\<exists>acts. snd (run_bind m (\<lambda>a. run_lift (f a)) t) = t @ acts
    \<and> ((\<exists>pre request. acts = pre @ [Posted request] \<and> list_all no_post pre)
       \<or> (\<not> is_ok (fst (run_bind m (\<lambda>a. run_lift (f a)) t)) \<and> list_all no_post acts))"
    using acts m by (cases r) (auto simp: run_bind_def)
qed

lemma posts_last_bind:
  assumes "postless m" "\<And>a. posts_last (f a)"
  shows "posts_last (run_bind m f)"
  unfolding posts_last_def
proof
  fix t
  obtain r s where m: "m t = (r, s)"
    by fastforce
  from emitsD [OF assms(1) m] obtain pre where pre: "s = t @ pre" "list_all no_post pre"
    by blast
  show "\<exists>acts. snd (run_bind m f t) = t @ acts
    \<and> ((\<exists>pre request. acts = pre @ [Posted request] \<and> list_all no_post pre)
       \<or> (\<not> is_ok (fst (run_bind m f t)) \<and> list_all no_post acts))"
  proof (cases r)
    case (Inr a)
    obtain acts where acts: "snd (f a s) = s @ acts"
      "(\<exists>pre request. acts = pre @ [Posted request] \<and> list_all no_post pre)
       \<or> (\<not> is_ok (fst (f a s)) \<and> list_all no_post acts)"
      using assms(2) [of a] unfolding posts_last_def by blast
    have "run_bind m f t = f a s"
      using m Inr by (simp add: run_bind_def)
    then show ?thesis
      using acts pre by (intro exI [of _ "pre @ acts"]) (auto simp: is_ok_def intro: exI [of _ "pre @ _"])
  qed (use m pre in \<open>auto simp: run_bind_def\<close>)
qed

named_theorems posts_intros \<open>structural rules for \<open>posts_last\<close>\<close>

lemma posts_last_if:
  "(b \<Longrightarrow> posts_last m) \<Longrightarrow> (\<not> b \<Longrightarrow> posts_last n) \<Longrightarrow> posts_last (if b then m else n)"
  by simp

lemma posts_last_Let: "(\<And>a. posts_last (f a)) \<Longrightarrow> posts_last (Let v f)"
  by simp

lemma posts_last_case_option:
  "posts_last m \<Longrightarrow> (\<And>y. posts_last (f y)) \<Longrightarrow> posts_last (case v of None \<Rightarrow> m | Some y \<Rightarrow> f y)"
  by (cases v) simp_all

lemmas posts_rules [posts_intros] = posts_last_error posts_last_exchange posts_last_map_err posts_last_then
  posts_last_if posts_last_Let posts_last_case_option

lemmas postless_rules = emits_lift emits_bind emits_map_err emits_case_option emits_Let spec_if

text \<open>What reads of the environment and of the clock come to, for any choice of actions that
  admits them.\<close>

lemma host_env_emits:
  assumes "\<And>v. P (EnvRead v)"
  shows "emits P (host_env_read out from_url v)" "emits P (host_env_read_optional out from_url v)"
proof -
  show read: "emits P (host_env_read out from_url v)"
    unfolding host_env_read_def read_with_def env_var_def by (intro postless_rules outward_call_spec assms)
  show "emits P (host_env_read_optional out from_url v)"
    using read by (simp add: run_spec_def host_env_read_optional_def split_beta)
qed

lemma config_emits:
  assumes "\<And>v. P (EnvRead v)"
  shows "emits P (env_api_key out name annotator)"
    "emits P (from_fields_with_provenance out flds from_url)"
    "emits P (secret_field_or_env out name direct env d from_url)"
    "emits P (secret_from_field_or_env out name cfg dflt)"
    "emits P (bedrock_region out name cfg)"
    "emits P (reject_api_key_env out name flds from_url dflt)"
  unfolding env_api_key_def from_fields_with_provenance_def secret_field_or_env_def secret_from_field_or_env_def
    bedrock_region_def reject_api_key_env_def
  by (intro postless_rules host_env_emits assms)+

lemma pre_fetch_emits:
  assumes "\<And>v. P (EnvRead v)"
  shows "emits P (reject_pre_fetch_host_env_access out name provider flds from_url)"
  unfolding reject_pre_fetch_host_env_access_def
  by (cases provider) (auto intro!: postless_rules host_env_emits config_emits assms simp del: run_lift_eq)

lemma prompt_emits:
  assumes "\<And>src. system_prompt_source x flds = Inr (Some src) \<Longrightarrow> P (PromptFetched (ps_url src))"
  shows "emits P (llm_prompt x out name flds lim)"
proof -
  have fetch: "emits P (fetch_pinned_https_text x out lim src)" if "P (PromptFetched (ps_url src))" for src
    using that by (simp add: run_spec_def fetch_pinned_https_text_def Let_def split: sum.splits)
  show ?thesis
    unfolding llm_prompt_def
  proof (rule spec_bind [where R = "\<lambda>src. system_prompt_source x flds = Inr src"])
    show "run_spec P (\<lambda>_. True) (\<lambda>src. system_prompt_source x flds = Inr src)
        (run_lift (map_err (\<lambda>e. failed name (detail e)) (system_prompt_source x flds)))"
      by (rule spec_lift) (simp add: map_err_def split: sum.splits)
  next
    fix src
    assume "system_prompt_source x flds = Inr src"
    then show "emits P (case src of
        Some src \<Rightarrow> run_map_err (\<lambda>e. failed name (detail e)) (fetch_pinned_https_text x out lim src)
      | None \<Rightarrow> run_lift (Inr (unwrap_or
          ''Classify the input and respond with a JSON object containing a label field.''
          (or_else (opt_string flds ''system_prompt'') (opt_string flds ''prompt'')))))"
      using fetch assms by (cases src) (auto intro!: postless_rules simp del: run_lift_eq)
  qed
qed

lemma llm_from_fields_emits:
  assumes "\<And>v. P (EnvRead v)"
    and "\<And>src. system_prompt_source x flds = Inr (Some src) \<Longrightarrow> P (PromptFetched (ps_url src))"
  shows "emits P (llm_from_fields x out name flds from_url lim)"
  unfolding llm_from_fields_def by (intro postless_rules pre_fetch_emits prompt_emits assms)

lemma request_emits:
  assumes "\<And>v. P (EnvRead v)" "P ClockRead"
  shows "emits P (request_for_provider x out name cfg policy_target)"
proof -
  have "emits P (sign_bedrock_request x out name request signing)" for request signing
    unfolding sign_bedrock_request_def aws_dates_def
    by (intro postless_rules emits_case_prod outward_call_spec assms)
  then show ?thesis
    unfolding request_for_provider_def openai_request_def azure_openai_request_def gemini_request_def bedrock_request_def
    by (cases "lc_provider cfg") (auto intro!: postless_rules config_emits host_env_emits assms simp del: run_lift_eq)
qed

lemmas config_postless = config_emits [where P = no_post, OF no_post_simps(1)]
lemmas llm_from_fields_postless = llm_from_fields_emits [where P = no_post, OF no_post_simps(1,3)]
lemmas request_postless = request_emits [where P = no_post, OF no_post_simps(1,2)]

lemma post_json_posts [posts_intros]: "posts_last (post_json x out name url payload auth n)"
  unfolding post_json_def by (intro posts_intros)

lemma send_posts [posts_intros]: "posts_last (send_transport_request out request)"
  unfolding send_transport_request_def by (intro posts_intros)

lemma providers_post:
  assumes "\<And>r. posts_last (send r)"
  shows "posts_last (aacs_classify x out cfg subject send)" "posts_last (moderation_classify x out cfg subject send)"
    "posts_last (perspective_classify x out cfg subject send)" "posts_last (llama_guard_classify x out cfg subject send)"
    "posts_last (lakera_classify x out cfg subject send)"
  unfolding provider_defs send_checked_def
  by (intro posts_intros posts_last_bind emits_lift assms)+

lemma classify_posts:
  assumes "\<And>r. posts_last (send r)"
  shows "posts_last (classify x out cfg subject send)"
  using assms
proof (induction x out cfg subject send rule: classify.induct)
  case (1 x out cfg subject send)
  have chosen: "posts_last (case resolve_target_provider cfg of
      Inl e \<Rightarrow> run_lift (Inl e)
    | Inr target \<Rightarrow> classify x out (cfg\<lparr>cc_provider := target\<rparr>) subject send)" if "cc_provider cfg = ''auto''"
    using 1 that by (auto simp del: run_lift_eq simp: posts_last_error split: sum.splits)
  show ?case
    by (subst classify.simps) (intro posts_last_if posts_last_error providers_post chosen 1; assumption)
qed

lemma annotator_dispatch_posts: "posts_last (configured_annotator_dispatch x out lim name annotator input)"
proof -
  have "posts_last (endpoint_dispatch x out name annotator input)"
    unfolding endpoint_dispatch_def by (intro posts_intros posts_last_bind emits_lift)
  moreover have "posts_last (classifier_dispatch x out name annotator input)"
    unfolding classifier_dispatch_def dispatch_generic_def dispatch_bundled_with_transport_def
    by (intro posts_intros posts_last_bind emits_lift emits_map_err config_postless classify_posts)
  moreover have "posts_last (configured_llm_dispatch x out lim name annotator input)"
    unfolding configured_llm_dispatch_def llm_dispatch_with_transport_def
    by (intro posts_intros posts_last_bind emits_lift llm_from_fields_postless request_postless)
  ultimately show ?thesis
    unfolding configured_annotator_dispatch_def by (intro posts_intros)
qed

text \<open>The one other request a dispatch may send: a prompt, once, where an LLM annotator pins one.\<close>

definition prompt_fetch :: "outward \<Rightarrow> bool" where
  "prompt_fetch a = (case a of PromptFetched _ \<Rightarrow> True | _ \<Rightarrow> False)"

lemma prompt_fetch_simps [simp]:
  "\<not> prompt_fetch (EnvRead v)" "\<not> prompt_fetch ClockRead" "prompt_fetch (PromptFetched u)" "\<not> prompt_fetch (Posted r)"
  by (simp_all add: prompt_fetch_def)

abbreviation fetchless :: "('e, 'a) dispatching \<Rightarrow> bool" where
  "fetchless \<equiv> emits (\<lambda>a. \<not> prompt_fetch a)"

definition fetches_once :: "('e, 'a) dispatching \<Rightarrow> bool" where
  "fetches_once m \<longleftrightarrow> (\<forall>t r t'. m t = (r, t') \<longrightarrow> (\<exists>acts. t' = t @ acts \<and> length (filter prompt_fetch acts) \<le> 1))"

lemma fetchless_filter: "list_all (\<lambda>a. \<not> prompt_fetch a) acts \<Longrightarrow> filter prompt_fetch acts = []"
  by (simp add: list_all_iff)

lemma fetchless_once: "fetchless m \<Longrightarrow> fetches_once m"
  unfolding fetches_once_def using fetchless_filter by (metis emitsD le0 list.size(3))

lemma fetches_once_bind:
  assumes "fetches_once m" "\<And>a. fetchless (f a)"
  shows "fetches_once (run_bind m f)"
  unfolding fetches_once_def
proof (intro allI impI)
  fix t r t'
  assume run: "run_bind m f t = (r, t')"
  obtain r1 s where m: "m t = (r1, s)"
    by fastforce
  obtain acts where acts: "s = t @ acts" "length (filter prompt_fetch acts) \<le> 1"
    using assms(1) m unfolding fetches_once_def by blast
  show "\<exists>acts. t' = t @ acts \<and> length (filter prompt_fetch acts) \<le> 1"
  proof (cases r1)
    case (Inl e)
    then show ?thesis
      using run m acts by (auto simp: run_bind_def)
  next
    case (Inr a)
    then have "f a s = (r, t')"
      using run m by (simp add: run_bind_def)
    then obtain more where "t' = s @ more" "list_all (\<lambda>a. \<not> prompt_fetch a) more"
      using emitsD [OF assms(2)] by blast
    then show ?thesis
      using acts by (intro exI [of _ "acts @ more"]) (simp add: fetchless_filter)
  qed
qed

lemma fetches_once_after:
  assumes "fetchless m" "\<And>a. fetches_once (f a)"
  shows "fetches_once (run_bind m f)"
  unfolding fetches_once_def
proof (intro allI impI)
  fix t r t'
  assume run: "run_bind m f t = (r, t')"
  obtain r1 s where m: "m t = (r1, s)"
    by fastforce
  obtain acts where acts: "s = t @ acts" "filter prompt_fetch acts = []"
    using emitsD [OF assms(1) m] fetchless_filter by blast
  show "\<exists>acts. t' = t @ acts \<and> length (filter prompt_fetch acts) \<le> 1"
  proof (cases r1)
    case (Inl e)
    then show ?thesis
      using run m acts by (auto simp: run_bind_def)
  next
    case (Inr a)
    then have "f a s = (r, t')"
      using run m by (simp add: run_bind_def)
    then obtain more where "t' = s @ more" "length (filter prompt_fetch more) \<le> 1"
      using assms(2) [of a] unfolding fetches_once_def by blast
    then show ?thesis
      using acts by (intro exI [of _ "acts @ more"]) simp
  qed
qed

lemma fetches_once_lift: "fetches_once (run_lift r)"
  by (simp add: fetches_once_def)

lemma prompt_once: "fetches_once (llm_prompt x out name flds lim)"
proof -
  have "fetches_once (run_map_err g (fetch_pinned_https_text x out lim src))" for g src
    by (simp add: fetches_once_def run_map_err_def fetch_pinned_https_text_def Let_def)
  then show ?thesis
    unfolding llm_prompt_def
    by (intro fetches_once_after emits_lift) (auto simp del: run_lift_eq simp: fetches_once_lift split: option.splits)
qed

lemma llm_once: "fetches_once (configured_llm_dispatch x out lim name annotator input)"
proof -
  have "fetches_once (llm_from_fields x out name flds from_url lim)" for flds from_url
    unfolding llm_from_fields_def Let_def
    by (intro fetches_once_after emits_lift pre_fetch_emits fetches_once_bind prompt_once) simp
  moreover have "fetchless (send_transport_request out request)" for request
    unfolding send_transport_request_def exchange_def by (intro postless_rules outward_call_spec) simp_all
  ultimately show ?thesis
    unfolding configured_llm_dispatch_def llm_dispatch_with_transport_def
    by (auto intro!: fetches_once_bind postless_rules request_emits fetches_once_lift simp del: run_lift_eq)
qed

lemma classify_emits:
  assumes "\<And>r. emits P (send r)"
  shows "emits P (classify x out cfg subject send)"
  using assms
proof (induction x out cfg subject send rule: classify.induct)
  case (1 x out cfg subject send)
  have providers: "emits P (aacs_classify x out cfg subject send)" "emits P (moderation_classify x out cfg subject send)"
    "emits P (perspective_classify x out cfg subject send)" "emits P (llama_guard_classify x out cfg subject send)"
    "emits P (lakera_classify x out cfg subject send)"
    unfolding provider_defs send_checked_def by (intro postless_rules "1.prems")+
  have chosen: "emits P (case resolve_target_provider cfg of
      Inl e \<Rightarrow> run_lift (Inl e)
    | Inr target \<Rightarrow> classify x out (cfg\<lparr>cc_provider := target\<rparr>) subject send)" if "cc_provider cfg = ''auto''"
    using 1 that by (auto simp del: run_lift_eq intro: emits_lift split: sum.splits)
  show ?case
    by (subst classify.simps) (intro spec_if emits_lift providers chosen; assumption)
qed

lemma others_fetch_nothing:
  "fetchless (endpoint_dispatch x out name annotator input)" "fetchless (classifier_dispatch x out name annotator input)"
proof -
  have exchange: "fetchless (exchange out request)" for request
    unfolding exchange_def by (rule outward_call_spec) simp
  have post: "fetchless (post_json x out name url payload auth n)" for url payload auth n
    unfolding post_json_def by (intro postless_rules exchange)
  have send: "fetchless (send_transport_request out request)" for request
    unfolding send_transport_request_def by (intro postless_rules exchange)
  show "fetchless (endpoint_dispatch x out name annotator input)"
    unfolding endpoint_dispatch_def by (intro postless_rules post config_emits)
  show "fetchless (classifier_dispatch x out name annotator input)"
    unfolding classifier_dispatch_def dispatch_generic_def dispatch_bundled_with_transport_def
    by (intro postless_rules post send config_emits classify_emits) simp_all
qed

lemma annotator_dispatch_fetches:
  "fetches_once (configured_annotator_dispatch x out lim name annotator input)"
  "emits (\<lambda>a. \<forall>u. a = PromptFetched u \<longrightarrow> is_type annotator ''llm''
      \<and> (\<exists>src. system_prompt_source x (ai_fields annotator) = Inr (Some src) \<and> u = ps_url src))
    (configured_annotator_dispatch x out lim name annotator input)"
proof -
  show "fetches_once (configured_annotator_dispatch x out lim name annotator input)"
    unfolding configured_annotator_dispatch_def
    by (auto simp del: run_lift_eq simp: fetches_once_lift llm_once split: option.splits
        intro!: fetchless_once others_fetch_nothing)
  let ?P = "\<lambda>a. \<forall>u. a = PromptFetched u \<longrightarrow> is_type annotator ''llm''
      \<and> (\<exists>src. system_prompt_source x (ai_fields annotator) = Inr (Some src) \<and> u = ps_url src)"
  have others: "emits ?P m" if "fetchless m" for m :: "(runtime_error, json) dispatching"
    using that by (rule run_spec_weaken) auto
  have send: "emits ?P (send_transport_request out request)" for request
    unfolding send_transport_request_def exchange_def by (intro postless_rules outward_call_spec) simp
  have "emits ?P (configured_llm_dispatch x out lim name annotator input)"
    unfolding configured_llm_dispatch_def llm_dispatch_with_transport_def
  proof (rule spec_if)
    assume "\<not> \<not> is_type annotator ''llm''"
    then show "emits ?P (run_bind (llm_from_fields x out name (ai_fields annotator) (ai_url_sourced annotator) lim) (\<lambda>cfg.
       run_bind (run_lift (policy_target_text (x_literal x) name annotator input)) (\<lambda>policy_target.
       run_bind (request_for_provider x out name cfg policy_target) (\<lambda>request.
       run_bind (run_map_err (failed name) (send_transport_request out request)) (\<lambda>response.
       run_lift (
         rbind (ensure_success x out name response) (\<lambda>_.
         rbind (map_err (\<lambda>e. failed name (''LLM response was not valid JSON: '' @ e)) (o_from_str out (ts_body response)))
           (annotation_from_provider_response out name cfg))))))))"
      by (intro postless_rules llm_from_fields_emits request_emits send) simp_all
  qed (rule emits_lift)
  then show "emits ?P (configured_annotator_dispatch x out lim name annotator input)"
    unfolding configured_annotator_dispatch_def
    by (auto simp del: run_lift_eq split: option.splits intro!: others others_fetch_nothing emits_lift)
qed

text \<open>
  C11: A dispatch of the bundled annotators asks once.  It posts at most one request, as the
  last thing it does, and posts one if it returns an annotation: nothing is retried, no
  redirect is followed, and an annotation is never made up without asking.  The only other
  request it may send is one before that, for the pinned prompt that an LLM annotator
  declares.  Every failure is reported as a failed or timed out annotation, so the runtime
  denies.
\<close>

theorem annotator_dispatch_asks_once:
  assumes "configured_annotator_dispatch x out lim name annotator input t = (r, t')"
  shows "\<exists>acts. t' = t @ acts
    \<and> ((\<exists>pre request. acts = pre @ [Posted request] \<and> list_all no_post pre)
        \<or> ((\<exists>e. r = Inl e) \<and> list_all no_post acts))
    \<and> length (filter prompt_fetch acts) \<le> 1
    \<and> (\<forall>u. PromptFetched u \<in> set acts \<longrightarrow> is_type annotator ''llm''
        \<and> (\<exists>src. system_prompt_source x (ai_fields annotator) = Inr (Some src) \<and> u = ps_url src))
    \<and> (case r of Inl e \<Rightarrow> annotation_error e | Inr _ \<Rightarrow> True)"
proof -
  have "\<not> is_ok r \<Longrightarrow> \<exists>e. r = Inl e"
    by (cases r) simp_all
  then obtain acts where acts: "t' = t @ acts"
      "(\<exists>pre request. acts = pre @ [Posted request] \<and> list_all no_post pre) \<or> ((\<exists>e. r = Inl e) \<and> list_all no_post acts)"
    using annotator_dispatch_posts [of x out lim name annotator input] assms
    unfolding posts_last_def by (metis fst_conv snd_conv)
  have "case r of Inl e \<Rightarrow> annotation_error e | Inr _ \<Rightarrow> True"
    using run_specD(1) [OF annotator_dispatch_spec] assms by (fastforce split: sum.splits)
  moreover have "length (filter prompt_fetch acts) \<le> 1"
    using annotator_dispatch_fetches(1) assms acts(1) unfolding fetches_once_def by blast
  moreover have "\<forall>u. PromptFetched u \<in> set acts \<longrightarrow> is_type annotator ''llm''
      \<and> (\<exists>src. system_prompt_source x (ai_fields annotator) = Inr (Some src) \<and> u = ps_url src)"
    using emitsD [OF annotator_dispatch_fetches(2) assms] acts(1) by (auto simp: list_all_iff)
  ultimately show ?thesis
    using acts by blast
qed

section \<open>What an endpoint receives\<close>

lemma configured_fields_get:
  assumes "bt_inv flds" "configured_fields flds transport = JObject sent"
  shows "map_of sent k = (if k \<in> set transport then None else map_of flds k)"
proof -
  let ?kept = "filter (\<lambda>(key, _). key \<notin> set transport) flds"
  have "distinct (map fst ?kept)"
    using bt_inv_distinct [OF assms(1)] by (simp add: distinct_map_filter)
  then have "map_of (rev ?kept) = map_of ?kept"
    by (metis distinct_rev map_of_inject_set rev_map set_rev)
  then have "map_of sent = map_of ?kept"
    using jm.get_collect [of ?kept] assms(2) by (simp add: configured_fields_def)
  moreover have "map_of ?kept k = (if k \<in> set transport then None else map_of flds k)"
    by (induction flds) auto
  ultimately show ?thesis
    by simp
qed

text \<open>
  C12: What an endpoint annotator receives.  The one request it is sent goes to the declared
  endpoint and carries no authorization header; its body has the text under judgement and
  the fields of the invocation that are not transport settings, each unchanged, and none of
  the fields in which a manifest keeps a credential or names one.
\<close>

theorem endpoint_receives_no_credential:
  assumes "endpoint_dispatch x out name annotator input t = (r, t @ acts)" "Posted request \<in> set acts"
    and "bt_inv (ai_fields annotator)"
  shows "\<exists>asked sent. ob_body request = o_show out (JObject [(''input'', JString asked), (''fields'', JObject sent)])
    \<and> policy_target_text (x_literal x) name annotator input = Inr asked
    \<and> (\<forall>k\<in>set (INLINE_CREDENTIAL_FIELDS @ HOST_ENV_SECRET_FIELDS). map_of sent k = None)
    \<and> (\<forall>k. k \<notin> set ENDPOINT_TRANSPORT_FIELDS \<longrightarrow> map_of sent k = map_of (ai_fields annotator) k)
    \<and> map fst (ob_headers request) = [''Content-Type'', ''Accept'']
    \<and> Some (ob_url request) = or_else (optional_string_field (ai_fields annotator) ''endpoint'')
        (optional_string_field (ai_fields annotator) ''url'')"
proof -
  obtain sent where sent: "configured_fields (ai_fields annotator) ENDPOINT_TRANSPORT_FIELDS = JObject sent"
    by (simp add: configured_fields_def)
  have "is_type annotator ''endpoint''"
    using assms(1,2) by (auto simp: endpoint_dispatch_def split: if_splits)
  then obtain asked where request: "policy_target_text (x_literal x) name annotator input = Inr asked"
      "ob_body request = o_show out (endpoint_payload asked (ai_fields annotator))"
      "ob_headers request = [(''Content-Type'', ''application/json''), (''Accept'', ''application/json'')]"
      "Some (ob_url request) = or_else (optional_string_field (ai_fields annotator) ''endpoint'')
        (optional_string_field (ai_fields annotator) ''url'')"
    using assms(1,2)
    by (auto simp: endpoint_dispatch_def post_json_def exchange_def outward_call_def run_bind_def
        split: sum.splits prod.splits if_splits)
  have "set (INLINE_CREDENTIAL_FIELDS @ HOST_ENV_SECRET_FIELDS) \<subseteq> set ENDPOINT_TRANSPORT_FIELDS"
    by (simp add: INLINE_CREDENTIAL_FIELDS_def HOST_ENV_SECRET_FIELDS_def ENDPOINT_TRANSPORT_FIELDS_def)
  then have "map_of sent k = None" if "k \<in> set (INLINE_CREDENTIAL_FIELDS @ HOST_ENV_SECRET_FIELDS)" for k
    using that configured_fields_get [OF assms(3) sent] by auto
  then show ?thesis
    using request configured_fields_get [OF assms(3) sent] sent
    by (intro exI [of _ asked] exI [of _ sent]) (simp add: endpoint_payload_def)
qed

section \<open>Witnesses\<close>

definition example_outside :: outside where
  "example_outside = \<lparr>o_env = (\<lambda>t v. Some ''secret''),
     o_post = (\<lambda>t request. Inr \<lparr>hp_status = 200, hp_read = (\<lambda>n. (''{}'', None))\<rparr>),
     o_prompt = (\<lambda>t lim u. Inr ''prompt''), o_deadline_ok = (\<lambda>n. True), o_now = (\<lambda>t. Inr 0),
     o_from_str = (\<lambda>s. Inr (JObject [])), o_show = (\<lambda>v. ''body''), o_to_vec = (\<lambda>v. Inr ''body''),
     o_canonical_reason = (\<lambda>n. None)\<rparr>"

definition example_invocation_fields :: field_map where
  "example_invocation_fields = [(''endpoint'', JString ''https://h/a''), (''from'', JString ''$''), (''type'', JString ''endpoint'')]"

definition example_request :: outbound where
  "example_request = \<lparr>ob_url = ''https://h/a'',
     ob_headers = [(''Content-Type'', ''application/json''), (''Accept'', ''application/json'')],
     ob_body = ''body'', ob_timeout_ms = 10000\<rparr>"

lemma example_from_annotation:
  "from_annotation_in (example_sourced u [] []) \<lparr>ac_type = Endpoint, ac_fields = [(''endpoint'', JString ''https://h/a'')]\<rparr>
     \<lparr>an_from = ''$'', an_fields = []\<rparr> = \<lparr>ai_url_sourced = (u \<noteq> []), ai_fields = example_invocation_fields\<rparr>"
  by (simp add: from_annotation_in_def from_annotation_def example_parts example_invocation_fields_def bt_remove_def
      less_char_def Let_def)

lemma example_target:
  "policy_target_text (x_literal example_externals) ''a'' \<lparr>ai_url_sourced = b, ai_fields = example_invocation_fields\<rparr>
     (JObject [(''snapshot'', JString ''hi'')]) = Inr ''hi''"
  unfolding policy_target_text_def
  by (simp add: input_from_def or_else_def example_invocation_fields_def example_root resolve_def with_pi_and_snap_def)

lemma example_endpoint:
  "endpoint_dispatch example_externals example_outside ''a'' \<lparr>ai_url_sourced = b, ai_fields = example_invocation_fields\<rparr>
     (JObject [(''snapshot'', JString ''hi'')]) t = (Inr (JObject []), t @ [Posted example_request])"
  unfolding endpoint_dispatch_def
  by (simp add: is_type_def invocation_field_def run_bind_def example_target)
    (simp add: example_invocation_fields_def optional_string_field_def or_else_def field_timeout_ms_def
      DEFAULT_TIMEOUT_MS_def post_json_def exchange_def outward_call_def run_bind_def example_outside_def
      parse_response_def read_response_body_def MAX_RESPONSE_BYTES_def example_request_def)

lemma example_dispatch:
  "configured_annotator_dispatch example_externals example_outside default_limits ''a''
     \<lparr>ai_url_sourced = b, ai_fields = example_invocation_fields\<rparr> (JObject [(''snapshot'', JString ''hi'')]) t
   = (Inr (JObject []), t @ [Posted example_request])"
proof -
  have "map_of example_invocation_fields ''type'' = Some (JString ''endpoint'')"
    by (simp add: example_invocation_fields_def)
  then show ?thesis
    by (simp add: configured_annotator_dispatch_def invocation_field_def example_endpoint)
qed

theorem fetched_annotators_keep_out_of_environment_witness:
  "configured_annotator_dispatch example_externals (example_outside\<lparr>o_env := \<lambda>t v. None\<rparr>) default_limits ''a''
     (from_annotation_in (example_sourced [''https://h/c.json''] [] [])
       \<lparr>ac_type = Endpoint, ac_fields = [(''endpoint'', JString ''https://h/a'')]\<rparr> \<lparr>an_from = ''$'', an_fields = []\<rparr>)
     (JObject [(''snapshot'', JString ''hi'')]) []
   = (Inr (JObject []), [Posted example_request])"
proof -
  have "url_sourced (example_sourced [''https://h/c.json''] [] [])"
    by (simp add: example_parts)
  moreover have "configured_annotator_dispatch example_externals example_outside default_limits ''a''
     (from_annotation_in (example_sourced [''https://h/c.json''] [] [])
       \<lparr>ac_type = Endpoint, ac_fields = [(''endpoint'', JString ''https://h/a'')]\<rparr> \<lparr>an_from = ''$'', an_fields = []\<rparr>)
     (JObject [(''snapshot'', JString ''hi'')]) [] = (Inr (JObject []), [Posted example_request])"
    unfolding example_from_annotation example_dispatch by simp
  ultimately show ?thesis
    by (rule exE [OF fetched_annotators_keep_out_of_environment]) blast
qed

theorem annotator_dispatch_asks_once_witness:
  "\<exists>pre request. [Posted example_request] = pre @ [Posted request] \<and> list_all no_post pre
    \<and> length (filter prompt_fetch [Posted example_request]) \<le> 1"
  using annotator_dispatch_asks_once [OF example_dispatch [of False "[]"]] by auto

theorem endpoint_receives_no_credential_witness:
  "\<exists>asked sent. ob_body example_request = o_show example_outside
      (JObject [(''input'', JString asked), (''fields'', JObject sent)]) \<and> map_of sent ''api_key'' = None"
proof -
  have "bt_inv (ai_fields \<lparr>ai_url_sourced = False, ai_fields = example_invocation_fields\<rparr>)"
    by (simp add: bt_inv_def example_invocation_fields_def less_char_def)
  from endpoint_receives_no_credential [OF example_endpoint [of False "[]"] _ this, of example_request] show ?thesis
    by (auto simp: INLINE_CREDENTIAL_FIELDS_def)
qed

end
