(* ===== verification/Bedrock_Laws.thy ===== *)
theory Bedrock_Laws
  imports Bedrock_Signing
begin

text \<open>
  The dates and the canonical form that go into a Bedrock signature: the date arithmetic is the
  Gregorian calendar, the signed headers are all headers of the request, and an encoded path
  segment can be read back.
\<close>

section \<open>The calendar\<close>

definition leap :: "int \<Rightarrow> bool" where
  "leap y \<longleftrightarrow> 4 dvd y \<and> (\<not> 100 dvd y \<or> 400 dvd y)"

definition days_in_month :: "int \<Rightarrow> int \<Rightarrow> int" where
  "days_in_month y m = (if m = 2 then (if leap y then 29 else 28) else if m \<in> {4, 6, 9, 11} then 30 else 31)"

fun next_day :: "int \<times> int \<times> int \<Rightarrow> int \<times> int \<times> int" where
  "next_day (y, m, d) =
    (if d < days_in_month y m then (y, m, d + 1) else if m < 12 then (y, m + 1, 1) else (y + 1, 1, 1))"

text \<open>
  Years that start in March: the day a year of the era starts, how long it is, the month and
  day of a day of the year.
\<close>

definition year_start :: "int \<Rightarrow> int" where
  "year_start y = 365 * y + y div 4 - y div 100"

definition march_length :: "int \<Rightarrow> int" where
  "march_length y = (if leap (y + 1) then 366 else 365)"

definition year_guess :: "int \<Rightarrow> int" where
  "year_guess doe = doe - doe div 1460 + doe div 36524 - doe div 146096"

definition month_day :: "int \<Rightarrow> int \<times> int" where
  "month_day doy = (let mp = (5 * doy + 2) div 153 in
     (mp + (if mp < 10 then 3 else - 9), doy - (153 * mp + 2) div 5 + 1))"

lemma sdiv_nonneg: "0 \<le> a \<Longrightarrow> 0 < b \<Longrightarrow> (a :: int) sdiv b = a div b"
  by (auto simp: signed_divide_int_def sgn_if)

lemma year_guess_step:
  assumes "0 \<le> d" "d < 146096"
  shows "year_guess d \<le> year_guess (d + 1)"
proof (cases "d = 146095")
  case False
  have "(d + 1) div 1460 \<le> d div 1460 + 1" "d div 36524 \<le> (d + 1) div 36524"
    using zdiv_mono1 [of "d + 1" "d + 1460" 1460] zdiv_mono1 [of d "d + 1" 36524] by linarith+
  moreover have "d div 146096 = 0" "(d + 1) div 146096 = 0"
    using assms False by (simp_all only: div_pos_pos_trivial)
  ultimately show ?thesis
    unfolding year_guess_def by linarith
qed (simp add: year_guess_def)

lemma year_guess_mono:
  assumes "0 \<le> a" "a \<le> b" "b \<le> 146096"
  shows "year_guess a \<le> year_guess b"
  using assms(2,3,1)
proof (induction b rule: int_ge_induct)
  case (step b)
  then show ?case
    using year_guess_step [of b] by simp
qed simp

lemma year_bounds:
  "list_all (\<lambda>y. 365 * y \<le> year_guess (year_start y)
     \<and> year_guess (year_start y + march_length y - 1) < 365 * (y + 1)
     \<and> year_start y + march_length y = (if y = 399 then 146097 else year_start (y + 1))) [0..399]"
  by code_simp

lemma month_steps:
  "list_all (\<lambda>n. case month_day n of (m, d) \<Rightarrow>
     1 \<le> m \<and> m \<le> 12 \<and> (m = 2 \<and> n \<noteq> 364 \<and> n \<noteq> 365 \<longrightarrow> d < 28)
     \<and> (n \<noteq> 364 \<and> n \<noteq> 365 \<longrightarrow> month_day (n + 1) =
          (if d < days_in_month 1 m then (m, d + 1) else if m < 12 then (m + 1, 1) else (1, 1)))) [0..365]"
  by code_simp

lemma year_facts:
  assumes "0 \<le> y" "y \<le> 399"
  shows "365 * y \<le> year_guess (year_start y)" "year_guess (year_start y + march_length y - 1) < 365 * (y + 1)"
    "year_start y + march_length y = (if y = 399 then 146097 else year_start (y + 1))"
proof -
  have "y \<in> set [0..399]"
    using assms by simp
  with year_bounds show "365 * y \<le> year_guess (year_start y)"
      "year_guess (year_start y + march_length y - 1) < 365 * (y + 1)"
      "year_start y + march_length y = (if y = 399 then 146097 else year_start (y + 1))"
    unfolding list_all_iff by blast+
qed

lemma year_start_mono: "a \<le> b \<Longrightarrow> year_start a \<le> year_start b"
proof (induction b rule: int_ge_induct)
  case (step b)
  have "b div 4 \<le> (b + 1) div 4" "(b + 1) div 100 \<le> b div 100 + 1"
    using zdiv_mono1 [of b "b + 1" 4] zdiv_mono1 [of "b + 1" "b + 100" 100] by linarith+
  moreover have "A \<le> 365 * b + p - q \<Longrightarrow> p \<le> p' \<Longrightarrow> q' \<le> q + 1 \<Longrightarrow> A \<le> 365 * (b + 1) + p' - q'"
    for A p q p' q' :: int
    by simp
  ultimately show ?case
    using step.IH unfolding year_start_def by blast
qed simp

lemma year_found:
  assumes "0 \<le> y" "y \<le> 399" "0 \<le> doy" "doy < march_length y"
  shows "year_guess (year_start y + doy) div 365 = y" "0 \<le> year_start y + doy" "year_start y + doy \<le> 146096"
proof -
  show nonneg: "0 \<le> year_start y + doy"
    using year_start_mono [OF assms(1)] assms(3) by (simp add: year_start_def)
  have len: "1 \<le> march_length y"
    by (simp add: march_length_def)
  have top: "year_start y + march_length y - 1 \<le> 146096"
    using year_facts(3) [OF assms(1,2)] year_start_mono [of "y + 1" 399] assms(2)
    by (cases "y = 399") (simp_all add: year_start_def)
  then show last: "year_start y + doy \<le> 146096"
    using assms(4) by simp
  have "365 * y \<le> year_guess (year_start y + doy)"
    using year_facts(1) [OF assms(1,2)] year_guess_mono [of "year_start y" "year_start y + doy"] assms nonneg last
      year_start_mono [OF assms(1)] by (simp add: year_start_def)
  moreover have "year_guess (year_start y + doy) < 365 * (y + 1)"
    using year_facts(2) [OF assms(1,2)] year_guess_mono [OF nonneg _ top] assms(4) by simp
  ultimately show "year_guess (year_start y + doy) div 365 = y"
    by (intro int_div_pos_eq [where r = "year_guess (year_start y + doy) - 365 * y"]) simp_all
qed

text \<open>The date of a day of the era, in the terms above.\<close>

definition era_date :: "int \<Rightarrow> int \<Rightarrow> int \<Rightarrow> int \<times> int \<times> int" where
  "era_date era y doy = (case month_day doy of (m, d) \<Rightarrow> (y + era * 400 + (if m \<le> 2 then 1 else 0), m, d))"

lemma era_split:
  assumes "0 \<le> doe" "doe \<le> (146096 :: int)"
  shows "(let z = era * 146097 + doe in (if z \<ge> 0 then z else z - 146096) sdiv 146097) = era"
proof (cases "0 \<le> era * 146097 + doe")
  case True
  then show ?thesis
    using assms by (simp add: sdiv_nonneg Let_def)
next
  case False
  let ?n = "era * 146097 + doe - 146096"
  have "?n sdiv 146097 = - ((- ?n) div 146097)"
    using False assms by (simp add: signed_divide_int_def)
  also have "(- ?n) div 146097 = - era"
    using assms by (intro int_div_pos_eq [where r = "146096 - doe"]) simp_all
  finally show ?thesis
    using False by (simp add: Let_def)
qed

lemma civil_era:
  assumes "0 \<le> y" "y \<le> 399" "0 \<le> doy" "doy < march_length y"
  shows "civil_from_days (era * 146097 + (year_start y + doy) - 719468) = era_date era y doy"
proof -
  let ?doe = "year_start y + doy"
  note found = year_found [OF assms]
  have era: "(if era * 146097 + ?doe \<ge> 0 then era * 146097 + ?doe else era * 146097 + ?doe - 146096) sdiv 146097 = era"
    using era_split [OF found(2,3), of era] by (simp only: Let_def)
  have "0 \<le> year_guess ?doe"
    using found(2,3) year_guess_mono [of 0 ?doe] by (simp add: year_guess_def)
  then have yoe: "(?doe - ?doe sdiv 1460 + ?doe sdiv 36524 - ?doe sdiv 146096) sdiv 365 = y"
    using found by (simp add: sdiv_nonneg year_guess_def)
  have len: "march_length y \<le> 366"
    by (simp add: march_length_def)
  have doy: "?doe - (365 * y + y sdiv 4 - y sdiv 100) = doy"
    using assms(1) by (simp add: sdiv_nonneg year_start_def)
  have mp: "(5 * doy + 2) sdiv 153 = (5 * doy + 2) div 153" "(153 * ((5 * doy + 2) div 153) + 2) sdiv 5 = (153 * ((5 * doy + 2) div 153) + 2) div 5"
    using assms(3) by (intro sdiv_nonneg; simp add: pos_imp_zdiv_nonneg_iff)+
  show ?thesis
    unfolding civil_from_days_def era_date_def month_day_def Let_def
    by (simp only: diff_add_cancel era add_diff_cancel_left' yoe doy mp prod.case)
qed

lemma year_exists:
  assumes "0 \<le> doe" "doe \<le> 146096"
  shows "\<exists>y doy. 0 \<le> y \<and> y \<le> 399 \<and> 0 \<le> doy \<and> doy < march_length y \<and> doe = year_start y + doy"
  using assms
proof (induction doe rule: int_ge_induct)
  case base
  show ?case
    by (intro exI [of _ 0]) (simp add: year_start_def march_length_def)
next
  case (step doe)
  then obtain y doy where y: "0 \<le> y" "y \<le> 399" "0 \<le> doy" "doy < march_length y" "doe = year_start y + doy"
    by auto
  show ?case
  proof (cases "doy + 1 < march_length y")
    case True
    then show ?thesis
      using y by (intro exI [of _ y] exI [of _ "doy + 1"]) simp
  next
    case False
    then have "doe + 1 = year_start y + march_length y"
      using y by simp
    with year_facts(3) [OF y(1,2)] step.prems have "y < 399" "doe + 1 = year_start (y + 1)"
      using y(2) by (auto split: if_splits)
    then show ?thesis
      using y(1) by (intro exI [of _ "y + 1"] exI [of _ 0]) (simp add: march_length_def)
  qed
qed

lemma leap_era: "leap (y + era * 400) \<longleftrightarrow> leap y"
proof -
  have "k dvd y + era * 400 \<longleftrightarrow> k dvd y" if "k dvd 400" for k :: int
    using that by (simp add: dvd_add_left_iff)
  then show ?thesis
    by (simp add: leap_def)
qed

lemma month_facts:
  assumes "0 \<le> n" "n \<le> 365" "month_day n = (m, d)"
  shows "1 \<le> m" "m \<le> 12" "n \<noteq> 364 \<Longrightarrow> n \<noteq> 365 \<Longrightarrow> m = 2 \<Longrightarrow> d < 28"
    "n \<noteq> 364 \<Longrightarrow> n \<noteq> 365 \<Longrightarrow> month_day (n + 1) =
      (if d < days_in_month 1 m then (m, d + 1) else if m < 12 then (m + 1, 1) else (1, 1))"
proof -
  have "n \<in> set [0..365]"
    using assms by simp
  with month_steps assms(3) show "1 \<le> m" "m \<le> 12" "n \<noteq> 364 \<Longrightarrow> n \<noteq> 365 \<Longrightarrow> m = 2 \<Longrightarrow> d < 28"
    "n \<noteq> 364 \<Longrightarrow> n \<noteq> 365 \<Longrightarrow> month_day (n + 1) =
      (if d < days_in_month 1 m then (m, d + 1) else if m < 12 then (m + 1, 1) else (1, 1))"
    unfolding list_all_iff by fastforce+
qed

lemma february_end: "month_day 364 = (2, 28)" "month_day 365 = (2, 29)" "month_day 0 = (3, 1)"
  by (simp_all add: month_day_def)

lemma next_in_year:
  assumes "0 \<le> doy" "doy + 1 < march_length y"
  shows "next_day (era_date era y doy) = era_date era y (doy + 1)"
proof (cases "doy = 364")
  case True
  then have "leap (y + 1)"
    using assms(2) by (simp add: march_length_def split: if_splits)
  then show ?thesis
    using True leap_era [of "y + 1" era] by (simp add: era_date_def february_end days_in_month_def algebra_simps)
next
  case False
  obtain m d where md: "month_day doy = (m, d)"
    by fastforce
  have doy: "doy \<le> 365" "doy \<noteq> 365"
    using assms by (auto simp: march_length_def split: if_splits)
  note facts = month_facts [OF assms(1) doy(1) md]
  have "d < days_in_month year m \<longleftrightarrow> d < days_in_month 1 m" for year
    using facts(3) [OF False doy(2)] by (cases "m = 2") (auto simp: days_in_month_def leap_def)
  moreover have "m \<le> 2 \<Longrightarrow> m \<noteq> 1 \<Longrightarrow> d < days_in_month 1 m"
    using facts(1) facts(3) [OF False doy(2)] by (simp add: days_in_month_def leap_def)
  ultimately show ?thesis
    using facts(1,2) facts(4) [OF False doy(2)] md by (auto simp: era_date_def)
qed

lemma next_at_year_end:
  assumes "doy + 1 = march_length y"
  shows "next_day (era_date era y doy) = (y + 1 + era * 400, 3, 1)"
proof -
  consider "doy = 364" "\<not> leap (y + 1)" | "doy = 365" "leap (y + 1)"
    using assms by (auto simp: march_length_def split: if_splits)
  then show ?thesis
    using leap_era [of "y + 1" era]
    by cases (simp_all add: era_date_def february_end days_in_month_def algebra_simps)
qed

text \<open>
  The date arithmetic of request signing is the Gregorian calendar: day 0 is 1 January
  1970, and each next day number is the next date, through month ends, leap days, and the
  century rule, for every day before and after.
\<close>

theorem civil_from_days_gregorian:
  "civil_from_days 0 = (1970, 1, 1) \<and> civil_from_days (n + 1) = next_day (civil_from_days n)"
proof
  show "civil_from_days 0 = (1970, 1, 1)"
    by code_simp
  let ?z = "n + 719468"
  have below: "a < 146097 \<Longrightarrow> a \<le> 146096" for a :: int
    by simp
  have "0 \<le> ?z mod 146097" "?z mod 146097 \<le> 146096"
    by (rule pos_mod_sign, simp) (rule below, rule pos_mod_bound, simp)
  then obtain y doy where y: "0 \<le> y" "y \<le> 399" "0 \<le> doy" "doy < march_length y"
      and doe: "?z mod 146097 = year_start y + doy"
    using year_exists by blast
  define era where "era = ?z div 146097"
  have n: "n = era * 146097 + (year_start y + doy) - 719468"
    using div_mult_mod_eq [of ?z 146097] doe by (simp add: era_def)
  have today: "civil_from_days n = era_date era y doy"
    using civil_era [OF y] n by simp
  show "civil_from_days (n + 1) = next_day (civil_from_days n)"
  proof (cases "doy + 1 < march_length y")
    case True
    have tomorrow: "n + 1 = era * 146097 + (year_start y + (doy + 1)) - 719468"
      using n by simp
    have "civil_from_days (era * 146097 + (year_start y + (doy + 1)) - 719468) = era_date era y (doy + 1)"
      by (rule civil_era [OF y(1,2) _ True]) (simp add: y(3))
    then show ?thesis
      by (simp only: tomorrow today next_in_year [OF y(3) True])
  next
    case False
    then have len: "doy + 1 = march_length y"
      using y(4) by simp
    let ?start = "\<lambda>era y. civil_from_days (era * 146097 + (year_start y + 0) - 719468) = (y + era * 400, 3, 1)"
    have start: "?start era y" if "0 \<le> y" "y \<le> 399" for era y
      using civil_era [OF that, of 0 era] by (simp add: era_date_def february_end march_length_def)
    show ?thesis
    proof (cases "y = 399")
      case True
      then have tomorrow: "n + 1 = (era + 1) * 146097 + (year_start 0 + 0) - 719468"
        using n len year_facts(3) [OF y(1,2)] by (simp add: year_start_def)
      show ?thesis
        unfolding tomorrow today next_at_year_end [OF len] using start [of 0 "era + 1"] True by simp
    next
      case False
      then have tomorrow: "n + 1 = era * 146097 + (year_start (y + 1) + 0) - 719468"
        using n len year_facts(3) [OF y(1,2)] by simp
      show ?thesis
        unfolding tomorrow today next_at_year_end [OF len] using start [of "y + 1" era] False y(1,2) by simp
    qed
  qed
qed

section \<open>Canonical headers\<close>

lemma normalized_headers_keys:
  "bt_inv (normalized_headers headers)
    \<and> fst ` set (normalized_headers headers) = map to_ascii_lowercase ` fst ` set headers"
proof -
  let ?add = "\<lambda>(name, v) m.
     let lower_name = map to_ascii_lowercase name; v = normalize_sigv4_header_value v in
     case map_of m lower_name of
       Some existing \<Rightarrow> bt_insert lower_name (existing @ '','' @ v) m
     | None \<Rightarrow> bt_insert lower_name v m"
  have "bt_inv m \<Longrightarrow> bt_inv (fold ?add headers m)
    \<and> fst ` set (fold ?add headers m) = fst ` set m \<union> map to_ascii_lowercase ` fst ` set headers" for m
    by (induction headers arbitrary: m)
      (auto simp: bt_insert_inv bt_insert_keys split_beta Let_def split: option.splits)
  then show ?thesis
    by (simp add: normalized_headers_def bt_inv_def)
qed

text \<open>
  The signature covers every header of the request: the list of signed names is the
  sorted list of the lower case names of all its headers, each once, and the canonical form
  has one line per name in that order.
\<close>

theorem signed_headers_cover_request:
  "canonical_sigv4_headers headers = (concat (map (\<lambda>name. name @ '':'' @ the (map_of (normalized_headers headers) name) @ NL)
      (sorted_list_of_set (map to_ascii_lowercase ` fst ` set headers))),
    join '';'' (sorted_list_of_set (map to_ascii_lowercase ` fst ` set headers)))"
proof -
  let ?m = "normalized_headers headers"
  have inv: "bt_inv ?m" and keys: "fst ` set ?m = map to_ascii_lowercase ` fst ` set headers"
    using normalized_headers_keys [of headers] by simp_all
  have names: "map fst ?m = sorted_list_of_set (map to_ascii_lowercase ` fst ` set headers)"
    using sorted_list_of_set.idem_if_sorted_distinct [OF bt_inv_sorted [OF inv] bt_inv_distinct [OF inv]]
    unfolding keys [symmetric] by simp
  have "map (\<lambda>(name, v). name @ '':'' @ v @ [CHR 0x0A]) ?m
      = map (\<lambda>name. name @ '':'' @ the (map_of ?m name) @ NL) (map fst ?m)"
    using bt_inv_distinct [OF inv] by (auto simp: NL_def)
  then show ?thesis
    by (simp add: canonical_sigv4_headers_def names)
qed

section \<open>Path segments\<close>

fun percent_decode :: "string \<Rightarrow> string" where
  "percent_decode (a # b # c # s) =
    (if a = CHR ''%'' then char_of (16 * hex_value b + hex_value c) # percent_decode s
     else a # percent_decode (b # c # s))"
| "percent_decode s = s"

lemma hex_value_upper: "n < 16 \<Longrightarrow> hex_value (hex_upper n) = n"
  by (auto simp: hex_value_def hex_upper_def is_ascii_digit_def)

lemma percent_decode_plain: "a \<noteq> CHR ''%'' \<Longrightarrow> percent_decode (a # s) = a # percent_decode s"
  by (cases s rule: percent_decode.cases) auto

text \<open>
  An encoded path segment can be read back, so two models never share a Bedrock URL.
\<close>

lemma percent_encode_decodes: "percent_decode (percent_encode_path_segment s) = s"
proof (induction s)
  case (Cons c s)
  have "byte c div 16 < 16"
    using byte_less [of c] by (simp add: less_mult_imp_div_less)
  then have "char_of (16 * hex_value (hex_upper (byte c div 16)) + hex_value (hex_upper (byte c mod 16))) = c"
    by (simp add: hex_value_upper)
  moreover have "is_unreserved c \<Longrightarrow> c \<noteq> CHR ''%''"
    by (auto simp: is_unreserved_def less_eq_char_def)
  ultimately show ?case
    using Cons by (simp add: percent_encode_path_segment_def percent_decode_plain)
qed (simp add: percent_encode_path_segment_def)

end
