(* ===== verification/Classifier_Laws.thy ===== *)
theory Classifier_Laws
  imports Classifiers
begin

text \<open>When a bundled classifier flags a text, and which score and label it reports.\<close>

section \<open>The highest score\<close>

lemma take_higher_parts [simp]:
  "sf_flagged (take_higher e st) = sf_flagged st" "sf_threshold (take_higher e st) = sf_threshold st"
  "sf_reasons (take_higher e st) = sf_reasons st"
  by (simp_all add: take_higher_def split_beta)

lemma higher_step:
  assumes "\<not> f64_is_nan (sf_score st)"
  shows "\<not> f64_is_nan (sf_score (take_higher (c, s) st))"
    and "f64_le (sf_score st) (sf_score (take_higher (c, s) st))"
    and "\<not> f64_is_nan s \<Longrightarrow> f64_le s (sf_score (take_higher (c, s) st))"
    and "sf_score (take_higher (c, s) st) = sf_score st
      \<or> f64_less (sf_score st) s \<and> sf_score (take_higher (c, s) st) = s"
  using assms by (auto simp: take_higher_def f64_less_def f64_le_def)

lemma highest_score:
  assumes "\<not> f64_is_nan (sf_score st)"
  shows "\<not> f64_is_nan (sf_score (fold take_higher scores st))
    \<and> f64_le (sf_score st) (sf_score (fold take_higher scores st))
    \<and> (\<forall>c s. (c, s) \<in> set scores \<longrightarrow> \<not> f64_is_nan s \<longrightarrow> f64_le s (sf_score (fold take_higher scores st)))
    \<and> (sf_score (fold take_higher scores st) = sf_score st
        \<or> (\<exists>c. (c, sf_score (fold take_higher scores st)) \<in> set scores
            \<and> f64_less (sf_score st) (sf_score (fold take_higher scores st))))"
  using assms
proof (induction scores arbitrary: st)
  case Nil
  then show ?case
    by (simp add: f64_le_def)
next
  case (Cons e scores)
  obtain c s where e: "e = (c, s)"
    by fastforce
  note step = higher_step [OF Cons.prems, where c = c and s = s]
  note rest = Cons.IH [OF step(1)]
  have "f64_le s (sf_score (fold take_higher scores (take_higher (c, s) st)))" if "\<not> f64_is_nan s"
    using step(3) [OF that] rest f64_le_trans by blast
  moreover have "f64_le (sf_score st) (sf_score (fold take_higher scores (take_higher (c, s) st)))"
    using step(2) rest f64_le_trans by blast
  moreover have "sf_score (fold take_higher scores (take_higher (c, s) st)) = sf_score st
      \<or> (\<exists>c'. (c', sf_score (fold take_higher scores (take_higher (c, s) st))) \<in> set (e # scores)
          \<and> f64_less (sf_score st) (sf_score (fold take_higher scores (take_higher (c, s) st))))"
  proof (cases "sf_score (fold take_higher scores (take_higher (c, s) st)) = sf_score (take_higher (c, s) st)")
    case True
    then show ?thesis
      using step(4) by (auto simp: e)
  next
    case False
    then obtain c' where "(c', sf_score (fold take_higher scores (take_higher (c, s) st))) \<in> set scores"
        "f64_less (sf_score (take_higher (c, s) st)) (sf_score (fold take_higher scores (take_higher (c, s) st)))"
      using rest by blast
    then show ?thesis
      using f64_le_less_trans [OF step(2)] by auto
  qed
  ultimately show ?case
    using rest by (auto simp: e)
qed

section \<open>Thresholds of categories\<close>

lemma weigh_flagged:
  "sf_flagged (weigh_category scores (c, thr) st)
    \<longleftrightarrow> sf_flagged st \<or> (\<exists>s. map_of scores c = Some s \<and> f64_le thr s)"
  by (auto simp: weigh_category_def Let_def split: option.splits)

lemma weigh_all_flagged:
  "sf_flagged (fold (weigh_category scores) thrs st)
    \<longleftrightarrow> sf_flagged st \<or> (\<exists>c thr s. (c, thr) \<in> set thrs \<and> map_of scores c = Some s \<and> f64_le thr s)"
proof (induction thrs arbitrary: st)
  case (Cons e thrs)
  obtain c thr where "e = (c, thr)"
    by fastforce
  then show ?case
    using Cons.IH [of "weigh_category scores e st"] by (auto simp: weigh_flagged)
qed simp

text \<open>
  When a classifier flags.  Without category thresholds a text is flagged exactly when
  some score reaches the threshold, a threshold of zero flagging everything.  With category
  thresholds it is flagged exactly when some category that has a threshold was scored and
  reaches it; a category the provider did not score never flags.  Comparisons are those of
  IEEE 754, so a score that is not a number reaches nothing.
\<close>

theorem classifier_flags_exactly:
  "cv_flagged (fold_score_verdict cfg scores) \<longleftrightarrow>
    (if cc_category_thresholds cfg = []
     then f64_le (cc_threshold cfg) f64_zero
       \<or> (\<exists>c s. (c, s) \<in> set scores \<and> f64_less f64_zero s \<and> f64_le (cc_threshold cfg) s)
     else \<exists>c thr s. (c, thr) \<in> set (cc_category_thresholds cfg) \<and> map_of scores c = Some s \<and> f64_le thr s)"
proof (cases "cc_category_thresholds cfg = []")
  case True
  let ?st = "\<lparr>sf_flagged = False, sf_label = None, sf_score = f64_zero, sf_threshold = cc_threshold cfg, sf_reasons = []\<rparr>"
  let ?top = "sf_score (fold take_higher scores ?st)"
  have zero: "\<not> f64_is_nan (sf_score ?st)"
    by simp
  have flagged: "cv_flagged (fold_score_verdict cfg scores) \<longleftrightarrow> f64_le (cc_threshold cfg) ?top"
    using True by (simp add: fold_score_verdict_def Let_def)
  note top = highest_score [OF zero, of scores]
  have "f64_le (cc_threshold cfg) ?top" if "(c, s) \<in> set scores" "f64_le (cc_threshold cfg) s" for c s
    using top that f64_le_trans by (metis f64_le_def)
  moreover have "f64_le (cc_threshold cfg) ?top" if "f64_le (cc_threshold cfg) f64_zero"
    using top that f64_le_trans by auto
  ultimately show ?thesis
    using top True unfolding flagged by auto
next
  case False
  then show ?thesis
    by (simp add: fold_score_verdict_def weigh_all_flagged Let_def)
qed

section \<open>Delegation of the auto provider\<close>

text \<open>
  Delegation ends.  A classifier whose provider is the automatic one resolves a target
  and hands the call over exactly once: the target is never the automatic provider again, so
  the call is the one of a concrete provider on the same configuration, or is refused
  because the target names no provider the engine knows, or because none could be resolved.
\<close>

theorem auto_delegation_ends:
  assumes "cc_provider cfg = ''auto''"
  shows "case resolve_target_provider cfg of
      Inl e \<Rightarrow> classify x out cfg subject send = run_lift (Inl e)
    | Inr target \<Rightarrow> (let cfg' = cfg\<lparr>cc_provider := target\<rparr> in
        target \<noteq> ''auto'' \<and>
        classify x out cfg subject send =
          (case map_of
             [(''aacs'', aacs_classify x out), (''openai_moderation'', moderation_classify x out),
              (''perspective'', perspective_classify x out), (''llama_guard'', llama_guard_classify x out),
              (''lakera_guard'', lakera_classify x out)] target of
             Some concrete \<Rightarrow> concrete cfg' subject send
           | None \<Rightarrow> run_lift (Inl (''unsupported classifier provider '' @ quoted target))))"
proof (cases "resolve_target_provider cfg")
  case (Inl e)
  then show ?thesis
    using assms by (simp add: classify.simps [of x out cfg])
next
  case (Inr target)
  then have "target \<noteq> ''auto''"
    by (rule resolve_target_not_auto)
  moreover have "classify x out cfg subject send = classify x out (cfg\<lparr>cc_provider := target\<rparr>) subject send"
    using assms Inr by (simp add: classify.simps [of x out cfg])
  ultimately show ?thesis
    using Inr by (simp add: Let_def classify.simps [of x out "cfg\<lparr>cc_provider := target\<rparr>"])
qed

definition auto_config :: "string \<Rightarrow> classifier_config" where
  "auto_config endpoint = \<lparr>cc_provider = ''auto'', cc_endpoint = endpoint, cc_api_key = None, cc_timeout_ms = 1000,
    cc_threshold = f64_one, cc_category_thresholds = [], cc_extra_headers = [], cc_provider_config = JNull\<rparr>"

theorem auto_delegation_ends_witness:
  "\<forall>x out subject send.
    classify x out (auto_config ''https://api.lakera.ai/v2/guard'') subject send
      = lakera_classify x out (auto_config ''https://api.lakera.ai/v2/guard''\<lparr>cc_provider := ''lakera_guard''\<rparr>) subject send"
proof (intro allI)
  fix x out subject send
  let ?cfg = "auto_config ''https://api.lakera.ai/v2/guard''"
  have target: "resolve_target_provider ?cfg = Inr ''lakera_guard''"
    by code_simp
  show "classify x out ?cfg subject send = lakera_classify x out (?cfg\<lparr>cc_provider := ''lakera_guard''\<rparr>) subject send"
    using auto_delegation_ends [of ?cfg x out subject send] unfolding target by (simp add: auto_config_def Let_def)
qed

end
