(* ===== verification/Cedar.thy ===== *)
theory Cedar
  imports Policies Policy_Output Unix_Paths Float64
begin

text \<open>
  The Cedar request mapping, the test dispatcher and advice of \<open>cedar.rs\<close>.  The policy set
  document of the test dispatcher is what \<open>serde_json\<close> reads for the derived \<open>Deserialize\<close>;
  the reader is an argument.
\<close>

section \<open>Requests\<close>

record cedar_entity =
  ce_kind :: string
  ce_id :: string

definition cedar_entity_new :: "string \<Rightarrow> string \<Rightarrow> cedar_entity" where
  "cedar_entity_new kind ident = \<lparr>ce_kind = kind, ce_id = ident\<rparr>"

definition as_display :: "cedar_entity \<Rightarrow> string" where
  "as_display e = ce_kind e @ ''::'' @ [CHR 0x22] @ ce_id e @ [CHR 0x22]"

record cedar_request =
  cr_principal :: cedar_entity
  cr_action :: cedar_entity
  cr_resource :: cedar_entity
  cr_context :: json

definition agent_id :: "json_map \<Rightarrow> string option" where
  "agent_id object = Option.bind (Option.bind (Option.bind (map_of object ''agent'') as_object)
     (\<lambda>agent. map_of agent ''id'')) as_str"

definition principal_id :: "json_map \<Rightarrow> string option" where
  "principal_id snapshot = (case agent_id snapshot of
      Some i \<Rightarrow> Some i
    | None \<Rightarrow> Option.bind (Option.bind (map_of snapshot ''envelope'') as_object) agent_id)"

definition CEDAR_RESERVED_KEYS :: "string list" where
  "CEDAR_RESERVED_KEYS = [''__entity'', ''__extn'', ''__expr'']"

definition DECIMAL_SCALE :: f64 where
  "DECIMAL_SCALE = 0x40C3880000000000"

text \<open>Two to the power 63, the first magnitude an \<open>i64\<close> does not hold.\<close>

definition DECIMAL_LIMIT :: f64 where
  "DECIMAL_LIMIT = 0x43E0000000000000"

definition float_to_decimal :: "f64 \<Rightarrow> string option" where
  "float_to_decimal v =
    (let scaled_v = f64_round_ties_even (f64_mul v DECIMAL_SCALE) in
     if \<not> f64_is_finite scaled_v \<or> f64_le DECIMAL_LIMIT (f64_abs scaled_v) then None
     else
       let n = f64_as_i64 scaled_v;
           sign = (if n < 0 then ''-'' else '''');
           magnitude = nat (abs n)
       in Some (sign @ nat_to_string (magnitude div 10000) @ ''.'' @ zero_padded 4 (magnitude mod 10000)))"

definition context_error :: "string \<Rightarrow> string \<Rightarrow> runtime_error" where
  "context_error path complaint =
    PolicyInvocationFailed (''cedar context value at '' @ quoted path @ complaint)"

definition decimal_json :: "string \<Rightarrow> json" where
  "decimal_json decimal =
    JObject [(''__extn'', JObject [(''fn'', JString ''decimal''), (''arg'', JString decimal)])]"

text \<open>\<open>Number::as_i64\<close>.\<close>

definition number_is_i64 :: "number \<Rightarrow> bool" where
  "number_is_i64 n = (case n of PosInt w \<Rightarrow> unat w < 2 ^ 63 | NegInt _ \<Rightarrow> True | Float _ \<Rightarrow> False)"

definition number_to_cedar :: "number \<Rightarrow> string \<Rightarrow> (runtime_error, json) result" where
  "number_to_cedar n path =
    (if number_is_i64 n then Inr (JNumber n)
     else if (case n of PosInt _ \<Rightarrow> True | _ \<Rightarrow> False) then
       Inl (context_error path '' is outside the Cedar Long range'')
     else
       rbind (ok_or (context_error path '' is not a finite number'') (as_f64 (JNumber n))) (\<lambda>float.
       rbind (ok_or (context_error path '' is not a Long and is outside the Cedar decimal range'')
                (float_to_decimal float)) (\<lambda>decimal.
       Inr (decimal_json decimal))))"

definition check_key :: "string \<Rightarrow> string \<Rightarrow> (runtime_error, unit) result" where
  "check_key path key = (if key \<in> set CEDAR_RESERVED_KEYS then
      Inl (PolicyInvocationFailed (''cedar context key '' @ quoted path @ '' is reserved by the Cedar JSON format''))
    else Inr ())"

definition item_path :: "string \<Rightarrow> nat \<Rightarrow> string" where
  "item_path path index = path @ ''['' @ nat_to_string index @ '']''"

definition set_element :: "string \<Rightarrow> json option \<Rightarrow> (runtime_error, json) result" where
  "set_element path found = ok_or (context_error path '' is a null set element'') found"

fun to_cedar_value :: "json \<Rightarrow> string \<Rightarrow> string \<Rightarrow> (runtime_error, json option) result"
  and translate_items :: "json list \<Rightarrow> nat \<Rightarrow> string \<Rightarrow> json list \<Rightarrow> (runtime_error, json list) result"
  and translate_members :: "(string \<times> json) list \<Rightarrow> string \<Rightarrow> json_map \<Rightarrow> (runtime_error, json_map) result"
where
  "to_cedar_value JNull path key = rbind (check_key path key) (\<lambda>_. Inr None)"
| "to_cedar_value (JBool b) path key = rbind (check_key path key) (\<lambda>_. Inr (Some (JBool b)))"
| "to_cedar_value (JString s) path key = rbind (check_key path key) (\<lambda>_. Inr (Some (JString s)))"
| "to_cedar_value (JNumber n) path key =
    rbind (check_key path key) (\<lambda>_. rbind (number_to_cedar n path) (\<lambda>w. Inr (Some w)))"
| "to_cedar_value (JArray items) path key =
    rbind (check_key path key) (\<lambda>_. rbind (translate_items items 0 path []) (\<lambda>out. Inr (Some (JArray out))))"
| "to_cedar_value (JObject members) path key =
    rbind (check_key path key) (\<lambda>_. rbind (translate_members members path []) (\<lambda>out. Inr (Some (JObject out))))"
| "translate_items [] index path out = Inr out"
| "translate_items (item # items) index path out =
    rbind (to_cedar_value item (item_path path index) []) (\<lambda>found.
    rbind (set_element (item_path path index) found) (\<lambda>translated.
    translate_items items (Suc index) path (out @ [translated])))"
| "translate_members [] path out = Inr out"
| "translate_members ((member, inner) # members) path out =
    rbind (to_cedar_value inner (path @ CHR ''.'' # member) member) (\<lambda>found.
    translate_members members path (case found of Some translated \<Rightarrow> jm_insert member translated out | None \<Rightarrow> out))"

definition translate_record :: "json_map \<Rightarrow> string \<Rightarrow> (runtime_error, json_map) result" where
  "translate_record members path = translate_members members path []"

definition build_cedar_context :: "json_map \<Rightarrow> json option \<Rightarrow> (runtime_error, json) result" where
  "build_cedar_context snapshot annotations =
    (if has_key snapshot ''annotations'' then
       Inl (PolicyInvocationFailed (''cedar context key '' @ quoted ''context.annotations''
         @ '' is reserved for the policy input annotations''))
     else
       rbind (translate_record snapshot ''context'') (\<lambda>context.
       rbind (case annotations of
           None \<Rightarrow> Inr []
         | Some JNull \<Rightarrow> Inr []
         | Some (JObject members) \<Rightarrow> translate_record members ''context.annotations''
         | Some _ \<Rightarrow> Inl (PolicyInvocationFailed (''cedar context key '' @ quoted ''context.annotations''
             @ '' must be a record of annotator outputs''))) (\<lambda>annotations.
       Inr (JObject (jm_insert ''annotations'' (JObject annotations) context)))))"

definition UNSPECIFIED_POLICY_TARGET_KIND :: string where
  "UNSPECIFIED_POLICY_TARGET_KIND = ''unspecified''"

definition resource_entity :: "json_map \<Rightarrow> cedar_entity" where
  "resource_entity input =
    (case Option.bind (Option.bind (Option.bind (map_of input ''tool'') as_object) (\<lambda>tool. map_of tool ''name'')) as_str of
       Some name \<Rightarrow> cedar_entity_new ''Tool'' name
     | None \<Rightarrow> cedar_entity_new ''PolicyTarget''
         (case Option.bind (Option.bind (Option.bind (map_of input ''policy_target'') as_object)
             (\<lambda>target. map_of target ''kind'')) as_str of
            Some kind \<Rightarrow> kind
          | None \<Rightarrow> UNSPECIFIED_POLICY_TARGET_KIND))"

definition build_cedar_request :: "json \<Rightarrow> (runtime_error, cedar_request) result" where
  "build_cedar_request input =
    rbind (ok_or (PolicyInvocationFailed ''cedar dispatcher received non-object policy input'') (as_object input)) (\<lambda>object.
    rbind (ok_or (PolicyInvocationFailed ''cedar policy input is missing snapshot object'')
             (Option.bind (map_of object ''snapshot'') as_object)) (\<lambda>snapshot.
    rbind (ok_or (PolicyInvocationFailed
               ''cedar policy input snapshot is missing agent.id (or envelope.agent.id)'')
             (principal_id snapshot)) (\<lambda>agent.
    rbind (ok_or (PolicyInvocationFailed ''cedar policy input is missing intervention_point'')
             (Option.bind (map_of object ''intervention_point'') as_str)) (\<lambda>point.
    rbind (build_cedar_context snapshot (map_of object ''annotations'')) (\<lambda>context.
    Inr \<lparr>cr_principal = cedar_entity_new ''Agent'' agent, cr_action = cedar_entity_new ''Action'' point,
      cr_resource = resource_entity object, cr_context = context\<rparr>)))))"

section \<open>Advice\<close>

definition ADVICE_MEMBERS :: "string list" where
  "ADVICE_MEMBERS = [''verdict'', ''reason'', ''message'', ''transform'']"

definition ADVICE_TRANSFORM_MEMBERS :: "string list" where
  "ADVICE_TRANSFORM_MEMBERS = [''path'', ''value'']"

text \<open>The blocks for \<open>reason\<close> and \<open>message\<close>: an optional string that is copied.\<close>

definition copy_advice_text :: "json_map \<Rightarrow> string \<Rightarrow> json_map \<Rightarrow> (runtime_error, json_map) result" where
  "copy_advice_text object member out = (case map_of object member of
      None \<Rightarrow> Inr out
    | Some JNull \<Rightarrow> Inr out
    | Some (JString s) \<Rightarrow> Inr (jm_insert member (JString s) out)
    | Some _ \<Rightarrow> Inl (PolicyOutputInvalid (''cedar advice '' @ quoted member @ '' must be a string'')))"

definition translate_advice :: "json \<Rightarrow> (runtime_error, json) result" where
  "translate_advice advice =
    rbind (ok_or (PolicyOutputInvalid ''cedar advice must be a JSON object'') (as_object advice)) (\<lambda>object.
    rbind (reject_unknown_members object ADVICE_MEMBERS ''cedar advice'') (\<lambda>_.
    rbind (ok_or (PolicyOutputInvalid (''cedar advice is missing the required '' @ quoted ''verdict'' @ '' field''))
             (Option.bind (map_of object ''verdict'') as_str)) (\<lambda>verdict.
    if verdict \<notin> {''warn'', ''escalate'', ''transform''} then
      Inl (PolicyOutputInvalid (''cedar advice '' @ quoted ''verdict''
        @ '' must be one of warn, escalate, transform; got '' @ quoted verdict))
    else
      rbind (copy_advice_text object ''reason'' (jm_insert ''decision'' (JString verdict) [])) (\<lambda>out.
      rbind (copy_advice_text object ''message'' out) (\<lambda>out.
      rbind (if verdict = ''transform'' then
          rbind (ok_or (PolicyOutputInvalid (''cedar advice with verdict '' @ quoted ''transform''
                     @ '' requires a transform object''))
                   (map_of object ''transform'')) (\<lambda>transform.
          rbind (ok_or (PolicyOutputInvalid (''cedar advice '' @ quoted ''transform'' @ '' must be a JSON object''))
                   (as_object transform)) (\<lambda>members.
          rbind (reject_unknown_members members ADVICE_TRANSFORM_MEMBERS
                   (''cedar advice '' @ quoted ''transform'')) (\<lambda>_.
          Inr (jm_insert ''transform'' transform out))))
        else if has_key object ''transform'' then
          Inl (PolicyOutputInvalid (''cedar advice '' @ quoted ''transform''
            @ '' is only permitted when verdict is '' @ quoted ''transform''))
        else Inr out) (\<lambda>out.
      Inr (JObject out)))))))"

definition advice_rank :: "string option \<Rightarrow> nat" where
  "advice_rank decision =
    (if decision = Some ''escalate'' then 0
     else if decision = Some ''transform'' then 1
     else if decision = Some ''warn'' then 2
     else 255)"

text \<open>\<open>Iterator::min_by_key\<close>: the first of the least.\<close>

fun min_by_key :: "('a \<Rightarrow> 'k::linorder) \<Rightarrow> 'a list \<Rightarrow> 'a option" where
  "min_by_key key [] = None"
| "min_by_key key (x # xs) = (case min_by_key key xs of
      None \<Rightarrow> Some x
    | Some y \<Rightarrow> if key x \<le> key y then Some x else Some y)"

definition verdict_rank :: "json \<Rightarrow> nat" where
  "verdict_rank verdict = advice_rank (Option.bind (json_get verdict ''decision'') as_str)"

definition most_restrictive_advice :: "json list \<Rightarrow> json option" where
  "most_restrictive_advice verdicts = min_by_key verdict_rank verdicts"

definition allow_json :: json where
  "allow_json = JObject [(''decision'', JString ''allow'')]"

definition deny_json :: "string \<Rightarrow> json" where
  "deny_json code = JObject [(''decision'', JString ''deny''), (''reason'', JString code)]"

section \<open>The test dispatcher\<close>

datatype test_effect = Permit | Forbid

record test_rule_doc =
  trd_effect :: test_effect
  trd_principal :: "string option"
  trd_action :: "string option"
  trd_resource :: "string option"
  trd_reason :: "string option"
  trd_advice :: "json option"

record test_rule =
  te_effect :: test_effect
  te_principal :: "cedar_entity option"
  te_action :: "cedar_entity option"
  te_resource :: "cedar_entity option"
  te_reason :: "string option"
  te_advice :: "json option"

datatype test_decision = ForbidDecision string | PermitDecision "json list" | NoMatch

definition entity_matches :: "cedar_entity option \<Rightarrow> cedar_entity \<Rightarrow> bool" where
  "entity_matches pattern actual = (case pattern of None \<Rightarrow> True | Some e \<Rightarrow> e = actual)"

definition rule_matches :: "cedar_request \<Rightarrow> test_rule \<Rightarrow> bool" where
  "rule_matches request rule \<longleftrightarrow> entity_matches (te_principal rule) (cr_principal request)
    \<and> entity_matches (te_action rule) (cr_action request)
    \<and> entity_matches (te_resource rule) (cr_resource request)"

fun decide_rules :: "cedar_request \<Rightarrow> test_rule list \<Rightarrow> bool \<Rightarrow> json list \<Rightarrow> test_decision" where
  "decide_rules request [] permitted advice = (if permitted then PermitDecision advice else NoMatch)"
| "decide_rules request (rule # rules) permitted advice =
    (if \<not> rule_matches request rule then decide_rules request rules permitted advice
     else case te_effect rule of
       Forbid \<Rightarrow> ForbidDecision (case te_reason rule of Some r \<Rightarrow> r | None \<Rightarrow> ''forbid_rule_matched'')
     | Permit \<Rightarrow> decide_rules request rules True
         (advice @ (case te_advice rule of Some a \<Rightarrow> [a] | None \<Rightarrow> [])))"

definition decide_test :: "test_rule list \<Rightarrow> cedar_request \<Rightarrow> test_decision" where
  "decide_test rules request = decide_rules request rules False []"

text \<open>\<open>str::split_once\<close> with a string.\<close>

fun split_once_str :: "string \<Rightarrow> string \<Rightarrow> (string \<times> string) option" where
  "split_once_str [] p = (if p = [] then Some ([], []) else None)"
| "split_once_str (c # s) p =
    (if starts_with (c # s) p then Some ([], drop (length p) (c # s))
     else map_option (\<lambda>(a, b). (c # a, b)) (split_once_str s p))"

definition parse_entity_pattern ::
  "string \<Rightarrow> nat \<Rightarrow> string option \<Rightarrow> (runtime_error, cedar_entity option) result"
where
  "parse_entity_pattern field index given = (case given of
      None \<Rightarrow> Inr None
    | Some given \<Rightarrow>
        let raw = trim given;
            complaint = (\<lambda>c. PolicyInvocationFailed (''cedar test policy rule '' @ nat_to_string index
              @ '' field '' @ quoted field @ c)) in
        if raw = [] \<or> eq_ignore_ascii_case raw ''any'' \<or> raw = ''*'' then Inr None
        else case split_once_str raw ''::'' of
          None \<Rightarrow> Inl (complaint ('' must be '' @ quoted ''any'' @ '' or ''
            @ quoted (''Type::'' @ [CHR 0x22] @ ''id'' @ [CHR 0x22]) @ '', got '' @ quoted raw))
        | Some (kind, rest) \<Rightarrow>
            let ident = rev (dropWhile (\<lambda>c. c = CHR 0x22) (rev (dropWhile (\<lambda>c. c = CHR 0x22) rest))) in
            if trim kind = [] \<or> ident = [] then
              Inl (complaint ('' is missing a type or id: '' @ quoted raw))
            else Inr (Some (cedar_entity_new (trim kind) ident)))"

definition test_rule_of :: "nat \<times> test_rule_doc \<Rightarrow> (runtime_error, test_rule) result" where
  "test_rule_of = (\<lambda>(index, doc).
    rbind (parse_entity_pattern ''principal'' index (trd_principal doc)) (\<lambda>principal.
    rbind (parse_entity_pattern ''action'' index (trd_action doc)) (\<lambda>action.
    rbind (parse_entity_pattern ''resource'' index (trd_resource doc)) (\<lambda>resource.
    Inr \<lparr>te_effect = trd_effect doc, te_principal = principal, te_action = action, te_resource = resource,
      te_reason = trd_reason doc, te_advice = trd_advice doc\<rparr>))))"

definition parse_test_policy_set ::
  "(string \<Rightarrow> (string, test_rule_doc list) result) \<Rightarrow> string \<Rightarrow> (runtime_error, test_rule list) result"
where
  "parse_test_policy_set from_str policy_text =
    rbind (map_err (\<lambda>err. PolicyInvocationFailed
        (''cedar test dispatcher failed to parse policy_set as JSON: '' @ err)) (from_str policy_text)) (\<lambda>docs.
    try_map test_rule_of (enumerate 0 docs))"

definition test_evaluate_cedar ::
  "(string \<Rightarrow> (string, test_rule_doc list) result) \<Rightarrow> cedar_invocation \<Rightarrow> (runtime_error, json) result"
where
  "test_evaluate_cedar from_str invocation =
    rbind (ok_or (PolicyInvocationFailed (''cedar test dispatcher requires an inline policy_set; ''
             @ ''policy_path is reserved for the builtin dispatcher'')) (ci_policy_set invocation)) (\<lambda>policy_text.
    rbind (parse_test_policy_set from_str policy_text) (\<lambda>policy_set.
    rbind (build_cedar_request (ci_input invocation)) (\<lambda>request.
    case decide_test policy_set request of
      ForbidDecision code \<Rightarrow> Inr (deny_json code)
    | PermitDecision advice \<Rightarrow>
        rbind (try_map translate_advice advice) (\<lambda>verdicts.
        Inr (case most_restrictive_advice verdicts of Some v \<Rightarrow> v | None \<Rightarrow> allow_json))
    | NoMatch \<Rightarrow> Inr (deny_json ''no_matching_policy''))))"

definition cedar_test_evaluate ::
  "(string \<Rightarrow> (string, test_rule_doc list) result) \<Rightarrow> prepared_invocation \<Rightarrow> (runtime_error, json) result"
where
  "cedar_test_evaluate from_str invocation = (case invocation of
      CedarInvocation i \<Rightarrow> test_evaluate_cedar from_str i
    | _ \<Rightarrow> Inl (PolicyInvocationFailed (''cedar test dispatcher only supports Cedar invocations; received ''
        @ invocation_engine_type invocation @ '' invocation'')))"

end
