(* ===== verification/Cedar_Builtin.thy ===== *)
theory Cedar_Builtin
  imports Cedar Run_Monad "HOL-Library.Option_ord" "HOL-Library.Product_Lexorder"
begin

text \<open>
  The bundled Cedar dispatcher, module \<open>builtin\<close> of \<open>cedar.rs\<close>.  What the \<open>cedar-policy\<close> crate
  computes is the record \<open>cedar_crate\<close>; its policy sets, schemas, entities, uids, contexts and
  requests are types of the model's user.  The dispatcher is a computation over its cache and
  the list of files it has read; what a file holds may depend on the reads before, so files
  may change under way.
\<close>

section \<open>The crate\<close>

datatype evaluation_error =
    EntityDoesNotExist | EntityAttrDoesNotExist | RecordAttrDoesNotExist | FailedExtensionFunctionLookup
  | TypeError | WrongNumArguments | IntegerOverflow | UnlinkedSlot | FailedExtensionFunctionExecution
  | RecursionLimit | OtherEvaluationError

datatype json_deserialization_error =
    NullValue | TypeMismatch | UnexpectedRecordAttr | MissingRequiredRecordAttr | ParseEscape
  | ExpectedLiteralEntityRef | ExprTag | ExpectedExtnValue | MissingImpliedConstructor
  | IncorrectNumOfArguments | ExtensionFunctionLookup | RestrictedExpressionError | DuplicateKey
  | OtherDeserializationError

datatype context_json_error =
    JsonDeserialization json_deserialization_error | NotARecord | ContextEvaluation evaluation_error
  | ExpressionConstruction | MissingAction

datatype request_validation_error = InvalidContext | OtherRequestError string

datatype cedar_decision = CedarAllow | CedarDeny

record cedar_response =
  cs_decision :: cedar_decision
  cs_reason :: "string list"
  cs_errors :: "(string \<times> evaluation_error) list"

record cedar_policy =
  cy_id :: string
  cy_annotation :: "string \<Rightarrow> string option"

record ('ps, 'sch, 'ent, 'uid, 'ctx, 'req) cedar_crate =
  cd_policy_set :: "string \<Rightarrow> (string, 'ps) result"
  cd_policy :: "'ps \<Rightarrow> string \<Rightarrow> cedar_policy option"
  cd_schema :: "string \<Rightarrow> (string, 'sch) result"
  cd_validate_strict :: "'sch \<Rightarrow> 'ps \<Rightarrow> (string, unit) result"
  cd_no_entities :: 'ent
  cd_entities :: "string \<Rightarrow> 'sch option \<Rightarrow> (string, 'ent) result"
  cd_entity_uid :: "string \<Rightarrow> string \<Rightarrow> (string, 'uid) result"
  cd_context :: "json \<Rightarrow> (context_json_error, 'ctx) result"
  cd_request :: "'uid \<Rightarrow> 'uid \<Rightarrow> 'uid \<Rightarrow> 'ctx \<Rightarrow> 'sch option \<Rightarrow> (request_validation_error, 'req) result"
  cd_is_authorized :: "'req \<Rightarrow> 'ps \<Rightarrow> 'ent \<Rightarrow> cedar_response"
  cd_from_str :: "string \<Rightarrow> (string, json) result"

fun evaluation_error_kind :: "evaluation_error \<Rightarrow> string" where
  "evaluation_error_kind EntityDoesNotExist = ''an entity does not exist''"
| "evaluation_error_kind EntityAttrDoesNotExist = ''an entity attribute or tag does not exist''"
| "evaluation_error_kind RecordAttrDoesNotExist = ''a record attribute does not exist''"
| "evaluation_error_kind FailedExtensionFunctionLookup = ''an extension function does not exist''"
| "evaluation_error_kind TypeError = ''type error''"
| "evaluation_error_kind WrongNumArguments = ''wrong number of arguments to an extension function''"
| "evaluation_error_kind IntegerOverflow = ''integer overflow''"
| "evaluation_error_kind UnlinkedSlot = ''a template slot is not linked''"
| "evaluation_error_kind FailedExtensionFunctionExecution = ''an extension function failed''"
| "evaluation_error_kind RecursionLimit = ''recursion limit reached''"
| "evaluation_error_kind OtherEvaluationError = ''evaluation error''"

definition json_deserialization_error_kind :: "json_deserialization_error \<Rightarrow> string" where
  "json_deserialization_error_kind e =
    (if e = NullValue then ''a value is null''
     else if e = TypeMismatch then ''a value does not match the type the schema declares''
     else if e = UnexpectedRecordAttr then ''a record has an attribute the schema does not declare''
     else if e = MissingRequiredRecordAttr then ''a record is missing an attribute the schema requires''
     else if e \<in> {ParseEscape, ExpectedLiteralEntityRef, ExprTag} then ''an escape did not parse''
     else if e \<in> {ExpectedExtnValue, MissingImpliedConstructor, IncorrectNumOfArguments,
         ExtensionFunctionLookup, RestrictedExpressionError} then ''an extension value did not parse''
     else if e = DuplicateKey then ''a record has a duplicate key''
     else ''the context did not parse'')"

definition describe_context_json_error :: "context_json_error \<Rightarrow> string" where
  "describe_context_json_error e = (case e of
      JsonDeserialization d \<Rightarrow> json_deserialization_error_kind d
    | NotARecord \<Rightarrow> ''the context is not a record''
    | ContextEvaluation v \<Rightarrow> evaluation_error_kind v
    | ExpressionConstruction \<Rightarrow> ''a record has a duplicate key''
    | MissingAction \<Rightarrow> ''the schema does not declare the action'')"

definition describe_evaluation_error :: "string \<times> evaluation_error \<Rightarrow> string" where
  "describe_evaluation_error = (\<lambda>(policy, e). ''policy `'' @ policy @ ''`: '' @ evaluation_error_kind e)"

section \<open>The cache\<close>

type_synonym cedar_key = "string option \<times> string option \<times> string option \<times> string option"

definition cedar_key_of :: "cedar_invocation \<Rightarrow> cedar_key" where
  "cedar_key_of i = (ci_policy_set i, ci_policy_path i, ci_entities_path i, ci_schema_path i)"

record ('ps, 'sch, 'ent) cedar_prepared =
  pr_policy_set :: 'ps
  pr_schema :: "'sch option"
  pr_entities :: 'ent

text \<open>The map behind the mutex, whether the mutex is poisoned, and the files read so far.\<close>

record ('ps, 'sch, 'ent) cedar_state =
  ca_map :: "(cedar_key \<times> ('ps, 'sch, 'ent) cedar_prepared) list"
  ca_poisoned :: bool
  ca_reads :: "string list"

type_synonym ('ps, 'sch, 'ent, 'a) cedar_run = "(('ps, 'sch, 'ent) cedar_state, runtime_error, 'a) stateful"

definition MAX_CACHED_POLICY_SETS :: nat where
  "MAX_CACHED_POLICY_SETS = 64"

type_synonym file_reader = "string list \<Rightarrow> string \<Rightarrow> (string, string) result"

definition read_to_string :: "file_reader \<Rightarrow> string \<Rightarrow> string \<Rightarrow> ('ps, 'sch, 'ent, string) cedar_run" where
  "read_to_string files what path st =
    (map_err (\<lambda>err. PolicyInvocationFailed (''cedar builtin dispatcher failed to read '' @ what @ '' ''
        @ quoted path @ '': '' @ err)) (files (ca_reads st) path),
     st\<lparr>ca_reads := ca_reads st @ [path]\<rparr>)"

definition load_policy_text :: "file_reader \<Rightarrow> cedar_invocation \<Rightarrow> ('ps, 'sch, 'ent, string) cedar_run" where
  "load_policy_text files i = (case (ci_policy_set i, ci_policy_path i) of
      (Some policy, None) \<Rightarrow> run_lift (Inr policy)
    | (None, Some path) \<Rightarrow> read_to_string files ''policy_path'' path
    | (Some _, Some _) \<Rightarrow> run_lift (Inl (PolicyInvocationFailed (''cedar builtin dispatcher received both ''
        @ ''policy_set and policy_path; manifest validation must reject this earlier'')))
    | (None, None) \<Rightarrow> run_lift (Inl (PolicyInvocationFailed
        ''cedar builtin dispatcher requires either policy_set or policy_path'')))"

definition load_schema ::
  "('ps, 'sch, 'ent, 'uid, 'ctx, 'req) cedar_crate \<Rightarrow> file_reader \<Rightarrow> string option \<Rightarrow> ('ps, 'sch, 'ent, 'sch option) cedar_run"
where
  "load_schema c files given = (case given of
      None \<Rightarrow> run_lift (Inr None)
    | Some path \<Rightarrow>
        run_bind (read_to_string files ''schema_path'' path) (\<lambda>json_text.
        run_lift (rbind (map_err (\<lambda>err. PolicyInvocationFailed
            (''cedar builtin dispatcher failed to parse schema_path '' @ quoted path @ '': '' @ err))
            (cd_schema c json_text)) (\<lambda>schema. Inr (Some schema)))))"

definition validate_policy_set ::
  "('ps, 'sch, 'ent, 'uid, 'ctx, 'req) cedar_crate \<Rightarrow> 'ps \<Rightarrow> 'sch option \<Rightarrow> (runtime_error, unit) result"
where
  "validate_policy_set c policy_set given = (case given of
      None \<Rightarrow> Inr ()
    | Some schema \<Rightarrow> map_err (\<lambda>report. PolicyInvocationFailed
        (''cedar builtin dispatcher policy_set failed schema validation: '' @ report))
        (cd_validate_strict c schema policy_set))"

definition load_entities ::
  "('ps, 'sch, 'ent, 'uid, 'ctx, 'req) cedar_crate \<Rightarrow> file_reader \<Rightarrow> string option \<Rightarrow> 'sch option
    \<Rightarrow> ('ps, 'sch, 'ent, 'ent) cedar_run"
where
  "load_entities c files given schema = (case given of
      None \<Rightarrow> run_lift (Inr (cd_no_entities c))
    | Some path \<Rightarrow>
        run_bind (read_to_string files ''entities_path'' path) (\<lambda>json_text.
        run_lift (map_err (\<lambda>err. PolicyInvocationFailed
          (''cedar builtin dispatcher failed to parse entities at '' @ quoted path @ '': '' @ err))
          (cd_entities c json_text schema))))"

definition prepared_load ::
  "('ps, 'sch, 'ent, 'uid, 'ctx, 'req) cedar_crate \<Rightarrow> file_reader \<Rightarrow> cedar_invocation
    \<Rightarrow> ('ps, 'sch, 'ent, ('ps, 'sch, 'ent) cedar_prepared) cedar_run"
where
  "prepared_load c files i =
    run_bind (load_policy_text files i) (\<lambda>policy_text.
    run_bind (run_lift (map_err (\<lambda>err. PolicyInvocationFailed
      (''cedar builtin dispatcher failed to parse policy_set: '' @ err)) (cd_policy_set c policy_text))) (\<lambda>policy_set.
    run_bind (load_schema c files (ci_schema_path i)) (\<lambda>schema.
    run_bind (run_lift (validate_policy_set c policy_set schema)) (\<lambda>_.
    run_bind (load_entities c files (ci_entities_path i) schema) (\<lambda>entities.
    run_lift (Inr \<lparr>pr_policy_set = policy_set, pr_schema = schema, pr_entities = entities\<rparr>))))))"

text \<open>The two critical sections, each under the lock; a poisoned lock is passed over.\<close>

definition cache_get :: "cedar_key \<Rightarrow> ('ps, 'sch, 'ent) cedar_state \<Rightarrow> ('ps, 'sch, 'ent) cedar_prepared option" where
  "cache_get key st = (if ca_poisoned st then None else map_of (ca_map st) key)"

definition cache_put ::
  "cedar_key \<Rightarrow> ('ps, 'sch, 'ent) cedar_prepared \<Rightarrow> ('ps, 'sch, 'ent) cedar_state \<Rightarrow> ('ps, 'sch, 'ent) cedar_state"
where
  "cache_put key prepared st =
    (if \<not> ca_poisoned st \<and> (length (ca_map st) < MAX_CACHED_POLICY_SETS \<or> has_key (ca_map st) key)
     then st\<lparr>ca_map := bt_insert key prepared (ca_map st)\<rparr> else st)"

definition cache_len :: "('ps, 'sch, 'ent) cedar_state \<Rightarrow> nat" where
  "cache_len st = (if ca_poisoned st then 0 else length (ca_map st))"

definition cache_refresh ::
  "('ps, 'sch, 'ent, 'uid, 'ctx, 'req) cedar_crate \<Rightarrow> file_reader \<Rightarrow> cedar_invocation \<Rightarrow> ('ps, 'sch, 'ent, unit) cedar_run"
where
  "cache_refresh c files i =
    run_bind (prepared_load c files i) (\<lambda>prepared. run_effect (cache_put (cedar_key_of i) prepared))"

definition cache_prepared ::
  "('ps, 'sch, 'ent, 'uid, 'ctx, 'req) cedar_crate \<Rightarrow> file_reader \<Rightarrow> cedar_invocation
    \<Rightarrow> ('ps, 'sch, 'ent, ('ps, 'sch, 'ent) cedar_prepared) cedar_run"
where
  "cache_prepared c files i st = (case cache_get (cedar_key_of i) st of
      Some prepared \<Rightarrow> (Inr prepared, st)
    | None \<Rightarrow>
        run_bind (prepared_load c files i) (\<lambda>prepared.
        run_bind (run_effect (cache_put (cedar_key_of i) prepared)) (\<lambda>_.
        run_lift (Inr prepared))) st)"

section \<open>Evaluation\<close>

definition entity_uid ::
  "('ps, 'sch, 'ent, 'uid, 'ctx, 'req) cedar_crate \<Rightarrow> cedar_entity \<Rightarrow> string \<Rightarrow> (runtime_error, 'uid) result"
where
  "entity_uid c entity field = map_err (\<lambda>err. PolicyInvocationFailed
      (''cedar builtin dispatcher failed to parse '' @ field @ '' entity type '' @ quoted (ce_kind entity) @ '': '' @ err))
    (cd_entity_uid c (ce_kind entity) (ce_id entity))"

definition build_authorizer_request ::
  "('ps, 'sch, 'ent, 'uid, 'ctx, 'req) cedar_crate \<Rightarrow> cedar_request \<Rightarrow> 'sch option \<Rightarrow> (runtime_error, 'req) result"
where
  "build_authorizer_request c request schema =
    rbind (entity_uid c (cr_principal request) ''principal'') (\<lambda>principal.
    rbind (entity_uid c (cr_action request) ''action'') (\<lambda>action.
    rbind (entity_uid c (cr_resource request) ''resource'') (\<lambda>resource.
    rbind (map_err (\<lambda>err. PolicyInvocationFailed (''cedar builtin dispatcher rejected the request context for ''
        @ as_display (cr_action request) @ '': '' @ describe_context_json_error err))
        (cd_context c (cr_context request))) (\<lambda>context.
    map_err (\<lambda>err. case err of
        InvalidContext \<Rightarrow> PolicyInvocationFailed (''cedar builtin dispatcher rejected the request context for ''
          @ as_display (cr_action request) @ '': it does not match the context shape the schema declares for this action'')
      | OtherRequestError other \<Rightarrow> PolicyInvocationFailed
          (''cedar builtin dispatcher failed to build authorizer request: '' @ other))
      (cd_request c principal action resource context schema)))))"

definition translate_advice_annotation ::
  "(string \<Rightarrow> (string, json) result) \<Rightarrow> string \<Rightarrow> (runtime_error, json) result"
where
  "translate_advice_annotation from_str advice =
    rbind (map_err (\<lambda>err. PolicyOutputInvalid (''cedar @advice annotation is not valid JSON: '' @ err))
      (from_str advice)) translate_advice"

definition deny_reason :: "cedar_policy \<Rightarrow> string" where
  "deny_reason policy = (case cy_annotation policy ''id'' of
      Some i \<Rightarrow> if \<not> is_blank i then i else cy_id policy
    | None \<Rightarrow> cy_id policy)"

definition declaration_key :: "string \<Rightarrow> nat \<times> string" where
  "declaration_key ident =
    (case Option.bind (strip_prefix ident ''policy'') parse_u64 of Some n \<Rightarrow> n | None \<Rightarrow> 2 ^ 64 - 1, ident)"

definition contributing_policies :: "(string \<Rightarrow> cedar_policy option) \<Rightarrow> cedar_response \<Rightarrow> cedar_policy list" where
  "contributing_policies policy answer =
    sort_key (\<lambda>p. declaration_key (cy_id p)) (List.map_filter policy (cs_reason answer))"

definition verdict_of_response ::
  "('ps, 'sch, 'ent, 'uid, 'ctx, 'req) cedar_crate \<Rightarrow> 'ps \<Rightarrow> cedar_response \<Rightarrow> (runtime_error, json) result"
where
  "verdict_of_response c policy_set answer =
    (let hard_errors = map describe_evaluation_error (cs_errors answer) in
     if hard_errors \<noteq> [] then
       Inl (PolicyInvocationFailed (''cedar builtin dispatcher authorizer reported errors: '' @ join ''; '' hard_errors))
     else
       let contributing = contributing_policies (cd_policy c policy_set) answer in
       case cs_decision answer of
         CedarAllow \<Rightarrow>
           rbind (try_map (translate_advice_annotation (cd_from_str c))
                    (List.map_filter (\<lambda>policy. cy_annotation policy ''advice'') contributing)) (\<lambda>verdicts.
           Inr (case most_restrictive_advice verdicts of Some v \<Rightarrow> v | None \<Rightarrow> allow_json))
       | CedarDeny \<Rightarrow> Inr (deny_json (case contributing of
             [] \<Rightarrow> ''no_matching_policy''
           | policy # _ \<Rightarrow> deny_reason policy)))"

definition builtin_evaluate ::
  "('ps, 'sch, 'ent, 'uid, 'ctx, 'req) cedar_crate \<Rightarrow> file_reader \<Rightarrow> cedar_invocation \<Rightarrow> ('ps, 'sch, 'ent, json) cedar_run"
where
  "builtin_evaluate c files i =
    run_bind (cache_prepared c files i) (\<lambda>prepared.
    run_lift (
      rbind (build_cedar_request (ci_input i)) (\<lambda>request.
      rbind (build_authorizer_request c request (pr_schema prepared)) (\<lambda>cedar_request.
      verdict_of_response c (pr_policy_set prepared)
        (cd_is_authorized c cedar_request (pr_policy_set prepared) (pr_entities prepared))))))"

definition cedar_builtin_evaluate ::
  "('ps, 'sch, 'ent, 'uid, 'ctx, 'req) cedar_crate \<Rightarrow> file_reader \<Rightarrow> prepared_invocation \<Rightarrow> ('ps, 'sch, 'ent, json) cedar_run"
where
  "cedar_builtin_evaluate c files invocation = (case invocation of
      CedarInvocation i \<Rightarrow> builtin_evaluate c files i
    | _ \<Rightarrow> run_lift (Inl (PolicyInvocationFailed (''cedar builtin dispatcher only supports Cedar invocations; received ''
        @ invocation_engine_type invocation @ '' invocation''))))"

definition cedar_builtin_warm ::
  "('ps, 'sch, 'ent, 'uid, 'ctx, 'req) cedar_crate \<Rightarrow> file_reader \<Rightarrow> prepared_invocation \<Rightarrow> ('ps, 'sch, 'ent, unit) cedar_run"
where
  "cedar_builtin_warm c files invocation = (case invocation of
      CedarInvocation i \<Rightarrow> cache_refresh c files i
    | _ \<Rightarrow> run_lift (Inr ()))"

definition cedar_builtin_new :: "('ps, 'sch, 'ent) cedar_state" where
  "cedar_builtin_new = \<lparr>ca_map = [], ca_poisoned = False, ca_reads = []\<rparr>"

end
