(* ===== verification/Cedar_Laws.thy ===== *)
theory Cedar_Laws
  imports Cedar_Builtin
begin

text \<open>
  The Cedar mapping: which inputs have a request and what the context of that request
  says, decimals, advice, the verdict of an answer, and the cache.
\<close>

section \<open>What Cedar reads in a context\<close>

text \<open>
  Values of Cedar, and how its JSON value format is read: a record with an escape key is an
  entity reference or a call of an extension function, not a record.
\<close>

datatype cedar_value =
    CBool bool
  | CLong number
  | CString string
  | CSet "cedar_value list"
  | CRecord "(string \<times> cedar_value) list"
  | CExtension string string
  | CEntity json

fun read_cedar :: "json \<Rightarrow> cedar_value option"
  and read_set :: "json list \<Rightarrow> cedar_value list option"
  and read_record :: "(string \<times> json) list \<Rightarrow> (string \<times> cedar_value) list option"
where
  "read_cedar JNull = None"
| "read_cedar (JBool b) = Some (CBool b)"
| "read_cedar (JString s) = Some (CString s)"
| "read_cedar (JNumber n) = (if number_is_i64 n then Some (CLong n) else None)"
| "read_cedar (JArray xs) = map_option CSet (read_set xs)"
| "read_cedar (JObject m) =
    (if has_key m ''__expr'' then None
     else case map_of m ''__entity'' of
       Some e \<Rightarrow> Some (CEntity e)
     | None \<Rightarrow> (case map_of m ''__extn'' of
         Some call \<Rightarrow> (case (json_get call ''fn'', json_get call ''arg'') of
             (Some (JString f), Some (JString a)) \<Rightarrow> Some (CExtension f a)
           | _ \<Rightarrow> None)
       | None \<Rightarrow> map_option CRecord (read_record m)))"
| "read_set [] = Some []"
| "read_set (x # xs) = (case read_cedar x of
      None \<Rightarrow> None | Some v \<Rightarrow> map_option (\<lambda>vs. v # vs) (read_set xs))"
| "read_record [] = Some []"
| "read_record ((k, x) # m) = (case read_cedar x of
      None \<Rightarrow> None | Some v \<Rightarrow> map_option (\<lambda>vs. (k, v) # vs) (read_record m))"

section \<open>What a snapshot means\<close>

text \<open>The inputs that have a translation, and the value they stand for.\<close>

definition representable :: "number \<Rightarrow> bool" where
  "representable n = (case n of Float b \<Rightarrow> float_to_decimal b \<noteq> None | _ \<Rightarrow> number_is_i64 n)"

fun acceptable :: "json \<Rightarrow> bool" where
  "acceptable (JNumber n) = representable n"
| "acceptable (JArray xs) = (\<forall>x\<in>set xs. x \<noteq> JNull \<and> acceptable x)"
| "acceptable (JObject m) = (\<forall>p\<in>set m. fst p \<notin> set CEDAR_RESERVED_KEYS \<and> acceptable (snd p))"
| "acceptable _ = True"

fun meaning :: "json \<Rightarrow> cedar_value" where
  "meaning (JBool b) = CBool b"
| "meaning (JString s) = CString s"
| "meaning (JNumber n) = (case n of
      Float b \<Rightarrow> CExtension ''decimal'' (the (float_to_decimal b))
    | _ \<Rightarrow> CLong n)"
| "meaning (JArray xs) = CSet (map meaning xs)"
| "meaning (JObject m) = CRecord (map (\<lambda>p. (fst p, meaning (snd p))) (filter (\<lambda>p. snd p \<noteq> JNull) m))"
| "meaning JNull = CRecord []"

lemma read_set_iff: "read_set xs = Some vs \<longleftrightarrow> list_all2 (\<lambda>x v. read_cedar x = Some v) xs vs"
  by (induction xs arbitrary: vs) (auto simp: list_all2_Cons1 split: option.splits)

lemma read_record_iff:
  "read_record m = Some vs \<longleftrightarrow> list_all2 (\<lambda>p q. fst p = fst q \<and> read_cedar (snd p) = Some (snd q)) m vs"
  by (induction m arbitrary: vs rule: list.induct) (auto simp: list_all2_Cons1 split: option.splits)

lemma number_meaning:
  "number_to_cedar n path = Inr w \<Longrightarrow> representable n \<and> w \<noteq> JNull \<and> read_cedar w = Some (meaning (JNumber n))"
  by (cases n)
    (auto simp: number_to_cedar_def number_is_i64_def representable_def as_f64_def decimal_json_def has_key_def
      rbind_eq_Inr_iff split: if_splits)

lemma number_accepted: "representable n \<Longrightarrow> is_ok (number_to_cedar n path)"
  by (cases n)
    (auto simp: number_to_cedar_def number_is_i64_def representable_def as_f64_def split: if_splits)

lemma check_key_ok [simp]: "check_key path key = Inr u \<longleftrightarrow> key \<notin> set CEDAR_RESERVED_KEYS"
  by (simp add: check_key_def)

lemma set_element_ok [simp]: "set_element path found = Inr w \<longleftrightarrow> found = Some w"
  by (simp add: set_element_def)

lemma jm_insert_fresh: "k \<notin> fst ` set m \<Longrightarrow> jm_insert k v m = m @ [(k, v)]"
  by (induction m rule: list.induct) auto

text \<open>A record without escape keys is read member by member.\<close>

lemma read_plain_record:
  assumes "\<forall>p\<in>set m. fst p \<notin> set CEDAR_RESERVED_KEYS"
  shows "read_cedar (JObject m) = map_option CRecord (read_record m)"
proof -
  have "k \<notin> fst ` set m" if "k \<in> set CEDAR_RESERVED_KEYS" for k
    using assms that by auto
  then have "map_of m ''__entity'' = None" "map_of m ''__extn'' = None" "\<not> has_key m ''__expr''"
    by (auto simp: has_key_def CEDAR_RESERVED_KEYS_def map_of_eq_None_iff)
  then show ?thesis
    by simp
qed

lemma matching_keys: "list_all2 (\<lambda>p q. fst p = fst q \<and> P p q) m n \<Longrightarrow> map fst n = map fst m"
  by (induction m n rule: list_all2_induct) simp_all

definition translates :: "json \<Rightarrow> json \<Rightarrow> bool" where
  "translates v w \<longleftrightarrow> v \<noteq> JNull \<and> acceptable v \<and> read_cedar w = Some (meaning v)"

lemma translation_sound:
  "to_cedar_value v path key = Inr r \<Longrightarrow> json_wf v \<Longrightarrow>
    key \<notin> set CEDAR_RESERVED_KEYS \<and> (if v = JNull then r = None else \<exists>w. r = Some w \<and> translates v w)"
  "translate_items xs index path out = Inr ys \<Longrightarrow> \<forall>x\<in>set xs. json_wf x \<Longrightarrow>
    \<exists>ws. ys = out @ ws \<and> list_all2 translates xs ws"
  "translate_members m path acc = Inr n \<Longrightarrow> \<forall>p\<in>set m. json_wf (snd p) \<Longrightarrow> distinct (map fst (acc @ m)) \<Longrightarrow>
    (\<forall>p\<in>set m. fst p \<notin> set CEDAR_RESERVED_KEYS \<and> acceptable (snd p))
    \<and> (\<exists>ws. n = acc @ ws
      \<and> list_all2 (\<lambda>p q. fst p = fst q \<and> translates (snd p) (snd q)) (filter (\<lambda>p. snd p \<noteq> JNull) m) ws)"
proof (induction v path key and xs index path out and m path acc
    arbitrary: r and ys and n rule: to_cedar_value_translate_items_translate_members.induct)
  case (4 n path key)
  then show ?case
    using number_meaning by (auto simp: rbind_eq_Inr_iff translates_def)
next
  case (5 items path key)
  then obtain ws where "key \<notin> set CEDAR_RESERVED_KEYS" "r = Some (JArray ws)" "list_all2 translates items ws"
    by (fastforce simp: rbind_eq_Inr_iff)
  moreover from this have "read_set ws = Some (map meaning items)"
    unfolding read_set_iff by (auto simp: list_all2_conv_all_nth translates_def)
  ultimately show ?case
    by (auto simp: translates_def list_all2_conv_all_nth in_set_conv_nth)
next
  case (6 members path key)
  then obtain ws where ws: "key \<notin> set CEDAR_RESERVED_KEYS" "r = Some (JObject ws)"
      "\<forall>p\<in>set members. fst p \<notin> set CEDAR_RESERVED_KEYS \<and> acceptable (snd p)"
      "list_all2 (\<lambda>p q. fst p = fst q \<and> translates (snd p) (snd q)) (filter (\<lambda>p. snd p \<noteq> JNull) members) ws"
    by (fastforce simp: rbind_eq_Inr_iff jm_inv_def)
  then have "read_record ws = Some (map (\<lambda>p. (fst p, meaning (snd p))) (filter (\<lambda>p. snd p \<noteq> JNull) members))"
    unfolding read_record_iff by (auto simp: list_all2_conv_all_nth translates_def)
  moreover have "fst ` set ws \<subseteq> fst ` set members"
    using arg_cong [OF matching_keys [OF ws(4)], of set] by auto
  then have "\<forall>q\<in>set ws. fst q \<notin> set CEDAR_RESERVED_KEYS"
    using ws(3) by force
  ultimately show ?case
    using ws by (simp add: translates_def read_plain_record del: read_cedar.simps(6))
next
  case (8 item items index path out)
  from "8.prems"(1) obtain w where w: "to_cedar_value item (item_path path index) [] = Inr (Some w)"
      "translate_items items (Suc index) path (out @ [w]) = Inr ys"
    by (auto simp: rbind_eq_Inr_iff)
  have "translates item w"
    using "8.IH"(1) [OF w(1)] "8.prems"(2) by (auto split: if_splits)
  moreover obtain ws where "ys = (out @ [w]) @ ws" "list_all2 translates items ws"
    using "8.IH"(2) [OF w(1) _ w(2)] "8.prems"(2) by auto
  ultimately show ?case
    by (intro exI [of _ "w # ws"]) simp
next
  case (10 member inner members path acc)
  let ?acc = "\<lambda>found. case found of Some w \<Rightarrow> jm_insert member w acc | None \<Rightarrow> acc"
  from "10.prems"(1) obtain found where w: "to_cedar_value inner (path @ CHR ''.'' # member) member = Inr found"
      "translate_members members path (?acc found) = Inr n"
    by (auto simp: rbind_eq_Inr_iff)
  have inner: "member \<notin> set CEDAR_RESERVED_KEYS"
      "if inner = JNull then found = None else \<exists>w. found = Some w \<and> translates inner w"
    using "10.IH"(1) [OF w(1)] "10.prems"(2) by auto
  have fresh: "member \<notin> fst ` set acc"
    using "10.prems"(3) by auto
  then have "distinct (map fst (?acc found @ members))"
    using "10.prems"(3) by (auto simp: jm_insert_fresh split: option.splits)
  then show ?case
    using "10.IH"(2) [OF w] "10.prems"(2) inner fresh
    by (auto simp: jm_insert_fresh translates_def list_all2_Cons1 split: if_splits)
qed (auto simp: rbind_eq_Inr_iff translates_def)

lemma translation_complete:
  "acceptable v \<Longrightarrow> key \<notin> set CEDAR_RESERVED_KEYS \<Longrightarrow>
    \<exists>r. to_cedar_value v path key = Inr r \<and> (v \<noteq> JNull \<longrightarrow> r \<noteq> None)"
  "\<forall>x\<in>set xs. x \<noteq> JNull \<and> acceptable x \<Longrightarrow> is_ok (translate_items xs index path out)"
  "\<forall>p\<in>set m. fst p \<notin> set CEDAR_RESERVED_KEYS \<and> acceptable (snd p) \<Longrightarrow> is_ok (translate_members m path acc)"
proof (induction v path key and xs index path out and m path acc
    rule: to_cedar_value_translate_items_translate_members.induct)
  case (4 n path key)
  then show ?case
    using number_accepted [of n path] by (auto simp: is_ok_iff rbind_eq_Inr_iff)
next
  case (8 item items index path out)
  then have "[] \<notin> set CEDAR_RESERVED_KEYS"
    by (simp add: CEDAR_RESERVED_KEYS_def)
  with 8 obtain w where "to_cedar_value item (item_path path index) [] = Inr (Some w)"
    by fastforce
  with 8 show ?case
    by (auto simp: is_ok_iff rbind_eq_Inr_iff)
next
  case (10 member inner members path acc)
  then obtain found where "to_cedar_value inner (path @ CHR ''.'' # member) member = Inr found"
    by fastforce
  with 10 show ?case
    by (simp split: option.splits)
qed (auto simp: is_ok_iff rbind_eq_Inr_iff)

lemma translate_record_exact:
  assumes "json_wf (JObject m)"
  shows "is_ok (translate_record m path) \<longleftrightarrow> acceptable (JObject m)"
    and "translate_record m path = Inr n \<Longrightarrow> read_record n
      = Some (map (\<lambda>p. (fst p, meaning (snd p))) (filter (\<lambda>p. snd p \<noteq> JNull) m))
      \<and> fst ` set n \<subseteq> fst ` set m \<and> (\<forall>p\<in>set n. fst p \<notin> set CEDAR_RESERVED_KEYS)"
proof -
  have sound: "(\<forall>p\<in>set m. fst p \<notin> set CEDAR_RESERVED_KEYS \<and> acceptable (snd p)) \<and>
      list_all2 (\<lambda>p q. fst p = fst q \<and> translates (snd p) (snd q)) (filter (\<lambda>p. snd p \<noteq> JNull) m) n"
    if "translate_record m path = Inr n" for n
    using translation_sound(3) [OF that [unfolded translate_record_def]] assms by (auto simp: jm_inv_def)
  show "is_ok (translate_record m path) \<longleftrightarrow> acceptable (JObject m)"
    using sound translation_complete(3) [of m path "[]"] by (auto simp: is_ok_iff translate_record_def)
  assume "translate_record m path = Inr n"
  note keys = conjunct1 [OF sound [OF this]] and both = conjunct2 [OF sound [OF this]]
  have "read_record n = Some (map (\<lambda>p. (fst p, meaning (snd p))) (filter (\<lambda>p. snd p \<noteq> JNull) m))"
    using both unfolding read_record_iff by (auto simp: list_all2_conv_all_nth translates_def)
  moreover have sub: "fst ` set n \<subseteq> fst ` set m"
    using arg_cong [OF matching_keys [OF both], of set] by auto
  moreover have "\<forall>p\<in>set n. fst p \<notin> set CEDAR_RESERVED_KEYS"
    using keys sub by force
  ultimately show "read_record n = Some (map (\<lambda>p. (fst p, meaning (snd p))) (filter (\<lambda>p. snd p \<noteq> JNull) m))
      \<and> fst ` set n \<subseteq> fst ` set m \<and> (\<forall>p\<in>set n. fst p \<notin> set CEDAR_RESERVED_KEYS)"
    by blast
qed

text \<open>The annotations a context carries; none at all count as an empty record.\<close>

definition annotations_record :: "json option \<Rightarrow> json_map option" where
  "annotations_record annotations = (case annotations of
      None \<Rightarrow> Some []
    | Some JNull \<Rightarrow> Some []
    | Some (JObject m) \<Rightarrow> Some m
    | Some _ \<Rightarrow> None)"

lemma annotations_translated:
  "(case annotations of
      None \<Rightarrow> Inr []
    | Some JNull \<Rightarrow> Inr []
    | Some (JObject members) \<Rightarrow> translate_record members path
    | Some _ \<Rightarrow> Inl e) =
   (case annotations_record annotations of None \<Rightarrow> Inl e | Some members \<Rightarrow> translate_record members path)"
  by (auto simp: annotations_record_def translate_record_def split: option.splits json.splits)

lemma annotations_record_wf:
  "annotations_record annotations = Some m \<Longrightarrow> \<forall>a. annotations = Some a \<longrightarrow> json_wf a \<Longrightarrow> json_wf (JObject m)"
  by (auto simp: annotations_record_def jm_inv_def split: option.splits json.splits)

lemma build_cedar_context_alt:
  "build_cedar_context snapshot annotations =
    (if has_key snapshot ''annotations'' then
       Inl (PolicyInvocationFailed (''cedar context key '' @ quoted ''context.annotations''
         @ '' is reserved for the policy input annotations''))
     else
       rbind (translate_record snapshot ''context'') (\<lambda>context.
       rbind (case annotations_record annotations of
           None \<Rightarrow> Inl (PolicyInvocationFailed (''cedar context key '' @ quoted ''context.annotations''
             @ '' must be a record of annotator outputs''))
         | Some members \<Rightarrow> translate_record members ''context.annotations'') (\<lambda>annotations.
       Inr (JObject (jm_insert ''annotations'' (JObject annotations) context)))))"
  unfolding build_cedar_context_def annotations_translated ..

text \<open>
  C26: The context of a Cedar request.  A context is built exactly when the snapshot has no
  member \<open>annotations\<close>, the annotations are a record, and every value below both is
  acceptable: no record key is an escape of Cedar's JSON format, no set has a null element,
  and every number is a Long or rounds to a decimal.  Then Cedar reads the context as the
  record of the snapshot's members with the annotations last, null members left out,
  integers as Longs, other numbers as decimals, and nothing in it as an entity reference or
  as a call of another extension function.
\<close>

theorem cedar_context_exact:
  assumes "json_wf (JObject snapshot)" "\<forall>a. annotations = Some a \<longrightarrow> json_wf a"
  shows "(is_ok (build_cedar_context snapshot annotations) \<longleftrightarrow>
      \<not> has_key snapshot ''annotations'' \<and> acceptable (JObject snapshot)
      \<and> (\<exists>m. annotations_record annotations = Some m \<and> acceptable (JObject m)))
    \<and> (\<forall>ctx. build_cedar_context snapshot annotations = Inr ctx \<longrightarrow>
      (\<exists>m members. annotations_record annotations = Some m \<and> meaning (JObject snapshot) = CRecord members
        \<and> read_cedar ctx = Some (CRecord (members @ [(''annotations'', meaning (JObject m))]))))"
proof (intro conjI allI impI)
  note snap = translate_record_exact [OF assms(1)]
  note ann = translate_record_exact [OF annotations_record_wf [OF _ assms(2)]]
  have snap_ok: "acceptable (JObject snapshot) \<longleftrightarrow> (\<exists>n. translate_record snapshot ''context'' = Inr n)"
    using snap(1) [of "''context''"] by (simp add: is_ok_iff)
  have ann_ok: "acceptable (JObject m) \<longleftrightarrow> (\<exists>n. translate_record m ''context.annotations'' = Inr n)"
    if "annotations_record annotations = Some m" for m
    using ann(1) [OF that, of "''context.annotations''"] by (simp add: is_ok_iff)
  show "is_ok (build_cedar_context snapshot annotations) \<longleftrightarrow>
      \<not> has_key snapshot ''annotations'' \<and> acceptable (JObject snapshot)
      \<and> (\<exists>m. annotations_record annotations = Some m \<and> acceptable (JObject m))"
    unfolding snap_ok using ann_ok
    by (cases "annotations_record annotations")
      (auto simp: build_cedar_context_alt is_ok_iff rbind_eq_Inr_iff simp del: acceptable.simps)
  fix ctx
  assume built: "build_cedar_context snapshot annotations = Inr ctx"
  then obtain m n k where parts: "\<not> has_key snapshot ''annotations''" "annotations_record annotations = Some m"
      "translate_record snapshot ''context'' = Inr n" "translate_record m ''context.annotations'' = Inr k"
      "ctx = JObject (jm_insert ''annotations'' (JObject k) n)"
    by (auto simp: build_cedar_context_alt rbind_eq_Inr_iff split: if_splits option.splits)
  note read = snap(2) [OF parts(3)] ann(2) [OF parts(2,4)]
  have "''annotations'' \<notin> fst ` set n"
    using read(1) parts(1) unfolding has_key_iff by blast
  then have "ctx = JObject (n @ [(''annotations'', JObject k)])"
    by (simp add: parts(5) jm_insert_fresh)
  moreover have "read_cedar (JObject k) = Some (meaning (JObject m))"
    using read(2) by (simp add: read_plain_record del: read_cedar.simps(6))
  moreover have "read_record (n @ [(''annotations'', JObject k)])
      = Some (map (\<lambda>p. (fst p, meaning (snd p))) (filter (\<lambda>p. snd p \<noteq> JNull) snapshot)
          @ [(''annotations'', meaning (JObject m))])"
    using read(1) calculation(2) unfolding read_record_iff
    by (auto intro!: list_all2_appendI simp del: read_cedar.simps(6) meaning.simps)
  moreover have "\<forall>p\<in>set (n @ [(''annotations'', JObject k)]). fst p \<notin> set CEDAR_RESERVED_KEYS"
    using read(1) by (simp add: CEDAR_RESERVED_KEYS_def)
  ultimately show "\<exists>m members. annotations_record annotations = Some m \<and> meaning (JObject snapshot) = CRecord members
        \<and> read_cedar ctx = Some (CRecord (members @ [(''annotations'', meaning (JObject m))]))"
    using parts(2) by (simp add: read_plain_record del: read_cedar.simps(6))
qed

section \<open>Decimals\<close>

text \<open>Reading a decimal literal with four fractional digits as its count of ten thousandths.\<close>

definition read_decimal :: "string \<Rightarrow> int option" where
  "read_decimal s =
    (let negative = starts_with s ''-'';
         rest = (if negative then drop 1 s else s);
         whole = takeWhile is_ascii_digit rest;
         fraction = drop (Suc (length whole)) rest;
         n = int (digits_value whole * 10000 + digits_value fraction) in
     if whole \<noteq> [] \<and> rest = whole @ ''.'' @ fraction \<and> length fraction = 4 \<and> list_all is_ascii_digit fraction
     then Some (if negative then - n else n) else None)"

lemma nat_to_string_length: "n < 10 ^ Suc k \<Longrightarrow> length (nat_to_string n) \<le> Suc k"
proof (induction k arbitrary: n)
  case (Suc k)
  show ?case
  proof (cases "n < 10")
    case False
    have "n div 10 < 10 ^ Suc k"
      using Suc.prems by (simp add: less_mult_imp_div_less mult.commute)
    then show ?thesis
      using Suc.IH False by (subst nat_to_string.simps) simp
  qed (simp add: nat_to_string.simps)
qed (simp add: nat_to_string.simps)

lemma zero_padded_digits:
  assumes "n < 10 ^ Suc k"
  shows "length (zero_padded (Suc k) n) = Suc k" "list_all is_ascii_digit (zero_padded (Suc k) n)"
    "digits_value (zero_padded (Suc k) n) = n"
proof -
  have zeros: "foldl (\<lambda>n c. n * 10 + digit_value c) 0 (replicate j (CHR ''0'')) = 0" for j
    by (induction j) (simp_all add: digit_value_def)
  show "length (zero_padded (Suc k) n) = Suc k"
    using nat_to_string_length [OF assms] by (simp add: zero_padded_def)
  show "list_all is_ascii_digit (zero_padded (Suc k) n)"
    using nat_to_string_digits [of n] by (auto simp: zero_padded_def list_all_iff is_ascii_digit_def)
  show "digits_value (zero_padded (Suc k) n) = n"
    using digits_value_nat_to_string [of n] by (simp add: zero_padded_def digits_value_def zeros)
qed

lemma read_decimal_literal:
  assumes "neg \<longleftrightarrow> s = ''-''" "\<not> neg \<Longrightarrow> s = []"
  shows "read_decimal (s @ nat_to_string (m div 10000) @ ''.'' @ zero_padded 4 (m mod 10000))
    = Some (if neg then - int m else int m)"
proof -
  let ?w = "nat_to_string (m div 10000)" and ?f = "zero_padded 4 (m mod 10000)"
  have f: "length ?f = 4" "list_all is_ascii_digit ?f" "digits_value ?f = m mod 10000"
    using zero_padded_digits [of "m mod 10000" 3] by (simp_all add: eval_nat_numeral(3) [of "num.Bit1 num.One", symmetric])
  have w: "takeWhile is_ascii_digit (?w @ ''.'' @ ?f) = ?w"
    using nat_to_string_digits [of "m div 10000"] by (simp add: list_all_iff takeWhile_append is_ascii_digit_def)
  obtain c cs where c: "?w = c # cs" "is_ascii_digit c"
    using nat_to_string_digits [of "m div 10000"] nat_to_string_nonempty [of "m div 10000"]
    by (cases ?w) auto
  then have sign: "starts_with (s @ ?w @ ''.'' @ ?f) ''-'' \<longleftrightarrow> neg"
    using assms by (cases neg) (auto simp: starts_with_def is_ascii_digit_def)
  have rest: "(if neg then drop 1 (s @ ?w @ ''.'' @ ?f) else s @ ?w @ ''.'' @ ?f) = ?w @ ''.'' @ ?f"
    using assms by auto
  show ?thesis
    unfolding read_decimal_def Let_def sign rest w using f by (simp add: mult.commute)
qed

lemma f64_magnitude_less: "f64_magnitude b < 2 ^ 63"
  by (simp add: f64_magnitude_def)

lemma f64_magnitude_abs: "f64_magnitude (f64_abs b) = f64_magnitude b"
proof -
  have "f64_magnitude b < 2 ^ 64"
    using f64_magnitude_less [of b] by simp
  then have "unat (f64_abs b) = f64_magnitude b"
    by (simp add: f64_abs_def unsigned_of_nat take_bit_nat_eq_self)
  then show ?thesis
    using f64_magnitude_less [of b] by (simp add: f64_magnitude_def [of "f64_abs b"])
qed

lemma f64_below_limit:
  assumes "f64_is_finite b" "\<not> f64_le DECIMAL_LIMIT (f64_abs b)"
  shows "f64_magnitude b < 1086 * 2 ^ 52"
proof -
  have limit: "f64_rank DECIMAL_LIMIT = 1086 * 2 ^ 52" "\<not> f64_is_nan DECIMAL_LIMIT"
    by (simp_all add: f64_rank_def f64_is_nan_def f64_negative_def f64_magnitude_def f64_infinity_def DECIMAL_LIMIT_def)
  have "\<not> f64_negative (f64_abs b)"
    using f64_magnitude_less [of b] by (simp add: f64_negative_def f64_abs_def unsigned_of_nat take_bit_nat_eq_self)
  then have "f64_rank (f64_abs b) = int (f64_magnitude b)"
    by (simp add: f64_rank_def f64_magnitude_abs)
  moreover have "\<not> f64_is_nan (f64_abs b)"
    using assms(1) by (simp add: f64_is_nan_def f64_is_finite_def f64_magnitude_abs)
  ultimately show ?thesis
    using assms(2) limit by (simp add: f64_le_def)
qed

lemma f64_parts_below:
  assumes "f64_magnitude b < 1086 * 2 ^ 52" "f64_parts b = (m, e)"
  shows "m < 2 ^ 53" "e \<le> 10"
proof -
  have "f64_magnitude b mod 2 ^ 52 < 2 ^ 52"
    by simp
  then show "m < 2 ^ 53"
    using assms(2) by (auto simp: f64_parts_def Let_def split: if_splits)
  have "f64_magnitude b div 2 ^ 52 < 1086"
    using assms(1) by (simp add: less_mult_imp_div_less)
  then show "e \<le> 10"
    using assms(2) by (auto simp: f64_parts_def Let_def split: if_splits)
qed

lemma f64_integer_part:
  assumes "f64_is_finite b" "\<not> f64_le DECIMAL_LIMIT (f64_abs b)"
  shows "\<bar>f64_as_i64 b\<bar> < 2 ^ 63"
proof -
  obtain m e where parts: "f64_parts b = (m, e)"
    by fastforce
  note below = f64_parts_below [OF f64_below_limit [OF assms] parts]
  obtain p q where pq: "scaled m 1 e = (p, q)"
    by fastforce
  have "p div q < 2 ^ 63"
  proof (cases "e \<ge> 0")
    case True
    have "m * 2 ^ nat e < 2 ^ 53 * 2 ^ 10"
      using below True by (intro mult_less_le_imp_less power_increasing) auto
    then show ?thesis
      using pq True by (auto simp: scaled_def)
  next
    case False
    then have "p div q \<le> m"
      using pq by (auto simp: scaled_def)
    then show ?thesis
      using below(1) by simp
  qed
  then have "int (p div q) < 2 ^ 63"
    by (metis of_nat_less_iff of_nat_numeral of_nat_power)
  then show ?thesis
    using assms(1) parts pq
    by (auto simp: f64_as_i64_def Let_def abs_if max_def min_def simp del: of_nat_div zdiv_int)
qed

text \<open>
  Decimals.  A number that becomes a Cedar decimal is printed as a literal that reads
  back as the rounded product with ten thousand, and that count fits the 64 bit integer in
  which Cedar keeps a decimal, so that Cedar accepts every literal the mapping prints.
\<close>

theorem decimal_literal_reads_back:
  assumes "float_to_decimal v = Some literal"
  shows "read_decimal literal = Some (f64_as_i64 (f64_round_ties_even (f64_mul v DECIMAL_SCALE)))
    \<and> \<bar>f64_as_i64 (f64_round_ties_even (f64_mul v DECIMAL_SCALE))\<bar> < 2 ^ 63"
proof -
  let ?b = "f64_round_ties_even (f64_mul v DECIMAL_SCALE)"
  let ?n = "f64_as_i64 ?b"
  have fits: "f64_is_finite ?b" "\<not> f64_le DECIMAL_LIMIT (f64_abs ?b)"
    and literal: "literal = (if ?n < 0 then ''-'' else []) @ nat_to_string (nat \<bar>?n\<bar> div 10000) @ ''.''
      @ zero_padded 4 (nat \<bar>?n\<bar> mod 10000)"
    using assms by (simp_all add: float_to_decimal_def Let_def split: if_splits)
  have "\<bar>?n\<bar> < 2 ^ 63"
    using fits by (rule f64_integer_part)
  moreover have "read_decimal literal = Some ?n"
    unfolding literal by (subst read_decimal_literal [where neg = "?n < 0"]) auto
  ultimately show ?thesis
    by simp
qed

subsection \<open>A number just above half a ten thousandth\<close>

text \<open>The \<open>f64\<close> nearest to 0.00005; it is above it.\<close>

definition tick :: f64 where
  "tick = 0x3F0A36E2EB1C432D"

lemma bit_length_numeral: "bit_length (numeral k) = Suc (bit_length (numeral k div 2))" "bit_length 0 = 0" "bit_length 1 = 1" "bit_length (Suc 0) = 1"
  by (simp_all add: bit_length.simps)

lemma tick_parts: "f64_parts tick = (7378697629483821, - 67)"
  by (simp add: f64_parts_def f64_magnitude_def tick_def)

lemma scale_parts: "f64_parts DECIMAL_SCALE = (5497558138880000, - 39)"
  by (simp add: f64_parts_def f64_magnitude_def DECIMAL_SCALE_def)

lemma tick_bits: "bit_length 40564819207303342791831060480000 = 106" "bit_length 81129638414606681695789005144064 = 107"
  by (simp_all add: bit_length_numeral)

lemma tick_product: "f64_of_ratio 40564819207303342791831060480000 81129638414606681695789005144064 = f64_half"
proof -
  have k: "52 + int (bit_length 81129638414606681695789005144064) - int (bit_length 40564819207303342791831060480000) = 53"
    by (simp add: tick_bits)
  have s: "scaled 40564819207303342791831060480000 81129638414606681695789005144064 53 = (365375409332725747060345123831489363087196160000, 81129638414606681695789005144064)"
    by (simp add: scaled_def)
  have r: "round_half_even 365375409332725747060345123831489363087196160000 81129638414606681695789005144064 = 2 ^ 52" "\<not> 365375409332725747060345123831489363087196160000 div 81129638414606681695789005144064 < (2 ^ 52 :: nat)"
    by (simp_all add: round_half_even_def)
  show ?thesis
    unfolding f64_of_ratio_def k Let_def s using r by (simp add: s r f64_infinity_def f64_half_def)
qed

lemma tick_scaled: "f64_mul tick DECIMAL_SCALE = f64_half"
proof -
  have "\<not> f64_is_nan tick" "\<not> f64_is_nan DECIMAL_SCALE"
    "f64_is_finite tick" "f64_is_finite DECIMAL_SCALE"
    "\<not> f64_negative tick" "\<not> f64_negative DECIMAL_SCALE"
    by (simp_all add: f64_is_nan_def f64_is_finite_def f64_infinity_def f64_magnitude_def f64_negative_def DECIMAL_SCALE_def
        tick_def)
  moreover have "scaled (7378697629483821 * 5497558138880000) 1 (- 67 + - 39) = (40564819207303342791831060480000, 81129638414606681695789005144064)"
    by (simp add: scaled_def)
  ultimately show ?thesis
    unfolding f64_mul_def tick_parts scale_parts by (simp only: prod.case tick_product f64_signed_def if_False simp_thms HOL.simp_thms)
qed

lemma half_rounds_down: "f64_round_ties_even f64_half = 0"
proof -
  have "f64_is_finite f64_half" "f64_parts f64_half = (2 ^ 52, - 53)" "\<not> f64_negative f64_half"
    by (simp_all add: f64_half_def f64_is_finite_def f64_infinity_def f64_magnitude_def f64_parts_def f64_negative_def)
  then show ?thesis
    by (simp add: f64_round_ties_even_def f64_signed_def round_half_even_def f64_of_nat_def f64_of_ratio_def)
qed

lemma zero_text: "nat_to_string 0 = ''0''"
  by code_simp

lemma tick_decimal: "float_to_decimal tick = Some ''0.0000''"
proof -
  have "f64_as_i64 0 = 0" 
    by (simp add: f64_as_i64_def f64_parts_def f64_magnitude_def scaled_def f64_is_nan_def)
  moreover have "f64_is_finite 0" "\<not> f64_le DECIMAL_LIMIT (f64_abs 0)"
    by (simp_all add: f64_is_finite_def f64_infinity_def f64_magnitude_def f64_le_def f64_abs_def DECIMAL_LIMIT_def f64_rank_def f64_negative_def f64_is_nan_def)
  moreover have "zero_padded 4 0 = ''0000''"
    by code_simp
  ultimately show ?thesis
    unfolding float_to_decimal_def tick_scaled half_rounds_down Let_def by (simp add: zero_text)
qed

text \<open>
  C1: The rounding to a decimal is not that of the number.  The product with ten thousand is
  rounded to an \<open>f64\<close> before it is rounded to an integer, so there is a number that lies
  strictly above half a ten thousandth, nearest to 0.0001, and becomes 0.0000.
\<close>

theorem decimal_rounds_twice:
  "\<exists>v. float_to_decimal v = Some ''0.0000'' \<and> \<not> f64_negative v
    \<and> (case f64_parts v of (m, e) \<Rightarrow> e < 0 \<and> 2 ^ nat (- e) < 2 * (m * 10000))"
  by (rule exI [of _ tick], intro conjI, rule tick_decimal)
    (simp add: f64_negative_def tick_def, simp add: tick_parts)

theorem decimal_literal_reads_back_witness:
  "read_decimal ''0.0000'' = Some (f64_as_i64 (f64_round_ties_even (f64_mul tick DECIMAL_SCALE)))"
  using decimal_literal_reads_back [OF tick_decimal] by blast

definition example_snapshot :: json_map where
  "example_snapshot = [(''agent'', JObject [(''id'', JString ''a'')]), (''note'', JNull), (''count'', JNumber (PosInt 3))]"

theorem cedar_context_exact_witness:
  "\<exists>ctx. build_cedar_context example_snapshot None = Inr ctx \<and> read_cedar ctx = Some (CRecord
    [(''agent'', CRecord [(''id'', CString ''a'')]), (''count'', CLong (PosInt 3)), (''annotations'', CRecord [])])"
proof -
  have wf: "json_wf (JObject example_snapshot)" "\<forall>a. (None :: json option) = Some a \<longrightarrow> json_wf a"
    by (simp_all add: example_snapshot_def jm_inv_def)
  have "annotations_record None = Some []" "acceptable (JObject [])" "acceptable (JObject example_snapshot)"
    "\<not> has_key example_snapshot ''annotations''"
    by (simp_all add: annotations_record_def example_snapshot_def CEDAR_RESERVED_KEYS_def representable_def
        number_is_i64_def has_key_def)
  moreover have "meaning (JObject example_snapshot)
      = CRecord [(''agent'', CRecord [(''id'', CString ''a'')]), (''count'', CLong (PosInt 3))]"
    by (simp add: example_snapshot_def)
  ultimately show ?thesis
    using cedar_context_exact [OF wf] by (fastforce simp: is_ok_iff)
qed

end
