(* ===== verification/Cedar_Dispatch_Laws.thy ===== *)
theory Cedar_Dispatch_Laws
  imports Cedar_Builtin
begin

text \<open>
  The bundled Cedar dispatcher: which verdict an answer of the authorizer becomes, and what
  the cache of prepared policy sets may and may not change.
\<close>

section \<open>Choosing among advice\<close>

lemma list_all2_left: "list_all2 P xs ys \<Longrightarrow> x \<in> set xs \<Longrightarrow> \<exists>y\<in>set ys. P x y"
  by (induction rule: list_all2_induct) auto

lemma list_all2_right: "list_all2 P xs ys \<Longrightarrow> y \<in> set ys \<Longrightarrow> \<exists>x\<in>set xs. P x y"
  by (induction rule: list_all2_induct) auto

lemma min_by_key_first:
  "min_by_key f xs = Some x \<Longrightarrow>
    \<exists>pre post. xs = pre @ x # post \<and> (\<forall>y\<in>set pre. f x < f y) \<and> (\<forall>y\<in>set post. f x \<le> f y)"
proof (induction xs arbitrary: x)
  case (Cons a xs)
  show ?case
  proof (cases "min_by_key f xs")
    case None
    then have "xs = []"
      by (cases xs) (simp_all split: option.splits if_splits)
    with Cons.prems show ?thesis
      by (intro exI [of _ "[]"]) simp
  next
    case (Some y)
    from Cons.IH [OF this] obtain pre post where y: "xs = pre @ y # post"
        "\<forall>z\<in>set pre. f y < f z" "\<forall>z\<in>set post. f y \<le> f z"
      by blast
    show ?thesis
    proof (cases "f a \<le> f y")
      case True
      then have "\<forall>z\<in>set xs. f a \<le> f z"
        using y by fastforce
      with Cons.prems Some True show ?thesis
        by (intro exI [of _ "[]"] exI [of _ xs]) simp
    next
      case False
      with Cons.prems Some y show ?thesis
        by (intro exI [of _ "a # pre"] exI [of _ post]) auto
    qed
  qed
qed simp

lemma min_by_key_least: "min_by_key f xs = Some x \<Longrightarrow> x \<in> set xs \<and> (\<forall>y\<in>set xs. f x \<le> f y)"
  by (drule min_by_key_first) fastforce

lemma min_by_key_None [simp]: "min_by_key f xs = None \<longleftrightarrow> xs = []"
  by (cases xs) (auto split: option.splits if_splits)

lemma copy_text_get:
  "copy_advice_text object member out = Inr out' \<Longrightarrow> k \<noteq> member \<Longrightarrow> map_of out' k = map_of out k"
  by (auto simp: copy_advice_text_def jm_insert_get split: option.splits json.splits)

text \<open>Translated advice carries the verdict it was given, one of three.\<close>

lemma advice_decision:
  assumes "translate_advice advice = Inr v"
  shows "\<exists>d\<in>{''warn'', ''escalate'', ''transform''}.
    json_get advice ''verdict'' = Some (JString d) \<and> json_get v ''decision'' = Some (JString d)"
proof -
  obtain object verdict where object: "advice = JObject object" "map_of object ''verdict'' = Some (JString verdict)"
      "verdict \<in> {''warn'', ''escalate'', ''transform''}"
    using assms by (auto simp: translate_advice_def rbind_eq_Inr_iff as_object_eq_Some_iff as_str_eq_Some_iff
        bind_eq_Some_conv simp del: insert_iff split: if_splits)
  then obtain o1 o2 o3 where steps: "copy_advice_text object ''reason'' [(''decision'', JString verdict)] = Inr o1"
      "copy_advice_text object ''message'' o1 = Inr o2" "v = JObject o3"
      "o3 = o2 \<or> (\<exists>t. o3 = jm_insert ''transform'' t o2)"
    using assms by (auto simp: translate_advice_def rbind_eq_Inr_iff as_object_eq_Some_iff split: if_splits)
  have "map_of o3 ''decision'' = map_of o2 ''decision''"
    using steps(4) by (auto simp: jm_insert_get)
  also have "\<dots> = Some (JString verdict)"
    using copy_text_get [OF steps(1), of "''decision''"] copy_text_get [OF steps(2), of "''decision''"] by simp
  finally show ?thesis
    using object steps(3) by auto
qed

lemma escalation_rank: "verdict_rank v = 0 \<longleftrightarrow> json_get v ''decision'' = Some (JString ''escalate'')"
  by (auto simp: verdict_rank_def advice_rank_def bind_eq_Some_conv as_str_eq_Some_iff split: if_splits)

section \<open>The verdict of an answer\<close>

lemma allow_verdict:
  assumes "verdict_of_response c policies answer = Inr v" "cs_decision answer = CedarAllow"
  shows "\<exists>ws. list_all2 (\<lambda>a w. translate_advice_annotation (cd_from_str c) a = Inr w)
      (List.map_filter (\<lambda>p. cy_annotation p ''advice'') (contributing_policies (cd_policy c policies) answer)) ws
    \<and> v = (case most_restrictive_advice ws of Some w \<Rightarrow> w | None \<Rightarrow> allow_json)"
  using assms by (auto simp: verdict_of_response_def Let_def rbind_eq_Inr_iff try_map_ok_iff split: if_splits)

lemma annotation_decision:
  "translate_advice_annotation from_str a = Inr w \<Longrightarrow> \<exists>j. from_str a = Inr j \<and>
    (\<exists>d\<in>{''warn'', ''escalate'', ''transform''}.
      json_get j ''verdict'' = Some (JString d) \<and> json_get w ''decision'' = Some (JString d))"
  by (auto simp: translate_advice_annotation_def rbind_eq_Inr_iff simp del: insert_iff dest!: advice_decision)

text \<open>
  An escalation is not hidden.  When Cedar allows a request and any permit that
  contributed advises to escalate, the verdict escalates, whatever the other contributing
  permits advise and wherever they are declared.
\<close>

theorem escalation_not_hidden:
  assumes "verdict_of_response c policies answer = Inr v" "cs_decision answer = CedarAllow"
    and "p \<in> set (contributing_policies (cd_policy c policies) answer)" "cy_annotation p ''advice'' = Some a"
    and "cd_from_str c a = Inr j" "json_get j ''verdict'' = Some (JString ''escalate'')"
  shows "json_get v ''decision'' = Some (JString ''escalate'')"
proof -
  let ?advice = "List.map_filter (\<lambda>p. cy_annotation p ''advice'') (contributing_policies (cd_policy c policies) answer)"
  obtain ws where ws: "list_all2 (\<lambda>a w. translate_advice_annotation (cd_from_str c) a = Inr w) ?advice ws"
      "v = (case most_restrictive_advice ws of Some w \<Rightarrow> w | None \<Rightarrow> allow_json)"
    using allow_verdict [OF assms(1,2)] by blast
  have "a \<in> set ?advice"
    using assms(3,4) by (force simp: List.map_filter_def)
  then obtain w where w: "w \<in> set ws" "translate_advice_annotation (cd_from_str c) a = Inr w"
    using list_all2_left [OF ws(1)] by blast
  then have rank: "verdict_rank w = 0"
    using annotation_decision [OF w(2)] assms(5,6) by (auto simp: escalation_rank)
  obtain u where u: "most_restrictive_advice ws = Some u"
    using w(1) unfolding most_restrictive_advice_def by (cases "min_by_key verdict_rank ws") auto
  then have "verdict_rank u = 0"
    using min_by_key_least [of verdict_rank ws u] w(1) rank unfolding most_restrictive_advice_def by fastforce
  then show ?thesis
    using ws(2) u by (simp add: escalation_rank)
qed

text \<open>A verdict denies exactly when Cedar denied, and there is one only when no policy erred.\<close>

lemma verdict_decision:
  assumes "verdict_of_response c policies answer = Inr v"
  shows "cs_errors answer = []"
    and "json_get v ''decision'' = Some (JString ''deny'') \<longleftrightarrow> cs_decision answer = CedarDeny"
proof -
  show "cs_errors answer = []"
    using assms by (simp add: verdict_of_response_def Let_def split: if_splits)
  show "json_get v ''decision'' = Some (JString ''deny'') \<longleftrightarrow> cs_decision answer = CedarDeny"
  proof (cases "cs_decision answer")
    case CedarAllow
    from allow_verdict [OF assms this] obtain as ws
      where ws: "list_all2 (\<lambda>a w. translate_advice_annotation (cd_from_str c) a = Inr w) as ws"
        "v = (case most_restrictive_advice ws of Some w \<Rightarrow> w | None \<Rightarrow> allow_json)"
      by blast
    have "json_get w ''decision'' \<noteq> Some (JString ''deny'')" if w: "w \<in> set ws" for w
    proof -
      obtain a where "translate_advice_annotation (cd_from_str c) a = Inr w"
        using list_all2_right [OF ws(1) w] by blast
      then show ?thesis
        using annotation_decision by fastforce
    qed
    then have "json_get v ''decision'' \<noteq> Some (JString ''deny'')"
      using ws(2) min_by_key_least [of verdict_rank ws]
      by (auto simp: most_restrictive_advice_def allow_json_def split: option.splits)
    with CedarAllow show ?thesis
      by simp
  next
    case CedarDeny
    with assms show ?thesis
      by (auto simp: verdict_of_response_def deny_json_def Let_def split: if_splits)
  qed
qed

section \<open>Declaration order\<close>

lemma numbered_key:
  assumes "n < 2 ^ 64"
  shows "declaration_key (''policy'' @ nat_to_string n) = (n, ''policy'' @ nat_to_string n)"
proof -
  obtain d ds where d: "nat_to_string n = d # ds" "is_ascii_digit d"
    using nat_to_string_digits [of n] nat_to_string_nonempty [of n] by (cases "nat_to_string n") auto
  then have "strip_prefix (nat_to_string n) ''+'' = None"
    by (auto simp: strip_prefix_def starts_with_def is_ascii_digit_def)
  then have "parse_u64 (nat_to_string n) = Some n"
    using assms nat_to_string_digits [of n] by (simp add: parse_u64_def)
  moreover have "strip_prefix (''policy'' @ nat_to_string n) ''policy'' = Some (nat_to_string n)"
    by (simp add: strip_prefix_def starts_with_def)
  ultimately show ?thesis
    by (simp add: declaration_key_def)
qed

lemma sort_key_head:
  assumes "sort_key f xs = y # ys" "x \<in> set xs"
  shows "f y \<le> f x"
proof -
  have "sorted (map f (y # ys))" "x \<in> set (y # ys)"
    using sorted_sort_key [of f xs] set_sort [of f xs] assms by simp_all
  then show ?thesis
    by auto
qed

text \<open>
  The reason of a denial is that of the policy declared first.  Cedar numbers the
  policies of a text in the order it declares them and reports the contributing ones as a
  set; in whatever order that set is enumerated, a denial carries the reason of the
  contributing policy with the least number.
\<close>

theorem deny_reason_first_declared:
  assumes "cs_decision answer = CedarDeny" "cs_errors answer = []"
    and "cs_reason answer = map (\<lambda>n. ''policy'' @ nat_to_string n) ns" "ns \<noteq> []" "\<forall>n\<in>set ns. n < 2 ^ 64"
    and "\<forall>n\<in>set ns. cd_policy c policies (''policy'' @ nat_to_string n) = Some (declared n)"
    and "\<forall>n\<in>set ns. cy_id (declared n) = ''policy'' @ nat_to_string n"
  shows "verdict_of_response c policies answer = Inr (deny_json (deny_reason (declared (Min (set ns)))))"
proof -
  have "List.map_filter (cd_policy c policies) (cs_reason answer) = map declared ns"
    using assms(6) unfolding assms(3) by (induction ns) (simp_all add: List.map_filter_simps)
  moreover obtain p ps where sorted: "sort_key (\<lambda>p. declaration_key (cy_id p)) (map declared ns) = p # ps"
    using assms(4) by (metis list.exhaust length_0_conv length_map length_sort)
  moreover have "p = declared (Min (set ns))"
  proof -
    have "p \<in> set (map declared ns)"
      using sorted set_sort by (metis list.set_intros(1))
    then obtain k where k: "k \<in> set ns" "p = declared k"
      by auto
    have key: "declaration_key (cy_id (declared n)) = (n, ''policy'' @ nat_to_string n)" if "n \<in> set ns" for n
      using numbered_key [of n] assms(5,7) that by simp
    have "k \<le> n" if "n \<in> set ns" for n
      using sort_key_head [OF sorted, of "declared n"] that k key by (auto simp: less_eq_prod_def)
    with k show ?thesis
      by (metis List.finite_set Min_eqI)
  qed
  ultimately show ?thesis
    using assms(1,2) by (simp add: verdict_of_response_def contributing_policies_def Let_def)
qed

section \<open>The cache\<close>

text \<open>What a decision makes of prepared state; the part of an evaluation that reads nothing.\<close>

definition decide_prepared ::
  "('ps, 'sch, 'ent, 'uid, 'ctx, 'req) cedar_crate \<Rightarrow> ('ps, 'sch, 'ent) cedar_prepared \<Rightarrow> json \<Rightarrow> (runtime_error, json) result"
where
  "decide_prepared c prepared input =
    rbind (build_cedar_request input) (\<lambda>request.
    rbind (build_authorizer_request c request (pr_schema prepared)) (\<lambda>cedar_request.
    verdict_of_response c (pr_policy_set prepared)
      (cd_is_authorized c cedar_request (pr_policy_set prepared) (pr_entities prepared))))"

lemma builtin_evaluate_eq:
  "builtin_evaluate c files i = run_bind (cache_prepared c files i) (\<lambda>p. run_lift (decide_prepared c p (ci_input i)))"
  by (simp add: builtin_evaluate_def decide_prepared_def)

text \<open>Loading touches nothing but the list of reads.\<close>

definition reads_only :: "(('ps, 'sch, 'ent) cedar_state, 'e, 'a) stateful \<Rightarrow> bool" where
  "reads_only m \<longleftrightarrow> (\<forall>st. ca_map (snd (m st)) = ca_map st \<and> ca_poisoned (snd (m st)) = ca_poisoned st)"

lemma reads_onlyD: "reads_only m \<Longrightarrow> m st = (r, st') \<Longrightarrow> ca_map st' = ca_map st \<and> ca_poisoned st' = ca_poisoned st"
  unfolding reads_only_def by (metis snd_conv)

lemma reads_only_lift: "reads_only (run_lift r)"
  by (simp add: reads_only_def)

lemma reads_only_bind: "reads_only m \<Longrightarrow> (\<And>a. reads_only (f a)) \<Longrightarrow> reads_only (run_bind m f)"
  by (auto simp: reads_only_def run_bind_def split: prod.splits sum.splits) (metis snd_conv)+

lemma reads_only_read: "reads_only (read_to_string files what path)"
  by (simp add: reads_only_def read_to_string_def)

lemma load_reads_only: "reads_only (prepared_load c files i)"
  unfolding prepared_load_def load_policy_text_def load_schema_def load_entities_def
  by (auto intro!: reads_only_bind reads_only_lift reads_only_read simp del: run_lift_eq split: option.splits)

text \<open>While the files do not change, what a load returns depends on the settings alone.\<close>

definition steady :: "('t, 'e, 'a) stateful \<Rightarrow> bool" where
  "steady m \<longleftrightarrow> (\<forall>t t'. fst (m t) = fst (m t'))"

lemma steady_lift: "steady (run_lift r)"
  by (simp add: steady_def)

lemma steady_bind:
  assumes "steady m" "\<And>a. steady (f a)"
  shows "steady (run_bind m f)"
  unfolding steady_def
proof (intro allI)
  fix t t'
  obtain r s s' where "m t = (r, s)" "m t' = (r, s')"
    using assms(1) unfolding steady_def by (metis prod.collapse)
  then show "fst (run_bind m f t) = fst (run_bind m f t')"
    using assms(2) by (cases r) (simp_all add: run_bind_def steady_def)
qed

lemma steady_read: "steady (read_to_string (\<lambda>_. disk) what path)"
  by (simp add: steady_def read_to_string_def)

lemma load_steady: "steady (prepared_load c (\<lambda>_. disk) i)"
  unfolding prepared_load_def load_policy_text_def load_schema_def load_entities_def
  by (auto intro!: steady_bind steady_lift steady_read simp del: run_lift_eq split: option.splits)

definition load_now ::
  "('ps, 'sch, 'ent, 'uid, 'ctx, 'req) cedar_crate \<Rightarrow> (string \<Rightarrow> (string, string) result) \<Rightarrow> cedar_invocation
    \<Rightarrow> (runtime_error, ('ps, 'sch, 'ent) cedar_prepared) result"
where
  "load_now c disk i = fst (prepared_load c (\<lambda>_. disk) i cedar_builtin_new)"

lemma load_now_eq: "fst (prepared_load c (\<lambda>_. disk) i st) = load_now c disk i"
  unfolding load_now_def using load_steady [of c disk i] by (simp add: steady_def)

lemma load_now_key: "cedar_key_of i = cedar_key_of j \<Longrightarrow> load_now c disk i = load_now c disk j"
  by (simp add: load_now_def prepared_load_def load_policy_text_def cedar_key_of_def)

text \<open>
  The states a shared cache passes through while the files hold \<open>disk\<close>: any thread may put
  what it loaded, read files, or die under the lock, in any order.
\<close>

inductive cache_reachable ::
  "('ps, 'sch, 'ent, 'uid, 'ctx, 'req) cedar_crate \<Rightarrow> (string \<Rightarrow> (string, string) result)
    \<Rightarrow> ('ps, 'sch, 'ent) cedar_state \<Rightarrow> bool"
  for c disk
where
  Start: "cache_reachable c disk cedar_builtin_new"
| Put: "cache_reachable c disk st \<Longrightarrow> load_now c disk i = Inr prepared
    \<Longrightarrow> cache_reachable c disk (cache_put (cedar_key_of i) prepared st)"
| Read: "cache_reachable c disk st \<Longrightarrow> cache_reachable c disk (st\<lparr>ca_reads := reads\<rparr>)"
| Poison: "cache_reachable c disk st \<Longrightarrow> cache_reachable c disk (st\<lparr>ca_poisoned := True\<rparr>)"

lemma bt_insert_length: "bt_inv m \<Longrightarrow> length (bt_insert k v m) = (if has_key m k then length m else Suc (length m))"
proof (induction k v m rule: bt_insert.induct)
  case (2 k v a b m)
  have "\<not> has_key m k" if "k < a"
    using 2(2) that by (force simp: has_key_iff bt_inv_def)
  then show ?case
    using 2 by (auto simp: has_key_def bt_inv_def)
qed (simp add: has_key_def)

lemma cache_reachable_inv:
  assumes "cache_reachable c disk st"
  shows "bt_inv (ca_map st) \<and> length (ca_map st) \<le> MAX_CACHED_POLICY_SETS
    \<and> (\<forall>i prepared. map_of (ca_map st) (cedar_key_of i) = Some prepared \<longrightarrow> load_now c disk i = Inr prepared)"
  using assms
proof induction
  case Start
  then show ?case
    by (simp add: cedar_builtin_new_def bt_inv_def)
next
  case (Put st i prepared)
  have "load_now c disk j = Inr prepared" if "cedar_key_of j = cedar_key_of i" for j
    using load_now_key [OF that, of c disk] Put.hyps(2) by simp
  then show ?case
    using Put.IH by (auto simp: cache_put_def bt_insert_inv bt_insert_get bt_insert_length)
qed simp_all

lemma load_reachable:
  assumes "cache_reachable c disk st" "prepared_load c (\<lambda>_. disk) i st = (r, st')"
  shows "r = load_now c disk i" "cache_reachable c disk st'"
proof -
  show "r = load_now c disk i"
    using load_now_eq [of c disk i st] assms(2) by simp
  have "st' = st\<lparr>ca_reads := ca_reads st'\<rparr>"
    using reads_onlyD [OF load_reads_only assms(2)] by simp
  then show "cache_reachable c disk st'"
    using cache_reachable.Read [OF assms(1)] by metis
qed

lemma prepared_reachable:
  assumes "cache_reachable c disk st"
  shows "fst (cache_prepared c (\<lambda>_. disk) i st) = load_now c disk i
    \<and> cache_reachable c disk (snd (cache_prepared c (\<lambda>_. disk) i st))"
proof (cases "cache_get (cedar_key_of i) st")
  case None
  obtain r st' where load: "prepared_load c (\<lambda>_. disk) i st = (r, st')"
    by fastforce
  note reach = load_reachable [OF assms load]
  show ?thesis
  proof (cases r)
    case (Inr prepared)
    then have "cache_reachable c disk (cache_put (cedar_key_of i) prepared st')"
      using reach by (intro cache_reachable.Put) simp_all
    with Inr None load reach show ?thesis
      by (simp add: cache_prepared_def run_bind_def run_effect_def)
  qed (use None load reach in \<open>simp add: cache_prepared_def run_bind_def\<close>)
next
  case (Some prepared)
  then have "load_now c disk i = Inr prepared"
    using cache_reachable_inv [OF assms] by (simp add: cache_get_def split: if_splits)
  with Some assms show ?thesis
    by (simp add: cache_prepared_def)
qed

text \<open>
  C19: The cache is transparent and bounded.  While the files do not change, whatever other
  threads have put into the shared cache, an evaluation answers what an evaluation with an
  empty cache answers, and the cache never holds more than its cap of policy sets.
\<close>

theorem cedar_cache_transparent:
  assumes "cache_reachable c disk st"
  shows "fst (cedar_builtin_evaluate c (\<lambda>_. disk) invocation st)
      = fst (cedar_builtin_evaluate c (\<lambda>_. disk) invocation cedar_builtin_new)
    \<and> cache_reachable c disk (snd (cedar_builtin_evaluate c (\<lambda>_. disk) invocation st))
    \<and> cache_len st \<le> MAX_CACHED_POLICY_SETS"
proof -
  have evaluated: "fst (builtin_evaluate c (\<lambda>_. disk) i s)
        = rbind (load_now c disk i) (\<lambda>p. decide_prepared c p (ci_input i))
      \<and> cache_reachable c disk (snd (builtin_evaluate c (\<lambda>_. disk) i s))"
    if "cache_reachable c disk s" for i s
    using prepared_reachable [OF that, of i]
    by (auto simp: builtin_evaluate_eq run_bind_def rbind_def split: prod.splits sum.splits)
  have "cache_len st \<le> MAX_CACHED_POLICY_SETS"
    using cache_reachable_inv [OF assms] by (simp add: cache_len_def)
  then show ?thesis
    using evaluated [OF assms] evaluated [OF cache_reachable.Start] assms
    by (cases invocation) (simp_all add: cedar_builtin_evaluate_def)
qed

text \<open>
  A warmed decision reads no file.  After a policy was warmed, with room in the cache, a
  decision on any input under the same policy settings leaves cache and files alone and is
  made by the state that warming loaded, whatever the files hold by then.
\<close>

theorem warmed_decision_reads_nothing:
  assumes "cedar_builtin_warm c files (CedarInvocation i) st = (Inr (), st1)" "\<not> ca_poisoned st"
    and "length (ca_map st) < MAX_CACHED_POLICY_SETS \<or> has_key (ca_map st) (cedar_key_of i)"
    and "cedar_key_of j = cedar_key_of i"
  shows "\<exists>prepared st0. prepared_load c files i st = (Inr prepared, st0)
    \<and> cedar_builtin_evaluate c files' (CedarInvocation j) st1 = (decide_prepared c prepared (ci_input j), st1)"
proof -
  obtain prepared st0 where load: "prepared_load c files i st = (Inr prepared, st0)"
      "st1 = cache_put (cedar_key_of i) prepared st0"
    using assms(1) by (auto simp: cedar_builtin_warm_def cache_refresh_def run_bind_ok run_effect_def)
  have "ca_map st0 = ca_map st \<and> ca_poisoned st0 = ca_poisoned st"
    using load_reads_only [of c files i] load(1) by (metis reads_onlyD)
  then have "cache_get (cedar_key_of j) st1 = Some prepared"
    using assms(2,3,4) load(2) by (simp add: cache_get_def cache_put_def bt_insert_get)
  then show ?thesis
    using load(1) by (simp add: cedar_builtin_evaluate_def builtin_evaluate_eq run_bind_def cache_prepared_def)
qed

section \<open>What an evaluation returns\<close>

definition cedar_error :: "runtime_error \<Rightarrow> bool" where
  "cedar_error e = (case e of PolicyInvocationFailed _ \<Rightarrow> True | PolicyOutputInvalid _ \<Rightarrow> True | _ \<Rightarrow> False)"

lemma cedar_error_simps [simp]: "cedar_error (PolicyInvocationFailed s)" "cedar_error (PolicyOutputInvalid s)"
  by (simp_all add: cedar_error_def)

lemma errors_in_case_sum [errors_in_intros]:
  "(\<And>e. r = Inl e \<Longrightarrow> errors_in P (f e)) \<Longrightarrow> (\<And>v. r = Inr v \<Longrightarrow> errors_in P (g v))
    \<Longrightarrow> errors_in P (case r of Inl e \<Rightarrow> f e | Inr v \<Rightarrow> g v)"
  by (cases r) simp_all

lemma number_errors: "errors_in cedar_error (number_to_cedar n path)"
  unfolding number_to_cedar_def context_error_def by (intro errors_in_intros) simp_all

lemma translation_errors:
  "errors_in cedar_error (to_cedar_value v path key)"
  "errors_in cedar_error (translate_items xs index path out)"
  "errors_in cedar_error (translate_members m path acc)"
proof (induction v path key and xs index path out and m path acc
    rule: to_cedar_value_translate_items_translate_members.induct)
qed (auto intro!: errors_in_rbind number_errors errors_in_ok_or
    simp: check_key_def set_element_def context_error_def)

lemma request_errors: "errors_in cedar_error (build_cedar_request input)"
proof -
  have "errors_in cedar_error (build_cedar_context snapshot annotations)" for snapshot annotations
    unfolding build_cedar_context_def translate_record_def
    by (intro errors_in_intros translation_errors)
      (auto simp: translation_errors split: option.splits json.splits)
  then show ?thesis
    unfolding build_cedar_request_def by (intro errors_in_intros) simp_all
qed

lemma advice_errors: "errors_in cedar_error (translate_advice_annotation from_str a)"
proof -
  have "errors_in cedar_error (copy_advice_text object member out)" for object member out
    by (auto simp: copy_advice_text_def split: option.splits json.splits)
  moreover have "errors_in cedar_error (reject_unknown_members object allowed location)" for object allowed location
    by (simp add: reject_unknown_members_def)
  ultimately have "errors_in cedar_error (translate_advice j)" for j
    unfolding translate_advice_def by (intro errors_in_intros) simp_all
  then show ?thesis
    unfolding translate_advice_annotation_def by (intro errors_in_intros) simp_all
qed

lemma decide_errors: "errors_in cedar_error (decide_prepared c prepared input)"
proof -
  have "errors_in cedar_error (verdict_of_response c policies answer)" for policies answer
    unfolding verdict_of_response_def
    by (cases "cs_decision answer") (auto intro!: errors_in_intros advice_errors simp: Let_def)
  moreover have "errors_in cedar_error (build_authorizer_request c request schema)" for request schema
    unfolding build_authorizer_request_def entity_uid_def
    by (intro errors_in_intros) (simp_all split: request_validation_error.splits)
  ultimately show ?thesis
    unfolding decide_prepared_def by (intro errors_in_rbind request_errors)
qed

definition fails_as_cedar :: "('t, runtime_error, 'a) stateful \<Rightarrow> bool" where
  "fails_as_cedar m \<longleftrightarrow> (\<forall>t. errors_in cedar_error (fst (m t)))"

lemma fails_lift: "errors_in cedar_error r \<Longrightarrow> fails_as_cedar (run_lift r)"
  by (simp add: fails_as_cedar_def)

lemma fails_bind: "fails_as_cedar m \<Longrightarrow> (\<And>a. fails_as_cedar (f a)) \<Longrightarrow> fails_as_cedar (run_bind m f)"
  by (auto simp: fails_as_cedar_def run_bind_def split: prod.splits sum.splits) (metis errors_in_simps(1) fst_conv)

lemma fails_read: "fails_as_cedar (read_to_string files what path)"
  by (simp add: fails_as_cedar_def read_to_string_def errors_in_map_err)

lemma load_fails: "fails_as_cedar (prepared_load c files i)"
  unfolding prepared_load_def load_policy_text_def load_schema_def load_entities_def validate_policy_set_def
  by (auto intro!: fails_bind fails_lift fails_read errors_in_intros simp del: run_lift_eq split: option.splits)

lemma evaluate_fails: "fails_as_cedar (cedar_builtin_evaluate c files invocation)"
proof -
  have effect: "fails_as_cedar (run_effect f)" for f :: "('a, 'b, 'c) cedar_state \<Rightarrow> ('a, 'b, 'c) cedar_state"
    by (simp add: fails_as_cedar_def run_effect_def)
  have "fails_as_cedar (run_bind (prepared_load c files i) (\<lambda>p.
      run_bind (run_effect (cache_put (cedar_key_of i) p)) (\<lambda>_. run_lift (Inr p))))" for i
    by (intro fails_bind load_fails effect fails_lift errors_in_Inr)
  then have "fails_as_cedar (cache_prepared c files i)" for i
    unfolding fails_as_cedar_def cache_prepared_def by (simp split: option.splits)
  then show ?thesis
    by (cases invocation)
      (auto simp: cedar_builtin_evaluate_def builtin_evaluate_eq simp del: run_lift_eq
        intro!: fails_bind fails_lift decide_errors)
qed

text \<open>
  C18: The dispatcher fails closed.  An evaluation either fails, with an error of the
  invocation or of its output, or made a request of the policy input that the authorizer
  answered without an error in any policy; then the verdict denies exactly when the
  authorizer denied.  While the files do not change, and whatever the shared cache has been
  through, the authorizer was given what the configured policy, schema and entities load to.
\<close>

theorem cedar_fails_closed:
  fixes c :: "('ps, 'sch, 'ent, 'uid, 'ctx, 'req) cedar_crate"
  assumes "cedar_builtin_evaluate c files invocation st = (r, st')"
  shows "case r of
      Inl e \<Rightarrow> cedar_error e
    | Inr v \<Rightarrow> \<exists>i (prepared :: ('ps, 'sch, 'ent) cedar_prepared) request query. invocation = CedarInvocation i
        \<and> build_cedar_request (ci_input i) = Inr request
        \<and> build_authorizer_request c request (pr_schema prepared) = Inr query
        \<and> (\<forall>disk. files = (\<lambda>_. disk) \<and> cache_reachable c disk st \<longrightarrow> load_now c disk i = Inr prepared)
        \<and> (let answer = cd_is_authorized c query (pr_policy_set prepared) (pr_entities prepared) in
             cs_errors answer = []
             \<and> (json_get v ''decision'' = Some (JString ''deny'') \<longleftrightarrow> cs_decision answer = CedarDeny))"
proof (cases r)
  case (Inl e)
  have "errors_in cedar_error (fst (cedar_builtin_evaluate c files invocation st))"
    using evaluate_fails unfolding fails_as_cedar_def by blast
  then show ?thesis
    unfolding assms Inl by simp
next
  case (Inr v)
  then obtain i prepared where i: "invocation = CedarInvocation i" "decide_prepared c prepared (ci_input i) = Inr v"
      and prepared: "fst (cache_prepared c files i st) = Inr prepared"
    using assms by (cases invocation) (auto simp: cedar_builtin_evaluate_def builtin_evaluate_eq run_bind_ok)
  have "load_now c disk i = Inr prepared" if "files = (\<lambda>_. disk)" "cache_reachable c disk st" for disk
    using prepared_reachable [OF that(2), of i] prepared that(1) by simp
  moreover from i obtain request query where "invocation = CedarInvocation i" "build_cedar_request (ci_input i) = Inr request"
      "build_authorizer_request c request (pr_schema prepared) = Inr query"
      and v: "verdict_of_response c (pr_policy_set prepared)
        (cd_is_authorized c query (pr_policy_set prepared) (pr_entities prepared)) = Inr v"
    by (auto simp: decide_prepared_def rbind_eq_Inr_iff)
  moreover note verdict_decision [OF v]
  ultimately show ?thesis
    unfolding Inr Let_def sum.case
    by (intro exI [of _ i] exI [of _ prepared] exI [of _ request] exI [of _ query]) simp
qed

section \<open>Witnesses\<close>

text \<open>A crate that knows every policy and always gives the same answer.\<close>

definition example_cedar :: "cedar_response \<Rightarrow> (unit, unit, unit, string, unit, unit) cedar_crate" where
  "example_cedar answer = \<lparr>cd_policy_set = (\<lambda>_. Inr ()),
     cd_policy = (\<lambda>_ ident. Some \<lparr>cy_id = ident,
       cy_annotation = (\<lambda>name. if name = ''advice'' then Some ident else None)\<rparr>),
     cd_schema = (\<lambda>_. Inr ()), cd_validate_strict = (\<lambda>_ _. Inr ()), cd_no_entities = (), cd_entities = (\<lambda>_ _. Inr ()),
     cd_entity_uid = (\<lambda>_ ident. Inr ident), cd_context = (\<lambda>_. Inr ()), cd_request = (\<lambda>_ _ _ _ _. Inr ()),
     cd_is_authorized = (\<lambda>_ _ _. answer),
     cd_from_str = (\<lambda>a. Inr (JObject [(''verdict'', JString (if a = ''policy1'' then ''escalate'' else ''warn''))]))\<rparr>"

definition example_answer :: "cedar_decision \<Rightarrow> cedar_response" where
  "example_answer d = \<lparr>cs_decision = d, cs_reason = [''policy1'', ''policy0''], cs_errors = []\<rparr>"

definition example_cedar_invocation :: cedar_invocation where
  "example_cedar_invocation = \<lparr>ci_policy_set = None, ci_policy_path = Some ''p'', ci_entities_path = None,
     ci_schema_path = None, ci_input = JNull, ci_canonical_input = ''null''\<rparr>"

theorem escalation_not_hidden_witness:
  "\<exists>v. verdict_of_response (example_cedar (example_answer CedarAllow)) () (example_answer CedarAllow) = Inr v
    \<and> json_get v ''decision'' = Some (JString ''escalate'')"
proof -
  let ?c = "example_cedar (example_answer CedarAllow)"
  let ?p = "\<lparr>cy_id = ''policy1'', cy_annotation = (\<lambda>name. if name = ''advice'' then Some ''policy1'' else None)\<rparr>"
  have "\<exists>v. verdict_of_response ?c () (example_answer CedarAllow) = Inr v"
    by (simp add: verdict_of_response_def example_answer_def example_cedar_def contributing_policies_def
        List.map_filter_simps declaration_key_def strip_prefix_def starts_with_def parse_u64_def is_ascii_digit_def
        digits_value_def digit_value_def translate_advice_annotation_def translate_advice_def
        reject_unknown_members_def ADVICE_MEMBERS_def copy_advice_text_def has_key_def less_eq_prod_def)
  then obtain v where v: "verdict_of_response ?c () (example_answer CedarAllow) = Inr v"
    by blast
  moreover have "?p \<in> set (contributing_policies (cd_policy ?c ()) (example_answer CedarAllow))"
    by (simp add: contributing_policies_def List.map_filter_simps example_answer_def example_cedar_def)
  ultimately show ?thesis
    using escalation_not_hidden [OF v, of ?p "''policy1''"] by (simp add: example_answer_def example_cedar_def)
qed

theorem deny_reason_first_declared_witness:
  "verdict_of_response (example_cedar (example_answer CedarDeny)) () (example_answer CedarDeny)
    = Inr (deny_json ''policy0'')"
proof -
  let ?c = "example_cedar (example_answer CedarDeny)"
  let ?declared = "\<lambda>n. \<lparr>cy_id = ''policy'' @ nat_to_string n,
      cy_annotation = (\<lambda>name. if name = ''advice'' then Some (''policy'' @ nat_to_string n) else None)\<rparr>"
  have text01: "nat_to_string 0 = ''0''" "nat_to_string 1 = ''1''"
    by code_simp+
  have "verdict_of_response ?c () (example_answer CedarDeny)
      = Inr (deny_json (deny_reason (?declared (Min (set [1, 0])))))"
    by (rule deny_reason_first_declared) (use text01 in \<open>simp_all add: example_answer_def example_cedar_def cong: if_cong\<close>)
  moreover have "Min (set [1, 0 :: nat]) = 0"
    by simp
  ultimately show ?thesis
    using text01 by (simp add: deny_reason_def)
qed

lemma ca_new: "ca_map cedar_builtin_new = []" "\<not> ca_poisoned cedar_builtin_new"
  by (simp_all add: cedar_builtin_new_def)

lemma ci_input_example: "ci_input example_cedar_invocation = JNull"
  by (simp add: example_cedar_invocation_def)

lemma example_warm:
  "cedar_builtin_warm (example_cedar a) (\<lambda>_ _. Inr ''permit'') (CedarInvocation example_cedar_invocation) cedar_builtin_new
    = (Inr (), \<lparr>ca_map = [(cedar_key_of example_cedar_invocation, \<lparr>pr_policy_set = (), pr_schema = None, pr_entities = ()\<rparr>)],
        ca_poisoned = False, ca_reads = [''p'']\<rparr>)"
  by (simp add: cedar_builtin_warm_def cache_refresh_def prepared_load_def load_policy_text_def load_schema_def
      load_entities_def validate_policy_set_def read_to_string_def run_bind_def run_effect_def cache_put_def
      cedar_builtin_new_def MAX_CACHED_POLICY_SETS_def example_cedar_def example_cedar_invocation_def)

theorem warmed_decision_reads_nothing_witness:
  "\<exists>prepared warmed. snd (cedar_builtin_warm (example_cedar (example_answer CedarAllow)) (\<lambda>_ _. Inr ''permit'')
        (CedarInvocation example_cedar_invocation) cedar_builtin_new) = warmed
    \<and> cedar_builtin_evaluate (example_cedar (example_answer CedarAllow)) (\<lambda>_ _. Inl ''gone'')
        (CedarInvocation example_cedar_invocation) warmed
      = (decide_prepared (example_cedar (example_answer CedarAllow)) prepared JNull, warmed)"
  using warmed_decision_reads_nothing [OF example_warm [of "example_answer CedarAllow"],
      of example_cedar_invocation "\<lambda>_ _. Inl ''gone''"]
  by (auto simp: example_warm MAX_CACHED_POLICY_SETS_def ca_new ci_input_example)

theorem cedar_cache_transparent_witness:
  "fst (cedar_builtin_evaluate (example_cedar (example_answer CedarDeny)) (\<lambda>_ _. Inr ''permit'')
      (CedarInvocation example_cedar_invocation)
      (cache_put (cedar_key_of example_cedar_invocation) \<lparr>pr_policy_set = (), pr_schema = None, pr_entities = ()\<rparr> cedar_builtin_new))
    = fst (cedar_builtin_evaluate (example_cedar (example_answer CedarDeny)) (\<lambda>_ _. Inr ''permit'')
        (CedarInvocation example_cedar_invocation) cedar_builtin_new)"
proof -
  let ?c = "example_cedar (example_answer CedarDeny)"
  have "load_now ?c (\<lambda>_. Inr ''permit'') example_cedar_invocation
      = Inr \<lparr>pr_policy_set = (), pr_schema = None, pr_entities = ()\<rparr>"
    by (simp add: load_now_def prepared_load_def load_policy_text_def load_schema_def load_entities_def
        validate_policy_set_def read_to_string_def run_bind_def example_cedar_def example_cedar_invocation_def)
  from cedar_cache_transparent [OF cache_reachable.Put [OF cache_reachable.Start this]] show ?thesis
    by blast
qed

text \<open>A decision on a real input.\<close>

definition example_decided_invocation :: cedar_invocation where
  "example_decided_invocation = example_cedar_invocation\<lparr>ci_input := JObject [(''intervention_point'', JString ''input''),
     (''snapshot'', JObject [(''agent'', JObject [(''id'', JString ''a'')])])]\<rparr>"

theorem cedar_fails_closed_witness:
  "\<exists>v st. cedar_builtin_evaluate (example_cedar (example_answer CedarDeny)) (\<lambda>_ _. Inr ''permit'')
      (CedarInvocation example_decided_invocation) cedar_builtin_new = (Inr v, st)
    \<and> json_get v ''decision'' = Some (JString ''deny'')"
proof -
  let ?c = "example_cedar (example_answer CedarDeny)"
  let ?run = "cedar_builtin_evaluate ?c (\<lambda>_ _. Inr ''permit'') (CedarInvocation example_decided_invocation) cedar_builtin_new"
  have answer: "cd_is_authorized ?c q p e = example_answer CedarDeny" for q p e
    by (simp add: example_cedar_def)
  have decided: "cs_decision (example_answer d) = d" for d
    by (simp add: example_answer_def)
  have "is_ok (build_cedar_request (ci_input example_decided_invocation))"
    by code_simp
  then obtain request where request: "build_cedar_request (ci_input example_decided_invocation) = Inr request"
    by (auto simp: is_ok_iff)
  have "decide_prepared ?c \<lparr>pr_policy_set = (), pr_schema = None, pr_entities = ()\<rparr> (ci_input example_decided_invocation)
      = Inr (deny_json ''policy0'')"
    unfolding decide_prepared_def request rbind_simps
    by (simp add: answer deny_reason_first_declared_witness)
      (simp add: build_authorizer_request_def entity_uid_def example_cedar_def)
  moreover have "load_now ?c (\<lambda>_. Inr ''permit'') example_decided_invocation
      = Inr \<lparr>pr_policy_set = (), pr_schema = None, pr_entities = ()\<rparr>"
    by (simp add: load_now_def prepared_load_def load_policy_text_def load_schema_def load_entities_def validate_policy_set_def
        read_to_string_def run_bind_def example_cedar_def example_decided_invocation_def example_cedar_invocation_def)
  ultimately have "\<exists>v st. ?run = (Inr v, st)"
    using prepared_reachable [OF cache_reachable.Start, of ?c "\<lambda>_. Inr ''permit''" example_decided_invocation]
    by (cases "cache_prepared ?c (\<lambda>_ _. Inr ''permit'') example_decided_invocation cedar_builtin_new")
      (simp add: cedar_builtin_evaluate_def builtin_evaluate_eq run_bind_def)
  then obtain v st where run: "?run = (Inr v, st)"
    by blast
  from cedar_fails_closed [OF run] have "json_get v ''decision'' = Some (JString ''deny'')"
    by (auto simp: answer Let_def decided)
  with run show ?thesis
    by blast
qed

end
