(* ===== verification/Worker_Pool_Laws.thy ===== *)
theory Worker_Pool_Laws
  imports Worker_Pool
begin

text \<open>
  What every interleaving of the worker pool keeps: a caller receives the outcome of its own
  job, the idle list is bounded and holds workers that wait with empty channels, and the
  counter of abandoned threads, with the one moment in which it is wrong.
\<close>

section \<open>Who holds which worker\<close>

fun worker_of :: "call_phase \<Rightarrow> nat option" where
  "worker_of (Held w) = Some w"
| "worker_of (Waiting w) = Some w"
| "worker_of (Expired w) = Some w"
| "worker_of (Claimed w) = Some w"
| "worker_of (Received w _ _) = Some w"
| "worker_of _ = None"

text \<open>A worker that waits for a job with empty channels.\<close>

definition at_rest :: "worker \<Rightarrow> bool" where
  "at_rest w \<longleftrightarrow> wk_owned w \<and> wk_state w = WorkerRunning \<and> wk_jobs w = [] \<and> wk_outcomes w = []
    \<and> wk_phase w = Receiving"

text \<open>
  A worker that the call \<open>c\<close> has given its job: the job is in the channel, or running, or
  answered, or the thread died of it.
\<close>

definition serving :: "nat \<Rightarrow> worker \<Rightarrow> bool" where
  "serving c w \<longleftrightarrow> wk_owned w \<and>
    (wk_state w = WorkerRunning \<and> wk_jobs w = [c] \<and> wk_outcomes w = [] \<and> wk_phase w = Receiving
     \<or> wk_state w = WorkerRunning \<and> wk_jobs w = [] \<and> wk_outcomes w = [] \<and> wk_phase w = Running c
     \<or> wk_state w = WorkerRunning \<and> wk_jobs w = [] \<and> (\<exists>r. wk_outcomes w = [(c, r)]) \<and> wk_phase w = Receiving
     \<or> wk_state w = WorkerRunning \<and> wk_jobs w = [] \<and> wk_outcomes w = [] \<and> wk_phase w = Leaving
     \<or> wk_state w = WorkerFinished \<and> wk_jobs w = [] \<and> wk_outcomes w = [] \<and> wk_phase w = Gone)"

definition call_ok :: "worker list \<Rightarrow> nat \<Rightarrow> call_phase \<Rightarrow> bool" where
  "call_ok ws c phase = (case phase of
      Held w \<Rightarrow> at_rest (ws ! w)
    | Waiting w \<Rightarrow> serving c (ws ! w)
    | Expired w \<Rightarrow> serving c (ws ! w)
    | Claimed w \<Rightarrow> wk_owned (ws ! w) \<and> wk_state (ws ! w) = WorkerAbandoned
    | Received w job r \<Rightarrow> job = c \<and> at_rest (ws ! w)
    | Returned (Completed (Some job) r) \<Rightarrow> job = c
    | _ \<Rightarrow> True)"

definition pool_inv :: "pool \<Rightarrow> bool" where
  "pool_inv s \<longleftrightarrow>
    distinct (pl_idle s) \<and> length (pl_idle s) \<le> MAX_IDLE_WORKERS
    \<and> (\<forall>w\<in>set (pl_idle s). w < length (pl_workers s) \<and> at_rest (pl_workers s ! w))
    \<and> (\<forall>c<length (pl_calls s). call_ok (pl_workers s) c (pl_calls s ! c)
        \<and> (\<forall>w. worker_of (pl_calls s ! c) = Some w \<longrightarrow> w < length (pl_workers s) \<and> w \<notin> set (pl_idle s)))
    \<and> (\<forall>c<length (pl_calls s). \<forall>d<length (pl_calls s). \<forall>w.
        worker_of (pl_calls s ! c) = Some w \<longrightarrow> worker_of (pl_calls s ! d) = Some w \<longrightarrow> c = d)"

lemma pool_invI:
  assumes "distinct (pl_idle s)" "length (pl_idle s) \<le> MAX_IDLE_WORKERS"
    and "\<And>w. w \<in> set (pl_idle s) \<Longrightarrow> w < length (pl_workers s) \<and> at_rest (pl_workers s ! w)"
    and "\<And>c. c < length (pl_calls s) \<Longrightarrow> call_ok (pl_workers s) c (pl_calls s ! c)"
    and "\<And>c w. c < length (pl_calls s) \<Longrightarrow> worker_of (pl_calls s ! c) = Some w
      \<Longrightarrow> w < length (pl_workers s) \<and> w \<notin> set (pl_idle s)"
    and "\<And>c d w. c < length (pl_calls s) \<Longrightarrow> d < length (pl_calls s) \<Longrightarrow> worker_of (pl_calls s ! c) = Some w
      \<Longrightarrow> worker_of (pl_calls s ! d) = Some w \<Longrightarrow> c = d"
  shows "pool_inv s"
  unfolding pool_inv_def using assms by blast

lemma pool_invD:
  assumes "pool_inv s"
  shows "distinct (pl_idle s)" "length (pl_idle s) \<le> MAX_IDLE_WORKERS"
    and "w \<in> set (pl_idle s) \<Longrightarrow> w < length (pl_workers s) \<and> at_rest (pl_workers s ! w)"
    and "c < length (pl_calls s) \<Longrightarrow> call_ok (pl_workers s) c (pl_calls s ! c)"
    and "c < length (pl_calls s) \<Longrightarrow> worker_of (pl_calls s ! c) = Some w
      \<Longrightarrow> w < length (pl_workers s) \<and> w \<notin> set (pl_idle s)"
    and "c < length (pl_calls s) \<Longrightarrow> d < length (pl_calls s) \<Longrightarrow> worker_of (pl_calls s ! c) = Some w
      \<Longrightarrow> worker_of (pl_calls s ! d) = Some w \<Longrightarrow> c = d"
  using assms unfolding pool_inv_def by blast+

text \<open>Whether a call is in order depends on the worker it holds alone.\<close>

lemma call_ok_cong:
  "(\<And>w. worker_of phase = Some w \<Longrightarrow> ws ! w = vs ! w) \<Longrightarrow> call_ok ws c phase = call_ok vs c phase"
  by (cases phase) (simp_all add: call_ok_def)

text \<open>
  The shape of almost every step: one call moves to a new phase, keeping, giving up or
  getting a worker, and at most that worker changes.
\<close>

lemma pool_inv_move:
  assumes "pool_inv s" "c < length (pl_calls s)"
    and "pl_calls t = (pl_calls s)[c := phase]"
    and "length (pl_workers s) \<le> length (pl_workers t)"
    and "\<And>w. w < length (pl_workers s) \<Longrightarrow> worker_of (pl_calls s ! c) \<noteq> Some w
      \<Longrightarrow> pl_workers t ! w = pl_workers s ! w"
    and "call_ok (pl_workers t) c phase"
    and "distinct (pl_idle t)" "length (pl_idle t) \<le> MAX_IDLE_WORKERS"
    and "\<And>w. w \<in> set (pl_idle t) \<Longrightarrow> w \<in> set (pl_idle s)
      \<or> worker_of (pl_calls s ! c) = Some w \<and> worker_of phase = None \<and> at_rest (pl_workers t ! w)"
    and "\<And>w. worker_of phase = Some w \<Longrightarrow> w < length (pl_workers t) \<and> w \<notin> set (pl_idle t)
      \<and> (worker_of (pl_calls s ! c) = Some w \<or> w \<in> set (pl_idle s) \<or> length (pl_workers s) \<le> w)"
  shows "pool_inv t"
proof (rule pool_invI)
  note D = pool_invD [OF assms(1)]
  show "distinct (pl_idle t)" "length (pl_idle t) \<le> MAX_IDLE_WORKERS"
    by fact+
  have other: "worker_of (pl_calls s ! d) \<noteq> Some w"
    if "worker_of (pl_calls s ! c) = Some w" "d < length (pl_calls s)" "d \<noteq> c" for d w
    using D(6) [of c d w] assms(2) that by blast
  show "w < length (pl_workers t) \<and> at_rest (pl_workers t ! w)" if w: "w \<in> set (pl_idle t)" for w
  proof (cases "w \<in> set (pl_idle s)")
    case True
    then have "worker_of (pl_calls s ! c) \<noteq> Some w"
      using D(5) [OF assms(2)] by blast
    then show ?thesis
      using D(3) [OF True] assms(4,5) by auto
  next
    case False
    then have "worker_of (pl_calls s ! c) = Some w" "at_rest (pl_workers t ! w)"
      using assms(9) [OF w] by blast+
    then show ?thesis
      using D(5) [OF assms(2)] assms(4) by fastforce
  qed
  show "call_ok (pl_workers t) d (pl_calls t ! d)" if "d < length (pl_calls t)" for d
  proof (cases "d = c")
    case False
    with that have d: "d < length (pl_calls s)" "pl_calls t ! d = pl_calls s ! d"
      by (simp_all add: assms(3))
    have "pl_workers t ! w = pl_workers s ! w" if "worker_of (pl_calls s ! d) = Some w" for w
      using assms(5) D(5) [OF d(1) that] other d(1) False that by metis
    then show ?thesis
      using D(4) [OF d(1)] unfolding d(2) by (metis call_ok_cong)
  qed (use assms(2,3,6) in simp)
  have kept: "worker_of (pl_calls s ! d) = Some w \<Longrightarrow> w < length (pl_workers t) \<and> w \<notin> set (pl_idle t)"
    if "d < length (pl_calls s)" "d \<noteq> c" for d w
    using D(5) [OF that(1)] assms(4,9) other that by (metis order_less_le_trans)
  show "w < length (pl_workers t) \<and> w \<notin> set (pl_idle t)"
    if "d < length (pl_calls t)" "worker_of (pl_calls t ! d) = Some w" for d w
    using that kept assms(2,3,10) by (cases "d = c") simp_all
  have fresh: "w \<noteq> v" if "worker_of phase = Some w" "d < length (pl_calls s)" "d \<noteq> c"
      "worker_of (pl_calls s ! d) = Some v" for d v w
    using assms(10) [OF that(1)] D(5) [OF that(2,4)] other that by fastforce
  show "d = e" if de: "d < length (pl_calls t)" "e < length (pl_calls t)"
    "worker_of (pl_calls t ! d) = Some w" "worker_of (pl_calls t ! e) = Some w" for d e w
  proof (cases "d = c \<or> e = c")
    case True
    then show ?thesis
      using de fresh assms(2,3) by (metis length_list_update nth_list_update)
  next
    case False
    then show ?thesis
      using de D(6) assms(3) by simp
  qed
qed

section \<open>Steps of threads\<close>

lemma thread_cell_cases:
  assumes "thread_cell choice w = Some cell"
  shows "\<not> at_rest w" "serving c w \<Longrightarrow> serving c cell" "wk_owned cell = wk_owned w"
    "wk_state w = WorkerAbandoned \<Longrightarrow> wk_state cell = WorkerAbandoned"
proof -
  show "\<not> at_rest w"
    using assms by (auto simp: thread_cell_def at_rest_def)
  show "wk_owned cell = wk_owned w" "wk_state w = WorkerAbandoned \<Longrightarrow> wk_state cell = WorkerAbandoned"
    using assms by (cases "wk_phase w"; auto simp: thread_cell_def finish_job_def drop_slot_def
        split: list.splits if_splits thread_choice.splits)+
  assume "serving c w"
  then consider "wk_owned w" "wk_state w = WorkerRunning" "wk_jobs w = [c]" "wk_outcomes w = []" "wk_phase w = Receiving"
    | "wk_owned w" "wk_state w = WorkerRunning" "wk_jobs w = []" "wk_outcomes w = []" "wk_phase w = Running c"
    | "wk_owned w" "wk_jobs w = []" "wk_phase w = Receiving"
    | "wk_owned w" "wk_state w = WorkerRunning" "wk_jobs w = []" "wk_outcomes w = []" "wk_phase w = Leaving"
    | "wk_phase w = Gone"
    unfolding serving_def by blast
  then show "serving c cell"
  proof cases
    case 1
    then have "cell = w\<lparr>wk_jobs := [], wk_phase := Running c\<rparr>"
      using assms by (simp add: thread_cell_def)
    with 1 show ?thesis
      by (simp add: serving_def)
  next
    case 2
    then have "(\<exists>r. cell = w\<lparr>wk_outcomes := [(c, r)], wk_phase := Receiving\<rparr>) \<or> cell = w\<lparr>wk_phase := Leaving\<rparr>"
      using assms by (cases choice) (auto simp: thread_cell_def finish_job_def)
    with 2 show ?thesis
      by (elim disjE exE) (simp_all add: serving_def)
  next
    case 4
    then have "cell = w\<lparr>wk_state := WorkerFinished, wk_phase := Gone\<rparr>"
      using assms by (simp add: thread_cell_def drop_slot_def)
    with 4 show ?thesis
      by (simp add: serving_def)
  qed (use assms in \<open>simp_all add: thread_cell_def\<close>)
qed

lemma thread_step:
  assumes "worker_thread w choice s = Some t"
  obtains cell where "thread_cell choice (pl_workers s ! w) = Some cell"
    "pl_workers t = (pl_workers s)[w := cell]" "pl_calls t = pl_calls s" "pl_idle t = pl_idle s"
    "pl_abandoned t = (if wk_phase (pl_workers s ! w) = Repaying then pl_abandoned s - 1 else pl_abandoned s)"
  using assms by (auto simp: worker_thread_def set_worker_def Let_def split: if_splits)

lemma call_ok_thread:
  assumes "call_ok ws c phase" "\<And>v. worker_of phase = Some v \<Longrightarrow> v < length ws"
    and "\<not> at_rest (ws ! w)" "serving c (ws ! w) \<Longrightarrow> serving c cell" "wk_owned cell = wk_owned (ws ! w)"
    and "wk_state (ws ! w) = WorkerAbandoned \<Longrightarrow> wk_state cell = WorkerAbandoned"
  shows "call_ok (ws[w := cell]) c phase"
proof (cases "worker_of phase = Some w")
  case True
  then show ?thesis
    using assms by (cases phase) (auto simp: call_ok_def)
next
  case False
  then have "call_ok (ws[w := cell]) c phase = call_ok ws c phase"
    by (intro call_ok_cong) (metis nth_list_update_neq)
  with assms(1) show ?thesis
    by simp
qed

lemma pool_inv_thread:
  assumes "pool_inv s" "worker_thread w choice s = Some t" "w < length (pl_workers s)"
  shows "pool_inv t"
proof -
  note D = pool_invD [OF assms(1)]
  obtain cell where step: "thread_cell choice (pl_workers s ! w) = Some cell"
      and t: "pl_workers t = (pl_workers s)[w := cell]" "pl_calls t = pl_calls s" "pl_idle t = pl_idle s"
    using thread_step [OF assms(2)] by metis
  note cell = thread_cell_cases [OF step]
  have busy: "v \<noteq> w" if "at_rest (pl_workers s ! v)" for v
    using that cell(1) by blast
  show ?thesis
  proof (rule pool_invI)
    show "distinct (pl_idle t)" "length (pl_idle t) \<le> MAX_IDLE_WORKERS"
      using D(1,2) by (simp_all add: t)
    show "v < length (pl_workers t) \<and> at_rest (pl_workers t ! v)" if "v \<in> set (pl_idle t)" for v
      using D(3) [of v] that busy [of v] by (simp add: t)
    show "call_ok (pl_workers t) c (pl_calls t ! c)" if "c < length (pl_calls t)" for c
      unfolding t using D(4) [of c] D(5) [of c] that cell by (intro call_ok_thread) (simp_all add: t)
    show "v < length (pl_workers t) \<and> v \<notin> set (pl_idle t)"
      if "c < length (pl_calls t)" "worker_of (pl_calls t ! c) = Some v" for c v
      using D(5) [of c v] that by (simp add: t)
    show "c = d" if "c < length (pl_calls t)" "d < length (pl_calls t)"
      "worker_of (pl_calls t ! c) = Some v" "worker_of (pl_calls t ! d) = Some v" for c d v
      using D(6) [of c d v] that by (simp add: t)
  qed
qed

section \<open>Steps of callers\<close>

lemma pool_inv_release:
  assumes "pool_inv s" "c < length (pl_calls s)" "pl_calls s ! c = Received w job r"
  shows "pool_inv (set_call c (Returned (Completed (Some job) r)) (release w s))"
proof -
  note D = pool_invD [OF assms(1)]
  have w: "at_rest (pl_workers s ! w)" "job = c" "w < length (pl_workers s)" "w \<notin> set (pl_idle s)"
    using D(4) [OF assms(2)] D(5) [OF assms(2)] by (simp_all add: assms(3) call_ok_def)
  show ?thesis
    by (rule pool_inv_move [OF assms(1,2), where phase = "Returned (Completed (Some job) r)"])
      (use D(1,2) w assms(2,3) in \<open>auto simp: set_call_def release_def drop_worker_def set_worker_def call_ok_def
        at_rest_def split: if_splits\<close>)
qed

lemma pool_inv_drop:
  assumes "pool_inv s" "c < length (pl_calls s)" "worker_of (pl_calls s ! c) = Some w"
    and "\<And>job r. outcome \<noteq> Completed (Some job) r"
  shows "pool_inv (set_call c (Returned outcome) (drop_worker w s))"
proof -
  note D = pool_invD [OF assms(1)]
  have w: "w < length (pl_workers s)" "w \<notin> set (pl_idle s)"
    using D(5) [OF assms(2,3)] by simp_all
  have "call_ok ws c (Returned outcome)" for ws
    using assms(4) by (auto simp: call_ok_def split: deadline_outcome.splits option.splits)
  then show ?thesis
    by (intro pool_inv_move [OF assms(1,2), where phase = "Returned outcome"])
      (use D(1,2) w assms(3) in \<open>auto simp: set_call_def drop_worker_def set_worker_def\<close>)
qed

lemma pool_inv_waiting:
  assumes "pool_inv s" "c < length (pl_calls s)" "run_with_deadline c choice s = Some t" "pl_calls s ! c = Waiting w"
  shows "pool_inv t"
proof -
  note D = pool_invD [OF assms(1)]
  have w: "serving c (pl_workers s ! w)" "w < length (pl_workers s)" "w \<notin> set (pl_idle s)"
    using D(4) [OF assms(2)] D(5) [OF assms(2)] by (simp_all add: assms(4) call_ok_def)
  show ?thesis
  proof (cases "wk_outcomes (pl_workers s ! w)")
    case (Cons a rest)
    then obtain r where out: "wk_outcomes (pl_workers s ! w) = [(c, r)]"
        "at_rest ((pl_workers s ! w)\<lparr>wk_outcomes := []\<rparr>)"
      using w(1) by (auto simp: serving_def at_rest_def)
    then have t: "t = set_call c (Received w c r) (set_worker w ((pl_workers s ! w)\<lparr>wk_outcomes := []\<rparr>) s)"
      using assms(3,4) by (simp add: run_with_deadline_def)
    show ?thesis
      by (rule pool_inv_move [OF assms(1,2), where phase = "Received w c r"])
        (use D(1,2) w out assms(4) in \<open>auto simp: t set_call_def set_worker_def call_ok_def\<close>)
  next
    case Nil
    show ?thesis
    proof (cases "wk_phase (pl_workers s ! w) = Gone")
      case True
      then have "\<exists>e. t = set_call c (Returned (Completed None (Inl e))) (drop_worker w s)"
        using assms(3,4) Nil by (auto simp: run_with_deadline_def)
      then show ?thesis
        using pool_inv_drop [OF assms(1,2)] by (auto simp: assms(4))
    next
      case False
      then have t: "t = set_call c (Expired w) s"
        using assms(3,4) Nil by (simp add: run_with_deadline_def split: if_splits)
      show ?thesis
        by (rule pool_inv_move [OF assms(1,2), where phase = "Expired w"])
          (use D(1,2) w assms(4) in \<open>auto simp: t set_call_def call_ok_def\<close>)
    qed
  qed
qed

lemma pool_inv_expired:
  assumes "pool_inv s" "c < length (pl_calls s)" "run_with_deadline c choice s = Some t" "pl_calls s ! c = Expired w"
  shows "pool_inv t"
proof (cases "wk_state (pl_workers s ! w) = WorkerRunning")
  case True
  note D = pool_invD [OF assms(1)]
  have w: "serving c (pl_workers s ! w)" "w < length (pl_workers s)" "w \<notin> set (pl_idle s)"
    using D(4) [OF assms(2)] D(5) [OF assms(2)] by (simp_all add: assms(4) call_ok_def)
  have t: "t = set_call c (Claimed w) (set_worker w ((pl_workers s ! w)\<lparr>wk_state := WorkerAbandoned\<rparr>) s)"
    using assms(3,4) True by (simp add: run_with_deadline_def claim_abandoned_def)
  show ?thesis
    by (rule pool_inv_move [OF assms(1,2), where phase = "Claimed w"])
      (use D(1,2) w assms(4) in \<open>auto simp: t set_call_def set_worker_def call_ok_def serving_def\<close>)
next
  case False
  then have "t = set_call c (Returned TimedOut) (drop_worker w s)"
    using assms(3,4) by (simp add: run_with_deadline_def claim_abandoned_def)
  then show ?thesis
    using pool_inv_drop [OF assms(1,2)] by (simp add: assms(4))
qed

lemma pool_inv_caller:
  assumes "pool_inv s" "c < length (pl_calls s)" "run_with_deadline c choice s = Some t"
  shows "pool_inv t"
proof (cases "pl_calls s ! c")
  case Started
  note D = pool_invD [OF assms(1)]
  show ?thesis
  proof (cases "pl_poisoned s \<or> pl_idle s = []")
    case True
    then have t: "t = set_call c NoneIdle s"
      using assms(3) Started by (auto simp: run_with_deadline_def take_idle_def split: list.splits)
    show ?thesis
      by (rule pool_inv_move [OF assms(1,2), where phase = NoneIdle])
        (use D(1,2) in \<open>auto simp: t set_call_def call_ok_def\<close>)
  next
    case False
    then obtain w ws where idle: "pl_idle s = w # ws" "t = set_call c (Held w) (s\<lparr>pl_idle := ws\<rparr>)"
      using assms(3) Started by (auto simp: run_with_deadline_def take_idle_def neq_Nil_conv)
    show ?thesis
      by (rule pool_inv_move [OF assms(1,2), where phase = "Held w"])
        (use D(1,2,3) idle in \<open>auto simp: set_call_def call_ok_def\<close>)
  qed
next
  case NoneIdle
  note D = pool_invD [OF assms(1)]
  have t: "t = set_call c (check_abandoned (pl_abandoned s)) s"
    using assms(3) NoneIdle by (simp add: run_with_deadline_def)
  show ?thesis
    by (rule pool_inv_move [OF assms(1,2), where phase = "check_abandoned (pl_abandoned s)"])
      (use D(1,2) in \<open>auto simp: t set_call_def call_ok_def check_abandoned_def spawn_refused_def split: if_splits\<close>)
next
  case MaySpawn
  note D = pool_invD [OF assms(1)]
  consider e where "t = set_call c (Returned (Unavailable e)) s"
    | "t = set_call c (Held (length (pl_workers s))) (s\<lparr>pl_workers := pl_workers s @ [worker_spawn]\<rparr>)"
    using assms(3) MaySpawn by (auto simp: run_with_deadline_def split: caller_choice.splits)
  then show ?thesis
  proof cases
    case t: (1 e)
    show ?thesis
      by (rule pool_inv_move [OF assms(1,2), where phase = "Returned (Unavailable e)"])
        (use D(1,2) in \<open>auto simp: t set_call_def call_ok_def\<close>)
  next
    case t: 2
    show ?thesis
      by (rule pool_inv_move [OF assms(1,2), where phase = "Held (length (pl_workers s))"])
        (use D(1,2) D(3) in \<open>auto simp: t set_call_def call_ok_def nth_append at_rest_def worker_spawn_def\<close>)
  qed
next
  case (Held w)
  note D = pool_invD [OF assms(1)]
  have w: "at_rest (pl_workers s ! w)" "w < length (pl_workers s)" "w \<notin> set (pl_idle s)"
    using D(4) [OF assms(2)] D(5) [OF assms(2)] by (simp_all add: Held call_ok_def)
  then have t: "t = set_call c (Waiting w) (set_worker w ((pl_workers s ! w)\<lparr>wk_jobs := [c]\<rparr>) s)"
    using assms(3) Held by (simp add: run_with_deadline_def at_rest_def)
  show ?thesis
    by (rule pool_inv_move [OF assms(1,2), where phase = "Waiting w"])
      (use D(1,2) w Held in \<open>auto simp: t set_call_def set_worker_def call_ok_def at_rest_def serving_def\<close>)
next
  case (Waiting w)
  then show ?thesis
    using pool_inv_waiting [OF assms] by simp
next
  case (Expired w)
  then show ?thesis
    using pool_inv_expired [OF assms] by simp
next
  case (Claimed w)
  note D = pool_invD [OF assms(1)]
  have w: "w < length (pl_workers s)" "w \<notin> set (pl_idle s)"
    using D(5) [OF assms(2)] by (simp_all add: Claimed)
  have t: "t = set_call c (Returned TimedOut) (drop_worker w (s\<lparr>pl_abandoned := pl_abandoned s + 1\<rparr>))"
    using assms(3) Claimed by (simp add: run_with_deadline_def)
  show ?thesis
    by (rule pool_inv_move [OF assms(1,2), where phase = "Returned TimedOut"])
      (use D(1,2) w Claimed in \<open>auto simp: t set_call_def drop_worker_def set_worker_def call_ok_def\<close>)
next
  case (Received w job r)
  then have "t = set_call c (Returned (Completed (Some job) r)) (release w s)"
    using assms(3) by (simp add: run_with_deadline_def)
  then show ?thesis
    using pool_inv_release [OF assms(1,2) Received] by simp
next
  case (Returned r)
  with assms(3) show ?thesis
    by (simp add: run_with_deadline_def)
qed

section \<open>Every interleaving\<close>

lemma pool_inv_step: "pool_step s l t \<Longrightarrow> pool_inv s \<Longrightarrow> pool_inv t"
proof (induction rule: pool_step.induct)
  case (arrive s)
  note D = pool_invD [OF arrive]
  let ?t = "s\<lparr>pl_calls := pl_calls s @ [Started]\<rparr>"
  have old: "c < length (pl_calls s)" "pl_calls ?t ! c = pl_calls s ! c"
    if "c < length (pl_calls ?t)" "worker_of (pl_calls ?t ! c) = Some w" for c w
    using that by (auto simp: nth_append less_Suc_eq)
  show ?case
  proof (rule pool_invI)
    show "call_ok (pl_workers ?t) c (pl_calls ?t ! c)" if "c < length (pl_calls ?t)" for c
      using D(4) [of c] that by (auto simp: nth_append call_ok_def less_Suc_eq)
    show "w < length (pl_workers ?t) \<and> w \<notin> set (pl_idle ?t)"
      if "c < length (pl_calls ?t)" "worker_of (pl_calls ?t ! c) = Some w" for c w
      using D(5) [of c w] old [OF that] that(2) by simp
    show "c = d" if "c < length (pl_calls ?t)" "d < length (pl_calls ?t)"
      "worker_of (pl_calls ?t ! c) = Some w" "worker_of (pl_calls ?t ! d) = Some w" for c d w
      using D(6) [of c d w] old [OF that(1,3)] old [OF that(2,4)] that(3,4) by simp
    show "w < length (pl_workers ?t) \<and> at_rest (pl_workers ?t ! w)" if "w \<in> set (pl_idle ?t)" for w
      using D(3) [of w] that by simp
  qed (use D(1,2) in simp_all)
next
  case (poison s)
  then show ?case
    by (simp add: pool_inv_def)
next
  case (caller c s choice t)
  then show ?case
    using pool_inv_caller by blast
next
  case (thread w s choice t)
  then show ?case
    using pool_inv_thread by blast
qed

text \<open>Calls are never forgotten, and one that returned has returned.\<close>

definition calls_settle :: "pool \<Rightarrow> pool \<Rightarrow> bool" where
  "calls_settle s t \<longleftrightarrow> length (pl_calls s) \<le> length (pl_calls t)
    \<and> (\<forall>c<length (pl_calls s). \<forall>r. pl_calls s ! c = Returned r \<longrightarrow> pl_calls t ! c = Returned r)"

lemma caller_moves:
  assumes "run_with_deadline c choice s = Some t"
  shows "\<exists>phase. pl_calls t = (pl_calls s)[c := phase]" "pl_calls s ! c \<noteq> Returned r"
proof -
  show "pl_calls s ! c \<noteq> Returned r"
    using assms by (auto simp: run_with_deadline_def)
  show "\<exists>phase. pl_calls t = (pl_calls s)[c := phase]"
    using assms unfolding run_with_deadline_def
    by (cases "pl_calls s ! c")
      (auto simp: set_call_def set_worker_def drop_worker_def release_def take_idle_def claim_abandoned_def
        split: list.splits if_splits caller_choice.splits prod.splits option.splits)
qed

interpretation pool: guarded_system "\<lambda>s. s = pool_new" pool_step pool_inv calls_settle
proof
  show "pool_inv s" if "s = pool_new" for s
    using that by (simp add: pool_inv_def pool_new_def)
  show "pool_inv t" if "pool_inv s" "pool_step s l t" for s l t
    using pool_inv_step that by blast
  show "calls_settle s s" for s
    by (simp add: calls_settle_def)
  show "calls_settle s u" if "calls_settle s t" "calls_settle t u" for s t u
    using that by (auto simp: calls_settle_def)
  show "calls_settle s t" if "pool_inv s" "pool_step s l t" for s l t
    using that(2)
  proof cases
    case (caller c choice)
    note moved = caller_moves [OF caller(3)]
    from moved(1) obtain phase where "pl_calls t = (pl_calls s)[c := phase]"
      by blast
    then show ?thesis
      using moved(2) unfolding calls_settle_def by (metis length_list_update nth_list_update_neq order_refl)
  next
    case (thread w choice)
    then show ?thesis
      using thread_step [OF thread(3)] by (metis calls_settle_def order_refl)
  qed (auto simp: calls_settle_def nth_append)
qed

text \<open>
  C20: Outcomes are not crossed.  Whatever callers and worker threads do and in whatever order,
  deadlines that pass, jobs that panic and workers that are used again included, an outcome
  that a call returns is the outcome of the job that call submitted; and the idle list holds
  at most its cap of distinct workers, each waiting for a job with both its channels empty.
\<close>

theorem pool_outcomes_not_crossed:
  assumes "reachable (\<lambda>s. s = pool_new) pool_step s"
  shows "(\<forall>c job r. c < length (pl_calls s) \<longrightarrow> pl_calls s ! c = Returned (Completed (Some job) r) \<longrightarrow> job = c)
    \<and> distinct (pl_idle s) \<and> length (pl_idle s) \<le> MAX_IDLE_WORKERS
    \<and> (\<forall>w\<in>set (pl_idle s). w < length (pl_workers s) \<and> wk_phase (pl_workers s ! w) = Receiving
        \<and> wk_jobs (pl_workers s ! w) = [] \<and> wk_outcomes (pl_workers s ! w) = [])"
proof -
  note D = pool_invD [OF pool.reachable_inv [OF assms]]
  have "job = c" if "c < length (pl_calls s)" "pl_calls s ! c = Returned (Completed (Some job) r)" for c job r
    using D(4) [OF that(1)] that(2) by (simp add: call_ok_def)
  then show ?thesis
    using D(1-3) by (auto simp: at_rest_def)
qed

section \<open>The counter\<close>

definition charged :: "worker \<Rightarrow> bool" where
  "charged w \<longleftrightarrow> wk_state w = WorkerAbandoned \<and> wk_phase w \<noteq> Gone"

definition is_claimed :: "call_phase \<Rightarrow> bool" where
  "is_claimed phase = (case phase of Claimed _ \<Rightarrow> True | _ \<Rightarrow> False)"

definition tally :: "('a \<Rightarrow> bool) \<Rightarrow> 'a list \<Rightarrow> 64 word" where
  "tally P xs = sum_list (map (\<lambda>x. if P x then 1 else 0) xs)"

lemma tally_update:
  "i < length xs \<Longrightarrow> tally P (xs[i := x]) = tally P xs + (if P x then 1 else 0) - (if P (xs ! i) then 1 else 0)"
  by (induction xs arbitrary: i) (auto simp: tally_def split: nat.splits)

lemma tally_append: "tally P (xs @ ys) = tally P xs + tally P ys"
  by (simp add: tally_def)

lemma tally_filter: "tally P xs = of_nat (length (filter P xs))"
  by (induction xs) (simp_all add: tally_def)

definition worker_ok :: "worker \<Rightarrow> bool" where
  "worker_ok w \<longleftrightarrow> (wk_phase w = Repaying \<longrightarrow> wk_state w = WorkerAbandoned)
    \<and> (wk_state w = WorkerFinished \<longrightarrow> wk_phase w = Gone) \<and> (wk_phase w = Gone \<longrightarrow> wk_state w \<noteq> WorkerRunning)"

definition count_inv :: "pool \<Rightarrow> bool" where
  "count_inv s \<longleftrightarrow> pl_abandoned s = tally charged (pl_workers s) - tally is_claimed (pl_calls s)
    \<and> list_all worker_ok (pl_workers s)"

lemma count_inv_calls:
  assumes "count_inv s" "c < length (pl_calls s)" "pl_calls t = (pl_calls s)[c := phase]"
    and "pl_workers t = pl_workers s" "pl_abandoned t = pl_abandoned s"
    and "\<not> is_claimed phase" "\<not> is_claimed (pl_calls s ! c)"
  shows "count_inv t"
  using assms by (simp add: count_inv_def tally_update)

lemma count_inv_move:
  assumes "count_inv s" "c < length (pl_calls s)" "pl_calls t = (pl_calls s)[c := phase]"
    and "w < length (pl_workers s)" "pl_workers t = (pl_workers s)[w := cell]" "worker_ok cell"
    and "pl_abandoned t = pl_abandoned s
      + ((if charged cell then 1 else 0) - (if charged (pl_workers s ! w) then 1 else 0))
      - ((if is_claimed phase then 1 else 0) - (if is_claimed (pl_calls s ! c) then 1 else 0))"
  shows "count_inv t"
proof -
  have "list_all worker_ok (pl_workers t)"
    using assms(1,5,6) unfolding count_inv_def list_all_iff by (metis insertE set_update_subset_insert subsetD)
  then show ?thesis
    using assms by (simp add: count_inv_def tally_update)
qed

lemma thread_cell_shape:
  assumes "thread_cell choice w = Some cell"
  shows "(wk_state cell = wk_state w
      \<and> (wk_phase w \<in> {Receiving} \<union> range Running \<and> wk_phase cell \<in> {Receiving, Leaving} \<union> range Running
        \<or> wk_phase w = Leaving \<and> wk_state w \<noteq> WorkerRunning \<and> wk_phase cell = Repaying
        \<or> wk_phase w = Repaying \<and> wk_phase cell = Gone))
    \<or> wk_phase w = Leaving \<and> wk_state w = WorkerRunning \<and> wk_state cell = WorkerFinished \<and> wk_phase cell = Gone"
  using assms
  by (cases "wk_phase w") (auto simp: thread_cell_def finish_job_def drop_slot_def
      split: list.splits if_splits thread_choice.splits)

lemma thread_cell_charge:
  assumes "thread_cell choice w = Some cell" "worker_ok w"
  shows "worker_ok cell" "charged cell \<longleftrightarrow> charged w \<and> wk_phase w \<noteq> Repaying"
    "wk_phase w = Repaying \<Longrightarrow> charged w"
  using thread_cell_shape [OF assms(1)] assms(2)
  by (cases "wk_state w"; auto simp: worker_ok_def charged_def)+

lemma count_inv_thread:
  assumes "count_inv s" "worker_thread w choice s = Some t" "w < length (pl_workers s)"
  shows "count_inv t"
proof -
  obtain cell where step: "thread_cell choice (pl_workers s ! w) = Some cell"
      and t: "pl_workers t = (pl_workers s)[w := cell]" "pl_calls t = pl_calls s"
        "pl_abandoned t = (if wk_phase (pl_workers s ! w) = Repaying then pl_abandoned s - 1 else pl_abandoned s)"
    using thread_step [OF assms(2)] by metis
  have ok: "worker_ok (pl_workers s ! w)"
    using assms(1,3) by (simp add: count_inv_def list_all_length)
  note cell = thread_cell_charge [OF step ok]
  have "list_all worker_ok (pl_workers t)"
    using assms(1) cell(1) unfolding count_inv_def list_all_iff t by (metis insertE set_update_subset_insert subsetD)
  then show ?thesis
    using assms(1,3) cell(2,3) by (auto simp: count_inv_def tally_update t)
qed

lemma cell_frame [simp]:
  "worker_ok (w\<lparr>wk_jobs := js\<rparr>) = worker_ok w" "charged (w\<lparr>wk_jobs := js\<rparr>) = charged w"
  "worker_ok (w\<lparr>wk_outcomes := os\<rparr>) = worker_ok w" "charged (w\<lparr>wk_outcomes := os\<rparr>) = charged w"
  "worker_ok (w\<lparr>wk_owned := b\<rparr>) = worker_ok w" "charged (w\<lparr>wk_owned := b\<rparr>) = charged w"
  by (simp_all add: worker_ok_def charged_def)

lemma count_inv_caller:
  assumes "count_inv s" "pool_inv s" "c < length (pl_calls s)" "run_with_deadline c choice s = Some t"
  shows "count_inv t"
proof -
  have held: "w < length (pl_workers s)" "worker_ok (pl_workers s ! w)" if "worker_of (pl_calls s ! c) = Some w" for w
    using pool_invD(5) [OF assms(2,3) that] assms(1) by (simp_all add: count_inv_def list_all_length)
  note calls = count_inv_calls [OF assms(1,3)] and move = count_inv_move [OF assms(1,3)]
  note defs = run_with_deadline_def set_call_def set_worker_def drop_worker_def is_claimed_def
  show ?thesis
  proof (cases "pl_calls s ! c")
    case Started
    obtain phase where "pl_calls t = (pl_calls s)[c := phase]" "\<not> is_claimed phase"
        "pl_workers t = pl_workers s" "pl_abandoned t = pl_abandoned s"
      using assms(4) Started by (auto simp: defs take_idle_def split: list.splits if_splits)
    then show ?thesis
      using calls Started by (simp add: is_claimed_def)
  next
    case NoneIdle
    then show ?thesis
      using assms(4) by (intro calls [of t "check_abandoned (pl_abandoned s)"])
        (auto simp: defs check_abandoned_def)
  next
    case MaySpawn
    have spawned: "count_inv (s\<lparr>pl_workers := pl_workers s @ [worker_spawn]\<rparr>)"
      using assms(1) by (simp add: count_inv_def tally_append tally_def worker_ok_def worker_spawn_def charged_def)
    show ?thesis
      using assms(4) MaySpawn count_inv_calls [OF spawned] calls assms(3)
      by (auto simp: defs split: caller_choice.splits)
  next
    case (Held w)
    then have w: "w < length (pl_workers s)" "worker_ok (pl_workers s ! w)"
      using held by simp_all
    consider r where "t = set_call c (Returned (Unavailable r)) (drop_worker w s)"
      | js where "t = set_call c (Waiting w) (set_worker w ((pl_workers s ! w)\<lparr>wk_jobs := js\<rparr>) s)"
      using assms(4) Held by (auto simp: run_with_deadline_def split: if_splits)
    then show ?thesis
      by cases (auto intro!: move [OF _ w(1)] simp: Held w(2) defs)
  next
    case (Waiting w)
    then have w: "w < length (pl_workers s)" "worker_ok (pl_workers s ! w)"
      using held by simp_all
    consider job r os where "t = set_call c (Received w job r) (set_worker w ((pl_workers s ! w)\<lparr>wk_outcomes := os\<rparr>) s)"
      | r where "t = set_call c (Returned r) (drop_worker w s)" | "t = set_call c (Expired w) s"
      using assms(4) Waiting by (auto simp: run_with_deadline_def split: if_splits list.splits)
    then show ?thesis
    proof cases
      case 3
      then show ?thesis
        by (intro calls [of t "Expired w"]) (simp_all add: Waiting defs)
    qed (auto intro!: move [OF _ w(1)] simp: Waiting w(2) defs)
  next
    case (Expired w)
    then have w: "w < length (pl_workers s)" "worker_ok (pl_workers s ! w)"
      using held by simp_all
    show ?thesis
    proof (cases "wk_state (pl_workers s ! w) = WorkerRunning")
      case True
      let ?cell = "(pl_workers s ! w)\<lparr>wk_state := WorkerAbandoned\<rparr>"
      have "t = set_call c (Claimed w) (set_worker w ?cell s)"
        using assms(4) Expired True by (simp add: run_with_deadline_def claim_abandoned_def)
      moreover have "worker_ok ?cell" "charged ?cell" "\<not> charged (pl_workers s ! w)"
        using w(2) True by (auto simp: worker_ok_def charged_def)
      ultimately show ?thesis
        by (intro move [OF _ w(1), of t "Claimed w" ?cell]) (simp_all add: Expired defs)
    next
      case False
      then have "t = set_call c (Returned TimedOut) (drop_worker w s)"
        using assms(4) Expired by (simp add: run_with_deadline_def claim_abandoned_def)
      then show ?thesis
        by (auto intro!: move [OF _ w(1)] simp: Expired w(2) defs)
    qed
  next
    case (Claimed w)
    then have w: "w < length (pl_workers s)" "worker_ok (pl_workers s ! w)"
      using held by simp_all
    have "t = set_call c (Returned TimedOut) (drop_worker w (s\<lparr>pl_abandoned := pl_abandoned s + 1\<rparr>))"
      using assms(4) Claimed by (simp add: run_with_deadline_def)
    then show ?thesis
      by (intro move [OF _ w(1), of t "Returned TimedOut" "(pl_workers s ! w)\<lparr>wk_owned := False\<rparr>"])
        (simp_all add: Claimed w(2) defs)
  next
    case (Received w job r)
    then have w: "w < length (pl_workers s)" "worker_ok (pl_workers s ! w)"
      using held by simp_all
    let ?phase = "Returned (Completed (Some job) r)"
    have "t = set_call c ?phase (release w s)"
      using assms(4) Received by (simp add: run_with_deadline_def)
    then consider "t = set_call c ?phase (s\<lparr>pl_idle := w # pl_idle s\<rparr>)" | "t = set_call c ?phase (drop_worker w s)"
      by (auto simp: release_def split: if_splits)
    then show ?thesis
    proof cases
      case 1
      then show ?thesis
        by (intro calls [of t ?phase]) (simp_all add: Received defs)
    qed (auto intro!: move [OF _ w(1)] simp: Received w(2) defs)
  next
    case (Returned r)
    then show ?thesis
      using assms(4) by (simp add: run_with_deadline_def)
  qed
qed

lemma reachable_count: "reachable (\<lambda>s. s = pool_new) pool_step s \<Longrightarrow> count_inv s"
proof -
  assume "reachable (\<lambda>s. s = pool_new) pool_step s"
  then obtain ls where "execution pool_step pool_new ls s"
    unfolding reachable_def by blast
  then show ?thesis
  proof (induction pool_new ls s rule: execution.induct)
    case execution_nil
    then show ?case
      by (simp add: count_inv_def pool_new_def tally_def)
  next
    case (execution_snoc ls s l t)
    have inv: "pool_inv s"
      using execution_snoc(1) by (intro pool.reachable_inv) (auto simp: reachable_def)
    from execution_snoc(3) show ?case
    proof cases
      case arrive
      then show ?thesis
        using execution_snoc(2) by (simp add: count_inv_def tally_append) (simp add: tally_def is_claimed_def)
    next
      case (caller c choice)
      then show ?thesis
        using count_inv_caller [OF execution_snoc(2) inv] by blast
    next
      case (thread w choice)
      then show ?thesis
        using count_inv_thread [OF execution_snoc(2)] by blast
    qed (use execution_snoc(2) in \<open>simp add: count_inv_def\<close>)
  qed
qed

text \<open>
  C21: The counter of abandoned threads is exact at rest.  In every interleaving, whenever no
  call stands between claiming a worker as abandoned and raising the counter, the counter is
  the number of threads that were abandoned and have not ended, modulo its width.
\<close>

theorem abandoned_count_exact:
  assumes "reachable (\<lambda>s. s = pool_new) pool_step s"
    and "\<And>w. Claimed w \<notin> set (pl_calls s)"
  shows "pl_abandoned s = of_nat (length (filter (\<lambda>w. wk_state w = WorkerAbandoned \<and> wk_phase w \<noteq> Gone) (pl_workers s)))"
proof -
  have "filter is_claimed (pl_calls s) = []"
    using assms(2) by (auto simp: filter_empty_conv is_claimed_def split: call_phase.splits)
  then have "tally is_claimed (pl_calls s) = 0"
    by (simp add: tally_filter)
  then show ?thesis
    using reachable_count [OF assms(1)] unfolding charged_def [abs_def, symmetric]
    by (simp add: count_inv_def tally_filter)
qed

section \<open>Concrete runs\<close>

fun perform :: "pool_label \<Rightarrow> pool \<Rightarrow> pool option" where
  "perform Arrive s = Some (s\<lparr>pl_calls := pl_calls s @ [Started]\<rparr>)"
| "perform (Caller c choice) s = (if c < length (pl_calls s) then run_with_deadline c choice s else None)"
| "perform (Thread w choice) s = (if w < length (pl_workers s) then worker_thread w choice s else None)"
| "perform Poison s = Some (s\<lparr>pl_poisoned := True\<rparr>)"

fun perform_all :: "pool_label list \<Rightarrow> pool \<Rightarrow> pool option" where
  "perform_all [] s = Some s"
| "perform_all (l # ls) s = (case perform l s of None \<Rightarrow> None | Some t \<Rightarrow> perform_all ls t)"

lemma perform_step: "perform l s = Some t \<Longrightarrow> pool_step s l t"
  by (cases l) (auto intro: pool_step.intros split: if_splits)

lemma perform_reachable:
  "perform_all ls s = Some t \<Longrightarrow> reachable (\<lambda>s. s = pool_new) pool_step s
    \<Longrightarrow> reachable (\<lambda>s. s = pool_new) pool_step t"
proof (induction ls arbitrary: s)
  case (Cons l ls)
  then obtain u where u: "perform l s = Some u" "perform_all ls u = Some t"
    by (auto split: option.splits)
  have "execution pool_step s ([] @ [l]) u"
    using perform_step [OF u(1)] by (blast intro: execution.intros)
  from Cons.IH [OF u(2) reachable_execution [OF Cons.prems(2) this]] show ?case .
qed simp

text \<open>
  A call whose deadline passes claims its worker; before it raises the counter, the job
  panics and the thread, which lost the compare-exchange, gives back a slot that was not yet
  charged.  Then a second call arrives.
\<close>

definition unlucky_run :: "pool_label list" where
  "unlucky_run = [Arrive, Caller 0 Proceed, Caller 0 Proceed, Caller 0 Proceed, Caller 0 Proceed,
     Thread 0 JobPanics, Caller 0 DeadlinePasses, Caller 0 Proceed,
     Thread 0 JobPanics, Thread 0 JobPanics, Thread 0 JobPanics,
     Arrive, Caller 1 Proceed, Caller 1 Proceed]"

lemma unlucky_result:
  "perform_all unlucky_run pool_new = Some \<lparr>pl_idle = [], pl_poisoned = False, pl_abandoned = - 1,
     pl_workers = [\<lparr>wk_state = WorkerAbandoned, wk_jobs = [], wk_outcomes = [], wk_owned = True, wk_phase = Gone\<rparr>],
     pl_calls = [Claimed 0, Returned (spawn_refused (- 1))]\<rparr>"
  by (simp add: unlucky_run_def pool_new_def run_with_deadline_def take_idle_def set_call_def check_abandoned_def
      MAX_ABANDONED_WORKERS_def worker_spawn_def set_worker_def worker_thread_def thread_cell_def claim_abandoned_def
      drop_slot_def Let_def unsigned_minus_1_eq_mask mask_eq_exp_minus_1)

text \<open>
  C27: The counter can wrap.  A caller raises the counter in a step of its own, after the
  compare-exchange that decides who settles the slot; a thread that dies of a panic in
  between lowers the counter first.  There is a run in which every thread has ended, the
  counter holds its largest value, and a new call is refused because that many evaluations
  were said to be running.
\<close>

theorem abandoned_count_wraps:
  "\<exists>s. reachable (\<lambda>s. s = pool_new) pool_step s \<and> filter (\<lambda>w. wk_phase w \<noteq> Gone) (pl_workers s) = []
    \<and> unat (pl_abandoned s) = 2 ^ 64 - 1 \<and> pl_calls s ! 1 = Returned (spawn_refused (pl_abandoned s))"
  by (rule exI, rule conjI, rule perform_reachable [OF unlucky_result], rule reachable_init)
    (simp_all add: unsigned_minus_1_eq_mask mask_eq_exp_minus_1)

definition lucky_run :: "pool_label list" where
  "lucky_run = [Arrive, Caller 0 Proceed, Caller 0 Proceed, Caller 0 Proceed, Caller 0 Proceed,
     Thread 0 JobPanics, Thread 0 (JobReturns (Inr JNull)), Caller 0 Proceed, Caller 0 Proceed]"

lemma lucky_result:
  "perform_all lucky_run pool_new = Some \<lparr>pl_idle = [0], pl_poisoned = False, pl_abandoned = 0,
     pl_workers = [worker_spawn], pl_calls = [Returned (Completed (Some 0) (Inr JNull))]\<rparr>"
  by (simp add: lucky_run_def pool_new_def run_with_deadline_def take_idle_def set_call_def check_abandoned_def
      MAX_ABANDONED_WORKERS_def MAX_IDLE_WORKERS_def worker_spawn_def set_worker_def worker_thread_def thread_cell_def
      finish_job_def release_def Let_def)

lemma start_reachable: "reachable (\<lambda>s. s = pool_new) pool_step pool_new"
  by (rule reachable_init) simp

lemmas lucky_reachable = perform_reachable [OF lucky_result start_reachable]

theorem pool_outcomes_not_crossed_witness:
  "\<exists>s. reachable (\<lambda>s. s = pool_new) pool_step s \<and> pl_calls s ! 0 = Returned (Completed (Some 0) (Inr JNull))
    \<and> length (pl_idle s) = 1 \<and> 1 \<le> MAX_IDLE_WORKERS"
  using pool_outcomes_not_crossed [OF lucky_reachable] lucky_reachable by force

text \<open>A call whose deadline passes while its job runs, and which has counted its worker.\<close>

definition late_run :: "pool_label list" where
  "late_run = [Arrive, Caller 0 Proceed, Caller 0 Proceed, Caller 0 Proceed, Caller 0 Proceed,
     Thread 0 JobPanics, Caller 0 DeadlinePasses, Caller 0 Proceed, Caller 0 Proceed]"

lemma late_result:
  "perform_all late_run pool_new = Some \<lparr>pl_idle = [], pl_poisoned = False, pl_abandoned = 1,
     pl_workers = [\<lparr>wk_state = WorkerAbandoned, wk_jobs = [], wk_outcomes = [], wk_owned = False, wk_phase = Running 0\<rparr>],
     pl_calls = [Returned TimedOut]\<rparr>"
  by (simp add: late_run_def pool_new_def run_with_deadline_def take_idle_def set_call_def check_abandoned_def
      MAX_ABANDONED_WORKERS_def worker_spawn_def set_worker_def worker_thread_def thread_cell_def claim_abandoned_def
      drop_worker_def Let_def)

lemmas late_reachable = perform_reachable [OF late_result start_reachable]

theorem abandoned_count_exact_witness:
  "\<exists>s. reachable (\<lambda>s. s = pool_new) pool_step s \<and> pl_calls s = [Returned TimedOut]
    \<and> length (filter (\<lambda>w. wk_state w = WorkerAbandoned \<and> wk_phase w \<noteq> Gone) (pl_workers s)) = 1
    \<and> pl_abandoned s = of_nat (length (filter (\<lambda>w. wk_state w = WorkerAbandoned \<and> wk_phase w \<noteq> Gone) (pl_workers s)))"
  by (rule exI, rule conjI, rule late_reachable, rule conjI) (simp, rule conjI, simp, rule abandoned_count_exact [OF late_reachable], simp)

end
