(* ===== verification/Rego_Laws.thy ===== *)
theory Rego_Laws
  imports Rego
begin

text \<open>
  Loading a bundle is deterministic and ends, no engine is built with a live
  nondeterministic builtin, data is found where it was mounted, and an evaluation returns
  only defined values or fails.
\<close>

section \<open>Mounting\<close>

fun lookup_path :: "string list \<Rightarrow> json \<Rightarrow> json option" where
  "lookup_path [] v = Some v"
| "lookup_path (k # ks) v = Option.bind (json_get v k) (lookup_path ks)"

lemma mounted_json_Nil [simp]: "mounted_json [] v = v"
  by (simp add: mounted_json_def)

lemma mounted_json_Cons [simp]: "mounted_json (k # mount) v = JObject [(k, mounted_json mount v)]"
  by (simp add: mounted_json_def)

lemma mounted_lookup:
  "lookup_path p (mounted_json mount v) =
    (if take (length mount) p = mount then lookup_path (drop (length mount) p) v
     else if take (length p) mount = p then Some (mounted_json (drop (length p) mount) v)
     else None)"
proof (induction mount arbitrary: p)
  case (Cons k mount)
  then show ?case
    by (cases p) auto
qed simp

text \<open>
  Mounted data is found where it was mounted and nowhere else.  A document that is loaded
  under a mount point, read as JSON, has the document's value at the mount point, every path
  below it is a path of the document, and no path beside the mount point has a value.
\<close>

theorem mounted_data_found:
  assumes "mount_data g v mount = Inr w" "rg_to_value g v = Inr j"
    and "\<And>k u. rg_from_json_str g (rg_show g k) = Inr u \<Longrightarrow> rg_to_value g u = Inr k"
  shows "\<exists>k. rg_to_value g w = Inr k \<and> lookup_path mount k = Some j
    \<and> (\<forall>p. lookup_path (mount @ p) k = lookup_path p j)
    \<and> (\<forall>p. take (length mount) p \<noteq> mount \<longrightarrow> take (length p) mount \<noteq> p \<longrightarrow> lookup_path p k = None)"
proof -
  have "rg_to_value g w = Inr (mounted_json mount j)"
    using assms by (cases "mount = []") (auto simp: mount_data_def rbind_eq_Inr_iff)
  then show ?thesis
    by (intro exI [of _ "mounted_json mount j"]) (simp add: mounted_lookup)
qed

section \<open>The order of a listing\<close>

definition same_entries :: "(string, (string, string) result list) result \<Rightarrow> (string, (string, string) result list) result \<Rightarrow> bool" where
  "same_entries a b = (case (a, b) of
      (Inl e, Inl f) \<Rightarrow> e = f
    | (Inr xs, Inr ys) \<Rightarrow> (\<exists>names names'. xs = map Inr names \<and> ys = map Inr names' \<and> mset names = mset names')
    | _ \<Rightarrow> False)"

text \<open>Two file systems that hold the same and may list a directory in different orders.\<close>

definition same_files :: "rego_files \<Rightarrow> rego_files \<Rightarrow> bool" where
  "same_files a b \<longleftrightarrow> rf_metadata_is_dir a = rf_metadata_is_dir b \<and> rf_is_dir a = rf_is_dir b
    \<and> rf_read_to_string a = rf_read_to_string b
    \<and> (\<forall>dir. same_entries (rf_read_dir a dir) (rf_read_dir b dir))"

lemma listed_names: "try_map (map_err h) (map Inr names) = Inr names"
  by (induction names) simp_all

lemma same_sorted_entries:
  assumes "same_files a b"
  shows "sorted_entries a label dir = sorted_entries b label dir"
proof -
  have "same_entries (rf_read_dir a dir) (rf_read_dir b dir)"
    using assms by (simp add: same_files_def)
  then consider e where "rf_read_dir a dir = Inl e" "rf_read_dir b dir = Inl e"
    | names names' where "rf_read_dir a dir = Inr (map Inr names)" "rf_read_dir b dir = Inr (map Inr names')"
        "mset names = mset names'"
    by (auto simp: same_entries_def split: sum.splits)
  then show ?thesis
  proof cases
    case (2 names names')
    then have "sort (map (path_join dir) names) = sort (map (path_join dir) names')"
      by (intro properties_for_sort) simp_all
    with 2 show ?thesis
      by (simp add: sorted_entries_def listed_names)
  qed (simp add: sorted_entries_def)
qed

lemma same_load_entry: "same_files a b \<Longrightarrow> load_entry g a base label scope path st = load_entry g b base label scope path st"
  by (simp add: load_entry_def load_file_def same_files_def)

lemma same_load:
  "same_files a b \<Longrightarrow> load_directory g a base label scope dir depth st = load_directory g b base label scope dir depth st"
  "same_files a b \<Longrightarrow> load_all g a base label scope paths depth st = load_all g b base label scope paths depth st"
proof (induction g a base label scope dir depth st and g a base label scope paths depth st
    rule: load_directory_load_all.induct)
  case (1 g files base label scope dir depth st)
  then show ?case
    using same_sorted_entries [OF "1.prems"]
    by (simp add: load_directory.simps [of g files] load_directory.simps [of g b] cong: rbind_cong)
next
  case (3 g files base label scope path paths depth st)
  have "rf_is_dir files = rf_is_dir b"
    using "3.prems" by (simp add: same_files_def)
  then have "(if rf_is_dir files path then
        (if depth > MAX_BUNDLE_DEPTH then Inl (depth_error label path)
         else load_directory g files base label scope path (depth + 1) st)
      else load_entry g files base label scope path st)
    = (if rf_is_dir b path then
        (if depth > MAX_BUNDLE_DEPTH then Inl (depth_error label path)
         else load_directory g b base label scope path (depth + 1) st)
      else load_entry g b base label scope path st)"
    using "3.IH"(1) "3.prems" same_load_entry [OF "3.prems", of g base label scope path st] by simp
  then show ?case
    using "3.IH"(2) "3.prems" by (auto intro!: rbind_cong)
qed simp

lemma same_load_path: "same_files a b \<Longrightarrow> load_path g a path label scope engine = load_path g b path label scope engine"
  using same_load(1) [of a b g path label scope path 0 "(engine, 0)"]
  by (simp add: load_path_def load_file_def same_files_def cong: if_cong)

text \<open>
  C25: Loading does not depend on the order in which the file system lists a directory.  Two
  file systems with the same files and directories give the same engine, or the same error,
  for every key, in whatever order each of them lists its directories.
\<close>

theorem bundle_load_order_free:
  assumes "same_files a b"
  shows "build_engine g a key = build_engine g b key"
proof -
  have eq: "load_path g a = load_path g b"
    by (intro ext same_load_path assms)
  show ?thesis
    unfolding build_engine_def eq ..
qed

section \<open>Directories without end\<close>

declare load_directory.simps [simp del]

lemma load_all_stops:
  assumes "path \<in> set paths" "rf_is_dir files path" "depth \<le> MAX_BUNDLE_DEPTH"
    and "\<And>st. \<exists>e. load_directory g files base label scope path (depth + 1) st = Inl e"
  shows "\<exists>e. load_all g files base label scope paths depth st = Inl e"
  using assms(1)
proof (induction paths arbitrary: st)
  case (Cons q qs)
  show ?case
  proof (cases "q = path")
    case True
    then show ?thesis
      using assms(2,3) assms(4) [of st] by auto
  next
    case False
    then have "\<exists>e. load_all g files base label scope qs depth st = Inl e" for st
      using Cons by simp
    then show ?thesis
      by (fastforce simp: rbind_def split: sum.splits)
  qed
qed simp

text \<open>
  A bundle without end is refused.  Where every directory of some set has an entry that is
  a directory of the set again, as a link to a directory above makes it, loading from a
  directory of the set ends with an error, at whatever depth it is reached.
\<close>

theorem endless_bundle_refused:
  assumes "dir \<in> endless"
    and "\<And>d. d \<in> endless \<Longrightarrow> \<exists>names n. rf_read_dir files d = Inr (map Inr names) \<and> n \<in> set names
      \<and> path_join d n \<in> endless \<and> rf_is_dir files (path_join d n)"
  shows "\<exists>e. load_directory g files base label scope dir depth st = Inl e"
  using assms(1)
proof (induction "Suc MAX_BUNDLE_DEPTH - depth" arbitrary: dir depth st)
  case 0
  then show ?case
    by (simp add: load_directory.simps)
next
  case (Suc left)
  obtain names n where n: "rf_read_dir files dir = Inr (map Inr names)" "n \<in> set names"
      "path_join dir n \<in> endless" "rf_is_dir files (path_join dir n)"
    using assms(2) [OF Suc.prems] by blast
  have "\<exists>e. load_directory g files base label scope (path_join dir n) (depth + 1) st = Inl e" for st
    using Suc.hyps(1) [of "depth + 1" "path_join dir n"] Suc.hyps(2) n(3) by simp
  then have "\<exists>e. load_all g files base label scope (sort (map (path_join dir) names)) depth st = Inl e"
    using n(2,4) Suc.hyps(2) by (intro load_all_stops [of "path_join dir n"]) auto
  moreover have "sorted_entries files label dir = Inr (sort (map (path_join dir) names))"
    by (simp add: sorted_entries_def n(1) listed_names)
  ultimately show ?case
    by (subst load_directory.simps) simp
qed

section \<open>Builtins\<close>

text \<open>What loading may do to an engine.\<close>

inductive loaded :: "('e, 'v) regorus \<Rightarrow> 'e \<Rightarrow> 'e \<Rightarrow> bool" for g where
  unchanged: "loaded g e e"
| policy: "loaded g e f \<Longrightarrow> rg_add_policy g name source f = Inr h \<Longrightarrow> loaded g e h"
| data: "loaded g e f \<Longrightarrow> rg_add_data g v f = Inr h \<Longrightarrow> loaded g e h"

lemma loaded_trans: "loaded g f h \<Longrightarrow> loaded g e f \<Longrightarrow> loaded g e h"
  by (induction rule: loaded.induct) (auto intro: loaded.intros)

lemma loaded_add_data: "add_data g v display f = Inr h \<Longrightarrow> loaded g f h"
  by (auto simp: add_data_def intro: loaded.intros)

lemma loaded_file: "load_file g files path label mount f = Inr h \<Longrightarrow> loaded g f h"
  by (auto simp: load_file_def load_data_text_def rbind_eq_Inr_iff Let_def split: if_splits
      intro: loaded.intros loaded_add_data)

lemma loaded_directory:
  "load_directory g files base label scope dir depth st = Inr st' \<Longrightarrow> loaded g (fst st) (fst st')"
  "load_all g files base label scope paths depth st = Inr st' \<Longrightarrow> loaded g (fst st) (fst st')"
proof (induction g files base label scope dir depth st and g files base label scope paths depth st
    arbitrary: st' and st' rule: load_directory_load_all.induct)
  case (1 g files base label scope dir depth st)
  from "1.prems" obtain paths where depth: "\<not> depth > MAX_BUNDLE_DEPTH"
      and paths: "sorted_entries files label dir = Inr paths"
      and all: "load_all g files base label scope paths depth st = Inr st'"
    unfolding load_directory.simps [of g files base label scope dir] rbind_eq_Inr_iff
    by (cases "depth > MAX_BUNDLE_DEPTH") (simp_all add: rbind_eq_Inr_iff, blast)
  show ?case
    by (rule "1.IH" [OF depth paths all])
next
  case (3 g files base label scope path paths depth st)
  from "3.prems" obtain u where u: "(if rf_is_dir files path then
        (if depth > MAX_BUNDLE_DEPTH then Inl (depth_error label path)
         else load_directory g files base label scope path (depth + 1) st)
      else load_entry g files base label scope path st) = Inr u"
      "load_all g files base label scope paths depth u = Inr st'"
    unfolding load_all.simps rbind_eq_Inr_iff by blast
  have "loaded g (fst st) (fst u)"
  proof (cases "rf_is_dir files path")
    case True
    then show ?thesis
      using u(1) "3.IH"(1) by (auto split: if_splits)
  next
    case False
    then show ?thesis
      using u(1) by (auto simp: load_entry_def rbind_eq_Inr_iff loaded.unchanged split: if_splits dest: loaded_file)
  qed
  then show ?case
    by (rule loaded_trans [OF "3.IH"(2) [OF u]])
qed (simp add: loaded.unchanged)

lemma loaded_path: "load_path g files path label scope f = Inr h \<Longrightarrow> loaded g f h"
proof -
  assume load: "load_path g files path label scope f = Inr h"
  show ?thesis
  proof (cases "rf_metadata_is_dir files path = Inr True")
    case True
    then obtain st where "load_directory g files path label scope path 0 (f, 0) = Inr st" "h = fst st"
      using load by (auto simp: load_path_def rbind_eq_Inr_iff split: if_splits)
    then show ?thesis
      using loaded_directory(1) [of g files path label scope path 0 "(f, 0)" st] by simp
  next
    case False
    then have "load_file g files path label [] f = Inr h"
      using load by (auto simp: load_path_def rbind_eq_Inr_iff split: if_splits)
    then show ?thesis
      by (rule loaded_file)
  qed
qed

lemma loaded_fold:
  assumes "try_fold step xs f = Inr h" "\<And>x e e'. step x e = Inr e' \<Longrightarrow> loaded g e e'"
  shows "loaded g f h"
  using assms(1)
proof (induction xs arbitrary: f)
  case (Cons x xs)
  then obtain e where "step x f = Inr e" "try_fold step xs e = Inr h"
    by (auto simp: rbind_eq_Inr_iff)
  then show ?case
    by (intro loaded_trans [OF Cons.IH assms(2)])
qed (simp add: loaded.unchanged)

lemma loaded_in_memory: "load_in_memory_bundle g bundle f = Inr h \<Longrightarrow> loaded g f h"
proof -
  assume "load_in_memory_bundle g bundle f = Inr h"
  then obtain e where folds: "try_fold (\<lambda>(name, source) engine.
        map_err (\<lambda>err. PolicyInvocationFailed (''failed to load in-memory Rego policy '' @ quoted name @ '': '' @ err))
          (rg_add_policy g name source engine)) (ib_modules bundle) f = Inr e"
      "try_fold (\<lambda>(index, entry) engine.
        let display = document_display index (md_mount entry) in
        rbind (map_err (\<lambda>err. PolicyInvocationFailed (''failed to parse '' @ display @ '': '' @ err))
          (rg_from_json_str g (rg_show g (md_document entry)))) (\<lambda>v.
        rbind (mount_data g v (md_mount entry)) (\<lambda>mounted. add_data g mounted display engine)))
      (enumerate 0 (ib_data bundle)) e = Inr h"
    unfolding load_in_memory_bundle_def rbind_eq_Inr_iff by blast
  have first: "loaded g f e"
    by (rule loaded_fold [OF folds(1)]) (auto intro: loaded.intros split: prod.splits)
  have "loaded g e h"
    by (rule loaded_fold [OF folds(2)]) (auto simp: rbind_eq_Inr_iff Let_def intro: loaded_add_data split: prod.splits)
  from loaded_trans [OF this first] show ?thesis .
qed

text \<open>
  C17: No engine is built with a live nondeterministic builtin.  In every engine that is built,
  the network call, the clock, the random number, the fresh identifier and the runtime
  description were each replaced by a builtin that fails, in that order and before anything
  of the bundle was loaded; what came after only added policies and data.
\<close>

theorem builtins_disabled_first:
  assumes "build_engine g files key = Inr engine"
  shows "\<exists>e0. try_fold (\<lambda>(name, arity, message). disable_builtin g name arity message)
      [(''http.send'', 1, HTTP_SEND_MESSAGE), (''time.now_ns'', 0, nondeterministic_message ''time.now_ns''),
       (''rand.intn'', 2, nondeterministic_message ''rand.intn''),
       (''uuid.rfc4122'', 1, nondeterministic_message ''uuid.rfc4122''),
       (''opa.runtime'', 0, nondeterministic_message ''opa.runtime'')]
      (rg_set_gather_prints g True (rg_set_rego_v0 g (rk_rego_v0 key)
        (rg_set_strict_builtin_errors g (rk_strict_builtin_errors key) (rg_new g)))) = Inr e0
    \<and> loaded g e0 engine"
proof -
  obtain e1 e0 e2 e3 where steps: "shadow_http_send g (rg_set_gather_prints g True (rg_set_rego_v0 g (rk_rego_v0 key)
        (rg_set_strict_builtin_errors g (rk_strict_builtin_errors key) (rg_new g)))) = Inr e1"
      "shadow_nondeterministic_builtins g e1 = Inr e0"
      "(case rk_inline_bundle key of Some bundle \<Rightarrow> load_in_memory_bundle g bundle e0 | None \<Rightarrow> Inr e0) = Inr e2"
      "(case rk_bundle key of Some bundle \<Rightarrow> load_path g files bundle ''bundle'' Bundle e2 | None \<Rightarrow> Inr e2) = Inr e3"
      "try_fold (\<lambda>data_path. load_path g files data_path ''data path'' DataPath) (rk_data_paths key) e3 = Inr engine"
    using assms unfolding build_engine_def Let_def rbind_eq_Inr_iff by blast
  have in_memory: "loaded g e0 e2"
    using steps(3) by (auto simp: loaded.unchanged split: option.splits dest: loaded_in_memory)
  have on_disk: "loaded g e2 e3"
    using steps(4) by (auto simp: loaded.unchanged split: option.splits dest: loaded_path)
  have "loaded g e3 engine"
    using steps(5) by (rule loaded_fold) (rule loaded_path)
  from loaded_trans [OF loaded_trans [OF this on_disk] in_memory] have "loaded g e0 engine" .
  then show ?thesis
    using steps(1,2) by (intro exI [of _ e0])
      (simp add: shadow_http_send_def shadow_nondeterministic_builtins_def NONDETERMINISTIC_BUILTINS_def cong: rbind_cong)
qed

section \<open>Results\<close>

lemma single_expression_Inr:
  "single_expression_value g results = Inr j \<longleftrightarrow> (\<exists>v. results = [[v]] \<and> rg_to_value g v = Inr j)"
  by (auto simp: single_expression_value_def value_to_json_def split: list.splits)

text \<open>What an engine answered, and how: a defined rule, or one result with one expression.\<close>

definition answers :: "('e, 'v) regorus \<Rightarrow> string \<Rightarrow> 'e \<Rightarrow> json \<Rightarrow> bool" where
  "answers g query engine j \<longleftrightarrow> (\<exists>v. rg_to_value g v = Inr j
     \<and> (is_rule_path query \<and> fst (rg_eval_rule g query engine) = Inr v \<and> \<not> rg_is_undefined g v
       \<or> \<not> is_rule_path query \<and> fst (rg_eval_query g query engine) = Inr [[v]]
       \<or> is_rule_path query \<and> (\<exists>err. fst (rg_eval_rule g query engine) = Inl err)
           \<and> fst (rg_eval_query g query (snd (rg_eval_rule g query engine))) = Inr [[v]]))"

lemma query_answer:
  "rbind (map_err eval_error r) (single_expression_value g) = Inr j \<longleftrightarrow> (\<exists>v. r = Inr [[v]] \<and> rg_to_value g v = Inr j)"
  by (auto simp: rbind_eq_Inr_iff single_expression_Inr)

lemma evaluate_engine_answers:
  assumes "evaluate_engine g timeout elapsed query input engine = Inr j"
  obtains fed where "rg_set_input_json g input (rg_set_timer g timeout TIMER_CHECK_INTERVAL engine) = Inr fed"
    "answers g query fed j"
proof -
  from assms obtain fed where fed: "rg_set_input_json g input (rg_set_timer g timeout TIMER_CHECK_INTERVAL engine) = Inr fed"
    unfolding evaluate_engine_def rbind_eq_Inr_iff by (auto simp: map_err_eq_Inr_iff)
  show ?thesis
  proof (cases "is_rule_path query")
    case False
    then have "answers g query fed j"
      using assms fed by (auto simp: evaluate_engine_def query_answer answers_def)
    with fed show ?thesis
      by (rule that)
  next
    case rule: True
    have "answers g query fed j"
    proof (cases "fst (rg_eval_rule g query fed)")
      case (Inr v)
      then have "rule_value g v = Inr j"
        using assms fed rule by (auto simp: evaluate_engine_def split: prod.splits)
      then show ?thesis
        using Inr rule by (auto simp: rule_value_def value_to_json_def answers_def split: if_splits)
    next
      case (Inl err)
      then show ?thesis
        using assms fed rule by (auto simp: evaluate_engine_def query_answer answers_def split: prod.splits if_splits)
    qed
    with fed show ?thesis
      by (rule that)
  qed
qed

section \<open>The cache\<close>

text \<open>
  A bundle as \<open>InMemoryRegoBundle::new\<close> made it, of a size that a machine can hold: its digest
  is that of its contents.
\<close>

definition honest_bundle :: "externals \<Rightarrow> in_memory_bundle \<Rightarrow> bool" where
  "honest_bundle x b \<longleftrightarrow> in_memory_bundle_new x (ib_modules b) (ib_data b) = Inr b
    \<and> length (ib_modules b) < 2 ^ 64 \<and> list_all module_ok (ib_modules b) \<and> length (ib_data b) < 2 ^ 64
    \<and> list_all (\<lambda>d. case canonical_json (x_to_string x) (md_document d) of
        Inr canonical \<Rightarrow> data_ok (md_mount d, canonical) | Inl _ \<Rightarrow> False) (ib_data b)"

definition honest_key :: "externals \<Rightarrow> rego_key \<Rightarrow> bool" where
  "honest_key x key \<longleftrightarrow> (case rk_inline_bundle key of None \<Rightarrow> True | Some b \<Rightarrow> honest_bundle x b)"

text \<open>
  The bytes a bundle's digest covers: its modules, and the canonical text of each of its data
  documents with its mount.
\<close>

definition bundle_stream :: "externals \<Rightarrow> in_memory_bundle \<Rightarrow> string \<Rightarrow> bool" where
  "bundle_stream x b s \<longleftrightarrow> (\<exists>entries. s = content_stream (ib_modules b) entries
    \<and> list_all2 (\<lambda>d e. fst e = md_mount d \<and> canonical_json (x_to_string x) (md_document d) = Inr (snd e)) (ib_data b) entries)"

text \<open>Two bundles with the same contents, and two bundles whose own contents are a collision of SHA-256.\<close>

definition same_data :: "externals \<Rightarrow> mounted_rego_data \<Rightarrow> mounted_rego_data \<Rightarrow> bool" where
  "same_data x d d' \<longleftrightarrow> md_mount d = md_mount d'
    \<and> canonical_json (x_to_string x) (md_document d) = canonical_json (x_to_string x) (md_document d')"

definition same_bundle :: "externals \<Rightarrow> in_memory_bundle \<Rightarrow> in_memory_bundle \<Rightarrow> bool" where
  "same_bundle x b b' \<longleftrightarrow> ib_modules b = ib_modules b' \<and> list_all2 (same_data x) (ib_data b) (ib_data b')"

definition bundles_collide :: "externals \<Rightarrow> in_memory_bundle \<Rightarrow> in_memory_bundle \<Rightarrow> bool" where
  "bundles_collide x b b' \<longleftrightarrow> (\<exists>s s'. bundle_stream x b s \<and> bundle_stream x b' s' \<and> s \<noteq> s'
    \<and> lower (x_sha256 x s) = lower (x_sha256 x s'))"

text \<open>Two keys that name the same modules, data, paths and settings.\<close>

definition same_policy_set :: "externals \<Rightarrow> rego_key \<Rightarrow> rego_key \<Rightarrow> bool" where
  "same_policy_set x key key' \<longleftrightarrow> rk_bundle key = rk_bundle key' \<and> rk_data_paths key = rk_data_paths key'
    \<and> rk_strict_builtin_errors key = rk_strict_builtin_errors key' \<and> rk_rego_v0 key = rk_rego_v0 key'
    \<and> rel_option (\<lambda>b b'. same_bundle x b b' \<or> bundles_collide x b b') (rk_inline_bundle key) (rk_inline_bundle key')"

lemma digest_entries:
  assumes "honest_bundle x b"
  obtains entries where "ib_digest b = lower (x_sha256 x (content_stream (ib_modules b) entries))"
    "list_all data_ok entries" "length entries = length (ib_data b)"
    "list_all2 (\<lambda>d e. fst e = md_mount d \<and> canonical_json (x_to_string x) (md_document d) = Inr (snd e)) (ib_data b) entries"
proof -
  have "content_digest x (ib_modules b) (ib_data b) = Inr (ib_digest b)"
    using assms by (cases b) (auto simp: honest_bundle_def in_memory_bundle_new_def rbind_eq_Inr_iff)
  then have "\<exists>entries. ib_digest b = lower (x_sha256 x (content_stream (ib_modules b) entries))
      \<and> list_all2 (\<lambda>d e. \<exists>canonical. canonical_json (x_to_string x) (md_document d) = Inr canonical
        \<and> (md_mount d, canonical) = e) (ib_data b) entries"
    unfolding content_digest_def rbind_eq_Inr_iff try_map_ok_iff map_err_eq_Inr_iff by auto (metis (no_types, lifting))
  then obtain entries where entries: "ib_digest b = lower (x_sha256 x (content_stream (ib_modules b) entries))"
      "list_all2 (\<lambda>d e. \<exists>canonical. canonical_json (x_to_string x) (md_document d) = Inr canonical
        \<and> (md_mount d, canonical) = e) (ib_data b) entries"
    by blast
  from entries(2) have rel:
    "list_all2 (\<lambda>d e. fst e = md_mount d \<and> canonical_json (x_to_string x) (md_document d) = Inr (snd e)) (ib_data b) entries"
    by (rule list.rel_mono_strong) auto
  have "list_all (\<lambda>d. case canonical_json (x_to_string x) (md_document d) of
        Inr canonical \<Rightarrow> data_ok (md_mount d, canonical) | Inl _ \<Rightarrow> False) (ib_data b)"
    using assms by (simp add: honest_bundle_def)
  with rel have "list_all data_ok entries"
    by (induction rule: list_all2_induct) (auto simp: data_ok_def)
  then show thesis
    by (rule that [OF entries(1) _ list_all2_lengthD [OF rel, symmetric] rel])
qed

lemma same_digest:
  assumes "honest_bundle x b" "honest_bundle x b'" "ib_digest b = ib_digest b'"
  shows "same_bundle x b b' \<or> bundles_collide x b b'"
proof -
  let ?R = "\<lambda>d e. fst e = md_mount d \<and> canonical_json (x_to_string x) (md_document d) = Inr (snd e)"
  obtain entries where e: "ib_digest b = lower (x_sha256 x (content_stream (ib_modules b) entries))"
      "list_all data_ok entries" "length entries = length (ib_data b)" "list_all2 ?R (ib_data b) entries"
    using digest_entries [OF assms(1)] by blast
  obtain entries' where e': "ib_digest b' = lower (x_sha256 x (content_stream (ib_modules b') entries'))"
      "list_all data_ok entries'" "length entries' = length (ib_data b')" "list_all2 ?R (ib_data b') entries'"
    using digest_entries [OF assms(2)] by blast
  show ?thesis
  proof (cases "content_stream (ib_modules b) entries = content_stream (ib_modules b') entries'")
    case True
    then have same: "ib_modules b = ib_modules b' \<and> entries = entries'"
      using assms(1,2) e(2,3) e'(2,3) by (intro content_stream_injective) (simp_all add: honest_bundle_def)
    have "list_all2 (same_data x) (ib_data b) (ib_data b')"
      using e(4) e'(4) same unfolding list_all2_conv_all_nth by (auto simp: same_data_def)
    with same show ?thesis
      by (simp add: same_bundle_def)
  next
    case False
    moreover have "bundle_stream x b (content_stream (ib_modules b) entries)"
        "bundle_stream x b' (content_stream (ib_modules b') entries')"
      using e(4) e'(4) by (auto simp: bundle_stream_def)
    ultimately show ?thesis
      using assms(3) e(1) e'(1) unfolding bundles_collide_def by metis
  qed
qed

text \<open>Keys that count as equal name the same policy set, where no digest is forged.\<close>

lemma ident_same:
  assumes "honest_key x key" "honest_key x key'" "rego_ident key = rego_ident key'"
  shows "same_policy_set x key key'"
proof -
  have "rel_option (\<lambda>b b'. same_bundle x b b' \<or> bundles_collide x b b') (rk_inline_bundle key) (rk_inline_bundle key')"
    using assms same_digest
    by (cases "rk_inline_bundle key"; cases "rk_inline_bundle key'") (auto simp: rego_ident_def honest_key_def)
  then show ?thesis
    using assms(3) by (simp add: same_policy_set_def rego_ident_def)
qed

text \<open>
  An engine of a key: built from its policy set, out of files that some directory tree among
  \<open>disks\<close> held, and perhaps warmed with queries on an empty input.
\<close>

inductive engine_of :: "('e, 'v) regorus \<Rightarrow> rego_files set \<Rightarrow> rego_key \<Rightarrow> 'e \<Rightarrow> bool" for g disks key where
  built: "files \<in> disks \<Longrightarrow> build_engine g files key = Inr engine \<Longrightarrow> engine_of g disks key engine"
| warmed: "engine_of g disks key engine \<Longrightarrow> warm_engine g timeout query engine = Inr engine'
    \<Longrightarrow> engine_of g disks key engine'"

text \<open>
  The states a shared cache passes through while the files change among \<open>disks\<close>: any thread may
  store an engine it built or warmed, clear the cache, or die under the lock, in any order.
\<close>

inductive rego_reachable :: "externals \<Rightarrow> ('e, 'v) regorus \<Rightarrow> rego_files set \<Rightarrow> 'e rego_cache \<Rightarrow> bool" for x g disks where
  Start: "rego_reachable x g disks \<lparr>rc_map = [], rc_poisoned = False\<rparr>"
| Put: "rego_reachable x g disks st \<Longrightarrow> honest_key x key \<Longrightarrow> engine_of g disks key engine
    \<Longrightarrow> rego_ident key' = rego_ident key \<Longrightarrow> rego_reachable x g disks (store_warmed runner key' engine st)"
| Clear: "rego_reachable x g disks st \<Longrightarrow> rego_reachable x g disks (clear_policy_cache runner st)"
| Poison: "rego_reachable x g disks st \<Longrightarrow> rego_reachable x g disks (st\<lparr>rc_poisoned := True\<rparr>)"

lemma rego_cache_inv:
  assumes "rego_reachable x g disks st" "map_of (rc_map st) ident = Some engine"
  shows "\<exists>key. rego_ident key = ident \<and> honest_key x key \<and> engine_of g disks key engine"
  using assms
proof (induction arbitrary: ident engine rule: rego_reachable.induct)
  case (Put st key stored key' runner)
  show ?case
  proof (cases "ident = rego_ident key' \<and> map_of (rc_map st) ident \<noteq> Some engine")
    case True
    then have "engine = stored"
      using Put.prems by (auto simp: store_warmed_def bt_insert_get split: if_splits)
    then show ?thesis
      using Put.hyps True by auto
  next
    case False
    then have "map_of (rc_map st) ident = Some engine"
      using Put.prems by (auto simp: store_warmed_def bt_insert_get split: if_splits)
    then show ?thesis
      by (rule Put.IH)
  qed
next
  case (Clear st runner)
  then show ?case
    by (auto simp: clear_policy_cache_def split: if_splits)
qed simp_all

text \<open>What a call gets from the cache, and what it leaves there.\<close>

lemma prepared_engine_origin:
  assumes "rego_reachable x g disks st" "files \<in> disks" "honest_key x key"
  shows "rego_reachable x g disks (snd (prepared_engine g files runner key st))"
    and "fst (prepared_engine g files runner key st) = Inr engine \<Longrightarrow>
      \<exists>key0. rego_ident key0 = rego_ident key \<and> honest_key x key0 \<and> engine_of g disks key0 engine"
    and "fst (prepared_engine g files runner key st) = Inr engine \<Longrightarrow> \<not> rr_policy_cache runner
      \<Longrightarrow> build_engine g files key = Inr engine"
proof -
  let ?hit = "if rc_poisoned st then None else map_of (rc_map st) (rego_ident key)"
  have stored: "rego_reachable x g disks (store_warmed runner key engine st)" if "build_engine g files key = Inr engine" for engine
    using assms that by (intro rego_reachable.Put [of x g disks st key]) (auto intro: engine_of.built)
  have "snd (prepared_engine g files runner key st) = store_warmed runner key engine st"
    if "rr_policy_cache runner" "?hit = None" "build_engine g files key = Inr engine" for engine
    using that by (auto simp: prepared_engine_def store_warmed_def has_key_def split: if_splits)
  moreover have "snd (prepared_engine g files runner key st) = st"
    if "\<not> rr_policy_cache runner \<or> ?hit \<noteq> None \<or> \<not> is_ok (build_engine g files key)"
    using that by (auto simp: prepared_engine_def is_ok_def split: option.splits sum.splits)
  ultimately show "rego_reachable x g disks (snd (prepared_engine g files runner key st))"
    using stored assms(1) by (metis is_ok_iff)
  assume engine: "fst (prepared_engine g files runner key st) = Inr engine"
  then show "\<not> rr_policy_cache runner \<Longrightarrow> build_engine g files key = Inr engine"
    by (simp add: prepared_engine_def)
  from engine consider "build_engine g files key = Inr engine" | "map_of (rc_map st) (rego_ident key) = Some engine"
    by (auto simp: prepared_engine_def split: if_splits option.splits sum.splits)
  then show "\<exists>key0. rego_ident key0 = rego_ident key \<and> honest_key x key0 \<and> engine_of g disks key0 engine"
    using rego_cache_inv [OF assms(1)] assms(2,3) by cases (blast intro: engine_of.built)+
qed

lemma invocation_key_honest:
  assumes "rego_cache_key runner i = Inr key" "\<And>b. ri_inline_bundle i = Some b \<Longrightarrow> honest_bundle x b"
  shows "honest_key x key"
  using assms by (auto simp: rego_cache_key_def rbind_eq_Inr_iff honest_key_def split: option.splits)

lemma evaluate_reachable:
  assumes "rego_reachable x g disks st" "files \<in> disks" "\<And>b. ri_inline_bundle i = Some b \<Longrightarrow> honest_bundle x b"
  shows "rego_reachable x g disks (snd (runner_evaluate x g files runner elapsed dl i st))"
proof -
  have "rego_reachable x g disks (snd (prepared_engine g files runner key st))" if "rego_cache_key runner i = Inr key" for key
    by (rule prepared_engine_origin(1) [OF assms(1,2) invocation_key_honest [OF that assms(3)]])
  moreover have "snd (evaluate_work g files runner elapsed key i st) = snd (prepared_engine g files runner key st)" for key
    by (auto simp: evaluate_work_def run_bind_def split: prod.splits sum.splits)
  ultimately show ?thesis
    using assms(1) by (cases "reject_remote_bundle x i"; cases "rego_cache_key runner i"; cases dl)
      (auto simp: runner_evaluate_def run_bind_def)
qed

lemma warm_reachable:
  assumes "rego_reachable x g disks st" "files \<in> disks" "\<And>b. ri_inline_bundle i = Some b \<Longrightarrow> honest_bundle x b"
  shows "rego_reachable x g disks (snd (runner_warm x g files runner dl i st))"
proof -
  have loaded: "rego_reachable x g disks (snd (prepared_engine g files runner key st))" if "rego_cache_key runner i = Inr key" for key
    by (rule prepared_engine_origin(1) [OF assms(1,2) invocation_key_honest [OF that assms(3)]])
  have work: "rego_reachable x g disks (snd (warm_work g files runner key i st))" if key: "rego_cache_key runner i = Inr key" for key
  proof -
    obtain r st' where prepared: "prepared_engine g files runner key st = (r, st')"
      by fastforce
    show ?thesis
    proof (cases "\<exists>engine warmed. r = Inr engine \<and> warm_engine g (rr_eval_timeout runner) (ri_query i) engine = Inr warmed")
      case True
      then obtain engine warmed where engine: "r = Inr engine" "warm_engine g (rr_eval_timeout runner) (ri_query i) engine = Inr warmed"
        by blast
      obtain key0 where key0: "rego_ident key0 = rego_ident key" "honest_key x key0" "engine_of g disks key0 engine"
        using prepared_engine_origin(2) [OF assms(1,2) invocation_key_honest [OF key assms(3)], of runner engine] prepared engine(1)
        by auto
      have "snd (warm_work g files runner key i st) = store_warmed runner key warmed st'"
        using prepared engine by (simp add: warm_work_def run_bind_def run_effect_def)
      then show ?thesis
        using loaded [OF key] prepared key0 engine_of.warmed [OF key0(3) engine(2)]
        by (auto intro: rego_reachable.Put [of x g disks st' key0])
    next
      case False
      then have "snd (warm_work g files runner key i st) = st'"
        using prepared by (cases r) (auto simp: warm_work_def run_bind_def split: sum.splits)
      then show ?thesis
        using loaded [OF key] prepared by simp
    qed
  qed
  have "rego_reachable x g disks (warm_progress g files runner key i reached st)" if "rego_cache_key runner i = Inr key" for key reached
    using loaded [OF that] work [OF that] assms(1) by (cases reached) (simp_all add: warm_progress_def)
  then show ?thesis
    using work assms(1) by (cases "reject_remote_bundle x i"; cases "rego_cache_key runner i"; cases dl)
      (auto simp: runner_warm_def run_bind_def)
qed

section \<open>Decided values\<close>

lemma runner_evaluate_work:
  assumes "runner_evaluate x g files runner elapsed dl i st = (Inr j, st')"
  obtains key where "rego_cache_key runner i = Inr key" "reject_remote_bundle x i = Inr ()"
    "rr_hard_deadline runner \<longrightarrow> dl = InTime" "evaluate_work g files runner elapsed key i st = (Inr j, st')"
  using assms unfolding runner_evaluate_def run_bind_ok by (auto split: if_splits deadline.splits)

text \<open>
  C16: The in-process dispatcher returns only what the policy decided for this input, in time.
  Whatever calls, threads and changes of the files the cache has been through: where an
  evaluation returns a value, the invocation is a Rego invocation without a remote bundle, the
  call met its deadline, and an engine was given the invocation's own input and answered with
  a rule that is defined, or with one result of one expression.  That engine was built from
  the configured policy set: the same bundle path, data paths and settings, and modules and
  data that are the same unless theirs are a collision of SHA-256; without a cache it was built
  from the files as they are.  Nothing undefined and no second result is ever read as a
  verdict, and the cache stays within the states described.
\<close>

theorem rego_returns_decided_values:
  assumes "rego_reachable x g disks st" "files \<in> disks"
    and "\<forall>i b. invocation = RegoInvocation i \<and> ri_inline_bundle i = Some b \<longrightarrow> honest_bundle x b"
    and "regorus_evaluate x g files runner elapsed dl invocation st = (Inr j, st')"
  shows "\<exists>i key key0 engine fed. invocation = RegoInvocation i \<and> rego_cache_key runner i = Inr key
    \<and> invocation_bundle_url x i = Inr None
    \<and> (rr_hard_deadline runner \<longrightarrow> dl = InTime)
    \<and> engine_of g disks key0 engine \<and> same_policy_set x key0 key
    \<and> (\<not> rr_policy_cache runner \<longrightarrow> build_engine g files key = Inr engine)
    \<and> rg_set_input_json g (ri_canonical_input i)
        (rg_set_timer g (rr_eval_timeout runner) TIMER_CHECK_INTERVAL engine) = Inr fed
    \<and> answers g (ri_query i) fed j
    \<and> rego_reachable x g disks st'"
proof -
  obtain i where i: "invocation = RegoInvocation i"
    and run: "runner_evaluate x g files runner elapsed dl i st = (Inr j, st')"
    using assms(4) by (auto simp: regorus_evaluate_def split: prepared_invocation.splits)
  have honest: "honest_bundle x b" if "ri_inline_bundle i = Some b" for b
    using assms(3) i that by blast
  from run obtain key where key: "rego_cache_key runner i = Inr key" "reject_remote_bundle x i = Inr ()"
      "rr_hard_deadline runner \<longrightarrow> dl = InTime" "evaluate_work g files runner elapsed key i st = (Inr j, st')"
    by (rule runner_evaluate_work)
  then obtain engine where engine: "prepared_engine g files runner key st = (Inr engine, st')"
      "evaluate_engine g (rr_eval_timeout runner) elapsed (ri_query i) (ri_canonical_input i) engine = Inr j"
    by (auto simp: evaluate_work_def run_bind_ok)
  from engine(2) obtain fed where fed: "rg_set_input_json g (ri_canonical_input i)
      (rg_set_timer g (rr_eval_timeout runner) TIMER_CHECK_INTERVAL engine) = Inr fed" "answers g (ri_query i) fed j"
    by (rule evaluate_engine_answers)
  have key_honest: "honest_key x key"
    by (rule invocation_key_honest [OF key(1) honest])
  note origin = prepared_engine_origin [OF assms(1,2) key_honest, of runner]
  obtain key0 where key0: "rego_ident key0 = rego_ident key" "honest_key x key0" "engine_of g disks key0 engine"
    using origin(2) [of engine] engine(1) by auto
  have "same_policy_set x key0 key"
    by (rule ident_same [OF key0(2) key_honest key0(1)])
  moreover have "invocation_bundle_url x i = Inr None"
    using key(2) by (auto simp: reject_remote_bundle_def rbind_eq_Inr_iff split: if_splits)
  moreover have "\<not> rr_policy_cache runner \<longrightarrow> build_engine g files key = Inr engine"
    using origin(3) [of engine] engine(1) by simp
  moreover have "rego_reachable x g disks st'"
    using origin(1) engine(1) by simp
  ultimately show ?thesis
    using i key fed key0(3) by blast
qed

section \<open>A small engine\<close>

text \<open>An engine that records what was done to it, over plain JSON values; it answers a rule with
  the input it was given and knows no other query.\<close>

definition example_regorus :: "(string list, json) regorus" where
  "example_regorus = \<lparr>rg_new = [], rg_set_strict_builtin_errors = (\<lambda>_ e. e), rg_set_rego_v0 = (\<lambda>_ e. e),
     rg_set_gather_prints = (\<lambda>_ e. e), rg_add_failing_extension = (\<lambda>name _ _ e. Inr (e @ [name])),
     rg_add_policy = (\<lambda>name source e. Inr (e @ [name])), rg_add_data = (\<lambda>v e. Inr e),
     rg_from_json_str = (\<lambda>s. Inr (JString s)), rg_from_yaml_str = (\<lambda>s. Inr (JString s)),
     rg_to_value = Inr, rg_show = (\<lambda>j. ''{}''), rg_is_undefined = (\<lambda>v. v = JNull),
     rg_set_timer = (\<lambda>_ _ e. e), rg_set_input_json = (\<lambda>input e. Inr (input # e)),
     rg_eval_rule = (\<lambda>query e. (Inr (JString (hd e)), e)), rg_eval_query = (\<lambda>query e. (Inl ''no query'', e))\<rparr>"

text \<open>A directory with one policy file, and one whose entry is the directory itself.\<close>

definition example_rego_files :: rego_files where
  "example_rego_files = \<lparr>rf_metadata_is_dir = (\<lambda>p. Inr (p = ''/b'')), rf_is_dir = (\<lambda>p. False),
     rf_read_dir = (\<lambda>p. Inr [Inr ''q.rego'', Inr ''p.rego'']), rf_read_to_string = (\<lambda>p. Inr ''package p'')\<rparr>"

definition endless_rego_files :: rego_files where
  "endless_rego_files = example_rego_files\<lparr>rf_is_dir := \<lambda>_. True, rf_read_dir := \<lambda>_. Inr [Inr ''again'']\<rparr>"

definition example_rego_key :: rego_key where
  "example_rego_key = \<lparr>rk_bundle = Some ''/b'', rk_inline_bundle = None, rk_data_paths = [],
     rk_strict_builtin_errors = False, rk_rego_v0 = False\<rparr>"

definition example_rego_invocation :: rego_invocation where
  "example_rego_invocation = \<lparr>ri_query = ''data.p.verdict'', ri_bundle = Some ''/b'', ri_inline_bundle = None,
     ri_adapter_config = [], ri_input = JObject [], ri_canonical_input = ''{}''\<rparr>"

lemma example_build: "build_engine example_regorus example_rego_files example_rego_key
    = Inr [''http.send'', ''time.now_ns'', ''rand.intn'', ''uuid.rfc4122'', ''opa.runtime'', ''/b/p.rego'', ''/b/q.rego'']"
  by code_simp

theorem mounted_data_found_witness:
  "\<exists>k. rg_to_value example_regorus (mounted_json [''roles'', ''eu''] (JBool True)) = Inr k
    \<and> lookup_path [''roles'', ''eu''] k = Some (JBool True)"
proof -
  define w where "w = mounted_json [''roles'', ''eu''] (JBool True)"
  define g where "g = example_regorus\<lparr>rg_show := \<lambda>k. if k = w then ''w'' else [],
    rg_from_json_str := \<lambda>s. if s = ''w'' then Inr w else Inl []\<rparr>"
  have g: "rg_show g = (\<lambda>k. if k = w then ''w'' else [])" "rg_to_value g = Inr"
      "rg_from_json_str g = (\<lambda>s. if s = ''w'' then Inr w else Inl [])"
    by (simp_all add: g_def example_regorus_def)
  have mounted: "mount_data g (JBool True) [''roles'', ''eu''] = Inr w"
    by (simp add: mount_data_def g w_def)
  have reads_back: "rg_from_json_str g (rg_show g k) = Inr u \<Longrightarrow> rg_to_value g u = Inr k" for k u
    unfolding g by (simp split: if_splits)
  have "\<exists>k. rg_to_value g w = Inr k \<and> lookup_path [''roles'', ''eu''] k = Some (JBool True)"
    using mounted_data_found [OF mounted _ reads_back, of "JBool True"] by (simp only: g(2)) blast
  then show ?thesis
    unfolding g(2) w_def by (simp add: example_regorus_def)
qed

theorem bundle_load_order_free_witness:
  "build_engine example_regorus example_rego_files example_rego_key
    = build_engine example_regorus (example_rego_files\<lparr>rf_read_dir := \<lambda>_. Inr [Inr ''p.rego'', Inr ''q.rego'']\<rparr>) example_rego_key"
proof (rule bundle_load_order_free)
  have "same_entries (Inr [Inr ''q.rego'', Inr ''p.rego'']) (Inr [Inr ''p.rego'', Inr ''q.rego''])"
    unfolding same_entries_def prod.case sum.case
    by (intro exI [of _ "[''q.rego'', ''p.rego'']"] exI [of _ "[''p.rego'', ''q.rego'']"]) simp
  then show "same_files example_rego_files (example_rego_files\<lparr>rf_read_dir := \<lambda>_. Inr [Inr ''p.rego'', Inr ''q.rego'']\<rparr>)"
    by (simp add: same_files_def example_rego_files_def)
qed

theorem endless_bundle_refused_witness:
  "\<exists>e. load_directory example_regorus endless_rego_files ''/b'' ''bundle'' Bundle ''/b'' 0 ([], 0) = Inl e"
proof (rule endless_bundle_refused [of _ UNIV])
  show "\<exists>names n. rf_read_dir endless_rego_files d = Inr (map Inr names) \<and> n \<in> set names
      \<and> path_join d n \<in> UNIV \<and> rf_is_dir endless_rego_files (path_join d n)" for d
    by (intro exI [of _ "[''again'']"] exI [of _ "''again''"]) (simp add: endless_rego_files_def example_rego_files_def)
qed simp

theorem builtins_disabled_first_witness:
  "\<exists>e0. loaded example_regorus e0
    [''http.send'', ''time.now_ns'', ''rand.intn'', ''uuid.rfc4122'', ''opa.runtime'', ''/b/p.rego'', ''/b/q.rego'']"
  using builtins_disabled_first [OF example_build] by blast

text \<open>A call that is served from the cache.\<close>

definition example_cache :: "string list rego_cache" where
  "example_cache = \<lparr>rc_map = [(rego_ident example_rego_key,
     [''http.send'', ''time.now_ns'', ''rand.intn'', ''uuid.rfc4122'', ''opa.runtime'', ''/b/p.rego'', ''/b/q.rego''])],
     rc_poisoned = False\<rparr>"

lemma example_cache_reachable: "rego_reachable x example_regorus {example_rego_files} example_cache"
proof -
  let ?engine = "[''http.send'', ''time.now_ns'', ''rand.intn'', ''uuid.rfc4122'', ''opa.runtime'', ''/b/p.rego'', ''/b/q.rego'']"
  let ?runner = "rego_runner_new\<lparr>rr_policy_cache := True\<rparr>"
  have "engine_of example_regorus {example_rego_files} example_rego_key ?engine"
    by (rule engine_of.built [OF _ example_build]) simp
  then have "rego_reachable x example_regorus {example_rego_files}
      (store_warmed ?runner example_rego_key ?engine \<lparr>rc_map = [], rc_poisoned = False\<rparr>)"
    by (intro rego_reachable.Put [OF rego_reachable.Start]) (simp_all add: honest_key_def example_rego_key_def)
  then show ?thesis
    by (simp add: store_warmed_def example_cache_def REGO_MAX_CACHED_POLICY_SETS_def)
qed

theorem rego_returns_decided_values_witness:
  "\<exists>key0 engine fed. engine_of example_regorus {example_rego_files} key0 engine
    \<and> same_policy_set example_externals key0 example_rego_key
    \<and> answers example_regorus ''data.p.verdict'' fed (JString ''{}'')"
proof -
  let ?runner = "rego_runner_new\<lparr>rr_policy_cache := True\<rparr>"
  have key: "rego_cache_key ?runner example_rego_invocation = Inr example_rego_key"
    by code_simp
  have "regorus_evaluate example_externals example_regorus example_rego_files ?runner 0 InTime
      (RegoInvocation example_rego_invocation) example_cache = (Inr (JString ''{}''), example_cache)"
  proof -
    have "is_rule_path ''data.p.verdict''"
      by code_simp
    moreover have "invocation_bundle_url example_externals example_rego_invocation = Inr None"
      by (simp add: invocation_bundle_url_def rego_bundle_url_def example_rego_invocation_def)
    ultimately show ?thesis
      by (simp add: regorus_evaluate_def runner_evaluate_def key evaluate_work_def prepared_engine_def run_bind_def
          reject_remote_bundle_def evaluate_engine_def rule_value_def value_to_json_def example_cache_def example_regorus_def)
        (simp add: example_rego_invocation_def rego_runner_new_def)
  qed
  from rego_returns_decided_values [OF example_cache_reachable _ _ this] show ?thesis
    using key by (auto simp: example_rego_invocation_def)
qed

end
