(* ===== verification/Opa.thy ===== *)
theory Opa
  imports Rego Limits
begin

text \<open>
  The opt-in dispatcher that runs the \<open>opa\<close> command (\<open>opa.rs\<close>): the command line, staging of
  a fetched bundle and its bounded clean-up, the child process with its deadline, and the
  reading of its output.  The operating system is the record \<open>opa_outside\<close>; what a call does
  to it is a trace of actions.  The reader of the output is an argument: it is \<open>serde_json\<close>
  with a derived deserializer.  A path is its text, as everywhere, on a Unix host.
\<close>

section \<open>The operating system\<close>

record io_error =
  io_not_found :: bool
  io_raw_os_error :: "int option"
  io_show :: string

record exit_status =
  es_success :: bool
  es_show :: string

text \<open>A child: what writing to its input gives, what its two pipes are read to (no value where
  the reader panics), the answer to each poll, and how far each poll is late.\<close>

record opa_child =
  ch_stdin :: "(string \<Rightarrow> (string, unit) result) option"
  ch_stdout :: "(string, string) result option option"
  ch_stderr :: "(string, string) result option option"
  ch_try_wait :: "nat \<Rightarrow> (string, exit_status option) result"
  ch_late :: "nat \<Rightarrow> nat"

record opa_outside =
  oo_env :: "string \<Rightarrow> string option"
  oo_is_dir :: "string \<Rightarrow> bool"
  oo_fetch_body :: "string \<Rightarrow> (runtime_error, string) result"
  oo_deadline_ok :: bool
  oo_tempdir :: "(string, string) result"
  oo_create_new :: "string \<Rightarrow> (string, unit) result"
  oo_write_all :: "string \<Rightarrow> string \<Rightarrow> (string, unit) result"
  oo_remove_dir_all :: "nat \<Rightarrow> string \<Rightarrow> (io_error, unit) result"
  oo_spawn :: "string \<Rightarrow> string list \<Rightarrow> (io_error, opa_child) result"
  oo_version_status :: "string \<Rightarrow> (string, bool) result"
  oo_utf8_lossy :: "string \<Rightarrow> string"

datatype opa_action =
    Staged string
  | StageWritten string string
  | Spawned string "string list"
  | StdinWritten string
  | Polled nat
  | Slept nat
  | ChildKilled
  | ChildReaped
  | RemoveAttempt string
  | Warned string

type_synonym ('e, 'a) opa_run = "(opa_action list, 'e, 'a) stateful"

definition act :: "opa_action \<Rightarrow> ('e, unit) opa_run" where
  "act a = run_effect (\<lambda>t. t @ [a])"

section \<open>The runner\<close>

definition ERROR_OUTPUT_LIMIT :: nat where
  "ERROR_OUTPUT_LIMIT = 4096"

definition BUNDLE_CLEANUP_ATTEMPTS :: nat where
  "BUNDLE_CLEANUP_ATTEMPTS = 3"

definition BUNDLE_CLEANUP_RETRY_DELAY :: nat where
  "BUNDLE_CLEANUP_RETRY_DELAY = 50"

record opa_runner =
  or_executable :: string
  or_data_paths :: "string list"
  or_eval_timeout :: nat
  or_limits :: limits

definition opa_runner_new :: opa_runner where
  "opa_runner_new = \<lparr>or_executable = ''opa'', or_data_paths = [], or_eval_timeout = 5000, or_limits = default_limits\<rparr>"

definition with_executable :: "string \<Rightarrow> opa_runner \<Rightarrow> opa_runner" where
  "with_executable executable runner = runner\<lparr>or_executable := executable\<rparr>"

definition opa_with_eval_timeout :: "nat \<Rightarrow> opa_runner \<Rightarrow> opa_runner" where
  "opa_with_eval_timeout timeout runner = runner\<lparr>or_eval_timeout := timeout\<rparr>"

definition with_limits :: "limits \<Rightarrow> opa_runner \<Rightarrow> opa_runner" where
  "with_limits lim runner = runner\<lparr>or_limits := lim\<rparr>"

definition opa_with_data_path :: "string \<Rightarrow> opa_runner \<Rightarrow> opa_runner" where
  "opa_with_data_path path runner = runner\<lparr>or_data_paths := or_data_paths runner @ [path]\<rparr>"

definition opa_with_data_paths :: "string list \<Rightarrow> opa_runner \<Rightarrow> opa_runner" where
  "opa_with_data_paths paths runner = runner\<lparr>or_data_paths := or_data_paths runner @ paths\<rparr>"

definition resolve_opa_executable_hint :: "opa_outside \<Rightarrow> string \<Rightarrow> string" where
  "resolve_opa_executable_hint out hint = (if oo_is_dir out hint then path_join hint ''opa'' else hint)"

definition opa_runner_from_environment :: "opa_outside \<Rightarrow> opa_runner" where
  "opa_runner_from_environment out =
    (let runner = (case oo_env out ''ACS_OPA_PATH'' of
           Some v \<Rightarrow> if v \<noteq> [] then with_executable (resolve_opa_executable_hint out v) opa_runner_new else opa_runner_new
         | None \<Rightarrow> opa_runner_new) in
     case eval_timeout_from_environment (oo_env out) of
       Some timeout \<Rightarrow> opa_with_eval_timeout timeout runner
     | None \<Rightarrow> runner)"

definition opa_is_available :: "opa_outside \<Rightarrow> opa_runner \<Rightarrow> bool" where
  "opa_is_available out runner = (case oo_version_status out (or_executable runner) of
      Inr success \<Rightarrow> success
    | Inl _ \<Rightarrow> False)"

definition reject_in_memory_bundle :: "externals \<Rightarrow> rego_invocation \<Rightarrow> (runtime_error, unit) result" where
  "reject_in_memory_bundle x i =
    rbind (invocation_bundle_url x i) (\<lambda>_.
    if ri_inline_bundle i \<noteq> None then
      Inl (PolicyInvocationFailed (''this policy supplies Rego modules in memory, which the `opa` CLI dispatcher cannot ''
        @ ''evaluate because it passes policy to a subprocess as paths. Use the in-process Rego ''
        @ ''dispatcher, or stage the modules to a directory and point `bundle` at it''))
    else Inr ())"

section \<open>The command line\<close>

definition verbatim_prefix :: string where
  "verbatim_prefix = [CHR 0x5C, CHR 0x5C, CHR ''?'', CHR 0x5C]"

definition strip_windows_verbatim_prefix :: "string \<Rightarrow> string" where
  "strip_windows_verbatim_prefix path = (case strip_prefix path (verbatim_prefix @ ''UNC'' @ [CHR 0x5C]) of
      Some stripped \<Rightarrow> [CHR 0x5C, CHR 0x5C] @ stripped
    | None \<Rightarrow> (case strip_prefix path verbatim_prefix of
          Some stripped \<Rightarrow> stripped
        | None \<Rightarrow> path))"

definition opa_command_path_arg :: "string \<Rightarrow> string" where
  "opa_command_path_arg path = strip_windows_verbatim_prefix path"

definition opa_arguments :: "opa_runner \<Rightarrow> rego_invocation \<Rightarrow> string option \<Rightarrow> string list \<Rightarrow> string list" where
  "opa_arguments runner i staged adapter_data_paths =
    [''eval'', ''--format'', ''json'', ''--stdin-input'']
    @ (case ri_bundle i of Some bundle \<Rightarrow> [''--bundle'', opa_command_path_arg bundle] | None \<Rightarrow> [])
    @ (case staged of Some path \<Rightarrow> [''--bundle'', opa_command_path_arg path] | None \<Rightarrow> [])
    @ concat (map (\<lambda>p. [''--data'', opa_command_path_arg p]) (or_data_paths runner))
    @ concat (map (\<lambda>p. [''--data'', opa_command_path_arg p]) adapter_data_paths)
    @ [ri_query i]"

section \<open>Staging a fetched bundle\<close>

record staged_bundle =
  sb_directory :: string
  sb_cleanup_attempted :: bool

definition staged_path :: "staged_bundle \<Rightarrow> string" where
  "staged_path b = path_join (sb_directory b) ''bundle.tar.gz''"

definition cleanup_warning :: "string \<Rightarrow> nat \<Rightarrow> string \<Rightarrow> string" where
  "cleanup_warning directory attempt err =
    ''ACS warning: failed to remove staged OPA bundle directory '' @ quoted directory @ '' after ''
      @ nat_to_string attempt @ '' attempts: '' @ err @ ''. The policy result is unchanged; ''
      @ ''the host must reclaim this directory when it is no longer in use.''"

fun cleanup_attempts :: "(nat \<Rightarrow> string \<Rightarrow> (io_error, unit) result) \<Rightarrow> string \<Rightarrow> nat list \<Rightarrow> opa_action list \<Rightarrow> opa_action list" where
  "cleanup_attempts remove directory [] t = t"
| "cleanup_attempts remove directory (attempt # attempts) t =
    (let t = t @ [RemoveAttempt directory] in
     case remove attempt directory of
       Inr _ \<Rightarrow> t
     | Inl err \<Rightarrow>
         if io_not_found err then t
         else if attempt = BUNDLE_CLEANUP_ATTEMPTS then
           cleanup_attempts remove directory attempts (t @ [Warned (cleanup_warning directory attempt (io_show err))])
         else cleanup_attempts remove directory attempts (t @ [Slept BUNDLE_CLEANUP_RETRY_DELAY]))"

definition cleanup_bundle_directory :: "opa_outside \<Rightarrow> string \<Rightarrow> opa_action list \<Rightarrow> opa_action list" where
  "cleanup_bundle_directory out directory =
    cleanup_attempts (oo_remove_dir_all out) directory [1..<Suc BUNDLE_CLEANUP_ATTEMPTS]"

definition staged_cleanup :: "opa_outside \<Rightarrow> staged_bundle \<Rightarrow> opa_action list \<Rightarrow> staged_bundle \<times> opa_action list" where
  "staged_cleanup out b t =
    (if sb_cleanup_attempted b then (b, t)
     else (b\<lparr>sb_cleanup_attempted := True\<rparr>, cleanup_bundle_directory out (sb_directory b) t))"

definition staged_drop :: "opa_outside \<Rightarrow> staged_bundle \<Rightarrow> opa_action list \<Rightarrow> opa_action list" where
  "staged_drop out b t = snd (staged_cleanup out b t)"

definition staged_new :: "opa_outside \<Rightarrow> string \<Rightarrow> (runtime_error, staged_bundle) opa_run" where
  "staged_new out bytes = run_map_err (\<lambda>err. PolicyInvocationFailed
      (''failed to stage pinned OPA bundle in the temporary directory: '' @ err))
    (run_bind (run_lift (oo_tempdir out)) (\<lambda>directory.
     run_bind (act (Staged directory)) (\<lambda>_.
     let b = \<lparr>sb_directory = directory, sb_cleanup_attempted = False\<rparr> in
     inspect_err
       (run_bind (run_lift (oo_create_new out (staged_path b))) (\<lambda>_.
        run_bind (run_lift (oo_write_all out (staged_path b) bytes)) (\<lambda>_.
        run_bind (act (StageWritten (staged_path b) bytes)) (\<lambda>_.
        run_lift (Inr b)))))
       (\<lambda>_. staged_drop out b))))"

section \<open>The child process\<close>

record opa_output =
  out_status :: exit_status
  out_stdout :: string
  out_stderr :: string

text \<open>The polls are 10 ms apart or more: poll \<open>k\<close> happens \<open>10 * k + ch_late k\<close> ms after the first.\<close>

function wait_from :: "opa_child \<Rightarrow> nat \<Rightarrow> nat \<Rightarrow> (string, exit_status) opa_run" where
  "wait_from child timeout k =
    run_bind (act (Polled k)) (\<lambda>_.
    run_bind (run_lift (ch_try_wait child k)) (\<lambda>polled.
    case polled of
      Some status \<Rightarrow> run_lift (Inr status)
    | None \<Rightarrow>
        if 10 * k + ch_late child k \<ge> timeout then
          run_bind (act ChildKilled) (\<lambda>_.
          run_bind (act ChildReaped) (\<lambda>_.
          run_lift (Inl (''OPA eval exceeded timeout of '' @ nat_to_string timeout @ '' ms''))))
        else run_bind (act (Slept 10)) (\<lambda>_. wait_from child timeout (Suc k))))"
  by pat_completeness auto

termination
  by (relation "measure (\<lambda>(child, timeout, k). timeout - 10 * k)") auto

definition wait_for_exit_or_timeout :: "opa_child \<Rightarrow> nat \<Rightarrow> (string, exit_status) opa_run" where
  "wait_for_exit_or_timeout child timeout = wait_from child timeout 0"

definition join_reader :: "(string, string) result option \<Rightarrow> (string, string) result" where
  "join_reader reader = rbind (ok_or ''OPA output reader thread panicked'' reader) (\<lambda>r. r)"

definition wait_with_timeout :: "opa_child \<Rightarrow> nat \<Rightarrow> (string, opa_output) opa_run" where
  "wait_with_timeout child timeout =
    run_bind (run_lift (ok_or ''failed to open OPA stdout pipe'' (ch_stdout child))) (\<lambda>stdout_reader.
    run_bind (run_lift (ok_or ''failed to open OPA stderr pipe'' (ch_stderr child))) (\<lambda>stderr_reader.
    run_bind (wait_for_exit_or_timeout child timeout) (\<lambda>status.
    run_bind (run_lift (join_reader stdout_reader)) (\<lambda>stdout.
    run_bind (run_lift (join_reader stderr_reader)) (\<lambda>stderr.
    run_lift (Inr \<lparr>out_status = status, out_stdout = stdout, out_stderr = stderr\<rparr>))))))"

definition opa_spawn_error :: "opa_outside \<Rightarrow> string \<Rightarrow> io_error \<Rightarrow> runtime_error" where
  "opa_spawn_error out executable err =
    (if io_not_found err \<or> io_raw_os_error err = Some 2 then
       PolicyInvocationFailed (if (case oo_env out ''ACS_OPA_PATH'' of Some v \<Rightarrow> v \<noteq> [] | None \<Rightarrow> False)
         then ''default policy dispatcher could not execute OPA from $ACS_OPA_PATH: '' @ quoted executable
           @ ''; explicit OPA paths do not fall back to PATH''
         else ''OPA executable '' @ quoted executable
           @ '' was not found; install OPA or configure OpaRegoRunner::with_executable(...)'')
     else PolicyInvocationFailed (''failed to start OPA executable '' @ quoted executable @ '': '' @ io_show err))"

definition write_stdin :: "opa_child \<Rightarrow> string \<Rightarrow> (runtime_error, unit) opa_run" where
  "write_stdin child input = (case ch_stdin child of
      Some write \<Rightarrow> (case write input of
          Inr _ \<Rightarrow> act (StdinWritten input)
        | Inl err \<Rightarrow> run_bind (act ChildReaped) (\<lambda>_.
            run_lift (Inl (PolicyInvocationFailed (''failed to write OPA stdin input: '' @ err)))))
    | None \<Rightarrow> run_bind (act ChildReaped) (\<lambda>_.
        run_lift (Inl (PolicyInvocationFailed ''failed to open OPA stdin input pipe''))))"

text \<open>Until the child has its input; an error here returns early and drops what was staged.\<close>

definition opa_start ::
  "opa_outside \<Rightarrow> opa_runner \<Rightarrow> rego_invocation \<Rightarrow> string option \<Rightarrow> string list \<Rightarrow> (runtime_error, opa_child) opa_run"
where
  "opa_start out runner i staged adapter_data_paths =
    (let arguments = opa_arguments runner i staged adapter_data_paths in
     run_bind (run_lift (map_err (opa_spawn_error out (or_executable runner))
       (oo_spawn out (or_executable runner) arguments))) (\<lambda>child.
     run_bind (act (Spawned (or_executable runner) arguments)) (\<lambda>_.
     run_bind (write_stdin child (ri_canonical_input i)) (\<lambda>_.
     run_lift (Inr child)))))"

definition opa_finish :: "opa_runner \<Rightarrow> opa_child \<Rightarrow> (runtime_error, opa_output) opa_run" where
  "opa_finish runner child = run_map_err (\<lambda>err. PolicyInvocationFailed (''failed to read OPA output: '' @ err))
     (wait_with_timeout child (or_eval_timeout runner))"

definition stage_remote ::
  "externals \<Rightarrow> opa_outside \<Rightarrow> opa_runner \<Rightarrow> pinned_source option \<Rightarrow> (runtime_error, staged_bundle option) opa_run"
where
  "stage_remote x out runner remote = (case remote of
      None \<Rightarrow> run_lift (Inr None)
    | Some source \<Rightarrow>
        run_bind (run_lift (map_err (\<lambda>err. PolicyInvocationFailed (detail err))
          (fetch_pinned_https_bytes x (oo_fetch_body out) (oo_deadline_ok out)
            (manifest_url_timeout_ms (or_limits runner)) source))) (\<lambda>bytes.
        run_bind (staged_new out bytes) (\<lambda>b. run_lift (Inr (Some b)))))"

definition drop_remote :: "opa_outside \<Rightarrow> staged_bundle option \<Rightarrow> opa_action list \<Rightarrow> opa_action list" where
  "drop_remote out remote t = (case remote of Some b \<Rightarrow> staged_drop out b t | None \<Rightarrow> t)"

definition run_opa_eval ::
  "externals \<Rightarrow> opa_outside \<Rightarrow> opa_runner \<Rightarrow> rego_invocation \<Rightarrow> (runtime_error, opa_output) opa_run"
where
  "run_opa_eval x out runner i =
    run_bind (run_lift (rego_adapter_data_paths (ri_adapter_config i))) (\<lambda>adapter_data_paths.
    run_bind (run_lift (invocation_bundle_url x i)) (\<lambda>source.
    run_bind (stage_remote x out runner source) (\<lambda>remote t.
    case opa_start out runner i (map_option staged_path remote) adapter_data_paths t of
      (Inl e, t) \<Rightarrow> (Inl e, drop_remote out remote t)
    | (Inr child, t) \<Rightarrow>
        let (r, t) = opa_finish runner child t;
            (remote, t) = (case remote of
                Some b \<Rightarrow> (let (b, t) = staged_cleanup out b t in (Some b, t))
              | None \<Rightarrow> (None, t))
        in (r, drop_remote out remote t))))"

section \<open>Reading the output\<close>

record opa_eval_error =
  oe_code :: "string option"
  oe_message :: string

record opa_eval_response =
  oer_result :: "json list list"
  oer_errors :: "opa_eval_error list"

definition format_opa_errors :: "opa_eval_error list \<Rightarrow> string" where
  "format_opa_errors errors = join ''; '' (map (\<lambda>e. case oe_code e of
      Some code \<Rightarrow> code @ '': '' @ oe_message e
    | None \<Rightarrow> oe_message e) errors)"

definition parse_opa_eval_output ::
  "(string \<Rightarrow> (string, opa_eval_response) result) \<Rightarrow> string \<Rightarrow> (runtime_error, json) result"
where
  "parse_opa_eval_output decode stdout =
    rbind (map_err (\<lambda>err. PolicyInvocationFailed (''failed to parse OPA JSON output: '' @ err)) (decode stdout)) (\<lambda>response.
    if oer_errors response \<noteq> [] then
      Inl (PolicyInvocationFailed (''OPA returned errors: '' @ format_opa_errors (oer_errors response)))
    else case oer_result response of
      [] \<Rightarrow> Inl (PolicyInvocationFailed ''OPA query returned no result'')
    | [expressions] \<Rightarrow> (case expressions of
          [v] \<Rightarrow> Inr v
        | [] \<Rightarrow> Inl (PolicyInvocationFailed ''OPA query returned a result with no expression value'')
        | _ \<Rightarrow> Inl (PolicyInvocationFailed (''OPA query returned multiple expression values; ''
            @ ''policy query must resolve to one verdict'')))
    | _ \<Rightarrow> Inl (PolicyInvocationFailed (''OPA query returned multiple results; ''
        @ ''policy query must resolve to one verdict'')))"

definition ellipsis :: string where
  "ellipsis = [char_of (226 :: nat), char_of (128 :: nat), char_of (166 :: nat)]"

definition opa_truncate :: "string \<Rightarrow> string" where
  "opa_truncate s =
    (let truncated = concat (take ERROR_OUTPUT_LIMIT (chars s)) in
     if drop ERROR_OUTPUT_LIMIT (chars s) \<noteq> [] then truncated @ ellipsis else truncated)"

definition process_error_output :: "opa_outside \<Rightarrow> opa_output \<Rightarrow> string" where
  "process_error_output out p =
    (let stderr = trim (oo_utf8_lossy out (out_stderr p));
         shown = (if stderr = [] then trim (oo_utf8_lossy out (out_stdout p)) else stderr) in
     if shown = [] then ''OPA produced no error output'' else opa_truncate shown)"

section \<open>The dispatcher\<close>

definition opa_runner_evaluate ::
  "externals \<Rightarrow> opa_outside \<Rightarrow> (string \<Rightarrow> (string, opa_eval_response) result) \<Rightarrow> opa_runner \<Rightarrow> rego_invocation
    \<Rightarrow> (runtime_error, json) opa_run"
where
  "opa_runner_evaluate x out decode runner i =
    run_bind (run_lift (reject_in_memory_bundle x i)) (\<lambda>_.
    run_bind (run_opa_eval x out runner i) (\<lambda>finished.
    if \<not> es_success (out_status finished) then
      run_lift (Inl (PolicyInvocationFailed (''opa eval failed with '' @ es_show (out_status finished) @ '': ''
        @ process_error_output out finished)))
    else run_lift (parse_opa_eval_output decode (out_stdout finished))))"

definition opa_evaluate ::
  "externals \<Rightarrow> opa_outside \<Rightarrow> (string \<Rightarrow> (string, opa_eval_response) result) \<Rightarrow> opa_runner \<Rightarrow> prepared_invocation
    \<Rightarrow> (runtime_error, json) opa_run"
where
  "opa_evaluate x out decode runner invocation = (case invocation of
      RegoInvocation i \<Rightarrow> opa_runner_evaluate x out decode runner i
    | _ \<Rightarrow> run_lift (Inl (PolicyInvocationFailed (''OPA policy dispatcher only supports Rego invocations; received ''
        @ invocation_engine_type invocation @ '' invocation''))))"

end
