(* ===== verification/Opa_Laws.thy ===== *)
theory Opa_Laws
  imports Opa Run_Spec
begin

text \<open>
  What the \<open>opa\<close> dispatcher does to its host and when it returns a value: polling ends and
  reaps the child, a staged bundle stays until the command is over or waiting for it broke and
  is then given up in at most three attempts, and a value is what one successful run of the
  command answered.
\<close>

section \<open>Polling\<close>

declare wait_from.simps [simp del]

definition waited :: "nat \<Rightarrow> nat \<Rightarrow> opa_action list" where
  "waited j k = concat (map (\<lambda>j. [Polled j, Slept 10]) [j..<k])"

lemma waited_step: "j < k \<Longrightarrow> waited j k = [Polled j, Slept 10] @ waited (Suc j) k"
  by (simp add: waited_def upt_conv_Cons)

definition last_poll :: "opa_child \<Rightarrow> nat \<Rightarrow> nat \<Rightarrow> (string, exit_status) result \<times> opa_action list" where
  "last_poll child timeout k = (case ch_try_wait child k of
      Inl err \<Rightarrow> (Inl err, [Polled k])
    | Inr (Some status) \<Rightarrow> (Inr status, [Polled k])
    | Inr None \<Rightarrow> (Inl (''OPA eval exceeded timeout of '' @ nat_to_string timeout @ '' ms''),
        [Polled k, ChildKilled, ChildReaped]))"

definition goes_on :: "opa_child \<Rightarrow> nat \<Rightarrow> nat \<Rightarrow> bool" where
  "goes_on child timeout k \<longleftrightarrow> ch_try_wait child k = Inr None \<and> 10 * k + ch_late child k < timeout"

lemma wait_from_stops:
  "\<not> goes_on child timeout k \<Longrightarrow>
    wait_from child timeout k t = (fst (last_poll child timeout k), t @ snd (last_poll child timeout k))"
  by (subst wait_from.simps)
    (auto simp: goes_on_def last_poll_def act_def run_effect_def run_bind_def split: sum.splits option.splits)

lemma wait_from_goes_on:
  "goes_on child timeout k \<Longrightarrow> wait_from child timeout k t = wait_from child timeout (Suc k) (t @ [Polled k, Slept 10])"
  by (subst wait_from.simps) (simp add: goes_on_def act_def run_effect_def run_bind_def)

lemma wait_from_unrolled:
  "\<exists>k\<ge>j. (\<forall>l\<in>{j..<k}. goes_on child timeout l) \<and> \<not> goes_on child timeout k
    \<and> wait_from child timeout j t = (fst (last_poll child timeout k), t @ waited j k @ snd (last_poll child timeout k))"
proof (induction "timeout - 10 * j" arbitrary: j t rule: less_induct)
  case less
  show ?case
  proof (cases "goes_on child timeout j")
    case False
    then show ?thesis
      by (intro exI [of _ j]) (simp add: wait_from_stops waited_def)
  next
    case True
    then have "timeout - 10 * Suc j < timeout - 10 * j"
      by (auto simp: goes_on_def)
    from less [OF this, of "t @ [Polled j, Slept 10]"] obtain k where k: "k \<ge> Suc j" "\<forall>l\<in>{Suc j..<k}. goes_on child timeout l"
        "\<not> goes_on child timeout k"
        "wait_from child timeout (Suc j) (t @ [Polled j, Slept 10])
          = (fst (last_poll child timeout k), (t @ [Polled j, Slept 10]) @ waited (Suc j) k @ snd (last_poll child timeout k))"
      by blast
    moreover have "\<forall>l\<in>{j..<k}. goes_on child timeout l"
    proof
      fix l
      assume "l \<in> {j..<k}"
      then show "goes_on child timeout l"
        using k(2) True by (cases "l = j") auto
    qed
    ultimately show ?thesis
      using wait_from_goes_on [OF True] by (intro exI [of _ k]) (simp add: waited_step)
  qed
qed

text \<open>
  C24: The wait for the command ends, and no child is left behind by the deadline.  The child is
  polled every ten milliseconds, at most once for every ten milliseconds of the timeout and
  once more; the wait ends with the first poll that finds it gone or fails, or with the first
  poll at or past the deadline, and exactly in that last case the child is killed and reaped.
\<close>

theorem opa_wait_ends:
  "\<exists>k. 10 * k < timeout + 10
    \<and> (\<forall>l<k. ch_try_wait child l = Inr None \<and> 10 * l + ch_late child l < timeout)
    \<and> wait_for_exit_or_timeout child timeout t = (case ch_try_wait child k of
        Inl err \<Rightarrow> (Inl err, t @ waited 0 k @ [Polled k])
      | Inr (Some status) \<Rightarrow> (Inr status, t @ waited 0 k @ [Polled k])
      | Inr None \<Rightarrow> (Inl (''OPA eval exceeded timeout of '' @ nat_to_string timeout @ '' ms''),
          t @ waited 0 k @ [Polled k, ChildKilled, ChildReaped]))
    \<and> (ch_try_wait child k = Inr None \<longrightarrow> 10 * k + ch_late child k \<ge> timeout)"
proof -
  obtain k where k: "\<forall>l\<in>{0..<k}. goes_on child timeout l" "\<not> goes_on child timeout k"
      "wait_for_exit_or_timeout child timeout t
        = (fst (last_poll child timeout k), t @ waited 0 k @ snd (last_poll child timeout k))"
    using wait_from_unrolled [of 0 child timeout t] unfolding wait_for_exit_or_timeout_def by blast
  have "10 * k < timeout + 10"
  proof (cases k)
    case (Suc l)
    then have "goes_on child timeout l"
      using k(1) by simp
    then show ?thesis
      by (simp add: goes_on_def Suc)
  qed simp
  moreover have "\<forall>l<k. ch_try_wait child l = Inr None \<and> 10 * l + ch_late child l < timeout"
    using k(1) by (simp add: goes_on_def)
  moreover have "ch_try_wait child k = Inr None \<longrightarrow> 10 * k + ch_late child k \<ge> timeout"
    using k(2) by (auto simp: goes_on_def)
  ultimately show ?thesis
    using k(3) by (intro exI [of _ k]) (auto simp: last_poll_def split: sum.splits option.splits)
qed

section \<open>Staged bundles\<close>

fun removal :: "opa_action \<Rightarrow> bool" where
  "removal (RemoveAttempt _) = True"
| "removal _ = False"

fun cleanup_action :: "string \<Rightarrow> opa_action \<Rightarrow> bool" where
  "cleanup_action directory (RemoveAttempt d) = (d = directory)"
| "cleanup_action directory (Slept _) = True"
| "cleanup_action directory (Warned _) = True"
| "cleanup_action directory _ = False"

fun working :: "opa_action \<Rightarrow> bool" where
  "working (RemoveAttempt _) = False"
| "working (Warned _) = False"
| "working (Staged _) = False"
| "working _ = True"

lemma cleanup_attempts_acts:
  "\<exists>acts. cleanup_attempts remove directory attempts t = t @ acts \<and> list_all (cleanup_action directory) acts
    \<and> length (filter removal acts) \<le> length attempts \<and> (attempts \<noteq> [] \<longrightarrow> filter removal acts \<noteq> [])"
proof (induction attempts arbitrary: t)
  case (Cons attempt attempts)
  let ?t = "t @ [RemoveAttempt directory]"
  consider "cleanup_attempts remove directory (attempt # attempts) t = ?t"
    | a where "cleanup_attempts remove directory (attempt # attempts) t = cleanup_attempts remove directory attempts (?t @ [a])"
        "cleanup_action directory a" "\<not> removal a"
  proof (cases "remove attempt directory")
    case (Inl err)
    show thesis
    proof (cases "io_not_found err")
      case True
      with Inl that(1) show thesis
        by (simp add: Let_def)
    next
      case False
      with Inl that(2) [of "if attempt = BUNDLE_CLEANUP_ATTEMPTS
          then Warned (cleanup_warning directory attempt (io_show err)) else Slept BUNDLE_CLEANUP_RETRY_DELAY"]
      show thesis
        by (simp add: Let_def split: if_splits)
    qed
  qed (use that(1) in \<open>simp add: Let_def\<close>)
  then show ?case
  proof cases
    case 2
    from Cons.IH [of "?t @ [a]"] obtain acts where "cleanup_attempts remove directory attempts (?t @ [a]) = (?t @ [a]) @ acts"
        "list_all (cleanup_action directory) acts" "length (filter removal acts) \<le> length attempts"
      by blast
    with 2 show ?thesis
      by (intro exI [of _ "RemoveAttempt directory # a # acts"]) simp
  qed (simp add: exI [of _ "[RemoveAttempt directory]"])
qed simp

lemma cleanup_acts:
  "\<exists>acts. cleanup_bundle_directory out directory t = t @ acts \<and> list_all (cleanup_action directory) acts
    \<and> length (filter removal acts) \<in> {1..BUNDLE_CLEANUP_ATTEMPTS}"
  using cleanup_attempts_acts [of "oo_remove_dir_all out" directory "[1..<Suc BUNDLE_CLEANUP_ATTEMPTS]" t]
  unfolding cleanup_bundle_directory_def
  by (auto simp: Suc_le_eq BUNDLE_CLEANUP_ATTEMPTS_def)

lemma act_emits [emits_intros]: "P a \<Longrightarrow> emits P (act a)"
  by (simp add: run_spec_def act_def run_effect_def)

lemma write_works: "emits working (write_stdin child input)"
proof (cases "ch_stdin child")
  case (Some send)
  show ?thesis
    unfolding write_stdin_def Some option.case by (cases "send input") (simp_all only: sum.case, (intro emits_intros, simp)+)
next
  case None
  show ?thesis
    unfolding write_stdin_def None option.case by (intro emits_intros) simp
qed

lemma start_works: "emits working (opa_start out runner i staged paths)"
  unfolding opa_start_def Let_def by (intro emits_intros write_works) simp

lemma wait_works: "emits working (wait_from child timeout k)"
proof (induction child timeout k rule: wait_from.induct)
  case (1 child timeout k)
  then show ?case
    by (subst wait_from.simps)
      (auto intro!: emits_intros simp del: run_lift_eq split: option.splits)
qed

lemma finish_works: "emits working (opa_finish runner child)"
  unfolding opa_finish_def wait_with_timeout_def wait_for_exit_or_timeout_def by (intro emits_intros wait_works)


text \<open>Staging: nothing, a written bundle, or an error after which nothing is left to use.\<close>

lemma stage_outcomes:
  assumes "stage_remote x out runner remote t = (r, t')"
  shows "r = Inr None \<and> t' = t
    \<or> (\<exists>d bytes. r = Inr (Some \<lparr>sb_directory = d, sb_cleanup_attempted = False\<rparr>)
        \<and> t' = t @ [Staged d, StageWritten (path_join d ''bundle.tar.gz'') bytes])
    \<or> (\<exists>e. r = Inl e \<and> (t' = t \<or> (\<exists>d. t' = cleanup_bundle_directory out d (t @ [Staged d]))))"
proof (cases remote)
  case None
  then show ?thesis
    using assms by (simp add: stage_remote_def)
next
  case (Some source)
  show ?thesis
  proof (cases "fetch_pinned_https_bytes x (oo_fetch_body out) (oo_deadline_ok out)
      (manifest_url_timeout_ms (or_limits runner)) source")
    case (Inl e)
    then show ?thesis
      using assms Some by (auto simp: stage_remote_def run_bind_def)
  next
    case (Inr bytes)
    then have "stage_remote x out runner remote t = run_bind (staged_new out bytes) (\<lambda>b. run_lift (Inr (Some b))) t"
      by (simp add: stage_remote_def Some run_bind_def)
    with assms show ?thesis
      by (auto simp: staged_new_def run_map_err_def run_bind_def inspect_err_def act_def run_effect_def Let_def
          staged_drop_def staged_cleanup_def staged_path_def split: sum.splits)
  qed
qed

text \<open>What happens once the bundle is staged: the command works, then the bundle is given up once.\<close>

lemma run_opa_eval_eq:
  "run_opa_eval x out runner i =
    run_bind (run_lift (rego_adapter_data_paths (ri_adapter_config i))) (\<lambda>paths.
    run_bind (run_lift (invocation_bundle_url x i)) (\<lambda>source.
    run_bind (stage_remote x out runner source) (\<lambda>remote t.
    case run_bind (opa_start out runner i (map_option staged_path remote) paths) (opa_finish runner) t of
      (r, t) \<Rightarrow> (r, drop_remote out remote t))))"
proof -
  have "(case opa_start out runner i (map_option staged_path remote) paths t of
      (Inl e, t) \<Rightarrow> (Inl e, drop_remote out remote t)
    | (Inr child, t) \<Rightarrow>
        let (r, t) = opa_finish runner child t;
            (remote, t) = (case remote of
                Some b \<Rightarrow> (let (b, t) = staged_cleanup out b t in (Some b, t))
              | None \<Rightarrow> (None, t))
        in (r, drop_remote out remote t))
    = (case run_bind (opa_start out runner i (map_option staged_path remote) paths) (opa_finish runner) t of
      (r, t) \<Rightarrow> (r, drop_remote out remote t))" for remote paths t
    by (cases remote) (auto simp: run_bind_def drop_remote_def staged_drop_def staged_cleanup_def Let_def
        split: prod.splits sum.splits)
  then show ?thesis
    unfolding run_opa_eval_def by simp
qed

text \<open>
  What is known of a started command after some actions: it is over when it was waited for or a
  poll found its exit status, and the wait for it broke when a pipe was missing or a poll failed.
\<close>

definition child_over :: "opa_child \<Rightarrow> opa_action list \<Rightarrow> bool" where
  "child_over child acts \<longleftrightarrow> ChildReaped \<in> set acts
    \<or> (\<exists>k status. Polled k \<in> set acts \<and> ch_try_wait child k = Inr (Some status))"

definition wait_broke :: "opa_child \<Rightarrow> opa_action list \<Rightarrow> bool" where
  "wait_broke child acts \<longleftrightarrow> ch_stdout child = None \<or> ch_stderr child = None
    \<or> (\<exists>k err. Polled k \<in> set acts \<and> ch_try_wait child k = Inl err)"

lemma finish_leaves:
  assumes "opa_finish runner child t = (r, t')"
  obtains acts where "t' = t @ acts" "list_all working acts" "child_over child acts \<or> isl r \<and> wait_broke child acts"
proof -
  from emitsD [OF finish_works assms] obtain acts where acts: "t' = t @ acts" "list_all working acts"
    by blast
  have "child_over child acts \<or> isl r \<and> wait_broke child acts"
  proof (cases "ch_stdout child = None \<or> ch_stderr child = None")
    case True
    then have "isl r"
      using assms by (cases "ch_stdout child")
        (auto simp: opa_finish_def run_map_err_def wait_with_timeout_def run_bind_def ok_or_def map_err_def split: sum.splits)
    with True show ?thesis
      by (auto simp: wait_broke_def)
  next
    case False
    then obtain stdout stderr where pipes: "ch_stdout child = Some stdout" "ch_stderr child = Some stderr"
      by auto
    obtain k where wait: "wait_for_exit_or_timeout child (or_eval_timeout runner) t
        = (fst (last_poll child (or_eval_timeout runner) k), t @ waited 0 k @ snd (last_poll child (or_eval_timeout runner) k))"
      using wait_from_unrolled [of 0 child "or_eval_timeout runner" t] unfolding wait_for_exit_or_timeout_def by blast
    have t': "t' = t @ waited 0 k @ snd (last_poll child (or_eval_timeout runner) k)"
        and r: "isl (fst (last_poll child (or_eval_timeout runner) k)) \<longrightarrow> isl r"
      using assms pipes wait
      by (auto simp: opa_finish_def run_map_err_def wait_with_timeout_def run_bind_def ok_or_def map_err_def
          split: sum.splits prod.splits)
    then show ?thesis
      using acts(1) by (auto simp: last_poll_def child_over_def wait_broke_def split: sum.splits option.splits)
  qed
  with acts that show ?thesis
    by blast
qed

text \<open>The command did not start, or it did and then was over or could not be waited for.\<close>

definition command_used ::
  "opa_outside \<Rightarrow> opa_runner \<Rightarrow> rego_invocation \<Rightarrow> string option \<Rightarrow> (runtime_error, opa_output) result \<Rightarrow> opa_action list \<Rightarrow> bool"
where
  "command_used out runner i staged r used \<longleftrightarrow> used = [] \<and> isl r
    \<or> (\<exists>paths child acts. used = Spawned (or_executable runner) (opa_arguments runner i staged paths) # acts
        \<and> oo_spawn out (or_executable runner) (opa_arguments runner i staged paths) = Inr child
        \<and> (child_over child acts \<or> isl r \<and> wait_broke child acts))"

lemma command_works:
  assumes "run_bind (opa_start out runner i staged paths) (opa_finish runner) t = (r, t')"
  obtains used where "t' = t @ used" "list_all working used" "command_used out runner i staged r used"
proof (cases "oo_spawn out (or_executable runner) (opa_arguments runner i staged paths)")
  case (Inl err)
  then show ?thesis
    using that [of "[]"] assms by (auto simp: opa_start_def Let_def run_bind_def command_used_def)
next
  case (Inr child)
  let ?spawned = "Spawned (or_executable runner) (opa_arguments runner i staged paths)"
  have started: "run_bind (opa_start out runner i staged paths) (opa_finish runner) t
      = run_bind (write_stdin child (ri_canonical_input i)) (\<lambda>_. opa_finish runner child) (t @ [?spawned])"
    by (auto simp: opa_start_def Let_def Inr run_bind_def act_def run_effect_def split: prod.splits sum.splits)
  have "\<exists>acts. t' = t @ ?spawned # acts \<and> list_all working acts \<and> (child_over child acts \<or> isl r \<and> wait_broke child acts)"
  proof (cases "\<exists>send. ch_stdin child = Some send \<and> send (ri_canonical_input i) = Inr ()")
    case True
    then have "opa_finish runner child (t @ [?spawned, StdinWritten (ri_canonical_input i)]) = (r, t')"
      using assms started by (auto simp: write_stdin_def run_bind_def act_def run_effect_def)
    then obtain acts where "t' = (t @ [?spawned, StdinWritten (ri_canonical_input i)]) @ acts" "list_all working acts"
        "child_over child acts \<or> isl r \<and> wait_broke child acts"
      by (rule finish_leaves)
    then show ?thesis
      by (intro exI [of _ "StdinWritten (ri_canonical_input i) # acts"]) (auto simp: child_over_def wait_broke_def)
  next
    case False
    then have "t' = t @ [?spawned, ChildReaped]"
      using assms started by (auto simp: write_stdin_def run_bind_def act_def run_effect_def split: option.splits sum.splits)
    then show ?thesis
      by (intro exI [of _ "[ChildReaped]"]) (simp add: child_over_def)
  qed
  then obtain acts where "t' = t @ ?spawned # acts" "list_all working acts" "child_over child acts \<or> isl r \<and> wait_broke child acts"
    by blast
  with Inr show ?thesis
    by (intro that [of "?spawned # acts"]) (auto simp: command_used_def)
qed

text \<open>
  A finished use of a bundle: staging failed, or the command could use the written bundle; then
  come the attempts to remove the directory.
\<close>

definition bundle_used ::
  "opa_outside \<Rightarrow> opa_runner \<Rightarrow> rego_invocation \<Rightarrow> (runtime_error, opa_output) result \<Rightarrow> string \<Rightarrow> opa_action list \<Rightarrow> bool"
where
  "bundle_used out runner i r d used \<longleftrightarrow> used = [] \<and> isl r
    \<or> (\<exists>bytes acts. used = StageWritten (path_join d ''bundle.tar.gz'') bytes # acts
        \<and> command_used out runner i (Some (path_join d ''bundle.tar.gz'')) r acts)"

definition given_up :: "string \<Rightarrow> opa_action list \<Rightarrow> bool" where
  "given_up d acts \<longleftrightarrow> list_all (cleanup_action d) acts \<and> length (filter removal acts) \<in> {1..BUNDLE_CLEANUP_ATTEMPTS}"

definition reclaimed ::
  "opa_outside \<Rightarrow> opa_runner \<Rightarrow> rego_invocation \<Rightarrow> (runtime_error, opa_output) result \<Rightarrow> opa_action list \<Rightarrow> bool"
where
  "reclaimed out runner i r t \<longleftrightarrow> (\<exists>d used rest. t = Staged d # used @ rest \<and> list_all working used
    \<and> bundle_used out runner i r d used \<and> given_up d rest)"

lemma reclaimed_drop:
  assumes "list_all working used" "bundle_used out runner i r d used"
  shows "reclaimed out runner i r (cleanup_bundle_directory out' d (Staged d # used))"
  using cleanup_acts [of out' d "Staged d # used"] assms by (auto simp: reclaimed_def given_up_def)

lemma run_reclaimed:
  assumes "run_opa_eval x out runner i [] = (r, t)"
  shows "list_all working t \<and> (isl r \<or> invocation_bundle_url x i = Inr None) \<or> reclaimed out runner i r t"
proof (cases "\<exists>paths source. rego_adapter_data_paths (ri_adapter_config i) = Inr paths \<and> invocation_bundle_url x i = Inr source")
  case False
  then show ?thesis
    using assms unfolding run_opa_eval_eq
    by (cases "rego_adapter_data_paths (ri_adapter_config i)"; cases "invocation_bundle_url x i") (auto simp: run_bind_def)
next
  case True
  then obtain paths source where args: "rego_adapter_data_paths (ri_adapter_config i) = Inr paths"
      "invocation_bundle_url x i = Inr source"
    by blast
  obtain r1 t1 where stage: "stage_remote x out runner source [] = (r1, t1)"
    by fastforce
  let ?command = "\<lambda>remote. run_bind (opa_start out runner i (map_option staged_path remote) paths) (opa_finish runner) t1"
  have run: "(case r1 of Inl e \<Rightarrow> (Inl e, t1)
      | Inr remote \<Rightarrow> (case ?command remote of (r, t) \<Rightarrow> (r, drop_remote out remote t))) = (r, t)"
    using assms by (simp add: run_opa_eval_eq args stage run_bind_def [of "run_lift _"] run_bind_def [of "stage_remote _ _ _ _"])
  show ?thesis
  proof (cases r1)
    case (Inl e)
    then have "t = [] \<or> (\<exists>d. t = cleanup_bundle_directory out d [Staged d])" "isl r"
      using run stage_outcomes [OF stage] by auto
    then show ?thesis
      using reclaimed_drop [of "[]"] by (auto simp: bundle_used_def)
  next
    case (Inr remote)
    obtain t2 where command: "?command remote = (r, t2)" and drop: "t = drop_remote out remote t2"
      using run Inr by (auto split: prod.splits)
    obtain used where used: "t2 = t1 @ used" "list_all working used"
        "command_used out runner i (map_option staged_path remote) r used"
      using command_works [OF command] .
    from Inr stage_outcomes [OF stage] consider "remote = None" "t1 = []"
      | d bytes where "remote = Some \<lparr>sb_directory = d, sb_cleanup_attempted = False\<rparr>"
          "t1 = [Staged d, StageWritten (path_join d ''bundle.tar.gz'') bytes]"
      by auto
    then show ?thesis
    proof cases
      case 1
      then have "source = None"
        using stage Inr by (cases source) (auto simp: stage_remote_def run_bind_ok)
      then show ?thesis
        using 1 used drop args(2) by (simp add: drop_remote_def)
    next
      case (2 d bytes)
      then have "t = cleanup_bundle_directory out d (Staged d # StageWritten (path_join d ''bundle.tar.gz'') bytes # used)"
        using drop used(1) by (simp add: drop_remote_def staged_drop_def staged_cleanup_def)
      moreover have "bundle_used out runner i r d (StageWritten (path_join d ''bundle.tar.gz'') bytes # used)"
        using used(3) 2(1) by (simp add: bundle_used_def staged_path_def)
      ultimately show ?thesis
        using used(2) reclaimed_drop [of "StageWritten (path_join d ''bundle.tar.gz'') bytes # used"] by simp
    qed
  qed
qed

lemma stage_without_remove:
  "fst (stage_remote x (out\<lparr>oo_remove_dir_all := remove\<rparr>) runner remote t) = fst (stage_remote x out runner remote t)
    \<and> (\<forall>b. fst (stage_remote x out runner remote t) = Inr b \<longrightarrow>
        snd (stage_remote x (out\<lparr>oo_remove_dir_all := remove\<rparr>) runner remote t) = snd (stage_remote x out runner remote t))"
  by (cases remote)
    (auto simp: stage_remote_def staged_new_def run_map_err_def run_bind_def inspect_err_def act_def run_effect_def
      Let_def split: sum.splits)

lemma start_without_remove:
  "opa_start (out\<lparr>oo_remove_dir_all := remove\<rparr>) runner i staged paths = opa_start out runner i staged paths"
  by (simp add: opa_start_def opa_spawn_error_def [abs_def])

text \<open>
  C23: A fetched bundle is given up after use, and that never changes the result.  Either nothing
  was staged and removed, which is so only where no bundle is to be fetched or the result is an
  error; or the trace begins with the staging of one directory, goes on with work that leaves
  it in place, and ends with one to three attempts to remove that directory and no other.
  Before the first attempt the bundle was written there, the command was started on it and is
  over (it was waited for, or a poll found its exit status); only where the result is an error
  may the staging or the start have failed, or may the wait for the command have broken (a
  pipe is missing, or a poll failed), in which case the command may still run.  The result is
  the same however the attempts turn out.
\<close>

theorem staged_bundle_reclaimed:
  assumes "run_opa_eval x out runner i [] = (r, t)"
  shows "(list_all working t \<and> (isl r \<or> invocation_bundle_url x i = Inr None)
      \<or> (\<exists>d used rest. t = Staged d # used @ rest \<and> list_all working used
          \<and> bundle_used out runner i r d used \<and> given_up d rest))
    \<and> (\<forall>remove. fst (run_opa_eval x (out\<lparr>oo_remove_dir_all := remove\<rparr>) runner i []) = r)"
proof -
  have "fst (run_opa_eval x (out\<lparr>oo_remove_dir_all := remove\<rparr>) runner i t) = fst (run_opa_eval x out runner i t)" for remove t
  proof (cases "rego_adapter_data_paths (ri_adapter_config i)"; cases "invocation_bundle_url x i")
    fix paths source
    assume "rego_adapter_data_paths (ri_adapter_config i) = Inr paths" "invocation_bundle_url x i = Inr source"
    then show ?thesis
      using stage_without_remove [of x remove out runner source t]
      by (cases "fst (stage_remote x out runner source t)")
        (simp_all add: run_opa_eval_eq run_bind_def [of "run_lift _"] run_bind_def [of "stage_remote _ _ _ _"]
          start_without_remove split_beta)
  qed (simp_all add: run_opa_eval_eq run_bind_def [of "run_lift _"])
  then show ?thesis
    using run_reclaimed [OF assms] assms by (simp add: reclaimed_def)
qed

section \<open>Results\<close>

lemma parsed_output:
  "parse_opa_eval_output decode stdout = Inr j \<longleftrightarrow> decode stdout = Inr \<lparr>oer_result = [[j]], oer_errors = []\<rparr>"
proof
  assume parsed: "parse_opa_eval_output decode stdout = Inr j"
  then obtain response where decoded: "decode stdout = Inr response"
    by (auto simp: parse_opa_eval_output_def rbind_eq_Inr_iff)
  with parsed have "oer_errors response = []" "oer_result response = [[j]]"
    by (auto simp: parse_opa_eval_output_def split: if_splits list.splits)
  then have "response = \<lparr>oer_result = [[j]], oer_errors = []\<rparr>"
    by simp
  with decoded show "decode stdout = Inr \<lparr>oer_result = [[j]], oer_errors = []\<rparr>"
    by simp
qed (simp add: parse_opa_eval_output_def)

lemma finish_ok:
  assumes "opa_finish runner child t = (Inr finished, t')"
  shows "\<exists>k stdout. ch_try_wait child k = Inr (Some (out_status finished))
    \<and> ch_stdout child = Some (Some (Inr stdout)) \<and> out_stdout finished = stdout"
proof -
  from assms obtain status stdout s s' where
      wait: "wait_for_exit_or_timeout child (or_eval_timeout runner) s = (Inr status, s')"
    and pipe: "ch_stdout child = Some (Some (Inr stdout))" "out_status finished = status" "out_stdout finished = stdout"
    by (auto simp: opa_finish_def run_map_err_ok wait_with_timeout_def run_bind_ok ok_or_def join_reader_def
        rbind_eq_Inr_iff split: option.splits)
  obtain k where "\<not> goes_on child (or_eval_timeout runner) k"
      "wait_from child (or_eval_timeout runner) 0 s
        = (fst (last_poll child (or_eval_timeout runner) k), s @ waited 0 k @ snd (last_poll child (or_eval_timeout runner) k))"
    using wait_from_unrolled by blast
  then have "ch_try_wait child k = Inr (Some status)"
    using wait by (auto simp: wait_for_exit_or_timeout_def last_poll_def split: sum.splits option.splits)
  with pipe show ?thesis
    by blast
qed

lemma start_ok:
  assumes "opa_start out runner i staged paths t = (Inr child, t')"
  shows "oo_spawn out (or_executable runner) (opa_arguments runner i staged paths) = Inr child
    \<and> t' = t @ [Spawned (or_executable runner) (opa_arguments runner i staged paths), StdinWritten (ri_canonical_input i)]"
  using assms
  by (auto simp: opa_start_def Let_def run_bind_ok write_stdin_def act_def run_effect_def run_bind_def
      split: option.splits sum.splits)

lemma drop_keeps:
  assumes "t = drop_remote out staged t3"
  shows "set t3 \<subseteq> set t"
proof (cases staged)
  case (Some b)
  obtain acts where "cleanup_bundle_directory out (sb_directory b) t3 = t3 @ acts"
    using cleanup_acts by blast
  then show ?thesis
    by (simp add: assms Some drop_remote_def staged_drop_def staged_cleanup_def)
qed (simp add: assms drop_remote_def)

lemma stage_ok:
  assumes "stage_remote x out runner remote t = (Inr staged, t')"
  shows "case remote of
      None \<Rightarrow> staged = None
    | Some source \<Rightarrow> \<exists>b bytes. staged = Some b \<and> pinned_digest x source = Inr (x_sha256 x bytes)
        \<and> StageWritten (staged_path b) bytes \<in> set t'"
proof (cases remote)
  case (Some source)
  with assms obtain bytes b where
      fetch: "fetch_pinned_https_bytes x (oo_fetch_body out) (oo_deadline_ok out)
        (manifest_url_timeout_ms (or_limits runner)) source = Inr bytes"
    and b: "staged_new out bytes t = (Inr b, t')" "staged = Some b"
    by (auto simp: stage_remote_def run_bind_ok)
  from b(1) have "StageWritten (staged_path b) bytes \<in> set t'"
    by (auto simp: staged_new_def run_map_err_ok run_bind_ok inspect_err_ok act_def run_effect_def Let_def)
  moreover have "pinned_digest x source = Inr (x_sha256 x bytes)"
    using fetch by (auto simp: fetch_pinned_https_bytes_def rbind_eq_Inr_iff split: if_splits)
  ultimately show ?thesis
    using Some b(2) by auto
qed (use assms in \<open>simp add: stage_remote_def\<close>)

text \<open>
  C22: The dispatcher returns only what one successful run of the command decided.  Where it
  returns a value, the policy supplied no modules in memory; the configured executable was
  started with exactly the computed arguments, over a fetched bundle only if its bytes have
  the pinned digest; it was given the invocation's own input on its standard input; it exited
  with success before the deadline; and what it printed has no errors and one result with
  one expression, which is the value.
\<close>

theorem opa_returns_decided_values:
  assumes "opa_evaluate x out decode runner invocation [] = (Inr j, t)"
  shows "\<exists>i paths source staged child k status stdout. invocation = RegoInvocation i \<and> ri_inline_bundle i = None
    \<and> rego_adapter_data_paths (ri_adapter_config i) = Inr paths
    \<and> invocation_bundle_url x i = Inr source
    \<and> (case source of
        None \<Rightarrow> staged = None
      | Some src \<Rightarrow> \<exists>b bytes. staged = Some b \<and> pinned_digest x src = Inr (x_sha256 x bytes)
          \<and> StageWritten (staged_path b) bytes \<in> set t)
    \<and> oo_spawn out (or_executable runner) (opa_arguments runner i (map_option staged_path staged) paths) = Inr child
    \<and> StdinWritten (ri_canonical_input i) \<in> set t
    \<and> ch_try_wait child k = Inr (Some status) \<and> es_success status
    \<and> ch_stdout child = Some (Some (Inr stdout))
    \<and> decode stdout = Inr \<lparr>oer_result = [[j]], oer_errors = []\<rparr>"
proof -
  obtain i where i: "invocation = RegoInvocation i" "opa_runner_evaluate x out decode runner i [] = (Inr j, t)"
    using assms by (auto simp: opa_evaluate_def split: prepared_invocation.splits)
  then obtain finished where memory: "reject_in_memory_bundle x i = Inr ()"
      and run: "run_opa_eval x out runner i [] = (Inr finished, t)"
      and status: "es_success (out_status finished)" "parse_opa_eval_output decode (out_stdout finished) = Inr j"
    by (auto simp: opa_runner_evaluate_def run_bind_ok split: if_splits)
  let ?command = "\<lambda>staged paths. run_bind (opa_start out runner i (map_option staged_path staged) paths) (opa_finish runner)"
  from run obtain paths source staged t1 where
      args: "rego_adapter_data_paths (ri_adapter_config i) = Inr paths" "invocation_bundle_url x i = Inr source"
      and stage: "stage_remote x out runner source [] = (Inr staged, t1)"
      and command: "(case ?command staged paths t1 of (r, t) \<Rightarrow> (r, drop_remote out staged t)) = (Inr finished, t)"
    unfolding run_opa_eval_eq run_bind_ok [of "run_lift _"] run_bind_ok [of "stage_remote _ _ _ _"] run_lift_eq by blast
  from command obtain t3 where "?command staged paths t1 = (Inr finished, t3)" and drop: "t = drop_remote out staged t3"
    by (cases "?command staged paths t1") auto
  then obtain child t2 where
      start: "opa_start out runner i (map_option staged_path staged) paths t1 = (Inr child, t2)"
      and finish: "opa_finish runner child t2 = (Inr finished, t3)"
    unfolding run_bind_ok by blast
  from start_ok [OF start] have spawn: "oo_spawn out (or_executable runner)
        (opa_arguments runner i (map_option staged_path staged) paths) = Inr child"
      "StdinWritten (ri_canonical_input i) \<in> set t2" "set t1 \<subseteq> set t2"
    by auto
  have "set t2 \<subseteq> set t3"
    using emitsD [OF finish_works finish] by auto
  moreover have "set t3 \<subseteq> set t"
    using drop by (rule drop_keeps)
  ultimately have kept: "set t2 \<subseteq> set t" "set t1 \<subseteq> set t"
    using spawn(3) by auto
  obtain k where "ch_try_wait child k = Inr (Some (out_status finished))"
      "ch_stdout child = Some (Some (Inr (out_stdout finished)))"
    using finish_ok [OF finish] by blast
  moreover have "ri_inline_bundle i = None"
    using memory by (auto simp: reject_in_memory_bundle_def rbind_eq_Inr_iff split: if_splits)
  moreover have "case source of None \<Rightarrow> staged = None
      | Some src \<Rightarrow> \<exists>b bytes. staged = Some b \<and> pinned_digest x src = Inr (x_sha256 x bytes)
          \<and> StageWritten (staged_path b) bytes \<in> set t"
    using stage_ok [OF stage] kept(2) by (auto split: option.splits)
  moreover have "StdinWritten (ri_canonical_input i) \<in> set t"
    using spawn(2) kept(1) by blast
  ultimately show ?thesis
    using i(1) args spawn(1) status(1) status(2) [unfolded parsed_output] by blast
qed

section \<open>A small host\<close>

text \<open>A command that prints one result and is gone at the second poll.\<close>

definition example_child :: opa_child where
  "example_child = \<lparr>ch_stdin = Some (\<lambda>_. Inr ()), ch_stdout = Some (Some (Inr ''out'')), ch_stderr = Some (Some (Inr [])),
     ch_try_wait = (\<lambda>k. Inr (if k = 0 then None else Some \<lparr>es_success = True, es_show = ''exit status: 0''\<rparr>)),
     ch_late = (\<lambda>_. 0)\<rparr>"

definition example_opa_outside :: opa_outside where
  "example_opa_outside = \<lparr>oo_env = (\<lambda>_. None), oo_is_dir = (\<lambda>_. False), oo_fetch_body = (\<lambda>_. Inr ''body''),
     oo_deadline_ok = True, oo_tempdir = Inr ''/tmp/b'', oo_create_new = (\<lambda>_. Inr ()), oo_write_all = (\<lambda>_ _. Inr ()),
     oo_remove_dir_all = (\<lambda>_ _. Inr ()), oo_spawn = (\<lambda>_ _. Inr example_child), oo_version_status = (\<lambda>_. Inr True),
     oo_utf8_lossy = (\<lambda>s. s)\<rparr>"

definition example_opa_invocation :: rego_invocation where
  "example_opa_invocation = \<lparr>ri_query = ''data.p.verdict'', ri_bundle = Some ''/b'', ri_inline_bundle = None,
     ri_adapter_config = [], ri_input = JObject [], ri_canonical_input = ''{}''\<rparr>"

lemma example_no_remote: "invocation_bundle_url x example_opa_invocation = Inr None"
  by (simp add: invocation_bundle_url_def rego_bundle_url_def example_opa_invocation_def)

lemma example_finish:
  "opa_finish opa_runner_new example_child t
    = (Inr \<lparr>out_status = \<lparr>es_success = True, es_show = ''exit status: 0''\<rparr>, out_stdout = ''out'', out_stderr = []\<rparr>,
       t @ [Polled 0, Slept 10, Polled 1])"
proof -
  have goes: "goes_on example_child 5000 0" "\<not> goes_on example_child 5000 1"
    by (simp_all add: goes_on_def example_child_def)
  have "wait_from example_child 5000 0 t
      = (Inr \<lparr>es_success = True, es_show = ''exit status: 0''\<rparr>, t @ [Polled 0, Slept 10, Polled 1])"
    using goes by (simp add: wait_from_goes_on wait_from_stops) (simp add: last_poll_def example_child_def)
  moreover have "ch_stdout example_child = Some (Some (Inr ''out''))" "ch_stderr example_child = Some (Some (Inr []))"
      "or_eval_timeout opa_runner_new = 5000"
    by (simp_all add: example_child_def opa_runner_new_def)
  ultimately show ?thesis
    by (simp add: opa_finish_def wait_with_timeout_def wait_for_exit_or_timeout_def run_bind_def
        run_map_err_def ok_or_def join_reader_def)
qed

lemma example_opa_run:
  "run_opa_eval x example_opa_outside opa_runner_new example_opa_invocation []
    = (Inr \<lparr>out_status = \<lparr>es_success = True, es_show = ''exit status: 0''\<rparr>, out_stdout = ''out'', out_stderr = []\<rparr>,
       [Spawned ''opa'' [''eval'', ''--format'', ''json'', ''--stdin-input'', ''--bundle'', ''/b'', ''data.p.verdict''],
        StdinWritten ''{}'', Polled 0, Slept 10, Polled 1])"
proof -
  have paths: "rego_adapter_data_paths (ri_adapter_config example_opa_invocation) = Inr []"
    by code_simp
  have arguments: "opa_arguments opa_runner_new example_opa_invocation None []
      = [''eval'', ''--format'', ''json'', ''--stdin-input'', ''--bundle'', ''/b'', ''data.p.verdict'']"
    by (simp add: opa_arguments_def opa_command_path_arg_def strip_windows_verbatim_prefix_def verbatim_prefix_def
        strip_prefix_def starts_with_def opa_runner_new_def example_opa_invocation_def)
  have child: "oo_spawn example_opa_outside e a = Inr example_child" "ch_stdin example_child = Some (\<lambda>_. Inr ())"
      "or_executable opa_runner_new = ''opa''"
      "ri_canonical_input example_opa_invocation = ''{}''" for e a
    by (simp_all add: example_opa_outside_def example_child_def opa_runner_new_def example_opa_invocation_def)
  have start: "opa_start example_opa_outside opa_runner_new example_opa_invocation None [] []
      = (Inr example_child, [Spawned ''opa'' [''eval'', ''--format'', ''json'', ''--stdin-input'', ''--bundle'', ''/b'',
          ''data.p.verdict''], StdinWritten ''{}''])"
    by (simp add: opa_start_def arguments child write_stdin_def run_bind_def act_def run_effect_def)
  show ?thesis
    by (simp add: run_opa_eval_eq paths example_no_remote stage_remote_def run_bind_def start example_finish drop_remote_def)
qed

text \<open>A policy whose bundle is fetched, on a host that never lets the directory be removed.\<close>

definition example_source :: pinned_source where
  "example_source = \<lparr>ps_url = ''https://h/p'', ps_integrity = None, ps_sha256 = Some (lower (replicate 32 (CHR 0xAB)))\<rparr>"

definition example_fetching :: externals where
  "example_fetching = example_externals\<lparr>x_pinned_from_value := \<lambda>_. Inr example_source\<rparr>"

definition example_fetched_invocation :: rego_invocation where
  "example_fetched_invocation = example_opa_invocation\<lparr>ri_bundle := None, ri_adapter_config := [(''bundle_url'', JNull)]\<rparr>"

definition example_stuck_outside :: opa_outside where
  "example_stuck_outside = example_opa_outside\<lparr>oo_remove_dir_all :=
     \<lambda>_ _. Inl \<lparr>io_not_found = False, io_raw_os_error = None, io_show = ''busy''\<rparr>\<rparr>"

lemma example_source_ok:
  "pinned_digest example_fetching example_source = Inr (replicate 32 (CHR 0xAB))"
  "pinned_validate example_fetching example_source = Inr ()"
proof -
  show digest: "pinned_digest example_fetching example_source = Inr (replicate 32 (CHR 0xAB))"
    by (simp add: pinned_digest_def example_source_def parse_sha256_hex_with_context_def trim_lower
        lower_length lower_hexdigits hex_pairs_lower)
  show "pinned_validate example_fetching example_source = Inr ()"
    unfolding pinned_validate_def digest
    by (simp add: validate_https_url_with_context_def
        validate_url_components_with_context_def example_fetching_def example_source_def example_externals_def starts_with_def)
qed

lemma example_fetched_run:
  "\<exists>finished used. run_opa_eval example_fetching example_stuck_outside opa_runner_new example_fetched_invocation []
    = (Inr finished, Staged ''/tmp/b'' # used
        @ [RemoveAttempt ''/tmp/b'', Slept 50, RemoveAttempt ''/tmp/b'', Slept 50, RemoveAttempt ''/tmp/b'',
           Warned (cleanup_warning ''/tmp/b'' 3 ''busy'')])"
proof -
  have paths: "rego_adapter_data_paths (ri_adapter_config example_fetched_invocation) = Inr []"
    by code_simp
  have x: "x_pinned_from_value example_fetching = (\<lambda>_. Inr example_source)"
    by (simp add: example_fetching_def)
  have remote: "invocation_bundle_url example_fetching example_fetched_invocation = Inr (Some example_source)"
    by (simp add: invocation_bundle_url_def rego_bundle_url_def pinned_from_value_def example_source_ok
        example_fetched_invocation_def example_opa_invocation_def x)
  have "fetch_pinned_https_bytes example_fetching (\<lambda>_. Inr ''body'') True 30000 example_source = Inr ''body''"
    by (simp add: fetch_pinned_https_bytes_def example_source_ok) (simp add: example_fetching_def example_externals_def)
  then have stage: "stage_remote example_fetching example_stuck_outside opa_runner_new (Some example_source) []
      = (Inr (Some \<lparr>sb_directory = ''/tmp/b'', sb_cleanup_attempted = False\<rparr>),
          [Staged ''/tmp/b'', StageWritten (path_join ''/tmp/b'' ''bundle.tar.gz'') ''body''])"
    by (simp add: stage_remote_def staged_new_def staged_path_def run_bind_def run_map_err_def inspect_err_def act_def
        run_effect_def Let_def map_err_def example_stuck_outside_def example_opa_outside_def opa_runner_new_def default_limits_def)
  have start: "\<exists>spawned. opa_start example_stuck_outside opa_runner_new example_fetched_invocation staged [] t
      = (Inr example_child, t @ spawned)" for staged t
    by (simp add: opa_start_def example_stuck_outside_def example_opa_outside_def write_stdin_def example_child_def run_bind_def
        act_def run_effect_def)
  have drop: "drop_remote example_stuck_outside (Some \<lparr>sb_directory = ''/tmp/b'', sb_cleanup_attempted = False\<rparr>) t
      = t @ [RemoveAttempt ''/tmp/b'', Slept 50, RemoveAttempt ''/tmp/b'', Slept 50, RemoveAttempt ''/tmp/b'',
           Warned (cleanup_warning ''/tmp/b'' 3 ''busy'')]" for t
    by (simp add: drop_remote_def staged_drop_def staged_cleanup_def cleanup_bundle_directory_def example_stuck_outside_def
        BUNDLE_CLEANUP_ATTEMPTS_def BUNDLE_CLEANUP_RETRY_DELAY_def upt_rec numeral_eq_Suc)
  obtain spawned where "opa_start example_stuck_outside opa_runner_new example_fetched_invocation
      (Some (staged_path \<lparr>sb_directory = ''/tmp/b'', sb_cleanup_attempted = False\<rparr>)) []
      [Staged ''/tmp/b'', StageWritten (path_join ''/tmp/b'' ''bundle.tar.gz'') ''body'']
      = (Inr example_child, [Staged ''/tmp/b'', StageWritten (path_join ''/tmp/b'' ''bundle.tar.gz'') ''body''] @ spawned)"
    using start by blast
  then show ?thesis
    by (simp add: run_opa_eval_eq paths remote stage run_bind_def example_finish drop)
qed

theorem staged_bundle_reclaimed_witness:
  "\<exists>finished used rest. run_opa_eval example_fetching example_stuck_outside opa_runner_new example_fetched_invocation []
      = (Inr finished, Staged ''/tmp/b'' # used @ rest)
    \<and> bundle_used example_stuck_outside opa_runner_new example_fetched_invocation (Inr finished) ''/tmp/b'' used
    \<and> given_up ''/tmp/b'' rest
    \<and> fst (run_opa_eval example_fetching example_opa_outside opa_runner_new example_fetched_invocation []) = Inr finished"
proof -
  obtain finished t where run: "run_opa_eval example_fetching example_stuck_outside opa_runner_new example_fetched_invocation []
      = (Inr finished, Staged ''/tmp/b'' # t)"
    using example_fetched_run by blast
  note shown = staged_bundle_reclaimed [OF run]
  then obtain used rest where "t = used @ rest" "given_up ''/tmp/b'' rest"
      "bundle_used example_stuck_outside opa_runner_new example_fetched_invocation (Inr finished) ''/tmp/b'' used"
    by auto
  moreover have "example_stuck_outside\<lparr>oo_remove_dir_all := \<lambda>_ _. Inr ()\<rparr> = example_opa_outside"
    by (simp add: example_stuck_outside_def example_opa_outside_def)
  then have "fst (run_opa_eval example_fetching example_opa_outside opa_runner_new example_fetched_invocation []) = Inr finished"
    using shown by metis
  ultimately show ?thesis
    using run by blast
qed

theorem opa_returns_decided_values_witness:
  "\<exists>stdout. (\<lambda>_ :: string. Inr \<lparr>oer_result = [[JBool True]], oer_errors = []\<rparr> :: (string, opa_eval_response) result) stdout
      = Inr \<lparr>oer_result = [[JBool True]], oer_errors = []\<rparr>
    \<and> (\<exists>child. ch_stdout child = Some (Some (Inr stdout)) \<and> oo_spawn example_opa_outside ''opa''
        [''eval'', ''--format'', ''json'', ''--stdin-input'', ''--bundle'', ''/b'', ''data.p.verdict''] = Inr child)"
proof -
  have "opa_evaluate example_externals example_opa_outside (\<lambda>_. Inr \<lparr>oer_result = [[JBool True]], oer_errors = []\<rparr>)
      opa_runner_new (RegoInvocation example_opa_invocation) [] = (Inr (JBool True),
       [Spawned ''opa'' [''eval'', ''--format'', ''json'', ''--stdin-input'', ''--bundle'', ''/b'', ''data.p.verdict''],
        StdinWritten ''{}'', Polled 0, Slept 10, Polled 1])"
    by (simp add: opa_evaluate_def opa_runner_evaluate_def run_bind_def example_opa_run reject_in_memory_bundle_def
        parse_opa_eval_output_def example_no_remote)
      (simp add: example_opa_invocation_def)
  from opa_returns_decided_values [OF this] show ?thesis
    by (auto simp: example_opa_outside_def)
qed

theorem opa_wait_ends_witness:
  "fst (wait_for_exit_or_timeout example_child 5000 []) = Inr \<lparr>es_success = True, es_show = ''exit status: 0''\<rparr>"
proof -
  from opa_wait_ends [of 5000 example_child "[]"] obtain k where
    "wait_for_exit_or_timeout example_child 5000 [] = (case ch_try_wait example_child k of
        Inl err \<Rightarrow> (Inl err, waited 0 k @ [Polled k])
      | Inr (Some status) \<Rightarrow> (Inr status, waited 0 k @ [Polled k])
      | Inr None \<Rightarrow> (Inl (''OPA eval exceeded timeout of '' @ nat_to_string 5000 @ '' ms''),
          waited 0 k @ [Polled k, ChildKilled, ChildReaped]))"
    "ch_try_wait example_child k = Inr None \<longrightarrow> 10 * k + ch_late example_child k \<ge> 5000"
    by (simp only: append_Nil) blast
  then show ?thesis
    by (cases "k = 0") (simp_all add: example_child_def)
qed

end
