(* ===== verification/Ffi_Boundary.thy ===== *)
theory Ffi_Boundary
  imports Unix_Paths Run_Monad
begin

text \<open>
  How a call crosses the C interface (\<open>sdk/ffi/src/lib.rs\<close>): arguments as the caller's memory,
  the error slot \<open>err_out\<close>, and the guard against panics.  A call is a computation over the
  error slot and whatever of the engine it works on; it fails with no value, its message is in
  the slot.  A returned pointer is a value, the null pointer is the failure.
\<close>

section \<open>Memory of the caller\<close>

text \<open>The slot: no value where the caller passed a null \<open>err_out\<close>, else the string it holds.\<close>

type_synonym err_out = "string option option"

text \<open>A pointer to a string is null or the caller's bytes; reading stops at the first NUL.\<close>

type_synonym c_pointer = "string option"

definition nul :: char where
  "nul = char_of (0 :: nat)"

definition c_str :: "string \<Rightarrow> string" where
  "c_str bytes = takeWhile (\<lambda>c. c \<noteq> nul) bytes"

definition replacement :: string where
  "replacement = [char_of (239 :: nat), char_of (191 :: nat), char_of (189 :: nat)]"

definition set_err :: "string \<Rightarrow> err_out \<Rightarrow> err_out" where
  "set_err message = map_option (\<lambda>_. Some (concat (map (\<lambda>c. if c = nul then replacement else [c]) message)))"

definition clear_err :: "err_out \<Rightarrow> err_out" where
  "clear_err = map_option (\<lambda>_. None)"

section \<open>Calls\<close>

type_synonym ('w, 'a) crossing = "(err_out \<times> 'w, unit, 'a) stateful"

definition refuse :: "string \<Rightarrow> ('w, 'a) crossing" where
  "refuse message t = (Inl (), (set_err message (fst t), snd t))"

definition report :: "('e \<Rightarrow> string) \<Rightarrow> ('e, 'a) result \<Rightarrow> ('w, 'a) crossing" where
  "report describe r = (case r of Inl e \<Rightarrow> refuse (describe e) | Inr v \<Rightarrow> run_lift (Inr v))"

text \<open>A computation of the engine on its own state.\<close>

definition engine :: "('e \<Rightarrow> string) \<Rightarrow> ('w, 'e, 'a) stateful \<Rightarrow> ('w, 'a) crossing" where
  "engine describe m t = (case m (snd t) of (r, w) \<Rightarrow> report describe r (fst t, w))"

text \<open>Whether a call runs to its end or unwinds from a panic, and what the panic leaves behind.\<close>

datatype 'w fate = Runs | Unwinds "'w \<Rightarrow> 'w"

definition guarded :: "string \<Rightarrow> 'w fate \<Rightarrow> ('w, 'a) crossing \<Rightarrow> ('w, 'a) crossing" where
  "guarded name fate body t = (case fate of
      Runs \<Rightarrow> body (clear_err (fst t), snd t)
    | Unwinds left \<Rightarrow> refuse (''internal panic in '' @ name) (clear_err (fst t), left (snd t)))"

section \<open>Arguments and results\<close>

definition read_utf8 :: "c_pointer \<Rightarrow> string \<Rightarrow> ('w, string) crossing" where
  "read_utf8 ptr what = (case ptr of
      None \<Rightarrow> refuse (what @ '' must not be null'')
    | Some bytes \<Rightarrow> report (\<lambda>_. what @ '' is not valid UTF-8'') (from_utf8 (c_str bytes)))"

definition read_optional :: "c_pointer \<Rightarrow> string \<Rightarrow> ('w, string option) crossing" where
  "read_optional ptr what = (case ptr of
      None \<Rightarrow> run_lift (Inr None)
    | Some _ \<Rightarrow> run_bind (read_utf8 ptr what) (\<lambda>v. run_lift (Inr (Some v))))"

text \<open>Bytes by pointer and length.\<close>

definition read_bytes :: "c_pointer \<Rightarrow> nat \<Rightarrow> string \<Rightarrow> ('w, string) crossing" where
  "read_bytes ptr len what =
    (if len = 0 then run_lift (Inr [])
     else case ptr of
       None \<Rightarrow> refuse (what @ '' must not be null'')
     | Some bytes \<Rightarrow> run_lift (Inr (take len bytes)))"

definition read_path :: "c_pointer \<Rightarrow> nat \<Rightarrow> ('w, string) crossing" where
  "read_path ptr len =
    run_bind (read_bytes ptr len ''path'') (\<lambda>bytes.
    run_bind (report (\<lambda>err. ''path is not valid UTF-8: '' @ err) (from_utf8 bytes)) (\<lambda>path.
    if nul \<in> set path then refuse ''path must not contain an interior NUL byte''
    else run_lift (Inr path)))"

definition to_c_string :: "string \<Rightarrow> ('w, string) crossing" where
  "to_c_string s t =
    (if nul \<in> set s then refuse ''output contained an interior NUL byte'' t
     else (Inr s, (clear_err (fst t), snd t)))"

definition handle_of :: "'h option \<Rightarrow> ('w, 'h) crossing" where
  "handle_of handle = (case handle of
      None \<Rightarrow> refuse ''handle must not be null''
    | Some h \<Rightarrow> run_lift (Inr h))"

section \<open>The contract\<close>

text \<open>
  What the interface promises of every call: a call that fails leaves a message in the slot,
  one that succeeds leaves the slot empty, and where the caller gave no slot nothing is
  written.  \<open>settles\<close> is the contract of a body, which starts on an empty slot.
\<close>

definition settled :: "err_out \<Rightarrow> (unit, 'a) result \<Rightarrow> err_out \<Rightarrow> bool" where
  "settled slot r slot' \<longleftrightarrow> (slot = None \<longleftrightarrow> slot' = None)
    \<and> (slot \<noteq> None \<longrightarrow> (case r of Inl _ \<Rightarrow> \<exists>message. slot' = Some (Some message) | Inr _ \<Rightarrow> slot' = Some None))"

definition settles :: "('w, 'a) crossing \<Rightarrow> bool" where
  "settles m \<longleftrightarrow> (\<forall>slot w. slot \<noteq> None \<longrightarrow> slot = Some None \<longrightarrow>
     settled slot (fst (m (slot, w))) (fst (snd (m (slot, w)))))
   \<and> (\<forall>w. fst (snd (m (None, w))) = None)"

named_theorems settles_intros \<open>which calls keep the contract of the error slot\<close>

lemma settlesI:
  assumes "\<And>w. settled (Some None) (fst (m (Some None, w))) (fst (snd (m (Some None, w))))"
    and "\<And>w. fst (snd (m (None, w))) = None"
  shows "settles m"
  using assms by (auto simp: settles_def)

lemma settlesD:
  assumes "settles m"
  shows "settled (Some None) (fst (m (Some None, w))) (fst (snd (m (Some None, w))))"
    and "fst (snd (m (None, w))) = None"
  using assms by (auto simp: settles_def)

lemma settles_refuse [settles_intros]: "settles (refuse message)"
  by (rule settlesI) (simp_all add: refuse_def settled_def set_err_def)

lemma settles_lift [settles_intros]: "settles (run_lift (Inr v))"
  by (rule settlesI) (simp_all add: settled_def)

lemma settles_report [settles_intros]: "settles (report describe r)"
  by (cases r) (simp_all add: report_def settles_refuse settles_lift del: run_lift_eq)

lemma settles_bind [settles_intros]:
  assumes "settles m" "\<And>v. settles (f v)"
  shows "settles (run_bind m f)"
proof (rule settlesI)
  fix w
  obtain r slot w' where m: "m (Some None, w) = (r, (slot, w'))"
    by (metis prod.exhaust)
  show "settled (Some None) (fst (run_bind m f (Some None, w))) (fst (snd (run_bind m f (Some None, w))))"
  proof (cases r)
    case (Inl e)
    then show ?thesis
      using settlesD(1) [OF assms(1), of w] m by (simp add: run_bind_def settled_def)
  next
    case (Inr v)
    then have "slot = Some None"
      using settlesD(1) [OF assms(1), of w] m by (simp add: settled_def)
    then show ?thesis
      using settlesD(1) [OF assms(2) [of v], of w'] m Inr by (simp add: run_bind_def)
  qed
next
  fix w
  obtain r slot w' where m: "m (None, w) = (r, (slot, w'))"
    by (metis prod.exhaust)
  then have "slot = None"
    using settlesD(2) [OF assms(1), of w] by simp
  then show "fst (snd (run_bind m f (None, w))) = None"
    using m settlesD(2) [OF assms(2)] by (cases r) (simp_all add: run_bind_def)
qed

lemma settles_engine [settles_intros]: "settles (engine describe m)"
  by (rule settlesI)
    (auto simp: engine_def report_def refuse_def settled_def set_err_def split: prod.splits sum.splits)

lemma settles_if [settles_intros]: "(b \<Longrightarrow> settles m) \<Longrightarrow> (\<not> b \<Longrightarrow> settles n) \<Longrightarrow> settles (if b then m else n)"
  by simp

lemma settles_case_option [settles_intros]:
  "settles m \<Longrightarrow> (\<And>v. settles (f v)) \<Longrightarrow> settles (case v of None \<Rightarrow> m | Some v \<Rightarrow> f v)"
  by (cases v) simp_all

lemma settles_read [settles_intros]:
  "settles (read_utf8 ptr what)" "settles (read_optional ptr what)" "settles (read_bytes ptr len what)"
  "settles (read_path ptr len)" "settles (handle_of h)"
  unfolding read_utf8_def read_optional_def read_bytes_def read_path_def handle_of_def
  by (intro settles_intros)+

lemma settles_to_c_string [settles_intros]: "settles (to_c_string s)"
  by (rule settlesI) (simp_all add: to_c_string_def refuse_def settled_def set_err_def clear_err_def)

text \<open>A guarded call keeps the contract whatever the slot held before, and a panic does not cross.\<close>

lemma guarded_settled:
  assumes "settles body" "guarded name fate body (slot, w) = (r, (slot', w'))"
  shows "settled slot r slot'"
proof (cases fate)
  case Runs
  then have body: "body (clear_err slot, w) = (r, (slot', w'))"
    using assms(2) by (simp add: guarded_def)
  show ?thesis
  proof (cases slot)
    case None
    then show ?thesis
      using body settlesD(2) [OF assms(1), of w] by (simp add: clear_err_def settled_def)
  next
    case (Some held)
    then show ?thesis
      using body settlesD(1) [OF assms(1), of w] by (simp add: clear_err_def settled_def)
  qed
next
  case (Unwinds left)
  then show ?thesis
    using assms(2) by (auto simp: guarded_def refuse_def settled_def set_err_def clear_err_def)
qed

end
