(* ===== verification/Ffi.thy ===== *)
theory Ffi
  imports Ffi_Boundary Wire Default_Dispatch
begin

text \<open>
  The entry points of the C interface for manifests, interceptors and activated policies
  (\<open>sdk/ffi/src/lib.rs\<close>).  A handle is the value it points to, null is no value; the caller's
  duty to free a handle once is outside the model.  The serializers that \<open>serde\<close> derives are
  the record \<open>ffi_serde\<close>.  Which panic unwinds a call is its argument \<open>fate\<close>.
\<close>

record ffi_serde =
  fs_from_str :: "string \<Rightarrow> (string, json) result"
  fs_to_string :: "json \<Rightarrow> (string, string) result"
  fs_strings :: "string \<Rightarrow> (string, string list) result"
  fs_bundles :: "string \<Rightarrow> (string, (string \<times> in_memory_bundle) list) result"
  fs_verdict :: "string \<Rightarrow> (string, verdict) result"
  fs_verdict_to_string :: "verdict \<Rightarrow> (string, string) result"
  fs_manifest_to_string :: "manifest \<Rightarrow> (string, string) result"

definition prefixed :: "string \<Rightarrow> string \<Rightarrow> string" where
  "prefixed what err = what @ '': '' @ err"

text \<open>A JSON object in a string argument.\<close>

definition read_object :: "ffi_serde \<Rightarrow> c_pointer \<Rightarrow> string \<Rightarrow> ('w, json_map) crossing" where
  "read_object serde ptr what =
    run_bind (read_utf8 ptr what) (\<lambda>raw.
    run_bind (report (prefixed (what @ '' does not parse'')) (fs_from_str serde raw)) (\<lambda>v.
    case as_object v of
      Some members \<Rightarrow> run_lift (Inr members)
    | None \<Rightarrow> refuse (what @ '' must be a JSON object'')))"

definition encoded :: "string \<Rightarrow> (string, string) result \<Rightarrow> ('w, string) crossing" where
  "encoded what r = run_bind (report (prefixed (what @ '' serialization failed'')) r) to_c_string"

section \<open>Validation\<close>

definition ACS_MANIFEST_VALID :: int where
  "ACS_MANIFEST_VALID = 0"

definition ACS_MANIFEST_INVALID :: int where
  "ACS_MANIFEST_INVALID = 1"

definition ACS_MANIFEST_CALL_FAILED :: int where
  "ACS_MANIFEST_CALL_FAILED = - 1"

definition read_manifest_limits :: "ffi_serde \<Rightarrow> c_pointer \<Rightarrow> ('w, limits) crossing" where
  "read_manifest_limits serde limits_arg = (case limits_arg of
      None \<Rightarrow> run_lift (Inr default_limits)
    | Some _ \<Rightarrow>
        run_bind (read_utf8 limits_arg ''limits_json'') (\<lambda>raw.
        run_bind (report (prefixed ''limits_json does not parse'') (fs_from_str serde raw)) (\<lambda>v.
        report show_error (limits_from_json v))))"

text \<open>A verdict on the document is returned; the message of a rejection is in the slot.\<close>

definition rejected :: "runtime_error \<Rightarrow> ('w, int) crossing" where
  "rejected e t = (Inr ACS_MANIFEST_INVALID, snd (refuse (show_error e) t :: (unit, int) result \<times> _))"

definition judged :: "(runtime_error, 'a) result \<Rightarrow> ('a \<Rightarrow> ('w, int) crossing) \<Rightarrow> ('w, int) crossing" where
  "judged r accept = (case r of
      Inr v \<Rightarrow> accept v
    | Inl (ManifestInvalid d) \<Rightarrow> rejected (ManifestInvalid d)
    | Inl other \<Rightarrow> refuse (show_error other))"

definition code_of :: "('w, int) crossing \<Rightarrow> err_out \<times> 'w \<Rightarrow> int \<times> (err_out \<times> 'w)" where
  "code_of m t = (case m t of (Inr code, t') \<Rightarrow> (code, t') | (Inl _, t') \<Rightarrow> (ACS_MANIFEST_CALL_FAILED, t'))"

definition acs_validate_manifest_with_limits ::
  "externals \<Rightarrow> environment \<Rightarrow> ffi_serde \<Rightarrow> 'w fate \<Rightarrow> c_pointer \<Rightarrow> nat \<Rightarrow> c_pointer
    \<Rightarrow> err_out \<times> 'w \<Rightarrow> int \<times> (err_out \<times> 'w)"
where
  "acs_validate_manifest_with_limits x env serde fate src source_len limits_arg =
    code_of (guarded ''acs_validate_manifest'' fate
      (run_bind (read_manifest_limits serde limits_arg) (\<lambda>lim.
       run_bind (read_bytes src source_len ''source'') (\<lambda>bytes.
       run_bind (report (prefixed ''source is not valid UTF-8'') (from_utf8 bytes)) (\<lambda>source_text.
       judged (parse_yaml_str_with_limits env source_text lim) (\<lambda>m.
       if m_extends m \<noteq> [] then
         refuse (''manifest extends other manifests; validation needs the merged document. ''
           @ ''Use acs_validate_manifest_file, which resolves the chain.'')
       else case manifest_validate x m of
         Inr _ \<Rightarrow> run_lift (Inr ACS_MANIFEST_VALID)
       | Inl e \<Rightarrow> rejected e))))))"

definition acs_validate_manifest ::
  "externals \<Rightarrow> environment \<Rightarrow> ffi_serde \<Rightarrow> 'w fate \<Rightarrow> c_pointer \<Rightarrow> nat
    \<Rightarrow> err_out \<times> 'w \<Rightarrow> int \<times> (err_out \<times> 'w)"
where
  "acs_validate_manifest x env serde fate src source_len =
    acs_validate_manifest_with_limits x env serde fate src source_len None"

definition acs_validate_manifest_file ::
  "externals \<Rightarrow> environment \<Rightarrow> 'w fate \<Rightarrow> c_pointer \<Rightarrow> nat \<Rightarrow> err_out \<times> 'w \<Rightarrow> int \<times> (err_out \<times> 'w)"
where
  "acs_validate_manifest_file x env fate path path_len =
    code_of (guarded ''acs_validate_manifest_file'' fate
      (run_bind (read_path path path_len) (\<lambda>path.
       judged (from_path_with_limits x env default_limits path) (\<lambda>_.
       run_lift (Inr ACS_MANIFEST_VALID)))))"

definition acs_supported_manifest_versions :: "ffi_serde \<Rightarrow> 'w fate \<Rightarrow> ('w, string) crossing" where
  "acs_supported_manifest_versions serde fate = guarded ''acs_supported_manifest_versions'' fate
    (run_bind (report (\<lambda>_. ''supported version list is not encodable'')
      (fs_to_string serde (JArray (map JString SUPPORTED)))) to_c_string)"

section \<open>Interceptors\<close>

text \<open>Which dispatchers a runtime was built with; a host's own are known by their context.\<close>

datatype annotator_slot = BundledAnnotators limits | HostAnnotators nat
datatype policy_slot = BindingPolicies limits | HostPolicies nat
datatype telemetry_slot = NoopTelemetry | HostTelemetry nat

record acs_interceptor =
  ai_runtime :: runtime
  ai_annotations :: annotator_slot
  ai_policy :: policy_slot
  ai_telemetry :: telemetry_slot
  ai_name :: string

definition build_interceptor :: "externals \<Rightarrow> environment \<Rightarrow> string \<Rightarrow> ('w, acs_interceptor) crossing" where
  "build_interceptor x env path =
    run_bind (report show_error (from_path_with_limits x env default_limits path)) (\<lambda>m.
    run_bind (report show_error (runtime_new x m)) (\<lambda>rt.
    run_lift (Inr \<lparr>ai_runtime = rt, ai_annotations = BundledAnnotators default_limits,
      ai_policy = BindingPolicies default_limits, ai_telemetry = NoopTelemetry, ai_name = ''acs''\<rparr>)))"

definition acs_interceptor_new ::
  "externals \<Rightarrow> environment \<Rightarrow> 'w fate \<Rightarrow> c_pointer \<Rightarrow> ('w, acs_interceptor) crossing"
where
  "acs_interceptor_new x env fate manifest_path = guarded ''acs_interceptor_new'' fate
    (run_bind (read_utf8 manifest_path ''manifest_path'') (build_interceptor x env))"

definition acs_interceptor_new_ex ::
  "externals \<Rightarrow> environment \<Rightarrow> 'w fate \<Rightarrow> c_pointer \<Rightarrow> nat \<Rightarrow> ('w, acs_interceptor) crossing"
where
  "acs_interceptor_new_ex x env fate manifest_path manifest_path_len = guarded ''acs_interceptor_new_ex'' fate
    (run_bind (read_path manifest_path manifest_path_len) (build_interceptor x env))"

text \<open>The new state of the handle; the caller sees only the error slot.\<close>

definition acs_interceptor_set_name :: "acs_interceptor option \<Rightarrow> c_pointer \<Rightarrow> ('w, acs_interceptor) crossing" where
  "acs_interceptor_set_name handle name = guarded ''acs_interceptor_set_name'' Runs
    (run_bind (handle_of handle) (\<lambda>h.
     run_bind (read_utf8 name ''name'') (\<lambda>n.
     run_lift (Inr (h\<lparr>ai_name := n\<rparr>)))))"

definition acs_interceptor_name :: "acs_interceptor option \<Rightarrow> ('w, string) crossing" where
  "acs_interceptor_name handle = guarded ''acs_interceptor_name'' Runs
    (run_bind (handle_of handle) (\<lambda>h. to_c_string (ai_name h)))"

text \<open>\<open>hosts\<close> gives the behaviour of the dispatchers a handle was built with.\<close>

definition verdict_of :: "(trace \<Rightarrow> evaluation_result \<times> trace) \<Rightarrow> (trace, verdict) crossing" where
  "verdict_of run t = (case run (snd t) of (res, trace) \<Rightarrow> (Inr (er_verdict res), (fst t, trace)))"

definition acs_intercept ::
  "externals \<Rightarrow> ffi_serde \<Rightarrow> (acs_interceptor \<Rightarrow> host) \<Rightarrow> trace fate \<Rightarrow> acs_interceptor option \<Rightarrow> c_pointer
    \<Rightarrow> (trace, string) crossing"
where
  "acs_intercept x serde hosts fate handle context_json = guarded ''acs_intercept'' fate
    (run_bind (handle_of handle) (\<lambda>h.
     run_bind (read_object serde context_json ''context_json'') (\<lambda>snapshot.
     run_bind (verdict_of (evaluate x (hosts h) (ai_runtime h) (JObject snapshot))) (\<lambda>v.
     encoded ''verdict'' (fs_verdict_to_string serde v)))))"

section \<open>Activated policies\<close>

definition acs_policy_activate ::
  "externals \<Rightarrow> environment \<Rightarrow> warmer \<Rightarrow> prepared_invocation list fate \<Rightarrow> c_pointer \<Rightarrow> nat
    \<Rightarrow> (prepared_invocation list, activated_policy) crossing"
where
  "acs_policy_activate x env warm fate manifest_path manifest_path_len = guarded ''acs_policy_activate'' fate
    (run_bind (read_path manifest_path manifest_path_len) (\<lambda>path.
     run_bind (report show_error (from_path_with_limits x env default_limits path)) (\<lambda>m.
     engine show_error (activate_with x warm m))))"

definition read_in_memory_bundles :: "ffi_serde \<Rightarrow> c_pointer \<Rightarrow> ('w, (string \<times> in_memory_bundle) list) crossing" where
  "read_in_memory_bundles serde bundles_json = (case bundles_json of
      None \<Rightarrow> run_lift (Inr [])
    | Some _ \<Rightarrow>
        run_bind (read_utf8 bundles_json ''bundles_json'') (\<lambda>raw.
        if is_blank raw then run_lift (Inr [])
        else report (prefixed ''bundles_json is not valid'') (fs_bundles serde raw)))"

definition acs_policy_activate_from_memory ::
  "externals \<Rightarrow> environment \<Rightarrow> ffi_serde \<Rightarrow> warmer \<Rightarrow> prepared_invocation list fate \<Rightarrow> c_pointer \<Rightarrow> c_pointer
    \<Rightarrow> (prepared_invocation list, activated_policy) crossing"
where
  "acs_policy_activate_from_memory x env serde warm fate manifest_yaml bundles_json =
    guarded ''acs_policy_activate_from_memory'' fate
    (run_bind (read_utf8 manifest_yaml ''manifest_yaml'') (\<lambda>yaml.
     run_bind (read_in_memory_bundles serde bundles_json) (\<lambda>bundles.
     engine show_error (activate_from_memory_with x env warm yaml bundles))))"

definition acs_policy_evaluate ::
  "externals \<Rightarrow> ffi_serde \<Rightarrow> host \<Rightarrow> trace fate \<Rightarrow> activated_policy option \<Rightarrow> c_pointer \<Rightarrow> c_pointer
    \<Rightarrow> (trace, string) crossing"
where
  "acs_policy_evaluate x serde h fate handle point context_json = guarded ''acs_policy_evaluate'' fate
    (run_bind (handle_of handle) (\<lambda>p.
     run_bind (read_utf8 point ''point'') (\<lambda>point_raw.
     run_bind (report (\<lambda>_ :: unit. ''unknown intervention point '' @ quoted point_raw)
       (ok_or () (ah_parse_point (x_hooks x) point_raw))) (\<lambda>point.
     run_bind (read_object serde context_json ''context_json'') (\<lambda>snapshot.
     run_bind (verdict_of (act_evaluate x h p point (JObject snapshot))) (\<lambda>v.
     encoded ''verdict'' (fs_verdict_to_string serde v)))))))"

definition acs_policy_intervention_points ::
  "ffi_serde \<Rightarrow> 'w fate \<Rightarrow> activated_policy option \<Rightarrow> ('w, string) crossing"
where
  "acs_policy_intervention_points serde fate handle = guarded ''acs_policy_intervention_points'' fate
    (run_bind (handle_of handle) (\<lambda>p.
     run_bind (report (prefixed ''serialization failed'')
       (fs_to_string serde (JArray (map (JString \<circ> point_as_str) (act_points p))))) to_c_string))"

section \<open>Manifest tooling\<close>

definition acs_manifest_parse_with_limits ::
  "externals \<Rightarrow> environment \<Rightarrow> ffi_serde \<Rightarrow> 'w fate \<Rightarrow> c_pointer \<Rightarrow> c_pointer \<Rightarrow> ('w, string) crossing"
where
  "acs_manifest_parse_with_limits x env serde fate yaml limits_arg = guarded ''acs_manifest_parse'' fate
    (run_bind (read_utf8 yaml ''yaml'') (\<lambda>source_text.
     run_bind (read_manifest_limits serde limits_arg) (\<lambda>lim.
     run_bind (report show_error (from_yaml_str_with_limits x env source_text lim)) (\<lambda>m.
     encoded ''manifest'' (fs_manifest_to_string serde m)))))"

definition acs_manifest_parse ::
  "externals \<Rightarrow> environment \<Rightarrow> ffi_serde \<Rightarrow> 'w fate \<Rightarrow> c_pointer \<Rightarrow> ('w, string) crossing"
where
  "acs_manifest_parse x env serde fate yaml = acs_manifest_parse_with_limits x env serde fate yaml None"

definition acs_manifest_merge_with_limits ::
  "externals \<Rightarrow> environment \<Rightarrow> ffi_serde \<Rightarrow> 'w fate \<Rightarrow> c_pointer \<Rightarrow> c_pointer \<Rightarrow> ('w, string) crossing"
where
  "acs_manifest_merge_with_limits x env serde fate yamls_json limits_arg = guarded ''acs_manifest_merge'' fate
    (run_bind (read_utf8 yamls_json ''yamls_json'') (\<lambda>raw.
     run_bind (report (prefixed ''yamls_json must be a JSON array of manifest sources'') (fs_strings serde raw)) (\<lambda>sources.
     if sources = [] then refuse ''yamls_json must name at least one source''
     else
       run_bind (read_manifest_limits serde limits_arg) (\<lambda>lim.
       run_bind (report show_error (from_yaml_chain_with_limits x env sources lim)) (\<lambda>m.
       encoded ''manifest'' (fs_manifest_to_string serde m))))))"

definition acs_manifest_merge ::
  "externals \<Rightarrow> environment \<Rightarrow> ffi_serde \<Rightarrow> 'w fate \<Rightarrow> c_pointer \<Rightarrow> ('w, string) crossing"
where
  "acs_manifest_merge x env serde fate yamls_json = acs_manifest_merge_with_limits x env serde fate yamls_json None"

definition encoded_findings :: "ffi_serde \<Rightarrow> runtime_error list \<Rightarrow> ('w, string) crossing" where
  "encoded_findings serde findings =
    encoded ''diagnostics'' (fs_to_string serde (JArray (map diagnostic_json findings)))"

text \<open>A rejection of the document is a finding, anything else a failed call.\<close>

definition document_finding :: "runtime_error \<Rightarrow> ('w, runtime_error list) crossing" where
  "document_finding e = (case e of
      ManifestInvalid _ \<Rightarrow> run_lift (Inr [e])
    | _ \<Rightarrow> refuse (show_error e))"

definition acs_manifest_diagnostics ::
  "externals \<Rightarrow> environment \<Rightarrow> ffi_serde \<Rightarrow> 'w fate \<Rightarrow> c_pointer \<Rightarrow> ('w, string) crossing"
where
  "acs_manifest_diagnostics x env serde fate yaml = guarded ''acs_manifest_diagnostics'' fate
    (run_bind (read_utf8 yaml ''yaml'') (\<lambda>source_text.
     run_bind (case from_yaml_str_with_limits x env source_text default_limits of
         Inr m \<Rightarrow> (case manifest_validate x m of Inr _ \<Rightarrow> run_lift (Inr []) | Inl e \<Rightarrow> document_finding e)
       | Inl e \<Rightarrow> document_finding e)
     (encoded_findings serde)))"

text \<open>The findings of an activation: none, or its error.\<close>

definition activation_findings :: "('w, runtime_error, 'a) stateful \<Rightarrow> ('w, runtime_error list) crossing" where
  "activation_findings m t = (case m (snd t) of
      (Inr _, w) \<Rightarrow> (Inr [], (fst t, w))
    | (Inl e, w) \<Rightarrow> (Inr [e], (fst t, w)))"

definition acs_artifact_diagnostics ::
  "externals \<Rightarrow> environment \<Rightarrow> ffi_serde \<Rightarrow> warmer \<Rightarrow> prepared_invocation list fate \<Rightarrow> c_pointer \<Rightarrow> c_pointer
    \<Rightarrow> (prepared_invocation list, string) crossing"
where
  "acs_artifact_diagnostics x env serde rego fate manifest_yaml bundles_json =
    guarded ''acs_artifact_diagnostics'' fate
    (run_bind (read_utf8 manifest_yaml ''manifest_yaml'') (\<lambda>source_text.
     run_bind (read_in_memory_bundles serde bundles_json) (\<lambda>bundles.
     run_bind (case from_yaml_str_with_limits x env source_text default_limits of
         Inl e \<Rightarrow> document_finding e
       | Inr m \<Rightarrow> (case manifest_validate x m of
             Inl e \<Rightarrow> run_lift (Inr [e])
           | Inr _ \<Rightarrow> activation_findings (activate_from_memory x env rego source_text bundles)))
     (encoded_findings serde))))"

end
