(* ===== verification/Ffi_Hooks.thy ===== *)
theory Ffi_Hooks
  imports Ffi
begin

text \<open>
  Dispatchers a host supplies over the C interface (\<open>sdk/ffi/src/lib.rs\<close>): what the callbacks
  are given, how their answers are read, and who frees the host's strings.  A string of the host
  is its pointer with the bytes there; a callback answers with a result and an error message,
  each possibly null, as a function of what happened before.
\<close>

type_synonym host_string = "nat \<times> string"

datatype hook_action =
    HookCalled "string list"
  | HostFreed nat
  | EventSent string

record host_hook =
  hk_free :: bool
  hk_answer :: "hook_action list \<Rightarrow> string list \<Rightarrow> host_string option \<times> host_string option"

record hook_serde =
  hs_annotator :: "annotator_invocation \<Rightarrow> (string, string) result"
  hs_value :: "json \<Rightarrow> (string, string) result"
  hs_invocation :: "prepared_invocation \<Rightarrow> (string, string) result"
  hs_from_str :: "string \<Rightarrow> (string, json) result"
  hs_lossy :: "string \<Rightarrow> string"

type_synonym 'a hooked = "(hook_action list, runtime_error, 'a) stateful"

section \<open>Strings of the host\<close>

definition hook_release :: "host_hook \<Rightarrow> host_string \<Rightarrow> hook_action list \<Rightarrow> hook_action list" where
  "hook_release hook raw t = (if hk_free hook then t @ [HostFreed (fst raw)] else t)"

definition hook_take :: "host_hook \<Rightarrow> string \<Rightarrow> host_string option \<Rightarrow> string option hooked" where
  "hook_take hook what raw = (case raw of
      None \<Rightarrow> run_lift (Inr None)
    | Some raw \<Rightarrow>
        run_bind (run_effect (hook_release hook raw)) (\<lambda>_.
        run_lift (map_err (\<lambda>_. PolicyInvocationFailed
            (''host '' @ what @ '' returned a string that is not valid UTF-8''))
          (rbind (from_utf8 (c_str (snd raw))) (\<lambda>s. Inr (Some s))))))"

definition hook_error :: "hook_serde \<Rightarrow> host_hook \<Rightarrow> string \<Rightarrow> host_string option \<Rightarrow> 'a hooked" where
  "hook_error serde hook what err = (case err of
      Some raw \<Rightarrow>
        run_bind (run_effect (hook_release hook raw)) (\<lambda>_.
        run_lift (Inl (PolicyInvocationFailed (''host '' @ what @ '' failed: '' @ hs_lossy serde (c_str (snd raw))))))
    | None \<Rightarrow> run_lift (Inl (PolicyInvocationFailed (''host '' @ what @ '' failed without a message''))))"

text \<open>\<open>CString::new\<close>.\<close>

definition c_string_new :: "string \<Rightarrow> string \<Rightarrow> (runtime_error, string) result" where
  "c_string_new what s = (if nul \<in> set s then Inl (PolicyInvocationFailed (what @ '' held a NUL'')) else Inr s)"

section \<open>Calling the host\<close>

definition call_hook :: "hook_serde \<Rightarrow> host_hook \<Rightarrow> string \<Rightarrow> string \<Rightarrow> string list \<Rightarrow> json hooked" where
  "call_hook serde hook what who arguments t =
    (let (raw, err) = hk_answer hook t arguments in
     run_bind (hook_take hook what raw) (\<lambda>taken. case taken of
         None \<Rightarrow> hook_error serde hook what err
       | Some json \<Rightarrow> run_lift (map_err (\<lambda>e. PolicyInvocationFailed
           (''host '' @ who @ '' returned non JSON: '' @ e)) (hs_from_str serde json)))
     (t @ [HookCalled arguments]))"

definition host_annotator_dispatch ::
  "hook_serde \<Rightarrow> host_hook \<Rightarrow> string \<Rightarrow> annotator_invocation \<Rightarrow> json \<Rightarrow> json hooked"
where
  "host_annotator_dispatch serde hook annotator_name annotator preliminary =
    run_bind (run_lift (c_string_new ''annotator name'' annotator_name)) (\<lambda>name.
    run_bind (run_lift (rbind (map_err (\<lambda>e. PolicyInvocationFailed (prefixed ''annotator invocation'' e))
      (hs_annotator serde annotator)) (c_string_new ''annotator invocation''))) (\<lambda>invocation.
    run_bind (run_lift (rbind (map_err (\<lambda>e. PolicyInvocationFailed (prefixed ''policy input'' e))
      (hs_value serde preliminary)) (c_string_new ''policy input''))) (\<lambda>input.
    call_hook serde hook ''annotator'' ''annotator'' [name, invocation, input])))"

definition host_policy_evaluate :: "hook_serde \<Rightarrow> host_hook \<Rightarrow> prepared_invocation \<Rightarrow> json hooked" where
  "host_policy_evaluate serde hook invocation =
    run_bind (run_lift (rbind (map_err (\<lambda>e. PolicyInvocationFailed (prefixed ''policy invocation'' e))
      (hs_invocation serde invocation)) (c_string_new ''policy invocation''))) (\<lambda>payload.
    call_hook serde hook ''policy dispatcher'' ''policy'' [payload])"

text \<open>A sink cannot fail an evaluation: an event that cannot be sent is dropped.\<close>

definition host_telemetry_emit ::
  "hook_serde \<Rightarrow> (decision \<Rightarrow> string) \<Rightarrow> telemetry_event \<Rightarrow> hook_action list \<Rightarrow> hook_action list"
where
  "host_telemetry_emit serde wire_decision event t = (case hs_value serde (telemetry_event_json wire_decision event) of
      Inl _ \<Rightarrow> t
    | Inr json \<Rightarrow> if nul \<in> set json then t else t @ [EventSent json])"

section \<open>Construction\<close>

definition read_hook_perf :: "c_pointer \<Rightarrow> ('w, perf_telemetry) crossing" where
  "read_hook_perf perf_telemetry =
    run_bind (read_optional perf_telemetry ''perf_telemetry'') (\<lambda>raw. case raw of
      Some level \<Rightarrow> report show_error (parse_perf_telemetry level)
    | None \<Rightarrow> run_lift (Inr Off))"

definition read_hook_limits :: "ffi_serde \<Rightarrow> c_pointer \<Rightarrow> ('w, limits) crossing" where
  "read_hook_limits serde limits_arg =
    run_bind (read_optional limits_arg ''limits_json'') (\<lambda>raw. case raw of
      Some text \<Rightarrow>
        if is_blank text then run_lift (Inr default_limits)
        else run_bind (report (prefixed ''limits_json does not parse'') (fs_from_str serde text)) (\<lambda>v.
          report show_error (limits_from_json v))
    | None \<Rightarrow> run_lift (Inr default_limits))"

definition acs_interceptor_new_with_hooks ::
  "externals \<Rightarrow> environment \<Rightarrow> ffi_serde \<Rightarrow> 'w fate \<Rightarrow> c_pointer \<Rightarrow> nat \<Rightarrow> nat option \<Rightarrow> nat option \<Rightarrow> nat option
    \<Rightarrow> c_pointer \<Rightarrow> c_pointer \<Rightarrow> ('w, acs_interceptor) crossing"
where
  "acs_interceptor_new_with_hooks x env serde fate manifest_path manifest_path_len annotator_ctx policy_ctx telemetry_ctx
      perf_telemetry limits_arg = guarded ''acs_interceptor_new_with_hooks'' fate
    (run_bind (read_path manifest_path manifest_path_len) (\<lambda>path.
     run_bind (read_hook_perf perf_telemetry) (\<lambda>perf.
     run_bind (read_hook_limits serde limits_arg) (\<lambda>lim.
     run_bind (report show_error (from_path_with_limits x env lim path)) (\<lambda>m.
     run_bind (report show_error (with_telemetry_perf_and_limits x m perf lim)) (\<lambda>rt.
     run_lift (Inr \<lparr>ai_runtime = rt,
       ai_annotations = (case annotator_ctx of Some ctx \<Rightarrow> HostAnnotators ctx | None \<Rightarrow> BundledAnnotators lim),
       ai_policy = (case policy_ctx of Some ctx \<Rightarrow> HostPolicies ctx | None \<Rightarrow> BindingPolicies lim),
       ai_telemetry = (case telemetry_ctx of Some ctx \<Rightarrow> HostTelemetry ctx | None \<Rightarrow> NoopTelemetry),
       ai_name = ''acs''\<rparr>)))))))"

end
