(* ===== verification/Ffi_Stream.thy ===== *)
theory Ffi_Stream
  imports Ffi Stream_Release
begin

text \<open>
  The entry points of the C interface for a mediated stream (\<open>sdk/ffi/src/lib.rs\<close>).  The state
  of a call is the handle: the session and whether its lock is poisoned.  A panic poisons the
  lock when it unwinds from under it, with the session as the panic left it.
\<close>

record acs_stream_session =
  ss_session :: session
  ss_poisoned :: bool

type_synonym 'a stream_crossing = "(acs_stream_session, 'a) crossing"

definition with_session :: "bool \<Rightarrow> (session \<Rightarrow> session \<times> (string, 'a) result) \<Rightarrow> 'a stream_crossing" where
  "with_session null body t =
    (if null then refuse ''handle must not be null'' t
     else if ss_poisoned (snd t) then refuse ''stream session lock is poisoned by an earlier panic'' t
     else case body (ss_session (snd t)) of (s, r) \<Rightarrow> report id r (fst t, (snd t)\<lparr>ss_session := s\<rparr>))"

text \<open>An operation of the engine, and a query that changes nothing.\<close>

definition driven :: "(session \<Rightarrow> session \<times> (stream_error, 'a) result) \<Rightarrow> session \<Rightarrow> session \<times> (string, 'a) result" where
  "driven op s = (case op s of (s', r) \<Rightarrow> (s', map_err show_stream_error r))"

definition asked :: "(session \<Rightarrow> 'a) \<Rightarrow> session \<Rightarrow> session \<times> (string, 'a) result" where
  "asked query s = (s, Inr (query s))"

text \<open>How a result is returned: \<open>-2\<close> for a failed query, \<open>-1\<close> for a failed command or an absent offset.\<close>

definition scalar_of :: "int stream_crossing \<Rightarrow> err_out \<times> acs_stream_session \<Rightarrow> int \<times> (err_out \<times> acs_stream_session)" where
  "scalar_of m t = (case m t of (Inr v, t') \<Rightarrow> (v, t') | (Inl _, t') \<Rightarrow> (- 2, t'))"

definition status_of :: "unit stream_crossing \<Rightarrow> err_out \<times> acs_stream_session \<Rightarrow> int \<times> (err_out \<times> acs_stream_session)" where
  "status_of m t = (case m t of (Inr _, t') \<Rightarrow> (0, t') | (Inl _, t') \<Rightarrow> (- 1, t'))"

definition offset_or_absent :: "32 word option \<Rightarrow> int" where
  "offset_or_absent r = (case r of Some n \<Rightarrow> uint n | None \<Rightarrow> - 1)"

definition wire_track :: "c_pointer \<Rightarrow> stream_track stream_crossing" where
  "wire_track ptr = run_bind (read_utf8 ptr ''track'') (\<lambda>raw. report show_stream_error (track_parse raw))"

definition wire_source :: "c_pointer \<Rightarrow> stream_source_type stream_crossing" where
  "wire_source ptr = run_bind (read_utf8 ptr ''source_type'') (\<lambda>raw. report show_stream_error (source_type_parse raw))"

definition wire_outcome :: "c_pointer \<Rightarrow> segment_outcome stream_crossing" where
  "wire_outcome ptr = run_bind (read_utf8 ptr ''outcome'') (\<lambda>raw. report show_stream_error (outcome_parse raw))"

section \<open>Opening\<close>

definition abi_offset :: "json_map \<Rightarrow> string \<Rightarrow> (string, 32 word) result" where
  "abi_offset members key = (case map_of members key of
      None \<Rightarrow> Inr 0
    | Some JNull \<Rightarrow> Inr 0
    | Some v \<Rightarrow> ok_or (key @ '' must be a rune offset within u32'')
        (Option.bind (as_u64 v) (\<lambda>n. if n < 2 ^ 32 then Some (word_of_nat n) else None)))"

definition abi_tasks :: "json_map \<Rightarrow> string \<Rightarrow> (string, string list) result" where
  "abi_tasks members key = (case map_of members key of
      None \<Rightarrow> Inr []
    | Some JNull \<Rightarrow> Inr []
    | Some (JArray items) \<Rightarrow>
        try_map (\<lambda>item. ok_or (key @ '' must contain only task name strings'') (as_str item)) items
    | Some _ \<Rightarrow> Inl (key @ '' must be an array of task names''))"

definition abi_config :: "json_map \<Rightarrow> (string, session_config) result" where
  "abi_config members =
    rbind (map_err show_stream_error (safety_level_parse
      (case Option.bind (map_of members ''safety_level'') as_str of Some s \<Rightarrow> s | None \<Rightarrow> ''blocking''))) (\<lambda>safety_level.
    rbind (abi_offset members ''request_start_rune_offset'') (\<lambda>request_start.
    rbind (abi_offset members ''response_start_rune_offset'') (\<lambda>response_start.
    rbind (abi_tasks members ''request_tasks'') (\<lambda>request_tasks.
    rbind (abi_tasks members ''response_tasks'') (\<lambda>response_tasks.
    Inr \<lparr>cfg_safety_level = safety_level, request_start_rune_offset = request_start,
      response_start_rune_offset = response_start, request_tasks = request_tasks,
      response_tasks = response_tasks\<rparr>)))))"

definition acs_stream_session_new :: "ffi_serde \<Rightarrow> 'w fate \<Rightarrow> c_pointer \<Rightarrow> ('w, acs_stream_session) crossing" where
  "acs_stream_session_new serde fate config_json = guarded ''acs_stream_session_new'' fate
    (run_bind (read_object serde config_json ''config_json'') (\<lambda>members.
     run_bind (report id (abi_config members)) (\<lambda>cfg.
     run_bind (report show_stream_error (session_new cfg)) (\<lambda>s.
     run_lift (Inr \<lparr>ss_session = s, ss_poisoned = False\<rparr>)))))"

section \<open>Commands\<close>

definition acs_stream_session_observe ::
  "acs_stream_session fate \<Rightarrow> bool \<Rightarrow> c_pointer \<Rightarrow> 32 word \<Rightarrow> int stream_crossing"
where
  "acs_stream_session_observe fate null source_type runes = guarded ''acs_stream_session_observe'' fate
    (run_bind (wire_source source_type) (\<lambda>src.
     run_bind (with_session null (driven (observe src runes))) (\<lambda>received. run_lift (Inr (uint received)))))"

definition acs_stream_session_observe_text ::
  "acs_stream_session fate \<Rightarrow> bool \<Rightarrow> c_pointer \<Rightarrow> c_pointer \<Rightarrow> int stream_crossing"
where
  "acs_stream_session_observe_text fate null source_type body = guarded ''acs_stream_session_observe_text'' fate
    (run_bind (wire_source source_type) (\<lambda>src.
     run_bind (read_utf8 body ''text'') (\<lambda>content.
     run_bind (with_session null (driven (observe_text src content))) (\<lambda>received. run_lift (Inr (uint received))))))"

definition acs_stream_session_record_outcome ::
  "acs_stream_session fate \<Rightarrow> bool \<Rightarrow> c_pointer \<Rightarrow> c_pointer \<Rightarrow> 32 word \<Rightarrow> 32 word \<Rightarrow> c_pointer \<Rightarrow> unit stream_crossing"
where
  "acs_stream_session_record_outcome fate null task source_type start stop outcome =
    guarded ''acs_stream_session_record_outcome'' fate
    (run_bind (read_utf8 task ''task'') (\<lambda>task_name.
     run_bind (wire_source source_type) (\<lambda>src.
     run_bind (wire_outcome outcome) (\<lambda>outcome.
     run_bind (report show_stream_error (span_new src start stop)) (\<lambda>span.
     with_session null (driven (record_outcome task_name span outcome)))))))"

definition acs_stream_session_record_verdict ::
  "agent_hooks \<Rightarrow> ffi_serde \<Rightarrow> acs_stream_session fate \<Rightarrow> bool \<Rightarrow> c_pointer \<Rightarrow> c_pointer \<Rightarrow> 32 word \<Rightarrow> 32 word
    \<Rightarrow> c_pointer \<Rightarrow> unit stream_crossing"
where
  "acs_stream_session_record_verdict ah serde fate null task source_type start stop verdict_json =
    guarded ''acs_stream_session_record_verdict'' fate
    (run_bind (read_utf8 task ''task'') (\<lambda>task_name.
     run_bind (wire_source source_type) (\<lambda>src.
     run_bind (read_utf8 verdict_json ''verdict_json'') (\<lambda>raw.
     run_bind (report (prefixed ''verdict_json does not parse'') (fs_verdict serde raw)) (\<lambda>v.
     run_bind (report show_stream_error (span_new src start stop)) (\<lambda>span.
     with_session null (driven (record_verdict ah task_name span v))))))))"

definition acs_stream_session_advance :: "acs_stream_session fate \<Rightarrow> bool \<Rightarrow> c_pointer \<Rightarrow> int stream_crossing" where
  "acs_stream_session_advance fate null track = guarded ''acs_stream_session_advance'' fate
    (run_bind (wire_track track) (\<lambda>track.
     with_session null (\<lambda>s. case session_advance track s of (s', r) \<Rightarrow> (s', Inr (offset_or_absent r)))))"

definition acs_stream_session_end_of_payloads :: "acs_stream_session fate \<Rightarrow> bool \<Rightarrow> unit stream_crossing" where
  "acs_stream_session_end_of_payloads fate null = guarded ''acs_stream_session_end_of_payloads'' fate
    (with_session null (\<lambda>s. (end_of_payloads s, Inr ())))"

definition acs_stream_session_finish :: "ffi_serde \<Rightarrow> acs_stream_session fate \<Rightarrow> bool \<Rightarrow> string stream_crossing" where
  "acs_stream_session_finish serde fate null = guarded ''acs_stream_session_finish'' fate
    (run_bind (with_session null (\<lambda>s. case finish s of (s', completion) \<Rightarrow> (s', Inr completion))) (\<lambda>completion.
     encoded ''completion'' (fs_to_string serde (completion_json completion))))"

section \<open>Queries\<close>

definition acs_stream_session_safe_offset :: "acs_stream_session fate \<Rightarrow> bool \<Rightarrow> c_pointer \<Rightarrow> int stream_crossing" where
  "acs_stream_session_safe_offset fate null track = guarded ''acs_stream_session_safe_offset'' fate
    (run_bind (wire_track track) (\<lambda>track.
     with_session null (asked (\<lambda>s. offset_or_absent (safe_offset track s)))))"

definition acs_stream_session_pending :: "acs_stream_session fate \<Rightarrow> bool \<Rightarrow> c_pointer \<Rightarrow> int stream_crossing" where
  "acs_stream_session_pending fate null track = guarded ''acs_stream_session_pending'' fate
    (run_bind (wire_track track) (\<lambda>track.
     with_session null (asked (\<lambda>s. uint (session_pending track s)))))"

definition acs_stream_session_watermark ::
  "ffi_serde \<Rightarrow> acs_stream_session fate \<Rightarrow> bool \<Rightarrow> c_pointer \<Rightarrow> string stream_crossing"
where
  "acs_stream_session_watermark serde fate null track = guarded ''acs_stream_session_watermark'' fate
    (run_bind (wire_track track) (\<lambda>track.
     run_bind (with_session null (asked (session_watermark track))) (\<lambda>w.
     encoded ''watermark'' (fs_to_string serde (watermark_json track w)))))"

definition acs_stream_session_state :: "ffi_serde \<Rightarrow> acs_stream_session fate \<Rightarrow> bool \<Rightarrow> string stream_crossing" where
  "acs_stream_session_state serde fate null = guarded ''acs_stream_session_state'' fate
    (run_bind (with_session null (asked stream_session_state_json)) (\<lambda>payload.
     encoded ''state'' (fs_to_string serde payload)))"

end
