(* ===== verification/Ffi_Stream_Laws.thy ===== *)
theory Ffi_Stream_Laws
  imports Ffi_Stream
begin

text \<open>
  A stream driven over the C interface.  The calls on a handle refine the calls of the engine:
  a call is one operation of the session or none, a panic leaves a handle that refuses every
  later call, and so what the interface lets a host emit is what the engine released.
\<close>

section \<open>The calls of a handle\<close>

datatype stream_call =
    CallObserve c_pointer "32 word"
  | CallObserveText c_pointer c_pointer
  | CallRecordOutcome c_pointer c_pointer "32 word" "32 word" c_pointer
  | CallRecordVerdict c_pointer c_pointer "32 word" "32 word" c_pointer
  | CallAdvance c_pointer
  | CallEndOfPayloads
  | CallFinish
  | CallSafeOffset c_pointer
  | CallPending c_pointer
  | CallWatermark c_pointer
  | CallState

text \<open>The state of the handle after a call.\<close>

fun abi_step ::
  "agent_hooks \<Rightarrow> ffi_serde \<Rightarrow> stream_call \<times> acs_stream_session fate \<Rightarrow> err_out \<times> acs_stream_session \<Rightarrow> err_out \<times> acs_stream_session"
where
  "abi_step ah serde (CallObserve src runes, fate) t = snd (acs_stream_session_observe fate False src runes t)"
| "abi_step ah serde (CallObserveText src body, fate) t = snd (acs_stream_session_observe_text fate False src body t)"
| "abi_step ah serde (CallRecordOutcome task src start stop arg, fate) t =
    snd (acs_stream_session_record_outcome fate False task src start stop arg t)"
| "abi_step ah serde (CallRecordVerdict task src start stop arg, fate) t =
    snd (acs_stream_session_record_verdict ah serde fate False task src start stop arg t)"
| "abi_step ah serde (CallAdvance track, fate) t = snd (acs_stream_session_advance fate False track t)"
| "abi_step ah serde (CallEndOfPayloads, fate) t = snd (acs_stream_session_end_of_payloads fate False t)"
| "abi_step ah serde (CallFinish, fate) t = snd (acs_stream_session_finish serde fate False t)"
| "abi_step ah serde (CallSafeOffset track, fate) t = snd (acs_stream_session_safe_offset fate False track t)"
| "abi_step ah serde (CallPending track, fate) t = snd (acs_stream_session_pending fate False track t)"
| "abi_step ah serde (CallWatermark track, fate) t = snd (acs_stream_session_watermark serde fate False track t)"
| "abi_step ah serde (CallState, fate) t = snd (acs_stream_session_state serde fate False t)"

text \<open>The operation a call stands for, where its arguments can be read.\<close>

definition c_arg :: "c_pointer \<Rightarrow> (string \<Rightarrow> ('e, 'a) result) \<Rightarrow> 'a option" where
  "c_arg ptr parse = Option.bind ptr (\<lambda>bytes. case from_utf8 (c_str bytes) of
      Inl _ \<Rightarrow> None
    | Inr raw \<Rightarrow> (case parse raw of Inl _ \<Rightarrow> None | Inr v \<Rightarrow> Some v))"

definition c_text :: "c_pointer \<Rightarrow> string option" where
  "c_text ptr = c_arg ptr (Inr :: string \<Rightarrow> (unit, string) result)"

definition c_span :: "stream_source_type \<Rightarrow> 32 word \<Rightarrow> 32 word \<Rightarrow> stream_span option" where
  "c_span src start stop = (case span_new src start stop of Inl _ \<Rightarrow> None | Inr span \<Rightarrow> Some span)"

fun intended :: "ffi_serde \<Rightarrow> stream_call \<Rightarrow> session_op option" where
  "intended serde (CallObserve src runes) = map_option (\<lambda>s. Observe s runes) (c_arg src source_type_parse)"
| "intended serde (CallObserveText src body) =
    Option.bind (c_arg src source_type_parse) (\<lambda>s. map_option (ObserveText s) (c_text body))"
| "intended serde (CallRecordOutcome task src start stop arg) =
    Option.bind (c_text task) (\<lambda>name.
    Option.bind (c_arg src source_type_parse) (\<lambda>s.
    Option.bind (c_arg arg outcome_parse) (\<lambda>outcome.
    map_option (\<lambda>span. RecordOutcome name span outcome) (c_span s start stop))))"
| "intended serde (CallRecordVerdict task src start stop arg) =
    Option.bind (c_text task) (\<lambda>name.
    Option.bind (c_arg src source_type_parse) (\<lambda>s.
    Option.bind (c_arg arg (fs_verdict serde)) (\<lambda>v.
    map_option (\<lambda>span. RecordVerdict name span v) (c_span s start stop))))"
| "intended serde (CallAdvance track) = map_option Advance (c_arg track track_parse)"
| "intended serde CallEndOfPayloads = Some EndOfPayloads"
| "intended serde CallFinish = Some Finish"
| "intended serde _ = None"

section \<open>One call\<close>

lemma refuse_state [simp]: "snd (snd (refuse message t)) = snd t"
  by (simp add: refuse_def)

lemma report_state [simp]: "snd (snd (report describe r t)) = snd t"
  by (cases r) (simp_all add: report_def)

lemma to_c_string_state [simp]: "snd (snd (to_c_string s t)) = snd t"
  by (simp add: to_c_string_def)

lemma bind_state:
  assumes "\<And>t. snd (snd (m t)) = snd t" "\<And>v t. snd (snd (f v t)) = snd t"
  shows "snd (snd (run_bind m f t)) = snd t"
  using assms(1) [of t] assms(2) by (cases "m t") (auto simp: run_bind_def split: sum.splits)

lemma encoded_state [simp]: "snd (snd (encoded what r t)) = snd t"
  unfolding encoded_def by (rule bind_state) simp_all

lemma bind_last_state:
  assumes "\<And>v t. snd (snd (f v t)) = snd t"
  shows "snd (snd (run_bind m f t)) = snd (snd (m t))"
  using assms by (cases "m t") (auto simp: run_bind_def split: sum.splits)

lemma c_arg_text:
  "c_arg ptr parse = Option.bind (c_text ptr) (\<lambda>raw. case parse raw of Inl _ \<Rightarrow> None | Inr v \<Rightarrow> Some v)"
  by (cases ptr) (simp_all add: c_text_def c_arg_def split: sum.splits)

lemma read_parsed:
  "snd (snd (run_bind (run_bind (read_utf8 ptr what) (\<lambda>raw. report describe (parse raw))) f t)) =
    (case c_arg ptr parse of None \<Rightarrow> snd t | Some v \<Rightarrow> snd (snd (f v t)))"
  by (cases ptr; cases "from_utf8 (c_str (the ptr))"; cases "parse (projr (from_utf8 (c_str (the ptr))))")
    (auto simp: read_utf8_def c_arg_def report_def refuse_def run_bind_def)

lemma read_named:
  "snd (snd (run_bind (read_utf8 ptr what) f t)) =
    (case c_text ptr of None \<Rightarrow> snd t | Some raw \<Rightarrow> snd (snd (f raw t)))"
  by (cases ptr; cases "from_utf8 (c_str (the ptr))")
    (auto simp: read_utf8_def c_text_def c_arg_def report_def refuse_def run_bind_def)

lemma report_bind:
  "snd (snd (run_bind (report describe r) f t)) = (case r of Inl _ \<Rightarrow> snd t | Inr v \<Rightarrow> snd (snd (f v t)))"
  by (cases r) (simp_all add: report_def refuse_def run_bind_def)

lemma with_session_state:
  "snd (snd (with_session False body t)) =
    (if ss_poisoned (snd t) then snd t else (snd t)\<lparr>ss_session := fst (body (ss_session (snd t)))\<rparr>)"
  by (simp add: with_session_def split: prod.splits)

lemma guarded_runs: "guarded name Runs body t = body (clear_err (fst t), snd t)"
  by (simp add: guarded_def)

lemma guarded_unwinds: "snd (snd (guarded name (Unwinds left) body t)) = left (snd t)"
  by (simp add: guarded_def)

lemmas abi_defs =
  acs_stream_session_observe_def acs_stream_session_observe_text_def acs_stream_session_record_outcome_def
  acs_stream_session_record_verdict_def acs_stream_session_advance_def acs_stream_session_end_of_payloads_def
  acs_stream_session_finish_def acs_stream_session_safe_offset_def acs_stream_session_pending_def
  acs_stream_session_watermark_def acs_stream_session_state_def wire_source_def wire_track_def wire_outcome_def

definition intended_effect :: "agent_hooks \<Rightarrow> ffi_serde \<Rightarrow> stream_call \<Rightarrow> acs_stream_session \<Rightarrow> acs_stream_session" where
  "intended_effect ah serde call h =
    (if ss_poisoned h then h else case intended serde call of
        None \<Rightarrow> h
      | Some op \<Rightarrow> h\<lparr>ss_session := apply_op ah op (ss_session h)\<rparr>)"

lemma driven_fst [simp]: "fst (driven op s) = fst (op s)"
  by (simp add: driven_def split: prod.splits)

lemma asked_fst [simp]: "fst (asked query s) = s"
  by (simp add: asked_def)

lemma unit_update [simp]: "(h :: acs_stream_session)\<lparr>ss_session := ss_session h\<rparr> = h"
  by simp

lemma abi_step_runs: "snd (abi_step ah serde (call, Runs) t) = intended_effect ah serde call (snd t)"
  by (cases call)
    (auto simp: abi_defs guarded_runs read_parsed read_named report_bind bind_last_state c_arg_text c_span_def
      with_session_state intended_effect_def split: option.splits sum.splits prod.splits Option.bind_splits)

lemma abi_step_unwinds: "snd (abi_step ah serde (call, Unwinds left) t) = left (snd t)"
  by (cases call) (simp_all add: abi_defs guarded_unwinds)

section \<open>Any sequence of calls\<close>

text \<open>
  A panic is contained: it unwinds before the session changed or from under the lock, which is
  then poisoned.
\<close>

definition panic_contained :: "acs_stream_session fate \<Rightarrow> bool" where
  "panic_contained fate \<longleftrightarrow> (case fate of Runs \<Rightarrow> True | Unwinds left \<Rightarrow> \<forall>h. left h = h \<or> ss_poisoned (left h))"

definition abi_ops :: "ffi_serde \<Rightarrow> (stream_call \<times> acs_stream_session fate) list \<Rightarrow> session_op list" where
  "abi_ops serde = List.map_filter (\<lambda>(call, fate). case fate of Runs \<Rightarrow> intended serde call | Unwinds _ \<Rightarrow> None)"

definition abi_run ::
  "agent_hooks \<Rightarrow> ffi_serde \<Rightarrow> (stream_call \<times> acs_stream_session fate) list \<Rightarrow> err_out \<times> acs_stream_session
    \<Rightarrow> err_out \<times> acs_stream_session"
where
  "abi_run ah serde = fold (abi_step ah serde)"

lemma abi_run_simps [simp]:
  "abi_run ah serde [] t = t"
  "abi_run ah serde (c # calls) t = abi_run ah serde calls (abi_step ah serde c t)"
  by (simp_all add: abi_run_def)

lemma abi_ops_simps [simp]:
  "abi_ops serde [] = []"
  "abi_ops serde ((call, Runs) # calls) = (case intended serde call of None \<Rightarrow> [] | Some op \<Rightarrow> [op]) @ abi_ops serde calls"
  "abi_ops serde ((call, Unwinds left) # calls) = abi_ops serde calls"
  by (simp_all add: abi_ops_def List.map_filter_simps split: option.splits)

text \<open>A call on a poisoned handle leaves it poisoned.\<close>

lemma abi_step_poisoned:
  assumes "panic_contained fate" "ss_poisoned (snd t)"
  shows "ss_poisoned (snd (abi_step ah serde (call, fate) t))"
proof (cases fate)
  case Runs
  then show ?thesis
    using assms(2) by (simp only: abi_step_runs intended_effect_def if_True)
next
  case (Unwinds left)
  then have "left (snd t) = snd t \<or> ss_poisoned (left (snd t))"
    using assms(1) by (simp add: panic_contained_def)
  then have "ss_poisoned (left (snd t))"
    using assms(2) by metis
  then show ?thesis
    by (simp only: Unwinds abi_step_unwinds)
qed

lemma abi_run_poisoned:
  "list_all (\<lambda>c. panic_contained (snd c)) calls \<Longrightarrow> ss_poisoned (snd t) \<Longrightarrow> ss_poisoned (snd (abi_run ah serde calls t))"
proof (induction calls arbitrary: t)
  case (Cons c calls)
  then have "ss_poisoned (snd (abi_step ah serde (fst c, snd c) t))"
    by (intro abi_step_poisoned) simp_all
  then show ?case
    using Cons by simp
qed simp

lemma abi_step_kept:
  assumes "panic_contained fate" "\<not> ss_poisoned (snd (abi_step ah serde (call, fate) t))"
  shows "snd (abi_step ah serde (call, fate) t) =
    (snd t)\<lparr>ss_session := fold (apply_op ah) (abi_ops serde [(call, fate)]) (ss_session (snd t))\<rparr>"
proof (cases fate)
  case Runs
  then show ?thesis
    using assms by (auto simp: abi_step_runs intended_effect_def split: option.splits if_splits)
next
  case (Unwinds left)
  then have "left (snd t) = snd t"
    using assms by (auto simp: panic_contained_def abi_step_unwinds)
  then show ?thesis
    using Unwinds by (simp add: abi_step_unwinds)
qed

lemma abi_ops_Cons: "abi_ops serde (c # calls) = abi_ops serde [c] @ abi_ops serde calls"
  by (cases c; cases "snd c") (auto split: option.splits)

lemma abi_run_kept:
  "list_all (\<lambda>c. panic_contained (snd c)) calls \<Longrightarrow> \<not> ss_poisoned (snd (abi_run ah serde calls t)) \<Longrightarrow>
    ss_session (snd (abi_run ah serde calls t)) = fold (apply_op ah) (abi_ops serde calls) (ss_session (snd t))"
proof (induction calls arbitrary: t)
  case (Cons c calls)
  then have "\<not> ss_poisoned (snd (abi_step ah serde c t))"
    using abi_run_poisoned [of calls "abi_step ah serde c t" ah serde] by auto
  then have "ss_session (snd (abi_step ah serde c t)) = fold (apply_op ah) (abi_ops serde [c]) (ss_session (snd t))"
    using abi_step_kept [of "snd c" ah serde "fst c" t] Cons.prems by simp
  then show ?case
    using Cons abi_ops_Cons [of serde c calls] by simp
qed simp

section \<open>Opening\<close>

text \<open>A configuration object is read as the engine reads one; only the messages differ.\<close>

lemma abi_offset_agrees: "abi_offset members key = Inr n \<longleftrightarrow> config_offset members key = Inr n"
  by (auto simp: abi_offset_def config_offset_def split: option.splits json.splits)

lemma abi_tasks_agree: "abi_tasks members key = Inr tasks \<longleftrightarrow> config_tasks members key = Inr tasks"
  by (auto simp: abi_tasks_def config_tasks_def try_map_ok_iff split: option.splits json.splits)

lemma abi_config_agrees: "abi_config members = Inr cfg \<longleftrightarrow> stream_config_from_json (JObject members) = Inr cfg"
  by (simp add: abi_config_def stream_config_from_json_def rbind_eq_Inr_iff abi_offset_agrees abi_tasks_agree)

section \<open>What a host may emit\<close>

text \<open>The claim is about the offsets of two calls: the query and the one that advances.\<close>

definition abi_offset_call :: "bool \<Rightarrow> c_pointer \<Rightarrow> int stream_crossing" where
  "abi_offset_call advancing track =
    (if advancing then acs_stream_session_advance Runs False track else acs_stream_session_safe_offset Runs False track)"

lemma advance_offset: "session_advance track s = (s', Some off) \<Longrightarrow> safe_offset track s' = Some off"
  by (cases track) (auto simp: session_advance_def safe_offset_def wm_advance_def Let_def split: if_splits)

lemma offset_absent: "0 \<le> offset_or_absent r \<Longrightarrow> \<exists>off. r = Some off \<and> offset_or_absent r = uint off"
  by (cases r) (simp_all add: offset_or_absent_def)

lemma track_read:
  "run_bind (wire_track ptr) f t = (case c_arg ptr track_parse of
      None \<Rightarrow> (Inl (), snd (wire_track ptr t))
    | Some track \<Rightarrow> f track t)"
  by (cases ptr; cases "from_utf8 (c_str (the ptr))"; cases "track_parse (projr (from_utf8 (c_str (the ptr))))")
    (auto simp: wire_track_def read_utf8_def c_arg_def report_def refuse_def run_bind_def)

lemma with_session_ok:
  "with_session False body t = (Inr v, t') \<longleftrightarrow>
    \<not> ss_poisoned (snd t) \<and> (\<exists>s. body (ss_session (snd t)) = (s, Inr v) \<and> t' = (fst t, (snd t)\<lparr>ss_session := s\<rparr>))"
  by (auto simp: with_session_def refuse_def report_def split: prod.splits sum.splits)

lemma offset_call_outcome:
  assumes "scalar_of (abi_offset_call advancing ptr) t = (n, t')" "0 \<le> n"
  shows "\<not> ss_poisoned (snd t) \<and> (\<exists>track off. c_arg ptr track_parse = Some track \<and> n = uint off \<and>
    safe_offset track (if advancing then apply_op ah (Advance track) (ss_session (snd t)) else ss_session (snd t)) = Some off)"
proof -
  have ok: "abi_offset_call advancing ptr t = (Inr n, t')"
    using assms by (auto simp: scalar_of_def split: prod.splits sum.splits)
  then obtain track where track: "c_arg ptr track_parse = Some track"
    by (auto simp: abi_offset_call_def acs_stream_session_advance_def acs_stream_session_safe_offset_def guarded_runs
        track_read split: if_splits option.splits)
  show ?thesis
  proof (cases advancing)
    case True
    then have "with_session False (\<lambda>s. case session_advance track s of (s', r) \<Rightarrow> (s', Inr (offset_or_absent r)))
        (clear_err (fst t), snd t) = (Inr n, t')"
      using ok track by (simp add: abi_offset_call_def acs_stream_session_advance_def guarded_runs track_read)
    then obtain s r where "\<not> ss_poisoned (snd t)" "session_advance track (ss_session (snd t)) = (s, r)" "n = offset_or_absent r"
      by (auto simp: with_session_ok split: prod.splits)
    then show ?thesis
      using assms(2) offset_absent [of r] advance_offset track True by auto
  next
    case False
    then have "with_session False (asked (\<lambda>s. offset_or_absent (safe_offset track s))) (clear_err (fst t), snd t) = (Inr n, t')"
      using ok track by (simp add: abi_offset_call_def acs_stream_session_safe_offset_def guarded_runs track_read)
    then show ?thesis
      using assms(2) offset_absent track False by (auto simp: with_session_ok asked_def)
  qed
qed

lemma opened_session:
  "acs_stream_session_new serde fate config_json t = (Inr h, t') \<Longrightarrow>
    session_new (s_config (ss_session h)) = Inr (ss_session h) \<and> \<not> ss_poisoned h"
proof -
  assume "acs_stream_session_new serde fate config_json t = (Inr h, t')"
  then obtain cfg where "session_new cfg = Inr (ss_session h)" "\<not> ss_poisoned h"
    by (auto simp: acs_stream_session_new_def guarded_def run_bind_def report_def refuse_def
        split: fate.splits prod.splits sum.splits)
  then show ?thesis
    using init_new by metis
qed

lemma advance_clears_nothing: "cleared_in ah (ls @ [Advance u]) track task r = cleared_in ah ls track task r"
  by (simp add: cleared_in_def clears_rune_def)

text \<open>
  C13: A host that drives a stream over the C interface emits only cleared text.  Whatever calls
  it makes on a session it opened, with whatever arguments, and whatever panics unwind from
  them: where \<open>acs_stream_session_safe_offset\<close> or \<open>acs_stream_session_advance\<close> answers with an
  offset, every rune below it was cleared by every task of that track, in a call that ran to
  its end.  In particular a session whose lock a panic poisoned gives no offset at all.
\<close>

theorem abi_offsets_cleared:
  assumes opened: "acs_stream_session_new serde fate config_json t0 = (Inr h, t1)"
    and panics: "list_all (\<lambda>c. panic_contained (snd c)) calls"
    and offset: "scalar_of (abi_offset_call advancing ptr) (abi_run ah serde calls (slot, h)) = (n, t')" "0 \<le> n"
  shows "\<exists>track. c_arg ptr track_parse = Some track \<and>
    (\<forall>task\<in>set (tasks_for (s_config (ss_session h)) track). \<forall>r. start_for (s_config (ss_session h)) track \<le> r
      \<and> uint r < n \<longrightarrow> cleared_in ah (abi_ops serde calls) track task r)"
proof -
  let ?s = "ss_session (snd (abi_run ah serde calls (slot, h)))"
  obtain track off where track: "c_arg ptr track_parse = Some track" "n = uint off"
      "safe_offset track (if advancing then apply_op ah (Advance track) ?s else ?s) = Some off"
    and live: "\<not> ss_poisoned (snd (abi_run ah serde calls (slot, h)))"
    using offset_call_outcome [OF offset] by blast
  have s: "?s = fold (apply_op ah) (abi_ops serde calls) (ss_session h)"
    using abi_run_kept [OF panics live] by simp
  define ls where "ls = abi_ops serde calls @ (if advancing then [Advance track] else [])"
  have "execution (session_step ah) (ss_session h) ls (fold (apply_op ah) ls (ss_session h))"
    by (rule execution_apply_ops)
  then have "execution (session_step ah) (ss_session h) ls (if advancing then apply_op ah (Advance track) ?s else ?s)"
    by (cases advancing) (simp_all add: ls_def s)
  note cleared = confirmed_cleared [OF opened_session [OF opened, THEN conjunct1] this]
  have "cleared_in ah (abi_ops serde calls) track task r"
    if "task \<in> set (tasks_for (s_config (ss_session h)) track)" "start_for (s_config (ss_session h)) track \<le> r" "uint r < n"
    for task r
    using cleared [of task track r] that track(2,3) advance_clears_nothing
    by (auto simp: ls_def safe_offset_def word_less_def split: if_splits)
  then show ?thesis
    using track(1) by blast
qed

definition example_calls :: "(stream_call \<times> acs_stream_session fate) list" where
  "example_calls =
    [(CallObserve (Some ''model_generated'') 5, Runs),
     (CallRecordOutcome (Some ''pii'') (Some ''model_generated'') 0 5 (Some ''cleared''), Runs),
     (CallState, Unwinds id),
     (CallRecordOutcome (Some ''abuse'') (Some ''model_generated'') 0 3 (Some ''cleared''), Runs)]"

definition example_ffi_serde :: "json \<Rightarrow> ffi_serde" where
  "example_ffi_serde v = \<lparr>fs_from_str = (\<lambda>_. Inr v), fs_to_string = (\<lambda>_. Inr ''[]''), fs_strings = (\<lambda>_. Inl ''none''),
    fs_bundles = (\<lambda>_. Inl ''none''), fs_verdict = (\<lambda>_. Inl ''none''), fs_verdict_to_string = (\<lambda>_. Inr ''{}''),
    fs_manifest_to_string = (\<lambda>_. Inr ''{}'')\<rparr>"

lemma nul_byte: "c \<noteq> nul \<longleftrightarrow> byte c \<noteq> 0"
  by (metis nul_def char_of_char of_char_of mod_0)

lemma example_texts:
  "c_text (Some ''model_generated'') = Some ''model_generated''" "c_text (Some ''pii'') = Some ''pii''"
  "c_text (Some ''abuse'') = Some ''abuse''" "c_text (Some ''cleared'') = Some ''cleared''"
  "c_text (Some ''response'') = Some ''response''" "c_text (Some ''c'') = Some ''c''"
  by (simp_all add: c_text_def c_arg_def c_str_def nul_byte from_utf8_def utf8_tail_def)

lemma example_abi_ops:
  "abi_ops serde example_calls = [Observe ModelGenerated 5, RecordOutcome ''pii'' (example_span 0 5) Cleared,
    RecordOutcome ''abuse'' (example_span 0 3) Cleared]"
  by (simp add: example_calls_def c_arg_text example_texts c_span_def span_new_def source_type_parse_def outcome_parse_def
      MAX_RUNE_OFFSET_def example_span_def)

lemma example_opened:
  "acs_stream_session_new (example_ffi_serde (stream_config_json example_config)) Runs (Some ''c'') (None, ()) =
    (Inr \<lparr>ss_session = example_session, ss_poisoned = False\<rparr>, (None, ()))"
proof -
  have "safety_level_parse (safety_level_as_str l) = Inr l" for l
    by (cases l) (simp_all add: safety_level_parse_def)
  then obtain members where members: "stream_config_json example_config = JObject members" "abi_config members = Inr example_config"
    by (simp add: abi_config_agrees stream_config_from_json_def stream_config_json_def config_offset_back config_tasks_back)
  have "from_utf8 (c_str ''c'') = Inr ''c''"
    by (simp add: c_str_def nul_byte from_utf8_def utf8_tail_def)
  then show ?thesis
    by (simp add: acs_stream_session_new_def guarded_runs clear_err_def read_object_def read_utf8_def run_bind_def report_def
        example_ffi_serde_def members example_new)
qed

lemma example_abi_end:
  "snd (abi_run (example_hooks 10240) serde example_calls (slot, \<lparr>ss_session = example_session, ss_poisoned = False\<rparr>)) =
    \<lparr>ss_session = example_state 5 3 5 0, ss_poisoned = False\<rparr>"
  by (simp add: example_calls_def abi_step_runs abi_step_unwinds intended_effect_def c_arg_text example_texts c_span_def
      span_new_def source_type_parse_def outcome_parse_def MAX_RUNE_OFFSET_def example_session_def example_session_eq
      example_steps example_span_def [symmetric] del: abi_step.simps)

theorem abi_offsets_cleared_witness:
  "cleared_in (example_hooks 10240) (abi_ops (example_ffi_serde (stream_config_json example_config)) example_calls)
    Response ''abuse'' 2"
proof -
  let ?serde = "example_ffi_serde (stream_config_json example_config)"
  let ?h = "\<lparr>ss_session = example_session, ss_poisoned = False\<rparr>"
  let ?after = "abi_run (example_hooks 10240) ?serde example_calls (None, ?h)"
  have track: "c_arg (Some ''response'') track_parse = Some Response"
    by (simp add: c_arg_text example_texts track_parse_def)
  have "list_all (\<lambda>c. panic_contained (snd c)) example_calls"
    by (simp add: example_calls_def panic_contained_def)
  moreover have "scalar_of (abi_offset_call True (Some ''response'')) ?after =
      (3, snd (abi_offset_call True (Some ''response'') ?after))"
    by (simp add: scalar_of_def abi_offset_call_def acs_stream_session_advance_def guarded_runs track_read track
        with_session_def example_abi_end example_eval report_def offset_or_absent_def)
  moreover have "''abuse'' \<in> set (tasks_for (s_config example_session) Response)"
    "start_for (s_config example_session) Response \<le> 2"
    using init_new [OF example_new] by (simp_all add: example_config_def)
  ultimately show ?thesis
    using abi_offsets_cleared [OF example_opened, of example_calls True "Some ''response''" "example_hooks 10240" None 3]
      track by fastforce
qed

end
