(* ===== verification/Ffi_Laws.thy ===== *)
theory Ffi_Laws
  imports Ffi_Hooks Ffi_Stream_Laws Manifest_Laws
begin

text \<open>
  What the C interface promises its callers: failures and only failures leave a message,
  validation codes mean what the engine decided, and strings of the host are handed back once;
  and where the diagnostics of an artifact part from what they are documented to say.
\<close>

section \<open>The error slot\<close>

definition keeps_contract :: "('w, 'a) crossing \<Rightarrow> bool" where
  "keeps_contract m \<longleftrightarrow> (\<forall>slot w. settled slot (fst (m (slot, w))) (fst (snd (m (slot, w)))))"

lemma keeps_guarded: "settles body \<Longrightarrow> keeps_contract (guarded name fate body)"
  unfolding keeps_contract_def by (metis guarded_settled prod.collapse)

lemma settles_case_sum [settles_intros]:
  "(\<And>e. settles (f e)) \<Longrightarrow> (\<And>v. settles (g v)) \<Longrightarrow> settles (case r of Inl e \<Rightarrow> f e | Inr v \<Rightarrow> g v)"
  by (cases r) simp_all

lemma settles_case_option_fun [settles_intros]:
  "settles m \<Longrightarrow> (\<And>v. settles (f v)) \<Longrightarrow> settles (case_option m f v)"
  by (rule settles_case_option)

lemma settles_document_finding [settles_intros]: "settles (document_finding e)"
  unfolding document_finding_def by (cases e) (simp_all only: runtime_error.case, (intro settles_intros)+)

lemma settles_parts [settles_intros]:
  "settles (read_object serde ptr what)" "settles (encoded what text)" "settles (read_manifest_limits serde ptr)"
  "settles (read_in_memory_bundles serde ptr)" "settles (build_interceptor x env path)"
  "settles (encoded_findings serde findings)" "settles (read_hook_perf ptr)" "settles (read_hook_limits serde ptr)"
  unfolding read_object_def encoded_def read_manifest_limits_def read_in_memory_bundles_def build_interceptor_def
    encoded_findings_def read_hook_perf_def read_hook_limits_def
  by (intro settles_intros)+

lemma settles_keeping [settles_intros]:
  "settles (verdict_of run)" "settles (activation_findings m)"
  by (rule settlesI; simp add: verdict_of_def activation_findings_def settled_def split: prod.splits sum.splits)+

lemma settles_with_session [settles_intros]: "settles (with_session null body)"
  by (rule settlesI)
    (auto simp: with_session_def refuse_def report_def settled_def set_err_def split: prod.splits sum.splits)

lemma settles_wire [settles_intros]: "settles (wire_track ptr)" "settles (wire_source ptr)" "settles (wire_outcome ptr)"
  unfolding wire_track_def wire_source_def wire_outcome_def by (intro settles_intros)+

text \<open>
  C37: A call of the C interface reports every failure and only failures.  Whatever the caller's
  error slot held before and whether or not the call unwinds from a panic: a call that returns
  null, or the failure value of its scalar, leaves a message in the slot, a call that succeeds
  leaves the slot empty, and a caller that passed no slot has nothing written.
\<close>

theorem c_calls_report_failures:
  "keeps_contract (acs_interceptor_new x env fate p) \<and> keeps_contract (acs_interceptor_new_ex x env fate p n)
    \<and> keeps_contract (acs_interceptor_new_with_hooks x env serde fate p n a b c perf lim)
    \<and> keeps_contract (acs_interceptor_set_name handle p :: ('w, acs_interceptor) crossing)
    \<and> keeps_contract (acs_interceptor_name handle :: ('w, string) crossing)
    \<and> keeps_contract (acs_intercept x serde hosts unwound handle p)
    \<and> keeps_contract (acs_policy_activate x env warm readied p n)
    \<and> keeps_contract (acs_policy_activate_from_memory x env serde warm readied p q)
    \<and> keeps_contract (acs_policy_evaluate x serde h unwound policy p q)
    \<and> keeps_contract (acs_policy_intervention_points serde fate policy)
    \<and> keeps_contract (acs_supported_manifest_versions serde fate)
    \<and> keeps_contract (acs_manifest_parse_with_limits x env serde fate p q)
    \<and> keeps_contract (acs_manifest_merge_with_limits x env serde fate p q)
    \<and> keeps_contract (acs_manifest_diagnostics x env serde fate p)
    \<and> keeps_contract (acs_artifact_diagnostics x env serde warm readied p q)
    \<and> keeps_contract (acs_stream_session_new serde fate p)
    \<and> keeps_contract (acs_stream_session_observe driven_fate null p runes)
    \<and> keeps_contract (acs_stream_session_observe_text driven_fate null p q)
    \<and> keeps_contract (acs_stream_session_record_outcome driven_fate null p q start stop arg)
    \<and> keeps_contract (acs_stream_session_record_verdict ah serde driven_fate null p q start stop arg)
    \<and> keeps_contract (acs_stream_session_advance driven_fate null p)
    \<and> keeps_contract (acs_stream_session_safe_offset driven_fate null p)
    \<and> keeps_contract (acs_stream_session_pending driven_fate null p)
    \<and> keeps_contract (acs_stream_session_watermark serde driven_fate null p)
    \<and> keeps_contract (acs_stream_session_state serde driven_fate null)
    \<and> keeps_contract (acs_stream_session_end_of_payloads driven_fate null)
    \<and> keeps_contract (acs_stream_session_finish serde driven_fate null)"
  unfolding acs_interceptor_new_def acs_interceptor_new_ex_def acs_interceptor_new_with_hooks_def
    acs_interceptor_set_name_def acs_interceptor_name_def acs_intercept_def acs_policy_activate_def
    acs_policy_activate_from_memory_def acs_policy_evaluate_def acs_policy_intervention_points_def
    acs_supported_manifest_versions_def acs_manifest_parse_with_limits_def acs_manifest_merge_with_limits_def
    acs_manifest_diagnostics_def acs_artifact_diagnostics_def acs_stream_session_new_def
    acs_stream_session_observe_def acs_stream_session_observe_text_def acs_stream_session_record_outcome_def
    acs_stream_session_record_verdict_def acs_stream_session_advance_def acs_stream_session_safe_offset_def
    acs_stream_session_pending_def acs_stream_session_watermark_def acs_stream_session_state_def
    acs_stream_session_end_of_payloads_def acs_stream_session_finish_def
  by (intro conjI keeps_guarded settles_intros)

section \<open>Validation codes\<close>

text \<open>The arguments of a validation, read.\<close>

definition limits_read :: "ffi_serde \<Rightarrow> c_pointer \<Rightarrow> limits option" where
  "limits_read serde ptr = (case ptr of
      None \<Rightarrow> Some default_limits
    | Some bytes \<Rightarrow> (case rbind (from_utf8 (c_str bytes)) (fs_from_str serde) of
          Inl _ \<Rightarrow> None
        | Inr v \<Rightarrow> (case limits_from_json v of Inl _ \<Rightarrow> None | Inr lim \<Rightarrow> Some lim)))"

definition bytes_read :: "c_pointer \<Rightarrow> nat \<Rightarrow> string option" where
  "bytes_read ptr len = (if len = 0 then Some [] else map_option (take len) ptr)"

lemma refuse_eq: "refuse message (slot, w) = (Inl (), (set_err message slot, w))"
  by (simp add: refuse_def)

lemma report_cases:
  "report describe (Inr v) (slot, w) = (Inr v, (slot, w))"
  "report describe (Inl e) (slot, w) = (Inl (), (set_err (describe e) slot, w))"
  by (simp_all add: report_def refuse_eq)

lemma read_manifest_limits_cases:
  "(\<exists>lim. limits_read serde ptr = Some lim \<and> read_manifest_limits serde ptr (slot, w) = (Inr lim, (slot, w)))
    \<or> limits_read serde ptr = None \<and> (\<exists>message. read_manifest_limits serde ptr (slot, w) = (Inl (), (set_err message slot, w)))"
  by (cases ptr)
    (auto simp: read_manifest_limits_def limits_read_def read_utf8_def run_bind_def report_cases rbind_def split: sum.splits)

lemma read_bytes_cases:
  "(\<exists>bytes. bytes_read ptr len = Some bytes \<and> read_bytes ptr len what (slot, w) = (Inr bytes, (slot, w)))
    \<or> bytes_read ptr len = None \<and> (\<exists>message. read_bytes ptr len what (slot, w) = (Inl (), (set_err message slot, w)))"
  by (cases ptr) (auto simp: read_bytes_def bytes_read_def refuse_eq)

text \<open>The manifest a validation judges, or no value where the call fails before.\<close>

definition judgement ::
  "externals \<Rightarrow> environment \<Rightarrow> ffi_serde \<Rightarrow> c_pointer \<Rightarrow> nat \<Rightarrow> c_pointer \<Rightarrow> (runtime_error, unit) result option"
where
  "judgement x env serde src len limits_arg =
    Option.bind (limits_read serde limits_arg) (\<lambda>lim.
    Option.bind (bytes_read src len) (\<lambda>bytes.
    case from_utf8 bytes of
      Inl _ \<Rightarrow> None
    | Inr source_text \<Rightarrow> (case parse_yaml_str_with_limits env source_text lim of
          Inl (ManifestInvalid d) \<Rightarrow> Some (Inl (ManifestInvalid d))
        | Inl _ \<Rightarrow> None
        | Inr m \<Rightarrow> if m_extends m \<noteq> [] then None else Some (manifest_validate x m))))"

lemma judged_cases:
  "judged r accept t = (case r of
      Inr v \<Rightarrow> accept v t
    | Inl (ManifestInvalid d) \<Rightarrow> (Inr ACS_MANIFEST_INVALID, (set_err (show_error (ManifestInvalid d)) (fst t), snd t))
    | Inl e \<Rightarrow> (Inl (), (set_err (show_error e) (fst t), snd t)))"
  by (simp add: judged_def rejected_def refuse_def split: sum.splits runtime_error.splits)

lemma validation_outcome:
  "\<exists>message. acs_validate_manifest_with_limits x env serde Runs src len limits_arg (slot, w) =
    (case judgement x env serde src len limits_arg of
       None \<Rightarrow> (ACS_MANIFEST_CALL_FAILED, (set_err message (clear_err slot), w))
     | Some (Inl e) \<Rightarrow> (ACS_MANIFEST_INVALID, (set_err (show_error e) (clear_err slot), w))
     | Some (Inr _) \<Rightarrow> (ACS_MANIFEST_VALID, (clear_err slot, w)))"
proof -
  let ?slot = "clear_err slot"
  consider (limits) message where "limits_read serde limits_arg = None"
      "read_manifest_limits serde limits_arg (?slot, w) = (Inl (), (set_err message ?slot, w))"
    | (bytes) lim message where "limits_read serde limits_arg = Some lim" "bytes_read src len = None"
      "read_manifest_limits serde limits_arg (?slot, w) = (Inr lim, (?slot, w))"
      "read_bytes src len ''source'' (?slot, w) = (Inl (), (set_err message ?slot, w))"
    | (read) lim bytes where "limits_read serde limits_arg = Some lim" "bytes_read src len = Some bytes"
      "read_manifest_limits serde limits_arg (?slot, w) = (Inr lim, (?slot, w))"
      "read_bytes src len ''source'' (?slot, w) = (Inr bytes, (?slot, w))"
    using read_manifest_limits_cases [of serde limits_arg ?slot w] read_bytes_cases [of src len "''source''" ?slot w]
    by blast
  then show ?thesis
  proof cases
    case read
    then show ?thesis
      by (cases "from_utf8 bytes"; cases "parse_yaml_str_with_limits env (projr (from_utf8 bytes)) lim")
        (auto simp: acs_validate_manifest_with_limits_def guarded_def code_of_def run_bind_def report_cases judgement_def
          judged_cases refuse_eq rejected_def split: runtime_error.splits sum.splits)
  qed (auto simp: acs_validate_manifest_with_limits_def guarded_def code_of_def run_bind_def judgement_def)
qed

text \<open>
  C15: A validation code is a verdict of the engine.  Validating manifest text returns zero
  exactly when the arguments could be read, the text parses within the limits, names no other
  manifest and is accepted by the engine, and then leaves no message; it returns one exactly
  when the engine rejected the document, with the engine's message; every other outcome is the
  failure code with a message.  So a caller that proceeds only on zero never proceeds on a
  manifest that was not accepted.
\<close>

theorem validation_codes_exact:
  assumes "acs_validate_manifest_with_limits x env serde Runs src len limits_arg (Some held, w) = (code, (slot, w'))"
  shows "(code = ACS_MANIFEST_VALID \<longleftrightarrow> judgement x env serde src len limits_arg = Some (Inr ()))
    \<and> (code = ACS_MANIFEST_VALID \<longleftrightarrow> slot = Some None)
    \<and> (code = ACS_MANIFEST_INVALID \<longleftrightarrow> (\<exists>e. judgement x env serde src len limits_arg = Some (Inl e)
        \<and> slot = set_err (show_error e) (Some None)))
    \<and> code \<in> {ACS_MANIFEST_VALID, ACS_MANIFEST_INVALID, ACS_MANIFEST_CALL_FAILED} \<and> w' = w"
proof -
  have cleared: "clear_err (Some held) = Some None"
    by (simp add: clear_err_def)
  obtain message where "(code, (slot, w')) =
    (case judgement x env serde src len limits_arg of
       None \<Rightarrow> (ACS_MANIFEST_CALL_FAILED, (set_err message (Some None), w))
     | Some (Inl e) \<Rightarrow> (ACS_MANIFEST_INVALID, (set_err (show_error e) (Some None), w))
     | Some (Inr _) \<Rightarrow> (ACS_MANIFEST_VALID, (Some None, w)))"
    using validation_outcome [of x env serde src len limits_arg "Some held" w] unfolding assms cleared by blast
  then show ?thesis
    by (auto simp: ACS_MANIFEST_VALID_def ACS_MANIFEST_INVALID_def ACS_MANIFEST_CALL_FAILED_def set_err_def
        split: option.splits sum.splits)
qed

definition example_text_environment :: environment where
  "example_text_environment = example_memory_environment\<lparr>env_yaml := \<lambda>lim s. Inr example_manifest\<rparr>"

lemma example_parsed: "parse_yaml_str_with_limits example_text_environment ''m'' default_limits = Inr example_manifest"
  by (simp add: parse_yaml_str_with_limits_def example_text_environment_def deserialized_def example_manifest_def
      example_sourced_def default_limits_def)

lemma example_bytes: "from_utf8 ''m'' = Inr ''m''" "c_str ''m'' = ''m''"
  by (simp_all add: from_utf8_def utf8_tail_def c_str_def nul_byte)

lemma example_manifest_valid: "manifest_validate example_externals example_manifest = Inr ()"
  by (simp add: example_manifest_def example_valid)

lemma example_judged:
  "judgement example_externals example_text_environment (example_ffi_serde JNull) (Some ''m'') 1 None = Some (Inr ())"
  by (simp add: judgement_def limits_read_def bytes_read_def example_bytes example_parsed example_manifest_valid)
    (simp add: example_manifest_def example_sourced_def)

theorem validation_codes_exact_witness:
  "acs_validate_manifest_with_limits example_externals example_text_environment (example_ffi_serde JNull) Runs
      (Some ''m'') 1 None (Some (Some ''stale''), ()) = (ACS_MANIFEST_VALID, (Some None, ()))"
proof -
  let ?out = "acs_validate_manifest_with_limits example_externals example_text_environment
      (example_ffi_serde JNull) Runs (Some ''m'') 1 None (Some (Some ''stale''), ())"
  have split: "?out = (fst ?out, (fst (snd ?out), snd (snd ?out)))"
    by (simp only: prod.collapse)
  have "fst ?out = ACS_MANIFEST_VALID" "fst (snd ?out) = Some None"
    using validation_codes_exact [OF split] example_judged by blast+
  then show ?thesis
    by (intro prod_eqI) simp_all
qed

section \<open>Strings of the host\<close>

definition handed_back :: "host_hook \<Rightarrow> host_string option \<Rightarrow> host_string option \<Rightarrow> hook_action list" where
  "handed_back hook raw err =
    (if \<not> hk_free hook then []
     else case raw of
       Some s \<Rightarrow> [HostFreed (fst s)]
     | None \<Rightarrow> (case err of Some s \<Rightarrow> [HostFreed (fst s)] | None \<Rightarrow> []))"

text \<open>What a call of the host comes to: nothing at all, or one call and what is handed back.\<close>

definition hook_contract ::
  "hook_serde \<Rightarrow> host_hook \<Rightarrow> hook_action list \<Rightarrow> (runtime_error, json) result \<times> hook_action list \<Rightarrow> bool"
where
  "hook_contract serde hook t out \<longleftrightarrow>
    (\<exists>d. out = (Inl (PolicyInvocationFailed d), t))
    \<or> (\<exists>args raw err. hk_answer hook t args = (raw, err)
        \<and> snd out = t @ HookCalled args # handed_back hook raw err
        \<and> (case raw of
            Some s \<Rightarrow> (case rbind (from_utf8 (c_str (snd s))) (hs_from_str serde) of
                Inr j \<Rightarrow> fst out = Inr j
              | Inl _ \<Rightarrow> \<exists>d. fst out = Inl (PolicyInvocationFailed d))
          | None \<Rightarrow> \<exists>d. fst out = Inl (PolicyInvocationFailed d)))"

lemma call_hook_contract: "hook_contract serde hook t (call_hook serde hook what who args t)"
proof -
  obtain raw err where answer: "hk_answer hook t args = (raw, err)"
    by fastforce
  show ?thesis
  proof (cases raw)
    case None
    then show ?thesis
      using answer unfolding hook_contract_def
      by (intro disjI2 exI [of _ args] exI [of _ raw] exI [of _ err])
        (auto simp: call_hook_def hook_take_def hook_error_def hook_release_def handed_back_def run_bind_def run_effect_def
          split: option.splits)
  next
    case (Some s)
    then show ?thesis
      using answer unfolding hook_contract_def
      by (intro disjI2 exI [of _ args] exI [of _ raw] exI [of _ err])
        (auto simp: call_hook_def hook_take_def hook_release_def handed_back_def run_bind_def run_effect_def rbind_def
          split: sum.splits)
  qed
qed

lemma encoded_first:
  assumes "\<And>v. hook_contract serde hook t (f v t)" "(\<exists>v. r = Inr v) \<or> (\<exists>d. r = Inl (PolicyInvocationFailed d))"
  shows "hook_contract serde hook t (run_bind (run_lift r) f t)"
proof (cases r)
  case (Inl e)
  then show ?thesis
    using assms(2) by (auto simp: run_bind_def hook_contract_def)
next
  case (Inr v)
  then show ?thesis
    using assms(1) [of v] by (simp add: run_bind_def)
qed

lemma encoding_fails:
  "(\<exists>v. rbind (map_err (\<lambda>e. PolicyInvocationFailed (g e)) r) (c_string_new what) = Inr v)
    \<or> (\<exists>d. rbind (map_err (\<lambda>e. PolicyInvocationFailed (g e)) r) (c_string_new what) = Inl (PolicyInvocationFailed d))"
  by (cases r) (auto simp: c_string_new_def)

text \<open>
  C14: A string of the host is handed back once, to the host.  A dispatch to a host's annotator or
  policy either fails without calling the host, or calls it once and then gives back through
  the host's own free callback exactly the string it answered with, or else its error message,
  and nothing where the host registered no callback.  The result is what the answer parses
  to; a null answer, one that is not UTF-8 and one that is not JSON are failures, never an
  absent annotation.
\<close>

theorem host_strings_handed_back:
  "hook_contract serde hook t (host_annotator_dispatch serde hook name annotator input t)
    \<and> hook_contract serde hook t (host_policy_evaluate serde hook invocation t)"
proof
  have name: "(\<exists>v. c_string_new ''annotator name'' name = Inr v)
      \<or> (\<exists>d. c_string_new ''annotator name'' name = Inl (PolicyInvocationFailed d))"
    by (simp add: c_string_new_def)
  show "hook_contract serde hook t (host_annotator_dispatch serde hook name annotator input t)"
    unfolding host_annotator_dispatch_def
    by (intro encoded_first call_hook_contract encoding_fails name)
  show "hook_contract serde hook t (host_policy_evaluate serde hook invocation t)"
    unfolding host_policy_evaluate_def
    by (intro encoded_first call_hook_contract encoding_fails)
qed

section \<open>Diagnostics\<close>

lemma no_rego_flagged:
  assumes "m_policies m \<noteq> []" "\<forall>(name, policy)\<in>set (m_policies m). engine_type policy \<noteq> ''rego''"
  shows "\<exists>d. default_policy_dispatcher m = Inl (PolicyInvocationFailed d)"
  using assms by (cases "m_policies m") (auto simp: default_policy_dispatcher_def Let_def)

lemma no_rego_paths:
  assumes "\<forall>(name, policy)\<in>set (m_policies m). engine_type policy \<noteq> ''rego''"
  shows "unresolved_relative_rego_paths m = []"
proof -
  have none: "(case policy of Rego _ \<Rightarrow> False | _ \<Rightarrow> True)" if "(name, policy) \<in> set (m_policies m)" for name policy
    using assms that by (cases policy) auto
  then have "filter (\<lambda>(id, config). case config of
                 Rego rego \<Rightarrow> relative_path (rp_bundle rego) \<or> relative_data (rp_adapter_config rego)
               | _ \<Rightarrow> False) (m_policies m) = []"
    by (fastforce simp: filter_empty_conv split: policy_config.splits)
  moreover have "\<not> (case map_of (m_policies m) key of Some (Rego _) \<Rightarrow> True | _ \<Rightarrow> False)" for key
    using none map_of_SomeD [of "m_policies m" key] by (fastforce split: option.splits policy_config.splits)
  then have "fold (\<lambda>(point, config) ids. let binding = pc_policy config;
        is_rego = (case map_of (m_policies m) (pb_id binding) of Some (Rego _) \<Rightarrow> True | _ \<Rightarrow> False)
      in if is_rego \<and> relative_data (pb_adapter_config binding) \<and> pb_id binding \<notin> set ids
         then ids @ [pb_id binding] else ids) points ids = ids"
    for points :: "(interception_point \<times> point_config) list" and ids
    by (induction points) (auto simp: Let_def)
  ultimately show ?thesis
    by (simp add: unresolved_relative_rego_paths_def)
qed

text \<open>
  C38: The diagnostics of an artifact are not those of its manifest where no Rego is named.  For
  a manifest the engine accepts whose policies are all of another engine, and no bundles,
  \<open>acs_manifest_diagnostics\<close> finds nothing and \<open>acs_artifact_diagnostics\<close> reports one finding:
  the default policy dispatcher, which serves Rego only.
\<close>

theorem rego_free_artifact_flagged:
  assumes src: "c_text ptr = Some source_text"
    and accepted: "from_yaml_str_with_limits x env source_text default_limits = Inr m"
    and no_rego: "m_policies m \<noteq> []" "\<forall>(name, policy)\<in>set (m_policies m). engine_type policy \<noteq> ''rego''"
  shows "acs_manifest_diagnostics x env serde Runs ptr (slot, w) = encoded_findings serde [] (clear_err slot, w)
    \<and> (\<exists>d. acs_artifact_diagnostics x env serde rego Runs ptr None (slot, warmed) =
        encoded_findings serde [PolicyInvocationFailed d] (clear_err slot, warmed))"
proof -
  obtain d where d: "default_policy_dispatcher m = Inl (PolicyInvocationFailed d)"
    using no_rego_flagged [OF no_rego] by blast
  have read: "read_utf8 ptr what t = (Inr source_text, t)" for what and t :: "err_out \<times> 'c"
    using src by (auto simp: c_text_def c_arg_def read_utf8_def report_def split: option.splits sum.splits bind_splits)
  have parsed: "parse_yaml_str_with_limits env source_text default_limits = Inr m" "manifest_validate x m = Inr ()"
    using accepted by (auto simp: from_yaml_str_with_limits_def rbind_eq_Inr_iff)
  have "activate_from_memory x env rego source_text [] warmed = (Inl (PolicyInvocationFailed d), warmed)"
    by (simp add: activate_from_memory_def manifest_from_memory_def parse_yaml_str_def parsed no_rego_paths [OF no_rego(2)]
        activate_manifest_def run_bind_def d)
  then show ?thesis
    by (simp add: acs_manifest_diagnostics_def acs_artifact_diagnostics_def guarded_runs run_bind_def read accepted parsed
        read_in_memory_bundles_def activation_findings_def) blast
qed

theorem rego_free_artifact_flagged_witness:
  "acs_manifest_diagnostics example_externals example_text_environment (example_ffi_serde JNull) Runs (Some ''m'') (Some None, ())
      = encoded_findings (example_ffi_serde JNull) [] (Some None, ())
    \<and> (\<exists>d. acs_artifact_diagnostics example_externals example_text_environment (example_ffi_serde JNull)
          (\<lambda>warmed invocation. Inr ()) Runs (Some ''m'') None (Some None, []) =
        encoded_findings (example_ffi_serde JNull) [PolicyInvocationFailed d] (Some None, []))"
proof -
  have "c_text (Some ''m'') = Some ''m''"
    by (simp add: c_text_def c_arg_def example_bytes)
  moreover have "from_yaml_str_with_limits example_externals example_text_environment ''m'' default_limits = Inr example_manifest"
    by (simp add: from_yaml_str_with_limits_def example_parsed example_manifest_valid)
  moreover have "m_policies example_manifest \<noteq> []"
    "\<forall>(name, policy)\<in>set (m_policies example_manifest). engine_type policy \<noteq> ''rego''"
    by (simp_all add: example_manifest_def example_sourced_def)
  ultimately show ?thesis
    using rego_free_artifact_flagged [where slot = "Some None" and w = "()" and warmed = "[]"]
    by (simp add: clear_err_def)
qed

end
