(* ===== verification/Spec2Isabelle.thy ===== *)
theory Spec2Isabelle
  imports Stream_Release Manifest_Provenance Merge_Laws Runtime_Laws Limits Loader_Laws
    Wire Activation_Rego_Laws Dispatch_Laws Bedrock_Laws Classifier_Laws Cedar_Laws Cedar_Dispatch_Laws
    Worker_Pool_Laws Rego_Laws Opa_Laws Ffi_Laws
begin

text \<open>
  A model of the Agent Control Specification engine (\<open>src/engine\<close>, Rust) and of its C interface
  (\<open>src/sdk/ffi\<close>), and the theorems that make them correct.

  \<^bold>\<open>The program.\<close>  A host describes in a manifest which interception points of an agent it
  governs.  The engine loads and composes the manifest (files and pinned HTTPS documents that
  extend one another), validates it, and builds a runtime.  At each interception point the
  host gives the runtime a snapshot; the runtime reads the policy target out of it, runs the
  annotators the point binds in dependency order, hands the policy the finished policy input,
  and normalizes what the policy answered into a verdict of the AGENT-HOOKS contract.  Every
  failure on the way becomes a deny.  For output that is streamed, a session accounts for
  which characters every checking task has cleared and releases only those.

  \<^bold>\<open>Which theory models what.\<close>

  \<^item> \<open>Prelude\<close>, \<open>Rust_Strings\<close>, \<open>Json\<close>, \<open>Unix_Paths\<close>, \<open>Float64\<close>, \<open>Run_Monad\<close>,
    \<open>Run_Spec\<close>, \<open>Transition\<close>: results
    and ordered maps (\<open>BTreeMap\<close>, the locale of key-value stores), Rust strings as UTF-8
    bytes, \<open>serde_json::Value\<close>, paths of the standard library, \<open>f64\<close> by its bits, computations
    over a state that survives an error with a logic of their traces, labelled transition
    systems.
  \<^item> \<open>Errors\<close>: \<open>error.rs\<close>.  \<open>Verdicts\<close>: the types of the agent-hooks crate that the engine
    uses and \<open>point_ext.rs\<close>; what the crate computes is the argument \<open>agent_hooks\<close>.
  \<^item> \<open>Paths\<close>: \<open>paths.rs\<close>.  \<open>Limits\<close>: \<open>limits.rs\<close>.  \<open>Policy_Input\<close>: \<open>policy_input.rs\<close>.
  \<^item> \<open>Policy_Output\<close>: \<open>policy_output.rs\<close>; \<open>Evidence_Laws\<close> and \<open>Verdict_Laws\<close> its theorems.
  \<^item> \<open>Sources\<close>: pinned sources, URL and digest validation and \<open>ManifestExtends\<close> of
    \<open>manifest.rs\<close>.  \<open>Policies\<close>: \<open>policy.rs\<close>.  \<open>Annotations\<close>: \<open>annotation.rs\<close>.
  \<^item> \<open>Dispatch_Order\<close>, \<open>Manifest\<close>: the document, its validation, the gates on fetched
    documents and \<open>tool_projection.rs\<close>; \<open>Manifest_Laws\<close>, \<open>Manifest_Provenance\<close> the theorems.
  \<^item> \<open>Manifest_Merge\<close>, \<open>Merge_Laws\<close>: composition of documents and the record of which
    declarations were fetched.
  \<^item> \<open>Manifest_Loader\<close>, \<open>Loader_Laws\<close>: \<open>ManifestLoader\<close>, the walk over files and URLs.
  \<^item> \<open>Telemetry\<close>, \<open>Runtime\<close>, \<open>Runtime_Laws\<close>: \<open>telemetry.rs\<close>, \<open>perf_telemetry.rs\<close> and
    \<open>runtime.rs\<close>, the evaluation pipeline.
  \<^item> \<open>Activation\<close>: \<open>activation.rs\<close> and \<open>interceptor.rs\<close>, with its theorems;
    \<open>Activation_Rego_Laws\<close>: which files the decisions of an activated policy still read.
  \<^item> \<open>Annotator_Http\<close>: \<open>dispatchers/host_env.rs\<close>, \<open>resolve.rs\<close>, \<open>http.rs\<close> and \<open>endpoint.rs\<close>.
    \<open>Classifiers\<close>: \<open>dispatchers/bundled.rs\<close>, the six providers under \<open>bundled/\<close> and
    \<open>classifier.rs\<close>.  \<open>Llm\<close>, \<open>Bedrock_Signing\<close>: \<open>dispatchers/llm.rs\<close> and its request signing.
    \<open>Default_Dispatch\<close>: \<open>default.rs\<close>, \<open>binding.rs\<close>, \<open>mod.rs\<close> and the activation with them.
    \<open>Dispatch_Laws\<close>, \<open>Classifier_Laws\<close>, \<open>Bedrock_Laws\<close>: their theorems.
  \<^item> \<open>Cedar\<close>, \<open>Cedar_Builtin\<close>: \<open>cedar.rs\<close>, the request made of a policy input, the dispatcher for
    tests and the bundled dispatcher with its cache; \<open>Cedar_Laws\<close>, \<open>Cedar_Dispatch_Laws\<close> the
    theorems.
  \<^item> \<open>Rego\<close>: \<open>rego.rs\<close>, the bundles, the engine cache and the in-process evaluation;
    \<open>Worker_Pool\<close>: its pool of threads with deadlines, every step of a caller or a thread
    apart; \<open>Opa\<close>: \<open>opa.rs\<close>, the dispatcher that runs the command.  \<open>Rego_Laws\<close>,
    \<open>Worker_Pool_Laws\<close>, \<open>Opa_Laws\<close>: their theorems.
  \<^item> \<open>Stream_Session\<close>, \<open>Stream_Release\<close>: \<open>stream_session.rs\<close> at its 32 bit width, and the
    session as a transition system with its abstract machine.
  \<^item> \<open>Wire\<close>: \<open>wire.rs\<close>, the JSON shapes of the language bindings.
  \<^item> \<open>Ffi_Boundary\<close>, \<open>Ffi\<close>, \<open>Ffi_Hooks\<close>, \<open>Ffi_Stream\<close>: the C interface (\<open>sdk/ffi/src/lib.rs\<close>), how a
    call crosses it, the entry points for manifests, interceptors and policies, callbacks of
    a host, and the handle of a stream; \<open>Ffi_Laws\<close>, \<open>Ffi_Stream_Laws\<close>: the theorems.
  \<^item> \<open>Example_Hooks\<close>: a concrete instance of the agent-hooks functions for evaluation on
    concrete inputs.

  \<^bold>\<open>State and effects.\<close>  A \<open>Result\<close> is a value of \<open>'e + 'a\<close>, combined with \<open>rbind\<close>.  The
  runtime, the loader and activation are computations of \<open>Run_Monad\<close>: the runtime threads the
  trace of its outward actions (annotator calls, the policy call, telemetry events, log
  lines), the loader its caches and the trace of file and network reads.  A host callback is a
  function of the trace so far, so that it may keep state, answer differently each time, fail
  or panic.  A session operation returns the new session with its result.  A call of the C
  interface threads the caller's error slot; which panic unwinds it is an argument.

  \<^bold>\<open>What the theorems show.\<close>

  \<^item> Evaluation fails closed: an evaluation that does not run to its end denies with a
    reserved reason, and nothing a policy returns can forge one; a normalized verdict meets
    the AGENT-HOOKS shape rules; exactly one decision event reports it, after everything else
    but the transform and timing events that belong to it.
  \<^item> Provenance: composition is additive, a merged or loaded manifest marks exactly the
    declarations that only fetched documents made, and in a validated manifest neither side
    of that boundary can redirect or receive the other side's credentials.
  \<^item> Loading: a loaded manifest is the composition of a tree of documents, each obtained under
    the trust root or from the URL its parent named and with the digest its pin requires.
  \<^item> Ordering: the dispatch order is the least-name-first topological order, and a document is
    refused exactly when there is none, with the names that cannot be placed.
  \<^item> Streaming: no character is released before every task cleared it, a release is the
    longest cleared prefix, an ended session stays ended, and errors end a session.
  \<^item> Dispatchers: an annotator that a fetched document declared reads no secret of the host, a
    dispatch posts at most one request, after at most one fetch of the pinned prompt of an
    LLM annotator, an endpoint is sent no credential, a classifier flags
    exactly by its thresholds, delegation ends, and request signing covers every header and
    dates it by the Gregorian calendar.
  \<^item> Policy engines: a value of the Cedar, Rego or opa dispatcher is what the engine decided
    for this input under the configured policies, and everything else is an error; the Cedar
    cache changes no result while the files stay as they are, and an engine the Rego cache
    serves was built from the same policy set as the call names; no live network, clock or random builtin is in an engine;
    loading is deterministic and ends; a call on the worker pool gets the outcome of its own
    job, and its counter of abandoned threads is exact at rest but can wrap on the way; a
    staged bundle is given up on every path, after the command is over or waiting for it broke,
    and the wait for the command ends.  A policy activated from memory is ready at every point
    it governs, but may still read a relative path that its activation should have refused.
  \<^item> C interface: a call leaves a message exactly when it fails, a validation code is what the
    engine decided, strings of a host go back to it once, and whatever calls are made and
    whatever panics unwind from them, a stream offset covers cleared text only.
  \<^item> Bounds, round trips and equivalences of the leaf components: limits, evidence caps,
    paths, canonical JSON, digests, wire names and JSON shapes.

  \<^bold>\<open>Interfaces.\<close>  Contracts between components are locales, each interpreted on the model:
  maps (\<open>rust_map\<close>) on the ordered and the insertion ordered map, \<open>guarded_system\<close> on the
  session and on the worker pool, uniquely
  decodable encodings (\<open>prefix_code\<close>) on the digest stream of a bundle, \<open>field_table\<close> on the
  table of caps.

  \<^bold>\<open>Termination and bounds.\<close>  Every definition is total.  The ordering loop terminates by the
  number of names not yet placed; the loaders of manifests and of bundles by the depth their
  limits leave; the polling of the opa command by the time left; no fuel is used
  beyond the depth limits the code itself checks.  Offsets of a session are \<open>32 word\<close>, the
  counter of the worker pool \<open>64 word\<close>; other
  counts are natural numbers, and where the code narrows them the bound is written out.

  \<^bold>\<open>Arguments.\<close>  Code outside this repository is an argument of the definitions that use it,
  gathered in the records \<open>externals\<close> (serializer, string literals, SHA-256, URL parser,
  base64, agent-hooks), \<open>environment\<close> (file system, HTTP, YAML and JSON parsers), \<open>outside\<close>
  (environment variables, the HTTP exchange of a dispatcher, prompt fetches, clock), \<open>cedar_crate\<close>
  and \<open>regorus\<close> (the policy engines), \<open>rego_files\<close> and \<open>opa_outside\<close> (the files of a bundle, the
  operating system of the command), \<open>ffi_serde\<close> and \<open>hook_serde\<close> (the serializers that serde
  derives) and \<open>host\<close> (dispatchers, telemetry sink, clock).

  \<^bold>\<open>Not modelled.\<close>  The text of a manifest is parsed by serde visitors and budgets around the
  YAML parser (\<open>manifest_deserializer.rs\<close>), which stay behind \<open>environment\<close>.  A handle of
  the C interface is the value it points to, so the entry points that free one are left out.  The
  Python and Node bindings (\<open>src/sdk/python\<close>, \<open>src/sdk/node\<close>) marshal values between the engine
  and the objects of those languages.
\<close>

end
